(* ===== verification/Harness_Prelude.thy ===== *)
theory Harness_Prelude
  imports Main "HOL-Library.Word"
begin

section \<open>Shared vocabulary of the Harness platform model\<close>

text \<open>
  Types and operations that every component uses: bytes, machine integers, instants, Go errors,
  the result type, the white-space trimming of \<^verbatim>\<open>strings.TrimSpace\<close>, the
  \<^verbatim>\<open>encoding/hex\<close> codec and \<^verbatim>\<open>utf8.ValidString\<close>, with the lemmas the
  component proofs share.

  Conventions.  A Go string is a byte string, here a \<^typ>\<open>string\<close> (a list of 8-bit characters).
  A byte slice or byte array is a list of \<^typ>\<open>8 word\<close>.  An instant is an \<^typ>\<open>int\<close> of nanoseconds
  counted from the zero value of \<^verbatim>\<open>time.Time\<close>, so \<^verbatim>\<open>IsZero\<close> is equality with
  \<open>0\<close>.  A pointer field is an \<open>option\<close>.  Error messages are not modelled; error codes, wrapping
  and causes are.
\<close>

type_synonym byte = "8 word"
type_synonym u64 = "64 word"
type_synonym time = int
type_synonym duration = int

named_theorems go_simps \<open>unfolding rules of the small Go library functions\<close>
named_theorems life_simps \<open>unfolding rules of the life-cycle operations\<close>
named_theorems table_simps \<open>rules about table contents\<close>

subsection \<open>Errors\<close>

text \<open>
  \<open>Driver\<close> is an error of the database driver.  The code reads three things off it: whether its
  text names a unique-constraint violation, whether its text is one of SQLite's lock errors, and
  whether it is a PostgreSQL serialization or deadlock error.
\<close>

record db_error =
  db_unique :: bool
  db_sqlite_busy :: bool
  db_pg_conflict :: bool

datatype ErrorCode =
    CodeInvalidArgument | CodeInvalidState | CodeConflict | CodeExpired
  | CodeRevoked | CodeNotFound | CodeResourceLimit | CodeSecurityViolation

datatype go_error =
    Plain
  | ErrRecordNotFound
  | Driver db_error
  | Wrap go_error
  | Problem ErrorCode "go_error option"

definition NewProblem :: "ErrorCode \<Rightarrow> go_error option \<Rightarrow> go_error" where
  "NewProblem code cause = Problem code cause"

abbreviation problem :: "ErrorCode \<Rightarrow> go_error" where
  "problem code \<equiv> NewProblem code None"

primrec Unwrap :: "go_error \<Rightarrow> go_error option" where
  "Unwrap Plain = None"
| "Unwrap ErrRecordNotFound = None"
| "Unwrap (Driver d) = None"
| "Unwrap (Wrap e) = Some e"
| "Unwrap (Problem code cause) = cause"

text \<open>\<^verbatim>\<open>errors.As(err, &problem)\<close> walks the chain and stops at the first \<open>Problem\<close>.\<close>

primrec as_problem :: "go_error \<Rightarrow> ErrorCode option" where
  "as_problem Plain = None"
| "as_problem ErrRecordNotFound = None"
| "as_problem (Driver d) = None"
| "as_problem (Wrap e) = as_problem e"
| "as_problem (Problem code cause) = Some code"

definition HasCode :: "go_error option \<Rightarrow> ErrorCode \<Rightarrow> bool" where
  "HasCode err code = (case err of None \<Rightarrow> False | Some e \<Rightarrow> as_problem e = Some code)"

lemma HasCode_problem [simp]: "HasCode (Some (NewProblem c cause)) c' \<longleftrightarrow> c = c'"
  by (simp add: HasCode_def NewProblem_def)

lemma HasCode_None [simp]: "\<not> HasCode None c"
  by (simp add: HasCode_def)

lemma HasCode_Wrap [simp]: "HasCode (Some (Wrap e)) c \<longleftrightarrow> HasCode (Some e) c"
  by (simp add: HasCode_def)

lemma HasCode_unique: "HasCode err c \<Longrightarrow> HasCode err c' \<Longrightarrow> c = c'"
  by (auto simp: HasCode_def split: option.splits)

lemma NewProblem_inject [simp]: "NewProblem c x = NewProblem c' x' \<longleftrightarrow> c = c' \<and> x = x'"
  by (simp add: NewProblem_def)

subsection \<open>Results\<close>

type_synonym 'a result = "go_error + 'a"

definition bindE :: "'a result \<Rightarrow> ('a \<Rightarrow> 'b result) \<Rightarrow> 'b result" where
  "bindE m k = (case m of Inl e \<Rightarrow> Inl e | Inr a \<Rightarrow> k a)"

lemma bindE_simps [simp]: "bindE (Inl e) k = Inl e" "bindE (Inr a) k = k a"
  by (simp_all add: bindE_def)

lemma bindE_Inr_iff: "bindE m k = Inr b \<longleftrightarrow> (\<exists>a. m = Inr a \<and> k a = Inr b)"
  by (cases m) auto

lemma bindE_Inl_iff: "bindE m k = Inl e \<longleftrightarrow> m = Inl e \<or> (\<exists>a. m = Inr a \<and> k a = Inl e)"
  by (cases m) auto

text \<open>A Go method with a pointer receiver first rejects a nil receiver.\<close>

definition deref :: "('a \<Rightarrow> go_error option \<times> 'a) \<Rightarrow> 'a option \<Rightarrow> go_error option \<times> 'a option" where
  "deref f p = (case p of
       None \<Rightarrow> (Some (problem CodeInvalidArgument), None)
     | Some x \<Rightarrow> (let (err, x') = f x in (err, Some x')))"

subsection \<open>Instants and durations\<close>

definition IsZeroTime :: "time \<Rightarrow> bool" where
  [go_simps]: "IsZeroTime t \<longleftrightarrow> t = 0"

text \<open>\<^verbatim>\<open>Time.Sub\<close> saturates at the bounds of a 64-bit duration.\<close>

definition Sub :: "time \<Rightarrow> time \<Rightarrow> duration" where
  "Sub t u = max (- (2 ^ 63)) (min (2 ^ 63 - 1) (t - u))"

lemma Sub_le_iff: "d < 2 ^ 63 - 1 \<Longrightarrow> - (2 ^ 63) \<le> d \<Longrightarrow> Sub t u \<le> d \<longleftrightarrow> t - u \<le> d"
  by (auto simp: Sub_def max_def min_def)

subsection \<open>Bytes\<close>

primrec allZero :: "byte list \<Rightarrow> bool" where
  "allZero [] = True"
| "allZero (b # bs) = (if b \<noteq> 0 then False else allZero bs)"

lemma allZero_iff: "allZero bs \<longleftrightarrow> bs = replicate (length bs) 0"
  by (induction bs) auto

lemma allZero_set: "allZero bs \<longleftrightarrow> (\<forall>b \<in> set bs. b = 0)"
  by (induction bs) auto

subsection \<open>White space: \<open>strings.TrimSpace\<close>\<close>

text \<open>
  The number of bytes of the UTF-8 encoded white-space rune a byte string starts with, \<open>0\<close> when
  it starts with none.  The runes are those of Unicode's White Space property, which
  \<^verbatim>\<open>unicode.IsSpace\<close> tests.  \<open>space_suffix\<close> does the same at the end of the string, on the
  reversed bytes.
\<close>

definition is_ascii_space :: "nat \<Rightarrow> bool" where
  "is_ascii_space c \<longleftrightarrow> c = 32 \<or> (9 \<le> c \<and> c \<le> 13)"

definition is_space2 :: "nat \<Rightarrow> nat \<Rightarrow> bool" where
  "is_space2 a b \<longleftrightarrow> a = 194 \<and> (b = 133 \<or> b = 160)"

definition is_space3 :: "nat \<Rightarrow> nat \<Rightarrow> nat \<Rightarrow> bool" where
  "is_space3 a b c \<longleftrightarrow>
     a = 225 \<and> b = 154 \<and> c = 128 \<or>
     a = 226 \<and> b = 128 \<and> (128 \<le> c \<and> c \<le> 138 \<or> c = 168 \<or> c = 169 \<or> c = 175) \<or>
     a = 226 \<and> b = 129 \<and> c = 159 \<or>
     a = 227 \<and> b = 128 \<and> c = 128"

fun space_prefix :: "string \<Rightarrow> nat" where
  "space_prefix (a # b # c # s) =
     (if is_ascii_space (of_char a) then 1
      else if is_space2 (of_char a) (of_char b) then 2
      else if is_space3 (of_char a) (of_char b) (of_char c) then 3 else 0)"
| "space_prefix [a, b] =
     (if is_ascii_space (of_char a) then 1
      else if is_space2 (of_char a) (of_char b) then 2 else 0)"
| "space_prefix [a] = (if is_ascii_space (of_char a) then 1 else 0)"
| "space_prefix [] = 0"

fun space_suffix :: "string \<Rightarrow> nat" where
  "space_suffix (c # b # a # s) =
     (if is_ascii_space (of_char c) then 1
      else if is_space2 (of_char b) (of_char c) then 2
      else if is_space3 (of_char a) (of_char b) (of_char c) then 3 else 0)"
| "space_suffix [b, a] =
     (if is_ascii_space (of_char b) then 1
      else if is_space2 (of_char a) (of_char b) then 2 else 0)"
| "space_suffix [a] = (if is_ascii_space (of_char a) then 1 else 0)"
| "space_suffix [] = 0"

function strip :: "(string \<Rightarrow> nat) \<Rightarrow> string \<Rightarrow> string" where
  "strip f s = (if f s = 0 \<or> s = [] then s else strip f (drop (f s) s))"
  by pat_completeness auto
termination
  by (relation "measure (\<lambda>(f, s). length s)") auto

declare strip.simps [simp del]

definition TrimSpace :: "string \<Rightarrow> string" where
  "TrimSpace s = rev (strip space_suffix (rev (strip space_prefix s)))"

lemma strip_id: "f s = 0 \<Longrightarrow> strip f s = s"
  by (simp add: strip.simps)

lemma strip_drop: "\<exists>n. strip f s = drop n s"
proof (induction f s rule: strip.induct)
  case (1 f s)
  show ?case
  proof (cases "f s = 0 \<or> s = []")
    case True
    then have "strip f s = drop 0 s" by (simp add: strip.simps)
    then show ?thesis by blast
  next
    case False
    with "1.IH" obtain n where "strip f (drop (f s) s) = drop n (drop (f s) s)" by blast
    with False have "strip f s = drop (n + f s) s"
      by (subst strip.simps) (simp add: add.commute)
    then show ?thesis by blast
  qed
qed

lemma length_strip: "length (strip f s) \<le> length s"
  by (metis strip_drop length_drop diff_le_self)

lemma length_TrimSpace: "length (TrimSpace s) \<le> length s"
  unfolding TrimSpace_def by (metis length_rev length_strip order_trans)

lemma set_TrimSpace: "set (TrimSpace s) \<subseteq> set s"
proof -
  obtain n where n: "strip space_prefix s = drop n s" using strip_drop by blast
  obtain m where m: "strip space_suffix (rev (drop n s)) = drop m (rev (drop n s))"
    using strip_drop by blast
  show ?thesis
    unfolding TrimSpace_def n m by (metis set_drop_subset set_rev subset_trans)
qed

text \<open>A byte string of printable non-space ASCII characters is not changed by trimming.\<close>

definition graphic :: "char \<Rightarrow> bool" where
  "graphic c \<longleftrightarrow> 32 < (of_char c :: nat) \<and> (of_char c :: nat) < 128"

lemma graphic_not_space:
  assumes "graphic c"
  shows "\<not> is_ascii_space (of_char c)" "\<not> is_space2 a (of_char c)" "\<not> is_space2 (of_char c) a"
    "\<not> is_space3 a b (of_char c)" "\<not> is_space3 (of_char c) a b"
  using assms by (auto simp: graphic_def is_ascii_space_def is_space2_def is_space3_def)

lemma space_prefix_graphic: "list_all graphic s \<Longrightarrow> space_prefix s = 0"
  by (cases s rule: space_prefix.cases) (simp_all add: graphic_not_space)

lemma space_suffix_graphic: "list_all graphic s \<Longrightarrow> space_suffix s = 0"
  by (cases s rule: space_suffix.cases) (simp_all add: graphic_not_space)

lemma TrimSpace_graphic: "list_all graphic s \<Longrightarrow> TrimSpace s = s"
  by (simp add: TrimSpace_def strip_id space_prefix_graphic space_suffix_graphic list_all_rev)

lemma TrimSpace_Nil [simp]: "TrimSpace [] = []"
  by (simp add: TrimSpace_def strip_id)

definition blank :: "string \<Rightarrow> bool" where
  "blank s \<longleftrightarrow> TrimSpace s = []"

lemma not_blank_nonempty: "\<not> blank s \<Longrightarrow> s \<noteq> []"
  by (auto simp: blank_def)

subsection \<open>Hexadecimal: \<open>encoding/hex\<close>\<close>

definition hex_digit :: "nat \<Rightarrow> char" where
  "hex_digit n = (if n < 10 then char_of (48 + n) else char_of (87 + n))"

definition unhex :: "char \<Rightarrow> nat option" where
  "unhex c = (let n = of_char c :: nat in
     if 48 \<le> n \<and> n \<le> 57 then Some (n - 48)
     else if 97 \<le> n \<and> n \<le> 102 then Some (n - 87)
     else if 65 \<le> n \<and> n \<le> 70 then Some (n - 55)
     else None)"

primrec EncodeToString :: "byte list \<Rightarrow> string" where
  "EncodeToString [] = []"
| "EncodeToString (b # bs) =
     hex_digit (unat b div 16) # hex_digit (unat b mod 16) # EncodeToString bs"

fun DecodeString :: "string \<Rightarrow> byte list option" where
  "DecodeString [] = Some []"
| "DecodeString [c] = None"
| "DecodeString (c # d # s) =
     (case unhex c of None \<Rightarrow> None | Some h \<Rightarrow>
       (case unhex d of None \<Rightarrow> None | Some l \<Rightarrow>
         (case DecodeString s of None \<Rightarrow> None | Some bs \<Rightarrow>
           Some (word_of_nat (16 * h + l) # bs))))"

lemma of_char_hex_digit: "n < 16 \<Longrightarrow> (of_char (hex_digit n) :: nat) = (if n < 10 then 48 + n else 87 + n)"
  by (auto simp: hex_digit_def)

lemma unhex_hex_digit: "n < 16 \<Longrightarrow> unhex (hex_digit n) = Some n"
  by (auto simp: unhex_def of_char_hex_digit Let_def)

lemma graphic_hex_digit: "n < 16 \<Longrightarrow> graphic (hex_digit n)"
  by (auto simp: graphic_def of_char_hex_digit)

lemma unat_byte_less: "unat (b :: byte) < 256"
  using unsigned_less [of b] by simp

lemma DecodeString_EncodeToString [simp]: "DecodeString (EncodeToString bs) = Some bs"
proof (induction bs)
  case (Cons b bs)
  have "unat b div 16 < 16" using unat_byte_less [of b] by simp
  then show ?case
    by (simp add: unhex_hex_digit Cons)
qed simp

lemma EncodeToString_inject [simp]: "EncodeToString xs = EncodeToString ys \<longleftrightarrow> xs = ys"
  by (metis DecodeString_EncodeToString option.inject)

lemma length_EncodeToString [simp]: "length (EncodeToString bs) = 2 * length bs"
  by (induction bs) auto

lemma length_DecodeString: "DecodeString s = Some bs \<Longrightarrow> length s = 2 * length bs"
  by (induction s arbitrary: bs rule: DecodeString.induct) (auto split: option.splits)

lemma graphic_EncodeToString: "list_all graphic (EncodeToString bs)"
proof (induction bs)
  case (Cons b bs)
  have "unat b div 16 < 16" using unat_byte_less [of b] by simp
  with Cons show ?case
    by (auto simp: graphic_hex_digit)
qed simp

lemma TrimSpace_EncodeToString [simp]: "TrimSpace (EncodeToString bs) = EncodeToString bs"
  by (rule TrimSpace_graphic) (rule graphic_EncodeToString)

lemma EncodeToString_eq_Nil [simp]: "EncodeToString bs = [] \<longleftrightarrow> bs = []"
  by (cases bs) auto

subsection \<open>64-bit counters\<close>

lemma unat_u64_less: "unat (c :: u64) < 2 ^ 64"
  using unsigned_less [of c] by simp

lemma unat_u64_max: "unat (- 1 :: u64) = 2 ^ 64 - 1"
  by (simp add: unsigned_minus_1_eq_mask mask_eq_exp_minus_1)

lemma u64_max_iff: "(c :: u64) \<noteq> - 1 \<longleftrightarrow> unat c < 2 ^ 64 - 1"
proof -
  have "c = - 1 \<longleftrightarrow> unat c = 2 ^ 64 - 1"
    by (simp only: unat_u64_max [symmetric] unsigned_word_eqI word_eq_iff_unsigned)
  with unat_u64_less [of c] show ?thesis by arith
qed

lemma u64_succ_iff:
  assumes "(c :: u64) \<noteq> - 1"
  shows "g = c + 1 \<longleftrightarrow> unat g = unat c + 1"
proof -
  have "unat (c + 1) = unat c + 1"
    using assms u64_max_iff [of c] by (simp add: unat_word_ariths)
  then show ?thesis
    by (metis word_eq_iff_unsigned)
qed

lemma word_succ_zero_iff: "(c :: u64) + 1 = 0 \<longleftrightarrow> c = - 1"
  by (metis add.commute add_cancel_right_left add_eq_0_iff)

end
