(* ===== verification/Text_Formats.thy ===== *)
theory Text_Formats
  imports Harness_Prelude "HOL-Library.List_Lexorder" "HOL-Library.Char_ord"
begin

section \<open>Text formats\<close>

text \<open>
  The standard-library text functions the domain package calls and the regular expressions it
  compiles: \<^verbatim>\<open>base64.RawURLEncoding\<close>, \<^verbatim>\<open>utf8.ValidString\<close>, and the patterns of
  \<^verbatim>\<open>domain/state.go\<close>, \<^verbatim>\<open>domain/m1_audit.go\<close> and \<^verbatim>\<open>domain/m1_idempotency.go\<close>.
  Strings are ordered bytewise (\<^verbatim>\<open>sort.Strings\<close>).
\<close>

subsection \<open>Character classes\<close>

definition code :: "char \<Rightarrow> nat" where
  "code c = of_char c"

definition is_upper :: "char \<Rightarrow> bool" where
  "is_upper c \<longleftrightarrow> 65 \<le> code c \<and> code c \<le> 90"

definition is_lower :: "char \<Rightarrow> bool" where
  "is_lower c \<longleftrightarrow> 97 \<le> code c \<and> code c \<le> 122"

definition is_digit :: "char \<Rightarrow> bool" where
  "is_digit c \<longleftrightarrow> 48 \<le> code c \<and> code c \<le> 57"

definition is_alnum :: "char \<Rightarrow> bool" where
  "is_alnum c \<longleftrightarrow> is_upper c \<or> is_lower c \<or> is_digit c"

lemmas char_class_defs = code_def is_upper_def is_lower_def is_digit_def is_alnum_def

lemma is_alnum_graphic: "is_alnum c \<Longrightarrow> graphic c"
  by (auto simp: char_class_defs graphic_def)

subsection \<open>Patterns\<close>

text \<open>\<^verbatim>\<open>^[A-Za-z0-9](?:[A-Za-z0-9._-]{0,62}[A-Za-z0-9])?$\<close>\<close>

definition safeLocalID :: "string \<Rightarrow> bool" where
  "safeLocalID s \<longleftrightarrow>
     s \<noteq> [] \<and> length s \<le> 64 \<and> is_alnum (hd s) \<and> is_alnum (last s) \<and>
     list_all (\<lambda>c. is_alnum c \<or> c \<in> set ''._-'') s"

text \<open>\<^verbatim>\<open>^[a-z][a-z0-9._:-]{0,127}$\<close>\<close>

definition auditTokenPattern :: "string \<Rightarrow> bool" where
  "auditTokenPattern s \<longleftrightarrow>
     s \<noteq> [] \<and> length s \<le> 128 \<and> is_lower (hd s) \<and>
     list_all (\<lambda>c. is_lower c \<or> is_digit c \<or> c \<in> set ''._:-'') (tl s)"

text \<open>\<^verbatim>\<open>^[A-Za-z][A-Za-z0-9._:-]{0,127}$\<close>\<close>

definition auditCodePattern :: "string \<Rightarrow> bool" where
  "auditCodePattern s \<longleftrightarrow>
     s \<noteq> [] \<and> length s \<le> 128 \<and> (is_upper (hd s) \<or> is_lower (hd s)) \<and>
     list_all (\<lambda>c. is_alnum c \<or> c \<in> set ''._:-'') (tl s)"

text \<open>\<^verbatim>\<open>^[\x21-\x7e]{16,128}$\<close>\<close>

definition idempotencyKeyPattern :: "string \<Rightarrow> bool" where
  "idempotencyKeyPattern s \<longleftrightarrow>
     16 \<le> length s \<and> length s \<le> 128 \<and> list_all (\<lambda>c. 33 \<le> code c \<and> code c \<le> 126) s"

text \<open>\<^verbatim>\<open>[\x00-\x08\x0b\x0c\x0e-\x1f\x7f]\<close>, matched anywhere in the string.\<close>

definition forbiddenMetadataValue :: "string \<Rightarrow> bool" where
  "forbiddenMetadataValue s \<longleftrightarrow>
     list_ex (\<lambda>c. code c \<le> 8 \<or> code c = 11 \<or> code c = 12 \<or> 14 \<le> code c \<and> code c \<le> 31 \<or> code c = 127) s"

lemma safeLocalID_trimmed: "safeLocalID s \<Longrightarrow> TrimSpace s = s"
proof -
  assume s: "safeLocalID s"
  have "graphic c" if "is_alnum c \<or> c \<in> set ''._-''" for c
    using that by (auto simp: is_alnum_graphic) (simp_all add: graphic_def)
  with s have "list_all graphic s"
    by (auto simp: safeLocalID_def list_all_iff)
  then show ?thesis by (rule TrimSpace_graphic)
qed

lemma idempotencyKey_trimmed: "idempotencyKeyPattern s \<Longrightarrow> TrimSpace s = s"
  by (rule TrimSpace_graphic) (auto simp: idempotencyKeyPattern_def list_all_iff graphic_def code_def)

subsection \<open>UTF-8 validity\<close>

definition utf8_cont :: "nat \<Rightarrow> bool" where
  "utf8_cont b \<longleftrightarrow> 128 \<le> b \<and> b \<le> 191"

fun utf8_valid :: "nat list \<Rightarrow> bool" where
  "utf8_valid [] = True"
| "utf8_valid (a # s) =
     (if a < 128 then utf8_valid s
      else case s of
        [] \<Rightarrow> False
      | b # s1 \<Rightarrow>
          if 194 \<le> a \<and> a \<le> 223 then utf8_cont b \<and> utf8_valid s1
          else case s1 of
            [] \<Rightarrow> False
          | c # s2 \<Rightarrow>
              if 224 \<le> a \<and> a \<le> 239 then
                utf8_cont b \<and> (a = 224 \<longrightarrow> 160 \<le> b) \<and> (a = 237 \<longrightarrow> b \<le> 159) \<and> utf8_cont c \<and> utf8_valid s2
              else case s2 of
                [] \<Rightarrow> False
              | d # s3 \<Rightarrow>
                  240 \<le> a \<and> a \<le> 244 \<and> utf8_cont b \<and> (a = 240 \<longrightarrow> 144 \<le> b) \<and> (a = 244 \<longrightarrow> b \<le> 143) \<and>
                  utf8_cont c \<and> utf8_cont d \<and> utf8_valid s3)"

definition ValidString :: "string \<Rightarrow> bool" where
  "ValidString s = utf8_valid (map code s)"

lemma utf8_valid_ascii: "(\<forall>b \<in> set s. b < 128) \<Longrightarrow> utf8_valid s"
  by (induction s) auto

subsection \<open>Unpadded URL-safe base64\<close>

text \<open>
  \<^verbatim>\<open>base64.RawURLEncoding.DecodeString\<close>: carriage returns and line feeds are skipped, any
  other character outside the alphabet is an error, a single left-over character is an error,
  and the unused low bits of the last character are ignored.
\<close>

definition b64_value :: "char \<Rightarrow> nat option" where
  "b64_value c =
     (if is_upper c then Some (code c - 65)
      else if is_lower c then Some (code c - 71)
      else if is_digit c then Some (code c + 4)
      else if c = CHR ''-'' then Some 62
      else if c = CHR ''_'' then Some 63
      else None)"

fun b64_values :: "string \<Rightarrow> nat list option" where
  "b64_values [] = Some []"
| "b64_values (c # s) =
     (if code c = 10 \<or> code c = 13 then b64_values s
      else case b64_value c of None \<Rightarrow> None | Some v \<Rightarrow> map_option ((#) v) (b64_values s))"

fun b64_quanta :: "nat list \<Rightarrow> byte list option" where
  "b64_quanta [] = Some []"
| "b64_quanta [a] = None"
| "b64_quanta [a, b] = Some [word_of_nat (a * 4 + b div 16)]"
| "b64_quanta [a, b, c] =
     Some [word_of_nat (a * 4 + b div 16), word_of_nat ((b mod 16) * 16 + c div 4)]"
| "b64_quanta (a # b # c # d # s) =
     map_option (\<lambda>bs. word_of_nat (a * 4 + b div 16) # word_of_nat ((b mod 16) * 16 + c div 4) #
                       word_of_nat ((c mod 4) * 64 + d) # bs) (b64_quanta s)"

definition RawURLDecode :: "string \<Rightarrow> byte list option" where
  "RawURLDecode s = Option.bind (b64_values s) b64_quanta"

lemma length_b64_quanta: "b64_quanta vs = Some bs \<Longrightarrow> length bs = length vs * 6 div 8"
  by (induction vs arbitrary: bs rule: b64_quanta.induct) auto

lemma length_b64_values: "b64_values s = Some vs \<Longrightarrow> length vs \<le> length s"
  by (induction s arbitrary: vs) (fastforce split: if_splits option.splits)+

text \<open>A 32-byte value has at least 43 base64 characters.\<close>

lemma RawURLDecode_32:
  assumes "RawURLDecode s = Some bs" and "length bs = 32"
  shows "43 \<le> length s"
proof -
  from assms(1) obtain vs where vs: "b64_values s = Some vs" and q: "b64_quanta vs = Some bs"
    by (auto simp: RawURLDecode_def Option.bind_eq_Some_conv)
  from length_b64_quanta [OF q] assms(2) have "43 \<le> length vs" by simp
  with length_b64_values [OF vs] show ?thesis by simp
qed

end
