(* ===== verification/Opaque_Id.thy ===== *)
theory Opaque_Id
  imports Harness_Prelude
begin

section \<open>Opaque identifiers (\<open>domain/id.go\<close>)\<close>

text \<open>
  A \<^verbatim>\<open>domain.ID\<close> is a 16-byte array.  The model is a byte list; the length is an invariant
  (\<open>wf_id\<close>) that parsing and generation establish.  Identifiers are stored and sent as 32
  lower-case hexadecimal characters.
\<close>

type_synonym ID = "byte list"

definition IDSize :: nat where
  "IDSize = 16"

definition zeroID :: ID where
  "zeroID = replicate IDSize 0"

definition wf_id :: "ID \<Rightarrow> bool" where
  "wf_id i \<longleftrightarrow> length i = IDSize"

definition IsZero :: "ID \<Rightarrow> bool" where
  "IsZero i = allZero i"

text \<open>\<open>reader\<close> is the outcome of \<^verbatim>\<open>io.ReadFull\<close> on the random source: an error or 16 bytes.\<close>

definition NewID :: "byte list result \<Rightarrow> ID result" where
  "NewID reader = (case reader of
       Inl e \<Rightarrow> Inl (Wrap e)
     | Inr i \<Rightarrow> if IsZero i then Inl (Wrap Plain) else Inr i)"

definition ParseID :: "string \<Rightarrow> ID result" where
  "ParseID value0 =
     (let value = TrimSpace value0 in
      if length value \<noteq> IDSize * 2 then Inl (Wrap Plain)
      else case DecodeString value of
          None \<Rightarrow> Inl (Wrap Plain)
        | Some i \<Rightarrow> if IsZero i then Inl (Wrap Plain) else Inr i)"

definition ID_String :: "ID \<Rightarrow> string" where
  "ID_String i = EncodeToString i"

lemma ID_String_inject [simp]: "ID_String i = ID_String j \<longleftrightarrow> i = j"
  by (simp add: ID_String_def)

lemma ID_String_trimmed [simp]: "TrimSpace (ID_String i) = ID_String i"
  by (simp add: ID_String_def)

lemma IsZero_iff: "wf_id i \<Longrightarrow> IsZero i \<longleftrightarrow> i = zeroID"
  by (auto simp: wf_id_def zeroID_def IsZero_def allZero_iff)

lemma IsZero_zeroID [simp]: "IsZero zeroID"
  by (simp add: IsZero_def zeroID_def allZero_iff)

lemma ID_String_not_Nil: "\<not> IsZero i \<Longrightarrow> ID_String i \<noteq> []"
  by (auto simp: ID_String_def IsZero_def)

lemma ParseID_InrD: "ParseID s = Inr i \<Longrightarrow> wf_id i \<and> \<not> IsZero i"
  by (auto simp: ParseID_def Let_def wf_id_def IDSize_def split: if_splits option.splits
        dest!: length_DecodeString)

lemma ParseID_ID_String [simp]: "wf_id i \<Longrightarrow> \<not> IsZero i \<Longrightarrow> ParseID (ID_String i) = Inr i"
  by (simp add: ParseID_def ID_String_def wf_id_def)

text \<open>
  C27.  Opaque identifiers survive the trip through their text form: the text of a well-formed
  non-zero identifier parses back to it, and every text that parses yields a well-formed non-zero
  identifier whose text parses to the same identifier, so the zero identifier is never accepted.
\<close>

theorem id_text_roundtrip:
  "(wf_id i \<and> \<not> IsZero i \<longrightarrow> ParseID (ID_String i) = Inr i) \<and>
   (ParseID s = Inr j \<longrightarrow> wf_id j \<and> j \<noteq> zeroID \<and> ParseID (ID_String j) = Inr j)"
proof (intro conjI impI)
  assume "wf_id i \<and> \<not> IsZero i"
  then show "ParseID (ID_String i) = Inr i" by simp
next
  assume p: "ParseID s = Inr j"
  with ParseID_InrD have j: "wf_id j" "\<not> IsZero j" by blast+
  then show "wf_id j" "j \<noteq> zeroID" "ParseID (ID_String j) = Inr j" by auto
qed

theorem id_text_roundtrip_witness:
  "ParseID (ID_String (1 # replicate 15 0)) = Inr (1 # replicate 15 0) \<and>
   ParseID ''  0A000000000000000000000000000000'' = Inr (10 # replicate 15 0) \<and>
   wf_id (10 # replicate 15 (0 :: byte))"
proof -
  have p: "ParseID ''  0A000000000000000000000000000000'' = Inr (10 # replicate 15 0)"
    by code_simp
  have w: "wf_id (1 # replicate 15 (0 :: byte))" "\<not> IsZero (1 # replicate 15 0)"
    by (simp_all add: wf_id_def IDSize_def IsZero_def)
  show ?thesis
    using id_text_roundtrip [of "1 # replicate 15 0" "''  0A000000000000000000000000000000''"
        "10 # replicate 15 0"] p w by simp
qed

end
