(* ===== verification/Domain_Model.thy ===== *)
theory Domain_Model
  imports Text_Formats Opaque_Id
begin

section \<open>Domain records and their validation (\<open>domain/model.go\<close>)\<close>

text \<open>
  The records of the control plane with the checks every new value passes.  A Go named string
  type is a datatype with the declared constants and one constructor for any other string.
  \<open>jwk_object\<close> is what \<^verbatim>\<open>json.Unmarshal\<close> of a key into \<^verbatim>\<open>map[string]any\<close> yields: the
  JSON decoder is a parameter of the definitions that use it, and their theorems hold for every
  decoder.
\<close>

subsection \<open>Status and kind types\<close>

datatype EndpointType = EndpointTypeABA | EndpointTypeHCWeb | EndpointTypeHCReference | EndpointTypeOther string

primrec EndpointType_Valid :: "EndpointType \<Rightarrow> bool" where
  "EndpointType_Valid EndpointTypeABA = True"
| "EndpointType_Valid EndpointTypeHCWeb = True"
| "EndpointType_Valid EndpointTypeHCReference = True"
| "EndpointType_Valid (EndpointTypeOther s) = False"

datatype EndpointStatus =
    EndpointStatusPending | EndpointStatusActive | EndpointStatusSuspended | EndpointStatusRevoked
  | EndpointStatusOther string

datatype EnrollmentStatus =
    EnrollmentStatusPending | EnrollmentStatusApproved | EnrollmentStatusDenied
  | EnrollmentStatusExpired | EnrollmentStatusConsumed | EnrollmentStatusOther string

datatype CredentialStatus =
    CredentialStatusActive | CredentialStatusRotated | CredentialStatusRevoked
  | CredentialStatusExpired | CredentialStatusOther string

datatype SessionStatus =
    SessionStatusCreating | SessionStatusWaitingKey | SessionStatusActive | SessionStatusRekeyRequired
  | SessionStatusDraining | SessionStatusUncertain | SessionStatusClosed | SessionStatusFailed
  | SessionStatusABARevoked | SessionStatusOther string

datatype KeyPackageStatus =
    KeyPackageStatusPending | KeyPackageStatusDelivered | KeyPackageStatusAcknowledged
  | KeyPackageStatusExpired | KeyPackageStatusRevoked | KeyPackageStatusOther string

datatype TicketStatus =
    TicketStatusIssued | TicketStatusConsumed | TicketStatusExpired | TicketStatusRevoked
  | TicketStatusOther string

datatype FrameStatus =
    FrameStatusStored | FrameStatusRouted | FrameStatusReceiverAcknowledged | FrameStatusExpired
  | FrameStatusConflict | FrameStatusOther string

type_synonym Direction = "8 word"

definition DirectionHCToABA :: Direction where
  "DirectionHCToABA = 1"

definition DirectionABAToHC :: Direction where
  "DirectionABAToHC = 2"

definition Direction_Valid :: "Direction \<Rightarrow> bool" where
  "Direction_Valid d \<longleftrightarrow> d = DirectionHCToABA \<or> d = DirectionABAToHC"

subsection \<open>Public keys and thumbprints\<close>

datatype json_value = JNull | JString string | JOther

type_synonym jwk_object = "string \<Rightarrow> json_value option"
type_synonym json_decoder = "byte list \<Rightarrow> jwk_object option"

text \<open>
  \<^verbatim>\<open>fmt.Sprint(key[field])\<close> is blank or \<^verbatim>\<open><nil>\<close> exactly for an absent field, a JSON
  null, a blank string and the string \<^verbatim>\<open><nil>\<close>: numbers, booleans, arrays and objects print
  as something else.
\<close>

definition jwk_field_missing :: "json_value option \<Rightarrow> bool" where
  "jwk_field_missing v = (case v of
       None \<Rightarrow> True
     | Some JNull \<Rightarrow> True
     | Some (JString s) \<Rightarrow> blank s \<or> s = ''<nil>''
     | Some JOther \<Rightarrow> False)"

definition validateJKT :: "string \<Rightarrow> go_error option" where
  "validateJKT value0 = (case RawURLDecode (TrimSpace value0) of
       None \<Rightarrow> Some Plain
     | Some decoded \<Rightarrow> if length decoded \<noteq> 32 then Some Plain else None)"

definition validatePublicJWK :: "json_decoder \<Rightarrow> byte list \<Rightarrow> go_error option" where
  "validatePublicJWK unmarshal value =
     (if length value = 0 \<or> length value > 8192 then Some Plain
      else case unmarshal value of
          None \<Rightarrow> Some Plain
        | Some key \<Rightarrow>
            if key ''kty'' \<noteq> Some (JString ''EC'') \<or> key ''crv'' \<noteq> Some (JString ''P-256'') then Some Plain
            else if key ''d'' \<noteq> None then Some Plain
            else if jwk_field_missing (key ''x'') \<or> jwk_field_missing (key ''y'') then Some Plain
            else None)"

subsection \<open>Endpoints\<close>

record Endpoint =
  ep_ID :: ID
  ep_OwnerUserID :: string
  ep_TenantID :: string
  ep_Type :: EndpointType
  ep_Name :: string
  ep_SigningPublicJWK :: "byte list"
  ep_KEMPublicJWK :: "byte list"
  ep_SigningJKT :: string
  ep_KEMJKT :: string
  ep_Status :: EndpointStatus
  ep_CredentialFamilyID :: ID
  ep_SoftwareVersion :: string
  ep_PlatformName :: string
  ep_LastSeenAt :: "time option"
  ep_RevokedAt :: "time option"
  ep_RowVersion :: u64
  ep_CreatedAt :: time
  ep_UpdatedAt :: time

definition Endpoint_Validate :: "json_decoder \<Rightarrow> Endpoint \<Rightarrow> go_error option" where
  "Endpoint_Validate unmarshal endpoint =
     (if IsZero (ep_ID endpoint) then Some (problem CodeInvalidArgument)
      else if blank (ep_OwnerUserID endpoint) then Some (problem CodeInvalidArgument)
      else if \<not> EndpointType_Valid (ep_Type endpoint) then Some (problem CodeInvalidArgument)
      else if (let name = TrimSpace (ep_Name endpoint) in name = [] \<or> length name > 120)
        then Some (problem CodeInvalidArgument)
      else case validatePublicJWK unmarshal (ep_SigningPublicJWK endpoint) of
        Some err \<Rightarrow> Some (NewProblem CodeInvalidArgument (Some err))
      | None \<Rightarrow> case validatePublicJWK unmarshal (ep_KEMPublicJWK endpoint) of
        Some err \<Rightarrow> Some (NewProblem CodeInvalidArgument (Some err))
      | None \<Rightarrow> case validateJKT (ep_SigningJKT endpoint) of
        Some err \<Rightarrow> Some (NewProblem CodeInvalidArgument (Some err))
      | None \<Rightarrow> case validateJKT (ep_KEMJKT endpoint) of
        Some err \<Rightarrow> Some (NewProblem CodeInvalidArgument (Some err))
      | None \<Rightarrow>
        if ep_SigningJKT endpoint = ep_KEMJKT endpoint then Some (problem CodeSecurityViolation)
        else if ep_Status endpoint = EndpointStatusRevoked \<and> ep_RevokedAt endpoint = None
          then Some (problem CodeInvalidState)
        else None)"

subsection \<open>Enrollments\<close>

record Enrollment =
  en_ID :: ID
  en_OwnerUserID :: string
  en_TenantID :: string
  en_EndpointType :: EndpointType
  en_EndpointName :: string
  en_DeviceCodeHash :: "byte list"
  en_UserCodeHash :: "byte list"
  en_SigningPublicJWK :: "byte list"
  en_KEMPublicJWK :: "byte list"
  en_SigningJKT :: string
  en_KEMJKT :: string
  en_Status :: EnrollmentStatus
  en_ExpiresAt :: time
  en_ApprovedBy :: string
  en_ApprovedAt :: "time option"
  en_ConsumedAt :: "time option"
  en_EndpointID :: ID
  en_RowVersion :: u64
  en_CreatedAt :: time
  en_UpdatedAt :: time

definition Enrollment_Validate :: "json_decoder \<Rightarrow> Enrollment \<Rightarrow> go_error option" where
  "Enrollment_Validate unmarshal enrollment =
     (if IsZero (en_ID enrollment) then Some (problem CodeInvalidArgument)
      else if \<not> EndpointType_Valid (en_EndpointType enrollment) then Some (problem CodeInvalidArgument)
      else if blank (en_EndpointName enrollment) then Some (problem CodeInvalidArgument)
      else if allZero (en_DeviceCodeHash enrollment) \<or> allZero (en_UserCodeHash enrollment)
        then Some (problem CodeSecurityViolation)
      else if IsZeroTime (en_ExpiresAt enrollment) then Some (problem CodeInvalidArgument)
      else case validatePublicJWK unmarshal (en_SigningPublicJWK enrollment) of
        Some err \<Rightarrow> Some (NewProblem CodeInvalidArgument (Some err))
      | None \<Rightarrow> case validatePublicJWK unmarshal (en_KEMPublicJWK enrollment) of
        Some err \<Rightarrow> Some (NewProblem CodeInvalidArgument (Some err))
      | None \<Rightarrow> case validateJKT (en_SigningJKT enrollment) of
        Some err \<Rightarrow> Some (NewProblem CodeInvalidArgument (Some err))
      | None \<Rightarrow> case validateJKT (en_KEMJKT enrollment) of
        Some err \<Rightarrow> Some (NewProblem CodeInvalidArgument (Some err))
      | None \<Rightarrow>
        if en_SigningJKT enrollment = en_KEMJKT enrollment then Some (problem CodeSecurityViolation)
        else None)"

subsection \<open>Credentials, sessions, tickets\<close>

record EndpointCredential =
  cr_ID :: ID
  cr_EndpointID :: ID
  cr_FamilyID :: ID
  cr_TokenHash :: "byte list"
  cr_SigningJKT :: string
  cr_Scopes :: "string list"
  cr_Status :: CredentialStatus
  cr_ExpiresAt :: time
  cr_RotatedFrom :: ID
  cr_CreatedAt :: time
  cr_UpdatedAt :: time
  cr_RevokedAt :: "time option"

record Session =
  se_ID :: ID
  se_OwnerUserID :: string
  se_TenantID :: string
  se_ABAEndpointID :: ID
  se_HCEndpointID :: ID
  se_RuntimeProfileID :: string
  se_WorkspaceID :: string
  se_RequestedCapabilities :: "string list"
  se_Status :: SessionStatus
  se_CurrentKeyGeneration :: u64
  se_CreatedAt :: time
  se_UpdatedAt :: time
  se_LastActivityAt :: "time option"
  se_ClosedAt :: "time option"
  se_RowVersion :: u64

record SessionRequest =
  rq_ABAEndpointID :: ID
  rq_HCEndpointID :: ID
  rq_RuntimeProfileID :: string
  rq_WorkspaceID :: string
  rq_RequestedCapabilities :: "string list"

record SessionKeyPackage =
  kp_ID :: ID
  kp_SessionID :: ID
  kp_Generation :: u64
  kp_IssuerABAEndpointID :: ID
  kp_RecipientHCEndpointID :: ID
  kp_CryptoSuite :: "16 word"
  kp_EncapsulatedKey :: "byte list"
  kp_Ciphertext :: "byte list"
  kp_ContextHash :: "byte list"
  kp_IssuerSignature :: "byte list"
  kp_IssuerCredentialID :: ID
  kp_Status :: KeyPackageStatus
  kp_ExpiresAt :: time
  kp_AcknowledgedAt :: "time option"
  kp_CreatedAt :: time

record WSTicket =
  tk_ID :: ID
  tk_TokenHash :: "byte list"
  tk_EndpointID :: ID
  tk_CredentialID :: ID
  tk_Purpose :: string
  tk_Origin :: string
  tk_Protocol :: string
  tk_Status :: TicketStatus
  tk_ExpiresAt :: time
  tk_ConsumedAt :: "time option"
  tk_CreatedAt :: time
  tk_RowVersion :: u64

subsection \<open>Encrypted frames and acknowledgement cursors\<close>

record EncryptedFrame =
  fr_MessageID :: ID
  fr_ChannelID :: ID
  fr_SessionID :: ID
  fr_SenderEndpointID :: ID
  fr_ReceiverEndpointID :: ID
  fr_Direction :: Direction
  fr_Sequence :: u64
  fr_KeyGeneration :: u64
  fr_KeyID :: ID
  fr_CreatedAtMS :: int
  fr_AAD :: "byte list"
  fr_Ciphertext :: "byte list"
  fr_Signature :: "byte list"
  fr_ContentHash :: "byte list"
  fr_Status :: FrameStatus
  fr_ReceivedAt :: time
  fr_RoutedAt :: "time option"
  fr_AcknowledgedAt :: "time option"
  fr_ExpiresAt :: time

definition EncryptedFrame_Validate :: "EncryptedFrame \<Rightarrow> int \<Rightarrow> go_error option" where
  "EncryptedFrame_Validate frame maxCiphertextBytes =
     (if IsZero (fr_MessageID frame) \<or> IsZero (fr_ChannelID frame) \<or> IsZero (fr_SessionID frame) \<or>
         IsZero (fr_SenderEndpointID frame) \<or> IsZero (fr_ReceiverEndpointID frame) \<or> IsZero (fr_KeyID frame)
        then Some (problem CodeInvalidArgument)
      else if \<not> Direction_Valid (fr_Direction frame) then Some (problem CodeInvalidArgument)
      else if fr_Sequence frame = 0 \<or> fr_KeyGeneration frame = 0 then Some (problem CodeInvalidArgument)
      else if length (fr_AAD frame) \<noteq> 148 then Some (problem CodeInvalidArgument)
      else if length (fr_Ciphertext frame) = 0 \<or> int (length (fr_Ciphertext frame)) > maxCiphertextBytes
        then Some (problem CodeResourceLimit)
      else if length (fr_Signature frame) \<noteq> 64 then Some (problem CodeInvalidArgument)
      else if allZero (fr_ContentHash frame) then Some (problem CodeInvalidArgument)
      else None)"

record SequenceRange =
  sr_Start :: u64
  sr_End :: u64

record AckCursor =
  ac_SessionID :: ID
  ac_KeyGeneration :: u64
  ac_Direction :: Direction
  ac_SenderEndpointID :: ID
  ac_ReceiverEndpointID :: ID
  ac_HighestContiguousSequence :: u64
  ac_ReceivedRanges :: "SequenceRange list"
  ac_UpdatedAt :: time
  ac_RowVersion :: u64

subsection \<open>Session requests (\<open>domain/state.go\<close>)\<close>

definition allowedCapabilities :: "string list" where
  "allowedCapabilities = [''prompt'', ''permission'', ''cancel'', ''session'', ''remote-session-v1'']"

fun check_capabilities :: "string list \<Rightarrow> string list \<Rightarrow> go_error option" where
  "check_capabilities seen [] = None"
| "check_capabilities seen (c # cs) =
     (let capability = TrimSpace c in
      if capability \<notin> set allowedCapabilities then Some (problem CodeInvalidArgument)
      else if capability \<in> set seen then Some (problem CodeInvalidArgument)
      else check_capabilities (capability # seen) cs)"

text \<open>The receiver is a pointer: on success the requested capabilities are sorted in place.\<close>

definition SessionRequest_Validate :: "SessionRequest \<Rightarrow> go_error option \<times> SessionRequest" where
  "SessionRequest_Validate request =
     (if IsZero (rq_ABAEndpointID request) \<or> IsZero (rq_HCEndpointID request)
        then (Some (problem CodeInvalidArgument), request)
      else if rq_ABAEndpointID request = rq_HCEndpointID request
        then (Some (problem CodeSecurityViolation), request)
      else if \<not> safeLocalID (rq_RuntimeProfileID request) \<or> \<not> safeLocalID (rq_WorkspaceID request)
        then (Some (problem CodeInvalidArgument), request)
      else if length (rq_RequestedCapabilities request) = 0 \<or> length (rq_RequestedCapabilities request) > 8
        then (Some (problem CodeInvalidArgument), request)
      else case check_capabilities [] (rq_RequestedCapabilities request) of
          Some err \<Rightarrow> (Some err, request)
        | None \<Rightarrow> (None, request\<lparr>rq_RequestedCapabilities := sort (rq_RequestedCapabilities request)\<rparr>))"

subsection \<open>What the checks establish\<close>

lemma check_capabilities_None:
  "check_capabilities seen cs = None \<longleftrightarrow>
     set (map TrimSpace cs) \<subseteq> set allowedCapabilities \<and> distinct (map TrimSpace cs) \<and>
     set (map TrimSpace cs) \<inter> set seen = {}"
  by (induction cs arbitrary: seen) (auto simp: Let_def)

lemma check_capabilities_code:
  "check_capabilities seen cs = Some e \<Longrightarrow> e = problem CodeInvalidArgument"
  by (induction seen cs rule: check_capabilities.induct) (auto simp: Let_def split: if_splits)

lemma validateJKT_None:
  "validateJKT v = None \<longleftrightarrow> (\<exists>bs. RawURLDecode (TrimSpace v) = Some bs \<and> length bs = 32)"
  by (auto simp: validateJKT_def split: option.splits if_splits)

lemma validatePublicJWK_public:
  "validatePublicJWK unmarshal v = None \<Longrightarrow>
     \<exists>key. unmarshal v = Some key \<and> key ''kty'' = Some (JString ''EC'') \<and>
       key ''crv'' = Some (JString ''P-256'') \<and> key ''d'' = None"
  by (auto simp: validatePublicJWK_def split: if_splits option.splits)

text \<open>
  A session request is accepted exactly when both endpoints are present and different, both
  local identifiers match the safe pattern, there are one to eight capabilities, and the trimmed
  capabilities are pairwise different members of the allow-list.  An accepted request keeps every
  other field and holds the same capabilities, sorted; a rejected one is left as it was.
\<close>

lemma session_request_accepted_iff:
  "(fst (SessionRequest_Validate r) = None \<longleftrightarrow>
      \<not> IsZero (rq_ABAEndpointID r) \<and> \<not> IsZero (rq_HCEndpointID r) \<and>
      rq_ABAEndpointID r \<noteq> rq_HCEndpointID r \<and>
      safeLocalID (rq_RuntimeProfileID r) \<and> safeLocalID (rq_WorkspaceID r) \<and>
      1 \<le> length (rq_RequestedCapabilities r) \<and> length (rq_RequestedCapabilities r) \<le> 8 \<and>
      set (map TrimSpace (rq_RequestedCapabilities r)) \<subseteq> set allowedCapabilities \<and>
      distinct (map TrimSpace (rq_RequestedCapabilities r))) \<and>
   snd (SessionRequest_Validate r) =
     (if fst (SessionRequest_Validate r) = None
      then r\<lparr>rq_RequestedCapabilities := sort (rq_RequestedCapabilities r)\<rparr> else r)"
  using check_capabilities_None [of "[]" "rq_RequestedCapabilities r"]
  by (auto simp: SessionRequest_Validate_def Suc_le_eq split: option.splits)

text \<open>
  An endpoint that validates has an identifier, an owner, a supported type, a name of at most
  120 bytes once trimmed, two P-256 public keys with no private part, two thumbprints of 32 bytes
  that are different as strings, and a revocation time if it is revoked.
\<close>

lemma endpoint_validate_sound:
  assumes "Endpoint_Validate unmarshal e = None"
  shows "\<not> IsZero (ep_ID e) \<and> \<not> blank (ep_OwnerUserID e) \<and> EndpointType_Valid (ep_Type e) \<and>
     0 < length (TrimSpace (ep_Name e)) \<and> length (TrimSpace (ep_Name e)) \<le> 120 \<and>
     (\<exists>k. unmarshal (ep_SigningPublicJWK e) = Some k \<and> k ''crv'' = Some (JString ''P-256'') \<and> k ''d'' = None) \<and>
     (\<exists>k. unmarshal (ep_KEMPublicJWK e) = Some k \<and> k ''crv'' = Some (JString ''P-256'') \<and> k ''d'' = None) \<and>
     (\<exists>bs. RawURLDecode (TrimSpace (ep_SigningJKT e)) = Some bs \<and> length bs = 32) \<and>
     (\<exists>bs. RawURLDecode (TrimSpace (ep_KEMJKT e)) = Some bs \<and> length bs = 32) \<and>
     ep_SigningJKT e \<noteq> ep_KEMJKT e \<and>
     (ep_Status e = EndpointStatusRevoked \<longrightarrow> ep_RevokedAt e \<noteq> None)"
  using assms validatePublicJWK_public [of unmarshal "ep_SigningPublicJWK e"]
    validatePublicJWK_public [of unmarshal "ep_KEMPublicJWK e"]
    validateJKT_None [of "ep_SigningJKT e"] validateJKT_None [of "ep_KEMJKT e"]
  by (auto simp: Endpoint_Validate_def Let_def split: if_splits option.splits)

text \<open>A concrete endpoint and a decoder that accepts its two keys, used by the witnesses.\<close>

definition sample_decoder :: json_decoder where
  "sample_decoder bs = Some [''kty'' \<mapsto> JString ''EC'', ''crv'' \<mapsto> JString ''P-256'',
     ''x'' \<mapsto> JString ''eA'', ''y'' \<mapsto> JString ''eQ'']"

definition sample_id :: "byte \<Rightarrow> ID" where
  "sample_id b = replicate 15 0 @ [b]"

definition sample_endpoint :: "string \<Rightarrow> string \<Rightarrow> Endpoint" where
  "sample_endpoint sign kem = \<lparr>
     ep_ID = sample_id 1, ep_OwnerUserID = ''u1'', ep_TenantID = [], ep_Type = EndpointTypeABA,
     ep_Name = ''bridge'', ep_SigningPublicJWK = [123], ep_KEMPublicJWK = [123, 32],
     ep_SigningJKT = sign, ep_KEMJKT = kem, ep_Status = EndpointStatusActive,
     ep_CredentialFamilyID = sample_id 9, ep_SoftwareVersion = [], ep_PlatformName = [],
     ep_LastSeenAt = None, ep_RevokedAt = None, ep_RowVersion = 0, ep_CreatedAt = 1, ep_UpdatedAt = 1\<rparr>"

abbreviation jktA :: string where
  "jktA \<equiv> ''AAAAAAAAAAAAAAAAAAAAAAAAAAAAAAAAAAAAAAAAAAA''"

abbreviation jktB :: string where
  "jktB \<equiv> ''BBBBBBBBBBBBBBBBBBBBBBBBBBBBBBBBBBBBBBBBBBA''"

lemma IsZero_sample_id [simp]: "IsZero (sample_id b) \<longleftrightarrow> b = 0"
  by (simp add: IsZero_def sample_id_def allZero_set)

lemma wf_sample_id [simp]: "wf_id (sample_id b)"
  by (simp add: wf_id_def sample_id_def IDSize_def)

lemma sample_id_inject [simp]: "sample_id a = sample_id b \<longleftrightarrow> a = b"
  by (simp add: sample_id_def)

lemma sample_endpoint_valid: "Endpoint_Validate sample_decoder (sample_endpoint jktA jktB) = None"
  by code_simp

lemma endpoint_validate_sound_witness:
  "Endpoint_Validate sample_decoder (sample_endpoint jktA jktB) = None \<and>
   \<not> IsZero (ep_ID (sample_endpoint jktA jktB)) \<and>
   ep_SigningJKT (sample_endpoint jktA jktB) \<noteq> ep_KEMJKT (sample_endpoint jktA jktB)"
  using sample_endpoint_valid endpoint_validate_sound [OF sample_endpoint_valid] by blast

text \<open>
  The distinct-keys check compares the thumbprints as they were sent, while the thumbprints
  themselves are validated after trimming: an endpoint whose signing and KEM thumbprints are the
  same up to surrounding white space validates.
\<close>

lemma thumbprint_check_ignores_trimming:
  "\<exists>unmarshal e. Endpoint_Validate unmarshal e = None \<and>
     TrimSpace (ep_SigningJKT e) = TrimSpace (ep_KEMJKT e)"
proof -
  have "Endpoint_Validate sample_decoder (sample_endpoint jktA (jktA @ '' '')) = None \<and>
    TrimSpace (ep_SigningJKT (sample_endpoint jktA (jktA @ '' ''))) =
      TrimSpace (ep_KEMJKT (sample_endpoint jktA (jktA @ '' '')))"
    by code_simp
  then show ?thesis by blast
qed

end
