(* ===== verification/State_Machine.thy ===== *)
theory State_Machine
  imports Harness_Prelude
begin

section \<open>Contracts of life-cycle operations\<close>

text \<open>
  Every stateful domain record (endpoint, enrollment, session, frame, outbox entry) follows the
  same contract: a command either leaves the record as it is or moves its status along an edge of
  a transition graph; terminal statuses have no outgoing edge; and records with a row version
  increase it by one with every change.  The contract is stated once here, with the facts about
  whole command histories that follow from it.
\<close>

primrec run_cmds :: "('c \<Rightarrow> 's \<Rightarrow> go_error option \<times> 's) \<Rightarrow> 'c list \<Rightarrow> 's \<Rightarrow> 's" where
  "run_cmds step [] s = s"
| "run_cmds step (c # cs) s = run_cmds step cs (snd (step c s))"

primrec count_changes :: "('c \<Rightarrow> 's \<Rightarrow> go_error option \<times> 's) \<Rightarrow> 'c list \<Rightarrow> 's \<Rightarrow> nat" where
  "count_changes step [] s = 0"
| "count_changes step (c # cs) s =
     (if snd (step c s) = s then 0 else 1) + count_changes step cs (snd (step c s))"

lemma run_cmds_append: "run_cmds step (cs @ ds) s = run_cmds step ds (run_cmds step cs s)"
  by (induction cs arbitrary: s) auto

lemma run_cmds_invariant:
  assumes step: "\<And>c s. P s \<Longrightarrow> P (snd (step c s))" and init: "P s"
  shows "P (run_cmds step cs s)"
  using init by (induction cs arbitrary: s) (auto intro: step)

lemma count_changes_le: "count_changes step cs s \<le> length cs"
  by (induction cs arbitrary: s) (auto simp: le_SucI)

lemma count_changes_0: "count_changes step cs s = 0 \<Longrightarrow> run_cmds step cs s = s"
  by (induction cs arbitrary: s) (auto split: if_splits)

locale status_machine =
  fixes status :: "'s \<Rightarrow> 'st"
    and step :: "'c \<Rightarrow> 's \<Rightarrow> go_error option \<times> 's"
    and edge :: "'st \<Rightarrow> 'st \<Rightarrow> bool"
    and terminal :: "'st \<Rightarrow> bool"
  assumes step_edge: "snd (step c s) = s \<or> edge (status s) (status (snd (step c s)))"
    and terminal_stuck: "terminal st \<Longrightarrow> \<not> edge st st'"
begin

lemma terminal_step: "terminal (status s) \<Longrightarrow> snd (step c s) = s"
  using step_edge terminal_stuck by blast

lemma terminal_run: "terminal (status s) \<Longrightarrow> run_cmds step cs s = s"
  by (induction cs arbitrary: s) (simp_all add: terminal_step)

lemma run_edges: "edge\<^sup>*\<^sup>* (status s) (status (run_cmds step cs s))"
proof (induction cs arbitrary: s)
  case (Cons c cs)
  have "edge\<^sup>*\<^sup>* (status s) (status (snd (step c s)))"
    using step_edge [of c s] by auto
  with Cons [of "snd (step c s)"] show ?case by simp
qed simp

lemma status_never_leaves:
  "terminal (status (run_cmds step cs s)) \<Longrightarrow>
     run_cmds step (cs @ ds) s = run_cmds step cs s"
  by (simp add: run_cmds_append terminal_run)

end

locale versioned_machine = status_machine status step edge terminal
  for status :: "'s \<Rightarrow> 'st" and step :: "'c \<Rightarrow> 's \<Rightarrow> go_error option \<times> 's" and edge and terminal +
  fixes version :: "'s \<Rightarrow> u64"
  assumes version_step: "snd (step c s) \<noteq> s \<Longrightarrow> version (snd (step c s)) = version s + 1"
begin

lemma version_run:
  "version (run_cmds step cs s) = version s + word_of_nat (count_changes step cs s)"
proof (induction cs arbitrary: s)
  case (Cons c cs)
  then show ?case
    using version_step [of c s] by (simp add: algebra_simps)
qed simp

text \<open>
  The soundness of the optimistic lock: within \<open>2 ^ 64\<close> commands an unchanged version number
  means an unchanged record.
\<close>

lemma same_version_same_record:
  assumes "length cs < 2 ^ 64" and "version (run_cmds step cs s) = version s"
  shows "run_cmds step cs s = s"
proof -
  have "(word_of_nat (count_changes step cs s) :: u64) = 0"
    using assms(2) by (simp add: version_run)
  then have "2 ^ 64 dvd count_changes step cs s"
    by (simp add: word_of_nat_eq_0_iff)
  moreover have "count_changes step cs s < 2 ^ 64"
    using assms(1) count_changes_le [of step cs s] by linarith
  ultimately have "count_changes step cs s = 0"
    using nat_dvd_not_less by blast
  then show ?thesis by (rule count_changes_0)
qed

end

end
