(* ===== verification/Domain_Lifecycle.thy ===== *)
theory Domain_Lifecycle
  imports Domain_Model State_Machine
begin

section \<open>Life cycles (\<open>domain/state.go\<close>)\<close>

text \<open>
  The status transitions of endpoints, enrollments, sessions and frames.  Each operation returns
  the error and the record after the call: a Go method mutates its receiver, sometimes also when
  it fails.  The nil receiver every method rejects first is \<open>deref\<close> of the prelude.  Each group
  closes with the transition graph of the record and an interpretation of the life-cycle contract.
\<close>

subsection \<open>Endpoints\<close>

definition Endpoint_Activate :: "time \<Rightarrow> Endpoint \<Rightarrow> go_error option \<times> Endpoint" where
  [life_simps]: "Endpoint_Activate now e =
     (if ep_Status e \<noteq> EndpointStatusPending then (Some (problem CodeInvalidState), e)
      else (None, e\<lparr>ep_Status := EndpointStatusActive, ep_UpdatedAt := now,
                    ep_RowVersion := ep_RowVersion e + 1\<rparr>))"

definition Endpoint_Suspend :: "time \<Rightarrow> Endpoint \<Rightarrow> go_error option \<times> Endpoint" where
  [life_simps]: "Endpoint_Suspend now e =
     (if ep_Status e = EndpointStatusRevoked then (Some (problem CodeRevoked), e)
      else if ep_Status e \<noteq> EndpointStatusActive then (Some (problem CodeInvalidState), e)
      else (None, e\<lparr>ep_Status := EndpointStatusSuspended, ep_UpdatedAt := now,
                    ep_RowVersion := ep_RowVersion e + 1\<rparr>))"

definition Endpoint_Resume :: "time \<Rightarrow> Endpoint \<Rightarrow> go_error option \<times> Endpoint" where
  [life_simps]: "Endpoint_Resume now e =
     (if ep_Status e = EndpointStatusRevoked then (Some (problem CodeRevoked), e)
      else if ep_Status e \<noteq> EndpointStatusSuspended then (Some (problem CodeInvalidState), e)
      else (None, e\<lparr>ep_Status := EndpointStatusActive, ep_UpdatedAt := now,
                    ep_RowVersion := ep_RowVersion e + 1\<rparr>))"

definition Endpoint_Revoke :: "time \<Rightarrow> Endpoint \<Rightarrow> go_error option \<times> Endpoint" where
  [life_simps]: "Endpoint_Revoke now e =
     (if ep_Status e = EndpointStatusRevoked then (None, e)
      else if ep_Status e \<noteq> EndpointStatusPending \<and> ep_Status e \<noteq> EndpointStatusActive \<and>
              ep_Status e \<noteq> EndpointStatusSuspended
        then (Some (problem CodeInvalidState), e)
      else (None, e\<lparr>ep_Status := EndpointStatusRevoked, ep_RevokedAt := Some now, ep_UpdatedAt := now,
                    ep_RowVersion := ep_RowVersion e + 1\<rparr>))"

datatype endpoint_cmd =
    EpActivate time | EpSuspend time | EpResume time | EpRevoke time

primrec endpoint_step :: "endpoint_cmd \<Rightarrow> Endpoint \<Rightarrow> go_error option \<times> Endpoint" where
  "endpoint_step (EpActivate now) = Endpoint_Activate now"
| "endpoint_step (EpSuspend now) = Endpoint_Suspend now"
| "endpoint_step (EpResume now) = Endpoint_Resume now"
| "endpoint_step (EpRevoke now) = Endpoint_Revoke now"

inductive endpoint_edge :: "EndpointStatus \<Rightarrow> EndpointStatus \<Rightarrow> bool" where
  "endpoint_edge EndpointStatusPending EndpointStatusActive"
| "endpoint_edge EndpointStatusActive EndpointStatusSuspended"
| "endpoint_edge EndpointStatusSuspended EndpointStatusActive"
| "st \<in> {EndpointStatusPending, EndpointStatusActive, EndpointStatusSuspended} \<Longrightarrow>
     endpoint_edge st EndpointStatusRevoked"

inductive_simps endpoint_edge_simps: "endpoint_edge st st'"

interpretation endpoint_life: versioned_machine
  ep_Status endpoint_step endpoint_edge "\<lambda>st. st = EndpointStatusRevoked" ep_RowVersion
proof unfold_locales
  fix c s
  show "snd (endpoint_step c s) = s \<or> endpoint_edge (ep_Status s) (ep_Status (snd (endpoint_step c s)))"
    by (cases c; cases "ep_Status s") (simp_all add: life_simps endpoint_edge_simps)
  show "snd (endpoint_step c s) \<noteq> s \<Longrightarrow>
      ep_RowVersion (snd (endpoint_step c s)) = ep_RowVersion s + 1"
    by (cases c; cases "ep_Status s") (simp_all add: life_simps split: if_splits)
next
  fix st st'
  show "st = EndpointStatusRevoked \<Longrightarrow> \<not> endpoint_edge st st'"
    by (auto simp: endpoint_edge_simps)
qed

subsection \<open>Enrollments\<close>

definition Enrollment_Approve :: "string \<Rightarrow> time \<Rightarrow> Enrollment \<Rightarrow> go_error option \<times> Enrollment" where
  [life_simps]: "Enrollment_Approve actor now e =
     (if en_Status e \<noteq> EnrollmentStatusPending then (Some (problem CodeInvalidState), e)
      else if \<not> now < en_ExpiresAt e then
        (Some (problem CodeExpired),
         e\<lparr>en_Status := EnrollmentStatusExpired, en_UpdatedAt := now, en_RowVersion := en_RowVersion e + 1\<rparr>)
      else if blank actor then (Some (problem CodeInvalidArgument), e)
      else (None, e\<lparr>en_Status := EnrollmentStatusApproved, en_ApprovedBy := actor,
                    en_ApprovedAt := Some now, en_UpdatedAt := now, en_RowVersion := en_RowVersion e + 1\<rparr>))"

definition Enrollment_Deny :: "string \<Rightarrow> time \<Rightarrow> Enrollment \<Rightarrow> go_error option \<times> Enrollment" where
  [life_simps]: "Enrollment_Deny actor now e =
     (if en_Status e \<noteq> EnrollmentStatusPending then (Some (problem CodeInvalidState), e)
      else if blank actor then (Some (problem CodeInvalidArgument), e)
      else (None, e\<lparr>en_Status := EnrollmentStatusDenied, en_ApprovedBy := actor,
                    en_ApprovedAt := Some now, en_UpdatedAt := now, en_RowVersion := en_RowVersion e + 1\<rparr>))"

definition Enrollment_Expire :: "time \<Rightarrow> Enrollment \<Rightarrow> go_error option \<times> Enrollment" where
  [life_simps]: "Enrollment_Expire now e =
     (if en_Status e = EnrollmentStatusExpired then (None, e)
      else if en_Status e \<noteq> EnrollmentStatusPending \<and> en_Status e \<noteq> EnrollmentStatusApproved
        then (Some (problem CodeInvalidState), e)
      else if now < en_ExpiresAt e then (Some (problem CodeInvalidState), e)
      else (None, e\<lparr>en_Status := EnrollmentStatusExpired, en_UpdatedAt := now,
                    en_RowVersion := en_RowVersion e + 1\<rparr>))"

definition Enrollment_Consume :: "ID \<Rightarrow> time \<Rightarrow> Enrollment \<Rightarrow> go_error option \<times> Enrollment" where
  [life_simps]: "Enrollment_Consume endpointID now e =
     (if en_Status e = EnrollmentStatusConsumed then
        (if en_EndpointID e = endpointID then (None, e) else (Some (problem CodeConflict), e))
      else if en_Status e \<noteq> EnrollmentStatusApproved then (Some (problem CodeInvalidState), e)
      else if \<not> now < en_ExpiresAt e then
        (Some (problem CodeExpired),
         e\<lparr>en_Status := EnrollmentStatusExpired, en_UpdatedAt := now, en_RowVersion := en_RowVersion e + 1\<rparr>)
      else if IsZero endpointID then (Some (problem CodeInvalidArgument), e)
      else (None, e\<lparr>en_Status := EnrollmentStatusConsumed, en_EndpointID := endpointID,
                    en_ConsumedAt := Some now, en_UpdatedAt := now, en_RowVersion := en_RowVersion e + 1\<rparr>))"

datatype enrollment_cmd =
    EnApprove string time | EnDeny string time | EnExpire time | EnConsume ID time

primrec enrollment_step :: "enrollment_cmd \<Rightarrow> Enrollment \<Rightarrow> go_error option \<times> Enrollment" where
  "enrollment_step (EnApprove actor now) = Enrollment_Approve actor now"
| "enrollment_step (EnDeny actor now) = Enrollment_Deny actor now"
| "enrollment_step (EnExpire now) = Enrollment_Expire now"
| "enrollment_step (EnConsume i now) = Enrollment_Consume i now"

inductive enrollment_edge :: "EnrollmentStatus \<Rightarrow> EnrollmentStatus \<Rightarrow> bool" where
  "enrollment_edge EnrollmentStatusPending EnrollmentStatusApproved"
| "enrollment_edge EnrollmentStatusPending EnrollmentStatusDenied"
| "enrollment_edge EnrollmentStatusPending EnrollmentStatusExpired"
| "enrollment_edge EnrollmentStatusApproved EnrollmentStatusExpired"
| "enrollment_edge EnrollmentStatusApproved EnrollmentStatusConsumed"

inductive_simps enrollment_edge_simps: "enrollment_edge st st'"

definition enrollment_terminal :: "EnrollmentStatus \<Rightarrow> bool" where
  "enrollment_terminal st \<longleftrightarrow>
     st \<in> {EnrollmentStatusDenied, EnrollmentStatusExpired, EnrollmentStatusConsumed}"

interpretation enrollment_life: versioned_machine
  en_Status enrollment_step enrollment_edge enrollment_terminal en_RowVersion
proof unfold_locales
  fix c s
  show "snd (enrollment_step c s) = s \<or>
      enrollment_edge (en_Status s) (en_Status (snd (enrollment_step c s)))"
    by (cases c; cases "en_Status s") (simp_all add: life_simps enrollment_edge_simps)
  show "snd (enrollment_step c s) \<noteq> s \<Longrightarrow>
      en_RowVersion (snd (enrollment_step c s)) = en_RowVersion s + 1"
    by (cases c; cases "en_Status s") (simp_all add: life_simps split: if_splits)
next
  fix st st'
  show "enrollment_terminal st \<Longrightarrow> \<not> enrollment_edge st st'"
    by (auto simp: enrollment_edge_simps enrollment_terminal_def)
qed

subsection \<open>Sessions\<close>

definition Session_move :: "SessionStatus \<Rightarrow> SessionStatus \<Rightarrow> time \<Rightarrow> Session \<Rightarrow> go_error option \<times> Session" where
  [life_simps]: "Session_move from to now s =
     (if se_Status s \<noteq> from then (Some (problem CodeInvalidState), s)
      else (None, s\<lparr>se_Status := to, se_UpdatedAt := now, se_RowVersion := se_RowVersion s + 1\<rparr>))"

definition Session_WaitForKey :: "time \<Rightarrow> Session \<Rightarrow> go_error option \<times> Session" where
  [life_simps]: "Session_WaitForKey now = Session_move SessionStatusCreating SessionStatusWaitingKey now"

definition Session_Activate :: "u64 \<Rightarrow> time \<Rightarrow> Session \<Rightarrow> go_error option \<times> Session" where
  [life_simps]: "Session_Activate generation now s =
     (if se_Status s \<noteq> SessionStatusWaitingKey \<and> se_Status s \<noteq> SessionStatusRekeyRequired
        then (Some (problem CodeInvalidState), s)
      else if generation = 0 \<or> generation \<le> se_CurrentKeyGeneration s
        then (Some (problem CodeInvalidArgument), s)
      else (None, s\<lparr>se_CurrentKeyGeneration := generation, se_Status := SessionStatusActive,
                    se_UpdatedAt := now, se_LastActivityAt := Some now,
                    se_RowVersion := se_RowVersion s + 1\<rparr>))"

definition Session_RequireRekey :: "time \<Rightarrow> Session \<Rightarrow> go_error option \<times> Session" where
  [life_simps]: "Session_RequireRekey now s =
     (if se_Status s = SessionStatusRekeyRequired then (None, s)
      else if se_Status s \<noteq> SessionStatusActive then (Some (problem CodeInvalidState), s)
      else (None, s\<lparr>se_Status := SessionStatusRekeyRequired, se_UpdatedAt := now,
                    se_RowVersion := se_RowVersion s + 1\<rparr>))"

definition Session_MarkUncertain :: "time \<Rightarrow> Session \<Rightarrow> go_error option \<times> Session" where
  [life_simps]: "Session_MarkUncertain now s =
     (if se_Status s \<noteq> SessionStatusActive \<and> se_Status s \<noteq> SessionStatusDraining
        then (Some (problem CodeInvalidState), s)
      else (None, s\<lparr>se_Status := SessionStatusUncertain, se_UpdatedAt := now,
                    se_RowVersion := se_RowVersion s + 1\<rparr>))"

definition Session_Fail :: "time \<Rightarrow> Session \<Rightarrow> go_error option \<times> Session" where
  [life_simps]: "Session_Fail now s =
     (if se_Status s = SessionStatusFailed then (None, s)
      else if se_Status s \<in> {SessionStatusCreating, SessionStatusWaitingKey, SessionStatusRekeyRequired}
        then (None, s\<lparr>se_Status := SessionStatusFailed, se_UpdatedAt := now,
                      se_RowVersion := se_RowVersion s + 1\<rparr>)
      else (Some (problem CodeInvalidState), s))"

definition Session_StartDraining :: "time \<Rightarrow> Session \<Rightarrow> go_error option \<times> Session" where
  [life_simps]: "Session_StartDraining now = Session_move SessionStatusActive SessionStatusDraining now"

definition Session_Close :: "time \<Rightarrow> Session \<Rightarrow> go_error option \<times> Session" where
  [life_simps]: "Session_Close now s =
     (if se_Status s = SessionStatusClosed then (None, s)
      else if se_Status s \<in> {SessionStatusCreating, SessionStatusWaitingKey, SessionStatusActive,
           SessionStatusRekeyRequired, SessionStatusDraining, SessionStatusUncertain, SessionStatusFailed}
        then (None, s\<lparr>se_Status := SessionStatusClosed, se_ClosedAt := Some now, se_UpdatedAt := now,
                      se_RowVersion := se_RowVersion s + 1\<rparr>)
      else (Some (problem CodeInvalidState), s))"

definition Session_MarkABARevoked :: "time \<Rightarrow> Session \<Rightarrow> go_error option \<times> Session" where
  [life_simps]: "Session_MarkABARevoked now s =
     (if se_Status s = SessionStatusABARevoked then (None, s)
      else if se_Status s = SessionStatusClosed then (Some (problem CodeInvalidState), s)
      else (None, s\<lparr>se_Status := SessionStatusABARevoked, se_ClosedAt := Some now, se_UpdatedAt := now,
                    se_RowVersion := se_RowVersion s + 1\<rparr>))"

datatype session_cmd =
    SeWaitForKey time | SeActivate u64 time | SeRequireRekey time | SeMarkUncertain time
  | SeFail time | SeStartDraining time | SeClose time | SeMarkABARevoked time

primrec session_step :: "session_cmd \<Rightarrow> Session \<Rightarrow> go_error option \<times> Session" where
  "session_step (SeWaitForKey now) = Session_WaitForKey now"
| "session_step (SeActivate g now) = Session_Activate g now"
| "session_step (SeRequireRekey now) = Session_RequireRekey now"
| "session_step (SeMarkUncertain now) = Session_MarkUncertain now"
| "session_step (SeFail now) = Session_Fail now"
| "session_step (SeStartDraining now) = Session_StartDraining now"
| "session_step (SeClose now) = Session_Close now"
| "session_step (SeMarkABARevoked now) = Session_MarkABARevoked now"

inductive session_edge :: "SessionStatus \<Rightarrow> SessionStatus \<Rightarrow> bool" where
  key_wait: "session_edge SessionStatusCreating SessionStatusWaitingKey"
| activate: "st \<in> {SessionStatusWaitingKey, SessionStatusRekeyRequired} \<Longrightarrow>
     session_edge st SessionStatusActive"
| rekey: "session_edge SessionStatusActive SessionStatusRekeyRequired"
| uncertain: "st \<in> {SessionStatusActive, SessionStatusDraining} \<Longrightarrow>
     session_edge st SessionStatusUncertain"
| fail: "st \<in> {SessionStatusCreating, SessionStatusWaitingKey, SessionStatusRekeyRequired} \<Longrightarrow>
     session_edge st SessionStatusFailed"
| drain: "session_edge SessionStatusActive SessionStatusDraining"
| close: "st \<in> {SessionStatusCreating, SessionStatusWaitingKey, SessionStatusActive,
       SessionStatusRekeyRequired, SessionStatusDraining, SessionStatusUncertain, SessionStatusFailed} \<Longrightarrow>
     session_edge st SessionStatusClosed"
| aba_revoked: "st \<noteq> SessionStatusClosed \<Longrightarrow> st \<noteq> SessionStatusABARevoked \<Longrightarrow>
     session_edge st SessionStatusABARevoked"

inductive_simps session_edge_simps: "session_edge st st'"

definition session_terminal :: "SessionStatus \<Rightarrow> bool" where
  "session_terminal st \<longleftrightarrow> st = SessionStatusClosed \<or> st = SessionStatusABARevoked"

interpretation session_life: versioned_machine
  se_Status session_step session_edge session_terminal se_RowVersion
proof unfold_locales
  fix c s
  show "snd (session_step c s) = s \<or> session_edge (se_Status s) (se_Status (snd (session_step c s)))"
    by (cases c; cases "se_Status s") (simp_all add: life_simps session_edge_simps)
  show "snd (session_step c s) \<noteq> s \<Longrightarrow>
      se_RowVersion (snd (session_step c s)) = se_RowVersion s + 1"
    by (cases c; cases "se_Status s") (simp_all add: life_simps split: if_splits)
next
  fix st st'
  show "session_terminal st \<Longrightarrow> \<not> session_edge st st'"
    by (auto simp: session_edge_simps session_terminal_def)
qed

subsection \<open>Frames\<close>

definition EncryptedFrame_MarkRouted :: "time \<Rightarrow> EncryptedFrame \<Rightarrow> go_error option \<times> EncryptedFrame" where
  [life_simps]: "EncryptedFrame_MarkRouted now f =
     (if fr_Status f = FrameStatusRouted then (None, f)
      else if fr_Status f \<noteq> FrameStatusStored then (Some (problem CodeInvalidState), f)
      else (None, f\<lparr>fr_Status := FrameStatusRouted, fr_RoutedAt := Some now\<rparr>))"

definition EncryptedFrame_Acknowledge :: "time \<Rightarrow> EncryptedFrame \<Rightarrow> go_error option \<times> EncryptedFrame" where
  [life_simps]: "EncryptedFrame_Acknowledge now f =
     (if fr_Status f = FrameStatusReceiverAcknowledged then (None, f)
      else if fr_Status f \<noteq> FrameStatusStored \<and> fr_Status f \<noteq> FrameStatusRouted
        then (Some (problem CodeInvalidState), f)
      else (None, f\<lparr>fr_Status := FrameStatusReceiverAcknowledged, fr_AcknowledgedAt := Some now\<rparr>))"

definition EncryptedFrame_Conflict :: "EncryptedFrame \<Rightarrow> go_error option \<times> EncryptedFrame" where
  [life_simps]: "EncryptedFrame_Conflict f =
     (if fr_Status f = FrameStatusReceiverAcknowledged \<or> fr_Status f = FrameStatusExpired
        then (Some (problem CodeInvalidState), f)
      else (None, f\<lparr>fr_Status := FrameStatusConflict\<rparr>))"

datatype frame_cmd = FrMarkRouted time | FrAcknowledge time | FrConflict

primrec frame_step :: "frame_cmd \<Rightarrow> EncryptedFrame \<Rightarrow> go_error option \<times> EncryptedFrame" where
  "frame_step (FrMarkRouted now) = EncryptedFrame_MarkRouted now"
| "frame_step (FrAcknowledge now) = EncryptedFrame_Acknowledge now"
| "frame_step FrConflict = EncryptedFrame_Conflict"

inductive frame_edge :: "FrameStatus \<Rightarrow> FrameStatus \<Rightarrow> bool" where
  "frame_edge FrameStatusStored FrameStatusRouted"
| "st \<in> {FrameStatusStored, FrameStatusRouted} \<Longrightarrow> frame_edge st FrameStatusReceiverAcknowledged"
| "st \<notin> {FrameStatusReceiverAcknowledged, FrameStatusExpired, FrameStatusConflict} \<Longrightarrow>
     frame_edge st FrameStatusConflict"

inductive_simps frame_edge_simps: "frame_edge st st'"

definition frame_terminal :: "FrameStatus \<Rightarrow> bool" where
  "frame_terminal st \<longleftrightarrow>
     st \<in> {FrameStatusReceiverAcknowledged, FrameStatusExpired, FrameStatusConflict}"

interpretation frame_life: status_machine fr_Status frame_step frame_edge frame_terminal
proof unfold_locales
  fix c s
  show "snd (frame_step c s) = s \<or> frame_edge (fr_Status s) (fr_Status (snd (frame_step c s)))"
    by (cases c; cases "fr_Status s") (simp_all add: life_simps frame_edge_simps)
next
  fix st st'
  show "frame_terminal st \<Longrightarrow> \<not> frame_edge st st'"
    by (auto simp: frame_edge_simps frame_terminal_def)
qed

subsection \<open>Histories of sessions\<close>

abbreviation session_run :: "session_cmd list \<Rightarrow> Session \<Rightarrow> Session" where
  "session_run \<equiv> run_cmds session_step"

abbreviation enrollment_run :: "enrollment_cmd list \<Rightarrow> Enrollment \<Rightarrow> Enrollment" where
  "enrollment_run \<equiv> run_cmds enrollment_step"

abbreviation endpoint_run :: "endpoint_cmd list \<Rightarrow> Endpoint \<Rightarrow> Endpoint" where
  "endpoint_run \<equiv> run_cmds endpoint_step"

text \<open>How status, key generation and closing time agree in every session the platform creates.\<close>

definition session_inv :: "Session \<Rightarrow> bool" where
  "session_inv s \<longleftrightarrow>
     (se_ClosedAt s \<noteq> None \<longleftrightarrow> session_terminal (se_Status s)) \<and>
     (se_Status s \<in> {SessionStatusCreating, SessionStatusWaitingKey} \<longrightarrow> se_CurrentKeyGeneration s = 0) \<and>
     (se_Status s \<in> {SessionStatusActive, SessionStatusRekeyRequired, SessionStatusDraining,
        SessionStatusUncertain} \<longrightarrow> 0 < se_CurrentKeyGeneration s) \<and>
     (\<forall>other. se_Status s \<noteq> SessionStatusOther other)"

lemma session_step_inv: "session_inv s \<Longrightarrow> session_inv (snd (session_step c s))"
  by (cases c) (auto simp: life_simps session_inv_def session_terminal_def word_neq_0_conv)

lemma session_step_generation:
  "se_CurrentKeyGeneration s \<le> se_CurrentKeyGeneration (snd (session_step c s))"
  by (cases c) (auto simp: life_simps)

lemma session_run_generation: "se_CurrentKeyGeneration s \<le> se_CurrentKeyGeneration (session_run cs s)"
proof (induction cs arbitrary: s)
  case (Cons c cs)
  show ?case
    using session_step_generation [of s c] Cons [of "snd (session_step c s)"] by simp
qed simp

lemma Session_Activate_raises:
  "session_step (SeActivate g now) s = (None, s') \<Longrightarrow>
     se_CurrentKeyGeneration s < g \<and> se_CurrentKeyGeneration s' = g \<and> se_Status s' = SessionStatusActive"
  by (auto simp: life_simps split: if_splits)

text \<open>
  C21.  A session that has reached CLOSED or ABA_REVOKED is never changed again by any sequence of
  life-cycle operations.
\<close>

theorem session_terminal_forever:
  "session_terminal (se_Status (session_run cs s)) \<Longrightarrow>
     session_run (cs @ ds) s = session_run cs s"
  by (rule session_life.status_never_leaves)

text \<open>
  C20.  The key generation of a session never goes back: over any history it does not decrease, and
  a history that ends in a successful activation ends with a generation strictly above the one it
  started from, so no generation number is activated twice.
\<close>

theorem session_generation_never_reused:
  "se_CurrentKeyGeneration s \<le> se_CurrentKeyGeneration (session_run cs s) \<and>
   (session_step (SeActivate g now) (session_run cs s) = (None, t) \<longrightarrow>
      se_CurrentKeyGeneration s < se_CurrentKeyGeneration t \<and> se_CurrentKeyGeneration t = g)"
  using session_run_generation [of s cs] Session_Activate_raises [of g now "session_run cs s" t]
  by auto


definition sample_session :: Session where
  "sample_session = \<lparr>
     se_ID = sample_id 7, se_OwnerUserID = ''u1'', se_TenantID = [], se_ABAEndpointID = sample_id 1,
     se_HCEndpointID = sample_id 2, se_RuntimeProfileID = ''default'', se_WorkspaceID = ''main'',
     se_RequestedCapabilities = [''prompt''], se_Status = SessionStatusCreating,
     se_CurrentKeyGeneration = 0, se_CreatedAt = 1, se_UpdatedAt = 1, se_LastActivityAt = None,
     se_ClosedAt = None, se_RowVersion = 0\<rparr>"

lemma sample_session_run:
  "se_Status (session_run [SeWaitForKey 2, SeActivate 1 3, SeClose 4] sample_session) = SessionStatusClosed"
  by (simp add: sample_session_def life_simps)

theorem session_terminal_forever_witness:
  "session_run ([SeWaitForKey 2, SeActivate 1 3, SeClose 4] @ [SeRequireRekey 5, SeMarkABARevoked 6]) sample_session
   = session_run [SeWaitForKey 2, SeActivate 1 3, SeClose 4] sample_session"
  by (rule session_terminal_forever) (simp only: sample_session_run session_terminal_def simp_thms)

theorem session_generation_never_reused_witness:
  "se_CurrentKeyGeneration (snd (session_step (SeActivate 2 5)
     (session_run [SeWaitForKey 2, SeActivate 1 3, SeRequireRekey 4] sample_session))) = 2"
proof -
  have "session_step (SeActivate 2 5)
      (session_run [SeWaitForKey 2, SeActivate 1 3, SeRequireRekey 4] sample_session) =
      (None, snd (session_step (SeActivate 2 5)
        (session_run [SeWaitForKey 2, SeActivate 1 3, SeRequireRekey 4] sample_session)))"
    by (simp add: sample_session_def life_simps word_le_nat_alt)
  then show ?thesis
    using session_generation_never_reused by blast
qed


text \<open>
  C25.  The transition graph of sessions is exact: there is an edge between two statuses if and only
  if some operation, on some session in the first status, succeeds and leaves it changed in the
  second.
\<close>

lemma session_edge_realised:
  assumes "session_edge st st'"
  shows "\<exists>s c. se_Status s = st \<and> fst (session_step c s) = None \<and> snd (session_step c s) \<noteq> s \<and>
     se_Status (snd (session_step c s)) = st'"
proof -
  let ?s = "sample_session\<lparr>se_Status := st\<rparr>"
  have "\<exists>c. fst (session_step c ?s) = None \<and> se_Status (snd (session_step c ?s)) = st' \<and> st' \<noteq> st"
    using assms
  proof cases
    case key_wait
    then show ?thesis by (intro exI [of _ "SeWaitForKey 1"]) (simp add: life_simps)
  next
    case activate
    then show ?thesis
      by (intro exI [of _ "SeActivate 1 1"]) (auto simp: life_simps sample_session_def)
  next
    case rekey
    then show ?thesis by (intro exI [of _ "SeRequireRekey 1"]) (simp add: life_simps)
  next
    case uncertain
    then show ?thesis by (intro exI [of _ "SeMarkUncertain 1"]) (auto simp: life_simps)
  next
    case fail
    then show ?thesis by (intro exI [of _ "SeFail 1"]) (auto simp: life_simps)
  next
    case drain
    then show ?thesis by (intro exI [of _ "SeStartDraining 1"]) (simp add: life_simps)
  next
    case close
    then show ?thesis by (intro exI [of _ "SeClose 1"]) (auto simp: life_simps)
  next
    case aba_revoked
    then show ?thesis by (intro exI [of _ "SeMarkABARevoked 1"]) (auto simp: life_simps)
  qed
  then obtain c where "fst (session_step c ?s) = None" "se_Status (snd (session_step c ?s)) = st'" "st' \<noteq> st"
    by blast
  moreover from this have "snd (session_step c ?s) \<noteq> ?s" by auto
  ultimately show ?thesis by (intro exI [of _ ?s] exI [of _ c]) simp
qed

theorem session_graph_exact:
  "session_edge st st' \<longleftrightarrow>
     (\<exists>s c. se_Status s = st \<and> fst (session_step c s) = None \<and> snd (session_step c s) \<noteq> s \<and>
        se_Status (snd (session_step c s)) = st')"
  using session_edge_realised session_life.step_edge by blast

subsection \<open>Histories of enrollments and endpoints\<close>

text \<open>What an enrollment in each decided status carries.\<close>

definition enrollment_inv :: "Enrollment \<Rightarrow> bool" where
  "enrollment_inv e \<longleftrightarrow>
     (en_Status e \<in> {EnrollmentStatusApproved, EnrollmentStatusConsumed} \<longrightarrow>
        \<not> blank (en_ApprovedBy e) \<and> (\<exists>t. en_ApprovedAt e = Some t \<and> t < en_ExpiresAt e)) \<and>
     (en_Status e = EnrollmentStatusConsumed \<longrightarrow>
        \<not> IsZero (en_EndpointID e) \<and> (\<exists>t. en_ConsumedAt e = Some t \<and> t < en_ExpiresAt e)) \<and>
     (en_Status e \<noteq> EnrollmentStatusConsumed \<longrightarrow> en_ConsumedAt e = None)"

lemma enrollment_step_inv: "enrollment_inv e \<Longrightarrow> enrollment_inv (snd (enrollment_step c e))"
  by (cases c) (auto simp: life_simps enrollment_inv_def)

lemma enrollment_step_identity:
  "en_ExpiresAt (snd (enrollment_step c e)) = en_ExpiresAt e \<and>
   en_SigningJKT (snd (enrollment_step c e)) = en_SigningJKT e \<and>
   en_KEMJKT (snd (enrollment_step c e)) = en_KEMJKT e"
  by (cases c) (auto simp: life_simps)

lemma enrollment_run_identity:
  "en_ExpiresAt (enrollment_run cs e) = en_ExpiresAt e \<and>
   en_SigningJKT (enrollment_run cs e) = en_SigningJKT e \<and>
   en_KEMJKT (enrollment_run cs e) = en_KEMJKT e"
  by (induction cs arbitrary: e) (simp_all add: enrollment_step_identity)

text \<open>
  C23.  An enrollment that starts pending and unconsumed is consumed, after any history, only with a
  non-zero endpoint, by an approval with a named actor, both before the expiry it was created with;
  and it still carries the two key thumbprints it was created with.
\<close>

theorem enrollment_consumed_only_after_approval:
  assumes "en_Status e = EnrollmentStatusPending" "en_ConsumedAt e = None"
    and "en_Status (enrollment_run cs e) = EnrollmentStatusConsumed"
  shows "\<not> IsZero (en_EndpointID (enrollment_run cs e)) \<and>
     \<not> blank (en_ApprovedBy (enrollment_run cs e)) \<and>
     (\<exists>t. en_ApprovedAt (enrollment_run cs e) = Some t \<and> t < en_ExpiresAt e) \<and>
     (\<exists>t. en_ConsumedAt (enrollment_run cs e) = Some t \<and> t < en_ExpiresAt e) \<and>
     en_SigningJKT (enrollment_run cs e) = en_SigningJKT e \<and>
     en_KEMJKT (enrollment_run cs e) = en_KEMJKT e"
proof -
  have "enrollment_inv (enrollment_run cs e)"
    by (rule run_cmds_invariant [where P = enrollment_inv])
       (auto simp: assms(1,2) enrollment_inv_def [of e] intro: enrollment_step_inv)
  with assms(3) show ?thesis
    using enrollment_run_identity [of cs e] by (simp add: enrollment_inv_def)
qed

definition sample_enrollment :: Enrollment where
  "sample_enrollment = \<lparr>
     en_ID = sample_id 4, en_OwnerUserID = [], en_TenantID = [], en_EndpointType = EndpointTypeABA,
     en_EndpointName = ''bridge'', en_DeviceCodeHash = 1 # replicate 31 0, en_UserCodeHash = 2 # replicate 31 0,
     en_SigningPublicJWK = [123], en_KEMPublicJWK = [123, 32], en_SigningJKT = jktA, en_KEMJKT = jktB,
     en_Status = EnrollmentStatusPending, en_ExpiresAt = 100, en_ApprovedBy = [], en_ApprovedAt = None,
     en_ConsumedAt = None, en_EndpointID = zeroID, en_RowVersion = 0, en_CreatedAt = 1, en_UpdatedAt = 1\<rparr>"

lemma not_blank_u1: "\<not> blank ''u1''"
  by code_simp

theorem enrollment_consumed_only_after_approval_witness:
  "\<not> blank (en_ApprovedBy (enrollment_run [EnApprove ''u1'' 5, EnConsume (sample_id 1) 6] sample_enrollment))"
proof -
  have "en_Status (enrollment_run [EnApprove ''u1'' 5, EnConsume (sample_id 1) 6] sample_enrollment) =
      EnrollmentStatusConsumed"
    by (simp add: sample_enrollment_def life_simps not_blank_u1)
  then show ?thesis
    using enrollment_consumed_only_after_approval [of sample_enrollment
        "[EnApprove ''u1'' 5, EnConsume (sample_id 1) 6]"]
    by (simp add: sample_enrollment_def)
qed

text \<open>
  Revocation of an endpoint is final: after a history that leaves it revoked no operation
  changes it, activation, suspension and resumption report an error, and revoking it again
  succeeds without effect.
\<close>

lemma endpoint_revocation_final:
  assumes "ep_Status (endpoint_run cs e) = EndpointStatusRevoked"
  shows "endpoint_run (cs @ ds) e = endpoint_run cs e \<and>
     fst (endpoint_step c (endpoint_run (cs @ ds) e)) =
       (case c of EpActivate _ \<Rightarrow> Some (problem CodeInvalidState) | EpRevoke _ \<Rightarrow> None
                | _ \<Rightarrow> Some (problem CodeRevoked))"
proof -
  have "endpoint_run (cs @ ds) e = endpoint_run cs e"
    by (rule endpoint_life.status_never_leaves) (rule assms)
  then show ?thesis
    using assms by (cases c) (simp_all add: life_simps)
qed

lemma endpoint_revocation_final_witness:
  "endpoint_run ([EpRevoke 5] @ [EpResume 6, EpRevoke 7]) (sample_endpoint jktA jktB) =
   endpoint_run [EpRevoke 5] (sample_endpoint jktA jktB)"
proof -
  have "ep_Status (endpoint_run [EpRevoke 5] (sample_endpoint jktA jktB)) = EndpointStatusRevoked"
    by (simp add: sample_endpoint_def life_simps)
  from endpoint_revocation_final [OF this] show ?thesis by blast
qed

text \<open>
  C24.  The row version detects every change: two snapshots of a session, an enrollment or an
  endpoint that are fewer than \<open>2 ^ 64\<close> operations apart and carry the same row version are equal.
  This is what the conditional updates of the store rely on.
\<close>

theorem row_version_detects_change:
  assumes "length cs < 2 ^ 64" "length ds < 2 ^ 64" "length fs < 2 ^ 64"
  shows "(se_RowVersion (session_run cs s) = se_RowVersion s \<longrightarrow> session_run cs s = s) \<and>
     (en_RowVersion (enrollment_run ds n) = en_RowVersion n \<longrightarrow> enrollment_run ds n = n) \<and>
     (ep_RowVersion (endpoint_run fs e) = ep_RowVersion e \<longrightarrow> endpoint_run fs e = e)"
  using session_life.same_version_same_record [OF assms(1)]
    enrollment_life.same_version_same_record [OF assms(2)]
    endpoint_life.same_version_same_record [OF assms(3)] by blast

theorem row_version_detects_change_witness:
  "session_run [SeRequireRekey 3] sample_session = sample_session"
proof -
  have "se_RowVersion (session_run [SeRequireRekey 3] sample_session) = se_RowVersion sample_session"
    by (simp add: sample_session_def life_simps)
  moreover have "length [SeRequireRekey 3] < 2 ^ 64" "length ([] :: enrollment_cmd list) < 2 ^ 64"
    "length ([] :: endpoint_cmd list) < 2 ^ 64"
    by simp_all
  ultimately show ?thesis
    using row_version_detects_change [of "[SeRequireRekey 3]" "[]" "[]" sample_session] by blast
qed



end
