(* ===== verification/Domain_Records.thy ===== *)
theory Domain_Records
  imports Domain_Lifecycle
begin

section \<open>Audit events, idempotency records, outbox entries, key packages\<close>

text \<open>
  The remaining records of the domain package: \<^verbatim>\<open>domain/m1_audit.go\<close>,
  \<^verbatim>\<open>domain/m1_idempotency.go\<close>, \<^verbatim>\<open>domain/control_outbox.go\<close>,
  \<^verbatim>\<open>domain/key_package_security.go\<close> and \<^verbatim>\<open>domain/m2_identity.go\<close>.  A Go map that the
  code ranges over is an association list with distinct keys in the order in which the runtime
  iterates it.  The JSON checker and encoder are parameters.
\<close>

subsection \<open>Security audit events\<close>

definition MaxAuditMetadataEntries :: nat where
  "MaxAuditMetadataEntries = 16"

definition MaxAuditMetadataValueBytes :: nat where
  "MaxAuditMetadataValueBytes = 256"

datatype AuditActorType = AuditActorHuman | AuditActorEndpoint | AuditActorSystem | AuditActorOther string

primrec AuditActorType_Valid :: "AuditActorType \<Rightarrow> bool" where
  "AuditActorType_Valid AuditActorHuman = True"
| "AuditActorType_Valid AuditActorEndpoint = True"
| "AuditActorType_Valid AuditActorSystem = True"
| "AuditActorType_Valid (AuditActorOther s) = False"

record SecurityAuditEvent =
  au_ID :: ID
  au_OwnerUserID :: string
  au_TenantID :: string
  au_ActorType :: AuditActorType
  au_ActorID :: string
  au_Action :: string
  au_ObjectType :: string
  au_ObjectID :: string
  au_Result :: string
  au_ErrorCode :: string
  au_Metadata :: "(string \<times> string) list"
  au_CreatedAt :: time

definition safeAuditValue :: "string \<Rightarrow> nat \<Rightarrow> bool" where
  "safeAuditValue value0 maxBytes =
     (let value = TrimSpace value0 in
      value \<noteq> [] \<and> ValidString value \<and> length value \<le> maxBytes \<and> \<not> forbiddenMetadataValue value)"

definition allowedAuditMetadataKeys :: "string list" where
  "allowedAuditMetadataKeys =
     [''currentStatus'', ''decision'', ''endpointType'', ''httpStatus'', ''keyGeneration'',
      ''previousStatus'', ''replayed'', ''requestOutcome'', ''resourceVersion'', ''sessionStatus'']"

fun check_metadata :: "(string \<times> string) list \<Rightarrow> go_error option" where
  "check_metadata [] = None"
| "check_metadata ((key, value) # rest) =
     (if key \<notin> set allowedAuditMetadataKeys then Some (problem CodeSecurityViolation)
      else if \<not> safeAuditValue value MaxAuditMetadataValueBytes then Some (problem CodeInvalidArgument)
      else check_metadata rest)"

definition SecurityAuditEvent_Validate :: "SecurityAuditEvent \<Rightarrow> go_error option" where
  "SecurityAuditEvent_Validate event =
     (if IsZero (au_ID event) then Some (problem CodeInvalidArgument)
      else if blank (au_OwnerUserID event) then Some (problem CodeInvalidArgument)
      else if \<not> AuditActorType_Valid (au_ActorType event) \<or> \<not> safeAuditValue (au_ActorID event) 128
        then Some (problem CodeInvalidArgument)
      else if \<not> auditTokenPattern (au_Action event) \<or> \<not> auditTokenPattern (au_ObjectType event) \<or>
              \<not> auditTokenPattern (au_Result event) then Some (problem CodeInvalidArgument)
      else if \<not> safeAuditValue (au_ObjectID event) 256 then Some (problem CodeInvalidArgument)
      else if au_ErrorCode event \<noteq> [] \<and> \<not> auditCodePattern (au_ErrorCode event)
        then Some (problem CodeInvalidArgument)
      else if IsZeroTime (au_CreatedAt event) then Some (problem CodeInvalidArgument)
      else if length (au_Metadata event) > MaxAuditMetadataEntries then Some (problem CodeResourceLimit)
      else check_metadata (au_Metadata event))"

text \<open>
  \<^verbatim>\<open>json.Marshal\<close> receives the rebuilt map; \<open>marshal\<close> is a function of the map, not of an
  order of its keys.
\<close>

definition CanonicalMetadataJSON ::
    "((string \<Rightarrow> string option) \<Rightarrow> byte list result) \<Rightarrow> SecurityAuditEvent \<Rightarrow> byte list result" where
  "CanonicalMetadataJSON marshal event =
     (case SecurityAuditEvent_Validate event of
        Some err \<Rightarrow> Inl err
      | None \<Rightarrow>
          (let keys = sort (map fst (au_Metadata event));
               ordered = map_of (map (\<lambda>key. (key, case map_of (au_Metadata event) key of
                                                     Some v \<Rightarrow> v | None \<Rightarrow> [])) keys)
           in case marshal ordered of Inl err \<Rightarrow> Inl (Wrap err) | Inr encoded \<Rightarrow> Inr encoded))"

lemma check_metadata_None:
  "check_metadata md = None \<longleftrightarrow>
     (\<forall>(k, v) \<in> set md. k \<in> set allowedAuditMetadataKeys \<and> safeAuditValue v MaxAuditMetadataValueBytes)"
  by (induction md rule: check_metadata.induct) auto

lemma ordered_map_of:
  fixes md :: "(string \<times> string) list"
  shows "map_of (map (\<lambda>key. (key, case map_of md key of Some v \<Rightarrow> v | None \<Rightarrow> [])) (sort (map fst md))) = map_of md"
proof (rule ext)
  fix k
  have "map_of (map (\<lambda>key. (key, f key)) ks) k = (if k \<in> set ks then Some (f k) else None)"
    for f :: "string \<Rightarrow> string" and ks
    by (induction ks) auto
  moreover have "k \<in> fst ` set md \<longleftrightarrow> map_of md k \<noteq> None"
    by (simp add: map_of_eq_None_iff)
  ultimately show "map_of (map (\<lambda>key. (key, case map_of md key of Some v \<Rightarrow> v | None \<Rightarrow> []))
      (sort (map fst md))) k = map_of md k"
    by (auto split: option.splits)
qed

text \<open>
  Whether an audit event is accepted, and the JSON stored for its metadata, do not depend on
  the order in which the runtime iterates the metadata map; and an accepted event carries at most
  16 entries, all with allow-listed keys and printable values of at most 256 bytes.
\<close>

lemma audit_metadata_order_irrelevant:
  assumes "distinct (map fst md)" "distinct (map fst md')" "map_of md = map_of md'"
  shows "(SecurityAuditEvent_Validate (e\<lparr>au_Metadata := md\<rparr>) = None \<longleftrightarrow>
          SecurityAuditEvent_Validate (e\<lparr>au_Metadata := md'\<rparr>) = None) \<and>
     (SecurityAuditEvent_Validate (e\<lparr>au_Metadata := md\<rparr>) = None \<longrightarrow>
        CanonicalMetadataJSON marshal (e\<lparr>au_Metadata := md\<rparr>) =
          CanonicalMetadataJSON marshal (e\<lparr>au_Metadata := md'\<rparr>) \<and>
        length md \<le> 16 \<and>
        (\<forall>(k, v) \<in> set md. k \<in> set allowedAuditMetadataKeys \<and> safeAuditValue v 256))"
proof -
  have set_eq: "set md = set md'"
    using assms by (simp add: map_of_inject_set)
  then have len: "length md = length md'"
    using assms(1,2) by (metis distinct_card distinct_map)
  have valid: "SecurityAuditEvent_Validate (e\<lparr>au_Metadata := md\<rparr>) = None \<longleftrightarrow>
      SecurityAuditEvent_Validate (e\<lparr>au_Metadata := md'\<rparr>) = None"
    using set_eq len check_metadata_None [of md] check_metadata_None [of md']
    by (simp add: SecurityAuditEvent_Validate_def)
  moreover have "check_metadata md = None \<and> length md \<le> 16"
    if "SecurityAuditEvent_Validate (e\<lparr>au_Metadata := md\<rparr>) = None"
    using that by (simp add: SecurityAuditEvent_Validate_def MaxAuditMetadataEntries_def split: if_splits)
  moreover have "CanonicalMetadataJSON marshal (e\<lparr>au_Metadata := md\<rparr>) =
      CanonicalMetadataJSON marshal (e\<lparr>au_Metadata := md'\<rparr>)"
    if "SecurityAuditEvent_Validate (e\<lparr>au_Metadata := md\<rparr>) = None"
    using that valid ordered_map_of [of md] ordered_map_of [of md'] assms(3)
    by (simp add: CanonicalMetadataJSON_def Let_def)
  ultimately show ?thesis
    by (simp add: check_metadata_None MaxAuditMetadataValueBytes_def)
qed

definition sample_audit :: SecurityAuditEvent where
  "sample_audit = \<lparr>
     au_ID = sample_id 5, au_OwnerUserID = ''u1'', au_TenantID = [], au_ActorType = AuditActorEndpoint,
     au_ActorID = ''a'', au_Action = ''session.close'', au_ObjectType = ''session'', au_ObjectID = ''s'',
     au_Result = ''success'', au_ErrorCode = [], au_Metadata = [], au_CreatedAt = 3\<rparr>"

lemma audit_metadata_order_irrelevant_witness:
  "CanonicalMetadataJSON (\<lambda>m. Inr (if m ''replayed'' = None then [] else [1]))
     (sample_audit\<lparr>au_Metadata := [(''decision'', ''ok''), (''replayed'', ''false'')]\<rparr>) =
   CanonicalMetadataJSON (\<lambda>m. Inr (if m ''replayed'' = None then [] else [1]))
     (sample_audit\<lparr>au_Metadata := [(''replayed'', ''false''), (''decision'', ''ok'')]\<rparr>)"
proof -
  have v: "SecurityAuditEvent_Validate
      (sample_audit\<lparr>au_Metadata := [(''decision'', ''ok''), (''replayed'', ''false'')]\<rparr>) = None"
    by code_simp
  have m: "map_of [(''decision'', ''ok''), (''replayed'', ''false'')] =
      map_of [(''replayed'', ''false''), (''decision'', ''ok'')]"
    by (auto simp: fun_eq_iff)
  show ?thesis
    using audit_metadata_order_irrelevant [OF _ _ m] v by simp
qed

subsection \<open>Idempotency records\<close>

definition MaxIdempotencyResponseBytes :: int where
  "MaxIdempotencyResponseBytes = 64 * 1024"

datatype IdempotencyStatus =
    IdempotencyStatusInProgress | IdempotencyStatusCompleted | IdempotencyStatusOther string

definition IdempotencyStatus_Valid :: "IdempotencyStatus \<Rightarrow> bool" where
  "IdempotencyStatus_Valid v \<longleftrightarrow> v = IdempotencyStatusInProgress \<or> v = IdempotencyStatusCompleted"

record IdempotencyRecord =
  id_ID :: ID
  id_OwnerUserID :: string
  id_TenantID :: string
  id_ActorID :: string
  id_Operation :: string
  id_Key :: string
  id_RequestHash :: "byte list"
  id_Status :: IdempotencyStatus
  id_HTTPStatus :: int
  id_ResponseJSON :: "byte list"
  id_ErrorCode :: string
  id_CreatedAt :: time
  id_UpdatedAt :: time
  id_ExpiresAt :: time
  id_RowVersion :: u64

definition ValidateIdempotencyKey :: "string \<Rightarrow> go_error option" where
  "ValidateIdempotencyKey value =
     (if \<not> idempotencyKeyPattern value then Some (problem CodeInvalidArgument) else None)"

definition IdempotencyRecord_Validate ::
    "(byte list \<Rightarrow> bool) \<Rightarrow> IdempotencyRecord \<Rightarrow> int \<Rightarrow> go_error option" where
  "IdempotencyRecord_Validate json_valid r maxResponseBytes0 =
     (if IsZero (id_ID r) then Some (problem CodeInvalidArgument)
      else if blank (id_OwnerUserID r) \<or> \<not> safeAuditValue (id_ActorID r) 128
        then Some (problem CodeInvalidArgument)
      else if \<not> auditTokenPattern (id_Operation r) then Some (problem CodeInvalidArgument)
      else case ValidateIdempotencyKey (id_Key r) of
        Some err \<Rightarrow> Some err
      | None \<Rightarrow>
        if allZero (id_RequestHash r) \<or> \<not> IdempotencyStatus_Valid (id_Status r)
          then Some (problem CodeInvalidArgument)
        else if IsZeroTime (id_CreatedAt r) \<or> IsZeroTime (id_UpdatedAt r) \<or>
                \<not> id_ExpiresAt r > id_CreatedAt r then Some (problem CodeInvalidArgument)
        else
          (let maxResponseBytes =
                 (if maxResponseBytes0 \<le> 0 then MaxIdempotencyResponseBytes else maxResponseBytes0) in
           case id_Status r of
             IdempotencyStatusInProgress \<Rightarrow>
               if id_HTTPStatus r \<noteq> 0 \<or> length (id_ResponseJSON r) \<noteq> 0 \<or> id_ErrorCode r \<noteq> []
                 then Some (problem CodeInvalidState) else None
           | IdempotencyStatusCompleted \<Rightarrow>
               if id_HTTPStatus r < 100 \<or> id_HTTPStatus r > 599 \<or> length (id_ResponseJSON r) = 0 \<or>
                  int (length (id_ResponseJSON r)) > maxResponseBytes \<or> \<not> json_valid (id_ResponseJSON r)
                 then Some (problem CodeInvalidArgument)
               else if id_ErrorCode r \<noteq> [] \<and> \<not> auditCodePattern (id_ErrorCode r)
                 then Some (problem CodeInvalidArgument)
               else None
           | IdempotencyStatusOther _ \<Rightarrow> None))"

subsection \<open>Control outbox\<close>

datatype ControlOutboxKind =
    ControlOutboxOpenTunnel | ControlOutboxSessionKeyPackage | ControlOutboxSessionKeyPackageACK
  | ControlOutboxCloseTunnel | ControlOutboxKindOther string

primrec ControlOutboxKind_Valid :: "ControlOutboxKind \<Rightarrow> bool" where
  "ControlOutboxKind_Valid ControlOutboxOpenTunnel = True"
| "ControlOutboxKind_Valid ControlOutboxSessionKeyPackage = True"
| "ControlOutboxKind_Valid ControlOutboxSessionKeyPackageACK = True"
| "ControlOutboxKind_Valid ControlOutboxCloseTunnel = True"
| "ControlOutboxKind_Valid (ControlOutboxKindOther s) = False"

datatype ControlOutboxStatus =
    ControlOutboxPending | ControlOutboxCompleted | ControlOutboxCancelled | ControlOutboxExpired
  | ControlOutboxStatusOther string

record ControlOutbox =
  ob_ID :: ID
  ob_OwnerUserID :: string
  ob_TenantID :: string
  ob_SessionID :: ID
  ob_CorrelationID :: ID
  ob_RecipientEndpointID :: ID
  ob_Kind :: ControlOutboxKind
  ob_Payload :: "byte list"
  ob_Packet :: "byte list"
  ob_Status :: ControlOutboxStatus
  ob_CreatedAt :: time
  ob_UpdatedAt :: time
  ob_ExpiresAt :: time
  ob_CompletedAt :: "time option"
  ob_RowVersion :: u64

definition ControlOutbox_ValidateNew :: "int \<Rightarrow> int \<Rightarrow> ControlOutbox \<Rightarrow> go_error option" where
  "ControlOutbox_ValidateNew maxPayloadBytes maxPacketBytes v =
     (if IsZero (ob_ID v) \<or> IsZero (ob_SessionID v) \<or> IsZero (ob_CorrelationID v) \<or>
         IsZero (ob_RecipientEndpointID v) \<or> blank (ob_OwnerUserID v) \<or>
         \<not> ControlOutboxKind_Valid (ob_Kind v) \<or> ob_Status v \<noteq> ControlOutboxPending \<or>
         IsZeroTime (ob_CreatedAt v) \<or> IsZeroTime (ob_UpdatedAt v) \<or>
         \<not> ob_ExpiresAt v > ob_CreatedAt v \<or> ob_CompletedAt v \<noteq> None \<or>
         maxPayloadBytes \<le> 0 \<or> maxPacketBytes \<le> 0 then Some (problem CodeInvalidArgument)
      else if ob_Kind v \<in> {ControlOutboxOpenTunnel, ControlOutboxCloseTunnel} then
        (if length (ob_Payload v) = 0 \<or> int (length (ob_Payload v)) > maxPayloadBytes \<or> length (ob_Packet v) \<noteq> 0
         then Some (problem CodeInvalidArgument) else None)
      else if ob_Kind v \<in> {ControlOutboxSessionKeyPackage, ControlOutboxSessionKeyPackageACK} then
        (if length (ob_Packet v) = 0 \<or> int (length (ob_Packet v)) > maxPacketBytes \<or> length (ob_Payload v) \<noteq> 0
         then Some (problem CodeInvalidArgument) else None)
      else Some (problem CodeInvalidArgument))"

definition ControlOutbox_ValidateStored :: "int \<Rightarrow> int \<Rightarrow> ControlOutbox \<Rightarrow> go_error option" where
  "ControlOutbox_ValidateStored maxPayloadBytes maxPacketBytes v =
     (if IsZero (ob_ID v) \<or> IsZero (ob_SessionID v) \<or> IsZero (ob_CorrelationID v) \<or>
         IsZero (ob_RecipientEndpointID v) \<or> blank (ob_OwnerUserID v) \<or>
         \<not> ControlOutboxKind_Valid (ob_Kind v) \<or> IsZeroTime (ob_CreatedAt v) \<or> IsZeroTime (ob_UpdatedAt v) \<or>
         \<not> ob_ExpiresAt v > ob_CreatedAt v \<or> maxPayloadBytes \<le> 0 \<or> maxPacketBytes \<le> 0
        then Some (problem CodeInvalidArgument)
      else case (case ob_Status v of
            ControlOutboxPending \<Rightarrow> if ob_CompletedAt v \<noteq> None then Some (problem CodeInvalidState) else None
          | ControlOutboxStatusOther _ \<Rightarrow> Some (problem CodeInvalidState)
          | _ \<Rightarrow> if ob_CompletedAt v = None then Some (problem CodeInvalidState) else None) of
        Some err \<Rightarrow> Some err
      | None \<Rightarrow> ControlOutbox_ValidateNew maxPayloadBytes maxPacketBytes
                  (v\<lparr>ob_Status := ControlOutboxPending, ob_CompletedAt := None\<rparr>))"

definition ControlOutbox_Complete :: "time \<Rightarrow> ControlOutbox \<Rightarrow> go_error option \<times> ControlOutbox" where
  [life_simps]: "ControlOutbox_Complete now v =
     (if IsZeroTime now then (Some (problem CodeInvalidArgument), v)
      else if ob_Status v = ControlOutboxCompleted then (None, v)
      else if ob_Status v \<noteq> ControlOutboxPending then (Some (problem CodeInvalidState), v)
      else (None, v\<lparr>ob_Status := ControlOutboxCompleted, ob_CompletedAt := Some now,
                    ob_UpdatedAt := now, ob_RowVersion := ob_RowVersion v + 1\<rparr>))"

interpretation outbox_life: versioned_machine
  ob_Status ControlOutbox_Complete
  "\<lambda>st st'. st = ControlOutboxPending \<and> st' = ControlOutboxCompleted"
  "\<lambda>st. st \<noteq> ControlOutboxPending" ob_RowVersion
proof unfold_locales
  fix now v
  show "snd (ControlOutbox_Complete now v) = v \<or>
      ob_Status v = ControlOutboxPending \<and> ob_Status (snd (ControlOutbox_Complete now v)) = ControlOutboxCompleted"
    by (cases "ob_Status v") (simp_all add: life_simps)
  show "snd (ControlOutbox_Complete now v) \<noteq> v \<Longrightarrow>
      ob_RowVersion (snd (ControlOutbox_Complete now v)) = ob_RowVersion v + 1"
    by (cases "ob_Status v") (simp_all add: life_simps split: if_splits)
qed simp

lemma outbox_new_is_stored:
  "ControlOutbox_ValidateNew p q v = None \<Longrightarrow> ControlOutbox_ValidateStored p q v = None"
  by (auto simp: ControlOutbox_ValidateNew_def ControlOutbox_ValidateStored_def split: if_splits)

lemma outbox_complete_stored:
  assumes "ControlOutbox_ValidateStored p q v = None"
  shows "ControlOutbox_ValidateStored p q (snd (ControlOutbox_Complete now v)) = None"
proof (cases "snd (ControlOutbox_Complete now v) = v")
  case True
  with assms show ?thesis by simp
next
  case False
  then have s: "ob_Status v = ControlOutboxPending" "\<not> IsZeroTime now"
    by (auto simp: life_simps split: if_splits)
  then show ?thesis
    using assms by (cases "ob_Kind v") (simp_all add: life_simps ControlOutbox_ValidateStored_def
        ControlOutbox_ValidateNew_def split: if_splits)
qed

text \<open>
  An outbox entry that was valid when created is accepted as a stored entry after any number of
  completions, and once completed no further completion changes it.
\<close>

lemma outbox_entry_stays_valid:
  assumes "ControlOutbox_ValidateNew p q v = None"
  shows "ControlOutbox_ValidateStored p q (run_cmds ControlOutbox_Complete nows v) = None \<and>
     (ob_Status (run_cmds ControlOutbox_Complete nows v) = ControlOutboxCompleted \<longrightarrow>
        run_cmds ControlOutbox_Complete (nows @ later) v = run_cmds ControlOutbox_Complete nows v)"
proof
  show "ControlOutbox_ValidateStored p q (run_cmds ControlOutbox_Complete nows v) = None"
    by (rule run_cmds_invariant [where P = "\<lambda>v. ControlOutbox_ValidateStored p q v = None"])
       (auto intro: outbox_complete_stored outbox_new_is_stored [OF assms])
  show "ob_Status (run_cmds ControlOutbox_Complete nows v) = ControlOutboxCompleted \<longrightarrow>
      run_cmds ControlOutbox_Complete (nows @ later) v = run_cmds ControlOutbox_Complete nows v"
    using outbox_life.status_never_leaves [of nows v later] by simp
qed

definition sample_outbox :: ControlOutbox where
  "sample_outbox = \<lparr>
     ob_ID = sample_id 6, ob_OwnerUserID = ''u1'', ob_TenantID = [], ob_SessionID = sample_id 7,
     ob_CorrelationID = sample_id 7, ob_RecipientEndpointID = sample_id 1, ob_Kind = ControlOutboxOpenTunnel,
     ob_Payload = [1], ob_Packet = [], ob_Status = ControlOutboxPending, ob_CreatedAt = 1, ob_UpdatedAt = 1,
     ob_ExpiresAt = 50, ob_CompletedAt = None, ob_RowVersion = 0\<rparr>"

lemma outbox_entry_stays_valid_witness:
  "ControlOutbox_ValidateStored 10 10 (run_cmds ControlOutbox_Complete [2, 3] sample_outbox) = None"
proof -
  have "ControlOutbox_ValidateNew 10 10 sample_outbox = None"
    by (simp add: ControlOutbox_ValidateNew_def sample_outbox_def not_blank_u1 IsZeroTime_def)
  from outbox_entry_stays_valid [OF this] show ?thesis by blast
qed

subsection \<open>Session key packages\<close>

definition MaxKeyPackageEncapsulatedKeyBytes :: int where
  "MaxKeyPackageEncapsulatedKeyBytes = 512"

definition MaxKeyPackageCiphertextBytes :: int where
  "MaxKeyPackageCiphertextBytes = 16 * 1024"

definition CryptoSuiteMSSAWPSuite0001 :: "16 word" where
  "CryptoSuiteMSSAWPSuite0001 = 1"

primrec KeyPackageStatus_Valid :: "KeyPackageStatus \<Rightarrow> bool" where
  "KeyPackageStatus_Valid KeyPackageStatusPending = True"
| "KeyPackageStatus_Valid KeyPackageStatusDelivered = True"
| "KeyPackageStatus_Valid KeyPackageStatusAcknowledged = True"
| "KeyPackageStatus_Valid KeyPackageStatusExpired = True"
| "KeyPackageStatus_Valid KeyPackageStatusRevoked = True"
| "KeyPackageStatus_Valid (KeyPackageStatusOther s) = False"

definition ValidateKeyPackageCryptoSuite :: "16 word \<Rightarrow> go_error option" where
  "ValidateKeyPackageCryptoSuite v =
     (if v = 0 then Some (problem CodeInvalidArgument)
      else if v = CryptoSuiteMSSAWPSuite0001 then None
      else Some (problem CodeSecurityViolation))"

definition AllowsSessionKeyPackage :: "EndpointStatus \<Rightarrow> bool" where
  "AllowsSessionKeyPackage v \<longleftrightarrow> v = EndpointStatusActive"

definition ValidateNextKeyPackageGeneration :: "Session \<Rightarrow> u64 \<Rightarrow> go_error option" where
  "ValidateNextKeyPackageGeneration s generation =
     (if generation = 0 then Some (problem CodeInvalidArgument)
      else case se_Status s of
        SessionStatusWaitingKey \<Rightarrow>
          if se_CurrentKeyGeneration s \<noteq> 0 \<or> generation \<noteq> 1 then Some (problem CodeInvalidState) else None
      | SessionStatusRekeyRequired \<Rightarrow>
          if se_CurrentKeyGeneration s = 0 \<or> se_CurrentKeyGeneration s = - 1 \<or>
             generation \<noteq> se_CurrentKeyGeneration s + 1 then Some (problem CodeInvalidState) else None
      | _ \<Rightarrow> Some (problem CodeInvalidState))"

definition SessionKeyPackage_Validate :: "int \<Rightarrow> int \<Rightarrow> SessionKeyPackage \<Rightarrow> go_error option" where
  "SessionKeyPackage_Validate maxEncapsulatedKeyBytes0 maxCiphertextBytes0 v =
     (if IsZero (kp_ID v) \<or> IsZero (kp_SessionID v) \<or> IsZero (kp_IssuerABAEndpointID v) \<or>
         IsZero (kp_RecipientHCEndpointID v) \<or> IsZero (kp_IssuerCredentialID v)
        then Some (problem CodeInvalidArgument)
      else if kp_IssuerABAEndpointID v = kp_RecipientHCEndpointID v then Some (problem CodeSecurityViolation)
      else if kp_Generation v = 0 \<or> \<not> KeyPackageStatus_Valid (kp_Status v) then Some (problem CodeInvalidArgument)
      else case ValidateKeyPackageCryptoSuite (kp_CryptoSuite v) of
        Some err \<Rightarrow> Some err
      | None \<Rightarrow>
        (let maxEncapsulatedKeyBytes =
               (if maxEncapsulatedKeyBytes0 \<le> 0 then MaxKeyPackageEncapsulatedKeyBytes else maxEncapsulatedKeyBytes0);
             maxCiphertextBytes =
               (if maxCiphertextBytes0 \<le> 0 then MaxKeyPackageCiphertextBytes else maxCiphertextBytes0) in
         if length (kp_EncapsulatedKey v) = 0 \<or> int (length (kp_EncapsulatedKey v)) > maxEncapsulatedKeyBytes \<or>
            length (kp_Ciphertext v) = 0 \<or> int (length (kp_Ciphertext v)) > maxCiphertextBytes
           then Some (problem CodeResourceLimit)
         else if allZero (kp_ContextHash v) \<or> length (kp_IssuerSignature v) \<noteq> 64 \<or> allZero (kp_IssuerSignature v)
           then Some (problem CodeInvalidArgument)
         else if IsZeroTime (kp_CreatedAt v) \<or> \<not> kp_ExpiresAt v > kp_CreatedAt v
           then Some (problem CodeInvalidArgument)
         else if kp_Status v = KeyPackageStatusAcknowledged \<and> kp_AcknowledgedAt v = None
           then Some (problem CodeInvalidState)
         else case kp_AcknowledgedAt v of
             Some t \<Rightarrow> if t < kp_CreatedAt v then Some (problem CodeInvalidArgument) else None
           | None \<Rightarrow> None))"

definition SessionKeyPackage_Acknowledge ::
    "ID \<Rightarrow> time \<Rightarrow> SessionKeyPackage \<Rightarrow> go_error option \<times> SessionKeyPackage" where
  [life_simps]: "SessionKeyPackage_Acknowledge recipient now v =
     (if IsZero recipient \<or> recipient \<noteq> kp_RecipientHCEndpointID v
        then (Some (problem CodeSecurityViolation), v)
      else if kp_Status v = KeyPackageStatusAcknowledged then (None, v)
      else if kp_Status v \<noteq> KeyPackageStatusPending \<and> kp_Status v \<noteq> KeyPackageStatusDelivered
        then (Some (problem CodeInvalidState), v)
      else if IsZeroTime now \<or> \<not> now < kp_ExpiresAt v then (Some (problem CodeExpired), v)
      else (None, v\<lparr>kp_Status := KeyPackageStatusAcknowledged, kp_AcknowledgedAt := Some now\<rparr>))"

interpretation key_package_life: status_machine
  kp_Status "\<lambda>(recipient, now). SessionKeyPackage_Acknowledge recipient now"
  "\<lambda>st st'. st \<in> {KeyPackageStatusPending, KeyPackageStatusDelivered} \<and> st' = KeyPackageStatusAcknowledged"
  "\<lambda>st. st \<notin> {KeyPackageStatusPending, KeyPackageStatusDelivered}"
proof unfold_locales
  fix c :: "ID \<times> time" and v
  show "snd ((case c of (recipient, now) \<Rightarrow> SessionKeyPackage_Acknowledge recipient now) v) = v \<or>
      kp_Status v \<in> {KeyPackageStatusPending, KeyPackageStatusDelivered} \<and>
      kp_Status (snd ((case c of (recipient, now) \<Rightarrow> SessionKeyPackage_Acknowledge recipient now) v)) =
        KeyPackageStatusAcknowledged"
    by (cases c; cases "kp_Status v") (simp_all add: life_simps)
qed auto

text \<open>
  The generation check admits exactly one number per session state: 1 for a session that waits
  for its first key and has none, the successor for a session that requires a rekey.  The admitted
  number is one more than the current generation as a natural number (it never wraps), and
  activating the session with it succeeds.
\<close>

lemma next_generation_exact:
  "(ValidateNextKeyPackageGeneration s g = None \<longleftrightarrow>
      (se_Status s = SessionStatusWaitingKey \<and> se_CurrentKeyGeneration s = 0 \<or>
       se_Status s = SessionStatusRekeyRequired \<and> se_CurrentKeyGeneration s \<noteq> 0 \<and>
         unat (se_CurrentKeyGeneration s) < 2 ^ 64 - 1) \<and>
      unat g = unat (se_CurrentKeyGeneration s) + 1) \<and>
   (ValidateNextKeyPackageGeneration s g = None \<longrightarrow>
      fst (Session_Activate g now s) = None \<and>
      se_CurrentKeyGeneration (snd (Session_Activate g now s)) = g)"
proof -
  let ?c = "se_CurrentKeyGeneration s"
  have max: "?c \<noteq> - 1 \<longleftrightarrow> unat ?c < 2 ^ 64 - 1"
    using u64_max_iff by blast
  have succ: "g = ?c + 1 \<longleftrightarrow> unat g = unat ?c + 1" if "?c \<noteq> - 1"
    using u64_succ_iff [OF that] by blast
  have exact: "ValidateNextKeyPackageGeneration s g = None \<longleftrightarrow>
      (se_Status s = SessionStatusWaitingKey \<and> ?c = 0 \<or>
       se_Status s = SessionStatusRekeyRequired \<and> ?c \<noteq> 0 \<and> ?c \<noteq> - 1) \<and> g = ?c + 1"
    by (cases "se_Status s") (auto simp: ValidateNextKeyPackageGeneration_def word_succ_zero_iff)
  moreover have "\<not> g \<le> ?c \<and> g \<noteq> 0" if "g = ?c + 1" "?c \<noteq> - 1"
    using that u64_succ_iff [of ?c g] by (auto simp: word_le_nat_alt)
  ultimately show ?thesis
    using max succ by (auto simp: Session_Activate_def)
qed

lemma next_generation_exact_witness:
  "fst (Session_Activate 1 5 (sample_session\<lparr>se_Status := SessionStatusWaitingKey\<rparr>)) = None"
proof -
  have "ValidateNextKeyPackageGeneration (sample_session\<lparr>se_Status := SessionStatusWaitingKey\<rparr>) 1 = None"
    by (simp add: ValidateNextKeyPackageGeneration_def sample_session_def)
  then show ?thesis using next_generation_exact by blast
qed

text \<open>
  A valid key package stays valid when it is acknowledged at or after its creation, only its
  recipient can acknowledge it and only before its expiry, and a second acknowledgement by the
  recipient succeeds without changing it.
\<close>

lemma key_package_acknowledgement:
  assumes "SessionKeyPackage_Validate p q v = None" "kp_CreatedAt v \<le> now"
    and "SessionKeyPackage_Acknowledge recipient now v = (None, v')"
  shows "SessionKeyPackage_Validate p q v' = None \<and> recipient = kp_RecipientHCEndpointID v \<and>
     kp_Status v' = KeyPackageStatusAcknowledged \<and> (v' \<noteq> v \<longrightarrow> now < kp_ExpiresAt v) \<and>
     (\<forall>later. SessionKeyPackage_Acknowledge recipient later v' = (None, v'))"
proof -
  have r: "recipient = kp_RecipientHCEndpointID v" "\<not> IsZero recipient"
    using assms(3) by (auto simp: life_simps split: if_splits)
  show ?thesis
  proof (cases "kp_Status v = KeyPackageStatusAcknowledged")
    case True
    with assms r show ?thesis by (simp add: life_simps)
  next
    case False
    with assms(3) r have v': "v' = v\<lparr>kp_Status := KeyPackageStatusAcknowledged, kp_AcknowledgedAt := Some now\<rparr>"
      and t: "now < kp_ExpiresAt v"
      by (auto simp: life_simps split: if_splits)
    have "SessionKeyPackage_Validate p q v' = None"
      using assms(1,2) unfolding v' by (simp add: SessionKeyPackage_Validate_def Let_def
          split: if_splits option.splits)
    with r t v' show ?thesis by (simp add: life_simps)
  qed
qed

definition sample_package :: SessionKeyPackage where
  "sample_package = \<lparr>
     kp_ID = sample_id 8, kp_SessionID = sample_id 7, kp_Generation = 1, kp_IssuerABAEndpointID = sample_id 1,
     kp_RecipientHCEndpointID = sample_id 2, kp_CryptoSuite = 1, kp_EncapsulatedKey = [1], kp_Ciphertext = [1],
     kp_ContextHash = [1], kp_IssuerSignature = replicate 64 1, kp_IssuerCredentialID = sample_id 3,
     kp_Status = KeyPackageStatusPending, kp_ExpiresAt = 50, kp_AcknowledgedAt = None, kp_CreatedAt = 1\<rparr>"

lemma sample_package_valid: "SessionKeyPackage_Validate 0 0 sample_package = None"
  by code_simp

lemma key_package_acknowledgement_witness:
  "SessionKeyPackage_Validate 0 0 (snd (SessionKeyPackage_Acknowledge (sample_id 2) 5 sample_package)) = None"
proof -
  have "SessionKeyPackage_Acknowledge (sample_id 2) 5 sample_package =
      (None, snd (SessionKeyPackage_Acknowledge (sample_id 2) 5 sample_package))"
    by (simp add: life_simps sample_package_def IsZeroTime_def)
  moreover have "kp_CreatedAt sample_package \<le> 5"
    by (simp add: sample_package_def)
  ultimately show ?thesis
    using key_package_acknowledgement [OF sample_package_valid] by blast
qed

subsection \<open>Registration challenges and refresh credentials\<close>

datatype HCRegistrationChallengeStatus =
    HCRegistrationChallengePending | HCRegistrationChallengeConsumed | HCRegistrationChallengeExpired
  | HCRegistrationChallengeOther string

record HCRegistrationChallenge =
  ch_ID :: ID
  ch_OwnerUserID :: string
  ch_TenantID :: string
  ch_Origin :: string
  ch_ChallengeHash :: "byte list"
  ch_Status :: HCRegistrationChallengeStatus
  ch_ExpiresAt :: time
  ch_ConsumedAt :: "time option"
  ch_CreatedAt :: time
  ch_UpdatedAt :: time
  ch_RowVersion :: u64

definition HCRegistrationChallenge_ValidateNew ::
    "HCRegistrationChallenge \<Rightarrow> time \<Rightarrow> duration \<Rightarrow> go_error option" where
  "HCRegistrationChallenge_ValidateNew c now maxTTL =
     (if IsZero (ch_ID c) \<or> blank (ch_OwnerUserID c) \<or> blank (ch_Origin c) \<or> allZero (ch_ChallengeHash c) \<or>
         ch_Status c \<noteq> HCRegistrationChallengePending \<or> IsZeroTime (ch_CreatedAt c) \<or>
         IsZeroTime (ch_UpdatedAt c) \<or> \<not> ch_ExpiresAt c > now \<or> maxTTL \<le> 0 \<or>
         Sub (ch_ExpiresAt c) now > maxTTL \<or> ch_ConsumedAt c \<noteq> None
      then Some (problem CodeInvalidArgument) else None)"

record RefreshCredential =
  rc_ID :: ID
  rc_EndpointID :: ID
  rc_FamilyID :: ID
  rc_TokenHash :: "byte list"
  rc_SigningJKT :: string
  rc_Status :: CredentialStatus
  rc_ExpiresAt :: time
  rc_RotatedFrom :: ID
  rc_RotatedTo :: ID
  rc_UsedAt :: "time option"
  rc_RevokedAt :: "time option"
  rc_CreatedAt :: time
  rc_UpdatedAt :: time

definition RefreshCredential_Validate :: "RefreshCredential \<Rightarrow> Endpoint \<Rightarrow> time \<Rightarrow> go_error option" where
  "RefreshCredential_Validate c endpoint now =
     (if IsZero (rc_ID c) \<or> rc_EndpointID c \<noteq> ep_ID endpoint \<or>
         rc_FamilyID c \<noteq> ep_CredentialFamilyID endpoint \<or> rc_SigningJKT c \<noteq> ep_SigningJKT endpoint \<or>
         allZero (rc_TokenHash c) \<or> rc_Status c \<noteq> CredentialStatusActive \<or> \<not> rc_ExpiresAt c > now \<or>
         IsZeroTime (rc_CreatedAt c) \<or> IsZeroTime (rc_UpdatedAt c) \<or> rc_UsedAt c \<noteq> None \<or>
         rc_RevokedAt c \<noteq> None \<or> \<not> IsZero (rc_RotatedTo c)
      then Some (problem CodeSecurityViolation) else None)"

text \<open>
  A new registration challenge expires after the present and no later than the maximal life
  time, and every life time below the bound of a 64-bit duration is enforced exactly although the
  subtraction of instants saturates.
\<close>

lemma challenge_lifetime_bounded:
  assumes "HCRegistrationChallenge_ValidateNew c now maxTTL = None" and "maxTTL < 2 ^ 63 - 1"
  shows "now < ch_ExpiresAt c \<and> ch_ExpiresAt c \<le> now + maxTTL \<and> ch_Status c = HCRegistrationChallengePending"
proof -
  have "Sub (ch_ExpiresAt c) now \<le> maxTTL" "0 < maxTTL" "now < ch_ExpiresAt c"
    "ch_Status c = HCRegistrationChallengePending"
    using assms(1) by (auto simp: HCRegistrationChallenge_ValidateNew_def split: if_splits)
  with assms(2) show ?thesis
    using Sub_le_iff [of maxTTL "ch_ExpiresAt c" now] by auto
qed

lemma challenge_lifetime_bounded_witness:
  "(10 :: int) < 10 + 300 \<and> HCRegistrationChallenge_ValidateNew
     \<lparr>ch_ID = sample_id 1, ch_OwnerUserID = ''u1'', ch_TenantID = [], ch_Origin = ''o'',
      ch_ChallengeHash = [1], ch_Status = HCRegistrationChallengePending, ch_ExpiresAt = 310,
      ch_ConsumedAt = None, ch_CreatedAt = 10, ch_UpdatedAt = 10, ch_RowVersion = 0\<rparr> 10 300 = None"
    (is "_ \<and> HCRegistrationChallenge_ValidateNew ?c _ _ = None")
proof -
  have v: "HCRegistrationChallenge_ValidateNew ?c 10 300 = None"
    by code_simp
  with challenge_lifetime_bounded [OF v] show ?thesis by simp
qed

end
