(* ===== verification/Store_Driver.thy ===== *)
theory Store_Driver
  imports Harness_Prelude "HOL-Library.Multiset" "HOL-Library.List_Lexorder"
begin

section \<open>The database interface of the store\<close>

text \<open>
  The store package talks to a relational database through GORM.  Neither is part of the
  repository, so a \<open>driver\<close> is a parameter of every store operation: one function per kind of
  statement the code issues, each of which may fail with a driver error.  A table is the list of
  its rows.  The locale \<open>sql_table\<close> states what the store relies on, which is the documented
  meaning of the statements: a query returns a matching row or reports that there is none, an
  ordered and limited query returns a prefix of the matching rows sorted by the ordering key, an
  update rewrites exactly the matching rows and counts them, an insert respects the unique keys.
  \<open>list_driver\<close> is the reference driver that never fails; witnesses run on it.

  A transaction body is a function from the database to an error or a result with the new
  database.  An error carries no database: the changes of a failed body are lost, which is GORM's
  rollback, at the outer level and at the savepoint of a nested transaction.
\<close>

record 'r driver =
  d_first :: "'r list \<Rightarrow> ('r \<Rightarrow> bool) \<Rightarrow> db_error + 'r option"
  d_find :: "'r list \<Rightarrow> ('r \<Rightarrow> bool) \<Rightarrow> db_error + 'r list"
  d_query :: "'r list \<Rightarrow> ('r \<Rightarrow> bool) \<Rightarrow> ('r \<Rightarrow> int list) \<Rightarrow> nat \<Rightarrow> db_error + 'r list"
  d_updates :: "'r list \<Rightarrow> ('r \<Rightarrow> bool) \<Rightarrow> ('r \<Rightarrow> 'r) \<Rightarrow> db_error + ('r list \<times> nat)"
  d_create :: "'r list \<Rightarrow> 'r \<Rightarrow> db_error + 'r list"
  d_create_ignore :: "'r list \<Rightarrow> 'r \<Rightarrow> db_error + ('r list \<times> nat)"
  d_upsert :: "'r list \<Rightarrow> 'r \<Rightarrow> ('r \<Rightarrow> 'r) \<Rightarrow> db_error + ('r list \<times> 'r)"
  d_delete :: "'r list \<Rightarrow> ('r \<Rightarrow> bool) \<Rightarrow> db_error + 'r list"
  d_count :: "'r list \<Rightarrow> ('r \<Rightarrow> bool) \<Rightarrow> db_error + nat"

definition update_rows :: "('r \<Rightarrow> bool) \<Rightarrow> ('r \<Rightarrow> 'r) \<Rightarrow> 'r list \<Rightarrow> 'r list" where
  "update_rows p f t = map (\<lambda>r. if p r then f r else r) t"

locale sql_table =
  fixes clash :: "'r \<Rightarrow> 'r \<Rightarrow> bool"
    and drv :: "'r driver"
  assumes first_Some: "d_first drv t p = Inr (Some r) \<Longrightarrow> r \<in> set t \<and> p r"
    and first_None: "d_first drv t p = Inr None \<Longrightarrow> r \<in> set t \<Longrightarrow> \<not> p r"
    and find_rows: "d_find drv t p = Inr rs \<Longrightarrow> set rs = {r \<in> set t. p r}"
    and query_rows: "d_query drv t p key n = Inr rs \<Longrightarrow>
      \<exists>ys. mset ys = mset (filter p t) \<and> sorted (map key ys) \<and> rs = take n ys"
    and updates_rows: "d_updates drv t p f = Inr (t', n) \<Longrightarrow>
      t' = update_rows p f t \<and> n = length (filter p t)"
    and create_row: "d_create drv t r = Inr t' \<Longrightarrow> t' = t @ [r] \<and> (\<forall>x \<in> set t. \<not> clash r x)"
    and create_ignore_row: "d_create_ignore drv t r = Inr (t', n) \<Longrightarrow>
      (if \<exists>x \<in> set t. clash r x then t' = t \<and> n = 0 else t' = t @ [r] \<and> n = 1)"
    and upsert_row: "d_upsert drv t r f = Inr (t', x) \<Longrightarrow>
      (if \<exists>y \<in> set t. clash r y then t' = update_rows (clash r) f t \<and> (\<exists>y \<in> set t. clash r y \<and> x = f y)
       else t' = t @ [r] \<and> x = r)"
    and delete_rows: "d_delete drv t p = Inr t' \<Longrightarrow> t' = filter (\<lambda>r. \<not> p r) t"
    and count_rows: "d_count drv t p = Inr n \<Longrightarrow> n = length (filter p t)"

definition list_driver :: "('r \<Rightarrow> 'r \<Rightarrow> bool) \<Rightarrow> 'r driver" where
  "list_driver clash = \<lparr>
     d_first = (\<lambda>t p. Inr (find p t)),
     d_find = (\<lambda>t p. Inr (filter p t)),
     d_query = (\<lambda>t p key n. Inr (take n (sort_key key (filter p t)))),
     d_updates = (\<lambda>t p f. Inr (update_rows p f t, length (filter p t))),
     d_create = (\<lambda>t r. if list_ex (clash r) t then Inl \<lparr>db_unique = True, db_sqlite_busy = False, db_pg_conflict = False\<rparr>
                       else Inr (t @ [r])),
     d_create_ignore = (\<lambda>t r. if list_ex (clash r) t then Inr (t, 0) else Inr (t @ [r], 1)),
     d_upsert = (\<lambda>t r f. case find (clash r) t of
         Some y \<Rightarrow> Inr (update_rows (clash r) f t, f y) | None \<Rightarrow> Inr (t @ [r], r)),
     d_delete = (\<lambda>t p. Inr (filter (\<lambda>r. \<not> p r) t)),
     d_count = (\<lambda>t p. Inr (length (filter p t)))\<rparr>"

interpretation list_table: sql_table clash "list_driver clash" for clash :: "'r \<Rightarrow> 'r \<Rightarrow> bool"
proof unfold_locales
  fix t p key n rs
  assume "d_query (list_driver clash) t p key n = Inr rs"
  then show "\<exists>ys. mset ys = mset (filter p t) \<and> sorted (map key ys) \<and> rs = take n ys"
    by (intro exI [of _ "sort_key key (filter p t)"]) (simp add: list_driver_def)
next
  fix t r f t' x
  assume u: "d_upsert (list_driver clash) t r f = Inr (t', x)"
  show "if \<exists>y \<in> set t. clash r y then t' = update_rows (clash r) f t \<and> (\<exists>y \<in> set t. clash r y \<and> x = f y)
       else t' = t @ [r] \<and> x = r"
  proof (cases "find (clash r) t")
    case None
    then have "\<forall>y \<in> set t. \<not> clash r y" by (auto simp: find_None_iff)
    then show ?thesis using u None by (auto simp: list_driver_def)
  next
    case (Some y)
    then have "y \<in> set t" "clash r y" by (auto simp: find_Some_iff)
    then show ?thesis using u Some by (auto simp: list_driver_def)
  qed
qed (auto simp: list_driver_def find_Some_iff find_None_iff list_ex_iff split: if_splits)

lemma list_driver_simps [simp]:
  "d_first (list_driver clash) t p = Inr (find p t)"
  "d_find (list_driver clash) t p = Inr (filter p t)"
  "d_query (list_driver clash) t p key n = Inr (take n (sort_key key (filter p t)))"
  "d_updates (list_driver clash) t p f = Inr (update_rows p f t, length (filter p t))"
  "d_create (list_driver clash) t r = (if list_ex (clash r) t
     then Inl \<lparr>db_unique = True, db_sqlite_busy = False, db_pg_conflict = False\<rparr> else Inr (t @ [r]))"
  "d_create_ignore (list_driver clash) t r = (if list_ex (clash r) t then Inr (t, 0) else Inr (t @ [r], 1))"
  "d_upsert (list_driver clash) t r f = (case find (clash r) t of
     Some y \<Rightarrow> Inr (update_rows (clash r) f t, f y) | None \<Rightarrow> Inr (t @ [r], r))"
  "d_delete (list_driver clash) t p = Inr (filter (\<lambda>r. \<not> p r) t)"
  "d_count (list_driver clash) t p = Inr (length (filter p t))"
  by (simp_all add: list_driver_def)

subsection \<open>Transactions\<close>

type_synonym ('db, 'a) tx = "'db \<Rightarrow> go_error + 'a \<times> 'db"

definition returnT :: "'a \<Rightarrow> ('db, 'a) tx" where
  "returnT a = (\<lambda>db. Inr (a, db))"

definition failT :: "go_error \<Rightarrow> ('db, 'a) tx" where
  "failT e = (\<lambda>db. Inl e)"

definition bindT :: "('db, 'a) tx \<Rightarrow> ('a \<Rightarrow> ('db, 'b) tx) \<Rightarrow> ('db, 'b) tx" where
  "bindT m k = (\<lambda>db. case m db of Inl e \<Rightarrow> Inl e | Inr (a, db') \<Rightarrow> k a db')"

definition liftT :: "'a result \<Rightarrow> ('db, 'a) tx" where
  "liftT r = (\<lambda>db. case r of Inl e \<Rightarrow> Inl e | Inr a \<Rightarrow> Inr (a, db))"

definition guardT :: "bool \<Rightarrow> go_error \<Rightarrow> ('db, unit) tx" where
  "guardT bad e = (if bad then failT e else returnT ())"

text \<open>An error value as the outcome of a check that returns \<^verbatim>\<open>error\<close>.\<close>

definition checkT :: "go_error option \<Rightarrow> ('db, unit) tx" where
  "checkT err = (case err of None \<Rightarrow> returnT () | Some e \<Rightarrow> failT e)"

text \<open>A mutating method: its error aborts, otherwise the changed value is the result.\<close>

definition mutateT :: "go_error option \<times> 'a \<Rightarrow> ('db, 'a) tx" where
  "mutateT r = (case r of (None, a) \<Rightarrow> returnT a | (Some e, a) \<Rightarrow> failT e)"

text \<open>A nested transaction whose error the caller inspects: the savepoint is rolled back.\<close>

definition tryT :: "('db, 'a) tx \<Rightarrow> ('db, go_error + 'a) tx" where
  "tryT m = (\<lambda>db. case m db of Inl e \<Rightarrow> Inr (Inl e, db) | Inr (a, db') \<Rightarrow> Inr (Inr a, db'))"

lemmas tx_defs = returnT_def failT_def bindT_def liftT_def guardT_def checkT_def mutateT_def tryT_def

text \<open>Evaluation of a transaction on a concrete database, one statement at a time.\<close>

lemma bindT_apply: "bindT m k db = (case m db of Inl e \<Rightarrow> Inl e | Inr r \<Rightarrow> k (fst r) (snd r))"
  by (simp add: bindT_def split: sum.splits)

lemma bindT_cong_weak: "m = m' \<Longrightarrow> bindT m k = bindT m' k"
  by simp

lemma returnT_apply: "returnT a db = Inr (a, db)" by (simp add: returnT_def)
lemma failT_apply: "failT e db = Inl e" by (simp add: failT_def)
lemma liftT_apply: "liftT r db = (case r of Inl e \<Rightarrow> Inl e | Inr a \<Rightarrow> Inr (a, db))" by (simp add: liftT_def)
lemma guardT_apply: "guardT bad e db = (if bad then Inl e else Inr ((), db))" by (simp add: guardT_def returnT_def failT_def)
lemma checkT_apply: "checkT err db = (case err of None \<Rightarrow> Inr ((), db) | Some e \<Rightarrow> Inl e)"
  by (simp add: checkT_def returnT_def failT_def split: option.split)
lemma mutateT_apply: "mutateT r db = (case fst r of None \<Rightarrow> Inr (snd r, db) | Some e \<Rightarrow> Inl e)"
  by (simp add: mutateT_def returnT_def failT_def split: option.split prod.split)
lemma tryT_apply: "tryT m db = (case m db of Inl e \<Rightarrow> Inr (Inl e, db) | Inr r \<Rightarrow> Inr (Inr (fst r), snd r))"
  by (simp add: tryT_def split: sum.splits)

lemmas tx_eval = bindT_apply returnT_apply failT_apply liftT_apply guardT_apply checkT_apply mutateT_apply tryT_apply

lemma bindT_Inr: "bindT m k db = Inr (b, db'') \<longleftrightarrow> (\<exists>a db'. m db = Inr (a, db') \<and> k a db' = Inr (b, db''))"
  by (auto simp: bindT_def split: sum.splits)

lemma returnT_Inr: "returnT a db = Inr (b, db') \<longleftrightarrow> b = a \<and> db' = db"
  by (auto simp: returnT_def)

lemma failT_Inr: "failT e db = Inr x \<longleftrightarrow> False"
  by (simp add: failT_def)

lemma liftT_Inr: "liftT r db = Inr (b, db') \<longleftrightarrow> r = Inr b \<and> db' = db"
  by (auto simp: liftT_def split: sum.splits)

lemma guardT_Inr: "guardT bad e db = Inr (u, db') \<longleftrightarrow> \<not> bad \<and> db' = db"
  by (auto simp: guardT_def returnT_def failT_def)

lemma checkT_Inr: "checkT err db = Inr (u, db') \<longleftrightarrow> err = None \<and> db' = db"
  by (auto simp: checkT_def returnT_def failT_def split: option.splits)

lemma mutateT_Inr: "mutateT r db = Inr (b, db') \<longleftrightarrow> r = (None, b) \<and> db' = db"
  by (auto simp: mutateT_def returnT_def failT_def split: prod.splits option.splits)

lemma tryT_Inr: "tryT m db = Inr (r, db') \<longleftrightarrow>
    (\<exists>e. m db = Inl e \<and> r = Inl e \<and> db' = db) \<or> (\<exists>a. m db = Inr (a, db') \<and> r = Inr a)"
  by (auto simp: tryT_def split: sum.splits)

lemmas tx_Inr = bindT_Inr returnT_Inr failT_Inr liftT_Inr guardT_Inr checkT_Inr mutateT_Inr tryT_Inr

subsection \<open>Statements\<close>

text \<open>
  \<open>get\<close> selects the table of the database, \<open>upd\<close> is its record update.  The last argument says
  how the call site turns the statement's error into its own.
\<close>

definition tx_first ::
    "'r driver \<Rightarrow> ('db \<Rightarrow> 'r list) \<Rightarrow> ('r \<Rightarrow> bool) \<Rightarrow> (go_error \<Rightarrow> go_error) \<Rightarrow> ('db, 'r) tx" where
  "tx_first drv get p err = (\<lambda>db. case d_first drv (get db) p of
       Inl e \<Rightarrow> Inl (err (Driver e))
     | Inr None \<Rightarrow> Inl (err ErrRecordNotFound)
     | Inr (Some r) \<Rightarrow> Inr (r, db))"

text \<open>A query whose missing row is not an error of the caller.\<close>

definition tx_lookup ::
    "'r driver \<Rightarrow> ('db \<Rightarrow> 'r list) \<Rightarrow> ('r \<Rightarrow> bool) \<Rightarrow> (go_error \<Rightarrow> go_error) \<Rightarrow> ('db, 'r option) tx" where
  "tx_lookup drv get p err = (\<lambda>db. case d_first drv (get db) p of
       Inl e \<Rightarrow> Inl (err (Driver e))
     | Inr r \<Rightarrow> Inr (r, db))"

definition tx_find ::
    "'r driver \<Rightarrow> ('db \<Rightarrow> 'r list) \<Rightarrow> ('r \<Rightarrow> bool) \<Rightarrow> (go_error \<Rightarrow> go_error) \<Rightarrow> ('db, 'r list) tx" where
  "tx_find drv get p err = (\<lambda>db. case d_find drv (get db) p of
       Inl e \<Rightarrow> Inl (err (Driver e))
     | Inr rs \<Rightarrow> Inr (rs, db))"

definition tx_query ::
    "'r driver \<Rightarrow> ('db \<Rightarrow> 'r list) \<Rightarrow> ('r \<Rightarrow> bool) \<Rightarrow> ('r \<Rightarrow> int list) \<Rightarrow> nat \<Rightarrow>
     (go_error \<Rightarrow> go_error) \<Rightarrow> ('db, 'r list) tx" where
  "tx_query drv get p key n err = (\<lambda>db. case d_query drv (get db) p key n of
       Inl e \<Rightarrow> Inl (err (Driver e))
     | Inr rs \<Rightarrow> Inr (rs, db))"

definition tx_updates ::
    "'r driver \<Rightarrow> ('db \<Rightarrow> 'r list) \<Rightarrow> (('r list \<Rightarrow> 'r list) \<Rightarrow> 'db \<Rightarrow> 'db) \<Rightarrow> ('r \<Rightarrow> bool) \<Rightarrow> ('r \<Rightarrow> 'r) \<Rightarrow>
     (go_error \<Rightarrow> go_error) \<Rightarrow> ('db, nat) tx" where
  "tx_updates drv get upd p f err = (\<lambda>db. case d_updates drv (get db) p f of
       Inl e \<Rightarrow> Inl (err (Driver e))
     | Inr (t, n) \<Rightarrow> Inr (n, upd (\<lambda>_. t) db))"

definition tx_create ::
    "'r driver \<Rightarrow> ('db \<Rightarrow> 'r list) \<Rightarrow> (('r list \<Rightarrow> 'r list) \<Rightarrow> 'db \<Rightarrow> 'db) \<Rightarrow> 'r \<Rightarrow>
     (go_error \<Rightarrow> go_error) \<Rightarrow> ('db, unit) tx" where
  "tx_create drv get upd r err = (\<lambda>db. case d_create drv (get db) r of
       Inl e \<Rightarrow> Inl (err (Driver e))
     | Inr t \<Rightarrow> Inr ((), upd (\<lambda>_. t) db))"

definition tx_create_ignore ::
    "'r driver \<Rightarrow> ('db \<Rightarrow> 'r list) \<Rightarrow> (('r list \<Rightarrow> 'r list) \<Rightarrow> 'db \<Rightarrow> 'db) \<Rightarrow> 'r \<Rightarrow>
     (go_error \<Rightarrow> go_error) \<Rightarrow> ('db, nat) tx" where
  "tx_create_ignore drv get upd r err = (\<lambda>db. case d_create_ignore drv (get db) r of
       Inl e \<Rightarrow> Inl (err (Driver e))
     | Inr (t, n) \<Rightarrow> Inr (n, upd (\<lambda>_. t) db))"

definition tx_upsert ::
    "'r driver \<Rightarrow> ('db \<Rightarrow> 'r list) \<Rightarrow> (('r list \<Rightarrow> 'r list) \<Rightarrow> 'db \<Rightarrow> 'db) \<Rightarrow> 'r \<Rightarrow> ('r \<Rightarrow> 'r) \<Rightarrow>
     (go_error \<Rightarrow> go_error) \<Rightarrow> ('db, 'r) tx" where
  "tx_upsert drv get upd r f err = (\<lambda>db. case d_upsert drv (get db) r f of
       Inl e \<Rightarrow> Inl (err (Driver e))
     | Inr (t, x) \<Rightarrow> Inr (x, upd (\<lambda>_. t) db))"

definition tx_delete ::
    "'r driver \<Rightarrow> ('db \<Rightarrow> 'r list) \<Rightarrow> (('r list \<Rightarrow> 'r list) \<Rightarrow> 'db \<Rightarrow> 'db) \<Rightarrow> ('r \<Rightarrow> bool) \<Rightarrow>
     (go_error \<Rightarrow> go_error) \<Rightarrow> ('db, unit) tx" where
  "tx_delete drv get upd p err = (\<lambda>db. case d_delete drv (get db) p of
       Inl e \<Rightarrow> Inl (err (Driver e))
     | Inr t \<Rightarrow> Inr ((), upd (\<lambda>_. t) db))"

definition tx_count ::
    "'r driver \<Rightarrow> ('db \<Rightarrow> 'r list) \<Rightarrow> ('r \<Rightarrow> bool) \<Rightarrow> (go_error \<Rightarrow> go_error) \<Rightarrow> ('db, nat) tx" where
  "tx_count drv get p err = (\<lambda>db. case d_count drv (get db) p of
       Inl e \<Rightarrow> Inl (err (Driver e))
     | Inr n \<Rightarrow> Inr (n, db))"

lemma tx_upsert_Inr: "tx_upsert drv get upd r f err db = Inr (x, db') \<longleftrightarrow>
    (\<exists>t. d_upsert drv (get db) r f = Inr (t, x) \<and> db' = upd (\<lambda>_. t) db)"
  by (auto simp: tx_upsert_def split: sum.splits)

lemma tx_delete_Inr: "tx_delete drv get upd p err db = Inr (u, db') \<longleftrightarrow>
    (\<exists>t. d_delete drv (get db) p = Inr t \<and> db' = upd (\<lambda>_. t) db)"
  by (auto simp: tx_delete_def split: sum.splits)

lemma tx_count_Inr: "tx_count drv get p err db = Inr (n, db') \<longleftrightarrow>
    d_count drv (get db) p = Inr n \<and> db' = db"
  by (auto simp: tx_count_def split: sum.splits)

lemmas stmt_defs = tx_first_def tx_lookup_def tx_find_def tx_query_def tx_updates_def tx_create_def
  tx_create_ignore_def tx_upsert_def tx_delete_def tx_count_def

lemma tx_find_Inr: "tx_find drv get p err db = Inr (rs, db') \<longleftrightarrow>
    d_find drv (get db) p = Inr rs \<and> db' = db"
  by (auto simp: tx_find_def split: sum.splits)

lemma tx_query_Inr: "tx_query drv get p key n err db = Inr (rs, db') \<longleftrightarrow>
    d_query drv (get db) p key n = Inr rs \<and> db' = db"
  by (auto simp: tx_query_def split: sum.splits)

lemma tx_first_Inr: "tx_first drv get p err db = Inr (r, db') \<longleftrightarrow>
    d_first drv (get db) p = Inr (Some r) \<and> db' = db"
  by (auto simp: tx_first_def split: sum.splits option.splits)

lemma tx_lookup_Inr: "tx_lookup drv get p err db = Inr (r, db') \<longleftrightarrow>
    d_first drv (get db) p = Inr r \<and> db' = db"
  by (auto simp: tx_lookup_def split: sum.splits)

lemma tx_updates_Inr: "tx_updates drv get upd p f err db = Inr (n, db') \<longleftrightarrow>
    (\<exists>t. d_updates drv (get db) p f = Inr (t, n) \<and> db' = upd (\<lambda>_. t) db)"
  by (auto simp: tx_updates_def split: sum.splits)

lemma tx_create_Inr: "tx_create drv get upd r err db = Inr (u, db') \<longleftrightarrow>
    (\<exists>t. d_create drv (get db) r = Inr t \<and> db' = upd (\<lambda>_. t) db)"
  by (auto simp: tx_create_def split: sum.splits)

lemma tx_create_ignore_Inr: "tx_create_ignore drv get upd r err db = Inr (n, db') \<longleftrightarrow>
    (\<exists>t. d_create_ignore drv (get db) r = Inr (t, n) \<and> db' = upd (\<lambda>_. t) db)"
  by (auto simp: tx_create_ignore_def split: sum.splits)

lemmas stmt_Inr = tx_first_Inr tx_lookup_Inr tx_find_Inr tx_query_Inr tx_updates_Inr tx_create_Inr tx_create_ignore_Inr
  tx_upsert_Inr tx_delete_Inr tx_count_Inr

text \<open>
  What a successful statement means under the laws of the table, in the form the proofs of the
  store operations use.
\<close>

context sql_table
begin

lemma tx_firstD:
  "tx_first drv get p err db = Inr (r, db') \<Longrightarrow> r \<in> set (get db) \<and> p r \<and> db' = db"
  using first_Some by (auto simp: tx_first_Inr)

lemma tx_lookupD:
  "tx_lookup drv get p err db = Inr (r, db') \<Longrightarrow> db' = db \<and>
     (case r of None \<Rightarrow> \<forall>x \<in> set (get db). \<not> p x | Some x \<Rightarrow> x \<in> set (get db) \<and> p x)"
  by (cases r) (auto simp: tx_lookup_Inr dest: first_Some first_None)

lemma tx_findD:
  "tx_find drv get p err db = Inr (rs, db') \<Longrightarrow> db' = db \<and> set rs = {r \<in> set (get db). p r}"
  using find_rows by (auto simp: tx_find_Inr)

lemma tx_queryD:
  "tx_query drv get p key n err db = Inr (rs, db') \<Longrightarrow> db' = db \<and>
     (\<exists>ys. mset ys = mset (filter p (get db)) \<and> sorted (map key ys) \<and> rs = take n ys)"
  using query_rows by (auto simp: tx_query_Inr)

lemma tx_updatesD:
  "tx_updates drv get upd p f err db = Inr (n, db') \<Longrightarrow>
     db' = upd (\<lambda>_. update_rows p f (get db)) db \<and> n = length (filter p (get db))"
  using updates_rows by (auto simp: tx_updates_Inr)

lemma tx_createD:
  "tx_create drv get upd r err db = Inr (u, db') \<Longrightarrow>
     db' = upd (\<lambda>_. get db @ [r]) db \<and> (\<forall>x \<in> set (get db). \<not> clash r x)"
  using create_row by (auto simp: tx_create_Inr)

lemma tx_create_ignoreD:
  "tx_create_ignore drv get upd r err db = Inr (n, db') \<Longrightarrow>
     (if \<exists>x \<in> set (get db). clash r x then db' = upd (\<lambda>_. get db) db \<and> n = 0
      else db' = upd (\<lambda>_. get db @ [r]) db \<and> n = 1)"
  using create_ignore_row by (fastforce simp: tx_create_ignore_Inr split: if_splits)

lemma tx_upsertD:
  "tx_upsert drv get upd r f err db = Inr (x, db') \<Longrightarrow>
     (if \<exists>y \<in> set (get db). clash r y
      then db' = upd (\<lambda>_. update_rows (clash r) f (get db)) db \<and> (\<exists>y \<in> set (get db). clash r y \<and> x = f y)
      else db' = upd (\<lambda>_. get db @ [r]) db \<and> x = r)"
  using upsert_row by (fastforce simp: tx_upsert_Inr split: if_splits)

lemma tx_deleteD:
  "tx_delete drv get upd p err db = Inr (u, db') \<Longrightarrow> db' = upd (\<lambda>_. filter (\<lambda>r. \<not> p r) (get db)) db"
  using delete_rows by (auto simp: tx_delete_Inr)

lemma tx_countD:
  "tx_count drv get p err db = Inr (n, db') \<Longrightarrow> db' = db \<and> n = length (filter p (get db))"
  using count_rows by (auto simp: tx_count_Inr)

lemmas stmtD = tx_firstD tx_lookupD tx_findD tx_queryD tx_updatesD tx_createD tx_create_ignoreD
  tx_upsertD tx_deleteD tx_countD

end

subsection \<open>Facts about updated tables\<close>

lemma length_update_rows [table_simps]: "length (update_rows p f t) = length t"
  by (simp add: update_rows_def)

lemma set_update_rows [table_simps]:
  "set (update_rows p f t) = f ` {r \<in> set t. p r} \<union> {r \<in> set t. \<not> p r}"
  by (auto simp: update_rows_def)

lemma bex_update_rows [table_simps]:
  "(\<exists>x \<in> set (update_rows p f t). Q x) \<longleftrightarrow> (\<exists>x \<in> set t. if p x then Q (f x) else Q x)"
  by (auto simp: update_rows_def split: if_splits)

lemma ball_update_rows [table_simps]:
  "(\<forall>x \<in> set (update_rows p f t). Q x) \<longleftrightarrow> (\<forall>x \<in> set t. if p x then Q (f x) else Q x)"
  by (auto simp: update_rows_def split: if_splits)

lemma map_update_rows [table_simps]: "(\<And>r. p r \<Longrightarrow> k (f r) = k r) \<Longrightarrow> map k (update_rows p f t) = map k t"
  by (auto simp: update_rows_def)

lemma update_rows_id: "(\<And>r. r \<in> set t \<Longrightarrow> p r \<Longrightarrow> f r = r) \<Longrightarrow> update_rows p f t = t"
  by (induction t) (auto simp: update_rows_def)

lemma filter_update_rows:
  "(\<And>r. p r \<Longrightarrow> \<not> q r \<and> \<not> q (f r)) \<Longrightarrow> filter q (update_rows p f t) = filter q t"
  by (induction t) (auto simp: update_rows_def)

lemma matched_row: "length (filter p t) = n \<Longrightarrow> 0 < n \<Longrightarrow> \<exists>r \<in> set t. p r"
  by (metis filter_False length_0_conv less_numeral_extra(3))

lemma update_rows_cong: "(\<And>r. p r \<longleftrightarrow> q r) \<Longrightarrow> update_rows p f t = update_rows q f t"
  by (simp add: update_rows_def)

lemma update_rows_compose:
  "(\<And>r. q r \<Longrightarrow> \<not> p (f r)) \<Longrightarrow> update_rows p f (update_rows q f t) = update_rows (\<lambda>r. q r \<or> p r) f t"
  by (auto simp: update_rows_def)

lemma update_rows_same [simp]: "update_rows p (\<lambda>r. r) t = t"
  by (rule update_rows_id) simp

lemma update_rows_False [simp]: "update_rows (\<lambda>r. False) f t = t"
  by (rule update_rows_id) simp

lemma update_rows_none: "filter p t = [] \<Longrightarrow> update_rows p f t = t"
  by (rule update_rows_id) (auto simp: filter_empty_conv)

lemma keyed_row_unique:
  "distinct (map k t) \<Longrightarrow> r \<in> set t \<Longrightarrow> x \<in> set t \<Longrightarrow> k r = k x \<Longrightarrow> r = x"
  by (meson distinct_map inj_onD)

text \<open>A condition that only one row of a keyed table meets.\<close>

lemma filter_unique_key:
  assumes "distinct (map k t)" "r \<in> set t" "p r" "\<And>x. p x \<Longrightarrow> k x = k r"
  shows "filter p t = [r]"
  using assms
proof (induction t)
  case (Cons x t)
  show ?case
  proof (cases "x = r")
    case True
    have "\<not> p y" if "y \<in> set t" for y
      using that Cons.prems(1,4) True by (metis distinct.simps(2) image_eqI list.map(2) list.set_map)
    then show ?thesis
      using True Cons.prems(3) by (simp add: filter_empty_conv)
  next
    case False
    with Cons.prems have "r \<in> set t" by simp
    moreover have "\<not> p x"
      using Cons.prems(1,4) \<open>r \<in> set t\<close> by (metis distinct.simps(2) image_eqI list.map(2) list.set_map)
    moreover have "distinct (map k t)"
      using Cons.prems(1) by simp
    then have "filter p t = [r]"
      by (rule Cons.IH [OF _ \<open>r \<in> set t\<close> Cons.prems(3,4)])
    ultimately show ?thesis by simp
  qed
qed simp

subsection \<open>Error classification (\<open>store/repository.go\<close>, \<open>store/scope.go\<close>)\<close>

fun is_record_not_found :: "go_error \<Rightarrow> bool" where
  "is_record_not_found Plain = False"
| "is_record_not_found ErrRecordNotFound = True"
| "is_record_not_found (Driver d) = False"
| "is_record_not_found (Wrap e) = is_record_not_found e"
| "is_record_not_found (Problem code cause) = (case cause of None \<Rightarrow> False | Some e \<Rightarrow> is_record_not_found e)"

fun unique_text :: "go_error \<Rightarrow> bool" where
  "unique_text Plain = False"
| "unique_text ErrRecordNotFound = False"
| "unique_text (Driver d) = db_unique d"
| "unique_text (Wrap e) = unique_text e"
| "unique_text (Problem code cause) = (case cause of None \<Rightarrow> False | Some e \<Rightarrow> unique_text e)"

fun isSQLiteConcurrencyError :: "go_error \<Rightarrow> bool" where
  "isSQLiteConcurrencyError Plain = False"
| "isSQLiteConcurrencyError ErrRecordNotFound = False"
| "isSQLiteConcurrencyError (Driver d) = db_sqlite_busy d"
| "isSQLiteConcurrencyError (Wrap e) = isSQLiteConcurrencyError e"
| "isSQLiteConcurrencyError (Problem code cause) =
     (case cause of None \<Rightarrow> False | Some e \<Rightarrow> isSQLiteConcurrencyError e)"

fun isPostgresConcurrencyError :: "go_error \<Rightarrow> bool" where
  "isPostgresConcurrencyError Plain = False"
| "isPostgresConcurrencyError ErrRecordNotFound = False"
| "isPostgresConcurrencyError (Driver d) = db_pg_conflict d"
| "isPostgresConcurrencyError (Wrap e) = isPostgresConcurrencyError e"
| "isPostgresConcurrencyError (Problem code cause) =
     (case cause of None \<Rightarrow> False | Some e \<Rightarrow> isPostgresConcurrencyError e)"

definition notFoundOr :: "go_error \<Rightarrow> go_error" where
  "notFoundOr err = (if is_record_not_found err then NewProblem CodeNotFound (Some err) else Wrap err)"

definition classifyPersistence :: "go_error \<Rightarrow> go_error" where
  "classifyPersistence err = (if unique_text err then NewProblem CodeConflict (Some err) else Wrap err)"

definition normalizeConcurrencyError :: "go_error \<Rightarrow> go_error" where
  "normalizeConcurrencyError err =
     (if isSQLiteConcurrencyError err \<or> isPostgresConcurrencyError err
      then NewProblem CodeConflict (Some err) else err)"

end
