(* ===== verification/Store_Rows.thy ===== *)
theory Store_Rows
  imports Domain_Records Store_Driver
begin

section \<open>Rows, tables and the mapping of records (\<open>store/repository.go\<close> and schema files)\<close>

text \<open>
  One record per table row with the columns of the GORM models, the conversions between domain
  records and rows, the unique keys of each table, and the database as the record of its tables.
  Identifiers and hashes are stored as hexadecimal text; status columns hold the text of the
  status, which the model keeps as the status itself (the Go conversion between a named string
  type and \<^verbatim>\<open>string\<close> is the identity).  The JSON codec of string lists is a parameter.
\<close>

definition parseID :: "string \<Rightarrow> ID result" where
  "parseID value = (case ParseID value of Inl err \<Rightarrow> Inl (Wrap err) | Inr i \<Rightarrow> Inr i)"

definition parseOptionalID :: "string \<Rightarrow> ID result" where
  "parseOptionalID value = (if blank value then Inr zeroID else parseID value)"

definition optionalID :: "ID \<Rightarrow> string" where
  "optionalID value = (if IsZero value then [] else ID_String value)"

definition hashString :: "byte list \<Rightarrow> string" where
  "hashString value = EncodeToString value"

definition parseHash :: "string \<Rightarrow> byte list result" where
  "parseHash value = (case DecodeString value of
       None \<Rightarrow> Inl Plain
     | Some decoded \<Rightarrow> if length decoded \<noteq> 32 then Inl Plain else Inr decoded)"

definition zeroHash :: "byte list \<Rightarrow> bool" where
  "zeroHash value = allZero value"

definition maxControlOutboxPayloadBytes :: int where
  "maxControlOutboxPayloadBytes = 64 * 2 ^ 10"

definition maxControlOutboxPacketBytes :: int where
  "maxControlOutboxPacketBytes = 2 ^ 20"

subsection \<open>Rows\<close>

record endpointRow =
  er_ID :: string
  er_OwnerUserID :: string
  er_TenantID :: string
  er_Type :: EndpointType
  er_Name :: string
  er_SigningPublicJWK :: "byte list"
  er_KEMPublicJWK :: "byte list"
  er_SigningJKT :: string
  er_KEMJKT :: string
  er_Status :: EndpointStatus
  er_CredentialFamilyID :: string
  er_SoftwareVersion :: string
  er_PlatformName :: string
  er_LastSeenAt :: "time option"
  er_RevokedAt :: "time option"
  er_RowVersion :: u64
  er_CreatedAt :: time
  er_UpdatedAt :: time

record enrollmentRow =
  nr_ID :: string
  nr_OwnerUserID :: string
  nr_TenantID :: string
  nr_EndpointType :: EndpointType
  nr_EndpointName :: string
  nr_DeviceCodeHash :: string
  nr_UserCodeHash :: string
  nr_SigningPublicJWK :: "byte list"
  nr_KEMPublicJWK :: "byte list"
  nr_SigningJKT :: string
  nr_KEMJKT :: string
  nr_Status :: EnrollmentStatus
  nr_ExpiresAt :: time
  nr_ApprovedBy :: string
  nr_ApprovedAt :: "time option"
  nr_ConsumedAt :: "time option"
  nr_EndpointID :: string
  nr_RowVersion :: u64
  nr_CreatedAt :: time
  nr_UpdatedAt :: time

record credentialRow =
  cw_ID :: string
  cw_EndpointID :: string
  cw_FamilyID :: string
  cw_TokenHash :: string
  cw_SigningJKT :: string
  cw_ScopesJSON :: string
  cw_Status :: CredentialStatus
  cw_ExpiresAt :: time
  cw_RotatedFrom :: string
  cw_CreatedAt :: time
  cw_UpdatedAt :: time
  cw_RevokedAt :: "time option"

record sessionRow =
  sw_ID :: string
  sw_OwnerUserID :: string
  sw_TenantID :: string
  sw_ABAEndpointID :: string
  sw_HCEndpointID :: string
  sw_RuntimeProfileID :: string
  sw_WorkspaceID :: string
  sw_CapabilitiesJSON :: string
  sw_Status :: SessionStatus
  sw_CurrentKeyGeneration :: u64
  sw_CreatedAt :: time
  sw_UpdatedAt :: time
  sw_LastActivityAt :: "time option"
  sw_ClosedAt :: "time option"
  sw_RowVersion :: u64

record ticketRow =
  tw_ID :: string
  tw_TokenHash :: string
  tw_EndpointID :: string
  tw_CredentialID :: string
  tw_Purpose :: string
  tw_Origin :: string
  tw_Protocol :: string
  tw_Status :: TicketStatus
  tw_ExpiresAt :: time
  tw_ConsumedAt :: "time option"
  tw_CreatedAt :: time
  tw_RowVersion :: u64

record frameRow =
  fw_MessageID :: string
  fw_SessionID :: string
  fw_ChannelID :: string
  fw_KeyGeneration :: u64
  fw_SenderEndpointID :: string
  fw_ReceiverEndpointID :: string
  fw_Direction :: Direction
  fw_Sequence :: u64
  fw_KeyID :: string
  fw_CreatedAtMS :: int
  fw_AAD :: "byte list"
  fw_Ciphertext :: "byte list"
  fw_Signature :: "byte list"
  fw_ContentHash :: string
  fw_Status :: FrameStatus
  fw_ReceivedAt :: time
  fw_RoutedAt :: "time option"
  fw_AcknowledgedAt :: "time option"
  fw_ExpiresAt :: time

record ackRow =
  aw_SessionID :: string
  aw_KeyGeneration :: u64
  aw_Direction :: Direction
  aw_SenderEndpointID :: string
  aw_ReceiverEndpointID :: string
  aw_HighestContiguousSequence :: u64
  aw_UpdatedAt :: time
  aw_RowVersion :: u64

record keyPackageRow =
  kw_ID :: string
  kw_SessionID :: string
  kw_Generation :: u64
  kw_IssuerABAEndpointID :: string
  kw_RecipientHCEndpointID :: string
  kw_CryptoSuite :: "16 word"
  kw_EncapsulatedKey :: "byte list"
  kw_Ciphertext :: "byte list"
  kw_ContextHash :: string
  kw_IssuerSignature :: "byte list"
  kw_IssuerCredentialID :: string
  kw_Status :: KeyPackageStatus
  kw_ExpiresAt :: time
  kw_AcknowledgedAt :: "time option"
  kw_CreatedAt :: time

record auditRow =
  uw_ID :: string
  uw_OwnerUserID :: string
  uw_TenantID :: string
  uw_ActorType :: AuditActorType
  uw_ActorID :: string
  uw_Action :: string
  uw_ObjectType :: string
  uw_ObjectID :: string
  uw_Result :: string
  uw_ErrorCode :: string
  uw_MetadataJSON :: "byte list"
  uw_CreatedAt :: time

record idempotencyRow =
  iw_ID :: string
  iw_OwnerUserID :: string
  iw_TenantID :: string
  iw_ActorID :: string
  iw_Operation :: string
  iw_Key :: string
  iw_RequestHash :: string
  iw_Status :: IdempotencyStatus
  iw_HTTPStatus :: int
  iw_ResponseJSON :: "byte list"
  iw_ErrorCode :: string
  iw_CreatedAt :: time
  iw_UpdatedAt :: time
  iw_ExpiresAt :: time
  iw_RowVersion :: u64

record controlOutboxRow =
  ow_ID :: string
  ow_OwnerUserID :: string
  ow_TenantID :: string
  ow_SessionID :: string
  ow_CorrelationID :: string
  ow_RecipientEndpointID :: string
  ow_Kind :: ControlOutboxKind
  ow_Payload :: "byte list"
  ow_Packet :: "byte list"
  ow_Status :: ControlOutboxStatus
  ow_CreatedAt :: time
  ow_UpdatedAt :: time
  ow_ExpiresAt :: time
  ow_CompletedAt :: "time option"
  ow_RowVersion :: u64

record refreshCredentialRow =
  rw_ID :: string
  rw_EndpointID :: string
  rw_FamilyID :: string
  rw_TokenHash :: string
  rw_SigningJKT :: string
  rw_Status :: CredentialStatus
  rw_ExpiresAt :: time
  rw_RotatedFrom :: string
  rw_RotatedTo :: string
  rw_UsedAt :: "time option"
  rw_RevokedAt :: "time option"
  rw_CreatedAt :: time
  rw_UpdatedAt :: time

record hcRegistrationChallengeRow =
  hw_ID :: string
  hw_OwnerUserID :: string
  hw_TenantID :: string
  hw_Origin :: string
  hw_ChallengeHash :: string
  hw_Status :: HCRegistrationChallengeStatus
  hw_ExpiresAt :: time
  hw_ConsumedAt :: "time option"
  hw_CreatedAt :: time
  hw_UpdatedAt :: time
  hw_RowVersion :: u64

record dpopReplayRow =
  dw_JKT :: string
  dw_JTI :: string
  dw_ExpiresAt :: time
  dw_CreatedAt :: time

record endpointNonceRow =
  xw_EndpointID :: string
  xw_NonceHash :: string
  xw_ExpiresAt :: time
  xw_IssuedAt :: time
  xw_RowVersion :: u64

record connectionGenerationRow =
  gw_EndpointID :: string
  gw_Generation :: u64
  gw_UpdatedAt :: time

subsection \<open>Mapping between records and rows\<close>

definition endpointToRow :: "Endpoint \<Rightarrow> endpointRow" where
  "endpointToRow v = \<lparr>
     er_ID = ID_String (ep_ID v), er_OwnerUserID = ep_OwnerUserID v, er_TenantID = ep_TenantID v,
     er_Type = ep_Type v, er_Name = ep_Name v, er_SigningPublicJWK = ep_SigningPublicJWK v,
     er_KEMPublicJWK = ep_KEMPublicJWK v, er_SigningJKT = ep_SigningJKT v, er_KEMJKT = ep_KEMJKT v,
     er_Status = ep_Status v, er_CredentialFamilyID = ID_String (ep_CredentialFamilyID v),
     er_SoftwareVersion = ep_SoftwareVersion v, er_PlatformName = ep_PlatformName v,
     er_LastSeenAt = ep_LastSeenAt v, er_RevokedAt = ep_RevokedAt v,
     er_RowVersion = ep_RowVersion v, er_CreatedAt = ep_CreatedAt v, er_UpdatedAt = ep_UpdatedAt v\<rparr>"

definition endpointFromRow :: "endpointRow \<Rightarrow> Endpoint result" where
  "endpointFromRow row =
     bindE (parseID (er_ID row)) (\<lambda>v_ID.
     bindE (parseID (er_CredentialFamilyID row)) (\<lambda>v_CredentialFamilyID.
     Inr \<lparr>
       ep_ID = v_ID, ep_OwnerUserID = er_OwnerUserID row, ep_TenantID = er_TenantID row,
       ep_Type = er_Type row, ep_Name = er_Name row, ep_SigningPublicJWK = er_SigningPublicJWK row,
       ep_KEMPublicJWK = er_KEMPublicJWK row, ep_SigningJKT = er_SigningJKT row,
       ep_KEMJKT = er_KEMJKT row, ep_Status = er_Status row,
       ep_CredentialFamilyID = v_CredentialFamilyID, ep_SoftwareVersion = er_SoftwareVersion row,
       ep_PlatformName = er_PlatformName row, ep_LastSeenAt = er_LastSeenAt row,
       ep_RevokedAt = er_RevokedAt row, ep_RowVersion = er_RowVersion row,
       ep_CreatedAt = er_CreatedAt row, ep_UpdatedAt = er_UpdatedAt row\<rparr>))"

definition enrollmentToRow :: "Enrollment \<Rightarrow> enrollmentRow" where
  "enrollmentToRow v = \<lparr>
     nr_ID = ID_String (en_ID v), nr_OwnerUserID = en_OwnerUserID v, nr_TenantID = en_TenantID v,
     nr_EndpointType = en_EndpointType v, nr_EndpointName = en_EndpointName v,
     nr_DeviceCodeHash = hashString (en_DeviceCodeHash v),
     nr_UserCodeHash = hashString (en_UserCodeHash v), nr_SigningPublicJWK = en_SigningPublicJWK v,
     nr_KEMPublicJWK = en_KEMPublicJWK v, nr_SigningJKT = en_SigningJKT v, nr_KEMJKT = en_KEMJKT v,
     nr_Status = en_Status v, nr_ExpiresAt = en_ExpiresAt v, nr_ApprovedBy = en_ApprovedBy v,
     nr_ApprovedAt = en_ApprovedAt v, nr_ConsumedAt = en_ConsumedAt v,
     nr_EndpointID = optionalID (en_EndpointID v), nr_RowVersion = en_RowVersion v,
     nr_CreatedAt = en_CreatedAt v, nr_UpdatedAt = en_UpdatedAt v\<rparr>"

definition enrollmentFromRow :: "enrollmentRow \<Rightarrow> Enrollment result" where
  "enrollmentFromRow row =
     bindE (parseID (nr_ID row)) (\<lambda>v_ID.
     bindE (parseHash (nr_DeviceCodeHash row)) (\<lambda>v_DeviceCodeHash.
     bindE (parseHash (nr_UserCodeHash row)) (\<lambda>v_UserCodeHash.
     bindE (parseOptionalID (nr_EndpointID row)) (\<lambda>v_EndpointID.
     Inr \<lparr>
       en_ID = v_ID, en_OwnerUserID = nr_OwnerUserID row, en_TenantID = nr_TenantID row,
       en_EndpointType = nr_EndpointType row, en_EndpointName = nr_EndpointName row,
       en_DeviceCodeHash = v_DeviceCodeHash, en_UserCodeHash = v_UserCodeHash,
       en_SigningPublicJWK = nr_SigningPublicJWK row, en_KEMPublicJWK = nr_KEMPublicJWK row,
       en_SigningJKT = nr_SigningJKT row, en_KEMJKT = nr_KEMJKT row, en_Status = nr_Status row,
       en_ExpiresAt = nr_ExpiresAt row, en_ApprovedBy = nr_ApprovedBy row,
       en_ApprovedAt = nr_ApprovedAt row, en_ConsumedAt = nr_ConsumedAt row,
       en_EndpointID = v_EndpointID, en_RowVersion = nr_RowVersion row,
       en_CreatedAt = nr_CreatedAt row, en_UpdatedAt = nr_UpdatedAt row\<rparr>))))"

definition credentialToRow :: "(string list \<Rightarrow> string result) \<Rightarrow> EndpointCredential \<Rightarrow> credentialRow result" where
  "credentialToRow marshal v = (case marshal (cr_Scopes v) of
       Inl err \<Rightarrow> Inl (Wrap err)
     | Inr encoded \<Rightarrow> Inr \<lparr>
     cw_ID = ID_String (cr_ID v), cw_EndpointID = ID_String (cr_EndpointID v),
     cw_FamilyID = ID_String (cr_FamilyID v), cw_TokenHash = hashString (cr_TokenHash v),
     cw_SigningJKT = cr_SigningJKT v, cw_ScopesJSON = encoded, cw_Status = cr_Status v,
     cw_ExpiresAt = cr_ExpiresAt v, cw_RotatedFrom = optionalID (cr_RotatedFrom v),
     cw_CreatedAt = cr_CreatedAt v, cw_UpdatedAt = cr_UpdatedAt v, cw_RevokedAt = cr_RevokedAt v\<rparr>)"

definition sessionToRow :: "(string list \<Rightarrow> string result) \<Rightarrow> Session \<Rightarrow> sessionRow result" where
  "sessionToRow marshal v = (case marshal (se_RequestedCapabilities v) of
       Inl err \<Rightarrow> Inl (Wrap err)
     | Inr encoded \<Rightarrow> Inr \<lparr>
     sw_ID = ID_String (se_ID v), sw_OwnerUserID = se_OwnerUserID v, sw_TenantID = se_TenantID v,
     sw_ABAEndpointID = ID_String (se_ABAEndpointID v),
     sw_HCEndpointID = ID_String (se_HCEndpointID v), sw_RuntimeProfileID = se_RuntimeProfileID v,
     sw_WorkspaceID = se_WorkspaceID v, sw_CapabilitiesJSON = encoded, sw_Status = se_Status v,
     sw_CurrentKeyGeneration = se_CurrentKeyGeneration v, sw_CreatedAt = se_CreatedAt v,
     sw_UpdatedAt = se_UpdatedAt v, sw_LastActivityAt = se_LastActivityAt v,
     sw_ClosedAt = se_ClosedAt v, sw_RowVersion = se_RowVersion v\<rparr>)"

definition sessionFromRow :: "(string \<Rightarrow> string list option) \<Rightarrow> sessionRow \<Rightarrow> Session result" where
  "sessionFromRow unmarshal row =
     bindE (parseID (sw_ID row)) (\<lambda>v_ID.
     bindE (parseID (sw_ABAEndpointID row)) (\<lambda>v_ABAEndpointID.
     bindE (parseID (sw_HCEndpointID row)) (\<lambda>v_HCEndpointID.
     bindE (case unmarshal (sw_CapabilitiesJSON row) of None \<Rightarrow> Inl (Wrap Plain) | Some cs \<Rightarrow> Inr cs) (\<lambda>v_RequestedCapabilities.
     Inr \<lparr>
       se_ID = v_ID, se_OwnerUserID = sw_OwnerUserID row, se_TenantID = sw_TenantID row,
       se_ABAEndpointID = v_ABAEndpointID, se_HCEndpointID = v_HCEndpointID,
       se_RuntimeProfileID = sw_RuntimeProfileID row, se_WorkspaceID = sw_WorkspaceID row,
       se_RequestedCapabilities = v_RequestedCapabilities, se_Status = sw_Status row,
       se_CurrentKeyGeneration = sw_CurrentKeyGeneration row, se_CreatedAt = sw_CreatedAt row,
       se_UpdatedAt = sw_UpdatedAt row, se_LastActivityAt = sw_LastActivityAt row,
       se_ClosedAt = sw_ClosedAt row, se_RowVersion = sw_RowVersion row\<rparr>))))"

definition ticketToRow :: "WSTicket \<Rightarrow> ticketRow" where
  "ticketToRow v = \<lparr>
     tw_ID = ID_String (tk_ID v), tw_TokenHash = hashString (tk_TokenHash v),
     tw_EndpointID = ID_String (tk_EndpointID v), tw_CredentialID = ID_String (tk_CredentialID v),
     tw_Purpose = tk_Purpose v, tw_Origin = tk_Origin v, tw_Protocol = tk_Protocol v,
     tw_Status = tk_Status v, tw_ExpiresAt = tk_ExpiresAt v, tw_ConsumedAt = tk_ConsumedAt v,
     tw_CreatedAt = tk_CreatedAt v, tw_RowVersion = tk_RowVersion v\<rparr>"

definition ticketFromRow :: "ticketRow \<Rightarrow> WSTicket result" where
  "ticketFromRow row =
     bindE (parseID (tw_ID row)) (\<lambda>v_ID.
     bindE (parseID (tw_EndpointID row)) (\<lambda>v_EndpointID.
     bindE (parseID (tw_CredentialID row)) (\<lambda>v_CredentialID.
     bindE (parseHash (tw_TokenHash row)) (\<lambda>v_TokenHash.
     Inr \<lparr>
       tk_ID = v_ID, tk_TokenHash = v_TokenHash, tk_EndpointID = v_EndpointID,
       tk_CredentialID = v_CredentialID, tk_Purpose = tw_Purpose row, tk_Origin = tw_Origin row,
       tk_Protocol = tw_Protocol row, tk_Status = tw_Status row, tk_ExpiresAt = tw_ExpiresAt row,
       tk_ConsumedAt = tw_ConsumedAt row, tk_CreatedAt = tw_CreatedAt row,
       tk_RowVersion = tw_RowVersion row\<rparr>))))"

definition frameToRow :: "EncryptedFrame \<Rightarrow> frameRow" where
  "frameToRow v = \<lparr>
     fw_MessageID = ID_String (fr_MessageID v), fw_SessionID = ID_String (fr_SessionID v),
     fw_ChannelID = ID_String (fr_ChannelID v), fw_KeyGeneration = fr_KeyGeneration v,
     fw_SenderEndpointID = ID_String (fr_SenderEndpointID v),
     fw_ReceiverEndpointID = ID_String (fr_ReceiverEndpointID v), fw_Direction = fr_Direction v,
     fw_Sequence = fr_Sequence v, fw_KeyID = ID_String (fr_KeyID v),
     fw_CreatedAtMS = fr_CreatedAtMS v, fw_AAD = fr_AAD v, fw_Ciphertext = fr_Ciphertext v,
     fw_Signature = fr_Signature v, fw_ContentHash = hashString (fr_ContentHash v),
     fw_Status = fr_Status v, fw_ReceivedAt = fr_ReceivedAt v, fw_RoutedAt = fr_RoutedAt v,
     fw_AcknowledgedAt = fr_AcknowledgedAt v, fw_ExpiresAt = fr_ExpiresAt v\<rparr>"

definition frameFromRow :: "frameRow \<Rightarrow> EncryptedFrame result" where
  "frameFromRow row =
     bindE (parseID (fw_MessageID row)) (\<lambda>v_MessageID.
     bindE (parseID (fw_SessionID row)) (\<lambda>v_SessionID.
     bindE (parseID (fw_ChannelID row)) (\<lambda>v_ChannelID.
     bindE (parseID (fw_SenderEndpointID row)) (\<lambda>v_SenderEndpointID.
     bindE (parseID (fw_ReceiverEndpointID row)) (\<lambda>v_ReceiverEndpointID.
     bindE (parseID (fw_KeyID row)) (\<lambda>v_KeyID.
     bindE (parseHash (fw_ContentHash row)) (\<lambda>v_ContentHash.
     Inr \<lparr>
       fr_MessageID = v_MessageID, fr_ChannelID = v_ChannelID, fr_SessionID = v_SessionID,
       fr_SenderEndpointID = v_SenderEndpointID, fr_ReceiverEndpointID = v_ReceiverEndpointID,
       fr_Direction = fw_Direction row, fr_Sequence = fw_Sequence row,
       fr_KeyGeneration = fw_KeyGeneration row, fr_KeyID = v_KeyID,
       fr_CreatedAtMS = fw_CreatedAtMS row, fr_AAD = fw_AAD row, fr_Ciphertext = fw_Ciphertext row,
       fr_Signature = fw_Signature row, fr_ContentHash = v_ContentHash, fr_Status = fw_Status row,
       fr_ReceivedAt = fw_ReceivedAt row, fr_RoutedAt = fw_RoutedAt row,
       fr_AcknowledgedAt = fw_AcknowledgedAt row, fr_ExpiresAt = fw_ExpiresAt row\<rparr>)))))))"

definition ackToRow :: "AckCursor \<Rightarrow> ackRow" where
  "ackToRow v = \<lparr>
     aw_SessionID = ID_String (ac_SessionID v), aw_KeyGeneration = ac_KeyGeneration v,
     aw_Direction = ac_Direction v, aw_SenderEndpointID = ID_String (ac_SenderEndpointID v),
     aw_ReceiverEndpointID = ID_String (ac_ReceiverEndpointID v),
     aw_HighestContiguousSequence = ac_HighestContiguousSequence v, aw_UpdatedAt = ac_UpdatedAt v,
     aw_RowVersion = ac_RowVersion v\<rparr>"

definition ackFromRow :: "ackRow \<Rightarrow> AckCursor result" where
  "ackFromRow row =
     bindE (parseID (aw_SessionID row)) (\<lambda>v_SessionID.
     bindE (parseID (aw_SenderEndpointID row)) (\<lambda>v_SenderEndpointID.
     bindE (parseID (aw_ReceiverEndpointID row)) (\<lambda>v_ReceiverEndpointID.
     Inr \<lparr>
       ac_SessionID = v_SessionID, ac_KeyGeneration = aw_KeyGeneration row,
       ac_Direction = aw_Direction row, ac_SenderEndpointID = v_SenderEndpointID,
       ac_ReceiverEndpointID = v_ReceiverEndpointID,
       ac_HighestContiguousSequence = aw_HighestContiguousSequence row, ac_ReceivedRanges = [],
       ac_UpdatedAt = aw_UpdatedAt row, ac_RowVersion = aw_RowVersion row\<rparr>)))"

definition keyPackageToRow :: "SessionKeyPackage \<Rightarrow> keyPackageRow" where
  "keyPackageToRow v = \<lparr>
     kw_ID = ID_String (kp_ID v), kw_SessionID = ID_String (kp_SessionID v),
     kw_Generation = kp_Generation v,
     kw_IssuerABAEndpointID = ID_String (kp_IssuerABAEndpointID v),
     kw_RecipientHCEndpointID = ID_String (kp_RecipientHCEndpointID v),
     kw_CryptoSuite = kp_CryptoSuite v, kw_EncapsulatedKey = kp_EncapsulatedKey v,
     kw_Ciphertext = kp_Ciphertext v, kw_ContextHash = hashString (kp_ContextHash v),
     kw_IssuerSignature = kp_IssuerSignature v,
     kw_IssuerCredentialID = ID_String (kp_IssuerCredentialID v), kw_Status = kp_Status v,
     kw_ExpiresAt = kp_ExpiresAt v, kw_AcknowledgedAt = kp_AcknowledgedAt v,
     kw_CreatedAt = kp_CreatedAt v\<rparr>"

definition keyPackageFromRow :: "keyPackageRow \<Rightarrow> SessionKeyPackage result" where
  "keyPackageFromRow row =
     bindE (parseID (kw_ID row)) (\<lambda>v_ID.
     bindE (parseID (kw_SessionID row)) (\<lambda>v_SessionID.
     bindE (parseID (kw_IssuerABAEndpointID row)) (\<lambda>v_IssuerABAEndpointID.
     bindE (parseID (kw_RecipientHCEndpointID row)) (\<lambda>v_RecipientHCEndpointID.
     bindE (parseID (kw_IssuerCredentialID row)) (\<lambda>v_IssuerCredentialID.
     bindE (parseHash (kw_ContextHash row)) (\<lambda>v_ContextHash.
     Inr \<lparr>
       kp_ID = v_ID, kp_SessionID = v_SessionID, kp_Generation = kw_Generation row,
       kp_IssuerABAEndpointID = v_IssuerABAEndpointID,
       kp_RecipientHCEndpointID = v_RecipientHCEndpointID, kp_CryptoSuite = kw_CryptoSuite row,
       kp_EncapsulatedKey = kw_EncapsulatedKey row, kp_Ciphertext = kw_Ciphertext row,
       kp_ContextHash = v_ContextHash, kp_IssuerSignature = kw_IssuerSignature row,
       kp_IssuerCredentialID = v_IssuerCredentialID, kp_Status = kw_Status row,
       kp_ExpiresAt = kw_ExpiresAt row, kp_AcknowledgedAt = kw_AcknowledgedAt row,
       kp_CreatedAt = kw_CreatedAt row\<rparr>))))))"

definition auditToRow :: "SecurityAuditEvent \<Rightarrow> byte list \<Rightarrow> auditRow" where
  "auditToRow v metadata = \<lparr>
     uw_ID = ID_String (au_ID v), uw_OwnerUserID = TrimSpace (au_OwnerUserID v),
     uw_TenantID = TrimSpace (au_TenantID v), uw_ActorType = au_ActorType v,
     uw_ActorID = TrimSpace (au_ActorID v), uw_Action = au_Action v,
     uw_ObjectType = au_ObjectType v, uw_ObjectID = au_ObjectID v, uw_Result = au_Result v,
     uw_ErrorCode = au_ErrorCode v, uw_MetadataJSON = metadata, uw_CreatedAt = au_CreatedAt v\<rparr>"

definition idempotencyToRow :: "IdempotencyRecord \<Rightarrow> idempotencyRow" where
  "idempotencyToRow v = \<lparr>
     iw_ID = ID_String (id_ID v), iw_OwnerUserID = TrimSpace (id_OwnerUserID v),
     iw_TenantID = TrimSpace (id_TenantID v), iw_ActorID = TrimSpace (id_ActorID v),
     iw_Operation = id_Operation v, iw_Key = id_Key v,
     iw_RequestHash = hashString (id_RequestHash v), iw_Status = id_Status v,
     iw_HTTPStatus = id_HTTPStatus v, iw_ResponseJSON = id_ResponseJSON v,
     iw_ErrorCode = id_ErrorCode v, iw_CreatedAt = id_CreatedAt v, iw_UpdatedAt = id_UpdatedAt v,
     iw_ExpiresAt = id_ExpiresAt v, iw_RowVersion = id_RowVersion v\<rparr>"

definition idempotencyFromRow :: "(byte list \<Rightarrow> bool) \<Rightarrow> idempotencyRow \<Rightarrow> IdempotencyRecord result" where
  "idempotencyFromRow json_valid row =
     bindE (parseID (iw_ID row)) (\<lambda>v_ID.
     bindE (parseHash (iw_RequestHash row)) (\<lambda>v_RequestHash.
     (let value = \<lparr>
       id_ID = v_ID, id_OwnerUserID = iw_OwnerUserID row, id_TenantID = iw_TenantID row,
       id_ActorID = iw_ActorID row, id_Operation = iw_Operation row, id_Key = iw_Key row,
       id_RequestHash = v_RequestHash, id_Status = iw_Status row,
       id_HTTPStatus = iw_HTTPStatus row, id_ResponseJSON = iw_ResponseJSON row,
       id_ErrorCode = iw_ErrorCode row, id_CreatedAt = iw_CreatedAt row,
       id_UpdatedAt = iw_UpdatedAt row, id_ExpiresAt = iw_ExpiresAt row,
       id_RowVersion = iw_RowVersion row\<rparr>
      in case IdempotencyRecord_Validate json_valid value MaxIdempotencyResponseBytes of
           Some err \<Rightarrow> Inl (Wrap err) | None \<Rightarrow> Inr value)))"

definition controlOutboxToRow :: "ControlOutbox \<Rightarrow> controlOutboxRow" where
  "controlOutboxToRow v = \<lparr>
     ow_ID = ID_String (ob_ID v), ow_OwnerUserID = ob_OwnerUserID v, ow_TenantID = ob_TenantID v,
     ow_SessionID = ID_String (ob_SessionID v), ow_CorrelationID = ID_String (ob_CorrelationID v),
     ow_RecipientEndpointID = ID_String (ob_RecipientEndpointID v), ow_Kind = ob_Kind v,
     ow_Payload = ob_Payload v, ow_Packet = ob_Packet v, ow_Status = ob_Status v,
     ow_CreatedAt = ob_CreatedAt v, ow_UpdatedAt = ob_UpdatedAt v, ow_ExpiresAt = ob_ExpiresAt v,
     ow_CompletedAt = ob_CompletedAt v, ow_RowVersion = ob_RowVersion v\<rparr>"

definition controlOutboxFromRow :: "controlOutboxRow \<Rightarrow> ControlOutbox result" where
  "controlOutboxFromRow row =
     bindE (parseID (ow_ID row)) (\<lambda>v_ID.
     bindE (parseID (ow_SessionID row)) (\<lambda>v_SessionID.
     bindE (parseID (ow_CorrelationID row)) (\<lambda>v_CorrelationID.
     bindE (parseID (ow_RecipientEndpointID row)) (\<lambda>v_RecipientEndpointID.
     (let value = \<lparr>
       ob_ID = v_ID, ob_OwnerUserID = ow_OwnerUserID row, ob_TenantID = ow_TenantID row,
       ob_SessionID = v_SessionID, ob_CorrelationID = v_CorrelationID,
       ob_RecipientEndpointID = v_RecipientEndpointID, ob_Kind = ow_Kind row,
       ob_Payload = ow_Payload row, ob_Packet = ow_Packet row, ob_Status = ow_Status row,
       ob_CreatedAt = ow_CreatedAt row, ob_UpdatedAt = ow_UpdatedAt row,
       ob_ExpiresAt = ow_ExpiresAt row, ob_CompletedAt = ow_CompletedAt row,
       ob_RowVersion = ow_RowVersion row\<rparr>
      in case ControlOutbox_ValidateStored maxControlOutboxPayloadBytes maxControlOutboxPacketBytes value of
           Some err \<Rightarrow> Inl err | None \<Rightarrow> Inr value)))))"

definition refreshCredentialToRow :: "RefreshCredential \<Rightarrow> refreshCredentialRow" where
  "refreshCredentialToRow v = \<lparr>
     rw_ID = ID_String (rc_ID v), rw_EndpointID = ID_String (rc_EndpointID v),
     rw_FamilyID = ID_String (rc_FamilyID v), rw_TokenHash = hashString (rc_TokenHash v),
     rw_SigningJKT = rc_SigningJKT v, rw_Status = rc_Status v, rw_ExpiresAt = rc_ExpiresAt v,
     rw_RotatedFrom = optionalID (rc_RotatedFrom v), rw_RotatedTo = optionalID (rc_RotatedTo v),
     rw_UsedAt = rc_UsedAt v, rw_RevokedAt = rc_RevokedAt v, rw_CreatedAt = rc_CreatedAt v,
     rw_UpdatedAt = rc_UpdatedAt v\<rparr>"

definition refreshCredentialFromRow :: "refreshCredentialRow \<Rightarrow> RefreshCredential result" where
  "refreshCredentialFromRow row =
     bindE (parseID (rw_ID row)) (\<lambda>v_ID.
     bindE (parseID (rw_EndpointID row)) (\<lambda>v_EndpointID.
     bindE (parseID (rw_FamilyID row)) (\<lambda>v_FamilyID.
     bindE (parseOptionalID (rw_RotatedFrom row)) (\<lambda>v_RotatedFrom.
     bindE (parseOptionalID (rw_RotatedTo row)) (\<lambda>v_RotatedTo.
     bindE (map_sum Wrap id (parseHash (rw_TokenHash row))) (\<lambda>v_TokenHash.
     Inr \<lparr>
       rc_ID = v_ID, rc_EndpointID = v_EndpointID, rc_FamilyID = v_FamilyID,
       rc_TokenHash = v_TokenHash, rc_SigningJKT = rw_SigningJKT row, rc_Status = rw_Status row,
       rc_ExpiresAt = rw_ExpiresAt row, rc_RotatedFrom = v_RotatedFrom, rc_RotatedTo = v_RotatedTo,
       rc_UsedAt = rw_UsedAt row, rc_RevokedAt = rw_RevokedAt row, rc_CreatedAt = rw_CreatedAt row,
       rc_UpdatedAt = rw_UpdatedAt row\<rparr>))))))"

definition credentialFromRow :: "(string \<Rightarrow> string list option) \<Rightarrow> credentialRow \<Rightarrow> EndpointCredential result" where
  "credentialFromRow unmarshal row =
     bindE (parseID (cw_ID row)) (\<lambda>v_ID.
     bindE (parseID (cw_EndpointID row)) (\<lambda>v_EndpointID.
     bindE (parseID (cw_FamilyID row)) (\<lambda>v_FamilyID.
     bindE (parseOptionalID (cw_RotatedFrom row)) (\<lambda>v_RotatedFrom.
     bindE (map_sum Wrap id (parseHash (cw_TokenHash row))) (\<lambda>v_TokenHash.
     bindE (case unmarshal (cw_ScopesJSON row) of None \<Rightarrow> Inl (Wrap Plain) | Some cs \<Rightarrow> Inr cs) (\<lambda>v_Scopes.
     Inr \<lparr>
       cr_ID = v_ID, cr_EndpointID = v_EndpointID, cr_FamilyID = v_FamilyID, cr_TokenHash = v_TokenHash,
       cr_SigningJKT = cw_SigningJKT row, cr_Scopes = v_Scopes, cr_Status = cw_Status row,
       cr_ExpiresAt = cw_ExpiresAt row, cr_RotatedFrom = v_RotatedFrom, cr_CreatedAt = cw_CreatedAt row,
       cr_UpdatedAt = cw_UpdatedAt row, cr_RevokedAt = cw_RevokedAt row\<rparr>))))))"

definition hcRegistrationChallengeToRow :: "HCRegistrationChallenge \<Rightarrow> hcRegistrationChallengeRow" where
  "hcRegistrationChallengeToRow v = \<lparr>
     hw_ID = ID_String (ch_ID v), hw_OwnerUserID = TrimSpace (ch_OwnerUserID v),
     hw_TenantID = TrimSpace (ch_TenantID v), hw_Origin = TrimSpace (ch_Origin v),
     hw_ChallengeHash = hashString (ch_ChallengeHash v), hw_Status = ch_Status v,
     hw_ExpiresAt = ch_ExpiresAt v, hw_ConsumedAt = ch_ConsumedAt v, hw_CreatedAt = ch_CreatedAt v,
     hw_UpdatedAt = ch_UpdatedAt v, hw_RowVersion = ch_RowVersion v\<rparr>"

definition hcRegistrationChallengeFromRow :: "hcRegistrationChallengeRow \<Rightarrow> HCRegistrationChallenge result" where
  "hcRegistrationChallengeFromRow row =
     bindE (parseID (hw_ID row)) (\<lambda>v_ID.
     bindE (map_sum Wrap id (parseHash (hw_ChallengeHash row))) (\<lambda>v_ChallengeHash.
     Inr \<lparr>
       ch_ID = v_ID, ch_OwnerUserID = hw_OwnerUserID row, ch_TenantID = hw_TenantID row,
       ch_Origin = hw_Origin row, ch_ChallengeHash = v_ChallengeHash, ch_Status = hw_Status row,
       ch_ExpiresAt = hw_ExpiresAt row, ch_ConsumedAt = hw_ConsumedAt row,
       ch_CreatedAt = hw_CreatedAt row, ch_UpdatedAt = hw_UpdatedAt row,
       ch_RowVersion = hw_RowVersion row\<rparr>))"

subsection \<open>Unique keys and the database\<close>

definition endpoint_clash :: "endpointRow \<Rightarrow> endpointRow \<Rightarrow> bool" where
  "endpoint_clash r x \<longleftrightarrow> er_ID r = er_ID x \<or>
     er_OwnerUserID r = er_OwnerUserID x \<and> (er_SigningJKT r = er_SigningJKT x \<or> er_KEMJKT r = er_KEMJKT x)"

definition enrollment_clash :: "enrollmentRow \<Rightarrow> enrollmentRow \<Rightarrow> bool" where
  "enrollment_clash r x \<longleftrightarrow> nr_ID r = nr_ID x \<or> nr_DeviceCodeHash r = nr_DeviceCodeHash x \<or>
     nr_UserCodeHash r = nr_UserCodeHash x"

definition credential_clash :: "credentialRow \<Rightarrow> credentialRow \<Rightarrow> bool" where
  "credential_clash r x \<longleftrightarrow> cw_ID r = cw_ID x \<or> cw_TokenHash r = cw_TokenHash x"

definition session_clash :: "sessionRow \<Rightarrow> sessionRow \<Rightarrow> bool" where
  "session_clash r x \<longleftrightarrow> sw_ID r = sw_ID x"

definition ticket_clash :: "ticketRow \<Rightarrow> ticketRow \<Rightarrow> bool" where
  "ticket_clash r x \<longleftrightarrow> tw_ID r = tw_ID x \<or> tw_TokenHash r = tw_TokenHash x"

definition frame_clash :: "frameRow \<Rightarrow> frameRow \<Rightarrow> bool" where
  "frame_clash r x \<longleftrightarrow> fw_MessageID r = fw_MessageID x \<or>
     fw_SessionID r = fw_SessionID x \<and> fw_KeyGeneration r = fw_KeyGeneration x \<and>
     fw_SenderEndpointID r = fw_SenderEndpointID x \<and> fw_Sequence r = fw_Sequence x"

definition ack_clash :: "ackRow \<Rightarrow> ackRow \<Rightarrow> bool" where
  "ack_clash r x \<longleftrightarrow> aw_SessionID r = aw_SessionID x \<and> aw_KeyGeneration r = aw_KeyGeneration x \<and>
     aw_Direction r = aw_Direction x \<and> aw_SenderEndpointID r = aw_SenderEndpointID x \<and>
     aw_ReceiverEndpointID r = aw_ReceiverEndpointID x"

definition key_package_clash :: "keyPackageRow \<Rightarrow> keyPackageRow \<Rightarrow> bool" where
  "key_package_clash r x \<longleftrightarrow> kw_ID r = kw_ID x \<or>
     kw_SessionID r = kw_SessionID x \<and> kw_Generation r = kw_Generation x \<and>
     kw_RecipientHCEndpointID r = kw_RecipientHCEndpointID x"

definition audit_clash :: "auditRow \<Rightarrow> auditRow \<Rightarrow> bool" where
  "audit_clash r x \<longleftrightarrow> uw_ID r = uw_ID x"

definition idempotency_clash :: "idempotencyRow \<Rightarrow> idempotencyRow \<Rightarrow> bool" where
  "idempotency_clash r x \<longleftrightarrow> iw_ID r = iw_ID x \<or>
     iw_OwnerUserID r = iw_OwnerUserID x \<and> iw_TenantID r = iw_TenantID x \<and> iw_ActorID r = iw_ActorID x \<and>
     iw_Operation r = iw_Operation x \<and> iw_Key r = iw_Key x"

definition outbox_clash :: "controlOutboxRow \<Rightarrow> controlOutboxRow \<Rightarrow> bool" where
  "outbox_clash r x \<longleftrightarrow> ow_ID r = ow_ID x \<or>
     ow_Kind r = ow_Kind x \<and> ow_CorrelationID r = ow_CorrelationID x \<and>
     ow_RecipientEndpointID r = ow_RecipientEndpointID x"

definition refresh_clash :: "refreshCredentialRow \<Rightarrow> refreshCredentialRow \<Rightarrow> bool" where
  "refresh_clash r x \<longleftrightarrow> rw_ID r = rw_ID x \<or> rw_TokenHash r = rw_TokenHash x"

definition challenge_clash :: "hcRegistrationChallengeRow \<Rightarrow> hcRegistrationChallengeRow \<Rightarrow> bool" where
  "challenge_clash r x \<longleftrightarrow> hw_ID r = hw_ID x \<or> hw_ChallengeHash r = hw_ChallengeHash x"

definition replay_clash :: "dpopReplayRow \<Rightarrow> dpopReplayRow \<Rightarrow> bool" where
  "replay_clash r x \<longleftrightarrow> dw_JKT r = dw_JKT x \<and> dw_JTI r = dw_JTI x"

definition nonce_clash :: "endpointNonceRow \<Rightarrow> endpointNonceRow \<Rightarrow> bool" where
  "nonce_clash r x \<longleftrightarrow> xw_EndpointID r = xw_EndpointID x"

definition generation_clash :: "connectionGenerationRow \<Rightarrow> connectionGenerationRow \<Rightarrow> bool" where
  "generation_clash r x \<longleftrightarrow> gw_EndpointID r = gw_EndpointID x"

record db =
  t_endpoints :: "endpointRow list"
  t_enrollments :: "enrollmentRow list"
  t_credentials :: "credentialRow list"
  t_sessions :: "sessionRow list"
  t_tickets :: "ticketRow list"
  t_frames :: "frameRow list"
  t_acks :: "ackRow list"
  t_packages :: "keyPackageRow list"
  t_audit :: "auditRow list"
  t_idempotency :: "idempotencyRow list"
  t_outbox :: "controlOutboxRow list"
  t_refresh :: "refreshCredentialRow list"
  t_challenges :: "hcRegistrationChallengeRow list"
  t_replays :: "dpopReplayRow list"
  t_nonces :: "endpointNonceRow list"
  t_generations :: "connectionGenerationRow list"

record drivers =
  dr_endpoints :: "endpointRow driver"
  dr_enrollments :: "enrollmentRow driver"
  dr_credentials :: "credentialRow driver"
  dr_sessions :: "sessionRow driver"
  dr_tickets :: "ticketRow driver"
  dr_frames :: "frameRow driver"
  dr_acks :: "ackRow driver"
  dr_packages :: "keyPackageRow driver"
  dr_audit :: "auditRow driver"
  dr_idempotency :: "idempotencyRow driver"
  dr_outbox :: "controlOutboxRow driver"
  dr_refresh :: "refreshCredentialRow driver"
  dr_challenges :: "hcRegistrationChallengeRow driver"
  dr_replays :: "dpopReplayRow driver"
  dr_nonces :: "endpointNonceRow driver"
  dr_generations :: "connectionGenerationRow driver"
  dr_sqlite :: bool
  dr_commit :: "db \<Rightarrow> db \<Rightarrow> db_error option"
  dr_marshal :: "string list \<Rightarrow> string result"
  dr_unmarshal :: "string \<Rightarrow> string list option"
  dr_unmarshal_jwk :: json_decoder
  dr_json_valid :: "byte list \<Rightarrow> bool"
  dr_marshal_map :: "(string \<Rightarrow> string option) \<Rightarrow> byte list result"

text \<open>The laws of all tables of a database.\<close>

definition database_laws :: "drivers \<Rightarrow> bool" where
  "database_laws D \<longleftrightarrow>
     sql_table endpoint_clash (dr_endpoints D) \<and> sql_table enrollment_clash (dr_enrollments D) \<and>
     sql_table credential_clash (dr_credentials D) \<and> sql_table session_clash (dr_sessions D) \<and>
     sql_table ticket_clash (dr_tickets D) \<and> sql_table frame_clash (dr_frames D) \<and>
     sql_table ack_clash (dr_acks D) \<and> sql_table key_package_clash (dr_packages D) \<and>
     sql_table audit_clash (dr_audit D) \<and> sql_table idempotency_clash (dr_idempotency D) \<and>
     sql_table outbox_clash (dr_outbox D) \<and> sql_table refresh_clash (dr_refresh D) \<and>
     sql_table challenge_clash (dr_challenges D) \<and> sql_table replay_clash (dr_replays D) \<and>
     sql_table nonce_clash (dr_nonces D) \<and> sql_table generation_clash (dr_generations D)"

text \<open>The reference drivers, on which the witnesses run.\<close>

definition reference_drivers :: drivers where
  "reference_drivers = \<lparr>
     dr_endpoints = list_driver endpoint_clash, dr_enrollments = list_driver enrollment_clash,
     dr_credentials = list_driver credential_clash, dr_sessions = list_driver session_clash,
     dr_tickets = list_driver ticket_clash, dr_frames = list_driver frame_clash,
     dr_acks = list_driver ack_clash, dr_packages = list_driver key_package_clash,
     dr_audit = list_driver audit_clash, dr_idempotency = list_driver idempotency_clash,
     dr_outbox = list_driver outbox_clash, dr_refresh = list_driver refresh_clash,
     dr_challenges = list_driver challenge_clash, dr_replays = list_driver replay_clash,
     dr_nonces = list_driver nonce_clash, dr_generations = list_driver generation_clash,
     dr_sqlite = False, dr_commit = (\<lambda>db db'. None),
     dr_marshal = (\<lambda>xs. Inr (concat (map (\<lambda>x. x @ '','') xs))),
     dr_unmarshal = (\<lambda>s. Some [butlast s]), dr_unmarshal_jwk = sample_decoder,
     dr_json_valid = (\<lambda>bs. True), dr_marshal_map = (\<lambda>m. Inr [123, 125])\<rparr>"

definition empty_db :: db where
  "empty_db = \<lparr>t_endpoints = [], t_enrollments = [], t_credentials = [], t_sessions = [], t_tickets = [],
     t_frames = [], t_acks = [], t_packages = [], t_audit = [], t_idempotency = [], t_outbox = [],
     t_refresh = [], t_challenges = [], t_replays = [], t_nonces = [], t_generations = []\<rparr>"

lemma reference_laws: "database_laws reference_drivers"
  by (simp add: database_laws_def reference_drivers_def list_table.sql_table_axioms)

lemma reference_driver_simps [simp]:
  "dr_endpoints reference_drivers = list_driver endpoint_clash"
  "dr_enrollments reference_drivers = list_driver enrollment_clash"
  "dr_credentials reference_drivers = list_driver credential_clash"
  "dr_sessions reference_drivers = list_driver session_clash"
  "dr_tickets reference_drivers = list_driver ticket_clash"
  "dr_frames reference_drivers = list_driver frame_clash"
  "dr_acks reference_drivers = list_driver ack_clash"
  "dr_packages reference_drivers = list_driver key_package_clash"
  "dr_audit reference_drivers = list_driver audit_clash"
  "dr_idempotency reference_drivers = list_driver idempotency_clash"
  "dr_outbox reference_drivers = list_driver outbox_clash"
  "dr_refresh reference_drivers = list_driver refresh_clash"
  "dr_challenges reference_drivers = list_driver challenge_clash"
  "dr_replays reference_drivers = list_driver replay_clash"
  "dr_nonces reference_drivers = list_driver nonce_clash"
  "dr_generations reference_drivers = list_driver generation_clash"
  "\<not> dr_sqlite reference_drivers"
  "dr_commit reference_drivers db db' = None"
  "dr_unmarshal_jwk reference_drivers = sample_decoder"
  "dr_json_valid reference_drivers bs"
  "dr_marshal_map reference_drivers m = Inr [123, 125]"
  by (simp_all add: reference_drivers_def)

lemma database_lawsD:
  assumes "database_laws D"
  shows "sql_table endpoint_clash (dr_endpoints D)" "sql_table enrollment_clash (dr_enrollments D)"
    "sql_table credential_clash (dr_credentials D)" "sql_table session_clash (dr_sessions D)"
    "sql_table ticket_clash (dr_tickets D)" "sql_table frame_clash (dr_frames D)"
    "sql_table ack_clash (dr_acks D)" "sql_table key_package_clash (dr_packages D)"
    "sql_table audit_clash (dr_audit D)" "sql_table idempotency_clash (dr_idempotency D)"
    "sql_table outbox_clash (dr_outbox D)" "sql_table refresh_clash (dr_refresh D)"
    "sql_table challenge_clash (dr_challenges D)" "sql_table replay_clash (dr_replays D)"
    "sql_table nonce_clash (dr_nonces D)" "sql_table generation_clash (dr_generations D)"
  using assms by (simp_all add: database_laws_def)

text \<open>\<^verbatim>\<open>db.Transaction\<close>: a failing body or a failing commit leaves the database as it was.\<close>

definition run_tx :: "drivers \<Rightarrow> (db, 'a) tx \<Rightarrow> db \<Rightarrow> 'a result \<times> db" where
  "run_tx D body db = (case body db of
       Inl e \<Rightarrow> (Inl e, db)
     | Inr (a, db') \<Rightarrow> (case dr_commit D db db' of Some e \<Rightarrow> (Inl (Driver e), db) | None \<Rightarrow> (Inr a, db')))"

lemma run_tx_error: "run_tx D body db = (Inl e, db') \<Longrightarrow> db' = db"
  by (auto simp: run_tx_def split: sum.splits option.splits)

lemma run_tx_success: "run_tx D body db = (Inr a, db') \<Longrightarrow> body db = Inr (a, db')"
  by (auto simp: run_tx_def split: sum.splits option.splits)

text \<open>Queries outside a transaction: nothing is written and nothing is committed.\<close>

definition run_read :: "(db, 'a) tx \<Rightarrow> db \<Rightarrow> 'a result \<times> db" where
  "run_read body db = (case body db of Inl e \<Rightarrow> (Inl e, db) | Inr r \<Rightarrow> (Inr (fst r), db))"

lemma run_read_success: "run_read body db = (Inr a, db') \<Longrightarrow> \<exists>db2. body db = Inr (a, db2)"
  by (auto simp: run_read_def split: sum.splits)

lemma run_read_same [simp]: "snd (run_read body db) = db"
  by (auto simp: run_read_def split: sum.splits)

text \<open>A check on the outcome of a statement that ran, and was committed, on its own.\<close>

definition check_after :: "'a result \<times> db \<Rightarrow> ('a \<Rightarrow> 'b result) \<Rightarrow> 'b result \<times> db" where
  "check_after outcome f = (bindE (fst outcome) f, snd outcome)"

text \<open>A transaction whose error is normalized before it is returned.\<close>

definition run_tx_normalized :: "drivers \<Rightarrow> (db, 'a) tx \<Rightarrow> db \<Rightarrow> 'a result \<times> db" where
  "run_tx_normalized D body db =
     (case run_tx D body db of (r, db') \<Rightarrow> (map_sum normalizeConcurrencyError id r, db'))"

lemma run_tx_normalized_error: "run_tx_normalized D body db = (Inl e, db') \<Longrightarrow> db' = db"
  by (auto simp: run_tx_normalized_def map_sum_def split: prod.splits sum.splits dest: run_tx_error)

lemma run_tx_normalized_success: "run_tx_normalized D body db = (Inr a, db') \<Longrightarrow> body db = Inr (a, db')"
  by (auto simp: run_tx_normalized_def map_sum_def split: prod.splits sum.splits dest: run_tx_success)

subsection \<open>What is written is what is read\<close>

lemma parseID_ID_String [simp]: "wf_id i \<Longrightarrow> \<not> IsZero i \<Longrightarrow> parseID (ID_String i) = Inr i"
  by (simp add: parseID_def)

lemma parseID_InrD: "parseID s = Inr i \<Longrightarrow> wf_id i \<and> \<not> IsZero i"
  by (auto simp: parseID_def split: sum.splits dest: ParseID_InrD)

lemma parseHash_hashString [simp]: "length h = 32 \<Longrightarrow> parseHash (hashString h) = Inr h"
  by (simp add: parseHash_def hashString_def)

lemma hashString_inject [simp]: "hashString g = hashString h \<longleftrightarrow> g = h"
  by (simp add: hashString_def)

lemma blank_ID_String: "\<not> IsZero i \<Longrightarrow> \<not> blank (ID_String i)"
  by (auto simp: blank_def ID_String_def IsZero_def)

lemma parseOptionalID_optionalID [simp]: "wf_id i \<Longrightarrow> parseOptionalID (optionalID i) = Inr i"
proof (cases "IsZero i")
  case True
  then show "wf_id i \<Longrightarrow> ?thesis"
    by (simp add: parseOptionalID_def optionalID_def blank_def IsZero_iff)
next
  case False
  then show "wf_id i \<Longrightarrow> ?thesis"
    by (simp add: parseOptionalID_def optionalID_def blank_ID_String)
qed

definition real_id :: "ID \<Rightarrow> bool" where
  "real_id i \<longleftrightarrow> wf_id i \<and> \<not> IsZero i"

lemma parseID_real [simp]: "real_id i \<Longrightarrow> parseID (ID_String i) = Inr i"
  by (simp add: real_id_def)

lemma real_sample_id [simp]: "real_id (sample_id b) \<longleftrightarrow> b \<noteq> 0"
  by (simp add: real_id_def)


definition sample_hash :: "byte \<Rightarrow> byte list" where
  "sample_hash b = b # replicate 31 0"

lemma length_sample_hash [simp]: "length (sample_hash b) = 32"
  by (simp add: sample_hash_def)

lemma allZero_sample_hash [simp]: "allZero (sample_hash b) \<longleftrightarrow> b = 0"
  by (simp add: sample_hash_def allZero_set)

definition sample_ticket :: WSTicket where
  "sample_ticket = \<lparr>
     tk_ID = sample_id 11, tk_TokenHash = sample_hash 1, tk_EndpointID = sample_id 1,
     tk_CredentialID = sample_id 3, tk_Purpose = ''connect'', tk_Origin = ''o'', tk_Protocol = ''p'',
     tk_Status = TicketStatusIssued, tk_ExpiresAt = 30, tk_ConsumedAt = None, tk_CreatedAt = 1,
     tk_RowVersion = 0\<rparr>"

definition sample_frame :: "u64 \<Rightarrow> EncryptedFrame" where
  "sample_frame sequence = \<lparr>
     fr_MessageID = replicate 15 1 @ [ucast sequence], fr_ChannelID = sample_id 12, fr_SessionID = sample_id 7,
     fr_SenderEndpointID = sample_id 2, fr_ReceiverEndpointID = sample_id 1, fr_Direction = 1,
     fr_Sequence = sequence, fr_KeyGeneration = 1, fr_KeyID = sample_id 13, fr_CreatedAtMS = 5,
     fr_AAD = replicate 148 7, fr_Ciphertext = [1, 2, 3], fr_Signature = replicate 64 9,
     fr_ContentHash = sample_hash 4, fr_Status = FrameStatusStored, fr_ReceivedAt = 5, fr_RoutedAt = None,
     fr_AcknowledgedAt = None, fr_ExpiresAt = 500\<rparr>"

definition sample_cursor :: "u64 \<Rightarrow> AckCursor" where
  "sample_cursor highest = \<lparr>
     ac_SessionID = sample_id 7, ac_KeyGeneration = 1, ac_Direction = 1, ac_SenderEndpointID = sample_id 2,
     ac_ReceiverEndpointID = sample_id 1, ac_HighestContiguousSequence = highest, ac_ReceivedRanges = [],
     ac_UpdatedAt = 9, ac_RowVersion = 0\<rparr>"


end
