(* ===== verification/Store_Tickets.thy ===== *)
theory Store_Tickets
  imports Store_Rows
begin

section \<open>WebSocket tickets (\<open>CreateTicket\<close>, \<open>ConsumeTicket\<close> in \<open>store/repository.go\<close>)\<close>

text \<open>
  A ticket is a short-lived single-use permission to open a WebSocket.  It is issued for an
  endpoint, a credential, a purpose, an origin and a protocol, and consumed by presenting its
  token with the same binding.  The section shows that consumption is at most once per token,
  whatever else is attempted, and what a successful consumption implies.
\<close>

definition CreateTicket :: "drivers \<Rightarrow> WSTicket \<Rightarrow> duration \<Rightarrow> db \<Rightarrow> unit result \<times> db" where
  "CreateTicket D ticket maxTTL db =
     (if IsZero (tk_ID ticket) \<or> IsZero (tk_EndpointID ticket) \<or> IsZero (tk_CredentialID ticket) \<or>
         zeroHash (tk_TokenHash ticket) \<or> tk_Status ticket \<noteq> TicketStatusIssued \<or>
         blank (tk_Purpose ticket) \<or> blank (tk_Origin ticket) \<or> blank (tk_Protocol ticket) \<or>
         IsZeroTime (tk_CreatedAt ticket) \<or> \<not> tk_ExpiresAt ticket > tk_CreatedAt ticket \<or> maxTTL \<le> 0 \<or>
         Sub (tk_ExpiresAt ticket) (tk_CreatedAt ticket) > maxTTL
      then (Inl (problem CodeInvalidArgument), db)
      else run_tx D (tx_create (dr_tickets D) t_tickets t_tickets_update (ticketToRow ticket) classifyPersistence) db)"

definition ticket_status_check :: "TicketStatus \<Rightarrow> go_error option" where
  "ticket_status_check st = (case st of
       TicketStatusConsumed \<Rightarrow> Some (problem CodeConflict)
     | TicketStatusRevoked \<Rightarrow> Some (problem CodeRevoked)
     | TicketStatusExpired \<Rightarrow> Some (problem CodeExpired)
     | TicketStatusIssued \<Rightarrow> None
     | TicketStatusOther _ \<Rightarrow> Some (problem CodeInvalidState))"

definition ConsumeTicket_tx ::
    "drivers \<Rightarrow> byte list \<Rightarrow> ID \<Rightarrow> ID \<Rightarrow> string \<Rightarrow> string \<Rightarrow> string \<Rightarrow> time \<Rightarrow> (db, WSTicket) tx" where
  "ConsumeTicket_tx D tokenHash endpointID credentialID purpose origin protocol now =
     bindT (tx_first (dr_tickets D) t_tickets (\<lambda>r. tw_TokenHash r = hashString tokenHash) notFoundOr) (\<lambda>row.
     bindT (liftT (ticketFromRow row)) (\<lambda>ticket.
     bindT (guardT (tk_EndpointID ticket \<noteq> endpointID \<or> tk_CredentialID ticket \<noteq> credentialID \<or>
         tk_Purpose ticket \<noteq> purpose \<or> tk_Origin ticket \<noteq> origin \<or> tk_Protocol ticket \<noteq> protocol)
         (problem CodeSecurityViolation)) (\<lambda>_.
     bindT (checkT (ticket_status_check (tk_Status ticket))) (\<lambda>_.
     if \<not> now < tk_ExpiresAt ticket then
       bindT (tryT (tx_updates (dr_tickets D) t_tickets t_tickets_update (\<lambda>r. tw_ID r = tw_ID row)
           (\<lambda>r. r\<lparr>tw_Status := TicketStatusExpired, tw_RowVersion := tw_RowVersion row + 1\<rparr>) id)) (\<lambda>_.
       failT (problem CodeExpired))
     else
       bindT (tx_updates (dr_tickets D) t_tickets t_tickets_update
           (\<lambda>r. tw_ID r = tw_ID row \<and> tw_RowVersion r = tw_RowVersion row \<and> tw_Status r = TicketStatusIssued)
           (\<lambda>r. r\<lparr>tw_Status := TicketStatusConsumed, tw_ConsumedAt := Some now,
                  tw_RowVersion := tw_RowVersion row + 1\<rparr>) classifyPersistence) (\<lambda>affected.
       bindT (guardT (affected \<noteq> 1) (problem CodeConflict)) (\<lambda>_.
       returnT (ticket\<lparr>tk_Status := TicketStatusConsumed, tk_ConsumedAt := Some now,
                       tk_RowVersion := tk_RowVersion ticket + 1\<rparr>)))))))"

definition ConsumeTicket ::
    "drivers \<Rightarrow> byte list \<Rightarrow> ID \<Rightarrow> ID \<Rightarrow> string \<Rightarrow> string \<Rightarrow> string \<Rightarrow> time \<Rightarrow> db \<Rightarrow> WSTicket result \<times> db" where
  "ConsumeTicket D tokenHash endpointID credentialID purpose origin protocol now db =
     (if zeroHash tokenHash \<or> IsZero endpointID \<or> IsZero credentialID
      then (Inl (problem CodeInvalidArgument), db)
      else run_tx D (ConsumeTicket_tx D tokenHash endpointID credentialID purpose origin protocol now) db)"

subsection \<open>Single use\<close>

text \<open>The unique keys of the ticket table.\<close>

definition ticket_keys :: "db \<Rightarrow> bool" where
  "ticket_keys db \<longleftrightarrow> distinct (map tw_ID (t_tickets db)) \<and> distinct (map tw_TokenHash (t_tickets db))"

lemma ticketFromRow_Status: "ticketFromRow row = Inr t \<Longrightarrow> tk_Status t = tw_Status row"
  by (auto simp: ticketFromRow_def bindE_Inr_iff)

lemma ticketFromRow_fields:
  "ticketFromRow row = Inr t \<Longrightarrow> tk_Status t = tw_Status row \<and> tk_ExpiresAt t = tw_ExpiresAt row \<and>
     tk_Purpose t = tw_Purpose row \<and> tk_Origin t = tw_Origin row \<and> tk_Protocol t = tw_Protocol row \<and>
     parseID (tw_EndpointID row) = Inr (tk_EndpointID t) \<and> parseID (tw_CredentialID row) = Inr (tk_CredentialID t)"
  by (auto simp: ticketFromRow_def bindE_Inr_iff)

lemma ticket_status_check_None [simp]: "ticket_status_check st = None \<longleftrightarrow> st = TicketStatusIssued"
  by (cases st) (simp_all add: ticket_status_check_def)

text \<open>What the body of a successful consumption did: it rewrote exactly the row of the token.\<close>

lemma ConsumeTicket_tx_InrD:
  assumes laws: "sql_table ticket_clash (dr_tickets D)"
    and ok: "ConsumeTicket_tx D h e c p og pr now db = Inr (t, db')"
  obtains row where "row \<in> set (t_tickets db)" "tw_TokenHash row = hashString h"
    "tw_Status row = TicketStatusIssued" "now < tw_ExpiresAt row"
    "parseID (tw_EndpointID row) = Inr e" "parseID (tw_CredentialID row) = Inr c"
    "tw_Purpose row = p" "tw_Origin row = og" "tw_Protocol row = pr"
    "db' = db\<lparr>t_tickets := update_rows
       (\<lambda>r. tw_ID r = tw_ID row \<and> tw_RowVersion r = tw_RowVersion row \<and> tw_Status r = TicketStatusIssued)
       (\<lambda>r. r\<lparr>tw_Status := TicketStatusConsumed, tw_ConsumedAt := Some now,
              tw_RowVersion := tw_RowVersion row + 1\<rparr>) (t_tickets db)\<rparr>"
proof -
  note rules = sql_table.tx_firstD [OF laws] sql_table.tx_updatesD [OF laws]
  obtain row ticket n where first: "row \<in> set (t_tickets db) \<and> tw_TokenHash row = hashString h"
    and ticket: "ticketFromRow row = Inr ticket" "tk_EndpointID ticket = e" "tk_CredentialID ticket = c"
      "tk_Purpose ticket = p" "tk_Origin ticket = og" "tk_Protocol ticket = pr"
      "tk_Status ticket = TicketStatusIssued" "now < tk_ExpiresAt ticket"
    and upd: "tx_updates (dr_tickets D) t_tickets t_tickets_update
       (\<lambda>r. tw_ID r = tw_ID row \<and> tw_RowVersion r = tw_RowVersion row \<and> tw_Status r = TicketStatusIssued)
       (\<lambda>r. r\<lparr>tw_Status := TicketStatusConsumed, tw_ConsumedAt := Some now,
              tw_RowVersion := tw_RowVersion row + 1\<rparr>) classifyPersistence db = Inr (n, db')"
    using ok by (auto simp: ConsumeTicket_tx_def tx_Inr dest!: rules(1) split: if_splits)
  show ?thesis
    using first ticket ticketFromRow_fields [OF ticket(1)] rules(2) [OF upd] by (intro that [of row]) auto
qed

text \<open>A token is spent once its row has left status ISSUED.\<close>

definition spent :: "byte list \<Rightarrow> db \<Rightarrow> bool" where
  "spent h db \<longleftrightarrow> (\<exists>r \<in> set (t_tickets db). tw_TokenHash r = hashString h \<and> tw_Status r \<noteq> TicketStatusIssued)"

lemma ticket_row_unique:
  "ticket_keys db \<Longrightarrow> r \<in> set (t_tickets db) \<Longrightarrow> x \<in> set (t_tickets db) \<Longrightarrow>
     tw_TokenHash r = tw_TokenHash x \<Longrightarrow> r = x"
  unfolding ticket_keys_def by (blast intro: keyed_row_unique)

lemma consume_success:
  assumes laws: "database_laws D" and keys: "ticket_keys db"
    and ok: "ConsumeTicket D h e c p og pr now db = (Inr t, db')"
  shows "\<not> spent h db \<and> spent h db' \<and> ticket_keys db' \<and> (\<forall>g. spent g db \<longrightarrow> spent g db')"
proof -
  have table: "sql_table ticket_clash (dr_tickets D)"
    using laws by (simp add: database_laws_def)
  have body: "ConsumeTicket_tx D h e c p og pr now db = Inr (t, db')"
    using ok by (auto simp: ConsumeTicket_def split: if_splits dest: run_tx_success)
  obtain row where row: "row \<in> set (t_tickets db)" "tw_TokenHash row = hashString h"
      "tw_Status row = TicketStatusIssued"
    and db': "db' = db\<lparr>t_tickets := update_rows
       (\<lambda>r. tw_ID r = tw_ID row \<and> tw_RowVersion r = tw_RowVersion row \<and> tw_Status r = TicketStatusIssued)
       (\<lambda>r. r\<lparr>tw_Status := TicketStatusConsumed, tw_ConsumedAt := Some now,
              tw_RowVersion := tw_RowVersion row + 1\<rparr>) (t_tickets db)\<rparr>"
    by (rule ConsumeTicket_tx_InrD [OF table body]) (rule that)
  have "\<not> spent h db"
    using row ticket_row_unique [OF keys row(1)] unfolding spent_def by fastforce
  moreover have "spent h db'"
    unfolding spent_def db' using row by (auto simp: bex_update_rows intro!: bexI [of _ row])
  moreover have "ticket_keys db'"
    using keys unfolding ticket_keys_def db' by (simp add: map_update_rows)
  moreover have "spent g db \<longrightarrow> spent g db'" for g
    unfolding spent_def db' by (auto simp: bex_update_rows)
  ultimately show ?thesis by blast
qed

lemma consume_failure: "ConsumeTicket D h e c p og pr now db = (Inl err, db') \<Longrightarrow> db' = db"
  by (auto simp: ConsumeTicket_def split: if_splits dest: run_tx_error)

lemma create_ticket_keeps:
  assumes laws: "database_laws D" and keys: "ticket_keys db"
  shows "ticket_keys (snd (CreateTicket D t ttl db)) \<and>
     (spent g db \<longrightarrow> spent g (snd (CreateTicket D t ttl db)))"
proof (cases "snd (CreateTicket D t ttl db) = db")
  case True
  with keys show ?thesis by simp
next
  case False
  have table: "sql_table ticket_clash (dr_tickets D)"
    using laws by (simp add: database_laws_def)
  obtain u db' where c: "CreateTicket D t ttl db = (Inr u, db')"
    using False by (cases "CreateTicket D t ttl db"; cases "fst (CreateTicket D t ttl db)")
      (auto simp: CreateTicket_def split: if_splits dest: run_tx_error)
  then have "tx_create (dr_tickets D) t_tickets t_tickets_update (ticketToRow t) classifyPersistence db = Inr (u, db')"
    by (auto simp: CreateTicket_def split: if_splits dest: run_tx_success)
  from sql_table.tx_createD [OF table this]
  have db': "db' = db\<lparr>t_tickets := t_tickets db @ [ticketToRow t]\<rparr>"
    and fresh: "\<forall>x \<in> set (t_tickets db). \<not> ticket_clash (ticketToRow t) x"
    by auto
  have "ticket_keys db'"
    using keys fresh unfolding ticket_keys_def ticket_clash_def db' by fastforce
  moreover have "spent g db \<longrightarrow> spent g db'"
    unfolding spent_def db' by auto
  ultimately show ?thesis using c by simp
qed

text \<open>
  A history of ticket operations.  Every call comes with its own driver, so that each call may meet
  different database failures.
\<close>

datatype ticket_call =
    CallCreate WSTicket duration
  | CallConsume "byte list" ID ID string string string time

primrec ticket_call_step :: "drivers \<Rightarrow> ticket_call \<Rightarrow> db \<Rightarrow> bool \<times> db" where
  "ticket_call_step D (CallCreate t ttl) db = (False, snd (CreateTicket D t ttl db))"
| "ticket_call_step D (CallConsume h e c p og pr now) db =
     (case ConsumeTicket D h e c p og pr now db of (r, db') \<Rightarrow> (\<not> isl r, db'))"

fun consumes :: "byte list \<Rightarrow> ticket_call \<Rightarrow> bool" where
  "consumes h (CallConsume g _ _ _ _ _ _) = (g = h)"
| "consumes h (CallCreate _ _) = False"

primrec consumptions :: "byte list \<Rightarrow> (drivers \<times> ticket_call) list \<Rightarrow> db \<Rightarrow> nat" where
  "consumptions h [] db = 0"
| "consumptions h (dc # calls) db =
     (case ticket_call_step (fst dc) (snd dc) db of (ok, db') \<Rightarrow>
        (if ok \<and> consumes h (snd dc) then 1 else 0) + consumptions h calls db')"

declare ticket_call_step.simps [simp del]

lemma ticket_call_step_keeps:
  assumes "database_laws D" "ticket_keys db"
  shows "ticket_keys (snd (ticket_call_step D c db)) \<and> (spent g db \<longrightarrow> spent g (snd (ticket_call_step D c db)))"
proof (cases c)
  case (CallCreate t ttl)
  then show ?thesis using create_ticket_keeps [OF assms] by (simp add: ticket_call_step.simps)
next
  case (CallConsume h e cr p og pr now)
  obtain r db' where "ConsumeTicket D h e cr p og pr now db = (r, db')" by fastforce
  then show ?thesis
    using consume_success [OF assms] consume_failure assms(2) CallConsume
    by (cases r) (fastforce simp: ticket_call_step.simps)+
qed

lemma spent_no_consumption:
  assumes "\<forall>dc \<in> set calls. database_laws (fst dc)" "ticket_keys db" "spent h db"
  shows "consumptions h calls db = 0"
  using assms
proof (induction calls arbitrary: db)
  case (Cons dc calls)
  obtain D c where dc: "dc = (D, c)" by fastforce
  have D: "database_laws D" using Cons.prems(1) dc by simp
  obtain ok db' where step: "ticket_call_step D c db = (ok, db')" by fastforce
  have "ticket_keys db'" "spent h db'"
    using ticket_call_step_keeps [OF D Cons.prems(2), of c h] Cons.prems(3) step by auto
  then have rest: "consumptions h calls db' = 0"
    using Cons.IH Cons.prems(1) by simp
  have "\<not> (ok \<and> consumes h c)"
  proof (cases c)
    case (CallConsume g e cr p og pr now)
    then show ?thesis
      using step consume_success [OF D Cons.prems(2)] Cons.prems(3)
      by (cases "ConsumeTicket D g e cr p og pr now db"; cases "fst (ConsumeTicket D g e cr p og pr now db)")
         (auto simp: ticket_call_step.simps)
  qed simp
  with rest step dc show ?case by auto
qed simp

text \<open>
  C1.  A ticket is used at most once: in every history of ticket creations and consumptions, with
  arbitrary bindings, times and database failures, at most one consumption of a given token
  succeeds.
\<close>

theorem ticket_single_use:
  assumes "\<forall>dc \<in> set calls. database_laws (fst dc)" and "ticket_keys db"
  shows "consumptions h calls db \<le> 1"
  using assms
proof (induction calls arbitrary: db)
  case (Cons dc calls)
  obtain D c where dc: "dc = (D, c)" by fastforce
  have D: "database_laws D" using Cons.prems(1) dc by simp
  obtain ok db' where step: "ticket_call_step D c db = (ok, db')" by fastforce
  have keys: "ticket_keys db'"
    using ticket_call_step_keeps [OF D Cons.prems(2), of c h] step by auto
  show ?case
  proof (cases "ok \<and> consumes h c")
    case True
    then obtain e cr p og pr now where "c = CallConsume h e cr p og pr now"
      by (cases c) auto
    with step True obtain t where "ConsumeTicket D h e cr p og pr now db = (Inr t, db')"
      by (cases "fst (ConsumeTicket D h e cr p og pr now db)") (auto simp: ticket_call_step.simps split: prod.splits)
    then have "spent h db'"
      using consume_success [OF D Cons.prems(2)] by blast
    then have "consumptions h calls db' = 0"
      using spent_no_consumption keys Cons.prems(1) by simp
    then show ?thesis using step dc by simp
  next
    case False
    then have "consumptions h (dc # calls) db = consumptions h calls db'"
      using step dc by auto
    then show ?thesis using Cons.IH keys Cons.prems(1) by simp
  qed
qed simp

definition ticket_db :: db where
  "ticket_db = empty_db\<lparr>t_tickets := [ticketToRow sample_ticket]\<rparr>"

abbreviation sample_consume :: ticket_call where
  "sample_consume \<equiv> CallConsume (sample_hash 1) (sample_id 1) (sample_id 3) ''connect'' ''o'' ''p'' 5"

lemma ticketFromRow_ticketToRow:
  "real_id (tk_ID t) \<Longrightarrow> real_id (tk_EndpointID t) \<Longrightarrow> real_id (tk_CredentialID t) \<Longrightarrow>
     length (tk_TokenHash t) = 32 \<Longrightarrow> ticketFromRow (ticketToRow t) = Inr t"
  by (simp add: ticketFromRow_def ticketToRow_def)

lemma ticket_db_keys: "ticket_keys ticket_db"
  by (simp add: ticket_keys_def ticket_db_def)

lemma sample_ticket_row: "ticketFromRow (ticketToRow sample_ticket) = Inr sample_ticket"
  by (rule ticketFromRow_ticketToRow) (simp_all add: sample_ticket_def)

lemma sample_ticketToRow [simp]:
  "tw_TokenHash (ticketToRow sample_ticket) = hashString (sample_hash 1)"
  "tw_Status (ticketToRow sample_ticket) = TicketStatusIssued"
  by (simp_all add: ticketToRow_def sample_ticket_def)

lemma sample_ticket_fields [simp]:
  "tk_EndpointID sample_ticket = sample_id 1" "tk_CredentialID sample_ticket = sample_id 3"
  "tk_Purpose sample_ticket = ''connect''" "tk_Origin sample_ticket = ''o''" "tk_Protocol sample_ticket = ''p''"
  "tk_Status sample_ticket = TicketStatusIssued" "tk_ExpiresAt sample_ticket = 30"
  by (simp_all add: sample_ticket_def)

lemma sample_consume_succeeds: "fst (ticket_call_step reference_drivers sample_consume ticket_db)"
proof -
  have "\<exists>r. ConsumeTicket_tx reference_drivers (sample_hash 1) (sample_id 1) (sample_id 3) ''connect'' ''o'' ''p'' 5 ticket_db = Inr r"
    by (simp add: ConsumeTicket_tx_def tx_eval tx_first_def tx_updates_def ticket_db_def sample_ticket_row
        ticket_status_check_def cong: bindT_cong_weak)
  then show ?thesis
    by (auto simp: ticket_call_step.simps ConsumeTicket_def run_tx_def zeroHash_def)
qed

theorem ticket_single_use_witness:
  "consumptions (sample_hash 1) [(reference_drivers, sample_consume), (reference_drivers, sample_consume)] ticket_db = 1"
proof -
  have "consumptions (sample_hash 1) [(reference_drivers, sample_consume), (reference_drivers, sample_consume)] ticket_db \<le> 1"
    by (rule ticket_single_use) (simp_all add: reference_laws ticket_db_keys)
  moreover obtain ok db' where "ticket_call_step reference_drivers sample_consume ticket_db = (ok, db')"
    by fastforce
  then have "1 \<le> consumptions (sample_hash 1)
      [(reference_drivers, sample_consume), (reference_drivers, sample_consume)] ticket_db"
    using sample_consume_succeeds by simp
  ultimately show ?thesis by simp
qed

text \<open>
  A consumption succeeds only on an ISSUED ticket of exactly the presented endpoint, credential,
  purpose, origin and protocol, strictly before its expiry; and a call that reports an error leaves
  the whole database as it was.
\<close>

lemma ticket_consumption_bound:
  assumes "database_laws D" and "ConsumeTicket D h e c p og pr now db = (r, db')"
  shows "case r of
      Inl err \<Rightarrow> db' = db
    | Inr t \<Rightarrow> \<exists>row \<in> set (t_tickets db). tw_TokenHash row = hashString h \<and>
        tw_Status row = TicketStatusIssued \<and> now < tw_ExpiresAt row \<and>
        parseID (tw_EndpointID row) = Inr e \<and> parseID (tw_CredentialID row) = Inr c \<and>
        tw_Purpose row = p \<and> tw_Origin row = og \<and> tw_Protocol row = pr"
proof (cases r)
  case (Inl err)
  with assms(2) consume_failure show ?thesis by auto
next
  case (Inr t)
  have table: "sql_table ticket_clash (dr_tickets D)"
    using assms(1) by (simp add: database_laws_def)
  have "ConsumeTicket_tx D h e c p og pr now db = Inr (t, db')"
    using assms(2) Inr by (auto simp: ConsumeTicket_def split: if_splits dest: run_tx_success)
  then obtain row where "row \<in> set (t_tickets db)" "tw_TokenHash row = hashString h"
      "tw_Status row = TicketStatusIssued" "now < tw_ExpiresAt row"
      "parseID (tw_EndpointID row) = Inr e" "parseID (tw_CredentialID row) = Inr c"
      "tw_Purpose row = p" "tw_Origin row = og" "tw_Protocol row = pr"
    by (rule ConsumeTicket_tx_InrD [OF table]) (rule that)
  with Inr show ?thesis by auto
qed

lemma ticket_consumption_bound_witness:
  "\<exists>t db'. ConsumeTicket reference_drivers (sample_hash 1) (sample_id 1) (sample_id 3) ''connect'' ''o'' ''p'' 5 ticket_db
     = (Inr t, db') \<and> (\<exists>row \<in> set (t_tickets ticket_db). 5 < tw_ExpiresAt row)"
proof -
  obtain r db' where c: "ConsumeTicket reference_drivers (sample_hash 1) (sample_id 1) (sample_id 3) ''connect'' ''o'' ''p'' 5
      ticket_db = (r, db')" by fastforce
  then obtain t where "r = Inr t"
    using sample_consume_succeeds by (cases r) (auto simp: ticket_call_step.simps)
  with c ticket_consumption_bound [OF reference_laws c] show ?thesis by auto
qed



end
