(* ===== verification/Store_Identity.thy ===== *)
theory Store_Identity
  imports Store_Tickets
begin

section \<open>Enrollments, registration and endpoints in the store\<close>

text \<open>
  The operations of \<open>store/repository.go\<close>, \<open>store/management.go\<close>, \<open>store/aba_enrollment.go\<close>,
  \<open>store/hc_registration.go\<close> and \<open>store/revocation_scope.go\<close> that create, decide and consume
  enrollments and registration challenges, create and update endpoints, and revoke an endpoint
  with everything that hangs on it.

  The argument checks that precede a transaction read nothing from the database, so they are
  written as the first steps of the body.  The nil checks of the store and the context are left
  out.
\<close>

subsection \<open>Checks on what is written\<close>

definition validatePersistedEndpoint :: "json_decoder \<Rightarrow> Endpoint \<Rightarrow> go_error option" where
  "validatePersistedEndpoint unmarshal endpoint = (case Endpoint_Validate unmarshal endpoint of
       Some err \<Rightarrow> Some err
     | None \<Rightarrow>
         if IsZero (ep_CredentialFamilyID endpoint) \<or> ep_Status endpoint \<noteq> EndpointStatusActive \<or>
            IsZeroTime (ep_CreatedAt endpoint) \<or> IsZeroTime (ep_UpdatedAt endpoint)
         then Some (problem CodeInvalidArgument) else None)"

definition validateCredential :: "EndpointCredential \<Rightarrow> Endpoint \<Rightarrow> time \<Rightarrow> go_error option" where
  "validateCredential credential endpoint now =
     (if IsZero (cr_ID credential) \<or> cr_EndpointID credential \<noteq> ep_ID endpoint \<or>
         cr_FamilyID credential \<noteq> ep_CredentialFamilyID endpoint \<or>
         cr_SigningJKT credential \<noteq> ep_SigningJKT endpoint \<or> zeroHash (cr_TokenHash credential) \<or>
         cr_Status credential \<noteq> CredentialStatusActive \<or> \<not> cr_ExpiresAt credential > now \<or>
         IsZeroTime (cr_CreatedAt credential) \<or> IsZeroTime (cr_UpdatedAt credential) \<or>
         length (cr_Scopes credential) = 0
      then Some (problem CodeSecurityViolation) else None)"

definition validateHCRegistrationAudit ::
    "SecurityAuditEvent \<Rightarrow> Endpoint \<Rightarrow> string \<Rightarrow> string \<Rightarrow> go_error option" where
  "validateHCRegistrationAudit audit endpoint owner tenant = (case SecurityAuditEvent_Validate audit of
       Some err \<Rightarrow> Some err
     | None \<Rightarrow>
         if au_OwnerUserID audit \<noteq> owner \<or> au_TenantID audit \<noteq> tenant \<or>
            au_ActorType audit \<noteq> AuditActorHuman \<or> au_Action audit \<noteq> ''hc.endpoint.register'' \<or>
            au_ObjectType audit \<noteq> ''endpoint'' \<or> au_ObjectID audit \<noteq> ID_String (ep_ID endpoint) \<or>
            au_Result audit \<noteq> ''success''
         then Some (problem CodeSecurityViolation) else None)"

definition validateABAEnrollmentAudit :: "SecurityAuditEvent \<Rightarrow> Endpoint \<Rightarrow> go_error option" where
  "validateABAEnrollmentAudit audit endpoint = (case SecurityAuditEvent_Validate audit of
       Some err \<Rightarrow> Some err
     | None \<Rightarrow>
         if au_OwnerUserID audit \<noteq> ep_OwnerUserID endpoint \<or> au_TenantID audit \<noteq> ep_TenantID endpoint \<or>
            au_ActorType audit \<noteq> AuditActorEndpoint \<or> au_ActorID audit \<noteq> ID_String (ep_ID endpoint) \<or>
            au_Action audit \<noteq> ''aba.endpoint.enroll'' \<or> au_ObjectType audit \<noteq> ''endpoint'' \<or>
            au_ObjectID audit \<noteq> ID_String (ep_ID endpoint) \<or> au_Result audit \<noteq> ''success''
         then Some (problem CodeSecurityViolation) else None)"

definition requireOwner :: "string \<Rightarrow> go_error option" where
  "requireOwner owner = (if blank owner then Some (problem CodeInvalidArgument) else None)"

subsection \<open>Enrollments\<close>

definition CreateEnrollment :: "drivers \<Rightarrow> Enrollment \<Rightarrow> db \<Rightarrow> unit result \<times> db" where
  "CreateEnrollment D enrollment = run_tx D (
     bindT (checkT (Enrollment_Validate (dr_unmarshal_jwk D) enrollment)) (\<lambda>_.
     bindT (guardT (en_Status enrollment \<noteq> EnrollmentStatusPending) (problem CodeInvalidState)) (\<lambda>_.
     tx_create (dr_enrollments D) t_enrollments t_enrollments_update (enrollmentToRow enrollment) classifyPersistence)))"

definition ApproveEnrollment :: "drivers \<Rightarrow> ID \<Rightarrow> string \<Rightarrow> time \<Rightarrow> db \<Rightarrow> Enrollment result \<times> db" where
  "ApproveEnrollment D i owner now = run_tx D (
     bindT (guardT (IsZero i \<or> blank owner) (problem CodeInvalidArgument)) (\<lambda>_.
     bindT (tx_first (dr_enrollments D) t_enrollments (\<lambda>r. nr_ID r = ID_String i) notFoundOr) (\<lambda>row.
     bindT (liftT (enrollmentFromRow row)) (\<lambda>enrollment.
     bindT (guardT (en_OwnerUserID enrollment \<noteq> [] \<and> en_OwnerUserID enrollment \<noteq> owner) (problem CodeNotFound)) (\<lambda>_.
     bindT (mutateT (Enrollment_Approve owner now enrollment)) (\<lambda>approved0.
     let approved = approved0\<lparr>en_OwnerUserID := owner\<rparr> in
     bindT (tx_updates (dr_enrollments D) t_enrollments t_enrollments_update
         (\<lambda>r. nr_ID r = nr_ID row \<and> nr_RowVersion r = en_RowVersion enrollment)
         (\<lambda>r. r\<lparr>nr_OwnerUserID := en_OwnerUserID approved, nr_Status := en_Status approved,
                nr_ApprovedBy := en_ApprovedBy approved, nr_ApprovedAt := en_ApprovedAt approved,
                nr_UpdatedAt := en_UpdatedAt approved, nr_RowVersion := en_RowVersion approved\<rparr>)
         classifyPersistence) (\<lambda>affected.
     bindT (guardT (affected \<noteq> 1) (problem CodeConflict)) (\<lambda>_.
     returnT approved))))))))"

definition decideEnrollment ::
    "drivers \<Rightarrow> ID \<Rightarrow> byte list \<Rightarrow> string \<Rightarrow> string \<Rightarrow> time \<Rightarrow> bool \<Rightarrow> db \<Rightarrow> Enrollment result \<times> db" where
  "decideEnrollment D i userCode owner0 tenant0 now approve = run_tx D (
     bindT (checkT (requireOwner owner0)) (\<lambda>_.
     bindT (guardT (IsZero i \<or> zeroHash userCode \<or> IsZeroTime now) (problem CodeInvalidArgument)) (\<lambda>_.
     let owner = TrimSpace owner0; tenant = TrimSpace tenant0 in
     bindT (tx_first (dr_enrollments D) t_enrollments
         (\<lambda>r. nr_ID r = ID_String i \<and> nr_UserCodeHash r = hashString userCode) notFoundOr) (\<lambda>row.
     bindT (liftT (enrollmentFromRow row)) (\<lambda>value.
     bindT (guardT (en_OwnerUserID value \<noteq> [] \<and> en_OwnerUserID value \<noteq> owner) (problem CodeNotFound)) (\<lambda>_.
     bindT (guardT (en_TenantID value \<noteq> [] \<and> en_TenantID value \<noteq> tenant) (problem CodeNotFound)) (\<lambda>_.
     bindT (mutateT (if approve then Enrollment_Approve owner now value else Enrollment_Deny owner now value)) (\<lambda>decided0.
     let decided = decided0\<lparr>en_OwnerUserID := owner,
           en_TenantID := (if en_TenantID decided0 = [] then tenant else en_TenantID decided0)\<rparr> in
     bindT (tx_updates (dr_enrollments D) t_enrollments t_enrollments_update
         (\<lambda>r. nr_ID r = nr_ID row \<and> nr_RowVersion r = en_RowVersion value \<and>
              nr_Status r = EnrollmentStatusPending \<and> nr_OwnerUserID r \<in> {[], owner} \<and> nr_TenantID r \<in> {[], tenant})
         (\<lambda>r. r\<lparr>nr_OwnerUserID := en_OwnerUserID decided, nr_TenantID := en_TenantID decided,
                nr_Status := en_Status decided, nr_ApprovedBy := en_ApprovedBy decided,
                nr_ApprovedAt := en_ApprovedAt decided, nr_UpdatedAt := en_UpdatedAt decided,
                nr_RowVersion := en_RowVersion decided\<rparr>)
         classifyPersistence) (\<lambda>affected.
     bindT (guardT (affected \<noteq> 1) (problem CodeConflict)) (\<lambda>_.
     returnT decided))))))))))"

definition ApproveEnrollmentWithCode ::
    "drivers \<Rightarrow> ID \<Rightarrow> byte list \<Rightarrow> string \<Rightarrow> string \<Rightarrow> time \<Rightarrow> db \<Rightarrow> Enrollment result \<times> db" where
  "ApproveEnrollmentWithCode D i userCode owner tenant now = decideEnrollment D i userCode owner tenant now True"

definition DenyEnrollmentWithCode ::
    "drivers \<Rightarrow> ID \<Rightarrow> byte list \<Rightarrow> string \<Rightarrow> string \<Rightarrow> time \<Rightarrow> db \<Rightarrow> Enrollment result \<times> db" where
  "DenyEnrollmentWithCode D i userCode owner tenant now = decideEnrollment D i userCode owner tenant now False"

definition GetEnrollmentByDeviceCode ::
    "drivers \<Rightarrow> ID \<Rightarrow> byte list \<Rightarrow> time \<Rightarrow> db \<Rightarrow> Enrollment result \<times> db" where
  "GetEnrollmentByDeviceCode D i deviceCodeHash now = run_read (
     bindT (guardT (IsZero i \<or> zeroHash deviceCodeHash \<or> IsZeroTime now) (problem CodeInvalidArgument)) (\<lambda>_.
     bindT (tx_first (dr_enrollments D) t_enrollments (\<lambda>r. nr_ID r = ID_String i) notFoundOr) (\<lambda>row.
     bindT (liftT (enrollmentFromRow row)) (\<lambda>value.
     bindT (guardT (en_DeviceCodeHash value \<noteq> deviceCodeHash) (problem CodeNotFound)) (\<lambda>_.
     returnT (if en_Status value \<noteq> EnrollmentStatusConsumed \<and> \<not> now < en_ExpiresAt value
              then value\<lparr>en_Status := EnrollmentStatusExpired\<rparr> else value))))))"

text \<open>The two ways to turn an approved enrollment into an endpoint share their last step.\<close>

definition consume_enrollment_row ::
    "drivers \<Rightarrow> enrollmentRow \<Rightarrow> Enrollment \<Rightarrow> Enrollment \<Rightarrow> ID \<Rightarrow> (db, unit) tx" where
  "consume_enrollment_row D row before consumed endpointID =
     bindT (tx_updates (dr_enrollments D) t_enrollments t_enrollments_update
         (\<lambda>r. nr_ID r = nr_ID row \<and> nr_RowVersion r = en_RowVersion before \<and> nr_Status r = EnrollmentStatusApproved)
         (\<lambda>r. r\<lparr>nr_Status := en_Status consumed, nr_EndpointID := ID_String endpointID,
                nr_ConsumedAt := en_ConsumedAt consumed, nr_UpdatedAt := en_UpdatedAt consumed,
                nr_RowVersion := en_RowVersion consumed\<rparr>)
         classifyPersistence) (\<lambda>affected.
     guardT (affected \<noteq> 1) (problem CodeConflict))"

definition ConsumeEnrollment ::
    "drivers \<Rightarrow> ID \<Rightarrow> Endpoint \<Rightarrow> EndpointCredential \<Rightarrow> time \<Rightarrow> db \<Rightarrow> unit result \<times> db" where
  "ConsumeEnrollment D enrollmentID endpoint credential now = run_tx D (
     bindT (guardT (IsZero enrollmentID) (problem CodeInvalidArgument)) (\<lambda>_.
     bindT (checkT (validatePersistedEndpoint (dr_unmarshal_jwk D) endpoint)) (\<lambda>_.
     bindT (checkT (validateCredential credential endpoint now)) (\<lambda>_.
     bindT (tx_first (dr_enrollments D) t_enrollments (\<lambda>r. nr_ID r = ID_String enrollmentID) notFoundOr) (\<lambda>row.
     bindT (liftT (enrollmentFromRow row)) (\<lambda>enrollment.
     if en_Status enrollment = EnrollmentStatusConsumed then
       (if en_EndpointID enrollment = ep_ID endpoint then returnT () else failT (problem CodeConflict))
     else
     bindT (guardT (en_OwnerUserID enrollment = [] \<or> en_OwnerUserID enrollment \<noteq> ep_OwnerUserID endpoint \<or>
         en_EndpointType enrollment \<noteq> ep_Type endpoint \<or> en_SigningJKT enrollment \<noteq> ep_SigningJKT endpoint \<or>
         en_KEMJKT enrollment \<noteq> ep_KEMJKT endpoint \<or>
         en_SigningPublicJWK enrollment \<noteq> ep_SigningPublicJWK endpoint \<or>
         en_KEMPublicJWK enrollment \<noteq> ep_KEMPublicJWK endpoint) (problem CodeSecurityViolation)) (\<lambda>_.
     bindT (mutateT (Enrollment_Consume (ep_ID endpoint) now enrollment)) (\<lambda>consumed.
     bindT (liftT (credentialToRow (dr_marshal D) credential)) (\<lambda>credentialRecord.
     bindT (tx_create (dr_endpoints D) t_endpoints t_endpoints_update (endpointToRow endpoint) classifyPersistence) (\<lambda>_.
     bindT (tx_create (dr_credentials D) t_credentials t_credentials_update credentialRecord classifyPersistence) (\<lambda>_.
     consume_enrollment_row D row enrollment consumed (ep_ID endpoint))))))))))))"

definition ConsumeABAEnrollment ::
    "drivers \<Rightarrow> ID \<Rightarrow> byte list \<Rightarrow> Endpoint \<Rightarrow> EndpointCredential \<Rightarrow> RefreshCredential \<Rightarrow> SecurityAuditEvent \<Rightarrow>
     time \<Rightarrow> db \<Rightarrow> unit result \<times> db" where
  "ConsumeABAEnrollment D enrollmentID deviceCodeHash endpoint access refresh audit now = run_tx D (
     bindT (guardT (IsZero enrollmentID \<or> zeroHash deviceCodeHash \<or> ep_Type endpoint \<noteq> EndpointTypeABA \<or>
         blank (ep_OwnerUserID endpoint) \<or> IsZeroTime now) (problem CodeInvalidArgument)) (\<lambda>_.
     bindT (checkT (validatePersistedEndpoint (dr_unmarshal_jwk D) endpoint)) (\<lambda>_.
     bindT (checkT (validateCredential access endpoint now)) (\<lambda>_.
     bindT (checkT (RefreshCredential_Validate refresh endpoint now)) (\<lambda>_.
     bindT (checkT (validateABAEnrollmentAudit audit endpoint)) (\<lambda>_.
     bindT (liftT (CanonicalMetadataJSON (dr_marshal_map D) audit)) (\<lambda>metadata.
     bindT (tx_first (dr_enrollments D) t_enrollments (\<lambda>r. nr_ID r = ID_String enrollmentID) notFoundOr) (\<lambda>row.
     bindT (liftT (enrollmentFromRow row)) (\<lambda>enrollment.
     bindT (guardT (en_DeviceCodeHash enrollment \<noteq> deviceCodeHash) (problem CodeNotFound)) (\<lambda>_.
     bindT (guardT (en_Status enrollment = EnrollmentStatusConsumed) (problem CodeConflict)) (\<lambda>_.
     bindT (guardT (en_Status enrollment \<noteq> EnrollmentStatusApproved \<or>
         en_OwnerUserID enrollment \<noteq> ep_OwnerUserID endpoint \<or> en_TenantID enrollment \<noteq> ep_TenantID endpoint \<or>
         en_EndpointType enrollment \<noteq> ep_Type endpoint \<or> en_SigningJKT enrollment \<noteq> ep_SigningJKT endpoint \<or>
         en_KEMJKT enrollment \<noteq> ep_KEMJKT endpoint \<or> \<not> now < en_ExpiresAt enrollment)
         (problem CodeSecurityViolation)) (\<lambda>_.
     bindT (mutateT (Enrollment_Consume (ep_ID endpoint) now enrollment)) (\<lambda>consumed.
     bindT (liftT (credentialToRow (dr_marshal D) access)) (\<lambda>accessRow.
     bindT (tx_create (dr_endpoints D) t_endpoints t_endpoints_update (endpointToRow endpoint) classifyPersistence) (\<lambda>_.
     bindT (tx_create (dr_credentials D) t_credentials t_credentials_update accessRow classifyPersistence) (\<lambda>_.
     bindT (tx_create (dr_refresh D) t_refresh t_refresh_update (refreshCredentialToRow refresh) classifyPersistence) (\<lambda>_.
     bindT (tx_create (dr_audit D) t_audit t_audit_update (auditToRow audit metadata) classifyPersistence) (\<lambda>_.
     consume_enrollment_row D row enrollment consumed (ep_ID endpoint)))))))))))))))))))"

subsection \<open>Registration of HC endpoints\<close>

definition CreateHCRegistrationChallenge ::
    "drivers \<Rightarrow> HCRegistrationChallenge \<Rightarrow> time \<Rightarrow> duration \<Rightarrow> db \<Rightarrow> unit result \<times> db" where
  "CreateHCRegistrationChallenge D challenge now maxTTL = run_tx D (
     bindT (checkT (HCRegistrationChallenge_ValidateNew challenge now maxTTL)) (\<lambda>_.
     tx_create (dr_challenges D) t_challenges t_challenges_update (hcRegistrationChallengeToRow challenge)
       classifyPersistence))"

definition challenge_status_check :: "HCRegistrationChallengeStatus \<Rightarrow> go_error option" where
  "challenge_status_check st = (case st of
       HCRegistrationChallengeConsumed \<Rightarrow> Some (problem CodeConflict)
     | HCRegistrationChallengeExpired \<Rightarrow> Some (problem CodeExpired)
     | HCRegistrationChallengePending \<Rightarrow> None
     | HCRegistrationChallengeOther _ \<Rightarrow> Some (problem CodeInvalidState))"

definition ConsumeHCRegistrationChallenge ::
    "drivers \<Rightarrow> ID \<Rightarrow> byte list \<Rightarrow> string \<Rightarrow> string \<Rightarrow> string \<Rightarrow> Endpoint \<Rightarrow> EndpointCredential \<Rightarrow>
     RefreshCredential \<Rightarrow> SecurityAuditEvent \<Rightarrow> time \<Rightarrow> db \<Rightarrow> unit result \<times> db" where
  "ConsumeHCRegistrationChallenge D challengeID presented owner0 tenant0 origin0 endpoint access refresh audit now =
     (let owner = TrimSpace owner0; tenant = TrimSpace tenant0; origin = TrimSpace origin0 in run_tx D (
     bindT (guardT (IsZero challengeID \<or> owner = [] \<or> origin = [] \<or> zeroHash presented) (problem CodeInvalidArgument)) (\<lambda>_.
     bindT (guardT (ep_Type endpoint \<noteq> EndpointTypeHCWeb \<or> ep_OwnerUserID endpoint \<noteq> owner \<or>
         ep_TenantID endpoint \<noteq> tenant) (problem CodeSecurityViolation)) (\<lambda>_.
     bindT (checkT (validatePersistedEndpoint (dr_unmarshal_jwk D) endpoint)) (\<lambda>_.
     bindT (checkT (validateCredential access endpoint now)) (\<lambda>_.
     bindT (checkT (RefreshCredential_Validate refresh endpoint now)) (\<lambda>_.
     bindT (checkT (validateHCRegistrationAudit audit endpoint owner tenant)) (\<lambda>_.
     bindT (liftT (CanonicalMetadataJSON (dr_marshal_map D) audit)) (\<lambda>metadata.
     bindT (tx_first (dr_challenges D) t_challenges (\<lambda>r. hw_ID r = ID_String challengeID) notFoundOr) (\<lambda>row.
     bindT (liftT (hcRegistrationChallengeFromRow row)) (\<lambda>challenge.
     bindT (guardT (ch_OwnerUserID challenge \<noteq> owner \<or> ch_TenantID challenge \<noteq> tenant \<or>
         ch_Origin challenge \<noteq> origin) (problem CodeNotFound)) (\<lambda>_.
     bindT (guardT (ch_ChallengeHash challenge \<noteq> presented) (problem CodeSecurityViolation)) (\<lambda>_.
     bindT (checkT (challenge_status_check (ch_Status challenge))) (\<lambda>_.
     bindT (guardT (\<not> now < ch_ExpiresAt challenge) (problem CodeExpired)) (\<lambda>_.
     bindT (tx_updates (dr_challenges D) t_challenges t_challenges_update
         (\<lambda>r. hw_ID r = hw_ID row \<and> hw_RowVersion r = hw_RowVersion row \<and> hw_Status r = HCRegistrationChallengePending)
         (\<lambda>r. r\<lparr>hw_Status := HCRegistrationChallengeConsumed, hw_ConsumedAt := Some now, hw_UpdatedAt := now,
                hw_RowVersion := hw_RowVersion row + 1\<rparr>) classifyPersistence) (\<lambda>affected.
     bindT (guardT (affected \<noteq> 1) (problem CodeConflict)) (\<lambda>_.
     bindT (liftT (credentialToRow (dr_marshal D) access)) (\<lambda>accessRecord.
     bindT (tx_create (dr_endpoints D) t_endpoints t_endpoints_update (endpointToRow endpoint) classifyPersistence) (\<lambda>_.
     bindT (tx_create (dr_credentials D) t_credentials t_credentials_update accessRecord classifyPersistence) (\<lambda>_.
     bindT (tx_create (dr_refresh D) t_refresh t_refresh_update (refreshCredentialToRow refresh) classifyPersistence) (\<lambda>_.
     tx_create (dr_audit D) t_audit t_audit_update (auditToRow audit metadata) classifyPersistence)))))))))))))))))))))"

subsection \<open>Endpoints\<close>

definition CreateEndpoint :: "drivers \<Rightarrow> Endpoint \<Rightarrow> db \<Rightarrow> unit result \<times> db" where
  "CreateEndpoint D endpoint = run_tx D (
     bindT (checkT (validatePersistedEndpoint (dr_unmarshal_jwk D) endpoint)) (\<lambda>_.
     tx_create (dr_endpoints D) t_endpoints t_endpoints_update (endpointToRow endpoint) classifyPersistence))"

definition UpdateEndpointForOwner ::
    "drivers \<Rightarrow> ID \<Rightarrow> string \<Rightarrow> string \<Rightarrow> (Endpoint \<Rightarrow> go_error option \<times> Endpoint) \<Rightarrow> db \<Rightarrow> Endpoint result \<times> db" where
  "UpdateEndpointForOwner D i owner0 tenant0 mutate = run_tx D (
     bindT (checkT (requireOwner owner0)) (\<lambda>_.
     bindT (guardT (IsZero i) (problem CodeInvalidArgument)) (\<lambda>_.
     let owner = TrimSpace owner0; tenant = TrimSpace tenant0 in
     bindT (tx_first (dr_endpoints D) t_endpoints
         (\<lambda>r. er_ID r = ID_String i \<and> er_OwnerUserID r = owner \<and> er_TenantID r = tenant) notFoundOr) (\<lambda>row.
     bindT (liftT (endpointFromRow row)) (\<lambda>value.
     bindT (mutateT (mutate value)) (\<lambda>next.
     bindT (tx_updates (dr_endpoints D) t_endpoints t_endpoints_update
         (\<lambda>r. er_ID r = er_ID row \<and> er_OwnerUserID r = owner \<and> er_TenantID r = tenant \<and>
              er_RowVersion r = ep_RowVersion value)
         (\<lambda>r. r\<lparr>er_Status := ep_Status next, er_LastSeenAt := ep_LastSeenAt next, er_RevokedAt := ep_RevokedAt next,
                er_UpdatedAt := ep_UpdatedAt next, er_RowVersion := ep_RowVersion next\<rparr>)
         classifyPersistence) (\<lambda>affected.
     bindT (guardT (affected \<noteq> 1) (problem CodeConflict)) (\<lambda>_.
     returnT next))))))))"

definition MarkEndpointSeen :: "drivers \<Rightarrow> ID \<Rightarrow> time \<Rightarrow> db \<Rightarrow> unit result \<times> db" where
  "MarkEndpointSeen D endpointID now db =
     (if IsZero endpointID \<or> IsZeroTime now then (Inl (problem CodeInvalidArgument), db)
      else check_after (run_tx D (tx_updates (dr_endpoints D) t_endpoints t_endpoints_update
         (\<lambda>r. er_ID r = ID_String endpointID \<and> er_Status r = EndpointStatusActive \<and> er_RevokedAt r = None)
         (\<lambda>r. r\<lparr>er_LastSeenAt := Some now, er_UpdatedAt := now, er_RowVersion := er_RowVersion r + 1\<rparr>)
         classifyPersistence) db) (\<lambda>affected. if affected \<noteq> 1 then Inl (problem CodeNotFound) else Inr ()))"

end
