(* ===== verification/Store_Revocation.thy ===== *)
theory Store_Revocation
  imports Store_Identity
begin

section \<open>Revocation of endpoints\<close>

text \<open>
  \<open>RevokeEndpoint\<close> (\<open>store/repository.go\<close>) and \<open>RevokeEndpointForOwner\<close>
  (\<open>store/revocation_scope.go\<close>): one transaction that revokes an endpoint, its access and refresh
  credentials, its issued tickets and, in the second, the key packages of its sessions, and moves
  its sessions to a state in which they need a new key or are over.
\<close>

definition revoke_secrets :: "drivers \<Rightarrow> string \<Rightarrow> time \<Rightarrow> (db, unit) tx" where
  "revoke_secrets D rowID now =
     bindT (tx_updates (dr_credentials D) t_credentials t_credentials_update
         (\<lambda>r. cw_EndpointID r = rowID \<and> cw_Status r = CredentialStatusActive)
         (\<lambda>r. r\<lparr>cw_Status := CredentialStatusRevoked, cw_RevokedAt := Some now, cw_UpdatedAt := now\<rparr>) Wrap) (\<lambda>_.
     bindT (tx_updates (dr_refresh D) t_refresh t_refresh_update
         (\<lambda>r. rw_EndpointID r = rowID \<and> rw_Status r = CredentialStatusActive)
         (\<lambda>r. r\<lparr>rw_Status := CredentialStatusRevoked, rw_RevokedAt := Some now, rw_UpdatedAt := now\<rparr>) Wrap) (\<lambda>_.
     bindT (tx_updates (dr_tickets D) t_tickets t_tickets_update
         (\<lambda>r. tw_EndpointID r = rowID \<and> tw_Status r = TicketStatusIssued)
         (\<lambda>r. r\<lparr>tw_Status := TicketStatusRevoked, tw_RowVersion := tw_RowVersion r + 1\<rparr>) Wrap) (\<lambda>_.
     returnT ())))"

definition revocation_session_update :: "EndpointType \<Rightarrow> time \<Rightarrow> sessionRow \<Rightarrow> sessionRow" where
  "revocation_session_update ty now r =
     (if ty = EndpointTypeABA
      then r\<lparr>sw_Status := SessionStatusABARevoked, sw_ClosedAt := Some now, sw_UpdatedAt := now, sw_RowVersion := sw_RowVersion r + 1\<rparr>
      else r\<lparr>sw_Status := SessionStatusRekeyRequired, sw_UpdatedAt := now, sw_RowVersion := sw_RowVersion r + 1\<rparr>)"

definition session_column :: "EndpointType \<Rightarrow> sessionRow \<Rightarrow> string" where
  "session_column ty r = (if ty = EndpointTypeABA then sw_ABAEndpointID r else sw_HCEndpointID r)"

definition RevokeEndpoint :: "drivers \<Rightarrow> ID \<Rightarrow> string \<Rightarrow> time \<Rightarrow> db \<Rightarrow> Endpoint result \<times> db" where
  "RevokeEndpoint D i owner now = run_tx D (
     bindT (tx_first (dr_endpoints D) t_endpoints (\<lambda>r. er_ID r = ID_String i) notFoundOr) (\<lambda>row.
     bindT (liftT (endpointFromRow row)) (\<lambda>endpoint.
     bindT (guardT (ep_OwnerUserID endpoint \<noteq> owner) (problem CodeNotFound)) (\<lambda>_.
     bindT (mutateT (Endpoint_Revoke now endpoint)) (\<lambda>revoked.
     bindT (tx_updates (dr_endpoints D) t_endpoints t_endpoints_update
         (\<lambda>r. er_ID r = er_ID row \<and> er_RowVersion r = ep_RowVersion endpoint)
         (\<lambda>r. r\<lparr>er_Status := ep_Status revoked, er_RevokedAt := ep_RevokedAt revoked,
                er_UpdatedAt := ep_UpdatedAt revoked, er_RowVersion := ep_RowVersion revoked\<rparr>)
         classifyPersistence) (\<lambda>affected.
     bindT (guardT (affected \<noteq> 1) (problem CodeConflict)) (\<lambda>_.
     bindT (revoke_secrets D (er_ID row) now) (\<lambda>_.
     bindT (tx_updates (dr_sessions D) t_sessions t_sessions_update
         (\<lambda>r. session_column (ep_Type endpoint) r = er_ID row \<and>
              sw_Status r \<notin> {SessionStatusClosed, SessionStatusABARevoked})
         (revocation_session_update (ep_Type endpoint) now) Wrap) (\<lambda>_.
     returnT revoked)))))))))"

text \<open>
  SQLite has no row locks: a write that changes nothing fences each locked session against
  concurrent writers.
\<close>

primrec fence_sessions :: "drivers \<Rightarrow> string \<Rightarrow> string \<Rightarrow> sessionRow list \<Rightarrow> (db, unit) tx" where
  "fence_sessions D owner tenant [] = returnT ()"
| "fence_sessions D owner tenant (session # rest) =
     bindT (tx_updates (dr_sessions D) t_sessions t_sessions_update
         (\<lambda>r. sw_ID r = sw_ID session \<and> sw_OwnerUserID r = owner \<and> sw_TenantID r = tenant \<and>
              sw_RowVersion r = sw_RowVersion session)
         (\<lambda>r. r\<lparr>sw_RowVersion := sw_RowVersion r\<rparr>) Wrap) (\<lambda>affected.
     bindT (guardT (affected \<noteq> 1) (problem CodeConflict)) (\<lambda>_.
     fence_sessions D owner tenant rest))"

definition revoke_scoped_sessions ::
    "drivers \<Rightarrow> string \<Rightarrow> string \<Rightarrow> EndpointType \<Rightarrow> string \<Rightarrow> time \<Rightarrow> string list \<Rightarrow> (db, unit) tx" where
  "revoke_scoped_sessions D owner tenant ty rowID now sessionIDs =
     (if length sessionIDs \<noteq> 0 then
       bindT (tx_updates (dr_packages D) t_packages t_packages_update
           (\<lambda>r. kw_SessionID r \<in> set sessionIDs \<and>
                kw_Status r \<in> {KeyPackageStatusPending, KeyPackageStatusDelivered, KeyPackageStatusAcknowledged})
           (\<lambda>r. r\<lparr>kw_Status := KeyPackageStatusRevoked\<rparr>) Wrap) (\<lambda>_.
       bindT (tx_updates (dr_sessions D) t_sessions t_sessions_update
           (\<lambda>r. sw_ID r \<in> set sessionIDs \<and> sw_OwnerUserID r = owner \<and> sw_TenantID r = tenant \<and>
                session_column ty r = rowID \<and>
                sw_Status r \<notin> {SessionStatusClosed, SessionStatusABARevoked, SessionStatusFailed})
           (revocation_session_update ty now) Wrap) (\<lambda>_.
       returnT ()))
      else returnT ())"

definition RevokeEndpointForOwner ::
    "drivers \<Rightarrow> ID \<Rightarrow> string \<Rightarrow> string \<Rightarrow> time \<Rightarrow> db \<Rightarrow> Endpoint result \<times> db" where
  "RevokeEndpointForOwner D i owner0 tenant0 now = run_tx_normalized D (
     bindT (checkT (requireOwner owner0)) (\<lambda>_.
     bindT (guardT (IsZero i \<or> IsZeroTime now) (problem CodeInvalidArgument)) (\<lambda>_.
     let owner = TrimSpace owner0; tenant = TrimSpace tenant0 in
     bindT (tx_find (dr_sessions D) t_sessions
         (\<lambda>r. sw_OwnerUserID r = owner \<and> sw_TenantID r = tenant \<and>
              (sw_ABAEndpointID r = ID_String i \<or> sw_HCEndpointID r = ID_String i)) Wrap) (\<lambda>lockedSessions.
     bindT (if dr_sqlite D then fence_sessions D owner tenant lockedSessions else returnT ()) (\<lambda>_.
     bindT (tx_first (dr_endpoints D) t_endpoints
         (\<lambda>r. er_ID r = ID_String i \<and> er_OwnerUserID r = owner \<and> er_TenantID r = tenant) notFoundOr) (\<lambda>row.
     bindT (liftT (endpointFromRow row)) (\<lambda>endpoint.
     let sessionIDs = map sw_ID (filter (\<lambda>s. session_column (ep_Type endpoint) s = er_ID row) lockedSessions) in
     bindT (mutateT (Endpoint_Revoke now endpoint)) (\<lambda>revoked.
     bindT (tx_updates (dr_endpoints D) t_endpoints t_endpoints_update
         (\<lambda>r. er_ID r = er_ID row \<and> er_OwnerUserID r = owner \<and> er_TenantID r = tenant \<and>
              er_RowVersion r = ep_RowVersion endpoint)
         (\<lambda>r. r\<lparr>er_Status := ep_Status revoked, er_RevokedAt := ep_RevokedAt revoked,
                er_UpdatedAt := ep_UpdatedAt revoked, er_RowVersion := ep_RowVersion revoked\<rparr>)
         classifyPersistence) (\<lambda>affected.
     bindT (guardT (affected \<noteq> 1) (problem CodeConflict)) (\<lambda>_.
     bindT (revoke_secrets D (er_ID row) now) (\<lambda>_.
     bindT (revoke_scoped_sessions D owner tenant (ep_Type endpoint) (er_ID row) now sessionIDs) (\<lambda>_.
     returnT revoked))))))))))))"

subsection \<open>Effect of the steps\<close>

lemma fence_sessions_noop:
  assumes "sql_table session_clash (dr_sessions D)" "fence_sessions D owner tenant ss db = Inr (u, db')"
  shows "db' = db"
  using assms(2)
proof (induction ss arbitrary: db u)
  case (Cons s ss)
  from Cons.prems show ?case
    by (auto simp: tx_Inr dest!: sql_table.tx_updatesD [OF assms(1)] Cons.IH)
qed (simp add: tx_Inr)

definition secrets_revoked :: "string \<Rightarrow> time \<Rightarrow> db \<Rightarrow> db" where
  "secrets_revoked rowID now db = db\<lparr>
     t_credentials := update_rows (\<lambda>r. cw_EndpointID r = rowID \<and> cw_Status r = CredentialStatusActive)
       (\<lambda>r. r\<lparr>cw_Status := CredentialStatusRevoked, cw_RevokedAt := Some now, cw_UpdatedAt := now\<rparr>) (t_credentials db),
     t_refresh := update_rows (\<lambda>r. rw_EndpointID r = rowID \<and> rw_Status r = CredentialStatusActive)
       (\<lambda>r. r\<lparr>rw_Status := CredentialStatusRevoked, rw_RevokedAt := Some now, rw_UpdatedAt := now\<rparr>) (t_refresh db),
     t_tickets := update_rows (\<lambda>r. tw_EndpointID r = rowID \<and> tw_Status r = TicketStatusIssued)
       (\<lambda>r. r\<lparr>tw_Status := TicketStatusRevoked, tw_RowVersion := tw_RowVersion r + 1\<rparr>) (t_tickets db)\<rparr>"

lemma revoke_secrets_InrD:
  assumes "database_laws D" "revoke_secrets D rowID now db = Inr (u, db')"
  shows "db' = secrets_revoked rowID now db"
  using assms(2) unfolding revoke_secrets_def secrets_revoked_def
  by (auto simp: tx_Inr dest!: sql_table.tx_updatesD [OF database_lawsD(3) [OF assms(1)]]
      sql_table.tx_updatesD [OF database_lawsD(12) [OF assms(1)]]
      sql_table.tx_updatesD [OF database_lawsD(5) [OF assms(1)]])

lemma secrets_revoked_simps [simp]:
  "t_endpoints (secrets_revoked rowID now db) = t_endpoints db"
  "t_sessions (secrets_revoked rowID now db) = t_sessions db"
  "t_packages (secrets_revoked rowID now db) = t_packages db"
  "t_frames (secrets_revoked rowID now db) = t_frames db"
  "t_acks (secrets_revoked rowID now db) = t_acks db"
  by (simp_all add: secrets_revoked_def)

text \<open>What is gone after the secrets of an endpoint are revoked.\<close>

definition no_live_secret :: "string \<Rightarrow> db \<Rightarrow> bool" where
  "no_live_secret rowID db \<longleftrightarrow>
     (\<forall>r \<in> set (t_credentials db). cw_EndpointID r = rowID \<longrightarrow> cw_Status r \<noteq> CredentialStatusActive) \<and>
     (\<forall>r \<in> set (t_refresh db). rw_EndpointID r = rowID \<longrightarrow> rw_Status r \<noteq> CredentialStatusActive) \<and>
     (\<forall>r \<in> set (t_tickets db). tw_EndpointID r = rowID \<longrightarrow> tw_Status r \<noteq> TicketStatusIssued)"

lemma secrets_revoked_dead: "no_live_secret rowID (secrets_revoked rowID now db)"
  unfolding no_live_secret_def secrets_revoked_def by (auto simp: ball_update_rows)

lemma no_live_secret_cong:
  "t_credentials db = t_credentials db' \<Longrightarrow> t_refresh db = t_refresh db' \<Longrightarrow> t_tickets db = t_tickets db' \<Longrightarrow>
     no_live_secret rowID db = no_live_secret rowID db'"
  by (simp add: no_live_secret_def)

definition sessions_revoked :: "string \<Rightarrow> string \<Rightarrow> EndpointType \<Rightarrow> string \<Rightarrow> time \<Rightarrow> string list \<Rightarrow> db \<Rightarrow> db" where
  "sessions_revoked owner tenant ty rowID now sessionIDs db = db\<lparr>
     t_packages := update_rows (\<lambda>r. kw_SessionID r \<in> set sessionIDs \<and>
          kw_Status r \<in> {KeyPackageStatusPending, KeyPackageStatusDelivered, KeyPackageStatusAcknowledged})
        (\<lambda>r. r\<lparr>kw_Status := KeyPackageStatusRevoked\<rparr>) (t_packages db),
     t_sessions := update_rows (\<lambda>r. sw_ID r \<in> set sessionIDs \<and> sw_OwnerUserID r = owner \<and> sw_TenantID r = tenant \<and>
          session_column ty r = rowID \<and>
          sw_Status r \<notin> {SessionStatusClosed, SessionStatusABARevoked, SessionStatusFailed})
        (revocation_session_update ty now) (t_sessions db)\<rparr>"

lemma revoke_scoped_sessions_InrD:
  assumes "database_laws D" "revoke_scoped_sessions D owner tenant ty rowID now ids db = Inr (u, db')"
  shows "db' = sessions_revoked owner tenant ty rowID now ids db"
proof (cases "ids = []")
  case True
  then show ?thesis using assms(2) by (simp add: revoke_scoped_sessions_def sessions_revoked_def tx_Inr)
next
  case False
  then show ?thesis
    using assms(2) unfolding revoke_scoped_sessions_def sessions_revoked_def
    by (auto simp: tx_Inr dest!: sql_table.tx_updatesD [OF database_lawsD(8) [OF assms(1)]]
        sql_table.tx_updatesD [OF database_lawsD(4) [OF assms(1)]])
qed

lemma sessions_revoked_simps [simp]:
  "t_endpoints (sessions_revoked owner tenant ty rowID now ids db) = t_endpoints db"
  "t_credentials (sessions_revoked owner tenant ty rowID now ids db) = t_credentials db"
  "t_refresh (sessions_revoked owner tenant ty rowID now ids db) = t_refresh db"
  "t_tickets (sessions_revoked owner tenant ty rowID now ids db) = t_tickets db"
  "t_frames (sessions_revoked owner tenant ty rowID now ids db) = t_frames db"
  "t_acks (sessions_revoked owner tenant ty rowID now ids db) = t_acks db"
  by (simp_all add: sessions_revoked_def)

text \<open>The endpoint table after a revocation, and the domain operation behind it.\<close>

definition endpoint_row_revoked :: "(endpointRow \<Rightarrow> bool) \<Rightarrow> Endpoint \<Rightarrow> db \<Rightarrow> db" where
  "endpoint_row_revoked p revoked db = db\<lparr>t_endpoints := update_rows p
     (\<lambda>r. r\<lparr>er_Status := ep_Status revoked, er_RevokedAt := ep_RevokedAt revoked,
            er_UpdatedAt := ep_UpdatedAt revoked, er_RowVersion := ep_RowVersion revoked\<rparr>) (t_endpoints db)\<rparr>"

lemma Endpoint_Revoke_None: "Endpoint_Revoke now e = (None, e') \<Longrightarrow>
    ep_Status e' = EndpointStatusRevoked \<and> ep_ID e' = ep_ID e \<and> ep_Type e' = ep_Type e"
  by (cases "ep_Status e") (auto simp: life_simps)

lemma endpointFromRow_fields: "endpointFromRow row = Inr e \<Longrightarrow>
    ep_OwnerUserID e = er_OwnerUserID row \<and> ep_TenantID e = er_TenantID row \<and> ep_Type e = er_Type row \<and>
    ep_Status e = er_Status row \<and> ep_RevokedAt e = er_RevokedAt row \<and> ep_RowVersion e = er_RowVersion row \<and>
    ep_SigningJKT e = er_SigningJKT row \<and> parseID (er_ID row) = Inr (ep_ID e)"
  by (auto simp: endpointFromRow_def bindE_Inr_iff)

lemma RevokeEndpointForOwner_InrD:
  assumes laws: "database_laws D" and ok: "RevokeEndpointForOwner D i owner0 tenant0 now db = (Inr e, db')"
  obtains row endpoint locked where
    "row \<in> set (t_endpoints db)" "er_ID row = ID_String i" "er_OwnerUserID row = TrimSpace owner0"
    "er_TenantID row = TrimSpace tenant0" "endpointFromRow row = Inr endpoint" "Endpoint_Revoke now endpoint = (None, e)"
    "set locked = {r \<in> set (t_sessions db). sw_OwnerUserID r = TrimSpace owner0 \<and> sw_TenantID r = TrimSpace tenant0 \<and>
        (sw_ABAEndpointID r = ID_String i \<or> sw_HCEndpointID r = ID_String i)}"
    "db' = sessions_revoked (TrimSpace owner0) (TrimSpace tenant0) (ep_Type endpoint) (er_ID row) now
        (map sw_ID (filter (\<lambda>s. session_column (ep_Type endpoint) s = er_ID row) locked))
        (secrets_revoked (er_ID row) now (endpoint_row_revoked
          (\<lambda>r. er_ID r = er_ID row \<and> er_OwnerUserID r = TrimSpace owner0 \<and> er_TenantID r = TrimSpace tenant0 \<and>
               er_RowVersion r = ep_RowVersion endpoint) e db))"
proof -
  note ep = database_lawsD(1) [OF laws] and se = database_lawsD(4) [OF laws]
  have fence: "db2 = db1" if "(if dr_sqlite D then fence_sessions D ow te ss else returnT ()) db1 = Inr (u, db2)"
    for ow te ss db1 db2 u
    using that fence_sessions_noop [OF se] by (auto simp: returnT_Inr split: if_splits)
  let ?o = "TrimSpace owner0" and ?t = "TrimSpace tenant0"
  obtain locked row endpoint n u1 u2 u3 db1 db2 db3 where
    f: "tx_find (dr_sessions D) t_sessions
         (\<lambda>r. sw_OwnerUserID r = ?o \<and> sw_TenantID r = ?t \<and>
              (sw_ABAEndpointID r = ID_String i \<or> sw_HCEndpointID r = ID_String i)) Wrap db = Inr (locked, db)"
    and s: "(if dr_sqlite D then fence_sessions D ?o ?t locked else returnT ()) db = Inr (u1, db1)"
    and r: "tx_first (dr_endpoints D) t_endpoints
         (\<lambda>r. er_ID r = ID_String i \<and> er_OwnerUserID r = ?o \<and> er_TenantID r = ?t) notFoundOr db1 = Inr (row, db1)"
    and e: "endpointFromRow row = Inr endpoint" "Endpoint_Revoke now endpoint = (None, e)"
    and u: "tx_updates (dr_endpoints D) t_endpoints t_endpoints_update
         (\<lambda>r. er_ID r = er_ID row \<and> er_OwnerUserID r = ?o \<and> er_TenantID r = ?t \<and> er_RowVersion r = ep_RowVersion endpoint)
         (\<lambda>r. r\<lparr>er_Status := ep_Status e, er_RevokedAt := ep_RevokedAt e,
                er_UpdatedAt := ep_UpdatedAt e, er_RowVersion := ep_RowVersion e\<rparr>) classifyPersistence db1 = Inr (n, db2)"
    and c: "revoke_secrets D (er_ID row) now db2 = Inr (u2, db3)"
    and v: "revoke_scoped_sessions D ?o ?t (ep_Type endpoint) (er_ID row) now
        (map sw_ID (filter (\<lambda>s. session_column (ep_Type endpoint) s = er_ID row) locked)) db3 = Inr (u3, db')"
    using run_tx_normalized_success [OF ok [unfolded RevokeEndpointForOwner_def]]
    by (auto simp: tx_Inr tx_find_Inr tx_first_Inr Let_def)
  have db: "db1 = db" "db2 = endpoint_row_revoked (\<lambda>r. er_ID r = er_ID row \<and> er_OwnerUserID r = ?o \<and>
      er_TenantID r = ?t \<and> er_RowVersion r = ep_RowVersion endpoint) e db1"
    using fence [OF s] sql_table.tx_updatesD [OF ep u] by (simp_all add: endpoint_row_revoked_def)
  show ?thesis
    using sql_table.tx_findD [OF se f] sql_table.tx_firstD [OF ep r] e db
      revoke_secrets_InrD [OF laws c] revoke_scoped_sessions_InrD [OF laws v]
    by (intro that [of row endpoint locked]) simp_all
qed

subsection \<open>The cascade\<close>

definition endpoint_keys :: "db \<Rightarrow> bool" where
  "endpoint_keys db \<longleftrightarrow> distinct (map er_ID (t_endpoints db))"

lemma endpoint_row_unique:
  "endpoint_keys db \<Longrightarrow> r \<in> set (t_endpoints db) \<Longrightarrow> x \<in> set (t_endpoints db) \<Longrightarrow> er_ID r = er_ID x \<Longrightarrow> r = x"
  unfolding endpoint_keys_def by (blast intro: keyed_row_unique)

text \<open>The states a session may be in once one of its endpoints is revoked.\<close>

definition cut_off :: "EndpointType \<Rightarrow> SessionStatus \<Rightarrow> bool" where
  "cut_off ty st \<longleftrightarrow> st \<in> {SessionStatusClosed, SessionStatusABARevoked, SessionStatusFailed} \<or>
     ty \<noteq> EndpointTypeABA \<and> st = SessionStatusRekeyRequired"

lemma revocation_session_update_simps [simp]:
  "sw_OwnerUserID (revocation_session_update ty now s) = sw_OwnerUserID s"
  "sw_TenantID (revocation_session_update ty now s) = sw_TenantID s"
  "sw_ID (revocation_session_update ty now s) = sw_ID s"
  "session_column ty' (revocation_session_update ty now s) = session_column ty' s"
  "cut_off ty (sw_Status (revocation_session_update ty now s))"
  by (simp_all add: revocation_session_update_def session_column_def cut_off_def)

lemma sessions_revoked_cut_off:
  assumes "s \<in> set (t_sessions (sessions_revoked owner tenant ty rowID now ids db))"
    and "sw_OwnerUserID s = owner" "sw_TenantID s = tenant" "session_column ty s = rowID"
    and "\<And>r. r \<in> set (t_sessions db) \<Longrightarrow> sw_OwnerUserID r = owner \<Longrightarrow> sw_TenantID r = tenant \<Longrightarrow>
      session_column ty r = rowID \<Longrightarrow> sw_ID r \<in> set ids"
  shows "cut_off ty (sw_Status s) \<and> sw_ID s \<in> set ids"
proof -
  have "\<forall>s \<in> set (t_sessions (sessions_revoked owner tenant ty rowID now ids db)).
      sw_OwnerUserID s = owner \<and> sw_TenantID s = tenant \<and> session_column ty s = rowID \<longrightarrow>
      cut_off ty (sw_Status s) \<and> sw_ID s \<in> set ids"
    using assms(5) unfolding sessions_revoked_def
    by (auto simp: ball_update_rows) (auto simp: cut_off_def)
  with assms(1-4) show ?thesis by blast
qed

lemma sessions_revoked_packages:
  "k \<in> set (t_packages (sessions_revoked owner tenant ty rowID now ids db)) \<Longrightarrow> kw_SessionID k \<in> set ids \<Longrightarrow>
     kw_Status k \<notin> {KeyPackageStatusPending, KeyPackageStatusDelivered, KeyPackageStatusAcknowledged}"
  unfolding sessions_revoked_def by (auto simp: set_update_rows)

text \<open>The state a revocation leaves behind.\<close>

definition locked_out :: "string \<Rightarrow> db \<Rightarrow> bool" where
  "locked_out rowID db \<longleftrightarrow>
     (\<forall>r \<in> set (t_endpoints db). er_ID r = rowID \<longrightarrow> er_Status r = EndpointStatusRevoked) \<and> no_live_secret rowID db"

lemma revocation_locks_out:
  assumes laws: "database_laws D" and keys: "endpoint_keys db"
    and ok: "RevokeEndpointForOwner D i owner tenant now db = (Inr e, db')"
  shows "(\<exists>r \<in> set (t_endpoints db'). er_ID r = ID_String i) \<and> locked_out (ID_String i) db'"
proof -
  let ?o = "TrimSpace owner" and ?t = "TrimSpace tenant"
  obtain row endpoint locked where row: "row \<in> set (t_endpoints db)" "er_ID row = ID_String i"
      "er_OwnerUserID row = ?o" "er_TenantID row = ?t" "endpointFromRow row = Inr endpoint"
      "Endpoint_Revoke now endpoint = (None, e)"
    and locked: "set locked = {r \<in> set (t_sessions db). sw_OwnerUserID r = ?o \<and> sw_TenantID r = ?t \<and>
        (sw_ABAEndpointID r = ID_String i \<or> sw_HCEndpointID r = ID_String i)}"
    and db': "db' = sessions_revoked ?o ?t (ep_Type endpoint) (er_ID row) now
        (map sw_ID (filter (\<lambda>s. session_column (ep_Type endpoint) s = er_ID row) locked))
        (secrets_revoked (er_ID row) now (endpoint_row_revoked
          (\<lambda>r. er_ID r = er_ID row \<and> er_OwnerUserID r = ?o \<and> er_TenantID r = ?t \<and>
               er_RowVersion r = ep_RowVersion endpoint) e db))"
    by (rule RevokeEndpointForOwner_InrD [OF laws ok]) (rule that)
  have e: "ep_Status e = EndpointStatusRevoked" "ep_Type e = ep_Type endpoint"
    using Endpoint_Revoke_None [OF row(6)] by simp_all
  have mine: "r = row" if "r \<in> set (t_endpoints db)" "er_ID r = ID_String i" for r
    using that endpoint_row_unique [OF keys that(1) row(1)] row(2) by simp
  have t: "t_endpoints db' = update_rows
      (\<lambda>r. er_ID r = er_ID row \<and> er_OwnerUserID r = ?o \<and> er_TenantID r = ?t \<and> er_RowVersion r = ep_RowVersion endpoint)
      (\<lambda>r. r\<lparr>er_Status := ep_Status e, er_RevokedAt := ep_RevokedAt e, er_UpdatedAt := ep_UpdatedAt e,
             er_RowVersion := ep_RowVersion e\<rparr>) (t_endpoints db)"
    by (simp add: db' endpoint_row_revoked_def)
  have "\<exists>r \<in> set (t_endpoints db'). er_ID r = ID_String i"
    using row(1,2) by (auto simp: t bex_update_rows intro!: bexI [of _ row])
  moreover have "\<forall>r \<in> set (t_endpoints db'). er_ID r = ID_String i \<longrightarrow> er_Status r = EndpointStatusRevoked"
    using mine row(2-4) endpointFromRow_fields [OF row(5)] e(1) by (auto simp: t ball_update_rows)
  moreover have "no_live_secret (ID_String i) db'"
    using secrets_revoked_dead [of "ID_String i"] row(2)
    by (simp add: db' no_live_secret_def)
  ultimately show ?thesis unfolding locked_out_def by blast
qed

text \<open>
  C10.  Revocation cuts an endpoint off at once.  After a successful revocation the endpoint is
  REVOKED; none of its access or refresh credentials is ACTIVE and none of its tickets ISSUED;
  every session of the owner that runs on it is closed, failed, revoked or (for an HC endpoint)
  waits for a new key, and no key package of such a session is pending, delivered or acknowledged.
  The rows of other endpoints, the frames and the acknowledgements are untouched.
\<close>

theorem endpoint_revocation_cascade:
  assumes laws: "database_laws D" and keys: "endpoint_keys db"
    and ok: "RevokeEndpointForOwner D i owner tenant now db = (Inr e, db')"
  shows "(\<exists>r \<in> set (t_endpoints db'). er_ID r = ID_String i) \<and>
     (\<forall>r \<in> set (t_endpoints db'). er_ID r = ID_String i \<longrightarrow> er_Status r = EndpointStatusRevoked) \<and>
     no_live_secret (ID_String i) db' \<and>
     (\<forall>s \<in> set (t_sessions db'). sw_OwnerUserID s = TrimSpace owner \<and> sw_TenantID s = TrimSpace tenant \<and>
        session_column (ep_Type e) s = ID_String i \<longrightarrow>
        cut_off (ep_Type e) (sw_Status s) \<and>
        (\<forall>k \<in> set (t_packages db'). kw_SessionID k = sw_ID s \<longrightarrow>
           kw_Status k \<notin> {KeyPackageStatusPending, KeyPackageStatusDelivered, KeyPackageStatusAcknowledged})) \<and>
     filter (\<lambda>r. er_ID r \<noteq> ID_String i) (t_endpoints db') = filter (\<lambda>r. er_ID r \<noteq> ID_String i) (t_endpoints db) \<and>
     t_frames db' = t_frames db \<and> t_acks db' = t_acks db"
proof -
  let ?o = "TrimSpace owner" and ?t = "TrimSpace tenant"
  obtain row endpoint locked where row: "row \<in> set (t_endpoints db)" "er_ID row = ID_String i"
      "er_OwnerUserID row = ?o" "er_TenantID row = ?t" "endpointFromRow row = Inr endpoint"
      "Endpoint_Revoke now endpoint = (None, e)"
    and locked: "set locked = {r \<in> set (t_sessions db). sw_OwnerUserID r = ?o \<and> sw_TenantID r = ?t \<and>
        (sw_ABAEndpointID r = ID_String i \<or> sw_HCEndpointID r = ID_String i)}"
    and db': "db' = sessions_revoked ?o ?t (ep_Type endpoint) (er_ID row) now
        (map sw_ID (filter (\<lambda>s. session_column (ep_Type endpoint) s = er_ID row) locked))
        (secrets_revoked (er_ID row) now (endpoint_row_revoked
          (\<lambda>r. er_ID r = er_ID row \<and> er_OwnerUserID r = ?o \<and> er_TenantID r = ?t \<and>
               er_RowVersion r = ep_RowVersion endpoint) e db))"
    by (rule RevokeEndpointForOwner_InrD [OF laws ok]) (rule that)
  let ?ids = "map sw_ID (filter (\<lambda>s. session_column (ep_Type endpoint) s = er_ID row) locked)"
  have e: "ep_Type e = ep_Type endpoint"
    using Endpoint_Revoke_None [OF row(6)] by simp_all
  have t: "t_endpoints db' = update_rows
      (\<lambda>r. er_ID r = er_ID row \<and> er_OwnerUserID r = ?o \<and> er_TenantID r = ?t \<and> er_RowVersion r = ep_RowVersion endpoint)
      (\<lambda>r. r\<lparr>er_Status := ep_Status e, er_RevokedAt := ep_RevokedAt e, er_UpdatedAt := ep_UpdatedAt e,
             er_RowVersion := ep_RowVersion e\<rparr>) (t_endpoints db)"
    by (simp add: db' endpoint_row_revoked_def)
  have cut: "cut_off (ep_Type e) (sw_Status s) \<and> sw_ID s \<in> set ?ids"
    if "s \<in> set (t_sessions db')" "sw_OwnerUserID s = ?o" "sw_TenantID s = ?t" "session_column (ep_Type e) s = ID_String i" for s
    unfolding e
    by (rule sessions_revoked_cut_off [OF that(1) [unfolded db'] that(2,3)])
       (use that(4) locked row(2) in \<open>auto simp: e endpoint_row_revoked_def session_column_def split: if_splits\<close>)
  have packages: "kw_Status k \<notin> {KeyPackageStatusPending, KeyPackageStatusDelivered, KeyPackageStatusAcknowledged}"
    if "k \<in> set (t_packages db')" "kw_SessionID k \<in> set ?ids" for k
    using that unfolding db' by (rule sessions_revoked_packages)
  have "\<forall>s \<in> set (t_sessions db'). sw_OwnerUserID s = ?o \<and> sw_TenantID s = ?t \<and>
        session_column (ep_Type e) s = ID_String i \<longrightarrow> cut_off (ep_Type e) (sw_Status s) \<and>
        (\<forall>k \<in> set (t_packages db'). kw_SessionID k = sw_ID s \<longrightarrow>
           kw_Status k \<notin> {KeyPackageStatusPending, KeyPackageStatusDelivered, KeyPackageStatusAcknowledged})"
  proof (intro ballI impI conjI)
    fix s assume s: "s \<in> set (t_sessions db')"
      and scope: "sw_OwnerUserID s = ?o \<and> sw_TenantID s = ?t \<and> session_column (ep_Type e) s = ID_String i"
    then show "cut_off (ep_Type e) (sw_Status s)" using cut by blast
    fix k assume k: "k \<in> set (t_packages db')" "kw_SessionID k = sw_ID s"
    then show "kw_Status k \<notin> {KeyPackageStatusPending, KeyPackageStatusDelivered, KeyPackageStatusAcknowledged}"
      using cut [OF s] scope by (intro packages) simp_all
  qed
  moreover have "filter (\<lambda>r. er_ID r \<noteq> ID_String i) (t_endpoints db') = filter (\<lambda>r. er_ID r \<noteq> ID_String i) (t_endpoints db)"
    unfolding t by (rule filter_update_rows) (simp add: row(2))
  moreover have "t_frames db' = t_frames db" "t_acks db' = t_acks db"
    by (simp_all add: db' endpoint_row_revoked_def)
  ultimately show ?thesis
    using revocation_locks_out [OF assms] unfolding locked_out_def by blast
qed

definition hc_endpoint :: Endpoint where
  "hc_endpoint = (sample_endpoint jktA jktB)\<lparr>ep_ID := sample_id 2, ep_Type := EndpointTypeHCWeb\<rparr>"

definition sample_session_row :: "SessionStatus \<Rightarrow> sessionRow" where
  "sample_session_row st = \<lparr>
     sw_ID = ID_String (sample_id 7), sw_OwnerUserID = ''u1'', sw_TenantID = [],
     sw_ABAEndpointID = ID_String (sample_id 1), sw_HCEndpointID = ID_String (sample_id 2),
     sw_RuntimeProfileID = ''default'', sw_WorkspaceID = ''main'', sw_CapabilitiesJSON = ''prompt,'',
     sw_Status = st, sw_CurrentKeyGeneration = 0, sw_CreatedAt = 1, sw_UpdatedAt = 1,
     sw_LastActivityAt = None, sw_ClosedAt = None, sw_RowVersion = 0\<rparr>"

definition revocation_db :: "SessionStatus \<Rightarrow> db" where
  "revocation_db st = empty_db\<lparr>t_endpoints := [endpointToRow hc_endpoint], t_sessions := [sample_session_row st]\<rparr>"

lemma hc_endpoint_row [simp]:
  "er_ID (endpointToRow hc_endpoint) = ID_String (sample_id 2)"
  "er_OwnerUserID (endpointToRow hc_endpoint) = ''u1''" "er_TenantID (endpointToRow hc_endpoint) = []"
  "er_RowVersion (endpointToRow hc_endpoint) = 0" "er_Status (endpointToRow hc_endpoint) = EndpointStatusActive"
  "endpointFromRow (endpointToRow hc_endpoint) = Inr hc_endpoint"
  by (simp_all add: hc_endpoint_def sample_endpoint_def endpointToRow_def endpointFromRow_def)

lemma hc_endpoint_fields [simp]:
  "ep_Type hc_endpoint = EndpointTypeHCWeb" "ep_Status hc_endpoint = EndpointStatusActive"
  "ep_RowVersion hc_endpoint = 0" "ep_OwnerUserID hc_endpoint = ''u1''"
  by (simp_all add: hc_endpoint_def sample_endpoint_def)

lemma TrimSpace_samples [simp]: "TrimSpace ''u1'' = ''u1''" "TrimSpace [] = []"
  by code_simp+

lemma requireOwner_u1 [simp]: "requireOwner ''u1'' = None"
  by (simp add: requireOwner_def not_blank_u1)

lemma hc_revocation_succeeds:
  assumes "st \<in> {SessionStatusWaitingKey, SessionStatusFailed}"
  obtains e db' where
    "RevokeEndpointForOwner reference_drivers (sample_id 2) ''u1'' [] 5 (revocation_db st) = (Inr e, db')"
    "ep_Type e = EndpointTypeHCWeb"
    "map sw_Status (t_sessions db') = [if st = SessionStatusFailed then st else SessionStatusRekeyRequired]"
proof -
  have "\<exists>e db'. RevokeEndpointForOwner reference_drivers (sample_id 2) ''u1'' [] 5 (revocation_db st) = (Inr e, db') \<and>
      ep_Type e = EndpointTypeHCWeb \<and>
      map sw_Status (t_sessions db') = [if st = SessionStatusFailed then st else SessionStatusRekeyRequired]"
    using assms
    by (auto simp: RevokeEndpointForOwner_def run_tx_normalized_def run_tx_def tx_eval stmt_defs Let_def
        revocation_db_def empty_db_def Endpoint_Revoke_def revoke_secrets_def revoke_scoped_sessions_def
        sample_session_row_def session_column_def revocation_session_update_def update_rows_def IsZeroTime_def
        cong: bindT_cong_weak)
  then show ?thesis by (elim exE conjE) (rule that)
qed

theorem endpoint_revocation_cascade_witness:
  "\<exists>e db'. RevokeEndpointForOwner reference_drivers (sample_id 2) ''u1'' [] 5 (revocation_db SessionStatusWaitingKey) = (Inr e, db') \<and>
     no_live_secret (ID_String (sample_id 2)) db'"
proof -
  obtain e db' where ok: "RevokeEndpointForOwner reference_drivers (sample_id 2) ''u1'' [] 5
      (revocation_db SessionStatusWaitingKey) = (Inr e, db')"
    by (rule hc_revocation_succeeds [of SessionStatusWaitingKey]) auto
  have "endpoint_keys (revocation_db SessionStatusWaitingKey)"
    by (simp add: endpoint_keys_def revocation_db_def)
  from endpoint_revocation_cascade [OF reference_laws this ok] ok show ?thesis by blast
qed


end
