(* ===== verification/Store_Access.thy ===== *)
theory Store_Access
  imports Store_Revocation
begin

section \<open>Access tokens, nonces, replay records and connection generations\<close>

text \<open>
  The operations of \<open>store/gateway_identity.go\<close>: authentication of an access token, the proof
  replay table, the one nonce each endpoint holds, and the connection generation that orders the
  connections of an endpoint.
\<close>

definition gatewayCredentialError :: "go_error \<Rightarrow> go_error" where
  "gatewayCredentialError err = (if is_record_not_found err then problem CodeNotFound else Wrap err)"

definition AuthenticateAccessToken ::
    "drivers \<Rightarrow> byte list \<Rightarrow> time \<Rightarrow> db \<Rightarrow> (Endpoint \<times> EndpointCredential) result \<times> db" where
  "AuthenticateAccessToken D tokenHash now = run_read (
     bindT (guardT (zeroHash tokenHash \<or> IsZeroTime now) (problem CodeInvalidArgument)) (\<lambda>_.
     bindT (tx_first (dr_credentials D) t_credentials (\<lambda>r. cw_TokenHash r = hashString tokenHash) gatewayCredentialError) (\<lambda>credentialRecord.
     bindT (liftT (credentialFromRow (dr_unmarshal D) credentialRecord)) (\<lambda>credential.
     bindT (tx_first (dr_endpoints D) t_endpoints (\<lambda>r. er_ID r = cw_EndpointID credentialRecord) gatewayCredentialError) (\<lambda>endpointRecord.
     bindT (liftT (endpointFromRow endpointRecord)) (\<lambda>endpoint.
     bindT (guardT (ep_Status endpoint \<noteq> EndpointStatusActive \<or> ep_RevokedAt endpoint \<noteq> None \<or>
         cr_Status credential = CredentialStatusRevoked \<or> cr_Status credential = CredentialStatusRotated \<or>
         cr_RevokedAt credential \<noteq> None) (problem CodeRevoked)) (\<lambda>_.
     bindT (guardT (cr_Status credential = CredentialStatusExpired \<or> \<not> now < cr_ExpiresAt credential)
         (problem CodeExpired)) (\<lambda>_.
     bindT (guardT (cr_Status credential \<noteq> CredentialStatusActive \<or> cr_EndpointID credential \<noteq> ep_ID endpoint \<or>
         cr_FamilyID credential \<noteq> ep_CredentialFamilyID endpoint \<or> cr_SigningJKT credential \<noteq> ep_SigningJKT endpoint)
         (problem CodeSecurityViolation)) (\<lambda>_.
     returnT (endpoint, credential))))))))))"

definition GetEndpointCredential ::
    "drivers \<Rightarrow> ID \<Rightarrow> ID \<Rightarrow> time \<Rightarrow> db \<Rightarrow> (Endpoint \<times> EndpointCredential) result \<times> db" where
  "GetEndpointCredential D endpointID credentialID now = run_read (
     bindT (guardT (IsZero endpointID \<or> IsZero credentialID \<or> IsZeroTime now) (problem CodeInvalidArgument)) (\<lambda>_.
     bindT (tx_first (dr_credentials D) t_credentials
         (\<lambda>r. cw_ID r = ID_String credentialID \<and> cw_EndpointID r = ID_String endpointID) gatewayCredentialError) (\<lambda>credentialRecord.
     bindT (liftT (credentialFromRow (dr_unmarshal D) credentialRecord)) (\<lambda>credential.
     bindT (tx_first (dr_endpoints D) t_endpoints (\<lambda>r. er_ID r = ID_String endpointID) gatewayCredentialError) (\<lambda>endpointRecord.
     bindT (liftT (endpointFromRow endpointRecord)) (\<lambda>endpoint.
     bindT (guardT (ep_Status endpoint \<noteq> EndpointStatusActive \<or> cr_Status credential \<noteq> CredentialStatusActive \<or>
         ep_RevokedAt endpoint \<noteq> None \<or> cr_RevokedAt credential \<noteq> None) (problem CodeRevoked)) (\<lambda>_.
     bindT (guardT (\<not> now < cr_ExpiresAt credential) (problem CodeExpired)) (\<lambda>_.
     bindT (guardT (cr_FamilyID credential \<noteq> ep_CredentialFamilyID endpoint \<or>
         cr_SigningJKT credential \<noteq> ep_SigningJKT endpoint) (problem CodeSecurityViolation)) (\<lambda>_.
     returnT (endpoint, credential))))))))))"

definition inspect_status_check :: "TicketStatus \<Rightarrow> go_error option" where
  "inspect_status_check st = (case st of
       TicketStatusIssued \<Rightarrow> None
     | TicketStatusConsumed \<Rightarrow> Some (problem CodeConflict)
     | TicketStatusRevoked \<Rightarrow> Some (problem CodeRevoked)
     | _ \<Rightarrow> Some (problem CodeExpired))"

definition InspectTicket :: "drivers \<Rightarrow> byte list \<Rightarrow> time \<Rightarrow> db \<Rightarrow> WSTicket result \<times> db" where
  "InspectTicket D tokenHash now = run_read (
     bindT (guardT (zeroHash tokenHash \<or> IsZeroTime now) (problem CodeInvalidArgument)) (\<lambda>_.
     bindT (tx_first (dr_tickets D) t_tickets (\<lambda>r. tw_TokenHash r = hashString tokenHash) notFoundOr) (\<lambda>row.
     bindT (liftT (ticketFromRow row)) (\<lambda>ticket.
     bindT (checkT (inspect_status_check (tk_Status ticket))) (\<lambda>_.
     bindT (guardT (\<not> now < tk_ExpiresAt ticket) (problem CodeExpired)) (\<lambda>_.
     returnT ticket))))))"

definition NextConnectionGeneration :: "drivers \<Rightarrow> ID \<Rightarrow> time \<Rightarrow> db \<Rightarrow> u64 result \<times> db" where
  "NextConnectionGeneration D endpointID now db =
     (if IsZero endpointID \<or> IsZeroTime now then (Inl (problem CodeInvalidArgument), db)
      else check_after (run_tx_normalized D (tx_upsert (dr_generations D) t_generations t_generations_update
          \<lparr>gw_EndpointID = ID_String endpointID, gw_Generation = 1, gw_UpdatedAt = now\<rparr>
          (\<lambda>r. r\<lparr>gw_Generation := gw_Generation r + 1, gw_UpdatedAt := now\<rparr>) id) db)
        (\<lambda>row. if gw_Generation row = 0 then Inl (problem CodeConflict) else Inr (gw_Generation row)))"

definition UseDPoPReplay ::
    "drivers \<Rightarrow> string \<Rightarrow> string \<Rightarrow> time \<Rightarrow> time \<Rightarrow> int \<Rightarrow> db \<Rightarrow> unit result \<times> db" where
  "UseDPoPReplay D jkt jti now expiresAt maxEntries = run_tx D (
     bindT (guardT (blank jkt \<or> blank jti \<or> IsZeroTime now \<or> \<not> expiresAt > now \<or> maxEntries \<le> 0)
         (problem CodeInvalidArgument)) (\<lambda>_.
     bindT (tx_delete (dr_replays D) t_replays t_replays_update (\<lambda>r. dw_ExpiresAt r \<le> now) Wrap) (\<lambda>_.
     bindT (tx_count (dr_replays D) t_replays (\<lambda>r. dw_JKT r = TrimSpace jkt \<and> dw_JTI r = TrimSpace jti) Wrap) (\<lambda>existing.
     bindT (guardT (existing \<noteq> 0) (problem CodeConflict)) (\<lambda>_.
     bindT (tx_count (dr_replays D) t_replays (\<lambda>r. True) Wrap) (\<lambda>count.
     bindT (guardT (int count \<ge> maxEntries) (problem CodeResourceLimit)) (\<lambda>_.
     tx_create (dr_replays D) t_replays t_replays_update
       \<lparr>dw_JKT = TrimSpace jkt, dw_JTI = TrimSpace jti, dw_ExpiresAt = expiresAt, dw_CreatedAt = now\<rparr>
       classifyPersistence)))))))"

definition PutEndpointNonce :: "drivers \<Rightarrow> ID \<Rightarrow> byte list \<Rightarrow> time \<Rightarrow> time \<Rightarrow> db \<Rightarrow> unit result \<times> db" where
  "PutEndpointNonce D endpointID nonceHash now expiresAt = run_tx D (
     bindT (guardT (IsZero endpointID \<or> zeroHash nonceHash \<or> IsZeroTime now \<or> \<not> expiresAt > now)
         (problem CodeInvalidArgument)) (\<lambda>_.
     bindT (tx_upsert (dr_nonces D) t_nonces t_nonces_update
         \<lparr>xw_EndpointID = ID_String endpointID, xw_NonceHash = hashString nonceHash, xw_ExpiresAt = expiresAt,
          xw_IssuedAt = now, xw_RowVersion = 0\<rparr>
         (\<lambda>r. r\<lparr>xw_NonceHash := hashString nonceHash, xw_IssuedAt := now, xw_ExpiresAt := expiresAt,
                xw_RowVersion := xw_RowVersion r + 1\<rparr>) classifyPersistence) (\<lambda>_.
     returnT ())))"

definition GetEndpointNonceHash :: "drivers \<Rightarrow> ID \<Rightarrow> time \<Rightarrow> db \<Rightarrow> byte list result \<times> db" where
  "GetEndpointNonceHash D endpointID now = run_read (
     bindT (guardT (IsZero endpointID \<or> IsZeroTime now) (problem CodeInvalidArgument)) (\<lambda>_.
     bindT (tx_first (dr_nonces D) t_nonces (\<lambda>r. xw_EndpointID r = ID_String endpointID) notFoundOr) (\<lambda>row.
     bindT (guardT (\<not> now < xw_ExpiresAt row) (problem CodeExpired)) (\<lambda>_.
     liftT (map_sum Wrap id (parseHash (xw_NonceHash row)))))))"

definition RotateEndpointNonce ::
    "drivers \<Rightarrow> ID \<Rightarrow> byte list \<Rightarrow> byte list \<Rightarrow> time \<Rightarrow> time \<Rightarrow> db \<Rightarrow> unit result \<times> db" where
  "RotateEndpointNonce D endpointID expectedHash nextHash now nextExpiresAt db =
     (if IsZero endpointID \<or> zeroHash expectedHash \<or> zeroHash nextHash \<or> IsZeroTime now \<or> \<not> nextExpiresAt > now
      then (Inl (problem CodeInvalidArgument), db)
      else check_after (run_tx D (tx_updates (dr_nonces D) t_nonces t_nonces_update
          (\<lambda>r. xw_EndpointID r = ID_String endpointID \<and> xw_NonceHash r = hashString expectedHash \<and> xw_ExpiresAt r > now)
          (\<lambda>r. r\<lparr>xw_NonceHash := hashString nextHash, xw_IssuedAt := now, xw_ExpiresAt := nextExpiresAt,
                 xw_RowVersion := xw_RowVersion r + 1\<rparr>) classifyPersistence) db)
        (\<lambda>affected. if affected \<noteq> 1 then Inl (problem CodeConflict) else Inr ()))"

subsection \<open>A revoked endpoint is locked out\<close>

lemma islI: "(\<And>a db'. x = (Inr a, db') \<Longrightarrow> False) \<Longrightarrow> isl (fst x)"
  by (cases x; cases "fst x") auto

lemma locked_out_authenticate:
  assumes laws: "database_laws D" and out: "locked_out rowID db"
    and mine: "\<And>r. r \<in> set (t_credentials db) \<Longrightarrow> cw_TokenHash r = hashString h \<Longrightarrow> cw_EndpointID r = rowID"
  shows "isl (fst (AuthenticateAccessToken D h now db))"
proof (rule islI)
  fix a db'
  assume "AuthenticateAccessToken D h now db = (Inr a, db')"
  from run_read_success [OF this [unfolded AuthenticateAccessToken_def]]
  obtain c e er where "tx_first (dr_credentials D) t_credentials (\<lambda>r. cw_TokenHash r = hashString h) gatewayCredentialError db = Inr (c, db)"
    "tx_first (dr_endpoints D) t_endpoints (\<lambda>r. er_ID r = cw_EndpointID c) gatewayCredentialError db = Inr (er, db)"
    "endpointFromRow er = Inr e" "ep_Status e = EndpointStatusActive"
    by (auto simp: tx_Inr tx_first_Inr)
  then show False
    using sql_table.tx_firstD [OF database_lawsD(3) [OF laws]] sql_table.tx_firstD [OF database_lawsD(1) [OF laws]]
      mine out endpointFromRow_fields [of er e] unfolding locked_out_def by fastforce
qed

lemma locked_out_credential:
  assumes laws: "database_laws D" and out: "locked_out (ID_String i) db"
  shows "isl (fst (GetEndpointCredential D i c now db))"
proof (rule islI)
  fix a db'
  assume "GetEndpointCredential D i c now db = (Inr a, db')"
  from run_read_success [OF this [unfolded GetEndpointCredential_def]]
  obtain e er where "tx_first (dr_endpoints D) t_endpoints (\<lambda>r. er_ID r = ID_String i) gatewayCredentialError db = Inr (er, db)"
    "endpointFromRow er = Inr e" "ep_Status e = EndpointStatusActive"
    by (auto simp: tx_Inr tx_first_Inr)
  then show False
    using sql_table.tx_firstD [OF database_lawsD(1) [OF laws]] out endpointFromRow_fields [of er e]
    unfolding locked_out_def by fastforce
qed

lemma locked_out_ticket:
  assumes laws: "database_laws D" and out: "locked_out rowID db"
    and mine: "\<And>r. r \<in> set (t_tickets db) \<Longrightarrow> tw_TokenHash r = hashString h \<Longrightarrow> tw_EndpointID r = rowID"
  shows "isl (fst (ConsumeTicket D h e c p og pr now db)) \<and> isl (fst (InspectTicket D h now db))"
proof (intro conjI; rule islI)
  fix a db'
  assume ok: "ConsumeTicket D h e c p og pr now db = (Inr a, db')"
  then have "ConsumeTicket_tx D h e c p og pr now db = Inr (a, db')"
    by (auto simp: ConsumeTicket_def split: if_splits dest: run_tx_success)
  then show False
    by (rule ConsumeTicket_tx_InrD [OF database_lawsD(5) [OF laws]])
       (use mine out in \<open>auto simp: locked_out_def no_live_secret_def\<close>)
next
  fix a db'
  assume "InspectTicket D h now db = (Inr a, db')"
  from run_read_success [OF this [unfolded InspectTicket_def]]
  obtain row where "tx_first (dr_tickets D) t_tickets (\<lambda>r. tw_TokenHash r = hashString h) notFoundOr db = Inr (row, db)"
    "ticketFromRow row = Inr a" "inspect_status_check (tk_Status a) = None"
    by (auto simp: tx_Inr tx_first_Inr)
  moreover have "inspect_status_check st = None \<longleftrightarrow> st = TicketStatusIssued" for st
    by (cases st) (simp_all add: inspect_status_check_def)
  ultimately show False
    using sql_table.tx_firstD [OF database_lawsD(5) [OF laws]] mine out ticketFromRow_Status [of row a]
    unfolding locked_out_def no_live_secret_def by fastforce
qed



subsection \<open>A proof is used once\<close>

definition replay_recorded :: "string \<Rightarrow> string \<Rightarrow> time \<Rightarrow> db \<Rightarrow> bool" where
  "replay_recorded jkt jti t db \<longleftrightarrow>
     (\<exists>r \<in> set (t_replays db). dw_JKT r = TrimSpace jkt \<and> dw_JTI r = TrimSpace jti \<and> t \<le> dw_ExpiresAt r)"

lemma UseDPoPReplay_InrD:
  assumes laws: "database_laws D" and ok: "UseDPoPReplay D jkt jti now E m db = (Inr u, db')"
  shows "db' = db\<lparr>t_replays := filter (\<lambda>r. now < dw_ExpiresAt r) (t_replays db) @
       [\<lparr>dw_JKT = TrimSpace jkt, dw_JTI = TrimSpace jti, dw_ExpiresAt = E, dw_CreatedAt = now\<rparr>]\<rparr> \<and>
     now < E \<and> int (length (t_replays db')) \<le> m \<and>
     (\<forall>r \<in> set (t_replays db). now < dw_ExpiresAt r \<longrightarrow> \<not> (dw_JKT r = TrimSpace jkt \<and> dw_JTI r = TrimSpace jti))"
  using run_tx_success [OF ok [unfolded UseDPoPReplay_def]]
  by (auto simp: tx_Inr filter_empty_conv not_le
      dest!: sql_table.tx_deleteD [OF database_lawsD(14) [OF laws]] sql_table.tx_countD [OF database_lawsD(14) [OF laws]]
        sql_table.tx_createD [OF database_lawsD(14) [OF laws]])

lemma UseDPoPReplay_blocked:
  assumes "database_laws D" "replay_recorded jkt jti t db" "now < t"
    "TrimSpace jkt' = TrimSpace jkt" "TrimSpace jti' = TrimSpace jti"
  shows "isl (fst (UseDPoPReplay D jkt' jti' now E m db))"
  by (rule islI) (use UseDPoPReplay_InrD [OF assms(1)] assms(2-5) in \<open>fastforce simp: replay_recorded_def\<close>)

lemma UseDPoPReplay_keeps:
  assumes "database_laws D" "replay_recorded jkt jti t db" "now < t"
  shows "replay_recorded jkt jti t (snd (UseDPoPReplay D jkt' jti' now E m db))"
proof -
  obtain r db' where u: "UseDPoPReplay D jkt' jti' now E m db = (r, db')" by fastforce
  show ?thesis
  proof (cases r)
    case (Inl err)
    with u assms(2) show ?thesis
      using run_tx_error [OF u [unfolded UseDPoPReplay_def Inl]] by simp
  next
    case (Inr x)
    then have "db' = db\<lparr>t_replays := filter (\<lambda>r. now < dw_ExpiresAt r) (t_replays db) @
       [\<lparr>dw_JKT = TrimSpace jkt', dw_JTI = TrimSpace jti', dw_ExpiresAt = E, dw_CreatedAt = now\<rparr>]\<rparr>"
      using UseDPoPReplay_InrD [OF assms(1)] u by blast
    with u assms(2,3) show ?thesis by (auto simp: replay_recorded_def)
  qed
qed

text \<open>Further uses, each with its own driver, thumbprint, identifier, time, expiry and limit.\<close>

type_synonym replay_use = "drivers \<times> string \<times> string \<times> time \<times> time \<times> int"

fun replay_step :: "replay_use \<Rightarrow> db \<Rightarrow> db" where
  "replay_step (D, jkt, jti, now, E, m) db = snd (UseDPoPReplay D jkt jti now E m db)"

lemma replay_run_keeps:
  "\<forall>(D, _, _, now, _, _) \<in> set uses. database_laws D \<and> now < t \<Longrightarrow> replay_recorded jkt jti t db \<Longrightarrow>
     replay_recorded jkt jti t (fold replay_step uses db)"
  by (induction uses arbitrary: db) (auto simp: UseDPoPReplay_keeps)

text \<open>
  A proof of possession is used once: after a use of a key thumbprint and proof identifier is
  recorded, every attempt to use the pair again before the recorded expiry fails, however many other
  proofs are used in between; and the table never grows beyond the limit of the call.
\<close>

lemma dpop_proof_single_use:
  assumes "database_laws D" and "UseDPoPReplay D jkt jti now E m db = (Inr (), db')"
    and "\<forall>(D, _, _, now, _, _) \<in> set uses. database_laws D \<and> now < E"
    and "database_laws D'" "now' < E" "TrimSpace jkt' = TrimSpace jkt" "TrimSpace jti' = TrimSpace jti"
  shows "int (length (t_replays db')) \<le> m \<and>
     isl (fst (UseDPoPReplay D' jkt' jti' now' E' m' (fold replay_step uses db')))"
proof -
  have "replay_recorded jkt jti E db'" "int (length (t_replays db')) \<le> m"
    using UseDPoPReplay_InrD [OF assms(1,2)] by (auto simp: replay_recorded_def)
  then show ?thesis
    using UseDPoPReplay_blocked [OF assms(4) replay_run_keeps [OF assms(3)] assms(5-7)] by blast
qed

lemma sample_replay:
  "UseDPoPReplay reference_drivers ''k'' ''j'' 5 20 10 empty_db = (Inr (),
     empty_db\<lparr>t_replays := [\<lparr>dw_JKT = ''k'', dw_JTI = ''j'', dw_ExpiresAt = 20, dw_CreatedAt = 5\<rparr>]\<rparr>)"
proof -
  have "\<not> blank ''k''" "\<not> blank ''j''" "TrimSpace ''k'' = ''k''" "TrimSpace ''j'' = ''j''"
    by code_simp+
  then show ?thesis
    by (simp add: UseDPoPReplay_def run_tx_def tx_eval stmt_defs empty_db_def IsZeroTime_def cong: bindT_cong_weak)
qed

lemma dpop_proof_single_use_witness:
  "isl (fst (UseDPoPReplay reference_drivers ''k'' ''j'' 7 30 10
     (fold replay_step [(reference_drivers, ''k'', ''i'', 6, 40, 10)]
       (empty_db\<lparr>t_replays := [\<lparr>dw_JKT = ''k'', dw_JTI = ''j'', dw_ExpiresAt = 20, dw_CreatedAt = 5\<rparr>]\<rparr>))))"
  using dpop_proof_single_use [OF reference_laws sample_replay _ reference_laws, of
      "[(reference_drivers, ''k'', ''i'', 6, 40, 10)]" 7 "''k''" "''j''" 30 10]
  by (simp add: reference_laws)

subsection \<open>A nonce is answered once\<close>

definition nonce_keys :: "db \<Rightarrow> bool" where
  "nonce_keys db \<longleftrightarrow> distinct (map xw_EndpointID (t_nonces db))"

lemma RotateEndpointNonce_InrD:
  assumes laws: "database_laws D" and ok: "RotateEndpointNonce D e x y now E db = (Inr u, db')"
  shows "db' = db\<lparr>t_nonces := update_rows
       (\<lambda>r. xw_EndpointID r = ID_String e \<and> xw_NonceHash r = hashString x \<and> xw_ExpiresAt r > now)
       (\<lambda>r. r\<lparr>xw_NonceHash := hashString y, xw_IssuedAt := now, xw_ExpiresAt := E,
              xw_RowVersion := xw_RowVersion r + 1\<rparr>) (t_nonces db)\<rparr> \<and>
     (\<exists>r \<in> set (t_nonces db). xw_EndpointID r = ID_String e \<and> xw_NonceHash r = hashString x \<and> now < xw_ExpiresAt r)"
proof -
  let ?p = "\<lambda>r. xw_EndpointID r = ID_String e \<and> xw_NonceHash r = hashString x \<and> xw_ExpiresAt r > now"
  let ?body = "tx_updates (dr_nonces D) t_nonces t_nonces_update ?p
      (\<lambda>r. r\<lparr>xw_NonceHash := hashString y, xw_IssuedAt := now, xw_ExpiresAt := E,
             xw_RowVersion := xw_RowVersion r + 1\<rparr>) classifyPersistence"
  obtain n where "run_tx D ?body db = (Inr n, db')" and n: "n = 1"
    using ok by (cases "run_tx D ?body db") (auto simp: RotateEndpointNonce_def check_after_def bindE_Inr_iff split: if_splits)
  note upd = sql_table.tx_updatesD [OF database_lawsD(15) [OF laws] run_tx_success [OF this(1)]]
  with n have "length (filter ?p (t_nonces db)) = 1" by simp
  from matched_row [OF this zero_less_one] upd show ?thesis by (intro conjI) simp_all
qed

text \<open>
  C28.  Rotation of a nonce is a compare-and-swap: of two rotations that expect the same nonce at most
  the first succeeds, and what an endpoint reads afterwards is the nonce it was given last.
\<close>

theorem nonce_rotation_single_winner:
  assumes laws: "database_laws D" "database_laws D'" "nonce_keys db" "x \<noteq> y"
    and ok: "RotateEndpointNonce D e x y now E db = (Inr (), db')"
  shows "isl (fst (RotateEndpointNonce D' e x z now' E' db')) \<and>
     (case fst (GetEndpointNonceHash D' e now' db') of Inl err \<Rightarrow> True | Inr h \<Rightarrow> h = y \<and> now' < E)"
proof -
  obtain r where r: "r \<in> set (t_nonces db)" "xw_EndpointID r = ID_String e" "xw_NonceHash r = hashString x" "now < xw_ExpiresAt r"
    and db': "db' = db\<lparr>t_nonces := update_rows
       (\<lambda>r. xw_EndpointID r = ID_String e \<and> xw_NonceHash r = hashString x \<and> xw_ExpiresAt r > now)
       (\<lambda>r. r\<lparr>xw_NonceHash := hashString y, xw_IssuedAt := now, xw_ExpiresAt := E,
              xw_RowVersion := xw_RowVersion r + 1\<rparr>) (t_nonces db)\<rparr>"
    using RotateEndpointNonce_InrD [OF laws(1) ok] by blast
  have unique: "s = r" if "s \<in> set (t_nonces db)" "xw_EndpointID s = ID_String e" for s
    using keyed_row_unique [OF laws(3) [unfolded nonce_keys_def] that(1) r(1)] that(2) r(2) by simp
  have mine: "xw_NonceHash s = hashString y \<and> xw_ExpiresAt s = E"
    if "s \<in> set (t_nonces db')" "xw_EndpointID s = ID_String e" for s
    using that r(3,4) by (auto simp: db' set_update_rows dest: unique)
  have "isl (fst (RotateEndpointNonce D' e x z now' E' db'))"
  proof (rule islI)
    fix u db2 assume "RotateEndpointNonce D' e x z now' E' db' = (Inr u, db2)"
    from RotateEndpointNonce_InrD [OF laws(2) this] obtain s where
      "s \<in> set (t_nonces db')" "xw_EndpointID s = ID_String e" "xw_NonceHash s = hashString x" by blast
    with mine [of s] laws(4) show False by simp
  qed
  moreover have "h = y \<and> now' < E" if "GetEndpointNonceHash D' e now' db' = (Inr h, db'')" for h db''
  proof -
    from run_read_success [OF that [unfolded GetEndpointNonceHash_def]] obtain row where
      row: "tx_first (dr_nonces D') t_nonces (\<lambda>r. xw_EndpointID r = ID_String e) notFoundOr db' = Inr (row, db')"
      and "now' < xw_ExpiresAt row" "map_sum Wrap id (parseHash (xw_NonceHash row)) = Inr h"
      by (auto simp: tx_Inr tx_first_Inr)
    with mine sql_table.tx_firstD [OF database_lawsD(15) [OF laws(2)] row] show ?thesis
      by (auto simp: parseHash_def hashString_def split: option.splits if_splits)
  qed
  ultimately show ?thesis
    by (cases "GetEndpointNonceHash D' e now' db'"; cases "fst (GetEndpointNonceHash D' e now' db')") auto
qed

definition nonce_db :: db where
  "nonce_db = empty_db\<lparr>t_nonces := [\<lparr>xw_EndpointID = ID_String (sample_id 1), xw_NonceHash = hashString (sample_hash 1),
     xw_ExpiresAt = 50, xw_IssuedAt = 1, xw_RowVersion = 0\<rparr>]\<rparr>"

lemma sample_rotation: "fst (RotateEndpointNonce reference_drivers (sample_id 1) (sample_hash 1) (sample_hash 2) 5 60 nonce_db) = Inr ()"
  by (simp add: RotateEndpointNonce_def check_after_def run_tx_def tx_updates_def nonce_db_def zeroHash_def IsZeroTime_def)

theorem nonce_rotation_single_winner_witness:
  "isl (fst (RotateEndpointNonce reference_drivers (sample_id 1) (sample_hash 1) (sample_hash 3) 6 70
     (snd (RotateEndpointNonce reference_drivers (sample_id 1) (sample_hash 1) (sample_hash 2) 5 60 nonce_db))))"
proof -
  have keys: "nonce_keys nonce_db" "sample_hash 1 \<noteq> sample_hash 2"
    by (simp_all add: nonce_keys_def nonce_db_def sample_hash_def)
  show ?thesis
    using nonce_rotation_single_winner [OF reference_laws reference_laws keys, of "sample_id 1" 5 60] sample_rotation
    by (metis prod.collapse)
qed

subsection \<open>Connection generations\<close>

definition current_generation :: "ID \<Rightarrow> db \<Rightarrow> u64" where
  "current_generation i db =
     (case find (\<lambda>r. gw_EndpointID r = ID_String i) (t_generations db) of None \<Rightarrow> 0 | Some r \<Rightarrow> gw_Generation r)"

lemma find_update_rows:
  assumes "\<And>r. k (f r) = k r" "\<And>r. p r \<longleftrightarrow> k r = a"
  shows "find (\<lambda>r. k r = e) (update_rows p f t) = map_option (\<lambda>r. if k r = a then f r else r) (find (\<lambda>r. k r = e) t)"
  by (induction t) (auto simp: update_rows_def assms)

lemma find_append: "find p (xs @ ys) = (case find p xs of None \<Rightarrow> find p ys | Some x \<Rightarrow> Some x)"
  by (induction xs) auto

lemma find_keyed_row: "distinct (map k t) \<Longrightarrow> y \<in> set t \<Longrightarrow> k y = a \<Longrightarrow> find (\<lambda>r. k r = a) t = Some y"
  by (induction t) (auto simp: image_iff)

definition generation_keys :: "db \<Rightarrow> bool" where
  "generation_keys db \<longleftrightarrow> distinct (map gw_EndpointID (t_generations db))"

text \<open>What the upsert does to the generations of all endpoints.\<close>

lemma generation_upsert:
  assumes laws: "database_laws D" and keys: "generation_keys db"
    and ok: "tx_upsert (dr_generations D) t_generations t_generations_update
       \<lparr>gw_EndpointID = ID_String i, gw_Generation = 1, gw_UpdatedAt = now\<rparr>
       (\<lambda>r. r\<lparr>gw_Generation := gw_Generation r + 1, gw_UpdatedAt := now\<rparr>) id db = Inr (x, db')"
  shows "generation_keys db' \<and> gw_Generation x = current_generation i db' \<and>
     (\<forall>j. current_generation j db' = current_generation j db + (if j = i then 1 else 0))"
proof -
  let ?row = "\<lparr>gw_EndpointID = ID_String i, gw_Generation = 1, gw_UpdatedAt = now\<rparr> :: connectionGenerationRow"
  let ?f = "\<lambda>r. r\<lparr>gw_Generation := gw_Generation r + 1, gw_UpdatedAt := now\<rparr> :: connectionGenerationRow"
  have clash: "generation_clash ?row = (\<lambda>y. gw_EndpointID y = ID_String i)"
    by (auto simp: generation_clash_def fun_eq_iff)
  note ups = sql_table.tx_upsertD [OF database_lawsD(16) [OF laws] ok, unfolded clash]
  show ?thesis
  proof (cases "\<exists>y \<in> set (t_generations db). gw_EndpointID y = ID_String i")
    case True
    then obtain y where y: "y \<in> set (t_generations db)" "gw_EndpointID y = ID_String i" "x = ?f y"
      and db': "db' = db\<lparr>t_generations := update_rows (\<lambda>y. gw_EndpointID y = ID_String i) ?f (t_generations db)\<rparr>"
      using ups by auto
    have "find (\<lambda>r. gw_EndpointID r = ID_String i) (t_generations db) = Some y"
      by (rule find_keyed_row [OF keys [unfolded generation_keys_def] y(1,2)])
    moreover have "find (\<lambda>r. gw_EndpointID r = ID_String j) (t_generations db') =
        map_option (\<lambda>r. if gw_EndpointID r = ID_String i then ?f r else r)
          (find (\<lambda>r. gw_EndpointID r = ID_String j) (t_generations db))" for j
      unfolding db' by (simp add: find_update_rows [where k = gw_EndpointID and a = "ID_String i"])
    ultimately show ?thesis
      using keys y unfolding generation_keys_def db' current_generation_def
      by (auto simp: map_update_rows split: option.split dest!: find_Some_iff [THEN iffD1])
  next
    case False
    then have "db' = db\<lparr>t_generations := t_generations db @ [?row]\<rparr>" "x = ?row"
      using ups by auto
    moreover have "find (\<lambda>r. gw_EndpointID r = ID_String i) (t_generations db) = None"
      using False by (simp add: find_None_iff)
    ultimately show ?thesis
      using keys False unfolding generation_keys_def current_generation_def
      by (auto simp: find_append split: option.split)
  qed
qed

lemma generation_step:
  assumes laws: "database_laws D" and keys: "generation_keys db"
    and call: "NextConnectionGeneration D i now db = (res, db')"
  shows "generation_keys db' \<and> ((isl res \<and> db' = db) \<or>
     (\<forall>j. current_generation j db' = current_generation j db + (if j = i then 1 else 0)) \<and>
     res = (if current_generation i db' = 0 then Inl (problem CodeConflict) else Inr (current_generation i db')))"
proof (cases "IsZero i \<or> IsZeroTime now")
  case True
  with call keys show ?thesis by (auto simp: NextConnectionGeneration_def)
next
  case False
  let ?body = "tx_upsert (dr_generations D) t_generations t_generations_update
       \<lparr>gw_EndpointID = ID_String i, gw_Generation = 1, gw_UpdatedAt = now\<rparr>
       (\<lambda>r. r\<lparr>gw_Generation := gw_Generation r + 1, gw_UpdatedAt := now\<rparr>) id"
  obtain r db1 where run: "run_tx_normalized D ?body db = (r, db1)" by fastforce
  with call False have res: "res = bindE r (\<lambda>row. if gw_Generation row = 0 then Inl (problem CodeConflict)
      else Inr (gw_Generation row))" "db' = db1"
    by (auto simp: NextConnectionGeneration_def check_after_def)
  show ?thesis
  proof (cases r)
    case (Inl err)
    with run_tx_normalized_error [OF run [unfolded Inl]] keys res show ?thesis by (simp add: bindE_def)
  next
    case (Inr x)
    from generation_upsert [OF laws keys run_tx_normalized_success [OF run [unfolded Inr]]] res Inr
    show ?thesis by (simp add: bindE_def)
  qed
qed

text \<open>Calls for any endpoints, each with its own driver.\<close>

fun generation_call :: "drivers \<times> ID \<times> time \<Rightarrow> db \<Rightarrow> db" where
  "generation_call (D, i, now) db = snd (NextConnectionGeneration D i now db)"

lemma unat_u64_Suc: "unat c + 1 < 2 ^ 64 \<Longrightarrow> unat (c + 1) = unat c + 1" for c :: u64
  by (simp add: unat_word_ariths)

lemma generation_run:
  assumes "\<forall>c \<in> set calls. database_laws (fst c)" "generation_keys db"
    "unat (current_generation i db) + length calls < 2 ^ 64"
  shows "generation_keys (fold generation_call calls db) \<and>
     unat (current_generation i db) \<le> unat (current_generation i (fold generation_call calls db)) \<and>
     unat (current_generation i (fold generation_call calls db)) \<le> unat (current_generation i db) + length calls"
  using assms
proof (induction calls arbitrary: db)
  case (Cons c calls)
  obtain D j now where c: "c = (D, j, now)" by (cases c)
  obtain res db' where call: "NextConnectionGeneration D j now db = (res, db')" by fastforce
  have step: "generation_keys db'" "current_generation i db' = current_generation i db \<or>
      current_generation i db' = current_generation i db + 1"
    using generation_step [OF _ Cons.prems(2) call] Cons.prems(1) c by auto
  have "unat (current_generation i db + 1) = unat (current_generation i db) + 1"
    using Cons.prems(3) by (intro unat_u64_Suc) simp
  with step(2) have b: "unat (current_generation i db) \<le> unat (current_generation i db')"
    "unat (current_generation i db') \<le> unat (current_generation i db) + 1" by auto
  from Cons.IH [of db'] Cons.prems(1,3) step(1) b call c show ?case by auto
qed simp

text \<open>
  Connection generations order the connections of an endpoint: a generation handed out later
  is greater than every one handed out before, whatever calls for this and other endpoints lie
  between, as long as fewer calls are made than remain before the 64-bit counter wraps.
\<close>

lemma connection_generation_increases:
  assumes "database_laws D" "database_laws D'" "\<forall>c \<in> set calls. database_laws (fst c)" "generation_keys db"
    and "NextConnectionGeneration D i now db = (Inr g, db1)"
    and "NextConnectionGeneration D' i now' (fold generation_call calls db1) = (Inr g', db2)"
    and "unat g + length calls + 1 < 2 ^ 64"
  shows "g < g'"
proof -
  have g: "generation_keys db1" "g = current_generation i db1"
    using generation_step [OF assms(1,4,5)] by (auto split: if_splits)
  let ?db = "fold generation_call calls db1"
  have run: "generation_keys ?db" "unat g \<le> unat (current_generation i ?db)"
      "unat (current_generation i ?db) \<le> unat g + length calls"
    using generation_run [OF assms(3) g(1), of i] assms(7) g(2) by auto
  have "g' = current_generation i ?db + 1"
    using generation_step [OF assms(2) run(1) assms(6)] by (auto split: if_splits)
  moreover have "unat (current_generation i ?db + 1) = unat (current_generation i ?db) + 1"
    using run(3) assms(7) by (intro unat_u64_Suc) linarith
  ultimately show ?thesis
    using run(2) by (simp add: word_less_nat_alt)
qed

lemma sample_generations:
  "NextConnectionGeneration reference_drivers (sample_id 1) 5 empty_db = (Inr 1,
     empty_db\<lparr>t_generations := [\<lparr>gw_EndpointID = ID_String (sample_id 1), gw_Generation = 1, gw_UpdatedAt = 5\<rparr>]\<rparr>)"
  by (simp add: NextConnectionGeneration_def check_after_def run_tx_normalized_def run_tx_def tx_upsert_def
      empty_db_def IsZeroTime_def bindE_def)

lemma connection_generation_increases_witness:
  "\<exists>g' db2. NextConnectionGeneration reference_drivers (sample_id 1) 6 (fold generation_call []
     (empty_db\<lparr>t_generations := [\<lparr>gw_EndpointID = ID_String (sample_id 1), gw_Generation = 1, gw_UpdatedAt = 5\<rparr>]\<rparr>))
     = (Inr g', db2) \<and> (1 :: u64) < g'"
proof -
  let ?db = "empty_db\<lparr>t_generations := [\<lparr>gw_EndpointID = ID_String (sample_id 1), gw_Generation = 1, gw_UpdatedAt = 5\<rparr>]\<rparr>"
  obtain g' db2 where n: "NextConnectionGeneration reference_drivers (sample_id 1) 6 (fold generation_call [] ?db) = (Inr g', db2)"
    by (simp add: NextConnectionGeneration_def check_after_def run_tx_normalized_def run_tx_def tx_upsert_def
        empty_db_def IsZeroTime_def bindE_def generation_clash_def)
  have "generation_keys empty_db"
    by (simp add: generation_keys_def empty_db_def)
  from connection_generation_increases [OF reference_laws reference_laws _ this sample_generations n] n
  show ?thesis by (intro exI conjI) simp_all
qed

end
