(* ===== verification/Sha256.thy ===== *)
theory Sha256
  imports Harness_Prelude
begin

section \<open>SHA-256 (\<^verbatim>\<open>crypto/sha256\<close>)\<close>

text \<open>
  The hash function of the standard library that channel identifiers, token hashes, key
  thumbprints and transcripts are built with, as the secure hash standard (FIPS 180-4) defines it.
  The theorems about the platform use only that it is a function with 32-byte results.
\<close>

unbundle bit_operations_syntax

type_synonym w32 = "32 word"

definition rotr :: "nat \<Rightarrow> w32 \<Rightarrow> w32" where
  "rotr n x = drop_bit n x OR push_bit (32 - n) x"

definition big_sigma0 :: "w32 \<Rightarrow> w32" where "big_sigma0 x = rotr 2 x XOR rotr 13 x XOR rotr 22 x"
definition big_sigma1 :: "w32 \<Rightarrow> w32" where "big_sigma1 x = rotr 6 x XOR rotr 11 x XOR rotr 25 x"
definition small_sigma0 :: "w32 \<Rightarrow> w32" where "small_sigma0 x = rotr 7 x XOR rotr 18 x XOR drop_bit 3 x"
definition small_sigma1 :: "w32 \<Rightarrow> w32" where "small_sigma1 x = rotr 17 x XOR rotr 19 x XOR drop_bit 10 x"

definition sha_ch :: "w32 \<Rightarrow> w32 \<Rightarrow> w32 \<Rightarrow> w32" where
  "sha_ch x y z = (x AND y) XOR (NOT x AND z)"

definition sha_maj :: "w32 \<Rightarrow> w32 \<Rightarrow> w32 \<Rightarrow> w32" where
  "sha_maj x y z = (x AND y) XOR (x AND z) XOR (y AND z)"

text \<open>
  The constants of the standard are the first 32 bits of the fractional parts of the cube roots of
  the first 64 primes, and of the square roots of the first eight.  \<open>root_from_bits\<close> finds the
  largest root digit by digit; the roots are below 32, so 37 binary digits are enough.
\<close>

primrec root_from_bits :: "nat \<Rightarrow> nat \<Rightarrow> nat \<Rightarrow> nat \<Rightarrow> nat" where
  "root_from_bits k n 0 r = r"
| "root_from_bits k n (Suc b) r = root_from_bits k n b (if (r + 2 ^ b) ^ k \<le> n then r + 2 ^ b else r)"

definition root_fraction :: "nat \<Rightarrow> nat \<Rightarrow> w32" where
  "root_fraction k p = of_nat (root_from_bits k (p * 2 ^ (32 * k)) 37 0)"

definition first_primes :: "nat list" where
  "first_primes =
     [2, 3, 5, 7, 11, 13, 17, 19, 23, 29, 31, 37, 41, 43, 47, 53, 59, 61, 67, 71, 73, 79, 83, 89, 97,
      101, 103, 107, 109, 113, 127, 131, 137, 139, 149, 151, 157, 163, 167, 173, 179, 181, 191, 193,
      197, 199, 211, 223, 227, 229, 233, 239, 241, 251, 257, 263, 269, 271, 277, 281, 283, 293, 307, 311]"

definition sha_constants :: "w32 list" where
  "sha_constants = map (root_fraction 3) first_primes"

definition sha_initial :: "w32 list" where
  "sha_initial = map (root_fraction 2) (take 8 first_primes)"

lemma root_from_bits_bounds:
  "r ^ k \<le> n \<Longrightarrow> n < (r + 2 ^ b) ^ k \<Longrightarrow>
     root_from_bits k n b r ^ k \<le> n \<and> n < (root_from_bits k n b r + 1) ^ k"
proof (induction b arbitrary: r)
  case (Suc b)
  then show ?case by (cases "(r + 2 ^ b) ^ k \<le> n") (simp_all add: mult_2 add.assoc)
qed simp

text \<open>The message schedule, latest word first.\<close>

primrec extend_schedule :: "nat \<Rightarrow> w32 list \<Rightarrow> w32 list" where
  "extend_schedule 0 w = w"
| "extend_schedule (Suc n) w =
     extend_schedule n ((small_sigma1 (w ! 1) + w ! 6 + small_sigma0 (w ! 14) + w ! 15) # w)"

fun sha_round :: "w32 \<times> w32 \<Rightarrow> w32 list \<Rightarrow> w32 list" where
  "sha_round (k, w) [a, b, c, d, e, f, g, h] =
     (let t1 = h + big_sigma1 e + sha_ch e f g + k + w; t2 = big_sigma0 a + sha_maj a b c
      in [t1 + t2, a, b, c, d + t1, e, f, g])"
| "sha_round kw st = st"

definition sha_block :: "w32 list \<Rightarrow> w32 list \<Rightarrow> w32 list" where
  "sha_block words st =
     map2 (+) st (fold sha_round (zip sha_constants (rev (extend_schedule 48 (rev words)))) st)"

definition be32 :: "byte list \<Rightarrow> w32" where
  "be32 bs = fold (\<lambda>b acc. push_bit 8 acc OR ucast b) bs 0"

fun chunks :: "nat \<Rightarrow> 'a list \<Rightarrow> 'a list list" where
  "chunks n xs = (if n = 0 \<or> length xs < n then [] else take n xs # chunks n (drop n xs))"

definition be_bytes :: "nat \<Rightarrow> int \<Rightarrow> byte list" where
  "be_bytes n v = map (\<lambda>i. of_int (v div 256 ^ (n - 1 - i))) [0..<n]"

definition sha_padding :: "nat \<Rightarrow> byte list" where
  "sha_padding len = 0x80 # replicate ((119 - len mod 64) mod 64) 0 @ be_bytes 8 (8 * int len)"

definition sha256 :: "byte list \<Rightarrow> byte list" where
  "sha256 msg = concat (map (\<lambda>w. be_bytes 4 (uint w))
     (fold (\<lambda>blk. sha_block (map be32 (chunks 4 blk))) (chunks 64 (msg @ sha_padding (length msg))) sha_initial))"

declare chunks.simps [simp del]

lemma length_be_bytes [simp]: "length (be_bytes n v) = n"
  by (simp add: be_bytes_def)

lemma length_extend_schedule: "length (extend_schedule n w) = n + length w"
  by (induction n arbitrary: w) simp_all

lemma length_sha_round [simp]: "length (sha_round kw st) = length st"
  by (induction kw st rule: sha_round.induct) (simp_all add: Let_def)

lemma length_fold_sha_round [simp]: "length (fold sha_round kws st) = length st"
  by (induction kws arbitrary: st) simp_all

lemma length_fold_sha_block: "length (fold (\<lambda>blk. sha_block (map be32 (chunks 4 blk))) blks st) = length st"
  by (induction blks arbitrary: st) (simp_all add: sha_block_def)

lemma length_sha256 [simp]: "length (sha256 msg) = 32"
proof -
  have "length (concat (map (\<lambda>w. be_bytes 4 (uint (w :: w32))) ws)) = 4 * length ws" for ws
    by (induction ws) simp_all
  then show ?thesis
    by (simp add: sha256_def length_fold_sha_block sha_initial_def first_primes_def)
qed

end
