(* ===== verification/Store_Frames.thy ===== *)
theory Store_Frames
  imports Store_Access Sha256
begin

section \<open>Encrypted frames, acknowledgements and replay\<close>

text \<open>
  \<open>PutFrame\<close>, \<open>GetFrame\<close>, \<open>AdvanceAck\<close> and \<open>ReplayEndpointFrames\<close> of \<open>store/repository.go\<close> and
  \<open>PutAuthorizedEndpointFrame\<close> of \<open>store/authorized_frame.go\<close>.  A frame is stored at most once per
  message identifier and per (session, key generation, sender, sequence); a repeated frame is
  recognised, a different frame under the same key marks the stored one as in conflict.  A cursor
  per direction records the highest sequence up to which the receiver has everything, and the
  frames it covers leave the set that is replayed.
\<close>

subsection \<open>Storing a frame\<close>

datatype PutFrameOutcome = PutFrameStored | PutFrameDuplicate

definition sameFrame :: "frameRow \<Rightarrow> frameRow \<Rightarrow> bool" where
  "sameFrame left right \<longleftrightarrow>
     fw_MessageID left = fw_MessageID right \<and> fw_SessionID left = fw_SessionID right \<and>
     fw_ChannelID left = fw_ChannelID right \<and> fw_KeyGeneration left = fw_KeyGeneration right \<and>
     fw_SenderEndpointID left = fw_SenderEndpointID right \<and>
     fw_ReceiverEndpointID left = fw_ReceiverEndpointID right \<and> fw_Direction left = fw_Direction right \<and>
     fw_Sequence left = fw_Sequence right \<and> fw_KeyID left = fw_KeyID right \<and>
     fw_CreatedAtMS left = fw_CreatedAtMS right \<and> fw_ContentHash left = fw_ContentHash right \<and>
     fw_AAD left = fw_AAD right \<and> fw_Ciphertext left = fw_Ciphertext right \<and>
     fw_Signature left = fw_Signature right"

text \<open>
  The row is inserted or compared with the row that is in the way.  A conflict is the value \<open>Inl\<close>
  of a transaction that succeeds, because its mark on the stored frame is to be committed.
\<close>

definition putAuthorizedFrameRow :: "drivers \<Rightarrow> frameRow \<Rightarrow> (db, PutFrameOutcome result) tx" where
  "putAuthorizedFrameRow D row =
     bindT (tx_create_ignore (dr_frames D) t_frames t_frames_update row classifyPersistence) (\<lambda>affected.
     if affected = 1 then returnT (Inr PutFrameStored)
     else
       bindT (tx_first (dr_frames D) t_frames
           (\<lambda>r. fw_MessageID r = fw_MessageID row \<or>
                fw_SessionID r = fw_SessionID row \<and> fw_KeyGeneration r = fw_KeyGeneration row \<and>
                fw_SenderEndpointID r = fw_SenderEndpointID row \<and> fw_Sequence r = fw_Sequence row) notFoundOr) (\<lambda>existing.
       if sameFrame existing row then returnT (Inr PutFrameDuplicate)
       else
         bindT (tx_updates (dr_frames D) t_frames t_frames_update (\<lambda>r. fw_MessageID r = fw_MessageID existing)
             (\<lambda>r. r\<lparr>fw_Status := FrameStatusConflict\<rparr>) Wrap) (\<lambda>_.
         returnT (Inl (problem CodeConflict)))))"

definition PutFrame :: "drivers \<Rightarrow> EncryptedFrame \<Rightarrow> int \<Rightarrow> db \<Rightarrow> PutFrameOutcome result \<times> db" where
  "PutFrame D frame maxCiphertextBytes db =
     (case EncryptedFrame_Validate frame maxCiphertextBytes of
        Some err \<Rightarrow> (Inl err, db)
      | None \<Rightarrow>
          if fr_Status frame \<noteq> FrameStatusStored then (Inl (problem CodeInvalidState), db)
          else check_after (run_tx D (putAuthorizedFrameRow D (frameToRow frame)) db) id)"

definition PutEndpointFrame :: "drivers \<Rightarrow> EncryptedFrame \<Rightarrow> db \<Rightarrow> bool result \<times> db" where
  "PutEndpointFrame D frame db =
     (case PutFrame D frame (2 ^ 20) db of (r, db') \<Rightarrow> (map_sum id (\<lambda>o'. o' = PutFrameDuplicate) r, db'))"

definition GetFrame :: "drivers \<Rightarrow> ID \<Rightarrow> db \<Rightarrow> EncryptedFrame result \<times> db" where
  "GetFrame D messageID = run_read (
     bindT (guardT (IsZero messageID) (problem CodeInvalidArgument)) (\<lambda>_.
     bindT (tx_first (dr_frames D) t_frames (\<lambda>r. fw_MessageID r = ID_String messageID) notFoundOr) (\<lambda>row.
     liftT (frameFromRow row))))"

subsection \<open>Retrying on a busy SQLite database\<close>

text \<open>
  \<open>once n\<close> is the n-th attempt, which meets its own database failures; \<open>wait n\<close> is the outcome of
  the back-off before the next one, an error when the context ends meanwhile.  An attempt that
  fails changes nothing.
\<close>

fun sqlite_retry ::
    "bool \<Rightarrow> (nat \<Rightarrow> db \<Rightarrow> 'a result \<times> db) \<Rightarrow> (nat \<Rightarrow> go_error option) \<Rightarrow> nat \<Rightarrow> nat \<Rightarrow> db \<Rightarrow> 'a result \<times> db" where
  "sqlite_retry sqlite once wait attempt 0 db = (Inl (problem CodeConflict), db)"
| "sqlite_retry sqlite once wait attempt (Suc remaining) db =
     (case once attempt db of
        (Inr a, db') \<Rightarrow> (Inr a, db')
      | (Inl err, db') \<Rightarrow>
          if \<not> sqlite \<or> \<not> isSQLiteConcurrencyError err \<or> remaining = 0
          then (Inl (normalizeConcurrencyError err), db')
          else (case wait attempt of
              Some e \<Rightarrow> (Inl e, db')
            | None \<Rightarrow> sqlite_retry sqlite once wait (Suc attempt) remaining db'))"

definition sqliteAttempts :: nat where
  "sqliteAttempts = 8"

text \<open>The outcome of the loop is the outcome of one of its attempts on the database it started with.\<close>

lemma sqlite_retry_cases:
  assumes "sqlite_retry sqlite once wait attempt remaining db = (r, db')"
    and busy: "\<And>n err db'. once n db = (Inl err, db') \<Longrightarrow> isSQLiteConcurrencyError err \<Longrightarrow> db' = db"
  shows "case r of Inr a \<Rightarrow> \<exists>n. once n db = (Inr a, db')
     | Inl e \<Rightarrow> db' = db \<or> (\<exists>n err. once n db = (Inl err, db'))"
  using assms(1)
proof (induction remaining arbitrary: attempt)
  case (Suc remaining)
  obtain r1 db1 where once: "once attempt db = (r1, db1)" by fastforce
  show ?case
  proof (cases r1)
    case (Inl err)
    show ?thesis
    proof (cases "\<not> sqlite \<or> \<not> isSQLiteConcurrencyError err \<or> remaining = 0")
      case True
      with Suc.prems once Inl show ?thesis by auto
    next
      case False
      then have "db1 = db" using busy once Inl by blast
      with False Suc once Inl show ?thesis by (cases "wait attempt") auto
    qed
  next
    case (Inr x)
    with Suc.prems once show ?thesis by auto
  qed
qed auto

subsection \<open>Storing a frame with its authorization\<close>

definition channel_label :: "byte list" where
  "channel_label = map of_char ''mss-awp-channel-v1''"

definition authorizedFrameChannelID :: "ID \<Rightarrow> ID \<Rightarrow> ID \<Rightarrow> ID result" where
  "authorizedFrameChannelID sessionID abaEndpointID hcEndpointID =
     (if IsZero sessionID \<or> IsZero abaEndpointID \<or> IsZero hcEndpointID \<or> abaEndpointID = hcEndpointID
      then Inl Plain
      else Inr (take 16 (sha256 (channel_label @ sessionID @ abaEndpointID @ hcEndpointID))))"

definition hc_type :: "EndpointType \<Rightarrow> bool" where
  "hc_type ty \<longleftrightarrow> ty = EndpointTypeHCWeb \<or> ty = EndpointTypeHCReference"

definition route_check :: "sessionRow \<Rightarrow> endpointRow \<Rightarrow> endpointRow \<Rightarrow> Direction \<Rightarrow> go_error option" where
  "route_check session sender receiver direction =
     (if direction = DirectionHCToABA then
        (if sw_HCEndpointID session \<noteq> er_ID sender \<or> sw_ABAEndpointID session \<noteq> er_ID receiver \<or>
            \<not> hc_type (er_Type sender) \<or> er_Type receiver \<noteq> EndpointTypeABA
         then Some (problem CodeSecurityViolation) else None)
      else if direction = DirectionABAToHC then
        (if sw_ABAEndpointID session \<noteq> er_ID sender \<or> sw_HCEndpointID session \<noteq> er_ID receiver \<or>
            er_Type sender \<noteq> EndpointTypeABA \<or> \<not> hc_type (er_Type receiver)
         then Some (problem CodeSecurityViolation) else None)
      else Some (problem CodeInvalidArgument))"

definition validateAuthorizedFrameRoute ::
    "sessionRow \<Rightarrow> endpointRow \<Rightarrow> endpointRow \<Rightarrow> EncryptedFrame \<Rightarrow> go_error option" where
  "validateAuthorizedFrameRoute session sender receiver frame =
     (if er_ID sender \<noteq> ID_String (fr_SenderEndpointID frame) \<or> er_ID receiver \<noteq> ID_String (fr_ReceiverEndpointID frame)
      then Some (problem CodeSecurityViolation)
      else case route_check session sender receiver (fr_Direction frame) of
        Some err \<Rightarrow> Some err
      | None \<Rightarrow> case parseID (sw_ABAEndpointID session) of
        Inl err \<Rightarrow> Some err
      | Inr abaEndpointID \<Rightarrow> case parseID (sw_HCEndpointID session) of
        Inl err \<Rightarrow> Some err
      | Inr hcEndpointID \<Rightarrow> case authorizedFrameChannelID (fr_SessionID frame) abaEndpointID hcEndpointID of
        Inl err \<Rightarrow> Some (NewProblem CodeSecurityViolation (Some err))
      | Inr expectedChannel \<Rightarrow>
        if fr_ChannelID frame \<noteq> expectedChannel then Some (problem CodeSecurityViolation) else None)"

definition lockAuthorizedFrameEndpoint :: "drivers \<Rightarrow> ID \<Rightarrow> string \<Rightarrow> string \<Rightarrow> (db, endpointRow) tx" where
  "lockAuthorizedFrameEndpoint D i owner tenant =
     bindT (tx_first (dr_endpoints D) t_endpoints
         (\<lambda>r. er_ID r = ID_String i \<and> er_OwnerUserID r = owner \<and> er_TenantID r = tenant) notFoundOr) (\<lambda>endpoint.
     if er_Status endpoint \<noteq> EndpointStatusActive \<or> er_RevokedAt endpoint \<noteq> None then
       (if er_Status endpoint = EndpointStatusRevoked then failT (problem CodeRevoked)
        else failT (problem CodeSecurityViolation))
     else returnT endpoint)"

definition fenceAuthorizedFrameSession :: "drivers \<Rightarrow> sessionRow \<Rightarrow> string \<Rightarrow> string \<Rightarrow> (db, unit) tx" where
  "fenceAuthorizedFrameSession D session owner tenant =
     (if \<not> dr_sqlite D then returnT ()
      else bindT (tx_updates (dr_sessions D) t_sessions t_sessions_update
          (\<lambda>r. sw_ID r = sw_ID session \<and> sw_OwnerUserID r = owner \<and> sw_TenantID r = tenant \<and>
               sw_RowVersion r = sw_RowVersion session \<and> sw_Status r = sw_Status session \<and>
               sw_CurrentKeyGeneration r = sw_CurrentKeyGeneration session)
          (\<lambda>r. r\<lparr>sw_RowVersion := sw_RowVersion r\<rparr>) Wrap) (\<lambda>affected.
        guardT (affected \<noteq> 1) (problem CodeConflict)))"

definition lockAuthorizedFrameRouteEndpoints ::
    "drivers \<Rightarrow> sessionRow \<Rightarrow> Direction \<Rightarrow> string \<Rightarrow> string \<Rightarrow> (db, endpointRow \<times> endpointRow) tx" where
  "lockAuthorizedFrameRouteEndpoints D session direction owner tenant =
     bindT (liftT (parseID (sw_ABAEndpointID session))) (\<lambda>abaID.
     bindT (liftT (parseID (sw_HCEndpointID session))) (\<lambda>hcID.
     bindT (lockAuthorizedFrameEndpoint D abaID owner tenant) (\<lambda>aba.
     bindT (lockAuthorizedFrameEndpoint D hcID owner tenant) (\<lambda>hc.
     if direction = DirectionHCToABA then returnT (hc, aba)
     else if direction = DirectionABAToHC then returnT (aba, hc)
     else failT (problem CodeInvalidArgument)))))"

definition authorize_frame ::
    "drivers \<Rightarrow> string \<Rightarrow> string \<Rightarrow> ID \<Rightarrow> EncryptedFrame \<Rightarrow> time \<Rightarrow> (db, unit) tx" where
  "authorize_frame D owner tenant credentialID frame now =
     bindT (tx_first (dr_sessions D) t_sessions
         (\<lambda>r. sw_ID r = ID_String (fr_SessionID frame) \<and> sw_OwnerUserID r = owner \<and> sw_TenantID r = tenant) notFoundOr) (\<lambda>session.
     bindT (guardT (sw_Status session \<noteq> SessionStatusActive \<or> sw_CurrentKeyGeneration session \<noteq> fr_KeyGeneration frame)
         (problem CodeInvalidState)) (\<lambda>_.
     bindT (fenceAuthorizedFrameSession D session owner tenant) (\<lambda>_.
     bindT (lockAuthorizedFrameRouteEndpoints D session (fr_Direction frame) owner tenant) (\<lambda>route.
     bindT (checkT (validateAuthorizedFrameRoute session (fst route) (snd route) frame)) (\<lambda>_.
     bindT (tx_first (dr_credentials D) t_credentials
         (\<lambda>r. cw_ID r = ID_String credentialID \<and> cw_EndpointID r = er_ID (fst route))
         (\<lambda>err. NewProblem CodeSecurityViolation (Some err))) (\<lambda>credential.
     guardT (cw_Status credential \<noteq> CredentialStatusActive \<or> cw_RevokedAt credential \<noteq> None \<or>
         cw_ExpiresAt credential < now \<or> cw_ExpiresAt credential = now \<or> cw_CreatedAt credential > now \<or>
         cw_FamilyID credential \<noteq> er_CredentialFamilyID (fst route) \<or>
         cw_SigningJKT credential \<noteq> er_SigningJKT (fst route)) (problem CodeSecurityViolation)))))))"

definition putAuthorizedEndpointFrameOnce ::
    "drivers \<Rightarrow> string \<Rightarrow> string \<Rightarrow> ID \<Rightarrow> EncryptedFrame \<Rightarrow> time \<Rightarrow> db \<Rightarrow> PutFrameOutcome result \<times> db" where
  "putAuthorizedEndpointFrameOnce D owner tenant credentialID frame now db = check_after (run_tx D (
     bindT (authorize_frame D owner tenant credentialID frame now) (\<lambda>_.
     putAuthorizedFrameRow D (frameToRow frame))) db) id"

definition PutAuthorizedEndpointFrame ::
    "(nat \<Rightarrow> drivers) \<Rightarrow> (nat \<Rightarrow> go_error option) \<Rightarrow> string \<Rightarrow> string \<Rightarrow> ID \<Rightarrow> EncryptedFrame \<Rightarrow> time \<Rightarrow> db \<Rightarrow> bool result \<times> db" where
  "PutAuthorizedEndpointFrame D wait owner tenant credentialID frame now db =
     (if blank owner then (Inl (problem CodeInvalidArgument), db)
      else if IsZero credentialID \<or> IsZeroTime now then (Inl (problem CodeInvalidArgument), db)
      else case EncryptedFrame_Validate frame (2 ^ 20) of
        Some err \<Rightarrow> (Inl err, db)
      | None \<Rightarrow>
        if fr_Status frame \<noteq> FrameStatusStored \<or> IsZeroTime (fr_ReceivedAt frame) \<or> \<not> fr_ExpiresAt frame > now
        then (Inl (problem CodeInvalidState), db)
        else case sqlite_retry (dr_sqlite (D 0))
            (\<lambda>n. putAuthorizedEndpointFrameOnce (D n) (TrimSpace owner) (TrimSpace tenant) credentialID frame now)
            wait 0 sqliteAttempts db of (r, db') \<Rightarrow> (map_sum id (\<lambda>outcome. outcome = PutFrameDuplicate) r, db'))"

subsection \<open>Acknowledgement\<close>

fun ranges_above :: "u64 \<Rightarrow> SequenceRange list \<Rightarrow> bool" where
  "ranges_above previous [] = True"
| "ranges_above previous (value # rest) =
     (if sr_Start value = 0 \<or> sr_Start value > sr_End value \<or> sr_Start value \<le> previous then False
      else ranges_above (sr_End value) rest)"

definition validReplayRanges :: "u64 \<Rightarrow> SequenceRange list \<Rightarrow> bool" where
  "validReplayRanges highest ranges = (if length ranges > 32 then False else ranges_above highest ranges)"

definition validAckRanges :: "AckCursor \<Rightarrow> bool" where
  "validAckRanges cursor =
     (if ac_HighestContiguousSequence cursor = 0 \<and> length (ac_ReceivedRanges cursor) = 0 then False
      else if length (ac_ReceivedRanges cursor) > 32 then False
      else ranges_above (ac_HighestContiguousSequence cursor) (ac_ReceivedRanges cursor))"

definition ack_matching :: "AckCursor \<Rightarrow> frameRow \<Rightarrow> bool" where
  "ack_matching cursor r \<longleftrightarrow>
     fw_SessionID r = ID_String (ac_SessionID cursor) \<and> fw_KeyGeneration r = ac_KeyGeneration cursor \<and>
     fw_Direction r = ac_Direction cursor \<and> fw_SenderEndpointID r = ID_String (ac_SenderEndpointID cursor) \<and>
     fw_ReceiverEndpointID r = ID_String (ac_ReceiverEndpointID cursor) \<and>
     fw_Status r \<in> {FrameStatusStored, FrameStatusRouted}"

definition acknowledged_row :: "AckCursor \<Rightarrow> frameRow \<Rightarrow> frameRow" where
  "acknowledged_row cursor r =
     r\<lparr>fw_Status := FrameStatusReceiverAcknowledged, fw_AcknowledgedAt := Some (ac_UpdatedAt cursor)\<rparr>"

primrec mark_ranges :: "drivers \<Rightarrow> AckCursor \<Rightarrow> SequenceRange list \<Rightarrow> (db, unit) tx" where
  "mark_ranges D cursor [] = returnT ()"
| "mark_ranges D cursor (value # rest) =
     bindT (tx_updates (dr_frames D) t_frames t_frames_update
         (\<lambda>r. ack_matching cursor r \<and> sr_Start value \<le> fw_Sequence r \<and> fw_Sequence r \<le> sr_End value)
         (acknowledged_row cursor) Wrap) (\<lambda>_.
     mark_ranges D cursor rest)"

definition markAcknowledgedFrames :: "drivers \<Rightarrow> AckCursor \<Rightarrow> (db, unit) tx" where
  "markAcknowledgedFrames D cursor =
     bindT (if ac_HighestContiguousSequence cursor > 0
        then bindT (tx_updates (dr_frames D) t_frames t_frames_update
           (\<lambda>r. ack_matching cursor r \<and> fw_Sequence r \<le> ac_HighestContiguousSequence cursor)
           (acknowledged_row cursor) Wrap) (\<lambda>_. returnT ())
        else returnT ()) (\<lambda>_.
     mark_ranges D cursor (ac_ReceivedRanges cursor))"

definition ack_key :: "AckCursor \<Rightarrow> ackRow \<Rightarrow> bool" where
  "ack_key cursor r \<longleftrightarrow>
     aw_SessionID r = ID_String (ac_SessionID cursor) \<and> aw_KeyGeneration r = ac_KeyGeneration cursor \<and>
     aw_Direction r = ac_Direction cursor \<and> aw_SenderEndpointID r = ID_String (ac_SenderEndpointID cursor) \<and>
     aw_ReceiverEndpointID r = ID_String (ac_ReceiverEndpointID cursor)"

definition advance_existing :: "drivers \<Rightarrow> AckCursor \<Rightarrow> ackRow \<Rightarrow> (db, AckCursor) tx" where
  "advance_existing D cursor row =
     bindT (liftT (ackFromRow row)) (\<lambda>current.
     if ac_HighestContiguousSequence cursor < ac_HighestContiguousSequence current then returnT current
     else if ac_HighestContiguousSequence cursor = ac_HighestContiguousSequence current then
       bindT (markAcknowledgedFrames D cursor) (\<lambda>_. returnT current)
     else
       bindT (tx_updates (dr_acks D) t_acks t_acks_update
           (\<lambda>r. aw_SessionID r = aw_SessionID row \<and> aw_KeyGeneration r = aw_KeyGeneration row \<and>
                aw_Direction r = aw_Direction row \<and> aw_SenderEndpointID r = aw_SenderEndpointID row \<and>
                aw_ReceiverEndpointID r = aw_ReceiverEndpointID row \<and> aw_RowVersion r = aw_RowVersion row)
           (\<lambda>r. r\<lparr>aw_HighestContiguousSequence := ac_HighestContiguousSequence cursor,
                  aw_UpdatedAt := ac_UpdatedAt cursor, aw_RowVersion := aw_RowVersion row + 1\<rparr>) Wrap) (\<lambda>affected.
       bindT (guardT (affected \<noteq> 1) (problem CodeConflict)) (\<lambda>_.
       bindT (markAcknowledgedFrames D (cursor\<lparr>ac_RowVersion := aw_RowVersion row + 1\<rparr>)) (\<lambda>_.
       returnT (cursor\<lparr>ac_RowVersion := aw_RowVersion row + 1\<rparr>)))))"

definition advanceAckOnce :: "drivers \<Rightarrow> AckCursor \<Rightarrow> db \<Rightarrow> AckCursor result \<times> db" where
  "advanceAckOnce D cursor = run_tx D (
     bindT (tx_lookup (dr_acks D) t_acks (ack_key cursor) Wrap) (\<lambda>found.
     case found of
       Some row \<Rightarrow> advance_existing D cursor row
     | None \<Rightarrow>
         bindT (tx_create_ignore (dr_acks D) t_acks t_acks_update ((ackToRow cursor)\<lparr>aw_RowVersion := 1\<rparr>)
             classifyPersistence) (\<lambda>affected.
         if affected = 1 then
           bindT (markAcknowledgedFrames D cursor) (\<lambda>_. returnT (cursor\<lparr>ac_RowVersion := 1\<rparr>))
         else
           bindT (tx_first (dr_acks D) t_acks (ack_key cursor) Wrap) (\<lambda>row.
           advance_existing D cursor row))))"

definition AdvanceAck ::
    "(nat \<Rightarrow> drivers) \<Rightarrow> (nat \<Rightarrow> go_error option) \<Rightarrow> AckCursor \<Rightarrow> db \<Rightarrow> AckCursor result \<times> db" where
  "AdvanceAck D wait cursor db =
     (if IsZero (ac_SessionID cursor) \<or> IsZero (ac_SenderEndpointID cursor) \<or> IsZero (ac_ReceiverEndpointID cursor) \<or>
         ac_KeyGeneration cursor = 0 \<or> \<not> Direction_Valid (ac_Direction cursor) \<or>
         IsZeroTime (ac_UpdatedAt cursor) \<or> \<not> validAckRanges cursor
      then (Inl (problem CodeInvalidArgument), db)
      else sqlite_retry (dr_sqlite (D 0)) (\<lambda>n. advanceAckOnce (D n) cursor) wait 0 sqliteAttempts db)"

subsection \<open>Replay\<close>

primrec frames_from_rows :: "frameRow list \<Rightarrow> EncryptedFrame list result" where
  "frames_from_rows [] = Inr []"
| "frames_from_rows (row # rows) =
     bindE (frameFromRow row) (\<lambda>frame. bindE (frames_from_rows rows) (\<lambda>frames. Inr (frame # frames)))"

definition replay_filter :: "ID \<Rightarrow> ID \<Rightarrow> u64 \<Rightarrow> Direction \<Rightarrow> u64 \<Rightarrow> SequenceRange list \<Rightarrow> frameRow \<Rightarrow> bool" where
  "replay_filter receiverID channelID keyGeneration direction highest ranges r \<longleftrightarrow>
     fw_ReceiverEndpointID r = ID_String receiverID \<and> fw_ChannelID r = ID_String channelID \<and>
     fw_KeyGeneration r = keyGeneration \<and> fw_Direction r = direction \<and> fw_Sequence r > highest \<and>
     fw_Status r \<in> {FrameStatusStored, FrameStatusRouted} \<and>
     (\<forall>value \<in> set ranges. \<not> (fw_Sequence r \<ge> sr_Start value \<and> fw_Sequence r \<le> sr_End value))"

definition ReplayEndpointFrames ::
    "drivers \<Rightarrow> ID \<Rightarrow> ID \<Rightarrow> u64 \<Rightarrow> Direction \<Rightarrow> u64 \<Rightarrow> SequenceRange list \<Rightarrow> int \<Rightarrow> db \<Rightarrow>
     EncryptedFrame list result \<times> db" where
  "ReplayEndpointFrames D receiverID channelID keyGeneration direction highest ranges limit = run_read (
     bindT (guardT (IsZero receiverID \<or> IsZero channelID \<or> keyGeneration = 0 \<or> \<not> Direction_Valid direction \<or>
         limit \<le> 0 \<or> limit > 1024 \<or> \<not> validReplayRanges highest ranges) (problem CodeInvalidArgument)) (\<lambda>_.
     bindT (tx_query (dr_frames D) t_frames
         (replay_filter receiverID channelID keyGeneration direction highest ranges)
         (\<lambda>r. [uint (fw_Sequence r)]) (nat limit) classifyPersistence) (\<lambda>rows.
     liftT (frames_from_rows rows))))"

subsection \<open>What the frame operations do to the tables\<close>

lemma putAuthorizedFrameRow_cases:
  assumes laws: "database_laws D" and ok: "putAuthorizedFrameRow D row db = Inr (r, db')"
  obtains (stored) "r = Inr PutFrameStored" "db' = db\<lparr>t_frames := t_frames db @ [row]\<rparr>"
      "\<forall>x \<in> set (t_frames db). \<not> frame_clash row x"
    | (duplicate) x where "r = Inr PutFrameDuplicate" "db' = db" "x \<in> set (t_frames db)" "sameFrame x row"
    | (conflict) x where "r = Inl (problem CodeConflict)" "x \<in> set (t_frames db)" "frame_clash row x" "\<not> sameFrame x row"
      "db' = db\<lparr>t_frames := update_rows (\<lambda>r. fw_MessageID r = fw_MessageID x)
         (\<lambda>r. r\<lparr>fw_Status := FrameStatusConflict\<rparr>) (t_frames db)\<rparr>"
proof -
  note fr = database_lawsD(6) [OF laws]
  obtain n db1 where ins: "tx_create_ignore (dr_frames D) t_frames t_frames_update row classifyPersistence db = Inr (n, db1)"
    using ok by (auto simp: putAuthorizedFrameRow_def tx_Inr)
  show ?thesis
  proof (cases "\<exists>x \<in> set (t_frames db). frame_clash row x")
    case False
    with sql_table.tx_create_ignoreD [OF fr ins] have "n = 1" "db1 = db\<lparr>t_frames := t_frames db @ [row]\<rparr>" by auto
    with ok ins False show ?thesis
      by (intro stored) (auto simp: putAuthorizedFrameRow_def tx_Inr)
  next
    case True
    with sql_table.tx_create_ignoreD [OF fr ins] have "n = 0" "db1 = db" by auto
    then obtain x where x: "tx_first (dr_frames D) t_frames
           (\<lambda>r. fw_MessageID r = fw_MessageID row \<or>
                fw_SessionID r = fw_SessionID row \<and> fw_KeyGeneration r = fw_KeyGeneration row \<and>
                fw_SenderEndpointID r = fw_SenderEndpointID row \<and> fw_Sequence r = fw_Sequence row) notFoundOr db = Inr (x, db)"
      and rest: "(if sameFrame x row then returnT (Inr PutFrameDuplicate)
       else bindT (tx_updates (dr_frames D) t_frames t_frames_update (\<lambda>r. fw_MessageID r = fw_MessageID x)
             (\<lambda>r. r\<lparr>fw_Status := FrameStatusConflict\<rparr>) Wrap) (\<lambda>_. returnT (Inl (problem CodeConflict)))) db = Inr (r, db')"
      using ok ins by (auto simp: putAuthorizedFrameRow_def tx_Inr tx_first_Inr)
    have "x \<in> set (t_frames db)" "frame_clash row x"
      using sql_table.tx_firstD [OF fr x] by (auto simp: frame_clash_def)
    then show ?thesis
      using rest duplicate [of x] conflict [of x]
      by (auto simp: tx_Inr split: if_splits dest!: sql_table.tx_updatesD [OF fr])
  qed
qed

text \<open>The sequences a cursor acknowledges.\<close>

definition covers :: "AckCursor \<Rightarrow> u64 \<Rightarrow> bool" where
  "covers cursor n \<longleftrightarrow> ac_HighestContiguousSequence cursor > 0 \<and> n \<le> ac_HighestContiguousSequence cursor \<or>
     (\<exists>v \<in> set (ac_ReceivedRanges cursor). sr_Start v \<le> n \<and> n \<le> sr_End v)"

lemma ack_matching_acknowledged [simp]: "\<not> ack_matching c (acknowledged_row c' r)"
  by (simp add: ack_matching_def acknowledged_row_def)

lemma mark_ranges_InrD:
  assumes laws: "database_laws D" and ok: "mark_ranges D cursor ranges db = Inr (u, db')"
  shows "db' = db\<lparr>t_frames := update_rows
      (\<lambda>r. ack_matching cursor r \<and> (\<exists>v \<in> set ranges. sr_Start v \<le> fw_Sequence r \<and> fw_Sequence r \<le> sr_End v))
      (acknowledged_row cursor) (t_frames db)\<rparr>"
  using ok
proof (induction ranges arbitrary: db)
  case (Cons v ranges)
  then obtain n db1 where "tx_updates (dr_frames D) t_frames t_frames_update
         (\<lambda>r. ack_matching cursor r \<and> sr_Start v \<le> fw_Sequence r \<and> fw_Sequence r \<le> sr_End v)
         (acknowledged_row cursor) Wrap db = Inr (n, db1)" and rest: "mark_ranges D cursor ranges db1 = Inr (u, db')"
    by (auto simp: tx_Inr)
  from sql_table.tx_updatesD [OF database_lawsD(6) [OF laws] this(1)] Cons.IH [OF rest]
  have "db' = db\<lparr>t_frames := update_rows (\<lambda>r. (ack_matching cursor r \<and> sr_Start v \<le> fw_Sequence r \<and> fw_Sequence r \<le> sr_End v) \<or>
      ack_matching cursor r \<and> (\<exists>v \<in> set ranges. sr_Start v \<le> fw_Sequence r \<and> fw_Sequence r \<le> sr_End v))
      (acknowledged_row cursor) (t_frames db)\<rparr>"
    by (simp add: update_rows_compose)
  then show ?case
    by (auto intro!: arg_cong [where f = "\<lambda>t. db\<lparr>t_frames := t\<rparr>"] update_rows_cong)
qed (simp add: tx_Inr)

lemma markAcknowledgedFrames_InrD:
  assumes laws: "database_laws D" and ok: "markAcknowledgedFrames D cursor db = Inr (u, db')"
  shows "db' = db\<lparr>t_frames := update_rows (\<lambda>r. ack_matching cursor r \<and> covers cursor (fw_Sequence r))
      (acknowledged_row cursor) (t_frames db)\<rparr>"
proof -
  let ?low = "\<lambda>r. ac_HighestContiguousSequence cursor > 0 \<and> ack_matching cursor r \<and> fw_Sequence r \<le> ac_HighestContiguousSequence cursor"
  obtain db1 where low: "db1 = db\<lparr>t_frames := update_rows ?low (acknowledged_row cursor) (t_frames db)\<rparr>"
    and ranges: "mark_ranges D cursor (ac_ReceivedRanges cursor) db1 = Inr (u, db')"
    using ok by (auto simp: markAcknowledgedFrames_def tx_Inr split: if_splits
        dest!: sql_table.tx_updatesD [OF database_lawsD(6) [OF laws]])
  from mark_ranges_InrD [OF laws ranges] low
  have "db' = db\<lparr>t_frames := update_rows (\<lambda>r. ?low r \<or> ack_matching cursor r \<and>
      (\<exists>v \<in> set (ac_ReceivedRanges cursor). sr_Start v \<le> fw_Sequence r \<and> fw_Sequence r \<le> sr_End v))
      (acknowledged_row cursor) (t_frames db)\<rparr>"
    by (simp add: update_rows_compose)
  then show ?thesis
    by (auto simp: covers_def intro!: arg_cong [where f = "\<lambda>t. db\<lparr>t_frames := t\<rparr>"] update_rows_cong)
qed

definition marked :: "AckCursor \<Rightarrow> db \<Rightarrow> db" where
  "marked cursor db = db\<lparr>t_frames := update_rows (\<lambda>r. ack_matching cursor r \<and> covers cursor (fw_Sequence r))
      (acknowledged_row cursor) (t_frames db)\<rparr>"

lemma marked_acks [simp]: "t_acks (marked cursor db) = t_acks db"
  by (simp add: marked_def)

lemma marked_version [simp]: "marked (cursor\<lparr>ac_RowVersion := v\<rparr>) = marked cursor"
proof -
  have "ack_matching (cursor\<lparr>ac_RowVersion := v\<rparr>) = ack_matching cursor"
    "covers (cursor\<lparr>ac_RowVersion := v\<rparr>) = covers cursor"
    "acknowledged_row (cursor\<lparr>ac_RowVersion := v\<rparr>) = acknowledged_row cursor"
    by (auto simp: ack_matching_def covers_def acknowledged_row_def fun_eq_iff)
  then show ?thesis by (intro ext) (simp add: marked_def)
qed

lemma mark_InrD: "database_laws D \<Longrightarrow> markAcknowledgedFrames D cursor db = Inr (u, db') \<Longrightarrow> db' = marked cursor db"
  unfolding marked_def by (rule markAcknowledgedFrames_InrD)

lemma ackFromRow_highest: "ackFromRow row = Inr c \<Longrightarrow> ac_HighestContiguousSequence c = aw_HighestContiguousSequence row"
  by (auto simp: ackFromRow_def bindE_Inr_iff)

definition ack_id :: "ackRow \<Rightarrow> string \<times> u64 \<times> Direction \<times> string \<times> string" where
  "ack_id r = (aw_SessionID r, aw_KeyGeneration r, aw_Direction r, aw_SenderEndpointID r, aw_ReceiverEndpointID r)"

lemma ack_key_id: "ack_key cursor r \<longleftrightarrow> ack_id r = ack_id (ackToRow cursor)"
  by (auto simp: ack_key_def ack_id_def ackToRow_def)

lemma advanceAckOnce_cases:
  assumes laws: "database_laws D" and ok: "advanceAckOnce D cursor db = (Inr c, db')"
  obtains (stale) row where "row \<in> set (t_acks db)" "ack_key cursor row"
      "ac_HighestContiguousSequence cursor < aw_HighestContiguousSequence row"
      "ac_HighestContiguousSequence c = aw_HighestContiguousSequence row" "db' = db"
    | (same) row where "row \<in> set (t_acks db)" "ack_key cursor row"
      "ac_HighestContiguousSequence cursor = aw_HighestContiguousSequence row"
      "ac_HighestContiguousSequence c = ac_HighestContiguousSequence cursor" "db' = marked cursor db"
    | (created) "\<forall>r \<in> set (t_acks db). \<not> ack_key cursor r"
      "ac_HighestContiguousSequence c = ac_HighestContiguousSequence cursor"
      "db' = marked cursor (db\<lparr>t_acks := t_acks db @ [(ackToRow cursor)\<lparr>aw_RowVersion := 1\<rparr>]\<rparr>)"
    | (advanced) row where "row \<in> set (t_acks db)" "ack_key cursor row"
      "aw_HighestContiguousSequence row < ac_HighestContiguousSequence cursor"
      "ac_HighestContiguousSequence c = ac_HighestContiguousSequence cursor"
      "db' = marked cursor (db\<lparr>t_acks := update_rows (\<lambda>r. ack_id r = ack_id row \<and> aw_RowVersion r = aw_RowVersion row)
         (\<lambda>r. r\<lparr>aw_HighestContiguousSequence := ac_HighestContiguousSequence cursor,
                aw_UpdatedAt := ac_UpdatedAt cursor, aw_RowVersion := aw_RowVersion row + 1\<rparr>) (t_acks db)\<rparr>)"
proof -
  note ak = database_lawsD(7) [OF laws]
  have existing: thesis if row: "row \<in> set (t_acks db)" "ack_key cursor row"
    and adv: "advance_existing D cursor row db = Inr (c, db')" for row
  proof -
    obtain current where cur: "ackFromRow row = Inr current"
      using adv by (auto simp: advance_existing_def tx_Inr)
    note h = ackFromRow_highest [OF cur]
    have pred: "(\<lambda>r. aw_SessionID r = aw_SessionID row \<and> aw_KeyGeneration r = aw_KeyGeneration row \<and>
        aw_Direction r = aw_Direction row \<and> aw_SenderEndpointID r = aw_SenderEndpointID row \<and>
        aw_ReceiverEndpointID r = aw_ReceiverEndpointID row \<and> aw_RowVersion r = aw_RowVersion row) =
        (\<lambda>r. ack_id r = ack_id row \<and> aw_RowVersion r = aw_RowVersion row)"
      by (auto simp: ack_id_def fun_eq_iff)
    consider (lt) "ac_HighestContiguousSequence cursor < ac_HighestContiguousSequence current"
      | (eq) "ac_HighestContiguousSequence cursor = ac_HighestContiguousSequence current"
      | (gt) "ac_HighestContiguousSequence current < ac_HighestContiguousSequence cursor"
      by (rule linorder_cases)
    then show thesis
    proof cases
      case lt
      with adv cur h row show thesis by (intro stale [of row]) (auto simp: advance_existing_def tx_Inr)
    next
      case eq
      with adv cur h row show thesis
        by (intro same [of row]) (auto simp: advance_existing_def tx_Inr dest!: mark_InrD [OF laws])
    next
      case gt
      moreover from gt have "\<not> ac_HighestContiguousSequence cursor < ac_HighestContiguousSequence current"
        "ac_HighestContiguousSequence cursor \<noteq> ac_HighestContiguousSequence current" by auto
      ultimately show thesis
        using adv cur h row
        unfolding advance_existing_def pred
        by (intro advanced [of row]) (auto simp: tx_Inr dest!: mark_InrD [OF laws] sql_table.tx_updatesD [OF ak])
    qed
  qed
  obtain found where look: "tx_lookup (dr_acks D) t_acks (ack_key cursor) Wrap db = Inr (found, db)"
    and rest: "(case found of Some row \<Rightarrow> advance_existing D cursor row
     | None \<Rightarrow> bindT (tx_create_ignore (dr_acks D) t_acks t_acks_update ((ackToRow cursor)\<lparr>aw_RowVersion := 1\<rparr>)
             classifyPersistence) (\<lambda>affected.
         if affected = 1 then bindT (markAcknowledgedFrames D cursor) (\<lambda>_. returnT (cursor\<lparr>ac_RowVersion := 1\<rparr>))
         else bindT (tx_first (dr_acks D) t_acks (ack_key cursor) Wrap) (\<lambda>row. advance_existing D cursor row))) db = Inr (c, db')"
    using run_tx_success [OF ok [unfolded advanceAckOnce_def]]
    unfolding bindT_Inr [of "tx_lookup _ _ _ _"] tx_lookup_Inr by blast
  show thesis
  proof (cases found)
    case (Some row)
    with rest sql_table.tx_lookupD [OF ak look] show thesis by (intro existing) auto
  next
    case None
    with sql_table.tx_lookupD [OF ak look] have none: "\<forall>r \<in> set (t_acks db). \<not> ack_key cursor r" by simp
    then have free: "\<not> (\<exists>x \<in> set (t_acks db). ack_clash ((ackToRow cursor)\<lparr>aw_RowVersion := 1\<rparr>) x)"
      by (auto simp: ack_clash_def ack_key_def ackToRow_def)
    obtain n db1 where ins: "tx_create_ignore (dr_acks D) t_acks t_acks_update ((ackToRow cursor)\<lparr>aw_RowVersion := 1\<rparr>)
        classifyPersistence db = Inr (n, db1)"
      and cont: "(if n = 1 then bindT (markAcknowledgedFrames D cursor) (\<lambda>_. returnT (cursor\<lparr>ac_RowVersion := 1\<rparr>))
         else bindT (tx_first (dr_acks D) t_acks (ack_key cursor) Wrap) (\<lambda>row. advance_existing D cursor row)) db1 = Inr (c, db')"
      using rest [unfolded None option.case bindT_Inr [of "tx_create_ignore _ _ _ _ _"]] by blast
    from sql_table.tx_create_ignoreD [OF ak ins] free
    have db1: "n = 1" "db1 = db\<lparr>t_acks := t_acks db @ [(ackToRow cursor)\<lparr>aw_RowVersion := 1\<rparr>]\<rparr>" by simp_all
    from cont db1(1) have "c = cursor\<lparr>ac_RowVersion := 1\<rparr>" "db' = marked cursor db1"
      by (auto simp: tx_Inr dest!: mark_InrD [OF laws])
    with none db1(2) show thesis by (intro created) simp_all
  qed
qed

end
