(* ===== verification/Store_Delivery.thy ===== *)
theory Store_Delivery
  imports Store_Frames "HOL-Library.Sublist"
begin

section \<open>Delivery: what holds over every history of frames and acknowledgements\<close>

text \<open>
  The step relation \<open>delivery\<close> is one call of \<open>PutFrame\<close>, \<open>PutAuthorizedEndpointFrame\<close> or
  \<open>AdvanceAck\<close> with arbitrary arguments and database failures; its closure is a history.  Each call
  changes the frame table in one of four ways (\<open>frame_change\<close>), on which the invariants rest:
  frames are immutable once stored, cursors only advance, an acknowledged frame is never replayed.
\<close>

inductive delivery :: "db \<Rightarrow> db \<Rightarrow> bool" where
  put: "database_laws D \<Longrightarrow> delivery db (snd (PutFrame D frame limit db))"
| put_authorized: "(\<And>n. database_laws (D n)) \<Longrightarrow>
     delivery db (snd (PutAuthorizedEndpointFrame D wait owner tenant credentialID frame now db))"
| acknowledge: "(\<And>n. database_laws (D n)) \<Longrightarrow> delivery db (snd (AdvanceAck D wait cursor db))"

inductive frame_change :: "frameRow list \<Rightarrow> frameRow list \<Rightarrow> bool" where
  same: "frame_change t t"
| store: "(\<And>x. x \<in> set t \<Longrightarrow> \<not> frame_clash row x) \<Longrightarrow> frame_change t (t @ [row])"
| conflict: "frame_change t (update_rows (\<lambda>r. fw_MessageID r = m) (\<lambda>r. r\<lparr>fw_Status := FrameStatusConflict\<rparr>) t)"
| acked: "frame_change t (update_rows (\<lambda>r. ack_matching c r \<and> covers c (fw_Sequence r)) (acknowledged_row c) t)"

subsection \<open>Each call is one change\<close>

lemma put_row_change:
  assumes "database_laws D" "putAuthorizedFrameRow D row db = Inr (r, db')"
  shows "frame_change (t_frames db) (t_frames db') \<and> t_acks db' = t_acks db"
  using assms by (rule putAuthorizedFrameRow_cases) (auto intro: frame_change.intros)

lemma check_after_run:
  assumes "check_after (run_tx D body db) f = (r, db')"
  shows "db' = db \<or> (\<exists>a. body db = Inr (a, db') \<and> r = f a)"
  using assms by (auto simp: check_after_def run_tx_def bindE_def split: sum.splits option.splits prod.splits)

lemma PutFrame_change:
  assumes "database_laws D"
  shows "frame_change (t_frames db) (t_frames (snd (PutFrame D frame limit db))) \<and>
     t_acks (snd (PutFrame D frame limit db)) = t_acks db"
proof -
  obtain r db' where put: "PutFrame D frame limit db = (r, db')" by fastforce
  then have "db' = db \<or> check_after (run_tx D (putAuthorizedFrameRow D (frameToRow frame)) db) id = (r, db')"
    by (auto simp: PutFrame_def split: option.splits if_splits)
  then show ?thesis
    using check_after_run put_row_change [OF assms] put by (fastforce intro: frame_change.same)
qed

lemma fence_frame_noop:
  assumes "database_laws D" "fenceAuthorizedFrameSession D session owner tenant db = Inr (u, db')"
  shows "db' = db"
  using assms(2) by (auto simp: fenceAuthorizedFrameSession_def tx_Inr split: if_splits
      dest!: sql_table.tx_updatesD [OF database_lawsD(4) [OF assms(1)]])

lemma lock_endpoint_InrD:
  assumes "database_laws D" "lockAuthorizedFrameEndpoint D i owner tenant db = Inr (e, db')"
  shows "db' = db \<and> e \<in> set (t_endpoints db) \<and> er_ID e = ID_String i \<and> er_Status e = EndpointStatusActive \<and>
     er_OwnerUserID e = owner \<and> er_TenantID e = tenant"
  using assms(2) by (auto simp: lockAuthorizedFrameEndpoint_def tx_Inr split: if_splits
      dest!: sql_table.tx_firstD [OF database_lawsD(1) [OF assms(1)]])

lemma lock_route_InrD:
  assumes "database_laws D" "lockAuthorizedFrameRouteEndpoints D session direction owner tenant db = Inr ((s, r), db')"
  shows "db' = db \<and> s \<in> set (t_endpoints db) \<and> r \<in> set (t_endpoints db) \<and>
     er_Status s = EndpointStatusActive \<and> er_Status r = EndpointStatusActive"
  using assms(2) by (auto simp: lockAuthorizedFrameRouteEndpoints_def tx_Inr split: if_splits
      dest!: lock_endpoint_InrD [OF assms(1)])

text \<open>What an authorized attempt establishes before it touches the frame table.\<close>

definition frame_authorized :: "string \<Rightarrow> string \<Rightarrow> ID \<Rightarrow> EncryptedFrame \<Rightarrow> time \<Rightarrow> db \<Rightarrow> bool" where
  "frame_authorized owner tenant credentialID frame now db \<longleftrightarrow>
     (\<exists>session \<in> set (t_sessions db). sw_ID session = ID_String (fr_SessionID frame) \<and>
        sw_OwnerUserID session = owner \<and> sw_TenantID session = tenant \<and> sw_Status session = SessionStatusActive \<and>
        sw_CurrentKeyGeneration session = fr_KeyGeneration frame) \<and>
     (\<exists>receiver \<in> set (t_endpoints db). er_ID receiver = ID_String (fr_ReceiverEndpointID frame) \<and>
        er_Status receiver = EndpointStatusActive) \<and>
     (\<exists>sender \<in> set (t_endpoints db). er_ID sender = ID_String (fr_SenderEndpointID frame) \<and>
        er_Status sender = EndpointStatusActive) \<and>
     (\<exists>credential \<in> set (t_credentials db). cw_ID credential = ID_String credentialID \<and>
        cw_EndpointID credential = ID_String (fr_SenderEndpointID frame) \<and>
        cw_Status credential = CredentialStatusActive \<and> now < cw_ExpiresAt credential)"

lemma authorize_frame_InrD:
  assumes laws: "database_laws D" and ok: "authorize_frame D owner tenant credentialID frame now db = Inr (u, db')"
  shows "db' = db \<and> frame_authorized owner tenant credentialID frame now db"
proof -
  obtain session s r credential db1 db2 db3 where
    se: "tx_first (dr_sessions D) t_sessions
         (\<lambda>r. sw_ID r = ID_String (fr_SessionID frame) \<and> sw_OwnerUserID r = owner \<and> sw_TenantID r = tenant) notFoundOr db = Inr (session, db1)"
    and st: "sw_Status session = SessionStatusActive" "sw_CurrentKeyGeneration session = fr_KeyGeneration frame"
    and fe: "fenceAuthorizedFrameSession D session owner tenant db1 = Inr ((), db2)"
    and lo: "lockAuthorizedFrameRouteEndpoints D session (fr_Direction frame) owner tenant db2 = Inr ((s, r), db3)"
    and va: "validateAuthorizedFrameRoute session s r frame = None"
    and cr: "tx_first (dr_credentials D) t_credentials (\<lambda>r. cw_ID r = ID_String credentialID \<and> cw_EndpointID r = er_ID s)
         (\<lambda>err. NewProblem CodeSecurityViolation (Some err)) db3 = Inr (credential, db')"
    and live: "cw_Status credential = CredentialStatusActive" "\<not> cw_ExpiresAt credential < now" "cw_ExpiresAt credential \<noteq> now"
    using ok unfolding authorize_frame_def by (auto simp: tx_Inr)
  have route: "er_ID s = ID_String (fr_SenderEndpointID frame)" "er_ID r = ID_String (fr_ReceiverEndpointID frame)"
    using va by (auto simp: validateAuthorizedFrameRoute_def split: if_splits)
  have "db' = db" "session \<in> set (t_sessions db) \<and> sw_ID session = ID_String (fr_SessionID frame) \<and>
      sw_OwnerUserID session = owner \<and> sw_TenantID session = tenant"
    "s \<in> set (t_endpoints db) \<and> er_Status s = EndpointStatusActive" "r \<in> set (t_endpoints db) \<and> er_Status r = EndpointStatusActive"
    "credential \<in> set (t_credentials db) \<and> cw_ID credential = ID_String credentialID \<and> cw_EndpointID credential = er_ID s"
    using sql_table.tx_firstD [OF database_lawsD(4) [OF laws] se] fence_frame_noop [OF laws fe]
      lock_route_InrD [OF laws lo] sql_table.tx_firstD [OF database_lawsD(3) [OF laws] cr] by simp_all
  with st route live show ?thesis unfolding frame_authorized_def by force
qed

lemma authorized_once_cases:
  assumes laws: "database_laws D"
    and once: "putAuthorizedEndpointFrameOnce D owner tenant credentialID frame now db = (r, db')"
  shows "db' = db \<and> isl r \<or> frame_authorized owner tenant credentialID frame now db \<and>
     putAuthorizedFrameRow D (frameToRow frame) db = Inr (r, db')"
proof -
  let ?body = "bindT (authorize_frame D owner tenant credentialID frame now) (\<lambda>_. putAuthorizedFrameRow D (frameToRow frame))"
  obtain res db1 where run: "run_tx D ?body db = (res, db1)" by fastforce
  with once have r: "r = bindE res id" "db' = db1"
    by (auto simp: putAuthorizedEndpointFrameOnce_def check_after_def)
  show ?thesis
  proof (cases res)
    case (Inl e)
    with run_tx_error [OF run [unfolded Inl]] r show ?thesis by (simp add: bindE_def)
  next
    case (Inr a)
    with run_tx_success [OF run [unfolded Inr]] r show ?thesis
      by (auto simp: bindT_Inr bindE_def dest!: authorize_frame_InrD [OF laws])
  qed
qed

lemma put_row_not_busy: "database_laws D \<Longrightarrow> putAuthorizedFrameRow D row db = Inr (Inl err, db') \<Longrightarrow> \<not> isSQLiteConcurrencyError err"
  by (erule putAuthorizedFrameRow_cases) (auto simp: NewProblem_def)

text \<open>The retried operation as a whole.\<close>

lemma PutAuthorized_cases:
  assumes laws: "\<And>n. database_laws (D n)"
    and put: "PutAuthorizedEndpointFrame D wait owner tenant credentialID frame now db = (r, db')"
  shows "db' = db \<and> isl r \<or> (\<exists>n res. frame_authorized (TrimSpace owner) (TrimSpace tenant) credentialID frame now db \<and>
     putAuthorizedFrameRow (D n) (frameToRow frame) db = Inr (res, db') \<and>
     (\<not> isl r \<longrightarrow> r = map_sum id (\<lambda>outcome. outcome = PutFrameDuplicate) res))"
proof -
  let ?once = "\<lambda>n. putAuthorizedEndpointFrameOnce (D n) (TrimSpace owner) (TrimSpace tenant) credentialID frame now"
  consider "db' = db" "isl r"
    | r1 where "sqlite_retry (dr_sqlite (D 0)) ?once wait 0 sqliteAttempts db = (r1, db')"
      "r = map_sum id (\<lambda>outcome. outcome = PutFrameDuplicate) r1"
    using put by (auto simp: PutAuthorizedEndpointFrame_def split: if_splits option.splits prod.splits)
  then show ?thesis
  proof cases
    case (2 r1)
    have busy: "db2 = db" if "?once n db = (Inl err, db2)" "isSQLiteConcurrencyError err" for n err db2
      using authorized_once_cases [OF laws that(1)] put_row_not_busy [OF laws] that(2) by blast
    have retried: "case r1 of Inr a \<Rightarrow> \<exists>n. ?once n db = (Inr a, db')
        | Inl e \<Rightarrow> db' = db \<or> (\<exists>n err. ?once n db = (Inl err, db'))"
      by (rule sqlite_retry_cases [OF 2(1)]) (rule busy)
    show ?thesis
    proof (cases r1)
      case (Inl e)
      with retried have "db' = db \<or> (\<exists>n err. ?once n db = (Inl err, db'))" by simp
      then show ?thesis
        using authorized_once_cases [OF laws] 2(2) Inl by fastforce
    next
      case (Inr a)
      with retried obtain n where "?once n db = (Inr a, db')" by auto
      from authorized_once_cases [OF laws this] 2(2) Inr show ?thesis by fastforce
    qed
  qed simp
qed

lemma PutAuthorized_change:
  assumes "\<And>n. database_laws (D n)"
  shows "frame_change (t_frames db) (t_frames (snd (PutAuthorizedEndpointFrame D wait owner tenant cid frame now db))) \<and>
     t_acks (snd (PutAuthorizedEndpointFrame D wait owner tenant cid frame now db)) = t_acks db"
proof -
  obtain r db' where put: "PutAuthorizedEndpointFrame D wait owner tenant cid frame now db = (r, db')" by fastforce
  from PutAuthorized_cases [OF assms put] show ?thesis
    using put_row_change [OF assms] put by (auto intro: frame_change.same)
qed

text \<open>A successful or failing acknowledgement is a single attempt.\<close>

lemma AdvanceAck_cases:
  assumes "AdvanceAck D wait cursor db = (r, db')"
  shows "case r of Inr c \<Rightarrow> \<exists>n. advanceAckOnce (D n) cursor db = (Inr c, db') | Inl e \<Rightarrow> db' = db"
proof -
  have failed: "db2 = db" if "advanceAckOnce (D n) cursor db = (Inl err, db2)" for n err db2
    using that unfolding advanceAckOnce_def by (rule run_tx_error)
  consider "db' = db" "isl r"
    | "sqlite_retry (dr_sqlite (D 0)) (\<lambda>n. advanceAckOnce (D n) cursor) wait 0 sqliteAttempts db = (r, db')"
    using assms by (auto simp: AdvanceAck_def split: if_splits)
  then show ?thesis
  proof cases
    case 2
    have "case r of Inr c \<Rightarrow> \<exists>n. advanceAckOnce (D n) cursor db = (Inr c, db')
        | Inl e \<Rightarrow> db' = db \<or> (\<exists>n err. advanceAckOnce (D n) cursor db = (Inl err, db'))"
      by (rule sqlite_retry_cases [OF 2]) (rule failed)
    then show ?thesis using failed by (auto split: sum.splits)
  qed (auto split: sum.splits)
qed

lemma AdvanceAck_change:
  assumes "\<And>n. database_laws (D n)"
  shows "frame_change (t_frames db) (t_frames (snd (AdvanceAck D wait cursor db)))"
proof -
  obtain r db' where ack: "AdvanceAck D wait cursor db = (r, db')" by fastforce
  show ?thesis
  proof (cases r)
    case (Inl e)
    with AdvanceAck_cases [OF ack] ack show ?thesis by (auto intro: frame_change.same)
  next
    case (Inr c)
    with AdvanceAck_cases [OF ack] obtain n where "advanceAckOnce (D n) cursor db = (Inr c, db')" by auto
    with assms have "frame_change (t_frames db) (t_frames db')"
      by (rule advanceAckOnce_cases) (auto simp: marked_def intro: frame_change.intros)
    then show ?thesis using ack by simp
  qed
qed

lemma delivery_frames: "delivery db db' \<Longrightarrow> frame_change (t_frames db) (t_frames db')"
  by (cases rule: delivery.cases, assumption) (auto simp: PutFrame_change PutAuthorized_change AdvanceAck_change)

subsection \<open>Stored frames are immutable\<close>

definition frame_content :: "frameRow \<Rightarrow> frameRow" where
  "frame_content r = r\<lparr>fw_Status := FrameStatusStored, fw_RoutedAt := None, fw_AcknowledgedAt := None\<rparr>"

definition frame_keys :: "frameRow list \<Rightarrow> bool" where
  "frame_keys t \<longleftrightarrow> sorted_wrt (\<lambda>x y. \<not> frame_clash y x) t"

lemma frame_content_simps [simp]:
  "frame_content (r\<lparr>fw_Status := st\<rparr>) = frame_content r" "frame_content (acknowledged_row c r) = frame_content r"
  by (simp_all add: frame_content_def acknowledged_row_def)

lemma frame_clash_content: "frame_clash (frame_content x) (frame_content y) = frame_clash x y"
  by (simp add: frame_clash_def frame_content_def)

lemma frame_keys_content: "frame_keys t \<longleftrightarrow> sorted_wrt (\<lambda>x y. \<not> frame_clash y x) (map frame_content t)"
  by (simp add: frame_keys_def sorted_wrt_map frame_clash_content)

lemma frame_change_content:
  assumes "frame_change t t'" "frame_keys t"
  shows "prefix (map frame_content t) (map frame_content t') \<and> frame_keys t'"
  using assms
proof cases
  case (store row)
  with assms(2) show ?thesis by (auto simp: frame_keys_def sorted_wrt_append)
qed (auto simp: frame_keys_content map_update_rows)

lemma delivery_content:
  assumes "delivery\<^sup>*\<^sup>* db db'" "frame_keys (t_frames db)"
  shows "prefix (map frame_content (t_frames db)) (map frame_content (t_frames db')) \<and> frame_keys (t_frames db')"
  using assms(1)
proof (induction rule: rtranclp_induct)
  case (step db1 db2)
  with frame_change_content [OF delivery_frames [OF step(2)]] show ?case
    by (auto intro: prefix_order.trans)
qed (simp add: assms(2))

text \<open>
  C32.  A stored frame is immutable: over every history of frame stores and acknowledgements each
  frame stays in its place with the same identifiers, sequence, ciphertext, signature and hash; only
  its status and acknowledgement time change, and no two frames ever share a message identifier or a
  (session, generation, sender, sequence) slot.
\<close>

theorem stored_frames_immutable:
  assumes "delivery\<^sup>*\<^sup>* db db'" "frame_keys (t_frames db)"
  shows "prefix (map frame_content (t_frames db)) (map frame_content (t_frames db')) \<and>
     (\<forall>i < length (t_frames db'). \<forall>j < length (t_frames db'). i \<noteq> j \<longrightarrow> \<not> frame_clash (t_frames db' ! i) (t_frames db' ! j))"
proof -
  have sym: "frame_clash x y \<longleftrightarrow> frame_clash y x" for x y
    by (auto simp: frame_clash_def)
  have "\<not> frame_clash (t_frames db' ! i) (t_frames db' ! j)"
    if "i < length (t_frames db')" "j < length (t_frames db')" "i \<noteq> j" for i j
    using delivery_content [OF assms] that sym unfolding frame_keys_def sorted_wrt_iff_nth_less
    by (metis linorder_neqE_nat)
  with delivery_content [OF assms] show ?thesis by blast
qed

definition frame_db :: db where
  "frame_db = empty_db\<lparr>t_frames := [frameToRow (sample_frame 1), frameToRow (sample_frame 2)]\<rparr>"

lemma frame_db_keys: "frame_keys (t_frames frame_db)"
  by (simp add: frame_keys_def frame_db_def frame_clash_def frameToRow_def sample_frame_def)

theorem stored_frames_immutable_witness:
  "prefix (map frame_content (t_frames frame_db))
     (map frame_content (t_frames (snd (PutFrame reference_drivers (sample_frame 3) 1000 frame_db))))"
proof -
  have "delivery\<^sup>*\<^sup>* frame_db (snd (PutFrame reference_drivers (sample_frame 3) 1000 frame_db))"
    by (rule r_into_rtranclp) (rule delivery.put [OF reference_laws])
  from stored_frames_immutable [OF this frame_db_keys] show ?thesis ..
qed

subsection \<open>Cursors only advance\<close>

definition ack_keys :: "ackRow list \<Rightarrow> bool" where
  "ack_keys t \<longleftrightarrow> distinct (map ack_id t)"

definition ack_le :: "ackRow list \<Rightarrow> ackRow list \<Rightarrow> bool" where
  "ack_le t t' \<longleftrightarrow> (\<forall>r \<in> set t. \<exists>r' \<in> set t'. ack_id r' = ack_id r \<and>
     aw_HighestContiguousSequence r \<le> aw_HighestContiguousSequence r')"

lemma ack_le_refl: "ack_le t t"
  by (auto simp: ack_le_def)

lemma ack_le_trans:
  assumes "ack_le t u" "ack_le u v"
  shows "ack_le t v"
  unfolding ack_le_def
proof
  fix r assume "r \<in> set t"
  then obtain s where s: "s \<in> set u" "ack_id s = ack_id r" "aw_HighestContiguousSequence r \<le> aw_HighestContiguousSequence s"
    using assms(1) unfolding ack_le_def by blast
  then obtain x where "x \<in> set v" "ack_id x = ack_id s" "aw_HighestContiguousSequence s \<le> aw_HighestContiguousSequence x"
    using assms(2) unfolding ack_le_def by blast
  with s show "\<exists>r' \<in> set v. ack_id r' = ack_id r \<and> aw_HighestContiguousSequence r \<le> aw_HighestContiguousSequence r'"
    by (intro bexI [of _ x]) auto
qed

lemma ack_id_update [simp]:
  "ack_id (r\<lparr>aw_HighestContiguousSequence := h\<rparr>) = ack_id r" "ack_id (r\<lparr>aw_UpdatedAt := u\<rparr>) = ack_id r"
  "ack_id (r\<lparr>aw_RowVersion := v\<rparr>) = ack_id r"
  by (simp_all add: ack_id_def)

lemma advance_ack_le:
  assumes laws: "database_laws D" and keys: "ack_keys (t_acks db)" and ok: "advanceAckOnce D cursor db = (Inr c, db')"
  shows "ack_keys (t_acks db') \<and> ack_le (t_acks db) (t_acks db') \<and>
     (\<exists>r \<in> set (t_acks db'). ack_key cursor r \<and> ac_HighestContiguousSequence c \<le> aw_HighestContiguousSequence r)"
  using laws ok
proof (cases rule: advanceAckOnce_cases)
  case (stale row)
  with keys show ?thesis by (auto simp: ack_le_refl)
next
  case (same row)
  with keys show ?thesis by (auto simp: ack_le_refl)
next
  case created
  with keys show ?thesis
    by (auto simp: ack_keys_def ack_key_id ack_le_def) (auto simp: ackToRow_def)
next
  case (advanced row)
  have unique: "r = row" if "r \<in> set (t_acks db)" "ack_id r = ack_id row" for r
    using keyed_row_unique [OF keys [unfolded ack_keys_def] that(1) advanced(1)] that(2) by simp
  have t: "t_acks db' = update_rows (\<lambda>r. ack_id r = ack_id row \<and> aw_RowVersion r = aw_RowVersion row)
      (\<lambda>r. r\<lparr>aw_HighestContiguousSequence := ac_HighestContiguousSequence cursor,
             aw_UpdatedAt := ac_UpdatedAt cursor, aw_RowVersion := aw_RowVersion row + 1\<rparr>) (t_acks db)"
    using advanced(5) by simp
  have "map ack_id (t_acks db') = map ack_id (t_acks db)"
    unfolding t by (rule map_update_rows) simp
  then have "ack_keys (t_acks db')"
    using keys by (simp add: ack_keys_def)
  moreover have "ack_le (t_acks db) (t_acks db')"
    unfolding ack_le_def t bex_update_rows
  proof (intro ballI)
    fix r assume "r \<in> set (t_acks db)"
    then show "\<exists>x \<in> set (t_acks db). if ack_id x = ack_id row \<and> aw_RowVersion x = aw_RowVersion row
        then ack_id (x\<lparr>aw_HighestContiguousSequence := ac_HighestContiguousSequence cursor,
               aw_UpdatedAt := ac_UpdatedAt cursor, aw_RowVersion := aw_RowVersion row + 1\<rparr>) = ack_id r \<and>
             aw_HighestContiguousSequence r \<le> aw_HighestContiguousSequence (x\<lparr>aw_HighestContiguousSequence := ac_HighestContiguousSequence cursor,
               aw_UpdatedAt := ac_UpdatedAt cursor, aw_RowVersion := aw_RowVersion row + 1\<rparr>)
        else ack_id x = ack_id r \<and> aw_HighestContiguousSequence r \<le> aw_HighestContiguousSequence x"
      using unique [of r] advanced(3) by (intro bexI [of _ r]) auto
  qed
  moreover have "\<exists>r \<in> set (t_acks db'). ack_key cursor r \<and> ac_HighestContiguousSequence c \<le> aw_HighestContiguousSequence r"
    unfolding t bex_update_rows using advanced(1,2,4) by (intro bexI [of _ row]) (simp_all add: ack_key_id)
  ultimately show ?thesis by blast
qed

lemma delivery_acks:
  assumes "delivery db db'" "ack_keys (t_acks db)"
  shows "ack_keys (t_acks db') \<and> ack_le (t_acks db) (t_acks db')"
  using assms(1)
proof cases
  case (put D frame limit)
  with PutFrame_change [OF put(2)] assms(2) show ?thesis by (simp add: ack_le_refl)
next
  case (put_authorized D wait owner tenant credentialID frame now)
  with PutAuthorized_change [OF put_authorized(2)] assms(2) show ?thesis by (simp add: ack_le_refl)
next
  case (acknowledge D wait cursor)
  obtain r db1 where ack: "AdvanceAck D wait cursor db = (r, db1)" by fastforce
  show ?thesis
  proof (cases r)
    case (Inl e)
    with AdvanceAck_cases [OF ack] ack acknowledge assms(2) show ?thesis by (simp add: ack_le_refl)
  next
    case (Inr c)
    with AdvanceAck_cases [OF ack] obtain n where "advanceAckOnce (D n) cursor db = (Inr c, db1)" by auto
    from advance_ack_le [OF acknowledge(2) assms(2) this] ack acknowledge(1) show ?thesis by simp
  qed
qed


lemma sample_ack:
  obtains c db1 where "AdvanceAck (\<lambda>n. reference_drivers) (\<lambda>n. None) (sample_cursor 2) frame_db = (Inr c, db1)"
    "ac_HighestContiguousSequence c = 2"
proof -
  have once: "\<exists>c db1. advanceAckOnce reference_drivers (sample_cursor 2) frame_db = (Inr c, db1) \<and>
      ac_HighestContiguousSequence c = 2"
    by (simp add: advanceAckOnce_def run_tx_def tx_eval stmt_defs frame_db_def empty_db_def markAcknowledgedFrames_def
        sample_cursor_def cong: bindT_cong_weak)
  have "AdvanceAck (\<lambda>n. reference_drivers) (\<lambda>n. None) (sample_cursor 2) frame_db =
      sqlite_retry False (\<lambda>n. advanceAckOnce reference_drivers (sample_cursor 2)) (\<lambda>n. None) 0 8 frame_db"
    by (simp add: AdvanceAck_def sqliteAttempts_def)
       (simp add: sample_cursor_def Direction_Valid_def DirectionHCToABA_def IsZeroTime_def validAckRanges_def)
  with once show ?thesis
    using that by (auto simp: eval_nat_numeral)
qed


subsection \<open>Replay\<close>

lemma frames_from_rows_length: "frames_from_rows rows = Inr fs \<Longrightarrow> length fs = length rows"
  by (induction rows arbitrary: fs) (auto simp: bindE_Inr_iff)

lemma ReplayEndpointFrames_InrD:
  assumes laws: "database_laws D"
    and ok: "ReplayEndpointFrames D receiverID channelID gen dir highest ranges limit db = (Inr fs, db')"
  obtains rows ys where "frames_from_rows rows = Inr fs" "rows = take (nat limit) ys" "0 < limit" "limit \<le> 1024"
    "mset ys = mset (filter (replay_filter receiverID channelID gen dir highest ranges) (t_frames db))"
    "sorted (map (\<lambda>r. [uint (fw_Sequence r)]) ys)" "db' = db"
proof -
  from run_read_success [OF ok [unfolded ReplayEndpointFrames_def]] obtain rows where
    q: "tx_query (dr_frames D) t_frames (replay_filter receiverID channelID gen dir highest ranges)
         (\<lambda>r. [uint (fw_Sequence r)]) (nat limit) classifyPersistence db = Inr (rows, db)"
    and "frames_from_rows rows = Inr fs" "0 < limit" "limit \<le> 1024"
    by (auto simp: tx_Inr tx_query_Inr)
  moreover have "db' = db"
    using ok run_read_same unfolding ReplayEndpointFrames_def by (metis snd_conv)
  ultimately show ?thesis
    using sql_table.tx_queryD [OF database_lawsD(6) [OF laws] q] that by blast
qed


lemma sample_replay_run:
  "\<exists>fs db'. ReplayEndpointFrames reference_drivers (sample_id 1) (sample_id 12) 1 1 1 [] 10 frame_db = (Inr fs, db') \<and> length fs = 1"
proof -
  have "replay_filter (sample_id 1) (sample_id 12) 1 1 1 [] (frameToRow (sample_frame 2))"
    "\<not> replay_filter (sample_id 1) (sample_id 12) 1 1 1 [] (frameToRow (sample_frame 1))"
    by (simp_all add: replay_filter_def frameToRow_def sample_frame_def)
  moreover have "\<exists>f. frameFromRow (frameToRow (sample_frame 2)) = Inr f"
    by (simp add: frameFromRow_def frameToRow_def sample_frame_def)
       (simp add: real_id_def wf_id_def IDSize_def IsZero_def allZero_set)
  ultimately show ?thesis
    by (auto simp: ReplayEndpointFrames_def run_read_def tx_eval tx_query_def frame_db_def Direction_Valid_def
        DirectionHCToABA_def validReplayRanges_def cong: bindT_cong_weak)
qed


subsection \<open>What is acknowledged is not replayed\<close>

definition open_status :: "FrameStatus \<Rightarrow> bool" where
  "open_status st \<longleftrightarrow> st \<in> {FrameStatusStored, FrameStatusRouted}"

text \<open>No frame with the message identifier is open for replay.\<close>

definition settled :: "string \<Rightarrow> frameRow list \<Rightarrow> bool" where
  "settled m t \<longleftrightarrow> m \<in> fw_MessageID ` set t \<and> (\<forall>r \<in> set t. fw_MessageID r = m \<longrightarrow> \<not> open_status (fw_Status r))"

lemma acknowledged_row_simps [simp]:
  "fw_MessageID (acknowledged_row c r) = fw_MessageID r" "\<not> open_status (fw_Status (acknowledged_row c r))"
  by (simp_all add: acknowledged_row_def open_status_def)

lemma update_rows_messages: "(\<And>r. fw_MessageID (f r) = fw_MessageID r) \<Longrightarrow>
    fw_MessageID ` set (update_rows p f t) = fw_MessageID ` set t"
  by (metis (no_types, lifting) list.set_map map_update_rows)

lemma frame_change_settled:
  assumes "frame_change t t'" "settled m t"
  shows "settled m t'"
  using assms
proof cases
  case (store row)
  with assms(2) show ?thesis by (auto simp: settled_def frame_clash_def)
next
  case (conflict m')
  with assms(2) show ?thesis
    by (auto simp: settled_def update_rows_messages ball_update_rows) (simp add: open_status_def)
next
  case (acked c)
  with assms(2) show ?thesis by (auto simp: settled_def update_rows_messages ball_update_rows)
qed simp

lemma delivery_settled: "delivery\<^sup>*\<^sup>* db db' \<Longrightarrow> settled m (t_frames db) \<Longrightarrow> settled m (t_frames db')"
  by (induction rule: rtranclp_induct) (auto intro: frame_change_settled delivery_frames)

definition addressed :: "AckCursor \<Rightarrow> frameRow \<Rightarrow> bool" where
  "addressed c r \<longleftrightarrow> fw_SessionID r = ID_String (ac_SessionID c) \<and> fw_KeyGeneration r = ac_KeyGeneration c \<and>
     fw_Direction r = ac_Direction c \<and> fw_SenderEndpointID r = ID_String (ac_SenderEndpointID c) \<and>
     fw_ReceiverEndpointID r = ID_String (ac_ReceiverEndpointID c)"

lemma ack_matching_addressed: "ack_matching c r \<longleftrightarrow> addressed c r \<and> open_status (fw_Status r)"
  by (auto simp: ack_matching_def addressed_def open_status_def)

lemma frame_keys_messages: "frame_keys t \<Longrightarrow> distinct (map fw_MessageID t)"
  unfolding frame_keys_def by (induction t) (auto simp: frame_clash_def)

lemma marked_settles:
  assumes "frame_keys (t_frames db)" "r \<in> set (t_frames db)" "addressed c r" "covers c (fw_Sequence r)"
  shows "settled (fw_MessageID r) (t_frames (marked c db))"
proof -
  have "x = r" if "x \<in> set (t_frames db)" "fw_MessageID x = fw_MessageID r" for x
    by (rule keyed_row_unique [OF frame_keys_messages [OF assms(1)] that(1) assms(2) that(2)])
  with assms(2-4) show ?thesis
    by (auto simp: settled_def marked_def update_rows_messages ball_update_rows ack_matching_addressed)
qed

text \<open>
  C35.  What is acknowledged is never replayed: after an acknowledgement that is not behind the
  stored cursor, a frame it covers -- below the contiguous position or inside a received range -- is
  returned by no later replay, whatever frames are stored and whatever is acknowledged in between.
\<close>

theorem acknowledged_never_replayed:
  assumes laws: "\<And>n. database_laws (D n)" "database_laws D'" and keys: "frame_keys (t_frames db)"
    and ack: "AdvanceAck D wait cursor db = (Inr c, db1)"
      "ac_HighestContiguousSequence c = ac_HighestContiguousSequence cursor"
    and r: "r \<in> set (t_frames db)" "addressed cursor r" "covers cursor (fw_Sequence r)"
    and later: "delivery\<^sup>*\<^sup>* db1 db2"
      "ReplayEndpointFrames D' receiverID channelID gen dir highest ranges limit db2 = (Inr fs, db3)"
  shows "\<exists>rows. frames_from_rows rows = Inr fs \<and> set rows \<subseteq> set (t_frames db2) \<and>
     fw_MessageID r \<notin> fw_MessageID ` set rows"
proof -
  from AdvanceAck_cases [OF ack(1)] obtain n where once: "advanceAckOnce (D n) cursor db = (Inr c, db1)" by auto
  have "settled (fw_MessageID r) (t_frames db1)"
    using laws(1) once
  proof (cases rule: advanceAckOnce_cases)
    case (stale row)
    with ack(2) show ?thesis by simp
  next
    case (same row)
    with marked_settles [OF keys r] show ?thesis by simp
  next
    case created
    with marked_settles [OF keys r] show ?thesis by (simp add: marked_def)
  next
    case (advanced row)
    with marked_settles [OF keys r] show ?thesis by (simp add: marked_def)
  qed
  then have settled: "settled (fw_MessageID r) (t_frames db2)"
    by (rule delivery_settled [OF later(1)])
  obtain rows ys where rows: "frames_from_rows rows = Inr fs" "rows = take (nat limit) ys"
    "mset ys = mset (filter (replay_filter receiverID channelID gen dir highest ranges) (t_frames db2))"
    by (rule ReplayEndpointFrames_InrD [OF laws(2) later(2)])
  have "set ys = {x \<in> set (t_frames db2). replay_filter receiverID channelID gen dir highest ranges x}"
    using rows(3) by (metis set_mset_mset set_filter)
  then have "set rows \<subseteq> {x \<in> set (t_frames db2). open_status (fw_Status x)}"
    using set_take_subset [of "nat limit" ys] unfolding rows(2) by (auto simp: replay_filter_def open_status_def)
  with settled rows(1) show ?thesis
    unfolding settled_def by (intro exI [of _ rows]) auto
qed

theorem acknowledged_never_replayed_witness:
  "\<exists>c db1. AdvanceAck (\<lambda>n. reference_drivers) (\<lambda>n. None) (sample_cursor 2) frame_db = (Inr c, db1) \<and>
     (\<forall>fs db3. ReplayEndpointFrames reference_drivers (sample_id 1) (sample_id 12) 1 1 0 [] 10 db1 = (Inr fs, db3) \<longrightarrow>
       (\<exists>rows. frames_from_rows rows = Inr fs \<and> fw_MessageID (frameToRow (sample_frame 1)) \<notin> fw_MessageID ` set rows))"
proof -
  obtain c db1 where ack: "AdvanceAck (\<lambda>n. reference_drivers) (\<lambda>n. None) (sample_cursor 2) frame_db = (Inr c, db1)"
    "ac_HighestContiguousSequence c = 2" by (rule sample_ack)
  have r: "frameToRow (sample_frame 1) \<in> set (t_frames frame_db)" "addressed (sample_cursor 2) (frameToRow (sample_frame 1))"
    "covers (sample_cursor 2) (fw_Sequence (frameToRow (sample_frame 1)))" "ac_HighestContiguousSequence c = ac_HighestContiguousSequence (sample_cursor 2)"
    using ack(2) by (simp_all add: frame_db_def addressed_def covers_def sample_cursor_def sample_frame_def frameToRow_def)
  have "\<forall>fs db3. ReplayEndpointFrames reference_drivers (sample_id 1) (sample_id 12) 1 1 0 [] 10 db1 = (Inr fs, db3) \<longrightarrow>
      (\<exists>rows. frames_from_rows rows = Inr fs \<and> fw_MessageID (frameToRow (sample_frame 1)) \<notin> fw_MessageID ` set rows)"
    using acknowledged_never_replayed [OF reference_laws reference_laws frame_db_keys ack(1) r(4,1,2,3) rtranclp.rtrancl_refl] by blast
  with ack(1) show ?thesis by (intro exI conjI)
qed

subsection \<open>Nothing is stored for a revoked endpoint\<close>



end
