(* ===== verification/Store_Sessions.thy ===== *)
theory Store_Sessions
  imports Store_Revocation
begin

section \<open>Sessions, audit and idempotency records in the store\<close>

text \<open>
  \<open>CreateSession\<close>, \<open>GetSession\<close> and \<open>UpdateSession\<close> of \<open>store/repository.go\<close>,
  \<open>CloseSessionForOwner\<close> of \<open>store/management.go\<close>, \<open>store/audit.go\<close>, \<open>store/idempotency.go\<close>,
  \<open>store/session_create.go\<close> and \<open>store/session_close.go\<close>.  An endpoint opens and closes sessions
  under an idempotency key: the side effect, its audit event and the completed record commit
  together, and a repeated request is answered from the record.

  \<open>callT\<close> is the call of a store operation on a store that is bound to a transaction
  (\<open>WithTransaction\<close>): the transaction of the operation itself becomes a savepoint.
\<close>

definition callT :: "(db \<Rightarrow> 'a result \<times> db) \<Rightarrow> (db, 'a) tx" where
  "callT op = (\<lambda>db. case op db of (Inl e, db') \<Rightarrow> Inl e | (Inr a, db') \<Rightarrow> Inr (a, db'))"

lemma callT_Inr: "callT op db = Inr (a, db') \<longleftrightarrow> op db = (Inr a, db')"
  by (auto simp: callT_def split: prod.splits sum.splits)

lemma callT_apply: "callT op db = (case fst (op db) of Inl e \<Rightarrow> Inl e | Inr a \<Rightarrow> Inr (a, snd (op db)))"
  by (auto simp: callT_def split: prod.splits sum.splits)

subsection \<open>Audit events\<close>

definition AppendAudit :: "drivers \<Rightarrow> SecurityAuditEvent \<Rightarrow> db \<Rightarrow> unit result \<times> db" where
  "AppendAudit D event = run_tx D (
     bindT (checkT (requireOwner (au_OwnerUserID event))) (\<lambda>_.
     bindT (liftT (CanonicalMetadataJSON (dr_marshal_map D) event)) (\<lambda>metadata.
     tx_create (dr_audit D) t_audit t_audit_update (auditToRow event metadata) classifyPersistence)))"

subsection \<open>Idempotency records\<close>

datatype IdempotencyReserveOutcome = IdempotencyAcquired | IdempotencyInProgress | IdempotencyReplay

record IdempotencyReservation =
  rv_Outcome :: IdempotencyReserveOutcome
  rv_Record :: IdempotencyRecord

definition idempotency_key :: "IdempotencyRecord \<Rightarrow> idempotencyRow \<Rightarrow> bool" where
  "idempotency_key record r \<longleftrightarrow>
     iw_OwnerUserID r = TrimSpace (id_OwnerUserID record) \<and> iw_TenantID r = TrimSpace (id_TenantID record) \<and>
     iw_ActorID r = TrimSpace (id_ActorID record) \<and> iw_Operation r = id_Operation record \<and>
     iw_Key r = id_Key record"

definition ReserveIdempotency :: "drivers \<Rightarrow> IdempotencyRecord \<Rightarrow> db \<Rightarrow> IdempotencyReservation result \<times> db" where
  "ReserveIdempotency D record = run_tx D (
     bindT (checkT (requireOwner (id_OwnerUserID record))) (\<lambda>_.
     bindT (guardT (id_Status record \<noteq> IdempotencyStatusInProgress) (problem CodeInvalidState)) (\<lambda>_.
     bindT (checkT (IdempotencyRecord_Validate (dr_json_valid D) record MaxIdempotencyResponseBytes)) (\<lambda>_.
     bindT (tx_create_ignore (dr_idempotency D) t_idempotency t_idempotency_update (idempotencyToRow record)
         classifyPersistence) (\<lambda>affected.
     if affected = 1 then returnT \<lparr>rv_Outcome = IdempotencyAcquired, rv_Record = record\<rparr>
     else
       bindT (tx_first (dr_idempotency D) t_idempotency (idempotency_key record) notFoundOr) (\<lambda>existing.
       bindT (liftT (idempotencyFromRow (dr_json_valid D) existing)) (\<lambda>value.
       bindT (guardT (id_RequestHash value \<noteq> id_RequestHash record) (problem CodeConflict)) (\<lambda>_.
       if id_Status value = IdempotencyStatusCompleted
       then returnT \<lparr>rv_Outcome = IdempotencyReplay, rv_Record = value\<rparr>
       else
         bindT (guardT (\<not> id_CreatedAt record < id_ExpiresAt value) (problem CodeExpired)) (\<lambda>_.
         returnT \<lparr>rv_Outcome = IdempotencyInProgress, rv_Record = value\<rparr>)))))))))"

definition completed_row :: "IdempotencyRecord \<Rightarrow> idempotencyRow \<Rightarrow> idempotencyRow \<Rightarrow> idempotencyRow" where
  "completed_row completed row r =
     r\<lparr>iw_Status := IdempotencyStatusCompleted, iw_HTTPStatus := id_HTTPStatus completed,
       iw_ResponseJSON := id_ResponseJSON completed, iw_ErrorCode := id_ErrorCode completed,
       iw_UpdatedAt := id_UpdatedAt completed, iw_RowVersion := iw_RowVersion row + 1\<rparr>"

definition CompleteIdempotency :: "drivers \<Rightarrow> IdempotencyRecord \<Rightarrow> db \<Rightarrow> IdempotencyRecord result \<times> db" where
  "CompleteIdempotency D completed = run_tx D (
     bindT (checkT (requireOwner (id_OwnerUserID completed))) (\<lambda>_.
     bindT (guardT (id_Status completed \<noteq> IdempotencyStatusCompleted) (problem CodeInvalidState)) (\<lambda>_.
     bindT (checkT (IdempotencyRecord_Validate (dr_json_valid D) completed MaxIdempotencyResponseBytes)) (\<lambda>_.
     bindT (tx_first (dr_idempotency D) t_idempotency
         (\<lambda>r. iw_ID r = ID_String (id_ID completed) \<and> idempotency_key completed r) notFoundOr) (\<lambda>row.
     bindT (liftT (idempotencyFromRow (dr_json_valid D) row)) (\<lambda>current.
     bindT (guardT (id_RequestHash current \<noteq> id_RequestHash completed) (problem CodeConflict)) (\<lambda>_.
     if id_Status current = IdempotencyStatusCompleted then
       (if id_HTTPStatus current = id_HTTPStatus completed \<and> id_ErrorCode current = id_ErrorCode completed \<and>
           id_ResponseJSON current = id_ResponseJSON completed
        then returnT current else failT (problem CodeConflict))
     else
       bindT (tx_updates (dr_idempotency D) t_idempotency t_idempotency_update
           (\<lambda>r. iw_ID r = iw_ID row \<and> iw_RowVersion r = iw_RowVersion row \<and> iw_Status r = IdempotencyStatusInProgress)
           (completed_row completed row) Wrap) (\<lambda>affected.
       bindT (guardT (affected \<noteq> 1) (problem CodeConflict)) (\<lambda>_.
       returnT (completed\<lparr>id_RowVersion := iw_RowVersion row + 1\<rparr>))))))))))"

subsection \<open>Sessions\<close>

definition CreateSession :: "drivers \<Rightarrow> Session \<Rightarrow> db \<Rightarrow> unit result \<times> db" where
  "CreateSession D session = run_tx D (
     bindT (guardT (IsZero (se_ID session) \<or> blank (se_OwnerUserID session)) (problem CodeInvalidArgument)) (\<lambda>_.
     bindT (mutateT (SessionRequest_Validate \<lparr>
         rq_ABAEndpointID = se_ABAEndpointID session, rq_HCEndpointID = se_HCEndpointID session,
         rq_RuntimeProfileID = se_RuntimeProfileID session, rq_WorkspaceID = se_WorkspaceID session,
         rq_RequestedCapabilities = se_RequestedCapabilities session\<rparr>)) (\<lambda>request.
     bindT (guardT (se_Status session \<noteq> SessionStatusCreating) (problem CodeInvalidState)) (\<lambda>_.
     bindT (liftT (sessionToRow (dr_marshal D)
         (session\<lparr>se_RequestedCapabilities := rq_RequestedCapabilities request\<rparr>))) (\<lambda>row.
     tx_create (dr_sessions D) t_sessions t_sessions_update row classifyPersistence)))))"

definition GetSession :: "drivers \<Rightarrow> ID \<Rightarrow> db \<Rightarrow> Session result \<times> db" where
  "GetSession D i = run_read (
     bindT (tx_first (dr_sessions D) t_sessions (\<lambda>r. sw_ID r = ID_String i) notFoundOr) (\<lambda>row.
     liftT (sessionFromRow (dr_unmarshal D) row)))"

text \<open>The columns an update of a session writes.\<close>

definition session_columns :: "Session \<Rightarrow> sessionRow \<Rightarrow> sessionRow" where
  "session_columns value r =
     r\<lparr>sw_Status := se_Status value, sw_CurrentKeyGeneration := se_CurrentKeyGeneration value,
       sw_LastActivityAt := se_LastActivityAt value, sw_ClosedAt := se_ClosedAt value,
       sw_UpdatedAt := se_UpdatedAt value, sw_RowVersion := se_RowVersion value\<rparr>"

definition UpdateSession ::
    "drivers \<Rightarrow> ID \<Rightarrow> (Session \<Rightarrow> go_error option \<times> Session) \<Rightarrow> db \<Rightarrow> Session result \<times> db" where
  "UpdateSession D i mutate = run_tx D (
     bindT (guardT (IsZero i) (problem CodeInvalidArgument)) (\<lambda>_.
     bindT (tx_first (dr_sessions D) t_sessions (\<lambda>r. sw_ID r = ID_String i) notFoundOr) (\<lambda>row.
     bindT (liftT (sessionFromRow (dr_unmarshal D) row)) (\<lambda>before.
     bindT (mutateT (mutate before)) (\<lambda>session.
     bindT (liftT (sessionToRow (dr_marshal D) session)) (\<lambda>next.
     bindT (tx_updates (dr_sessions D) t_sessions t_sessions_update
         (\<lambda>r. sw_ID r = sw_ID row \<and> sw_RowVersion r = se_RowVersion before)
         (session_columns session) classifyPersistence) (\<lambda>affected.
     bindT (guardT (affected \<noteq> 1) (problem CodeConflict)) (\<lambda>_.
     returnT session))))))))"

definition CloseSessionForOwner :: "drivers \<Rightarrow> ID \<Rightarrow> string \<Rightarrow> string \<Rightarrow> time \<Rightarrow> db \<Rightarrow> Session result \<times> db" where
  "CloseSessionForOwner D i owner0 tenant0 now = run_tx D (
     bindT (checkT (requireOwner owner0)) (\<lambda>_.
     bindT (guardT (IsZero i \<or> IsZeroTime now) (problem CodeInvalidArgument)) (\<lambda>_.
     let owner = TrimSpace owner0; tenant = TrimSpace tenant0 in
     bindT (tx_first (dr_sessions D) t_sessions
         (\<lambda>r. sw_ID r = ID_String i \<and> sw_OwnerUserID r = owner \<and> sw_TenantID r = tenant) notFoundOr) (\<lambda>row.
     bindT (liftT (sessionFromRow (dr_unmarshal D) row)) (\<lambda>before.
     bindT (mutateT (Session_Close now before)) (\<lambda>value.
     bindT (tx_updates (dr_sessions D) t_sessions t_sessions_update
         (\<lambda>r. sw_ID r = sw_ID row \<and> sw_OwnerUserID r = owner \<and> sw_TenantID r = tenant \<and>
              sw_RowVersion r = se_RowVersion before)
         (session_columns value) classifyPersistence) (\<lambda>affected.
     bindT (guardT (affected \<noteq> 1) (problem CodeConflict)) (\<lambda>_.
     returnT value))))))))"

subsection \<open>Sessions opened and closed by an endpoint\<close>

definition maxActiveSessionsPerABA :: nat where
  "maxActiveSessionsPerABA = 4"

definition active_session_statuses :: "SessionStatus list" where
  "active_session_statuses =
     [SessionStatusCreating, SessionStatusWaitingKey, SessionStatusActive, SessionStatusRekeyRequired,
      SessionStatusDraining, SessionStatusUncertain]"

definition lockSessionCreationEndpoint :: "drivers \<Rightarrow> ID \<Rightarrow> (db, endpointRow) tx" where
  "lockSessionCreationEndpoint D i =
     tx_first (dr_endpoints D) t_endpoints (\<lambda>r. er_ID r = ID_String i) notFoundOr"

definition authorizeAndCreateEndpointSession :: "drivers \<Rightarrow> Session \<Rightarrow> (db, unit) tx" where
  "authorizeAndCreateEndpointSession D session =
     bindT (lockSessionCreationEndpoint D (se_ABAEndpointID session)) (\<lambda>aba.
     bindT (lockSessionCreationEndpoint D (se_HCEndpointID session)) (\<lambda>hc.
     bindT (guardT (er_OwnerUserID aba \<noteq> TrimSpace (se_OwnerUserID session) \<or>
         er_TenantID aba \<noteq> TrimSpace (se_TenantID session) \<or>
         er_OwnerUserID hc \<noteq> TrimSpace (se_OwnerUserID session) \<or>
         er_TenantID hc \<noteq> TrimSpace (se_TenantID session)) (problem CodeNotFound)) (\<lambda>_.
     bindT (guardT (er_Type aba \<noteq> EndpointTypeABA \<or>
         er_Type hc \<noteq> EndpointTypeHCWeb \<and> er_Type hc \<noteq> EndpointTypeHCReference) (problem CodeSecurityViolation)) (\<lambda>_.
     bindT (guardT (er_Status aba \<noteq> EndpointStatusActive \<or> er_RevokedAt aba \<noteq> None \<or>
         er_Status hc \<noteq> EndpointStatusActive \<or> er_RevokedAt hc \<noteq> None) (problem CodeRevoked)) (\<lambda>_.
     bindT (tx_count (dr_sessions D) t_sessions
         (\<lambda>r. sw_ABAEndpointID r = er_ID aba \<and> sw_Status r \<in> set active_session_statuses) classifyPersistence) (\<lambda>active.
     bindT (guardT (active \<ge> maxActiveSessionsPerABA) (problem CodeResourceLimit)) (\<lambda>_.
     bindT (liftT (sessionToRow (dr_marshal D) session)) (\<lambda>row.
     tx_create (dr_sessions D) t_sessions t_sessions_update row classifyPersistence))))))))"

definition bytes_contains :: "byte list \<Rightarrow> byte list \<Rightarrow> bool" where
  "bytes_contains text part \<longleftrightarrow> part \<in> set (map (\<lambda>i. take (length part) (drop i text)) [0..<Suc (length text)])"

definition complete_record :: "IdempotencyRecord \<Rightarrow> int \<Rightarrow> byte list \<Rightarrow> time \<Rightarrow> IdempotencyRecord" where
  "complete_record reservation httpStatus responseJSON at =
     reservation\<lparr>id_Status := IdempotencyStatusCompleted, id_HTTPStatus := httpStatus,
       id_ResponseJSON := responseJSON, id_UpdatedAt := at\<rparr>"

definition CreateEndpointSession ::
    "drivers \<Rightarrow> Session \<Rightarrow> IdempotencyRecord \<Rightarrow> SecurityAuditEvent \<Rightarrow> int \<Rightarrow> byte list \<Rightarrow> db \<Rightarrow>
     (Session \<times> byte list \<times> bool) result \<times> db" where
  "CreateEndpointSession D session reservation audit httpStatus responseJSON = run_tx D (
     bindT (guardT (id_Status reservation \<noteq> IdempotencyStatusInProgress \<or>
         id_OwnerUserID reservation \<noteq> se_OwnerUserID session \<or> id_TenantID reservation \<noteq> se_TenantID session \<or>
         id_ActorID reservation \<noteq> ID_String (se_HCEndpointID session) \<or>
         au_OwnerUserID audit \<noteq> se_OwnerUserID session \<or> au_TenantID audit \<noteq> se_TenantID session \<or>
         au_ActorType audit \<noteq> AuditActorEndpoint \<or> au_ActorID audit \<noteq> ID_String (se_HCEndpointID session) \<or>
         au_ObjectType audit \<noteq> ''session'' \<or> au_ObjectID audit \<noteq> ID_String (se_ID session) \<or>
         httpStatus < 200 \<or> httpStatus > 299 \<or> length responseJSON = 0 \<or>
         \<not> bytes_contains responseJSON (map of_char (ID_String (se_ID session)))) (problem CodeInvalidArgument)) (\<lambda>_.
     bindT (callT (ReserveIdempotency D reservation)) (\<lambda>idempotency.
     case rv_Outcome idempotency of
       IdempotencyReplay \<Rightarrow> returnT (session, id_ResponseJSON (rv_Record idempotency), True)
     | IdempotencyInProgress \<Rightarrow> failT (problem CodeConflict)
     | IdempotencyAcquired \<Rightarrow>
         bindT (authorizeAndCreateEndpointSession D session) (\<lambda>_.
         bindT (callT (AppendAudit D audit)) (\<lambda>_.
         bindT (callT (CompleteIdempotency D
             (complete_record reservation httpStatus responseJSON (se_UpdatedAt session)))) (\<lambda>_.
         returnT (session, responseJSON, False)))))))"

definition endpointSessionCloseOperation :: string where
  "endpointSessionCloseOperation = ''endpoint.session.close''"

definition endpointSessionCloseAction :: string where
  "endpointSessionCloseAction = ''session.close''"

definition close_locked_session :: "drivers \<Rightarrow> Session \<Rightarrow> (db, Session) tx" where
  "close_locked_session D session =
     bindT (tx_first (dr_sessions D) t_sessions
         (\<lambda>r. sw_ID r = ID_String (se_ID session) \<and> sw_HCEndpointID r = ID_String (se_HCEndpointID session) \<and>
              sw_OwnerUserID r = se_OwnerUserID session \<and> sw_TenantID r = se_TenantID session) notFoundOr) (\<lambda>row.
     bindT (liftT (sessionFromRow (dr_unmarshal D) row)) (\<lambda>before.
     bindT (mutateT (Session_Close (se_UpdatedAt session) before)) (\<lambda>current.
     bindT (tx_updates (dr_sessions D) t_sessions t_sessions_update
         (\<lambda>r. sw_ID r = sw_ID row \<and> sw_RowVersion r = se_RowVersion before)
         (session_columns current) classifyPersistence) (\<lambda>affected.
     bindT (guardT (affected \<noteq> 1) (problem CodeConflict)) (\<lambda>_.
     returnT current)))))"

definition CloseEndpointSession ::
    "drivers \<Rightarrow> Session \<Rightarrow> IdempotencyRecord \<Rightarrow> SecurityAuditEvent \<Rightarrow> byte list \<Rightarrow> db \<Rightarrow>
     (Session \<times> byte list \<times> bool) result \<times> db" where
  "CloseEndpointSession D session reservation audit responseJSON = run_tx D (
     bindT (guardT (IsZero (se_ID session) \<or> IsZero (se_HCEndpointID session) \<or>
         id_Status reservation \<noteq> IdempotencyStatusInProgress \<or>
         id_Operation reservation \<noteq> endpointSessionCloseOperation \<or>
         id_OwnerUserID reservation \<noteq> se_OwnerUserID session \<or> id_TenantID reservation \<noteq> se_TenantID session \<or>
         id_ActorID reservation \<noteq> ID_String (se_HCEndpointID session) \<or>
         au_OwnerUserID audit \<noteq> se_OwnerUserID session \<or> au_TenantID audit \<noteq> se_TenantID session \<or>
         au_ActorType audit \<noteq> AuditActorEndpoint \<or> au_ActorID audit \<noteq> ID_String (se_HCEndpointID session) \<or>
         au_Action audit \<noteq> endpointSessionCloseAction \<or> au_ObjectType audit \<noteq> ''session'' \<or>
         au_ObjectID audit \<noteq> ID_String (se_ID session) \<or> length responseJSON = 0 \<or>
         \<not> bytes_contains responseJSON (map of_char (ID_String (se_ID session))) \<or>
         \<not> bytes_contains responseJSON (map of_char ([CHR 0x22] @ ''status'' @ [CHR 0x22] @ '':'' @ [CHR 0x22] @ ''CLOSED'' @ [CHR 0x22])))
         (problem CodeInvalidArgument)) (\<lambda>_.
     bindT (callT (ReserveIdempotency D reservation)) (\<lambda>idempotency.
     case rv_Outcome idempotency of
       IdempotencyReplay \<Rightarrow> returnT (session, id_ResponseJSON (rv_Record idempotency), True)
     | IdempotencyInProgress \<Rightarrow> failT (problem CodeConflict)
     | IdempotencyAcquired \<Rightarrow>
         bindT (close_locked_session D session) (\<lambda>current.
         bindT (callT (AppendAudit D audit)) (\<lambda>_.
         bindT (callT (CompleteIdempotency D
             (complete_record reservation 200 responseJSON (se_UpdatedAt session)))) (\<lambda>_.
         returnT (current, responseJSON, False)))))))"

subsection \<open>What a successful call has done\<close>

lemma idempotencyFromRow_fields: "idempotencyFromRow jv row = Inr v \<Longrightarrow>
    parseHash (iw_RequestHash row) = Inr (id_RequestHash v) \<and> id_Status v = iw_Status row \<and>
    id_ResponseJSON v = iw_ResponseJSON row \<and> id_HTTPStatus v = iw_HTTPStatus row \<and> id_ErrorCode v = iw_ErrorCode row"
  by (auto simp: idempotencyFromRow_def bindE_Inr_iff Let_def split: option.splits)

lemma sessionFromRow_fields: "sessionFromRow un row = Inr v \<Longrightarrow>
    se_Status v = sw_Status row \<and> se_RowVersion v = sw_RowVersion row \<and> parseID (sw_ID row) = Inr (se_ID v)"
  by (auto simp: sessionFromRow_def bindE_Inr_iff)

lemma AppendAudit_InrD:
  assumes "database_laws D" "AppendAudit D event db = (Inr u, db')"
  shows "\<exists>t. db' = db\<lparr>t_audit := t\<rparr>"
  using run_tx_success [OF assms(2) [unfolded AppendAudit_def]]
  by (auto simp: tx_Inr dest!: sql_table.tx_createD [OF database_lawsD(9) [OF assms(1)]])

lemma ReserveIdempotency_cases [consumes 2, case_names acquired existing]:
  assumes laws: "database_laws D" and ok: "ReserveIdempotency D rec db = (Inr v, db')"
  obtains "rv_Outcome v = IdempotencyAcquired" "db' = db\<lparr>t_idempotency := t_idempotency db @ [idempotencyToRow rec]\<rparr>"
      "\<forall>x \<in> set (t_idempotency db). \<not> idempotency_clash (idempotencyToRow rec) x"
  | row where "row \<in> set (t_idempotency db)" "idempotency_key rec row" "db' = db"
      "idempotencyFromRow (dr_json_valid D) row = Inr (rv_Record v)" "id_RequestHash (rv_Record v) = id_RequestHash rec"
      "rv_Outcome v = (if iw_Status row = IdempotencyStatusCompleted then IdempotencyReplay else IdempotencyInProgress)"
proof -
  note law = database_lawsD(10) [OF laws]
  obtain n db1 where ins: "tx_create_ignore (dr_idempotency D) t_idempotency t_idempotency_update
      (idempotencyToRow rec) classifyPersistence db = Inr (n, db1)"
    and rest: "n = 1 \<and> v = \<lparr>rv_Outcome = IdempotencyAcquired, rv_Record = rec\<rparr> \<and> db' = db1 \<or>
      n \<noteq> 1 \<and> (\<exists>row value. tx_first (dr_idempotency D) t_idempotency (idempotency_key rec) notFoundOr db1 = Inr (row, db1) \<and>
        idempotencyFromRow (dr_json_valid D) row = Inr value \<and> id_RequestHash value = id_RequestHash rec \<and> db' = db1 \<and>
        v = \<lparr>rv_Outcome = (if id_Status value = IdempotencyStatusCompleted then IdempotencyReplay else IdempotencyInProgress),
             rv_Record = value\<rparr>)"
    using run_tx_success [OF ok [unfolded ReserveIdempotency_def]]
    by (auto simp: tx_Inr tx_first_Inr split: if_splits)
  show ?thesis
  proof (cases "n = 1")
    case True
    with rest sql_table.tx_create_ignoreD [OF law ins] show ?thesis
      by (intro that(1)) (auto split: if_splits)
  next
    case False
    with rest obtain row stored where row: "tx_first (dr_idempotency D) t_idempotency (idempotency_key rec) notFoundOr db1 = Inr (row, db1)"
        "idempotencyFromRow (dr_json_valid D) row = Inr stored" "id_RequestHash stored = id_RequestHash rec" "db' = db1"
        "v = \<lparr>rv_Outcome = (if id_Status stored = IdempotencyStatusCompleted then IdempotencyReplay else IdempotencyInProgress),
             rv_Record = stored\<rparr>" by auto
    have "db1 = db"
      using False sql_table.tx_create_ignoreD [OF law ins] by (auto split: if_splits)
    with row sql_table.tx_firstD [OF law row(1)] idempotencyFromRow_fields [OF row(2)] show ?thesis
      by (intro that(2) [of row]) simp_all
  qed
qed

lemma CompleteIdempotency_cases [consumes 2, case_names same completed]:
  assumes laws: "database_laws D" and ok: "CompleteIdempotency D rec db = (Inr v, db')"
  obtains row where "row \<in> set (t_idempotency db)" "idempotency_key rec row" "db' = db"
      "parseHash (iw_RequestHash row) = Inr (id_RequestHash rec)" "iw_Status row = IdempotencyStatusCompleted"
      "iw_ResponseJSON row = id_ResponseJSON rec"
  | row r where "row \<in> set (t_idempotency db)" "idempotency_key rec row" "r \<in> set (t_idempotency db)"
      "iw_ID r = iw_ID row" "iw_RowVersion r = iw_RowVersion row" "iw_Status r = IdempotencyStatusInProgress"
      "parseHash (iw_RequestHash row) = Inr (id_RequestHash rec)"
      "db' = db\<lparr>t_idempotency := update_rows
         (\<lambda>r. iw_ID r = iw_ID row \<and> iw_RowVersion r = iw_RowVersion row \<and> iw_Status r = IdempotencyStatusInProgress)
         (completed_row rec row) (t_idempotency db)\<rparr>"
proof -
  note law = database_lawsD(10) [OF laws]
  obtain row current where row: "tx_first (dr_idempotency D) t_idempotency
        (\<lambda>r. iw_ID r = ID_String (id_ID rec) \<and> idempotency_key rec r) notFoundOr db = Inr (row, db)"
      "idempotencyFromRow (dr_json_valid D) row = Inr current" "id_RequestHash current = id_RequestHash rec"
    and rest: "id_Status current = IdempotencyStatusCompleted \<and> id_ResponseJSON current = id_ResponseJSON rec \<and> db' = db \<or>
      (\<exists>n. n = 1 \<and> tx_updates (dr_idempotency D) t_idempotency t_idempotency_update
        (\<lambda>r. iw_ID r = iw_ID row \<and> iw_RowVersion r = iw_RowVersion row \<and> iw_Status r = IdempotencyStatusInProgress)
        (completed_row rec row) Wrap db = Inr (n, db'))"
    using run_tx_success [OF ok [unfolded CompleteIdempotency_def]]
    by (auto simp: tx_Inr tx_first_Inr split: if_splits)
  note facts = sql_table.tx_firstD [OF law row(1)] idempotencyFromRow_fields [OF row(2)] row(3)
  from rest show ?thesis
  proof
    assume "id_Status current = IdempotencyStatusCompleted \<and> id_ResponseJSON current = id_ResponseJSON rec \<and> db' = db"
    with facts show ?thesis by (intro that(1) [of row]) auto
  next
    assume "\<exists>n. n = 1 \<and> tx_updates (dr_idempotency D) t_idempotency t_idempotency_update
        (\<lambda>r. iw_ID r = iw_ID row \<and> iw_RowVersion r = iw_RowVersion row \<and> iw_Status r = IdempotencyStatusInProgress)
        (completed_row rec row) Wrap db = Inr (n, db')"
    then obtain n where n: "n = 1" and u: "tx_updates (dr_idempotency D) t_idempotency t_idempotency_update
        (\<lambda>r. iw_ID r = iw_ID row \<and> iw_RowVersion r = iw_RowVersion row \<and> iw_Status r = IdempotencyStatusInProgress)
        (completed_row rec row) Wrap db = Inr (n, db')" by blast
    note upd = sql_table.tx_updatesD [OF law u]
    have "0 < n" by (simp add: n)
    from matched_row [OF upd [THEN conjunct2, symmetric] this] obtain r where
        "r \<in> set (t_idempotency db)" "iw_ID r = iw_ID row" "iw_RowVersion r = iw_RowVersion row"
        "iw_Status r = IdempotencyStatusInProgress" by blast
    with facts upd show ?thesis by (intro that(2) [of row r]) simp_all
  qed
qed

subsection \<open>Two endpoints and a session on which the theorems are run\<close>

definition open_db :: db where
  "open_db = empty_db\<lparr>t_endpoints := [endpointToRow (sample_endpoint jktB jktA), endpointToRow hc_endpoint]\<rparr>"

lemma aba_endpoint_row [simp]:
  "er_ID (endpointToRow (sample_endpoint jktB jktA)) = ID_String (sample_id 1)"
  "er_OwnerUserID (endpointToRow (sample_endpoint jktB jktA)) = ''u1''"
  "er_TenantID (endpointToRow (sample_endpoint jktB jktA)) = []"
  "er_Type (endpointToRow (sample_endpoint jktB jktA)) = EndpointTypeABA"
  "er_Status (endpointToRow (sample_endpoint jktB jktA)) = EndpointStatusActive"
  "er_RevokedAt (endpointToRow (sample_endpoint jktB jktA)) = None"
  by (simp_all add: endpointToRow_def sample_endpoint_def)

lemma sample_session_to_row:
  "sessionToRow (dr_marshal reference_drivers) sample_session = Inr (sample_session_row SessionStatusCreating)"
  by (simp add: sample_session_def sessionToRow_def reference_drivers_def sample_session_row_def)

lemma sample_session_simps [simp]:
  "se_ABAEndpointID sample_session = sample_id 1" "se_HCEndpointID sample_session = sample_id 2" "se_OwnerUserID sample_session = ''u1''"
  "se_TenantID sample_session = []" "se_ID sample_session = sample_id 7" "se_UpdatedAt sample_session = 1" "se_Status sample_session = SessionStatusCreating"
  by (simp_all add: sample_session_def)

lemma hc_endpoint_row_open [simp]: "er_RevokedAt (endpointToRow hc_endpoint) = None" "er_Type (endpointToRow hc_endpoint) = EndpointTypeHCWeb"
  by (simp_all add: endpointToRow_def sample_endpoint_def hc_endpoint_def)

end
