(* ===== verification/Store_Session_Safety.thy ===== *)
theory Store_Session_Safety
  imports Store_Sessions
begin

section \<open>Histories of session requests\<close>

text \<open>
  Arbitrary sequences of the operations on sessions and idempotency records, each with its own
  database failures.  A repeated request with the same idempotency key never acts a second time,
  and an ABA endpoint never has more open sessions than its limit.
\<close>

subsection \<open>Opening and closing a session\<close>

text \<open>Every mutation the platform passes to \<open>UpdateSession\<close> is a life-cycle operation, or leaves the session alone.\<close>

definition life_cycle :: "(Session \<Rightarrow> go_error option \<times> Session) \<Rightarrow> bool" where
  "life_cycle mutate \<longleftrightarrow> (\<forall>s s'. mutate s = (None, s') \<longrightarrow>
     s' = s \<or> session_edge (se_Status s) (se_Status s'))"

lemma life_cycle_step: "life_cycle (session_step c)"
  unfolding life_cycle_def using session_life.step_edge by (metis snd_conv)

lemma life_cycle_unless: "life_cycle (\<lambda>s. if p s then (None, s) else session_step c s)"
  using life_cycle_step unfolding life_cycle_def by auto

inductive session_history :: "db \<Rightarrow> db \<Rightarrow> bool" where
  create: "database_laws D \<Longrightarrow> se_Status s = SessionStatusCreating \<Longrightarrow>
     CreateEndpointSession D s res au status response db = (r, db') \<Longrightarrow> session_history db db'"
| close: "database_laws D \<Longrightarrow> CloseEndpointSession D s res au response db = (r, db') \<Longrightarrow> session_history db db'"
| close_owner: "database_laws D \<Longrightarrow> CloseSessionForOwner D i owner tenant now db = (r', db') \<Longrightarrow> session_history db db'"
| update: "database_laws D \<Longrightarrow> life_cycle mutate \<Longrightarrow> UpdateSession D i mutate db = (r', db') \<Longrightarrow> session_history db db'"
| revoke: "database_laws D \<Longrightarrow> RevokeEndpointForOwner D i owner tenant now db = (r'', db') \<Longrightarrow> session_history db db'"
| reserve: "database_laws D \<Longrightarrow> ReserveIdempotency D res db = (rv, db') \<Longrightarrow> session_history db db'"
| complete: "database_laws D \<Longrightarrow> CompleteIdempotency D res db = (rc, db') \<Longrightarrow> session_history db db'"
| audit: "database_laws D \<Longrightarrow> AppendAudit D au db = (ra, db') \<Longrightarrow> session_history db db'"

text \<open>The session a call creates, and the bound it was checked against.\<close>

definition open_sessions :: "string \<Rightarrow> db \<Rightarrow> nat" where
  "open_sessions a db =
     length (filter (\<lambda>r. sw_ABAEndpointID r = a \<and> sw_Status r \<in> set active_session_statuses) (t_sessions db))"

lemma sessionToRow_fields: "sessionToRow m s = Inr row \<Longrightarrow>
    sw_ID row = ID_String (se_ID s) \<and> sw_ABAEndpointID row = ID_String (se_ABAEndpointID s) \<and> sw_Status row = se_Status s"
  by (auto simp: sessionToRow_def split: sum.splits)

lemma authorizeAndCreate_InrD:
  assumes laws: "database_laws D" and ok: "authorizeAndCreateEndpointSession D s db = Inr (u, db')"
  obtains row where "sessionToRow (dr_marshal D) s = Inr row" "db' = db\<lparr>t_sessions := t_sessions db @ [row]\<rparr>"
    "open_sessions (sw_ABAEndpointID row) db < maxActiveSessionsPerABA" "\<forall>x \<in> set (t_sessions db). sw_ID x \<noteq> sw_ID row"
proof -
  obtain aba hc n row where aba: "tx_first (dr_endpoints D) t_endpoints
        (\<lambda>r. er_ID r = ID_String (se_ABAEndpointID s)) notFoundOr db = Inr (aba, db)"
    and cnt: "tx_count (dr_sessions D) t_sessions
        (\<lambda>r. sw_ABAEndpointID r = er_ID aba \<and> sw_Status r \<in> set active_session_statuses) classifyPersistence db = Inr (n, db)"
      "\<not> n \<ge> maxActiveSessionsPerABA"
    and row: "sessionToRow (dr_marshal D) s = Inr row"
      "tx_create (dr_sessions D) t_sessions t_sessions_update row classifyPersistence db = Inr (u, db')"
    using ok unfolding authorizeAndCreateEndpointSession_def lockSessionCreationEndpoint_def
    by (auto simp: tx_Inr tx_first_Inr tx_count_Inr)
  from sql_table.tx_firstD [OF database_lawsD(1) [OF laws] aba] sql_table.tx_countD [OF database_lawsD(4) [OF laws] cnt(1)]
    sql_table.tx_createD [OF database_lawsD(4) [OF laws] row(2)] cnt(2) row(1) sessionToRow_fields [OF row(1)]
  show ?thesis
    by (intro that [of row]) (auto simp: open_sessions_def session_clash_def)
qed

subsection \<open>How the two tables change\<close>

inductive idempotency_change :: "idempotencyRow list \<Rightarrow> idempotencyRow list \<Rightarrow> bool" where
  add: "\<forall>x \<in> set t. \<not> idempotency_clash row x \<Longrightarrow> idempotency_change t (t @ [row])"
| finish: "(\<And>r. p r \<Longrightarrow> iw_Status r = IdempotencyStatusInProgress) \<Longrightarrow>
     idempotency_change t (update_rows p (completed_row rec row) t)"

inductive session_change :: "sessionRow list \<Rightarrow> sessionRow list \<Rightarrow> bool" where
  add: "\<forall>x \<in> set t. sw_ID x \<noteq> sw_ID row \<Longrightarrow> sw_Status row = SessionStatusCreating \<Longrightarrow>
     length (filter (\<lambda>r. sw_ABAEndpointID r = sw_ABAEndpointID row \<and> sw_Status r \<in> set active_session_statuses) t)
       < maxActiveSessionsPerABA \<Longrightarrow>
     session_change t (t @ [row])"
| move: "row \<in> set t \<Longrightarrow> (\<And>r. p r \<Longrightarrow> sw_ID r = sw_ID row) \<Longrightarrow>
     se_Status v = sw_Status row \<or> session_edge (sw_Status row) (se_Status v) \<Longrightarrow>
     session_change t (update_rows p (session_columns v) t)"
| cut: "(\<And>r. p r \<Longrightarrow> sw_Status r \<notin> {SessionStatusClosed, SessionStatusABARevoked, SessionStatusFailed}) \<Longrightarrow>
     session_change t (update_rows p (revocation_session_update ty now) t)"

lemma ReserveIdempotency_change:
  assumes "database_laws D" "ReserveIdempotency D rec db = (Inr v, db')"
  shows "db' = db \<or> (\<exists>t. db' = db\<lparr>t_idempotency := t\<rparr> \<and> idempotency_change (t_idempotency db) t)"
  using assms
proof (cases rule: ReserveIdempotency_cases)
  case acquired
  then show ?thesis by (auto intro: idempotency_change.add)
qed auto

lemma CompleteIdempotency_change:
  assumes "database_laws D" "CompleteIdempotency D rec db = (Inr v, db')"
  shows "db' = db \<or> (\<exists>t. db' = db\<lparr>t_idempotency := t\<rparr> \<and> idempotency_change (t_idempotency db) t)"
  using assms
proof (cases rule: CompleteIdempotency_cases)
  case (completed row r)
  then show ?thesis by (auto intro: idempotency_change.finish)
qed auto

lemma Session_Close_edge: "Session_Close now s = (None, s') \<Longrightarrow> s' = s \<or> session_edge (se_Status s) (se_Status s')"
  using session_life.step_edge [of "SeClose now" s] by simp

text \<open>The update of one session row that three operations share.\<close>

lemma session_row_moved:
  assumes laws: "database_laws D"
    and row: "tx_first (dr_sessions D) t_sessions q err db = Inr (row, db)" "sessionFromRow un row = Inr before"
    and v: "v = before \<or> session_edge (se_Status before) (se_Status v)"
    and u: "tx_updates (dr_sessions D) t_sessions t_sessions_update p (session_columns v) err' db = Inr (n, db')"
    and p: "\<And>r. p r \<Longrightarrow> sw_ID r = sw_ID row"
  shows "\<exists>t. db' = db\<lparr>t_sessions := t\<rparr> \<and> session_change (t_sessions db) t"
proof -
  note law = database_lawsD(4) [OF laws]
  have "row \<in> set (t_sessions db)" using sql_table.tx_firstD [OF law row(1)] by simp
  moreover have "se_Status v = sw_Status row \<or> session_edge (sw_Status row) (se_Status v)"
    using v sessionFromRow_fields [OF row(2)] by auto
  ultimately show ?thesis
    using sql_table.tx_updatesD [OF law u] p by (auto intro!: session_change.move)
qed

lemma CloseSessionForOwner_change:
  assumes laws: "database_laws D" and ok: "CloseSessionForOwner D i owner tenant now db = (Inr v, db')"
  shows "\<exists>t. db' = db\<lparr>t_sessions := t\<rparr> \<and> session_change (t_sessions db) t"
proof -
  obtain row before n q p where row: "tx_first (dr_sessions D) t_sessions q notFoundOr db = Inr (row, db)"
      "sessionFromRow (dr_unmarshal D) row = Inr before" "Session_Close now before = (None, v)"
      "tx_updates (dr_sessions D) t_sessions t_sessions_update p (session_columns v) classifyPersistence db = Inr (n, db')"
      "\<And>r. p r \<Longrightarrow> sw_ID r = sw_ID row"
    using run_tx_success [OF ok [unfolded CloseSessionForOwner_def]]
    by (fastforce simp: tx_Inr tx_first_Inr Let_def)
  show ?thesis
    by (rule session_row_moved [OF laws row(1,2) Session_Close_edge [OF row(3)] row(4,5)])
qed

lemma UpdateSession_change:
  assumes laws: "database_laws D" and life: "life_cycle mutate" and ok: "UpdateSession D i mutate db = (Inr v, db')"
  shows "\<exists>t. db' = db\<lparr>t_sessions := t\<rparr> \<and> session_change (t_sessions db) t"
proof -
  obtain row before n q p where row: "tx_first (dr_sessions D) t_sessions q notFoundOr db = Inr (row, db)"
      "sessionFromRow (dr_unmarshal D) row = Inr before" "mutate before = (None, v)"
      "tx_updates (dr_sessions D) t_sessions t_sessions_update p (session_columns v) classifyPersistence db = Inr (n, db')"
      "\<And>r. p r \<Longrightarrow> sw_ID r = sw_ID row"
    using run_tx_success [OF ok [unfolded UpdateSession_def]]
    by (fastforce simp: tx_Inr tx_first_Inr)
  have "v = before \<or> session_edge (se_Status before) (se_Status v)"
    using life row(3) unfolding life_cycle_def by blast
  then show ?thesis
    by (rule session_row_moved [OF laws row(1,2) _ row(4,5)])
qed

lemma RevokeEndpointForOwner_change:
  assumes laws: "database_laws D" and ok: "RevokeEndpointForOwner D i owner tenant now db = (Inr v, db')"
  shows "t_idempotency db' = t_idempotency db \<and> session_change (t_sessions db) (t_sessions db')"
proof -
  obtain row :: endpointRow and endpoint :: Endpoint and locked :: "sessionRow list" where
      db': "db' = sessions_revoked (TrimSpace owner) (TrimSpace tenant) (ep_Type endpoint) (er_ID row) now
        (map sw_ID (filter (\<lambda>s. session_column (ep_Type endpoint) s = er_ID row) locked))
        (secrets_revoked (er_ID row) now (endpoint_row_revoked
          (\<lambda>r. er_ID r = er_ID row \<and> er_OwnerUserID r = TrimSpace owner \<and> er_TenantID r = TrimSpace tenant \<and>
               er_RowVersion r = ep_RowVersion endpoint) v db))"
    by (rule RevokeEndpointForOwner_InrD [OF laws ok]) (erule that)
  show ?thesis
    unfolding db' by (simp add: sessions_revoked_def secrets_revoked_def endpoint_row_revoked_def) (rule session_change.cut, auto)
qed

text \<open>A call either answers from a completed record or acts and completes its own record.\<close>

lemma CreateEndpointSession_cases [consumes 2, case_names replay fresh]:
  assumes laws: "database_laws D" and ok: "CreateEndpointSession D s res au status response db = (Inr (s', out, replayed), db')"
  obtains v where "replayed" "ReserveIdempotency D res db = (Inr v, db')" "rv_Outcome v = IdempotencyReplay"
      "out = id_ResponseJSON (rv_Record v)"
  | v row db1 db2 db3 c u where "\<not> replayed" "out = response" "s' = s" "ReserveIdempotency D res db = (Inr v, db1)"
      "rv_Outcome v = IdempotencyAcquired" "sessionToRow (dr_marshal D) s = Inr row"
      "db2 = db1\<lparr>t_sessions := t_sessions db1 @ [row]\<rparr>"
      "open_sessions (sw_ABAEndpointID row) db1 < maxActiveSessionsPerABA" "\<forall>x \<in> set (t_sessions db1). sw_ID x \<noteq> sw_ID row"
      "AppendAudit D au db2 = (Inr u, db3)"
      "CompleteIdempotency D (complete_record res status response (se_UpdatedAt s)) db3 = (Inr c, db')"
proof -
  obtain v db1 where v: "ReserveIdempotency D res db = (Inr v, db1)"
    and rest: "(case rv_Outcome v of
       IdempotencyReplay \<Rightarrow> returnT (s, id_ResponseJSON (rv_Record v), True)
     | IdempotencyInProgress \<Rightarrow> failT (problem CodeConflict)
     | IdempotencyAcquired \<Rightarrow>
         bindT (authorizeAndCreateEndpointSession D s) (\<lambda>_.
         bindT (callT (AppendAudit D au)) (\<lambda>_.
         bindT (callT (CompleteIdempotency D (complete_record res status response (se_UpdatedAt s)))) (\<lambda>_.
         returnT (s, response, False))))) db1 = Inr ((s', out, replayed), db')"
    using run_tx_success [OF ok [unfolded CreateEndpointSession_def]]
    unfolding bindT_Inr callT_Inr guardT_Inr by blast
  show ?thesis
  proof (cases "rv_Outcome v")
    case IdempotencyAcquired
    with rest obtain db2 db3 u c where
      auth: "authorizeAndCreateEndpointSession D s db1 = Inr ((), db2)" and
      tail: "AppendAudit D au db2 = (Inr u, db3)"
        "CompleteIdempotency D (complete_record res status response (se_UpdatedAt s)) db3 = (Inr c, db')"
        "\<not> replayed" "out = response" "s' = s"
      by (auto simp: bindT_Inr callT_Inr returnT_Inr)
    obtain row where "sessionToRow (dr_marshal D) s = Inr row" "db2 = db1\<lparr>t_sessions := t_sessions db1 @ [row]\<rparr>"
      "open_sessions (sw_ABAEndpointID row) db1 < maxActiveSessionsPerABA" "\<forall>x \<in> set (t_sessions db1). sw_ID x \<noteq> sw_ID row"
      by (rule authorizeAndCreate_InrD [OF laws auth]) (rule that)
    with v IdempotencyAcquired tail show ?thesis by (intro that(2))
  next
    case IdempotencyInProgress
    with rest show ?thesis by (simp add: failT_Inr)
  next
    case IdempotencyReplay
    with rest v show ?thesis by (intro that(1) [of v]) (simp_all add: returnT_Inr)
  qed
qed

lemma close_locked_session_change:
  assumes laws: "database_laws D" and ok: "close_locked_session D s db = Inr (v, db')"
  shows "\<exists>t. db' = db\<lparr>t_sessions := t\<rparr> \<and> session_change (t_sessions db) t"
proof -
  obtain row before n q p where row: "tx_first (dr_sessions D) t_sessions q notFoundOr db = Inr (row, db)"
      "sessionFromRow (dr_unmarshal D) row = Inr before" "Session_Close (se_UpdatedAt s) before = (None, v)"
      "tx_updates (dr_sessions D) t_sessions t_sessions_update p (session_columns v) classifyPersistence db = Inr (n, db')"
      "\<And>r. p r \<Longrightarrow> sw_ID r = sw_ID row"
    using ok unfolding close_locked_session_def by (fastforce simp: tx_Inr tx_first_Inr)
  show ?thesis
    by (rule session_row_moved [OF laws row(1,2) Session_Close_edge [OF row(3)] row(4,5)])
qed

lemma CloseEndpointSession_cases [consumes 2, case_names replay fresh]:
  assumes laws: "database_laws D" and ok: "CloseEndpointSession D s res au response db = (Inr (s', out, replayed), db')"
  obtains v where "replayed" "ReserveIdempotency D res db = (Inr v, db')" "rv_Outcome v = IdempotencyReplay"
      "out = id_ResponseJSON (rv_Record v)"
  | v t db1 db3 c u where "\<not> replayed" "out = response" "ReserveIdempotency D res db = (Inr v, db1)"
      "rv_Outcome v = IdempotencyAcquired" "session_change (t_sessions db1) t"
      "AppendAudit D au (db1\<lparr>t_sessions := t\<rparr>) = (Inr u, db3)"
      "CompleteIdempotency D (complete_record res 200 response (se_UpdatedAt s)) db3 = (Inr c, db')"
proof -
  obtain v db1 where v: "ReserveIdempotency D res db = (Inr v, db1)"
    and rest: "(case rv_Outcome v of
       IdempotencyReplay \<Rightarrow> returnT (s, id_ResponseJSON (rv_Record v), True)
     | IdempotencyInProgress \<Rightarrow> failT (problem CodeConflict)
     | IdempotencyAcquired \<Rightarrow>
         bindT (close_locked_session D s) (\<lambda>current.
         bindT (callT (AppendAudit D au)) (\<lambda>_.
         bindT (callT (CompleteIdempotency D (complete_record res 200 response (se_UpdatedAt s)))) (\<lambda>_.
         returnT (current, response, False))))) db1 = Inr ((s', out, replayed), db')"
    using run_tx_success [OF ok [unfolded CloseEndpointSession_def]]
    unfolding bindT_Inr callT_Inr guardT_Inr by blast
  show ?thesis
  proof (cases "rv_Outcome v")
    case IdempotencyAcquired
    with rest obtain db2 db3 u c where
      moved: "close_locked_session D s db1 = Inr (s', db2)" and
      tail: "AppendAudit D au db2 = (Inr u, db3)"
        "CompleteIdempotency D (complete_record res 200 response (se_UpdatedAt s)) db3 = (Inr c, db')"
        "\<not> replayed" "out = response"
      by (auto simp: bindT_Inr callT_Inr returnT_Inr)
    from close_locked_session_change [OF laws moved] obtain t where
      "db2 = db1\<lparr>t_sessions := t\<rparr>" "session_change (t_sessions db1) t" by blast
    with v IdempotencyAcquired tail show ?thesis by (intro that(2) [of v db1 t u db3 c]) simp_all
  next
    case IdempotencyInProgress
    with rest show ?thesis by (simp add: failT_Inr)
  next
    case IdempotencyReplay
    with rest v show ?thesis by (intro that(1) [of v]) (simp_all add: returnT_Inr)
  qed
qed

subsection \<open>Every history is made of these changes\<close>

abbreviation both_change :: "db \<Rightarrow> db \<Rightarrow> bool" where
  "both_change db db' \<equiv> session_change\<^sup>*\<^sup>* (t_sessions db) (t_sessions db') \<and>
     idempotency_change\<^sup>*\<^sup>* (t_idempotency db) (t_idempotency db')"

lemma CreateEndpointSession_change:
  assumes laws: "database_laws D" and st: "se_Status s = SessionStatusCreating"
    and ok: "CreateEndpointSession D s res au status response db = (Inr out, db')"
  shows "both_change db db'"
proof -
  obtain s' o' replayed where out: "out = (s', o', replayed)" by (cases out)
  from laws ok [unfolded out] show ?thesis
  proof (cases rule: CreateEndpointSession_cases)
    case (replay v)
    with ReserveIdempotency_change [OF laws replay(2)] show ?thesis by (auto simp: r_into_rtranclp)
  next
    case (fresh v row db1 db2 db3 c u)
    have "session_change (t_sessions db1) (t_sessions db1 @ [row])"
      using fresh(6,8,9) st sessionToRow_fields [OF fresh(6)] by (intro session_change.add) (simp_all add: open_sessions_def)
    moreover have "t_sessions db1 = t_sessions db" "idempotency_change\<^sup>*\<^sup>* (t_idempotency db) (t_idempotency db1)"
      using ReserveIdempotency_change [OF laws fresh(4)] by (auto simp: r_into_rtranclp)
    moreover have "t_sessions db3 = t_sessions db1 @ [row]" "t_idempotency db3 = t_idempotency db1"
      using AppendAudit_InrD [OF laws fresh(10)] fresh(7) by auto
    ultimately show ?thesis
      using CompleteIdempotency_change [OF laws fresh(11)] by (auto intro: rtranclp.rtrancl_into_rtrancl)
  qed
qed

lemma CloseEndpointSession_change:
  assumes laws: "database_laws D" and ok: "CloseEndpointSession D s res au response db = (Inr out, db')"
  shows "both_change db db'"
proof -
  obtain s' o' replayed where out: "out = (s', o', replayed)" by (cases out)
  from laws ok [unfolded out] show ?thesis
  proof (cases rule: CloseEndpointSession_cases)
    case (replay v)
    with ReserveIdempotency_change [OF laws replay(2)] show ?thesis by (auto simp: r_into_rtranclp)
  next
    case (fresh v t db1 db3 c u)
    have "t_sessions db1 = t_sessions db" "idempotency_change\<^sup>*\<^sup>* (t_idempotency db) (t_idempotency db1)"
      using ReserveIdempotency_change [OF laws fresh(3)] by (auto simp: r_into_rtranclp)
    moreover have "t_sessions db3 = t" "t_idempotency db3 = t_idempotency db1"
      using AppendAudit_InrD [OF laws fresh(6)] by auto
    ultimately show ?thesis
      using CompleteIdempotency_change [OF laws fresh(7)] fresh(5) by (auto intro: rtranclp.rtrancl_into_rtrancl)
  qed
qed

text \<open>A failing call changes nothing.\<close>

lemma session_errors:
  "CreateEndpointSession D s res au status response db = (Inl e, db') \<Longrightarrow> db' = db"
  "CloseEndpointSession D s res au response db = (Inl e, db') \<Longrightarrow> db' = db"
  "CloseSessionForOwner D i owner tenant now db = (Inl e, db') \<Longrightarrow> db' = db"
  "UpdateSession D i mutate db = (Inl e, db') \<Longrightarrow> db' = db"
  "RevokeEndpointForOwner D i owner tenant now db = (Inl e, db') \<Longrightarrow> db' = db"
  "ReserveIdempotency D res db = (Inl e, db') \<Longrightarrow> db' = db"
  "CompleteIdempotency D res db = (Inl e, db') \<Longrightarrow> db' = db"
  "AppendAudit D au db = (Inl e, db') \<Longrightarrow> db' = db"
  unfolding CreateEndpointSession_def CloseEndpointSession_def CloseSessionForOwner_def UpdateSession_def
    RevokeEndpointForOwner_def ReserveIdempotency_def CompleteIdempotency_def AppendAudit_def
  by (erule run_tx_error run_tx_normalized_error)+

lemma session_history_change: "session_history db db' \<Longrightarrow> both_change db db'"
proof (induction rule: session_history.induct)
  case (create D s res au status response db r db')
  show ?case
  proof (cases r)
    case (Inr out)
    show ?thesis by (rule CreateEndpointSession_change [OF create(1,2) create(3) [unfolded Inr]])
  qed (use create(3) in \<open>auto dest: session_errors(1)\<close>)
next
  case (close D s res au response db r db')
  show ?case
  proof (cases r)
    case (Inr out)
    show ?thesis by (rule CloseEndpointSession_change [OF close(1) close(2) [unfolded Inr]])
  qed (use close(2) in \<open>auto dest: session_errors(2)\<close>)
next
  case (close_owner D i owner tenant now db r' db')
  show ?case
  proof (cases r')
    case (Inr out)
    show ?thesis using CloseSessionForOwner_change [OF close_owner(1) close_owner(2) [unfolded Inr]] by auto
  qed (use close_owner(2) in \<open>auto dest: session_errors(3)\<close>)
next
  case (update D mutate i db r' db')
  show ?case
  proof (cases r')
    case (Inr out)
    show ?thesis using UpdateSession_change [OF update(1,2) update(3) [unfolded Inr]] by auto
  qed (use update(3) in \<open>auto dest: session_errors(4)\<close>)
next
  case (revoke D i owner tenant now db r'' db')
  show ?case
  proof (cases r'')
    case (Inr out)
    show ?thesis using RevokeEndpointForOwner_change [OF revoke(1) revoke(2) [unfolded Inr]] by auto
  qed (use revoke(2) in \<open>auto dest: session_errors(5)\<close>)
next
  case (reserve D res db rv db')
  show ?case
  proof (cases rv)
    case (Inr out)
    show ?thesis using ReserveIdempotency_change [OF reserve(1) reserve(2) [unfolded Inr]] by auto
  qed (use reserve(2) in \<open>auto dest: session_errors(6)\<close>)
next
  case (complete D res db rc db')
  show ?case
  proof (cases rc)
    case (Inr out)
    show ?thesis using CompleteIdempotency_change [OF complete(1) complete(2) [unfolded Inr]] by auto
  qed (use complete(2) in \<open>auto dest: session_errors(7)\<close>)
next
  case (audit D au db ra db')
  show ?case
  proof (cases ra)
    case (Inr out)
    show ?thesis using AppendAudit_InrD [OF audit(1) audit(2) [unfolded Inr]] by auto
  qed (use audit(2) in \<open>auto dest: session_errors(8)\<close>)
qed

lemma session_histories_change: "session_history\<^sup>*\<^sup>* db db' \<Longrightarrow> both_change db db'"
  by (induction rule: rtranclp_induct) (auto dest!: session_history_change intro: rtranclp_trans)

subsection \<open>A request acts at most once\<close>

definition idempotency_keys :: "idempotencyRow list \<Rightarrow> bool" where
  "idempotency_keys t \<longleftrightarrow> sorted_wrt (\<lambda>x y. \<not> idempotency_clash y x) t"

lemma idempotency_clash_sym: "idempotency_clash x y \<longleftrightarrow> idempotency_clash y x"
  by (auto simp: idempotency_clash_def)

lemma idempotency_row_unique:
  assumes "idempotency_keys t" "x \<in> set t" "y \<in> set t" "idempotency_clash x y"
  shows "x = y"
proof -
  from assms(2,3) obtain i j where ij: "i < length t" "j < length t" "x = t ! i" "y = t ! j"
    by (auto simp: in_set_conv_nth)
  have "\<not> i < j" "\<not> j < i"
    using assms(1,4) ij idempotency_clash_sym unfolding idempotency_keys_def sorted_wrt_iff_nth_less by blast+
  with ij show ?thesis by simp
qed

lemma completed_row_ident [simp]:
  "idempotency_clash (completed_row rec row x) y = idempotency_clash x y"
  "idempotency_clash y (completed_row rec row x) = idempotency_clash y x"
  "idempotency_key k (completed_row rec row x) = idempotency_key k x"
  by (simp_all add: completed_row_def idempotency_clash_def idempotency_key_def)

lemma idempotency_change_keys: "idempotency_change t t' \<Longrightarrow> idempotency_keys t \<Longrightarrow> idempotency_keys t'"
proof (induction rule: idempotency_change.induct)
  case (finish p t rec row)
  have "(\<not> idempotency_clash (if p y then completed_row rec row y else y) (if p x then completed_row rec row x else x)) \<longleftrightarrow>
      \<not> idempotency_clash y x" for x y by simp
  with finish show ?case unfolding idempotency_keys_def update_rows_def sorted_wrt_map by simp
qed (auto simp: idempotency_keys_def sorted_wrt_append)

text \<open>The record of a finished request: nothing ever removes or changes it.\<close>

definition finished :: "IdempotencyRecord \<Rightarrow> byte list \<Rightarrow> idempotencyRow list \<Rightarrow> bool" where
  "finished rec response t \<longleftrightarrow> (\<exists>row \<in> set t. idempotency_key rec row \<and>
     parseHash (iw_RequestHash row) = Inr (id_RequestHash rec) \<and> iw_Status row = IdempotencyStatusCompleted \<and>
     iw_ResponseJSON row = response)"

lemma idempotency_change_finished: "idempotency_change t t' \<Longrightarrow> finished rec response t \<Longrightarrow> finished rec response t'"
proof (induction rule: idempotency_change.induct)
  case (finish p t rec' row)
  then show ?case by (fastforce simp: finished_def bex_update_rows)
qed (auto simp: finished_def)

lemma idempotency_history:
  assumes "idempotency_change\<^sup>*\<^sup>* t t'" "idempotency_keys t"
  shows "idempotency_keys t' \<and> (finished rec response t \<longrightarrow> finished rec response t')"
  using assms by (induction rule: rtranclp_induct) (auto dest: idempotency_change_keys idempotency_change_finished)

lemma complete_record_simps [simp]:
  "idempotency_key (complete_record res st response at) = idempotency_key res"
  "id_RequestHash (complete_record res st response at) = id_RequestHash res"
  "id_ResponseJSON (complete_record res st response at) = response"
  by (simp_all add: complete_record_def idempotency_key_def fun_eq_iff)

lemma CompleteIdempotency_finished:
  assumes laws: "database_laws D" and keys: "idempotency_keys (t_idempotency db)"
    and ok: "CompleteIdempotency D rec db = (Inr v, db')"
  shows "finished rec (id_ResponseJSON rec) (t_idempotency db')"
  using laws ok
proof (cases rule: CompleteIdempotency_cases)
  case (same row)
  then show ?thesis by (auto simp: finished_def)
next
  case (completed row r)
  have "r = row"
    using keys completed(3,1,4) by (intro idempotency_row_unique [OF keys]) (auto simp: idempotency_clash_def)
  with completed show ?thesis
    by (auto simp: finished_def bex_update_rows completed_row_def idempotency_key_def intro!: bexI [of _ row])
qed

lemma ReserveIdempotency_finished:
  assumes "database_laws D" "ReserveIdempotency D res db = (Inr v, db')" "rv_Outcome v = IdempotencyReplay"
  shows "finished res (id_ResponseJSON (rv_Record v)) (t_idempotency db') \<and> db' = db"
  using assms(1,2)
proof (cases rule: ReserveIdempotency_cases)
  case (existing row)
  with assms(3) idempotencyFromRow_fields [OF existing(4)] show ?thesis
    by (auto simp: finished_def split: if_splits)
qed (simp add: assms(3))

lemma reserve_after_finished:
  assumes laws: "database_laws D" and keys: "idempotency_keys (t_idempotency db)"
    and fin: "finished rec response (t_idempotency db)"
    and same: "idempotency_key res = idempotency_key rec"
    and ok: "ReserveIdempotency D res db = (Inr v, db')"
  shows "rv_Outcome v = IdempotencyReplay \<and> id_ResponseJSON (rv_Record v) = response \<and> db' = db \<and>
     id_RequestHash res = id_RequestHash rec"
proof -
  from fin obtain x where x: "x \<in> set (t_idempotency db)" "idempotency_key rec x"
      "parseHash (iw_RequestHash x) = Inr (id_RequestHash rec)" "iw_Status x = IdempotencyStatusCompleted"
      "iw_ResponseJSON x = response"
    by (auto simp: finished_def)
  from laws ok show ?thesis
  proof (cases rule: ReserveIdempotency_cases)
    case acquired
    have "idempotency_key res x" using same x(2) by simp
    then have "idempotency_clash (idempotencyToRow res) x"
      by (simp add: idempotency_clash_def idempotency_key_def idempotencyToRow_def)
    with acquired(3) x(1) show ?thesis by blast
  next
    case (existing row)
    have "idempotency_key rec row" using same existing(2) by simp
    then have "row = x"
      using x(2) by (intro idempotency_row_unique [OF keys existing(1) x(1)]) (simp add: idempotency_clash_def idempotency_key_def)
    with existing x idempotencyFromRow_fields [OF existing(4)] show ?thesis by auto
  qed
qed

text \<open>A request on which the theorems are run.\<close>

definition sample_reservation :: IdempotencyRecord where
  "sample_reservation = \<lparr>
     id_ID = sample_id 21, id_OwnerUserID = ''u1'', id_TenantID = [], id_ActorID = ID_String (sample_id 2),
     id_Operation = ''endpoint.session.create'', id_Key = ''key-0123456789abcdef'', id_RequestHash = sample_hash 3,
     id_Status = IdempotencyStatusInProgress, id_HTTPStatus = 0, id_ResponseJSON = [], id_ErrorCode = [],
     id_CreatedAt = 1, id_UpdatedAt = 1, id_ExpiresAt = 100, id_RowVersion = 0\<rparr>"

definition sample_open_audit :: SecurityAuditEvent where
  "sample_open_audit = sample_audit\<lparr>au_ActorID := ID_String (sample_id 2), au_Action := ''session.create'',
     au_ObjectID := ID_String (sample_id 7)\<rparr>"

definition open_response :: "byte list" where
  "open_response = map of_char (ID_String (sample_id 7))"

lemma bytes_contains_self [simp]: "bytes_contains x x"
  unfolding bytes_contains_def set_map by (rule image_eqI [of _ _ 0]) simp_all

lemma sample_request_valid:
  "IdempotencyRecord_Validate (dr_json_valid reference_drivers) sample_reservation MaxIdempotencyResponseBytes = None"
  "IdempotencyRecord_Validate (dr_json_valid reference_drivers)
     (complete_record sample_reservation 201 open_response 1) MaxIdempotencyResponseBytes = None"
  "SecurityAuditEvent_Validate sample_open_audit = None"
  by code_simp+

lemma sample_trim [simp]: "TrimSpace (ID_String (sample_id 2)) = ID_String (sample_id 2)"
  by code_simp

definition opened_db :: db where
  "opened_db = open_db\<lparr>t_sessions := [sample_session_row SessionStatusCreating],
     t_audit := [auditToRow sample_open_audit [123, 125]],
     t_idempotency := [completed_row (complete_record sample_reservation 201 open_response 1)
       (idempotencyToRow sample_reservation) (idempotencyToRow sample_reservation)]\<rparr>"

lemmas sample_open_defs = tx_eval stmt_defs run_tx_def sample_request_valid open_db_def empty_db_def requireOwner_def not_blank_u1
  update_rows_def

lemma sample_reservation_row:
  "idempotencyFromRow (dr_json_valid reference_drivers) (idempotencyToRow sample_reservation) = Inr sample_reservation"
  using sample_request_valid(1) by (simp add: idempotencyFromRow_def idempotencyToRow_def sample_reservation_def)

lemma idempotency_validate_version: "IdempotencyRecord_Validate jv (r\<lparr>id_RowVersion := v\<rparr>) n = IdempotencyRecord_Validate jv r n"
  by (cases r) (simp only: IdempotencyRecord_Validate_def IdempotencyRecord.simps)

lemma sample_completed_row:
  "idempotencyFromRow (dr_json_valid reference_drivers) (completed_row (complete_record sample_reservation 201 open_response 1)
       (idempotencyToRow sample_reservation) (idempotencyToRow sample_reservation)) =
   Inr ((complete_record sample_reservation 201 open_response 1)\<lparr>id_RowVersion := 1\<rparr>)"
proof -
  have "IdempotencyRecord_Validate (dr_json_valid reference_drivers)
     ((complete_record sample_reservation 201 open_response 1)\<lparr>id_RowVersion := 1\<rparr>) MaxIdempotencyResponseBytes = None"
    using sample_request_valid(2) by (simp only: idempotency_validate_version)
  then show ?thesis
    by (simp add: idempotencyFromRow_def idempotencyToRow_def sample_reservation_def completed_row_def complete_record_def)
qed

lemma sample_open_fields:
  "id_Status sample_reservation = IdempotencyStatusInProgress" "id_OwnerUserID sample_reservation = ''u1''"
  "id_TenantID sample_reservation = []" "id_ActorID sample_reservation = ID_String (sample_id 2)"
  "au_OwnerUserID sample_open_audit = ''u1''" "au_TenantID sample_open_audit = []" "au_ActorType sample_open_audit = AuditActorEndpoint"
  "au_ActorID sample_open_audit = ID_String (sample_id 2)" "au_ObjectType sample_open_audit = ''session''"
  "au_ObjectID sample_open_audit = ID_String (sample_id 7)"
  "id_ID (complete_record sample_reservation st resp at) = sample_id 21" "id_Status (complete_record sample_reservation st resp at) = IdempotencyStatusCompleted"
  "id_OwnerUserID (complete_record sample_reservation st resp at) = ''u1''"
  "iw_ID (idempotencyToRow sample_reservation) = ID_String (sample_id 21)" "iw_Status (idempotencyToRow sample_reservation) = IdempotencyStatusInProgress"
  "iw_RowVersion (idempotencyToRow sample_reservation) = 0" "idempotency_key sample_reservation (idempotencyToRow sample_reservation)"
  by (simp_all add: complete_record_def idempotencyToRow_def idempotency_key_def sample_reservation_def sample_open_audit_def sample_audit_def)

lemma sample_reserved: "ReserveIdempotency reference_drivers sample_reservation open_db =
   (Inr \<lparr>rv_Outcome = IdempotencyAcquired, rv_Record = sample_reservation\<rparr>, open_db\<lparr>t_idempotency := [idempotencyToRow sample_reservation]\<rparr>)"
  by (simp add: ReserveIdempotency_def sample_open_defs cong: bindT_cong_weak)
     (simp add: sample_reservation_def not_blank_u1)

lemma sample_authorized: "authorizeAndCreateEndpointSession reference_drivers sample_session (open_db\<lparr>t_idempotency := t\<rparr>) =
   Inr ((), open_db\<lparr>t_idempotency := t, t_sessions := [sample_session_row SessionStatusCreating]\<rparr>)"
  by (simp add: authorizeAndCreateEndpointSession_def lockSessionCreationEndpoint_def sample_open_defs maxActiveSessionsPerABA_def sample_session_to_row
     cong: bindT_cong_weak)

lemma sample_audited: "t_audit db = [] \<Longrightarrow> AppendAudit reference_drivers sample_open_audit db =
    (Inr (), db\<lparr>t_audit := [auditToRow sample_open_audit [123, 125]]\<rparr>)"
  by (simp add: AppendAudit_def CanonicalMetadataJSON_def sample_open_defs cong: bindT_cong_weak)
     (simp add: sample_open_audit_def sample_audit_def not_blank_u1)

lemma sample_completed: "t_idempotency db = [idempotencyToRow sample_reservation] \<Longrightarrow>
   CompleteIdempotency reference_drivers (complete_record sample_reservation 201 open_response 1) db =
   (Inr ((complete_record sample_reservation 201 open_response 1)\<lparr>id_RowVersion := 1\<rparr>), db\<lparr>t_idempotency :=
      [completed_row (complete_record sample_reservation 201 open_response 1)
       (idempotencyToRow sample_reservation) (idempotencyToRow sample_reservation)]\<rparr>)"
  by (simp add: CompleteIdempotency_def sample_open_defs sample_reservation_row sample_open_fields cong: bindT_cong_weak)

lemma open_response_ok:
  "length open_response \<noteq> 0" "open_response \<noteq> []" "bytes_contains open_response (map of_char (ID_String (sample_id 7)))" "t_audit open_db = []"
  by (code_simp, code_simp, simp_all add: open_response_def open_db_def empty_db_def)

lemma first_open: "CreateEndpointSession reference_drivers sample_session sample_reservation sample_open_audit 201 open_response open_db =
   (Inr (sample_session, open_response, False), opened_db)"
  by (simp add: CreateEndpointSession_def run_tx_def tx_eval callT_apply sample_reserved sample_authorized sample_audited sample_completed sample_open_fields open_response_ok
      opened_db_def cong: bindT_cong_weak)

lemma sample_replayed: "ReserveIdempotency reference_drivers sample_reservation opened_db =
   (Inr \<lparr>rv_Outcome = IdempotencyReplay, rv_Record = (complete_record sample_reservation 201 open_response 1)\<lparr>id_RowVersion := 1\<rparr>\<rparr>, opened_db)"
  by (simp add: ReserveIdempotency_def sample_open_defs opened_db_def sample_completed_row sample_open_fields cong: bindT_cong_weak)
     (simp add: idempotency_clash_def)

lemma second_open: "CreateEndpointSession reference_drivers sample_session sample_reservation sample_open_audit 201
     (open_response @ [32]) opened_db = (Inr (sample_session, open_response, True), opened_db)"
proof -
  have "bytes_contains (open_response @ [32]) (map of_char (ID_String (sample_id 7)))"
    unfolding bytes_contains_def set_map by (rule image_eqI [of _ _ 0]) (simp_all add: open_response_def)
  then show ?thesis
    by (simp add: CreateEndpointSession_def run_tx_def tx_eval callT_apply sample_replayed sample_open_fields cong: bindT_cong_weak)
qed

text \<open>
  C12.  A session request acts at most once.  After a call with an idempotency key has succeeded,
  every later successful call with the same key of the same caller -- whatever happens to sessions,
  endpoints and other requests in between, whatever session and response it proposes -- is answered
  with the response of the first one, changes nothing, and carries the same request hash.
\<close>

theorem session_request_acts_once:
  assumes laws: "database_laws D" "database_laws D'" and keys: "idempotency_keys (t_idempotency db)"
    and ok: "CreateEndpointSession D s res au status response db = (Inr (s1, out, replayed), db1)"
    and later: "session_history\<^sup>*\<^sup>* db1 db2"
    and same: "idempotency_key res' = idempotency_key res"
    and again: "CreateEndpointSession D' s' res' au' status' response' db2 = (Inr (s2, out', replayed'), db3)"
  shows "replayed' \<and> out' = out \<and> db3 = db2 \<and> id_RequestHash res' = id_RequestHash res"
proof -
  have "finished res out (t_idempotency db1) \<and> idempotency_keys (t_idempotency db1)"
    using laws(1) ok
  proof (cases rule: CreateEndpointSession_cases)
    case (replay v)
    from ReserveIdempotency_finished [OF laws(1) replay(2,3)] keys replay(4) show ?thesis by auto
  next
    case (fresh v row db1' db2' db3' c u)
    have "idempotency_keys (t_idempotency db1')"
      using ReserveIdempotency_change [OF laws(1) fresh(4)] keys by (auto dest: idempotency_change_keys)
    moreover have "t_idempotency db3' = t_idempotency db1'"
      using AppendAudit_InrD [OF laws(1) fresh(10)] fresh(7) by auto
    ultimately have k: "idempotency_keys (t_idempotency db3')" by simp
    moreover have "finished res response (t_idempotency db1)"
      using CompleteIdempotency_finished [OF laws(1) k fresh(11)] by (simp add: finished_def)
    ultimately show ?thesis
      using CompleteIdempotency_change [OF laws(1) fresh(11)] fresh(2) by (auto dest: idempotency_change_keys)
  qed
  then have k2: "idempotency_keys (t_idempotency db2)" and f2: "finished res out (t_idempotency db2)"
    using session_histories_change [OF later] idempotency_history by blast+
  note reserve = reserve_after_finished [OF laws(2) k2 f2 same]
  from laws(2) again show ?thesis
  proof (cases rule: CreateEndpointSession_cases)
    case (replay v)
    with reserve show ?thesis by simp
  next
    case (fresh v row db1' db2' db3' c u)
    with reserve [OF fresh(4)] show ?thesis by simp
  qed
qed

theorem session_request_acts_once_witness:
  "\<exists>db1 out'. CreateEndpointSession reference_drivers sample_session sample_reservation sample_open_audit 201 open_response open_db =
      (Inr (sample_session, open_response, False), db1) \<and>
    CreateEndpointSession reference_drivers sample_session sample_reservation sample_open_audit 201 (open_response @ [32]) db1 =
      (Inr (sample_session, out', True), db1) \<and> out' = open_response"
proof -
  have "idempotency_keys (t_idempotency open_db)" by (simp add: idempotency_keys_def open_db_def empty_db_def)
  from session_request_acts_once [OF reference_laws reference_laws this first_open rtranclp.rtrancl_refl refl second_open]
    first_open second_open show ?thesis by (intro exI [of _ opened_db] exI [of _ open_response]) simp
qed

subsection \<open>The limit on open sessions\<close>

definition session_room :: "sessionRow list \<Rightarrow> bool" where
  "session_room t \<longleftrightarrow> distinct (map sw_ID t) \<and> (\<forall>r \<in> set t. \<forall>x. sw_Status r \<noteq> SessionStatusOther x) \<and>
     (\<forall>a. length (filter (\<lambda>r. sw_ABAEndpointID r = a \<and> sw_Status r \<in> set active_session_statuses) t)
        \<le> maxActiveSessionsPerABA)"

text \<open>Rewriting rows in place frees room, or keeps it, if no row becomes open.\<close>

lemma filter_update_le:
  "(\<And>r. r \<in> set t \<Longrightarrow> p r \<Longrightarrow> q (f r) \<Longrightarrow> q r) \<Longrightarrow> length (filter q (update_rows p f t)) \<le> length (filter q t)"
  by (induction t) (auto simp: update_rows_def le_SucI)

lemma session_room_update:
  assumes "session_room t" "\<And>r. sw_ID (f r) = sw_ID r" "\<And>r. sw_ABAEndpointID (f r) = sw_ABAEndpointID r"
    and "\<And>r. r \<in> set t \<Longrightarrow> p r \<Longrightarrow> sw_Status (f r) \<in> set active_session_statuses \<Longrightarrow> sw_Status r \<in> set active_session_statuses"
    and "\<And>r x. r \<in> set t \<Longrightarrow> p r \<Longrightarrow> sw_Status (f r) \<noteq> SessionStatusOther x"
  shows "session_room (update_rows p f t)"
proof -
  have "length (filter (\<lambda>r. sw_ABAEndpointID r = a \<and> sw_Status r \<in> set active_session_statuses) (update_rows p f t))
      \<le> maxActiveSessionsPerABA" for a
    using assms(1) unfolding session_room_def
    by (intro order_trans [OF filter_update_le]) (auto simp: assms(3) dest: assms(4))
  then show ?thesis
    using assms(1,5) unfolding session_room_def by (auto simp: map_update_rows assms(2) ball_update_rows)
qed

lemma session_columns_simps [simp]:
  "sw_ID (session_columns v r) = sw_ID r" "sw_ABAEndpointID (session_columns v r) = sw_ABAEndpointID r"
  "sw_Status (session_columns v r) = se_Status v"
  by (simp_all add: session_columns_def)

lemma edge_room:
  assumes "st' = st \<or> session_edge st st'"
  shows "st' \<in> set active_session_statuses \<Longrightarrow> st \<in> set active_session_statuses"
    "(\<And>x. st \<noteq> SessionStatusOther x) \<Longrightarrow> st' \<noteq> SessionStatusOther x"
  using assms by (auto simp: session_edge_simps active_session_statuses_def)

lemma session_change_room: "session_change t t' \<Longrightarrow> session_room t \<Longrightarrow> session_room t'"
proof (induction rule: session_change.induct)
  case (add t row)
  then show ?case by (auto simp: session_room_def)
next
  case (move row t p v)
  have "r = row" if "r \<in> set t" "p r" for r
    using move that by (auto simp: session_room_def intro: keyed_row_unique)
  then have only: "sw_Status r = sw_Status row" if "r \<in> set t" "p r" for r
    using that by simp
  show ?case
  proof (rule session_room_update [OF move(4)])
    fix r assume r: "r \<in> set t" "p r"
    show "sw_Status (session_columns v r) \<in> set active_session_statuses \<Longrightarrow> sw_Status r \<in> set active_session_statuses"
      using edge_room(1) [OF move(3)] only [OF r] by simp
    show "sw_Status (session_columns v r) \<noteq> SessionStatusOther x" for x
      using edge_room(2) [OF move(3)] move(1,4) by (simp add: session_room_def)
  qed simp_all
next
  case (cut p t ty now)
  have "sw_Status r \<in> set active_session_statuses" if "r \<in> set t" "p r" for r
    using cut that by (cases "sw_Status r") (auto simp: session_room_def active_session_statuses_def)
  with cut(2) show ?case
    by (intro session_room_update) (auto simp: revocation_session_update_def)
qed



end
