(* ===== verification/Store_Refresh.thy ===== *)
theory Store_Refresh
  imports Store_Access
begin

section \<open>Refresh credentials (\<open>store/refresh.go\<close>)\<close>

text \<open>
  A refresh credential is exchanged, once, for a new access and a new refresh credential of the
  same family.  Presenting one that has already been exchanged means that it leaked: the whole
  family is revoked.  The report of the reuse is an error, but its transaction has committed.
\<close>

definition gatewayRefreshError :: "go_error \<Rightarrow> go_error" where
  "gatewayRefreshError err = (if is_record_not_found err then problem CodeNotFound else Wrap err)"

definition InspectRefreshCredential ::
    "drivers \<Rightarrow> byte list \<Rightarrow> time \<Rightarrow> db \<Rightarrow> (Endpoint \<times> RefreshCredential) result \<times> db" where
  "InspectRefreshCredential D tokenHash now = run_read (
     bindT (guardT (zeroHash tokenHash \<or> IsZeroTime now) (problem CodeInvalidArgument)) (\<lambda>_.
     bindT (tx_first (dr_refresh D) t_refresh (\<lambda>r. rw_TokenHash r = hashString tokenHash) gatewayRefreshError) (\<lambda>refreshRecord.
     bindT (liftT (refreshCredentialFromRow refreshRecord)) (\<lambda>refresh.
     bindT (tx_first (dr_endpoints D) t_endpoints (\<lambda>r. er_ID r = rw_EndpointID refreshRecord) gatewayRefreshError) (\<lambda>endpointRecord.
     bindT (liftT (endpointFromRow endpointRecord)) (\<lambda>endpoint.
     bindT (guardT (ep_Status endpoint \<noteq> EndpointStatusActive \<or> ep_RevokedAt endpoint \<noteq> None \<or>
         rc_RevokedAt refresh \<noteq> None \<or> rc_Status refresh = CredentialStatusRevoked) (problem CodeRevoked)) (\<lambda>_.
     bindT (guardT (rc_Status refresh = CredentialStatusExpired \<or> \<not> now < rc_ExpiresAt refresh) (problem CodeExpired)) (\<lambda>_.
     bindT (guardT (rc_EndpointID refresh \<noteq> ep_ID endpoint \<or> rc_FamilyID refresh \<noteq> ep_CredentialFamilyID endpoint \<or>
         rc_SigningJKT refresh \<noteq> ep_SigningJKT endpoint) (problem CodeSecurityViolation)) (\<lambda>_.
     bindT (guardT (rc_Status refresh \<noteq> CredentialStatusActive \<and> rc_Status refresh \<noteq> CredentialStatusRotated)
         (problem CodeInvalidState)) (\<lambda>_.
     returnT (endpoint, refresh)))))))))))"

definition revokeCredentialFamily :: "drivers \<Rightarrow> ID \<Rightarrow> time \<Rightarrow> (db, unit) tx" where
  "revokeCredentialFamily D familyID now =
     bindT (tx_updates (dr_credentials D) t_credentials t_credentials_update
         (\<lambda>r. cw_FamilyID r = ID_String familyID \<and> cw_Status r = CredentialStatusActive)
         (\<lambda>r. r\<lparr>cw_Status := CredentialStatusRevoked, cw_RevokedAt := Some now, cw_UpdatedAt := now\<rparr>) Wrap) (\<lambda>_.
     bindT (tx_updates (dr_refresh D) t_refresh t_refresh_update
         (\<lambda>r. rw_FamilyID r = ID_String familyID \<and> rw_Status r \<in> {CredentialStatusActive, CredentialStatusRotated})
         (\<lambda>r. r\<lparr>rw_Status := CredentialStatusRevoked, rw_RevokedAt := Some now, rw_UpdatedAt := now\<rparr>) Wrap) (\<lambda>_.
     returnT ()))"

definition validateRefreshAudit :: "SecurityAuditEvent \<Rightarrow> Endpoint \<Rightarrow> time \<Rightarrow> go_error option" where
  "validateRefreshAudit audit endpoint now = (case SecurityAuditEvent_Validate audit of
       Some err \<Rightarrow> Some err
     | None \<Rightarrow>
         if au_OwnerUserID audit \<noteq> ep_OwnerUserID endpoint \<or> au_TenantID audit \<noteq> ep_TenantID endpoint \<or>
            au_ActorType audit \<noteq> AuditActorEndpoint \<or> au_ActorID audit \<noteq> ID_String (ep_ID endpoint) \<or>
            au_Action audit \<noteq> ''endpoint.token.refresh'' \<or> au_ObjectType audit \<noteq> ''endpoint'' \<or>
            au_ObjectID audit \<noteq> ID_String (ep_ID endpoint) \<or> au_Result audit \<noteq> ''success'' \<or> au_CreatedAt audit \<noteq> now
         then Some (problem CodeSecurityViolation) else None)"

text \<open>The credential presented, locked with its endpoint and checked.\<close>

definition lock_presented ::
    "drivers \<Rightarrow> byte list \<Rightarrow> string \<Rightarrow> time \<Rightarrow> (db, refreshCredentialRow \<times> RefreshCredential \<times> Endpoint) tx" where
  "lock_presented D presentedHash expectedSigningJKT now =
     bindT (tx_first (dr_refresh D) t_refresh (\<lambda>r. rw_TokenHash r = hashString presentedHash) gatewayRefreshError) (\<lambda>candidate.
     bindT (tx_first (dr_endpoints D) t_endpoints (\<lambda>r. er_ID r = rw_EndpointID candidate) gatewayRefreshError) (\<lambda>endpointRecord.
     bindT (tx_first (dr_refresh D) t_refresh (\<lambda>r. rw_ID r = rw_ID candidate \<and> rw_TokenHash r = hashString presentedHash \<and>
         rw_EndpointID r = er_ID endpointRecord) gatewayRefreshError) (\<lambda>currentRow.
     bindT (liftT (refreshCredentialFromRow currentRow)) (\<lambda>current.
     bindT (liftT (endpointFromRow endpointRecord)) (\<lambda>endpoint.
     bindT (guardT (ep_Status endpoint \<noteq> EndpointStatusActive \<or> rc_RevokedAt current \<noteq> None \<or>
         rc_Status current = CredentialStatusRevoked) (problem CodeRevoked)) (\<lambda>_.
     bindT (guardT (\<not> now < rc_ExpiresAt current) (problem CodeExpired)) (\<lambda>_.
     bindT (guardT (rc_SigningJKT current \<noteq> expectedSigningJKT \<or> ep_SigningJKT endpoint \<noteq> expectedSigningJKT \<or>
         rc_EndpointID current \<noteq> ep_ID endpoint \<or> rc_FamilyID current \<noteq> ep_CredentialFamilyID endpoint)
         (problem CodeSecurityViolation)) (\<lambda>_.
     returnT (currentRow, current, endpoint)))))))))"

text \<open>The exchange: the old credentials of the family are marked rotated and the new ones are written.\<close>

definition rotate_family ::
    "drivers \<Rightarrow> refreshCredentialRow \<Rightarrow> RefreshCredential \<Rightarrow> Endpoint \<Rightarrow> EndpointCredential \<Rightarrow> RefreshCredential \<Rightarrow>
     SecurityAuditEvent \<Rightarrow> time \<Rightarrow> (db, unit) tx" where
  "rotate_family D currentRow current endpoint nextAccess nextRefresh audit now =
     bindT (guardT (rc_Status current \<noteq> CredentialStatusActive) (problem CodeInvalidState)) (\<lambda>_.
     bindT (checkT (validateCredential nextAccess endpoint now)) (\<lambda>_.
     bindT (checkT (RefreshCredential_Validate nextRefresh endpoint now)) (\<lambda>_.
     bindT (guardT (rc_RotatedFrom nextRefresh \<noteq> rc_ID current \<or> IsZero (cr_ID nextAccess) \<or> IsZero (rc_ID nextRefresh))
         (problem CodeSecurityViolation)) (\<lambda>_.
     bindT (checkT (validateRefreshAudit audit endpoint now)) (\<lambda>_.
     bindT (liftT (CanonicalMetadataJSON (dr_marshal_map D) audit)) (\<lambda>metadata.
     bindT (tx_query (dr_credentials D) t_credentials
         (\<lambda>r. cw_FamilyID r = rw_FamilyID currentRow \<and> cw_Status r = CredentialStatusActive)
         (\<lambda>r. [- cw_CreatedAt r]) 1 gatewayCredentialError) (\<lambda>rows.
     bindT (case rows of [] \<Rightarrow> failT (gatewayCredentialError ErrRecordNotFound) | a # _ \<Rightarrow> returnT a) (\<lambda>activeAccess.
     bindT (liftT (parseID (cw_ID activeAccess))) (\<lambda>rotatedFrom.
     bindT (liftT (credentialToRow (dr_marshal D) (nextAccess\<lparr>cr_RotatedFrom := rotatedFrom\<rparr>))) (\<lambda>accessRow.
     bindT (tx_updates (dr_credentials D) t_credentials t_credentials_update
         (\<lambda>r. cw_FamilyID r = rw_FamilyID currentRow \<and> cw_Status r = CredentialStatusActive)
         (\<lambda>r. r\<lparr>cw_Status := CredentialStatusRotated, cw_UpdatedAt := now\<rparr>) Wrap) (\<lambda>_.
     bindT (tx_updates (dr_refresh D) t_refresh t_refresh_update
         (\<lambda>r. rw_ID r = rw_ID currentRow \<and> rw_Status r = CredentialStatusActive \<and> rw_RotatedTo r = [])
         (\<lambda>r. r\<lparr>rw_Status := CredentialStatusRotated, rw_UsedAt := Some now,
                rw_RotatedTo := ID_String (rc_ID nextRefresh), rw_UpdatedAt := now\<rparr>) classifyPersistence) (\<lambda>affected.
     bindT (guardT (affected \<noteq> 1) (problem CodeConflict)) (\<lambda>_.
     bindT (tx_create (dr_credentials D) t_credentials t_credentials_update accessRow classifyPersistence) (\<lambda>_.
     bindT (tx_create (dr_refresh D) t_refresh t_refresh_update (refreshCredentialToRow nextRefresh) classifyPersistence) (\<lambda>_.
     tx_create (dr_audit D) t_audit t_audit_update (auditToRow audit metadata) classifyPersistence)))))))))))))))"

definition RotateRefreshCredential ::
    "drivers \<Rightarrow> byte list \<Rightarrow> string \<Rightarrow> EndpointCredential \<Rightarrow> RefreshCredential \<Rightarrow> SecurityAuditEvent \<Rightarrow> time \<Rightarrow> db \<Rightarrow>
     unit result \<times> db" where
  "RotateRefreshCredential D presentedHash expectedSigningJKT nextAccess nextRefresh audit now db =
     (if zeroHash presentedHash \<or> blank expectedSigningJKT \<or> IsZeroTime now then (Inl (problem CodeInvalidArgument), db)
      else check_after (run_tx D (
        bindT (lock_presented D presentedHash expectedSigningJKT now) (\<lambda>(currentRow, current, endpoint).
        if rc_Status current = CredentialStatusRotated then
          bindT (revokeCredentialFamily D (rc_FamilyID current) now) (\<lambda>_. returnT True)
        else
          bindT (rotate_family D currentRow current endpoint nextAccess nextRefresh audit now) (\<lambda>_. returnT False))) db)
        (\<lambda>reused. if reused then Inl (problem CodeRevoked) else Inr ()))"

subsection \<open>What the steps do to the table\<close>

lemma refreshCredentialFromRow_fields: "refreshCredentialFromRow row = Inr v \<Longrightarrow>
    rc_Status v = rw_Status row \<and> rc_RevokedAt v = rw_RevokedAt row \<and> rc_ExpiresAt v = rw_ExpiresAt row \<and>
    parseID (rw_FamilyID row) = Inr (rc_FamilyID v)"
  by (auto simp: refreshCredentialFromRow_def bindE_Inr_iff)

lemma lock_presented_InrD:
  assumes laws: "database_laws D" and ok: "lock_presented D h jkt now db = Inr ((row, current, endpoint), db')"
  shows "db' = db \<and> row \<in> set (t_refresh db) \<and> rw_TokenHash row = hashString h \<and> refreshCredentialFromRow row = Inr current"
proof -
  obtain c e where row: "tx_first (dr_refresh D) t_refresh (\<lambda>r. rw_ID r = rw_ID (c :: refreshCredentialRow) \<and> rw_TokenHash r = hashString h \<and>
         rw_EndpointID r = er_ID (e :: endpointRow)) gatewayRefreshError db = Inr (row, db)"
    "refreshCredentialFromRow row = Inr current" "db' = db"
    using ok unfolding lock_presented_def by (auto simp: tx_Inr tx_first_Inr)
  with sql_table.tx_firstD [OF database_lawsD(12) [OF laws] row(1)] show ?thesis by simp
qed

text \<open>
  Rows are added under a new identifier and token, leave the status ACTIVE when they are exchanged
  or revoked, and never come back to it.
\<close>

inductive refresh_change :: "refreshCredentialRow list \<Rightarrow> refreshCredentialRow list \<Rightarrow> bool" where
  add: "\<forall>x \<in> set t. \<not> refresh_clash row x \<Longrightarrow> refresh_change t (t @ [row])"
| spend: "(\<And>r. rw_ID (f r) = rw_ID r \<and> rw_TokenHash (f r) = rw_TokenHash r \<and> rw_Status (f r) \<noteq> CredentialStatusActive) \<Longrightarrow>
     refresh_change t (update_rows p f t)"

lemma rotate_family_InrD:
  assumes laws: "database_laws D"
    and ok: "rotate_family D row current endpoint access next audit now db = Inr (u, db')"
  obtains f r where "rc_Status current = CredentialStatusActive"
    "\<And>r. rw_ID (f r) = rw_ID r \<and> rw_TokenHash (f r) = rw_TokenHash r \<and> rw_Status (f r) \<noteq> CredentialStatusActive"
    "r \<in> set (t_refresh db)" "rw_ID r = rw_ID row" "rw_Status r = CredentialStatusActive" "rw_RotatedTo r = []"
    "t_refresh db' = update_rows (\<lambda>r. rw_ID r = rw_ID row \<and> rw_Status r = CredentialStatusActive \<and> rw_RotatedTo r = []) f (t_refresh db)
       @ [refreshCredentialToRow next]"
    "\<forall>x \<in> set (update_rows (\<lambda>r. rw_ID r = rw_ID row \<and> rw_Status r = CredentialStatusActive \<and> rw_RotatedTo r = []) f (t_refresh db)).
       \<not> refresh_clash (refreshCredentialToRow next) x"
proof -
  let ?p = "\<lambda>r. rw_ID r = rw_ID row \<and> rw_Status r = CredentialStatusActive \<and> rw_RotatedTo r = []"
  let ?f = "\<lambda>r. r\<lparr>rw_Status := CredentialStatusRotated, rw_UsedAt := Some now,
                rw_RotatedTo := ID_String (rc_ID next), rw_UpdatedAt := now\<rparr>"
  obtain dbq db0 rows active db1 db2 db3 db4 n m accessRow metadata u1 u2 where
    st: "\<not> rc_Status current \<noteq> CredentialStatusActive" and
    q: "tx_query (dr_credentials D) t_credentials
         (\<lambda>r. cw_FamilyID r = rw_FamilyID row \<and> cw_Status r = CredentialStatusActive)
         (\<lambda>r. [- cw_CreatedAt r]) 1 gatewayCredentialError db = Inr (rows, dbq)"
       "(case rows of [] \<Rightarrow> failT (gatewayCredentialError ErrRecordNotFound) | a # _ \<Rightarrow> returnT a) dbq = Inr (active, db0)" and
    a: "tx_updates (dr_credentials D) t_credentials t_credentials_update
         (\<lambda>r. cw_FamilyID r = rw_FamilyID row \<and> cw_Status r = CredentialStatusActive)
         (\<lambda>r. r\<lparr>cw_Status := CredentialStatusRotated, cw_UpdatedAt := now\<rparr>) Wrap db0 = Inr (m, db1)" and
    b: "tx_updates (dr_refresh D) t_refresh t_refresh_update ?p ?f classifyPersistence db1 = Inr (n, db2)" "\<not> n \<noteq> 1" and
    c: "tx_create (dr_credentials D) t_credentials t_credentials_update accessRow classifyPersistence db2 = Inr (u1, db3)" and
    d: "tx_create (dr_refresh D) t_refresh t_refresh_update (refreshCredentialToRow next) classifyPersistence db3 = Inr (u2, db4)" and
    e: "tx_create (dr_audit D) t_audit t_audit_update (auditToRow audit metadata) classifyPersistence db4 = Inr (u, db')"
    using ok unfolding rotate_family_def bindT_Inr guardT_Inr checkT_Inr liftT_Inr by blast
  have "db0 = db"
    using q by (auto simp: tx_query_Inr failT_Inr returnT_Inr split: list.splits)
  note upd = sql_table.tx_updatesD [OF database_lawsD(12) [OF laws] b(1)]
  have "0 < n" using b(2) by simp
  from matched_row [OF upd [THEN conjunct2, symmetric] this] obtain r where
    "r \<in> set (t_refresh db1)" "rw_ID r = rw_ID row" "rw_Status r = CredentialStatusActive" "rw_RotatedTo r = []" by blast
  moreover have "t_refresh db1 = t_refresh db"
    using sql_table.tx_updatesD [OF database_lawsD(3) [OF laws] a] \<open>db0 = db\<close> by simp
  ultimately show ?thesis
    using upd sql_table.tx_createD [OF database_lawsD(3) [OF laws] c] sql_table.tx_createD [OF database_lawsD(12) [OF laws] d]
      sql_table.tx_createD [OF database_lawsD(9) [OF laws] e] st
    by (intro that [of ?f r]) simp_all
qed

text \<open>A family without live credentials.\<close>

definition family_dead :: "string \<Rightarrow> db \<Rightarrow> bool" where
  "family_dead family db \<longleftrightarrow>
     (\<forall>r \<in> set (t_credentials db). cw_FamilyID r = family \<longrightarrow> cw_Status r \<noteq> CredentialStatusActive) \<and>
     (\<forall>r \<in> set (t_refresh db). rw_FamilyID r = family \<longrightarrow> rw_Status r \<notin> {CredentialStatusActive, CredentialStatusRotated})"

lemma revokeCredentialFamily_InrD:
  assumes laws: "database_laws D" and ok: "revokeCredentialFamily D family now db = Inr (u, db')"
  shows "family_dead (ID_String family) db' \<and> refresh_change (t_refresh db) (t_refresh db')"
proof -
  let ?p = "\<lambda>r. rw_FamilyID r = ID_String family \<and> rw_Status r \<in> {CredentialStatusActive, CredentialStatusRotated}"
  let ?f = "\<lambda>r. r\<lparr>rw_Status := CredentialStatusRevoked, rw_RevokedAt := Some now, rw_UpdatedAt := now\<rparr>"
  obtain db1 n m where a: "tx_updates (dr_credentials D) t_credentials t_credentials_update
         (\<lambda>r. cw_FamilyID r = ID_String family \<and> cw_Status r = CredentialStatusActive)
         (\<lambda>r. r\<lparr>cw_Status := CredentialStatusRevoked, cw_RevokedAt := Some now, cw_UpdatedAt := now\<rparr>) Wrap db = Inr (n, db1)"
    and b: "tx_updates (dr_refresh D) t_refresh t_refresh_update ?p ?f Wrap db1 = Inr (m, db')"
    using ok unfolding revokeCredentialFamily_def by (auto simp: bindT_Inr returnT_Inr)
  from sql_table.tx_updatesD [OF database_lawsD(3) [OF laws] a] sql_table.tx_updatesD [OF database_lawsD(12) [OF laws] b]
  have t: "t_credentials db' = update_rows (\<lambda>r. cw_FamilyID r = ID_String family \<and> cw_Status r = CredentialStatusActive)
         (\<lambda>r. r\<lparr>cw_Status := CredentialStatusRevoked, cw_RevokedAt := Some now, cw_UpdatedAt := now\<rparr>) (t_credentials db)"
    "t_refresh db' = update_rows ?p ?f (t_refresh db)" by simp_all
  have "family_dead (ID_String family) db'"
    unfolding family_dead_def t by (auto simp: ball_update_rows)
  moreover have "refresh_change (t_refresh db) (t_refresh db')"
    unfolding t by (rule refresh_change.spend) simp
  ultimately show ?thesis ..
qed

lemma RotateRefreshCredential_cases [consumes 2, case_names failed reused rotated]:
  assumes laws: "database_laws D" and ok: "RotateRefreshCredential D h jkt access next audit now db = (r, db')"
  obtains e where "r = Inl e" "db' = db"
  | row current where "r = Inl (problem CodeRevoked)" "row \<in> set (t_refresh db)" "rw_TokenHash row = hashString h"
      "refreshCredentialFromRow row = Inr current" "rw_Status row = CredentialStatusRotated"
      "family_dead (ID_String (rc_FamilyID current)) db'" "refresh_change (t_refresh db) (t_refresh db')"
  | row current endpoint where "r = Inr ()" "row \<in> set (t_refresh db)" "rw_TokenHash row = hashString h"
      "refreshCredentialFromRow row = Inr current" "rotate_family D row current endpoint access next audit now db = Inr ((), db')"
proof -
  let ?body = "bindT (lock_presented D h jkt now) (\<lambda>(currentRow, current, endpoint).
        if rc_Status current = CredentialStatusRotated then
          bindT (revokeCredentialFamily D (rc_FamilyID current) now) (\<lambda>_. returnT True)
        else
          bindT (rotate_family D currentRow current endpoint access next audit now) (\<lambda>_. returnT False))"
  show ?thesis
  proof (cases "zeroHash h \<or> blank jkt \<or> IsZeroTime now \<or> isl (fst (run_tx D ?body db))")
    case True
    then show ?thesis
      using ok that(1) run_tx_error [of D ?body db]
      by (cases "run_tx D ?body db") (auto simp: RotateRefreshCredential_def check_after_def isl_def split: if_splits)
  next
    case False
    then obtain reused where run: "run_tx D ?body db = (Inr reused, db')"
        and r: "r = (if reused then Inl (problem CodeRevoked) else Inr ())"
      using ok
      by (cases "run_tx D ?body db"; cases "fst (run_tx D ?body db)") (auto simp: RotateRefreshCredential_def check_after_def)
    obtain row current endpoint db1 where locked: "lock_presented D h jkt now db = Inr ((row, current, endpoint), db1)"
      and rest: "(if rc_Status current = CredentialStatusRotated then
          bindT (revokeCredentialFamily D (rc_FamilyID current) now) (\<lambda>_. returnT True)
        else bindT (rotate_family D row current endpoint access next audit now) (\<lambda>_. returnT False)) db1 = Inr (reused, db')"
      using run_tx_success [OF run] unfolding bindT_Inr by auto
    note row = lock_presented_InrD [OF laws locked]
    then have fields: "rw_Status row = rc_Status current" using refreshCredentialFromRow_fields by auto
    show ?thesis
    proof (cases "rc_Status current = CredentialStatusRotated")
      case True
      with rest row have revoked: "revokeCredentialFamily D (rc_FamilyID current) now db = Inr ((), db')" and reused
        by (auto simp: bindT_Inr returnT_Inr)
      with revokeCredentialFamily_InrD [OF laws revoked] r row True fields show ?thesis
        by (intro that(2) [of row current]) simp_all
    next
      case False
      with rest row have "rotate_family D row current endpoint access next audit now db = Inr ((), db')" "\<not> reused"
        by (auto simp: bindT_Inr returnT_Inr)
      with r row show ?thesis by (intro that(3)) simp_all
    qed
  qed
qed

subsection \<open>A refresh credential is exchanged once\<close>

lemma ConsumeABAEnrollment_refresh:
  assumes laws: "database_laws D" and ok: "ConsumeABAEnrollment D i h endpoint access refresh audit now db = (Inr u, db')"
  shows "refresh_change (t_refresh db) (t_refresh db')"
proof -
  obtain row before consumed accessRow metadata db0 db1 db2 db3 db4 where
    a: "t_refresh db0 = t_refresh db"
      "tx_create (dr_endpoints D) t_endpoints t_endpoints_update (endpointToRow endpoint) classifyPersistence db0 = Inr ((), db1)"
      "tx_create (dr_credentials D) t_credentials t_credentials_update accessRow classifyPersistence db1 = Inr ((), db2)"
      "tx_create (dr_refresh D) t_refresh t_refresh_update (refreshCredentialToRow refresh) classifyPersistence db2 = Inr ((), db3)"
      "tx_create (dr_audit D) t_audit t_audit_update (auditToRow audit metadata) classifyPersistence db3 = Inr ((), db4)"
      "consume_enrollment_row D row before consumed (ep_ID endpoint) db4 = Inr ((), db')"
    using run_tx_success [OF ok [unfolded ConsumeABAEnrollment_def]]
    by (auto simp: tx_Inr tx_first_Inr)
  have "t_refresh db' = t_refresh db4"
    using a(6) unfolding consume_enrollment_row_def
    by (auto simp: tx_Inr dest!: sql_table.tx_updatesD [OF database_lawsD(2) [OF laws]])
  with sql_table.tx_createD [OF database_lawsD(1) [OF laws] a(2)] sql_table.tx_createD [OF database_lawsD(3) [OF laws] a(3)]
    sql_table.tx_createD [OF database_lawsD(12) [OF laws] a(4)] sql_table.tx_createD [OF database_lawsD(9) [OF laws] a(5)] a(1)
  show ?thesis by (auto intro: refresh_change.add)
qed

lemma ConsumeHCRegistrationChallenge_refresh:
  assumes laws: "database_laws D"
    and ok: "ConsumeHCRegistrationChallenge D i h owner tenant origin endpoint access refresh audit now db = (Inr u, db')"
  shows "refresh_change (t_refresh db) (t_refresh db')"
proof -
  obtain p f n accessRow metadata db0 db1 db2 db3 where
    a: "tx_updates (dr_challenges D) t_challenges t_challenges_update p f classifyPersistence db = Inr (n, db0)"
      "tx_create (dr_endpoints D) t_endpoints t_endpoints_update (endpointToRow endpoint) classifyPersistence db0 = Inr ((), db1)"
      "tx_create (dr_credentials D) t_credentials t_credentials_update accessRow classifyPersistence db1 = Inr ((), db2)"
      "tx_create (dr_refresh D) t_refresh t_refresh_update (refreshCredentialToRow refresh) classifyPersistence db2 = Inr ((), db3)"
      "tx_create (dr_audit D) t_audit t_audit_update (auditToRow audit metadata) classifyPersistence db3 = Inr ((), db')"
    using run_tx_success [OF ok [unfolded ConsumeHCRegistrationChallenge_def Let_def]]
    by (auto simp: tx_Inr tx_first_Inr)
  from sql_table.tx_updatesD [OF database_lawsD(13) [OF laws] a(1)]
    sql_table.tx_createD [OF database_lawsD(1) [OF laws] a(2)] sql_table.tx_createD [OF database_lawsD(3) [OF laws] a(3)]
    sql_table.tx_createD [OF database_lawsD(12) [OF laws] a(4)] sql_table.tx_createD [OF database_lawsD(9) [OF laws] a(5)]
  show ?thesis by (auto intro: refresh_change.add)
qed

lemma RevokeEndpointForOwner_refresh:
  assumes laws: "database_laws D" and ok: "RevokeEndpointForOwner D i owner tenant now db = (Inr v, db')"
  shows "refresh_change (t_refresh db) (t_refresh db')"
proof -
  obtain row :: endpointRow and endpoint :: Endpoint and locked :: "sessionRow list" where
      db': "db' = sessions_revoked (TrimSpace owner) (TrimSpace tenant) (ep_Type endpoint) (er_ID row) now
        (map sw_ID (filter (\<lambda>s. session_column (ep_Type endpoint) s = er_ID row) locked))
        (secrets_revoked (er_ID row) now (endpoint_row_revoked
          (\<lambda>r. er_ID r = er_ID row \<and> er_OwnerUserID r = TrimSpace owner \<and> er_TenantID r = TrimSpace tenant \<and>
               er_RowVersion r = ep_RowVersion endpoint) v db))"
    by (rule RevokeEndpointForOwner_InrD [OF laws ok]) (erule that)
  show ?thesis
    unfolding db' by (simp add: secrets_revoked_def endpoint_row_revoked_def) (rule refresh_change.spend, simp)
qed

text \<open>Everything that writes refresh credentials, in any order and with any failures.\<close>

inductive refresh_history :: "db \<Rightarrow> db \<Rightarrow> bool" where
  rotate: "database_laws D \<Longrightarrow> RotateRefreshCredential D h jkt access next audit now db = (r, db') \<Longrightarrow> refresh_history db db'"
| enroll: "database_laws D \<Longrightarrow> ConsumeABAEnrollment D i h endpoint access refresh audit now db = (r, db') \<Longrightarrow> refresh_history db db'"
| register: "database_laws D \<Longrightarrow>
     ConsumeHCRegistrationChallenge D i h owner tenant origin endpoint access refresh audit now db = (r, db') \<Longrightarrow> refresh_history db db'"
| revoke: "database_laws D \<Longrightarrow> RevokeEndpointForOwner D i owner tenant now db = (r', db') \<Longrightarrow> refresh_history db db'"

lemma rotation_change:
  assumes "database_laws D" "rotate_family D row current endpoint access next audit now db = Inr (u, db')"
  shows "refresh_change\<^sup>*\<^sup>* (t_refresh db) (t_refresh db')"
proof -
  obtain f r where f: "\<And>r. rw_ID (f r) = rw_ID r \<and> rw_TokenHash (f r) = rw_TokenHash r \<and> rw_Status (f r) \<noteq> CredentialStatusActive"
    and t: "t_refresh db' = update_rows (\<lambda>r. rw_ID r = rw_ID row \<and> rw_Status r = CredentialStatusActive \<and> rw_RotatedTo r = [])
        f (t_refresh db) @ [refreshCredentialToRow next]"
      "\<forall>x \<in> set (update_rows (\<lambda>r. rw_ID r = rw_ID row \<and> rw_Status r = CredentialStatusActive \<and> rw_RotatedTo r = []) f (t_refresh db)).
         \<not> refresh_clash (refreshCredentialToRow next) x"
    by (rule rotate_family_InrD [OF assms]) (rule that)
  show ?thesis
    unfolding t(1) using refresh_change.spend [OF f] refresh_change.add [OF t(2)]
    by (meson converse_rtranclp_into_rtranclp r_into_rtranclp)
qed

lemma refresh_history_change: "refresh_history db db' \<Longrightarrow> refresh_change\<^sup>*\<^sup>* (t_refresh db) (t_refresh db')"
proof (induction rule: refresh_history.induct)
  case (rotate D h jkt access "next" audit now db r db')
  from rotate show ?case
  proof (cases rule: RotateRefreshCredential_cases)
    case (rotated row current endpoint)
    show ?thesis by (rule rotation_change [OF rotate(1) rotated(5)])
  qed auto
next
  case (enroll D i h endpoint access refresh audit now db r db')
  then show ?case
    by (cases r) (auto simp: ConsumeABAEnrollment_def dest: run_tx_error ConsumeABAEnrollment_refresh [unfolded ConsumeABAEnrollment_def])
next
  case (register D i h owner tenant origin endpoint access refresh audit now db r db')
  then show ?case
    by (cases r) (auto simp: ConsumeHCRegistrationChallenge_def Let_def
        dest: run_tx_error ConsumeHCRegistrationChallenge_refresh [unfolded ConsumeHCRegistrationChallenge_def Let_def])
next
  case (revoke D i owner tenant now db r' db')
  then show ?case
    by (cases r') (auto simp: RevokeEndpointForOwner_def
        dest: run_tx_normalized_error RevokeEndpointForOwner_refresh [unfolded RevokeEndpointForOwner_def])
qed

definition spent :: "string \<Rightarrow> refreshCredentialRow list \<Rightarrow> bool" where
  "spent h t \<longleftrightarrow> h \<in> rw_TokenHash ` set t \<and> (\<forall>r \<in> set t. rw_TokenHash r = h \<longrightarrow> rw_Status r \<noteq> CredentialStatusActive)"

lemma refresh_change_spent: "refresh_change t t' \<Longrightarrow> spent h t \<Longrightarrow> spent h t'"
proof (induction rule: refresh_change.induct)
  case (add t row)
  then show ?case by (auto simp: spent_def refresh_clash_def)
next
  case (spend f t p)
  have "rw_TokenHash ` set (update_rows p f t) = rw_TokenHash ` set t"
    using spend(1) map_update_rows [of p rw_TokenHash f t] by (metis list.set_map)
  with spend show ?case by (simp add: spent_def ball_update_rows)
qed

lemma refresh_histories_spent:
  assumes "refresh_history\<^sup>*\<^sup>* db db'" "spent h (t_refresh db)"
  shows "spent h (t_refresh db')"
proof -
  have *: "refresh_change\<^sup>*\<^sup>* t t' \<Longrightarrow> spent h t \<Longrightarrow> spent h t'" for t t'
    by (induction rule: rtranclp_induct) (auto dest: refresh_change_spent)
  show ?thesis
    using assms by (induction rule: rtranclp_induct) (auto dest!: refresh_history_change intro: *)
qed

lemma rotation_spends:
  assumes laws: "database_laws D" and keys: "distinct (map rw_ID (t_refresh db))" "distinct (map rw_TokenHash (t_refresh db))"
    and row: "row \<in> set (t_refresh db)"
    and ok: "rotate_family D row current endpoint access next audit now db = Inr (u, db')"
  shows "spent (rw_TokenHash row) (t_refresh db')"
proof -
  let ?p = "\<lambda>r. rw_ID r = rw_ID row \<and> rw_Status r = CredentialStatusActive \<and> rw_RotatedTo r = []"
  obtain f r where f: "\<And>r. rw_ID (f r) = rw_ID r \<and> rw_TokenHash (f r) = rw_TokenHash r \<and> rw_Status (f r) \<noteq> CredentialStatusActive"
    and r: "r \<in> set (t_refresh db)" "rw_ID r = rw_ID row" "rw_Status r = CredentialStatusActive" "rw_RotatedTo r = []"
    and t: "t_refresh db' = update_rows ?p f (t_refresh db) @ [refreshCredentialToRow next]"
      "\<forall>x \<in> set (update_rows ?p f (t_refresh db)). \<not> refresh_clash (refreshCredentialToRow next) x"
    by (rule rotate_family_InrD [OF laws ok]) (rule that)
  have "r = row" by (rule keyed_row_unique [OF keys(1) r(1) row r(2)])
  then have p: "?p row" using r by simp
  have "x = row" if "x \<in> set (t_refresh db)" "rw_TokenHash x = rw_TokenHash row" for x
    by (rule keyed_row_unique [OF keys(2) that(1) row that(2)])
  then have "\<forall>x \<in> set (update_rows ?p f (t_refresh db)). rw_TokenHash x = rw_TokenHash row \<longrightarrow> rw_Status x \<noteq> CredentialStatusActive"
    unfolding ball_update_rows using p f by auto
  moreover have "map rw_TokenHash (update_rows ?p f (t_refresh db)) = map rw_TokenHash (t_refresh db)"
    by (rule map_update_rows) (simp add: f)
  then have "set (map rw_TokenHash (update_rows ?p f (t_refresh db))) = set (map rw_TokenHash (t_refresh db))"
    by (rule arg_cong)
  then have "rw_TokenHash ` set (update_rows ?p f (t_refresh db)) = rw_TokenHash ` set (t_refresh db)"
    by (simp only: set_map)
  ultimately have "spent (rw_TokenHash row) (update_rows ?p f (t_refresh db))"
    using row by (simp add: spent_def)
  then show ?thesis
    unfolding t(1) using refresh_change_spent [OF refresh_change.add [OF t(2)]] by blast
qed


definition sample_refresh :: "byte \<Rightarrow> ID \<Rightarrow> ID \<Rightarrow> RefreshCredential" where
  "sample_refresh b from to = \<lparr>
     rc_ID = sample_id b, rc_EndpointID = sample_id 2, rc_FamilyID = sample_id 9, rc_TokenHash = sample_hash b,
     rc_SigningJKT = jktA, rc_Status = CredentialStatusActive, rc_ExpiresAt = 100, rc_RotatedFrom = from,
     rc_RotatedTo = to, rc_UsedAt = None, rc_RevokedAt = None, rc_CreatedAt = 1, rc_UpdatedAt = 1\<rparr>"

definition sample_access :: "byte \<Rightarrow> EndpointCredential" where
  "sample_access b = \<lparr>
     cr_ID = sample_id b, cr_EndpointID = sample_id 2, cr_FamilyID = sample_id 9, cr_TokenHash = sample_hash b,
     cr_SigningJKT = jktA, cr_Scopes = [''session:manage''], cr_Status = CredentialStatusActive, cr_ExpiresAt = 50,
     cr_RotatedFrom = zeroID, cr_CreatedAt = 1, cr_UpdatedAt = 1, cr_RevokedAt = None\<rparr>"

definition access_row :: "byte \<Rightarrow> credentialRow" where
  "access_row b = \<lparr>
     cw_ID = ID_String (sample_id b), cw_EndpointID = ID_String (sample_id 2), cw_FamilyID = ID_String (sample_id 9),
     cw_TokenHash = hashString (sample_hash b), cw_SigningJKT = jktA, cw_ScopesJSON = ''session:manage,'',
     cw_Status = CredentialStatusActive, cw_ExpiresAt = 50, cw_RotatedFrom = [], cw_CreatedAt = 1, cw_UpdatedAt = 1,
     cw_RevokedAt = None\<rparr>"

definition refresh_audit :: SecurityAuditEvent where
  "refresh_audit = sample_audit\<lparr>au_ActorID := ID_String (sample_id 2), au_Action := ''endpoint.token.refresh'',
     au_ObjectType := ''endpoint'', au_ObjectID := ID_String (sample_id 2)\<rparr>"

definition refresh_db :: db where
  "refresh_db = empty_db\<lparr>t_endpoints := [endpointToRow hc_endpoint], t_credentials := [access_row 40],
     t_refresh := [refreshCredentialToRow (sample_refresh 31 zeroID zeroID)]\<rparr>"

definition rotated_db :: db where
  "rotated_db = empty_db\<lparr>t_endpoints := [endpointToRow hc_endpoint],
     t_credentials := [(access_row 40)\<lparr>cw_Status := CredentialStatusRotated, cw_UpdatedAt := 3\<rparr>,
       (access_row 41)\<lparr>cw_RotatedFrom := ID_String (sample_id 40)\<rparr>],
     t_refresh := [(refreshCredentialToRow (sample_refresh 31 zeroID zeroID))\<lparr>rw_Status := CredentialStatusRotated,
         rw_UsedAt := Some 3, rw_RotatedTo := ID_String (sample_id 32), rw_UpdatedAt := 3\<rparr>,
       refreshCredentialToRow (sample_refresh 32 (sample_id 31) zeroID)],
     t_audit := [auditToRow refresh_audit [123, 125]]\<rparr>"

lemma refresh_audit_valid: "validateRefreshAudit refresh_audit hc_endpoint 3 = None"
  by code_simp

lemma wf_zeroID [simp]: "wf_id zeroID"
  by (simp add: wf_id_def zeroID_def)

lemma sample_refresh_row [simp]:
  "b \<noteq> 0 \<Longrightarrow> refreshCredentialFromRow (refreshCredentialToRow (sample_refresh b zeroID zeroID)) = Inr (sample_refresh b zeroID zeroID)"
  by (simp add: refreshCredentialFromRow_def refreshCredentialToRow_def sample_refresh_def)

lemma sample_refresh_simps [simp]:
  "rw_ID (refreshCredentialToRow (sample_refresh b from to)) = ID_String (sample_id b)"
  "rw_TokenHash (refreshCredentialToRow (sample_refresh b from to)) = hashString (sample_hash b)"
  "rw_EndpointID (refreshCredentialToRow (sample_refresh b from to)) = ID_String (sample_id 2)"
  "rw_FamilyID (refreshCredentialToRow (sample_refresh b from to)) = ID_String (sample_id 9)"
  "rw_Status (refreshCredentialToRow (sample_refresh b from to)) = CredentialStatusActive"
  "rw_RotatedTo (refreshCredentialToRow (sample_refresh b from zeroID)) = []"
  "rc_ID (sample_refresh b from to) = sample_id b" "rc_Status (sample_refresh b from to) = CredentialStatusActive"
  "rc_RevokedAt (sample_refresh b from to) = None" "rc_ExpiresAt (sample_refresh b from to) = 100"
  "rc_SigningJKT (sample_refresh b from to) = jktA" "rc_EndpointID (sample_refresh b from to) = sample_id 2"
  "rc_FamilyID (sample_refresh b from to) = sample_id 9" "rc_RotatedFrom (sample_refresh b from to) = from"
  "cr_ID (sample_access b) = sample_id b" "ep_SigningJKT hc_endpoint = jktA" "ep_ID hc_endpoint = sample_id 2"
  "ep_CredentialFamilyID hc_endpoint = sample_id 9"
  "cw_ID (access_row b) = ID_String (sample_id b)" "cw_FamilyID (access_row b) = ID_String (sample_id 9)"
  "cw_TokenHash (access_row b) = hashString (sample_hash b)" "cw_Status (access_row b) = CredentialStatusActive"
  by (simp_all add: refreshCredentialToRow_def sample_refresh_def optionalID_def sample_access_def hc_endpoint_def
      sample_endpoint_def access_row_def)

lemma sample_hash_inject [simp]: "sample_hash a = sample_hash b \<longleftrightarrow> a = b"
  by (simp add: sample_hash_def)

lemma sample_locked:
  "lock_presented reference_drivers (sample_hash 31) jktA 3 refresh_db =
     Inr ((refreshCredentialToRow (sample_refresh 31 zeroID zeroID), sample_refresh 31 zeroID zeroID, hc_endpoint), refresh_db)"
  by (simp add: lock_presented_def refresh_db_def empty_db_def tx_eval stmt_defs cong: bindT_cong_weak)

lemma sample_exchange_valid:
  "validateCredential (sample_access 41) hc_endpoint 3 = None"
  "RefreshCredential_Validate (sample_refresh 32 (sample_id 31) zeroID) hc_endpoint 3 = None"
  "CanonicalMetadataJSON (dr_marshal_map reference_drivers) refresh_audit = Inr [123, 125]"
  "credentialToRow (dr_marshal reference_drivers) (sample_access 41\<lparr>cr_RotatedFrom := sample_id 40\<rparr>) =
     Inr ((access_row 41)\<lparr>cw_RotatedFrom := ID_String (sample_id 40)\<rparr>)"
proof -
  show "validateCredential (sample_access 41) hc_endpoint 3 = None"
    "RefreshCredential_Validate (sample_refresh 32 (sample_id 31) zeroID) hc_endpoint 3 = None"
    by code_simp+
  show "credentialToRow (dr_marshal reference_drivers) (sample_access 41\<lparr>cr_RotatedFrom := sample_id 40\<rparr>) =
     Inr ((access_row 41)\<lparr>cw_RotatedFrom := ID_String (sample_id 40)\<rparr>)"
    by (simp add: credentialToRow_def reference_drivers_def sample_access_def access_row_def optionalID_def)
  have "SecurityAuditEvent_Validate refresh_audit = None"
    using refresh_audit_valid by (simp add: validateRefreshAudit_def split: option.splits)
  then show "CanonicalMetadataJSON (dr_marshal_map reference_drivers) refresh_audit = Inr [123, 125]"
    by (simp add: CanonicalMetadataJSON_def)
qed

lemma sample_exchanged:
  "rotate_family reference_drivers (refreshCredentialToRow (sample_refresh 31 zeroID zeroID)) (sample_refresh 31 zeroID zeroID)
     hc_endpoint (sample_access 41) (sample_refresh 32 (sample_id 31) zeroID) refresh_audit 3 refresh_db = Inr ((), rotated_db)"
  by (simp add: rotate_family_def refresh_db_def empty_db_def tx_eval stmt_defs sample_exchange_valid refresh_audit_valid
      rotated_db_def update_rows_def credential_clash_def refresh_clash_def cong: bindT_cong_weak)

lemma sample_refresh_rotation:
  "RotateRefreshCredential reference_drivers (sample_hash 31) jktA (sample_access 41) (sample_refresh 32 (sample_id 31) zeroID)
     refresh_audit 3 refresh_db = (Inr (), rotated_db)"
proof -
  have "\<not> blank jktA" by code_simp
  then show ?thesis
    by (simp add: RotateRefreshCredential_def zeroHash_def IsZeroTime_def run_tx_def check_after_def tx_eval sample_locked
        sample_exchanged cong: bindT_cong_weak)
qed

lemma sample_reuse:
  obtains db3 where "RotateRefreshCredential reference_drivers (sample_hash 31) jktA (sample_access 42)
     (sample_refresh 33 (sample_id 31) zeroID) refresh_audit 4 rotated_db = (Inl (problem CodeRevoked), db3)"
    "map rw_Status (t_refresh db3) = [CredentialStatusRevoked, CredentialStatusRevoked]"
proof -
  let ?row = "(refreshCredentialToRow (sample_refresh 31 zeroID zeroID))\<lparr>rw_Status := CredentialStatusRotated,
      rw_UsedAt := Some 3, rw_RotatedTo := ID_String (sample_id 32), rw_UpdatedAt := 3\<rparr>"
  have from_row: "refreshCredentialFromRow ?row = Inr ((sample_refresh 31 zeroID (sample_id 32))\<lparr>rc_Status := CredentialStatusRotated,
      rc_UsedAt := Some 3, rc_UpdatedAt := 3\<rparr>)"
    by (simp add: refreshCredentialFromRow_def refreshCredentialToRow_def sample_refresh_def parseOptionalID_def blank_ID_String optionalID_def)
       (simp add: blank_def)
  have "\<not> blank jktA" by code_simp
  then have "\<exists>db3. RotateRefreshCredential reference_drivers (sample_hash 31) jktA (sample_access 42)
     (sample_refresh 33 (sample_id 31) zeroID) refresh_audit 4 rotated_db = (Inl (problem CodeRevoked), db3) \<and>
     map rw_Status (t_refresh db3) = [CredentialStatusRevoked, CredentialStatusRevoked]"
    by (simp add: RotateRefreshCredential_def zeroHash_def IsZeroTime_def run_tx_def check_after_def tx_eval lock_presented_def
        from_row revokeCredentialFamily_def rotated_db_def empty_db_def stmt_defs update_rows_def cong: bindT_cong_weak)
  then show ?thesis by (elim exE conjE) (rule that)
qed


end
