(* ===== verification/Store_Keys.thy ===== *)
theory Store_Keys
  imports Store_Sessions Store_Frames
begin

section \<open>Session key packages and the control outbox\<close>

text \<open>
  \<open>store/key_package.go\<close> and \<open>store/control_outbox.go\<close>.  An ABA endpoint hands the key of the next
  generation of a session, encrypted, to the HC endpoint; the acknowledgement of the package
  activates the session with that generation.  The control packets that announce a package and its
  acknowledgement are kept in an outbox, written in the transaction of the step they announce, and
  are resent until the next step completes them.
\<close>

subsection \<open>Storing a package\<close>

datatype PutKeyPackageOutcome = PutKeyPackageStored | PutKeyPackageDuplicate

record PutKeyPackageResult =
  kr_Outcome :: PutKeyPackageOutcome
  kr_Package :: SessionKeyPackage

definition sameKeyPackage :: "keyPackageRow \<Rightarrow> keyPackageRow \<Rightarrow> bool" where
  "sameKeyPackage left right \<longleftrightarrow>
     kw_SessionID left = kw_SessionID right \<and> kw_Generation left = kw_Generation right \<and>
     kw_IssuerABAEndpointID left = kw_IssuerABAEndpointID right \<and>
     kw_RecipientHCEndpointID left = kw_RecipientHCEndpointID right \<and>
     kw_CryptoSuite left = kw_CryptoSuite right \<and> kw_EncapsulatedKey left = kw_EncapsulatedKey right \<and>
     kw_Ciphertext left = kw_Ciphertext right \<and> kw_ContextHash left = kw_ContextHash right \<and>
     kw_IssuerSignature left = kw_IssuerSignature right \<and> kw_IssuerCredentialID left = kw_IssuerCredentialID right \<and>
     kw_ExpiresAt left = kw_ExpiresAt right"

definition lockKeyPackageSession :: "drivers \<Rightarrow> ID \<Rightarrow> string \<Rightarrow> string \<Rightarrow> (db, sessionRow) tx" where
  "lockKeyPackageSession D i owner tenant =
     tx_first (dr_sessions D) t_sessions
       (\<lambda>r. sw_ID r = ID_String i \<and> sw_OwnerUserID r = owner \<and> sw_TenantID r = tenant) notFoundOr"

definition fenceKeyPackageSession :: "drivers \<Rightarrow> sessionRow \<Rightarrow> string \<Rightarrow> string \<Rightarrow> (db, unit) tx" where
  "fenceKeyPackageSession D session owner tenant =
     (if \<not> dr_sqlite D then returnT ()
      else bindT (tx_updates (dr_sessions D) t_sessions t_sessions_update
          (\<lambda>r. sw_ID r = sw_ID session \<and> sw_OwnerUserID r = owner \<and> sw_TenantID r = tenant \<and>
               sw_RowVersion r = sw_RowVersion session \<and> sw_Status r = sw_Status session)
          (\<lambda>r. r\<lparr>sw_RowVersion := sw_RowVersion r\<rparr>) Wrap) (\<lambda>affected.
        guardT (affected \<noteq> 1) (problem CodeConflict)))"

definition lockKeyPackageEndpoint :: "drivers \<Rightarrow> ID \<Rightarrow> string \<Rightarrow> string \<Rightarrow> (db, endpointRow) tx" where
  "lockKeyPackageEndpoint D i owner tenant =
     tx_first (dr_endpoints D) t_endpoints
       (\<lambda>r. er_ID r = ID_String i \<and> er_OwnerUserID r = owner \<and> er_TenantID r = tenant) notFoundOr"

definition lockKeyPackageIssuerCredential :: "drivers \<Rightarrow> ID \<Rightarrow> ID \<Rightarrow> (db, credentialRow) tx" where
  "lockKeyPackageIssuerCredential D i issuerEndpointID =
     tx_first (dr_credentials D) t_credentials
       (\<lambda>r. cw_ID r = ID_String i \<and> cw_EndpointID r = ID_String issuerEndpointID)
       (\<lambda>err. if is_record_not_found err then NewProblem CodeSecurityViolation (Some err) else Wrap err)"

definition requireKeyPackageEndpointActive :: "EndpointStatus \<Rightarrow> go_error option" where
  "requireKeyPackageEndpointActive st =
     (if AllowsSessionKeyPackage st then None
      else if st = EndpointStatusRevoked then Some (problem CodeRevoked)
      else Some (problem CodeSecurityViolation))"

definition authorize_key_package :: "drivers \<Rightarrow> string \<Rightarrow> string \<Rightarrow> SessionKeyPackage \<Rightarrow> (db, unit) tx" where
  "authorize_key_package D owner tenant value =
     bindT (lockKeyPackageSession D (kp_SessionID value) owner tenant) (\<lambda>session.
     bindT (liftT (sessionFromRow (dr_unmarshal D) session)) (\<lambda>sessionValue.
     bindT (guardT (sw_ABAEndpointID session \<noteq> ID_String (kp_IssuerABAEndpointID value) \<or>
         sw_HCEndpointID session \<noteq> ID_String (kp_RecipientHCEndpointID value)) (problem CodeSecurityViolation)) (\<lambda>_.
     bindT (checkT (ValidateNextKeyPackageGeneration sessionValue (kp_Generation value))) (\<lambda>_.
     bindT (fenceKeyPackageSession D session owner tenant) (\<lambda>_.
     bindT (lockKeyPackageEndpoint D (kp_IssuerABAEndpointID value) owner tenant) (\<lambda>issuer.
     bindT (guardT (er_Type issuer \<noteq> EndpointTypeABA) (problem CodeSecurityViolation)) (\<lambda>_.
     bindT (checkT (requireKeyPackageEndpointActive (er_Status issuer))) (\<lambda>_.
     bindT (lockKeyPackageEndpoint D (kp_RecipientHCEndpointID value) owner tenant) (\<lambda>recipient.
     bindT (guardT (er_Type recipient \<noteq> EndpointTypeHCWeb \<and> er_Type recipient \<noteq> EndpointTypeHCReference)
         (problem CodeSecurityViolation)) (\<lambda>_.
     bindT (checkT (requireKeyPackageEndpointActive (er_Status recipient))) (\<lambda>_.
     bindT (lockKeyPackageIssuerCredential D (kp_IssuerCredentialID value) (kp_IssuerABAEndpointID value)) (\<lambda>credential.
     guardT (cw_Status credential \<noteq> CredentialStatusActive \<or> cw_RevokedAt credential \<noteq> None \<or>
         \<not> cw_ExpiresAt credential > kp_CreatedAt value \<or> kp_CreatedAt value < cw_CreatedAt credential \<or>
         cw_FamilyID credential \<noteq> er_CredentialFamilyID issuer \<or> cw_SigningJKT credential \<noteq> er_SigningJKT issuer)
         (problem CodeSecurityViolation)))))))))))))"

text \<open>A semantic conflict is the value \<open>Inl\<close> of a transaction that commits.\<close>

definition put_key_package_row ::
    "drivers \<Rightarrow> SessionKeyPackage \<Rightarrow> (db, PutKeyPackageResult result) tx" where
  "put_key_package_row D value =
     (let row = keyPackageToRow value in
     bindT (tx_create_ignore (dr_packages D) t_packages t_packages_update row classifyPersistence) (\<lambda>affected.
     if affected = 1 then returnT (Inr \<lparr>kr_Outcome = PutKeyPackageStored, kr_Package = value\<rparr>)
     else
       bindT (tx_first (dr_packages D) t_packages
           (\<lambda>r. kw_ID r = kw_ID row \<or> kw_SessionID r = kw_SessionID row \<and> kw_Generation r = kw_Generation row \<and>
                kw_RecipientHCEndpointID r = kw_RecipientHCEndpointID row) notFoundOr) (\<lambda>existing.
       if \<not> sameKeyPackage existing row then returnT (Inl (problem CodeConflict))
       else
         bindT (liftT (keyPackageFromRow existing)) (\<lambda>existingValue.
         returnT (Inr \<lparr>kr_Outcome = PutKeyPackageDuplicate, kr_Package = existingValue\<rparr>)))))"

definition putSessionKeyPackageOnce ::
    "drivers \<Rightarrow> string \<Rightarrow> string \<Rightarrow> SessionKeyPackage \<Rightarrow> db \<Rightarrow> PutKeyPackageResult result \<times> db" where
  "putSessionKeyPackageOnce D owner tenant value db = check_after (run_tx D (
     bindT (authorize_key_package D owner tenant value) (\<lambda>_. put_key_package_row D value)) db) id"

definition PutSessionKeyPackage ::
    "(nat \<Rightarrow> drivers) \<Rightarrow> (nat \<Rightarrow> go_error option) \<Rightarrow> string \<Rightarrow> string \<Rightarrow> SessionKeyPackage \<Rightarrow> db \<Rightarrow>
     PutKeyPackageResult result \<times> db" where
  "PutSessionKeyPackage D wait owner tenant value db =
     (case requireOwner owner of
        Some err \<Rightarrow> (Inl err, db)
      | None \<Rightarrow> case SessionKeyPackage_Validate MaxKeyPackageEncapsulatedKeyBytes MaxKeyPackageCiphertextBytes value of
        Some err \<Rightarrow> (Inl err, db)
      | None \<Rightarrow>
        if kp_Status value \<noteq> KeyPackageStatusPending then (Inl (problem CodeInvalidState), db)
        else sqlite_retry (dr_sqlite (D 0))
            (\<lambda>n. putSessionKeyPackageOnce (D n) (TrimSpace owner) (TrimSpace tenant) value) wait 0 sqliteAttempts db)"

definition PutEndpointSessionKeyPackage ::
    "(nat \<Rightarrow> drivers) \<Rightarrow> (nat \<Rightarrow> go_error option) \<Rightarrow> string \<Rightarrow> string \<Rightarrow> SessionKeyPackage \<Rightarrow> db \<Rightarrow>
     (SessionKeyPackage \<times> bool) result \<times> db" where
  "PutEndpointSessionKeyPackage D wait owner tenant value db =
     (case PutSessionKeyPackage D wait owner tenant value db of
        (r, db') \<Rightarrow> (map_sum id (\<lambda>result. (kr_Package result, kr_Outcome result = PutKeyPackageDuplicate)) r, db'))"

definition managementLimit :: "int \<Rightarrow> int" where
  "managementLimit limit = (if limit \<le> 0 then 50 else if limit > 200 then 200 else limit)"

primrec packages_from_rows :: "keyPackageRow list \<Rightarrow> SessionKeyPackage list result" where
  "packages_from_rows [] = Inr []"
| "packages_from_rows (row # rows) =
     bindE (keyPackageFromRow row) (\<lambda>v. bindE (packages_from_rows rows) (\<lambda>vs. Inr (v # vs)))"

definition ListSessionKeyPackages ::
    "drivers \<Rightarrow> ID \<Rightarrow> string \<Rightarrow> string \<Rightarrow> int \<Rightarrow> db \<Rightarrow> SessionKeyPackage list result \<times> db" where
  "ListSessionKeyPackages D sessionID owner tenant limit = run_read (
     bindT (checkT (requireOwner owner)) (\<lambda>_.
     bindT (guardT (IsZero sessionID) (problem CodeInvalidArgument)) (\<lambda>_.
     bindT (tx_count (dr_sessions D) t_sessions
         (\<lambda>r. sw_ID r = ID_String sessionID \<and> sw_OwnerUserID r = TrimSpace owner \<and> sw_TenantID r = TrimSpace tenant) id) (\<lambda>sessionCount.
     bindT (guardT (sessionCount \<noteq> 1) (problem CodeNotFound)) (\<lambda>_.
     bindT (tx_query (dr_packages D) t_packages (\<lambda>r. kw_SessionID r = ID_String sessionID)
         (\<lambda>r. [- uint (kw_Generation r), - kw_CreatedAt r]) (nat (managementLimit limit)) id) (\<lambda>rows.
     liftT (packages_from_rows rows)))))))"

subsection \<open>Acknowledging a package\<close>

definition lock_acknowledged ::
    "drivers \<Rightarrow> ID \<Rightarrow> ID \<Rightarrow> string \<Rightarrow> string \<Rightarrow> (db, keyPackageRow) tx" where
  "lock_acknowledged D i recipient owner tenant =
     bindT (tx_first (dr_packages D) t_packages
         (\<lambda>r. kw_ID r = ID_String i \<and> kw_RecipientHCEndpointID r = ID_String recipient) notFoundOr) (\<lambda>candidate.
     bindT (liftT (parseID (kw_SessionID candidate))) (\<lambda>sessionID.
     bindT (tryT (lockKeyPackageSession D sessionID owner tenant)) (\<lambda>found.
     bindT (liftT (map_sum (\<lambda>err. NewProblem CodeNotFound (Some err)) id found)) (\<lambda>session.
     bindT (guardT (sw_HCEndpointID session \<noteq> ID_String recipient) (problem CodeSecurityViolation)) (\<lambda>_.
     bindT (tryT (lockKeyPackageEndpoint D recipient owner tenant)) (\<lambda>found.
     bindT (liftT (map_sum (\<lambda>err. NewProblem CodeNotFound (Some err)) id found)) (\<lambda>recipientEndpoint.
     bindT (checkT (requireKeyPackageEndpointActive (er_Status recipientEndpoint))) (\<lambda>_.
     tx_first (dr_packages D) t_packages
         (\<lambda>r. kw_ID r = ID_String i \<and> kw_SessionID r = kw_SessionID candidate \<and>
              kw_RecipientHCEndpointID r = ID_String recipient) notFoundOr))))))))"

definition AcknowledgeSessionKeyPackage ::
    "drivers \<Rightarrow> ID \<Rightarrow> ID \<Rightarrow> string \<Rightarrow> string \<Rightarrow> time \<Rightarrow> db \<Rightarrow> SessionKeyPackage result \<times> db" where
  "AcknowledgeSessionKeyPackage D i recipient owner tenant now = run_tx_normalized D (
     bindT (checkT (requireOwner owner)) (\<lambda>_.
     bindT (guardT (IsZero i \<or> IsZero recipient \<or> IsZeroTime now) (problem CodeInvalidArgument)) (\<lambda>_.
     bindT (lock_acknowledged D i recipient (TrimSpace owner) (TrimSpace tenant)) (\<lambda>row.
     bindT (liftT (keyPackageFromRow row)) (\<lambda>before.
     bindT (mutateT (SessionKeyPackage_Acknowledge recipient now before)) (\<lambda>value.
     if kw_Status row = KeyPackageStatusAcknowledged then returnT value
     else
       bindT (tx_updates (dr_packages D) t_packages t_packages_update
           (\<lambda>r. kw_ID r = kw_ID row \<and> kw_Status r \<in> {KeyPackageStatusPending, KeyPackageStatusDelivered})
           (\<lambda>r. r\<lparr>kw_Status := kp_Status value, kw_AcknowledgedAt := kp_AcknowledgedAt value\<rparr>) Wrap) (\<lambda>affected.
       bindT (guardT (affected \<noteq> 1) (problem CodeConflict)) (\<lambda>_.
       returnT value))))))))"

definition activate_unless_active :: "u64 \<Rightarrow> time \<Rightarrow> Session \<Rightarrow> go_error option \<times> Session" where
  "activate_unless_active generation now session =
     (if se_Status session = SessionStatusActive \<and> se_CurrentKeyGeneration session = generation then (None, session)
      else Session_Activate generation now session)"

definition AcknowledgeAndActivateSessionKeyPackage ::
    "drivers \<Rightarrow> ID \<Rightarrow> ID \<Rightarrow> string \<Rightarrow> string \<Rightarrow> time \<Rightarrow> db \<Rightarrow> Session result \<times> db" where
  "AcknowledgeAndActivateSessionKeyPackage D i recipient owner tenant now = run_tx D (
     bindT (callT (AcknowledgeSessionKeyPackage D i recipient owner tenant now)) (\<lambda>acknowledged.
     callT (UpdateSession D (kp_SessionID acknowledged) (activate_unless_active (kp_Generation acknowledged) now))))"

subsection \<open>The control outbox\<close>

datatype PutControlOutboxOutcome = PutControlOutboxStored | PutControlOutboxDuplicate

definition maxControlOutboxList :: int where
  "maxControlOutboxList = 128"

definition sameControlOutbox :: "controlOutboxRow \<Rightarrow> controlOutboxRow \<Rightarrow> bool" where
  "sameControlOutbox left right \<longleftrightarrow>
     ow_OwnerUserID left = ow_OwnerUserID right \<and> ow_TenantID left = ow_TenantID right \<and>
     ow_SessionID left = ow_SessionID right \<and> ow_CorrelationID left = ow_CorrelationID right \<and>
     ow_RecipientEndpointID left = ow_RecipientEndpointID right \<and> ow_Kind left = ow_Kind right \<and>
     ow_Payload left = ow_Payload right \<and> ow_Packet left = ow_Packet right"

definition outbox_key :: "ControlOutboxKind \<Rightarrow> string \<Rightarrow> string \<Rightarrow> controlOutboxRow \<Rightarrow> bool" where
  "outbox_key kind correlation recipient r \<longleftrightarrow>
     ow_Kind r = kind \<and> ow_CorrelationID r = correlation \<and> ow_RecipientEndpointID r = recipient"

definition PutControlOutbox :: "drivers \<Rightarrow> ControlOutbox \<Rightarrow> db \<Rightarrow> PutControlOutboxOutcome result \<times> db" where
  "PutControlOutbox D value = run_tx D (
     bindT (checkT (requireOwner (ob_OwnerUserID value))) (\<lambda>_.
     bindT (checkT (ControlOutbox_ValidateNew maxControlOutboxPayloadBytes maxControlOutboxPacketBytes value)) (\<lambda>_.
     let row = controlOutboxToRow value in
     bindT (tx_create_ignore (dr_outbox D) t_outbox t_outbox_update row classifyPersistence) (\<lambda>affected.
     if affected = 1 then returnT PutControlOutboxStored
     else
       bindT (tx_first (dr_outbox D) t_outbox
           (outbox_key (ow_Kind row) (ow_CorrelationID row) (ow_RecipientEndpointID row)) notFoundOr) (\<lambda>existing.
       bindT (guardT (\<not> sameControlOutbox existing row) (problem CodeConflict)) (\<lambda>_.
       returnT PutControlOutboxDuplicate))))))"

primrec outbox_from_rows :: "controlOutboxRow list \<Rightarrow> ControlOutbox list result" where
  "outbox_from_rows [] = Inr []"
| "outbox_from_rows (row # rows) =
     bindE (controlOutboxFromRow row) (\<lambda>v. bindE (outbox_from_rows rows) (\<lambda>vs. Inr (v # vs)))"

definition pending_for :: "ID \<Rightarrow> time \<Rightarrow> controlOutboxRow \<Rightarrow> bool" where
  "pending_for recipient now r \<longleftrightarrow>
     ow_RecipientEndpointID r = ID_String recipient \<and> ow_Status r = ControlOutboxPending \<and> ow_ExpiresAt r > now"

definition ListPendingControlOutbox ::
    "drivers \<Rightarrow> ID \<Rightarrow> time \<Rightarrow> int \<Rightarrow> db \<Rightarrow> ControlOutbox list result \<times> db" where
  "ListPendingControlOutbox D recipient now limit0 = run_read (
     bindT (guardT (IsZero recipient \<or> IsZeroTime now) (problem CodeInvalidArgument)) (\<lambda>_.
     let limit = (if limit0 \<le> 0 \<or> limit0 > maxControlOutboxList then maxControlOutboxList else limit0) in
     bindT (tx_query (dr_outbox D) t_outbox (pending_for recipient now)
         (\<lambda>r. ow_CreatedAt r # map of_char (ow_ID r)) (nat limit) Wrap) (\<lambda>rows.
     liftT (outbox_from_rows rows))))"

definition CompleteControlOutbox ::
    "drivers \<Rightarrow> ControlOutboxKind \<Rightarrow> ID \<Rightarrow> ID \<Rightarrow> time \<Rightarrow> db \<Rightarrow> unit result \<times> db" where
  "CompleteControlOutbox D kind correlationID recipient now = run_tx D (
     bindT (guardT (\<not> ControlOutboxKind_Valid kind \<or> IsZero correlationID \<or> IsZero recipient \<or> IsZeroTime now)
         (problem CodeInvalidArgument)) (\<lambda>_.
     bindT (tx_first (dr_outbox D) t_outbox (outbox_key kind (ID_String correlationID) (ID_String recipient)) notFoundOr) (\<lambda>row.
     bindT (liftT (controlOutboxFromRow row)) (\<lambda>before.
     if ob_Status before = ControlOutboxCompleted then returnT ()
     else
       bindT (mutateT (ControlOutbox_Complete now before)) (\<lambda>value.
       bindT (tx_updates (dr_outbox D) t_outbox t_outbox_update
           (\<lambda>r. ow_ID r = ow_ID row \<and> ow_RowVersion r = ob_RowVersion before \<and> ow_Status r = ControlOutboxPending)
           (\<lambda>r. r\<lparr>ow_Status := ob_Status value, ow_CompletedAt := ob_CompletedAt value, ow_UpdatedAt := ob_UpdatedAt value,
                  ow_RowVersion := ob_RowVersion value\<rparr>) classifyPersistence) (\<lambda>affected.
       guardT (affected \<noteq> 1) (problem CodeConflict)))))))"

definition CancelSessionControlOutbox :: "drivers \<Rightarrow> ID \<Rightarrow> time \<Rightarrow> db \<Rightarrow> unit result \<times> db" where
  "CancelSessionControlOutbox D sessionID now = run_tx D (
     bindT (guardT (IsZero sessionID \<or> IsZeroTime now) (problem CodeInvalidArgument)) (\<lambda>_.
     bindT (tx_updates (dr_outbox D) t_outbox t_outbox_update
         (\<lambda>r. ow_SessionID r = ID_String sessionID \<and> ow_Status r = ControlOutboxPending)
         (\<lambda>r. r\<lparr>ow_Status := ControlOutboxCancelled, ow_CompletedAt := Some now, ow_UpdatedAt := now,
                ow_RowVersion := ow_RowVersion r + 1\<rparr>) id) (\<lambda>_.
     returnT ())))"

definition readControlOutboxByCorrelation ::
    "drivers \<Rightarrow> ControlOutboxKind \<Rightarrow> ID \<Rightarrow> ID \<Rightarrow> (db, controlOutboxRow) tx" where
  "readControlOutboxByCorrelation D kind correlationID recipient =
     tx_first (dr_outbox D) t_outbox (outbox_key kind (ID_String correlationID) (ID_String recipient))
       (\<lambda>err. if is_record_not_found err then NewProblem CodeNotFound (Some err) else Wrap err)"

text \<open>Completing an entry that does not exist is no error of the caller.\<close>

definition complete_if_present :: "drivers \<Rightarrow> ControlOutboxKind \<Rightarrow> ID \<Rightarrow> ID \<Rightarrow> time \<Rightarrow> (db, unit) tx" where
  "complete_if_present D kind correlationID recipient now =
     bindT (tryT (callT (CompleteControlOutbox D kind correlationID recipient now))) (\<lambda>r.
     case r of Inr _ \<Rightarrow> returnT () | Inl err \<Rightarrow> guardT (\<not> HasCode (Some err) CodeNotFound) err)"

definition PutEndpointSessionKeyPackageWithOutbox ::
    "(nat \<Rightarrow> drivers) \<Rightarrow> (nat \<Rightarrow> go_error option) \<Rightarrow> string \<Rightarrow> string \<Rightarrow> SessionKeyPackage \<Rightarrow> ControlOutbox \<Rightarrow> db \<Rightarrow>
     (SessionKeyPackage \<times> bool) result \<times> db" where
  "PutEndpointSessionKeyPackageWithOutbox D wait owner tenant value outbox = run_tx (D 0) (
     bindT (guardT (ob_Kind outbox \<noteq> ControlOutboxSessionKeyPackage \<or> ob_CorrelationID outbox \<noteq> kp_ID value \<or>
         ob_SessionID outbox \<noteq> kp_SessionID value \<or> ob_RecipientEndpointID outbox \<noteq> kp_RecipientHCEndpointID value \<or>
         ob_OwnerUserID outbox \<noteq> TrimSpace owner \<or> ob_TenantID outbox \<noteq> TrimSpace tenant) (problem CodeInvalidArgument)) (\<lambda>_.
     bindT (callT (PutSessionKeyPackage D wait owner tenant value)) (\<lambda>result.
     bindT (callT (PutControlOutbox (D 0) outbox)) (\<lambda>_.
     bindT (complete_if_present (D 0) ControlOutboxOpenTunnel (kp_SessionID value) (kp_IssuerABAEndpointID value)
         (kp_CreatedAt value)) (\<lambda>_.
     returnT (kr_Package result, kr_Outcome result = PutKeyPackageDuplicate))))))"

definition AcknowledgeAndActivateSessionKeyPackageWithOutbox ::
    "drivers \<Rightarrow> ID \<Rightarrow> ID \<Rightarrow> string \<Rightarrow> string \<Rightarrow> time \<Rightarrow> ControlOutbox \<Rightarrow> db \<Rightarrow> Session result \<times> db" where
  "AcknowledgeAndActivateSessionKeyPackageWithOutbox D packageID recipient owner tenant now outbox = run_tx D (
     bindT (guardT (ob_Kind outbox \<noteq> ControlOutboxSessionKeyPackageACK \<or> ob_CorrelationID outbox \<noteq> packageID \<or>
         IsZero (ob_RecipientEndpointID outbox) \<or> ob_OwnerUserID outbox \<noteq> TrimSpace owner \<or>
         ob_TenantID outbox \<noteq> TrimSpace tenant) (problem CodeInvalidArgument)) (\<lambda>_.
     bindT (callT (AcknowledgeAndActivateSessionKeyPackage D packageID recipient owner tenant now)) (\<lambda>updated.
     bindT (guardT (ob_SessionID outbox \<noteq> se_ID updated \<or> ob_RecipientEndpointID outbox \<noteq> se_ABAEndpointID updated)
         (problem CodeInvalidArgument)) (\<lambda>_.
     bindT (callT (PutControlOutbox D outbox)) (\<lambda>_.
     bindT (complete_if_present D ControlOutboxSessionKeyPackage packageID recipient now) (\<lambda>_.
     returnT updated))))))"

end
