(* ===== verification/Store_Key_Exchange.thy ===== *)
theory Store_Key_Exchange
  imports Store_Keys
begin

section \<open>The key exchange completes and its announcements are delivered\<close>

text \<open>
  On a database that does not fail, the acknowledgement of a stored key package succeeds and makes
  the session active with the generation of the package.  An entry of the outbox stays, unchanged,
  until it is completed or cancelled, and is returned to its recipient until then.
\<close>

subsection \<open>Statements that cannot fail\<close>

definition reliable :: "'r driver \<Rightarrow> bool" where
  "reliable drv \<longleftrightarrow> (\<forall>t p. \<not> isl (d_first drv t p)) \<and> (\<forall>t p f. \<not> isl (d_updates drv t p f))"

text \<open>A query for a row that exists and is unique returns it; an update of it affects one row.\<close>

context sql_table
begin

lemma tx_first_unique:
  assumes "reliable drv" "r \<in> set (get db)" "p r" "\<And>x. x \<in> set (get db) \<Longrightarrow> p x \<Longrightarrow> x = r"
  shows "tx_first drv get p err db = Inr (r, db)"
proof -
  from assms(1) obtain o' where o': "d_first drv (get db) p = Inr o'"
    unfolding reliable_def isl_def by (meson sum.exhaust)
  show ?thesis
  proof (cases o')
    case None
    with first_None [of "get db" p r] o' assms(2,3) show ?thesis by simp
  next
    case (Some x)
    with first_Some [of "get db" p x] o' assms(4) have "x = r" by simp
    with Some o' show ?thesis by (simp add: tx_first_Inr)
  qed
qed

lemma tx_first_keyed:
  assumes "reliable drv" "distinct (map k (get db))" "r \<in> set (get db)" "p r" "\<And>x. p x \<Longrightarrow> k x = k r"
  shows "tx_first drv get p err db = Inr (r, db)"
proof (rule tx_first_unique [OF assms(1)])
  show "x = r" if "x \<in> set (get db)" "p x" for x
    by (rule keyed_row_unique [OF assms(2) that(1) assms(3) assms(5) [OF that(2)]])
qed (use assms in simp_all)

lemma tx_updates_keyed:
  assumes "reliable drv" "distinct (map k (get db))" "r \<in> set (get db)" "p r" "\<And>x. p x \<Longrightarrow> k x = k r"
  shows "tx_updates drv get upd p f err db = Inr (1, upd (\<lambda>_. update_rows p f (get db)) db)"
proof -
  from assms(1) obtain t n where u: "d_updates drv (get db) p f = Inr (t, n)"
    unfolding reliable_def isl_def by (metis sum.exhaust surj_pair)
  have "filter p (get db) = [r]"
    by (rule filter_unique_key [where p = p, OF assms(2,3,4)]) (rule assms(5))
  with u updates_rows [OF u] show ?thesis by (simp add: tx_updates_def)
qed

end

lemma reliable_list_driver [simp]: "reliable (list_driver clash)"
  by (simp add: reliable_def)

definition reliable_database :: "drivers \<Rightarrow> bool" where
  "reliable_database D \<longleftrightarrow> database_laws D \<and> reliable (dr_sessions D) \<and> reliable (dr_endpoints D) \<and> reliable (dr_packages D) \<and>
     (\<forall>db db'. dr_commit D db db' = None) \<and> (\<forall>cs. \<not> isl (dr_marshal D cs))"

lemma run_tx_commits: "reliable_database D \<Longrightarrow> body db = Inr (a, db') \<Longrightarrow> run_tx D body db = (Inr a, db')"
  by (simp add: run_tx_def reliable_database_def)

subsection \<open>The steps of the exchange\<close>

lemma next_generation_activates:
  assumes "ValidateNextKeyPackageGeneration s g = None"
  shows "activate_unless_active g now s = (None, snd (Session_Activate g now s)) \<and>
    se_Status (snd (Session_Activate g now s)) = SessionStatusActive \<and>
    se_CurrentKeyGeneration (snd (Session_Activate g now s)) = g \<and> se_ID (snd (Session_Activate g now s)) = se_ID s"
proof -
  let ?c = "se_CurrentKeyGeneration s"
  have "(se_Status s = SessionStatusWaitingKey \<and> ?c = 0 \<or> se_Status s = SessionStatusRekeyRequired \<and> ?c \<noteq> - 1) \<and> g = ?c + 1"
    using assms by (cases "se_Status s") (auto simp: ValidateNextKeyPackageGeneration_def split: if_splits)
  moreover from this have "\<not> g \<le> ?c \<and> g \<noteq> 0"
    using u64_succ_iff [of ?c g] by (auto simp: word_le_nat_alt)
  ultimately show ?thesis
    by (auto simp: activate_unless_active_def Session_Activate_def)
qed

lemma UpdateSession_reliable:
  assumes D: "reliable_database D" and keys: "distinct (map sw_ID (t_sessions db))"
    and row: "row \<in> set (t_sessions db)" "sw_ID row = ID_String i" "\<not> IsZero i" "sessionFromRow (dr_unmarshal D) row = Inr before"
    and m: "mutate before = (None, s)"
  shows "UpdateSession D i mutate db = (Inr s, db\<lparr>t_sessions := update_rows
     (\<lambda>r. sw_ID r = sw_ID row \<and> sw_RowVersion r = se_RowVersion before) (session_columns s) (t_sessions db)\<rparr>)"
proof -
  have law: "sql_table session_clash (dr_sessions D)" and rel: "reliable (dr_sessions D)" and mar: "\<And>cs. \<not> isl (dr_marshal D cs)"
    using D database_lawsD(4) by (simp_all add: reliable_database_def)
  note rows = sessionFromRow_fields [OF row(4)]
  have first: "tx_first (dr_sessions D) t_sessions (\<lambda>r. sw_ID r = ID_String i) notFoundOr db = Inr (row, db)"
    by (rule sql_table.tx_first_keyed [where get = t_sessions and k = sw_ID, OF law rel keys row(1)]) (simp_all add: row(2))
  have upd: "tx_updates (dr_sessions D) t_sessions t_sessions_update
        (\<lambda>r. sw_ID r = sw_ID row \<and> sw_RowVersion r = se_RowVersion before) (session_columns s) classifyPersistence db =
      Inr (1, t_sessions_update (\<lambda>_. update_rows (\<lambda>r. sw_ID r = sw_ID row \<and> sw_RowVersion r = se_RowVersion before)
        (session_columns s) (t_sessions db)) db)"
    by (rule sql_table.tx_updates_keyed [where get = t_sessions and k = sw_ID, OF law rel keys row(1)]) (simp_all add: rows)
  obtain nrow where "sessionToRow (dr_marshal D) s = Inr nrow"
    using mar [of "se_RequestedCapabilities s"] by (cases "dr_marshal D (se_RequestedCapabilities s)") (auto simp: sessionToRow_def)
  with first upd row(3,4) m show ?thesis
    unfolding UpdateSession_def by (intro run_tx_commits [OF D]) (simp add: tx_eval)
qed

text \<open>Identifiers and hashes of a package as the program has them: arrays of 16 and of 32 bytes.\<close>

definition package_shape :: "SessionKeyPackage \<Rightarrow> bool" where
  "package_shape v \<longleftrightarrow> list_all wf_id [kp_ID v, kp_SessionID v, kp_IssuerABAEndpointID v, kp_RecipientHCEndpointID v,
     kp_IssuerCredentialID v] \<and> length (kp_ContextHash v) = 32"

lemma package_row_back:
  assumes "package_shape v" "SessionKeyPackage_Validate p q v = None"
  shows "keyPackageFromRow (keyPackageToRow v) = Inr v"
  using assms
  by (auto simp: package_shape_def keyPackageToRow_def keyPackageFromRow_def SessionKeyPackage_Validate_def split: if_splits)

lemma Acknowledge_reliable:
  assumes D: "reliable_database D"
    and keys: "distinct (map sw_ID (t_sessions db))" "distinct (map er_ID (t_endpoints db))" "distinct (map kw_ID (t_packages db))"
    and owner: "requireOwner owner = None" and now: "\<not> IsZeroTime now" "now < kp_ExpiresAt v"
    and v: "package_shape v" "SessionKeyPackage_Validate p q v = None" "kp_Status v = KeyPackageStatusPending"
      "keyPackageToRow v \<in> set (t_packages db)"
    and s: "s \<in> set (t_sessions db)" "sw_ID s = ID_String (kp_SessionID v)" "sw_OwnerUserID s = TrimSpace owner"
      "sw_TenantID s = TrimSpace tenant" "sw_HCEndpointID s = ID_String (kp_RecipientHCEndpointID v)"
    and e: "e \<in> set (t_endpoints db)" "er_ID e = ID_String (kp_RecipientHCEndpointID v)" "er_OwnerUserID e = TrimSpace owner"
      "er_TenantID e = TrimSpace tenant" "er_Status e = EndpointStatusActive"
  shows "\<exists>t. AcknowledgeSessionKeyPackage D (kp_ID v) (kp_RecipientHCEndpointID v) owner tenant now db =
     (Inr (v\<lparr>kp_Status := KeyPackageStatusAcknowledged, kp_AcknowledgedAt := Some now\<rparr>), db\<lparr>t_packages := t\<rparr>)"
proof -
  let ?k = "keyPackageToRow v"
  have laws: "database_laws D" and rel: "reliable (dr_sessions D)" "reliable (dr_endpoints D)" "reliable (dr_packages D)"
    using D by (simp_all add: reliable_database_def)
  have ids: "\<not> IsZero (kp_ID v)" "\<not> IsZero (kp_RecipientHCEndpointID v)" "parseID (ID_String (kp_SessionID v)) = Inr (kp_SessionID v)"
    using v(1,2) by (auto simp: SessionKeyPackage_Validate_def package_shape_def split: if_splits)
  have k: "kw_ID ?k = ID_String (kp_ID v)" "kw_RecipientHCEndpointID ?k = ID_String (kp_RecipientHCEndpointID v)"
    "kw_SessionID ?k = ID_String (kp_SessionID v)" "kw_Status ?k = KeyPackageStatusPending"
    using v(3) by (simp_all add: keyPackageToRow_def)
  have candidate: "tx_first (dr_packages D) t_packages (\<lambda>r. kw_ID r = ID_String (kp_ID v) \<and>
        kw_RecipientHCEndpointID r = ID_String (kp_RecipientHCEndpointID v)) notFoundOr db = Inr (?k, db)"
    by (rule sql_table.tx_first_keyed [where get = t_packages and k = kw_ID, OF database_lawsD(8) [OF laws] rel(3) keys(3) v(4)])
      (simp_all add: k)
  have again: "tx_first (dr_packages D) t_packages (\<lambda>r. kw_ID r = ID_String (kp_ID v) \<and> kw_SessionID r = ID_String (kp_SessionID v) \<and>
        kw_RecipientHCEndpointID r = ID_String (kp_RecipientHCEndpointID v)) notFoundOr db = Inr (?k, db)"
    by (rule sql_table.tx_first_keyed [where get = t_packages and k = kw_ID, OF database_lawsD(8) [OF laws] rel(3) keys(3) v(4)])
      (simp_all add: k)
  have session: "lockKeyPackageSession D (kp_SessionID v) (TrimSpace owner) (TrimSpace tenant) db = Inr (s, db)"
    unfolding lockKeyPackageSession_def
    by (rule sql_table.tx_first_keyed [where get = t_sessions and k = sw_ID, OF database_lawsD(4) [OF laws] rel(1) keys(1) s(1)])
      (simp_all add: s)
  have endpoint: "lockKeyPackageEndpoint D (kp_RecipientHCEndpointID v) (TrimSpace owner) (TrimSpace tenant) db = Inr (e, db)"
    unfolding lockKeyPackageEndpoint_def
    by (rule sql_table.tx_first_keyed [where get = t_endpoints and k = er_ID, OF database_lawsD(1) [OF laws] rel(2) keys(2) e(1)])
      (simp_all add: e)
  have locked: "lock_acknowledged D (kp_ID v) (kp_RecipientHCEndpointID v) (TrimSpace owner) (TrimSpace tenant) db = Inr (?k, db)"
    by (simp add: lock_acknowledged_def tx_eval candidate k ids session s(5) endpoint e(5) again
        requireKeyPackageEndpointActive_def AllowsSessionKeyPackage_def)
  have ack: "SessionKeyPackage_Acknowledge (kp_RecipientHCEndpointID v) now v =
      (None, v\<lparr>kp_Status := KeyPackageStatusAcknowledged, kp_AcknowledgedAt := Some now\<rparr>)"
    using ids(2) v(3) now by (simp add: SessionKeyPackage_Acknowledge_def)
  have upd: "tx_updates (dr_packages D) t_packages t_packages_update
        (\<lambda>r. kw_ID r = ID_String (kp_ID v) \<and> kw_Status r \<in> {KeyPackageStatusPending, KeyPackageStatusDelivered}) f Wrap db =
      Inr (1, t_packages_update (\<lambda>_. update_rows (\<lambda>r. kw_ID r = ID_String (kp_ID v) \<and>
        kw_Status r \<in> {KeyPackageStatusPending, KeyPackageStatusDelivered}) f (t_packages db)) db)" for f
    by (rule sql_table.tx_updates_keyed [where get = t_packages and k = kw_ID, OF database_lawsD(8) [OF laws] rel(3) keys(3) v(4)])
      (simp_all add: k)
  have commit: "dr_commit D x y = None" for x y
    using D by (simp add: reliable_database_def)
  show ?thesis
    by (simp add: AcknowledgeSessionKeyPackage_def run_tx_normalized_def run_tx_def commit tx_eval owner ids now(1) locked
        package_row_back [OF v(1,2)] ack k upd [simplified]) (rule exI, rule refl)
qed

text \<open>What a successful store of a new package has checked.\<close>

lemma fenceKeyPackageSession_noop:
  assumes "database_laws D" "fenceKeyPackageSession D session owner tenant db = Inr (u, db')"
  shows "db' = db"
  using assms(2) unfolding fenceKeyPackageSession_def
  by (auto simp: tx_Inr split: if_splits dest!: sql_table.tx_updatesD [OF database_lawsD(4) [OF assms(1)]])

lemma authorize_key_package_InrD:
  assumes laws: "database_laws D" and ok: "authorize_key_package D owner tenant v db = Inr (u, db')"
  obtains s before e where "db' = db" "s \<in> set (t_sessions db)" "sw_ID s = ID_String (kp_SessionID v)" "sw_OwnerUserID s = owner"
    "sw_TenantID s = tenant" "sw_HCEndpointID s = ID_String (kp_RecipientHCEndpointID v)" "sessionFromRow (dr_unmarshal D) s = Inr before"
    "ValidateNextKeyPackageGeneration before (kp_Generation v) = None"
    "e \<in> set (t_endpoints db)" "er_ID e = ID_String (kp_RecipientHCEndpointID v)" "er_OwnerUserID e = owner" "er_TenantID e = tenant"
    "er_Status e = EndpointStatusActive"
proof -
  obtain s before db1 db2 db3 db4 u1 issuer e cred where
    s: "lockKeyPackageSession D (kp_SessionID v) owner tenant db = Inr (s, db1)" "sessionFromRow (dr_unmarshal D) s = Inr before"
      "\<not> (sw_ABAEndpointID s \<noteq> ID_String (kp_IssuerABAEndpointID v) \<or> sw_HCEndpointID s \<noteq> ID_String (kp_RecipientHCEndpointID v))"
      "ValidateNextKeyPackageGeneration before (kp_Generation v) = None"
      "fenceKeyPackageSession D s owner tenant db1 = Inr (u1, db2)"
    and e: "lockKeyPackageEndpoint D (kp_IssuerABAEndpointID v) owner tenant db2 = Inr (issuer, db3)"
      "lockKeyPackageEndpoint D (kp_RecipientHCEndpointID v) owner tenant db3 = Inr (e, db4)"
      "requireKeyPackageEndpointActive (er_Status e) = None"
      "lockKeyPackageIssuerCredential D (kp_IssuerCredentialID v) (kp_IssuerABAEndpointID v) db4 = Inr (cred, db')"
    using ok unfolding authorize_key_package_def bindT_Inr liftT_Inr guardT_Inr checkT_Inr by blast
  note first = sql_table.tx_firstD [OF database_lawsD(4) [OF laws] s(1) [unfolded lockKeyPackageSession_def]]
    sql_table.tx_firstD [OF database_lawsD(1) [OF laws] e(1) [unfolded lockKeyPackageEndpoint_def]]
    sql_table.tx_firstD [OF database_lawsD(1) [OF laws] e(2) [unfolded lockKeyPackageEndpoint_def]]
    sql_table.tx_firstD [OF database_lawsD(3) [OF laws] e(4) [unfolded lockKeyPackageIssuerCredential_def]]
  moreover have "er_Status e = EndpointStatusActive"
    using e(3) by (auto simp: requireKeyPackageEndpointActive_def AllowsSessionKeyPackage_def split: if_splits)
  ultimately show ?thesis
    using fenceKeyPackageSession_noop [OF laws s(5)] s(2-4) by (intro that [of s before e]) auto
qed

lemma putSessionKeyPackageOnce_stored:
  assumes laws: "database_laws D" and ok: "putSessionKeyPackageOnce D owner tenant v db = (Inr res, db1)"
    and new: "kr_Outcome res = PutKeyPackageStored"
  obtains u where "authorize_key_package D owner tenant v db = Inr (u, db)"
    "db1 = db\<lparr>t_packages := t_packages db @ [keyPackageToRow v]\<rparr>" "\<forall>x \<in> set (t_packages db). \<not> key_package_clash (keyPackageToRow v) x"
proof -
  obtain u db2 where auth: "authorize_key_package D owner tenant v db = Inr (u, db2)"
    and put: "put_key_package_row D v db2 = Inr (Inr res, db1)"
    using ok unfolding putSessionKeyPackageOnce_def check_after_def
    by (cases "run_tx D (bindT (authorize_key_package D owner tenant v) (\<lambda>_. put_key_package_row D v)) db")
      (auto simp: bindE_Inr_iff bindT_Inr dest!: run_tx_success)
  have "db2 = db"
    by (rule authorize_key_package_InrD [OF laws auth])
  from put new obtain n where ins: "tx_create_ignore (dr_packages D) t_packages t_packages_update (keyPackageToRow v) classifyPersistence db2 = Inr (n, db1)" "n = 1"
    unfolding put_key_package_row_def by (auto simp: Let_def tx_Inr split: if_splits)
  with sql_table.tx_create_ignoreD [OF database_lawsD(8) [OF laws] ins(1)] auth \<open>db2 = db\<close> show ?thesis
    by (intro that [of u]) (auto split: if_splits)
qed

lemma PutSessionKeyPackage_stored:
  assumes laws: "\<And>n. database_laws (D n)" and ok: "PutSessionKeyPackage D wait owner tenant v db = (Inr res, db1)"
    and new: "kr_Outcome res = PutKeyPackageStored"
  obtains n u where "requireOwner owner = None" "kp_Status v = KeyPackageStatusPending"
    "SessionKeyPackage_Validate MaxKeyPackageEncapsulatedKeyBytes MaxKeyPackageCiphertextBytes v = None"
    "authorize_key_package (D n) (TrimSpace owner) (TrimSpace tenant) v db = Inr (u, db)"
    "db1 = db\<lparr>t_packages := t_packages db @ [keyPackageToRow v]\<rparr>" "\<forall>x \<in> set (t_packages db). \<not> key_package_clash (keyPackageToRow v) x"
proof -
  let ?once = "\<lambda>n. putSessionKeyPackageOnce (D n) (TrimSpace owner) (TrimSpace tenant) v"
  have run: "sqlite_retry (dr_sqlite (D 0)) ?once wait 0 sqliteAttempts db = (Inr res, db1)"
    and valid: "requireOwner owner = None" "kp_Status v = KeyPackageStatusPending"
      "SessionKeyPackage_Validate MaxKeyPackageEncapsulatedKeyBytes MaxKeyPackageCiphertextBytes v = None"
    using ok unfolding PutSessionKeyPackage_def by (auto split: option.splits if_splits)
  have busy: "db' = db" if "?once n db = (Inl err, db')" "isSQLiteConcurrencyError err" for n err db'
  proof -
    let ?body = "bindT (authorize_key_package (D n) (TrimSpace owner) (TrimSpace tenant) v) (\<lambda>_. put_key_package_row (D n) v)"
    show ?thesis
    proof (cases "run_tx (D n) ?body db")
      case (Pair r d)
      show ?thesis
      proof (cases r)
        case (Inl e)
        with Pair that(1) run_tx_error [of "D n" ?body db] show ?thesis
          by (simp add: putSessionKeyPackageOnce_def check_after_def)
      next
        case (Inr a)
        with Pair that(1) have a: "a = Inl err" "d = db'"
          by (simp_all add: putSessionKeyPackageOnce_def check_after_def)
        with Pair Inr run_tx_success [of "D n" ?body db] obtain u d1 where
          "put_key_package_row (D n) v d1 = Inr (Inl err, db')" by (auto simp: bindT_Inr)
        then have "err = problem CodeConflict"
          unfolding put_key_package_row_def by (auto simp: Let_def tx_Inr split: if_splits)
        with that(2) show ?thesis by (simp add: NewProblem_def)
      qed
    qed
  qed
  have "case (Inr res :: PutKeyPackageResult result) of Inr a \<Rightarrow> \<exists>n. ?once n db = (Inr a, db1) | Inl e \<Rightarrow> db1 = db \<or> (\<exists>n err. ?once n db = (Inl err, db1))"
    by (rule sqlite_retry_cases [OF run]) (rule busy)
  then obtain n where once: "?once n db = (Inr res, db1)" by auto
  obtain u where "authorize_key_package (D n) (TrimSpace owner) (TrimSpace tenant) v db = Inr (u, db)"
    "db1 = db\<lparr>t_packages := t_packages db @ [keyPackageToRow v]\<rparr>" "\<forall>x \<in> set (t_packages db). \<not> key_package_clash (keyPackageToRow v) x"
    by (rule putSessionKeyPackageOnce_stored [OF laws once new]) (rule that)
  with valid show ?thesis by (intro that [of n u])
qed

text \<open>
  C13.  The key exchange completes.  Once a new key package of a session has been stored, by
  whatever attempts on a failing database, its recipient can acknowledge it at any time before it
  expires: on a database that works, the acknowledgement succeeds, and the session is active, in
  the result and in the database, with exactly the generation of the package.
\<close>

theorem key_exchange_completes:
  assumes laws: "\<And>n. database_laws (D' n)" "\<And>n. dr_unmarshal (D' n) = dr_unmarshal D" and D: "reliable_database D"
    and keys: "distinct (map sw_ID (t_sessions db))" "distinct (map er_ID (t_endpoints db))" "distinct (map kw_ID (t_packages db))"
    and v: "package_shape v" and put: "PutSessionKeyPackage D' wait owner tenant v db = (Inr res, db1)"
      "kr_Outcome res = PutKeyPackageStored"
    and now: "\<not> IsZeroTime now" "now < kp_ExpiresAt v"
  shows "\<exists>s db2. AcknowledgeAndActivateSessionKeyPackage D (kp_ID v) (kp_RecipientHCEndpointID v) owner tenant now db1 = (Inr s, db2) \<and>
     se_Status s = SessionStatusActive \<and> se_CurrentKeyGeneration s = kp_Generation v \<and>
     (\<exists>r \<in> set (t_sessions db2). sw_ID r = ID_String (kp_SessionID v) \<and> sw_Status r = SessionStatusActive \<and>
        sw_CurrentKeyGeneration r = kp_Generation v)"
proof -
  obtain n u where valid: "requireOwner owner = None" "kp_Status v = KeyPackageStatusPending"
      "SessionKeyPackage_Validate MaxKeyPackageEncapsulatedKeyBytes MaxKeyPackageCiphertextBytes v = None"
    and auth: "authorize_key_package (D' n) (TrimSpace owner) (TrimSpace tenant) v db = Inr (u, db)"
    and db1: "db1 = db\<lparr>t_packages := t_packages db @ [keyPackageToRow v]\<rparr>"
    and fresh: "\<forall>x \<in> set (t_packages db). \<not> key_package_clash (keyPackageToRow v) x"
    by (rule PutSessionKeyPackage_stored [OF laws(1) put]) (rule that)
  obtain s before e where s: "s \<in> set (t_sessions db)" "sw_ID s = ID_String (kp_SessionID v)" "sw_OwnerUserID s = TrimSpace owner"
      "sw_TenantID s = TrimSpace tenant" "sw_HCEndpointID s = ID_String (kp_RecipientHCEndpointID v)"
      "sessionFromRow (dr_unmarshal D) s = Inr before" "ValidateNextKeyPackageGeneration before (kp_Generation v) = None"
    and e: "e \<in> set (t_endpoints db)" "er_ID e = ID_String (kp_RecipientHCEndpointID v)" "er_OwnerUserID e = TrimSpace owner"
      "er_TenantID e = TrimSpace tenant" "er_Status e = EndpointStatusActive"
    by (rule authorize_key_package_InrD [OF laws(1) auth, unfolded laws(2)]) (rule that)
  have unique: "distinct (map kw_ID (t_packages db1))"
    using keys(3) fresh by (auto simp: db1 key_package_clash_def)
  obtain t where ack: "AcknowledgeSessionKeyPackage D (kp_ID v) (kp_RecipientHCEndpointID v) owner tenant now db1 =
     (Inr (v\<lparr>kp_Status := KeyPackageStatusAcknowledged, kp_AcknowledgedAt := Some now\<rparr>), db1\<lparr>t_packages := t\<rparr>)"
    using Acknowledge_reliable [OF D _ _ unique valid(1) now v valid(3,2) _ _ s(2-5) _ e(2-5)] keys s(1) e(1)
    by (auto simp: db1)
  let ?s = "snd (Session_Activate (kp_Generation v) now before)"
  note act = next_generation_activates [OF s(7), of now]
  have "\<not> IsZero (kp_SessionID v)"
    using valid(3) by (auto simp: SessionKeyPackage_Validate_def split: if_splits)
  then have upd: "UpdateSession D (kp_SessionID v) (activate_unless_active (kp_Generation v) now) (db1\<lparr>t_packages := t\<rparr>) =
      (Inr ?s, db1\<lparr>t_packages := t, t_sessions := update_rows (\<lambda>r. sw_ID r = sw_ID s \<and> sw_RowVersion r = se_RowVersion before)
        (session_columns ?s) (t_sessions db1)\<rparr>)"
    using UpdateSession_reliable [OF D, of "db1\<lparr>t_packages := t\<rparr>" s "kp_SessionID v" before "activate_unless_active (kp_Generation v) now" ?s]
      keys(1) s act by (simp add: db1)
  let ?t = "update_rows (\<lambda>r. sw_ID r = sw_ID s \<and> sw_RowVersion r = se_RowVersion before) (session_columns ?s) (t_sessions db1)"
  have "AcknowledgeAndActivateSessionKeyPackage D (kp_ID v) (kp_RecipientHCEndpointID v) owner tenant now db1 =
      (Inr ?s, db1\<lparr>t_packages := t, t_sessions := ?t\<rparr>)"
    unfolding AcknowledgeAndActivateSessionKeyPackage_def
    by (rule run_tx_commits [OF D]) (simp add: bindT_apply callT_apply ack upd)
  moreover have "\<exists>r \<in> set ?t. sw_ID r = ID_String (kp_SessionID v) \<and> sw_Status r = SessionStatusActive \<and>
      sw_CurrentKeyGeneration r = kp_Generation v"
    using s(1,2) sessionFromRow_fields [OF s(6)] act
    by (intro bexI [of _ "session_columns ?s s"]) (auto simp: session_columns_def set_update_rows db1)
  ultimately show ?thesis
    using act by (intro exI [of _ ?s] exI [of _ "db1\<lparr>t_packages := t, t_sessions := ?t\<rparr>"]) simp
qed

definition exchange_package :: SessionKeyPackage where
  "exchange_package = sample_package\<lparr>kp_ContextHash := sample_hash 1\<rparr>"

definition exchange_db :: db where
  "exchange_db = open_db\<lparr>t_sessions := [sample_session_row SessionStatusWaitingKey], t_credentials := [\<lparr>
     cw_ID = ID_String (sample_id 3), cw_EndpointID = ID_String (sample_id 1), cw_FamilyID = ID_String (sample_id 9),
     cw_TokenHash = hashString (sample_hash 3), cw_SigningJKT = jktB, cw_ScopesJSON = ''session:manage,'',
     cw_Status = CredentialStatusActive, cw_ExpiresAt = 50, cw_RotatedFrom = [], cw_CreatedAt = 1, cw_UpdatedAt = 1,
     cw_RevokedAt = None\<rparr>]\<rparr>"

lemma exchange_package_valid:
  "SessionKeyPackage_Validate MaxKeyPackageEncapsulatedKeyBytes MaxKeyPackageCiphertextBytes exchange_package = None"
  by code_simp

lemma exchange_session:
  "sessionFromRow (dr_unmarshal reference_drivers) (sample_session_row SessionStatusWaitingKey) =
     Inr (sample_session\<lparr>se_Status := SessionStatusWaitingKey\<rparr>)"
  by (simp add: sessionFromRow_def sample_session_row_def sample_session_def reference_drivers_def)

lemma exchange_package_simps [simp]:
  "kp_ID exchange_package = sample_id 8" "kp_SessionID exchange_package = sample_id 7" "kp_Generation exchange_package = 1"
  "kp_IssuerABAEndpointID exchange_package = sample_id 1" "kp_RecipientHCEndpointID exchange_package = sample_id 2"
  "kp_IssuerCredentialID exchange_package = sample_id 3" "kp_Status exchange_package = KeyPackageStatusPending"
  "kp_ExpiresAt exchange_package = 50" "kp_CreatedAt exchange_package = 1"
  by (simp_all add: exchange_package_def sample_package_def)

lemma exchange_row_simps [simp]:
  "sw_ID (sample_session_row st) = ID_String (sample_id 7)" "sw_OwnerUserID (sample_session_row st) = ''u1''"
  "sw_TenantID (sample_session_row st) = []" "sw_ABAEndpointID (sample_session_row st) = ID_String (sample_id 1)"
  "sw_HCEndpointID (sample_session_row st) = ID_String (sample_id 2)"
  "er_CredentialFamilyID (endpointToRow (sample_endpoint jktB jktA)) = ID_String (sample_id 9)"
  "er_SigningJKT (endpointToRow (sample_endpoint jktB jktA)) = jktB"
  by (simp_all add: sample_session_row_def endpointToRow_def sample_endpoint_def)

lemma exchange_authorized: "authorize_key_package reference_drivers ''u1'' [] exchange_package exchange_db = Inr ((), exchange_db)"
  by (simp add: authorize_key_package_def lockKeyPackageSession_def fenceKeyPackageSession_def lockKeyPackageEndpoint_def
      lockKeyPackageIssuerCredential_def exchange_db_def open_db_def empty_db_def tx_eval stmt_defs exchange_session
      ValidateNextKeyPackageGeneration_def requireKeyPackageEndpointActive_def AllowsSessionKeyPackage_def cong: bindT_cong_weak)
     (simp add: sample_session_def)

lemma exchange_stored:
  obtains db1 where "PutSessionKeyPackage (\<lambda>n. reference_drivers) (\<lambda>n. None) ''u1'' [] exchange_package exchange_db =
     (Inr \<lparr>kr_Outcome = PutKeyPackageStored, kr_Package = exchange_package\<rparr>, db1)"
proof -
  have "t_packages exchange_db = []" by (simp add: exchange_db_def open_db_def empty_db_def)
  then have "putSessionKeyPackageOnce reference_drivers ''u1'' [] exchange_package exchange_db =
      (Inr \<lparr>kr_Outcome = PutKeyPackageStored, kr_Package = exchange_package\<rparr>,
       exchange_db\<lparr>t_packages := [keyPackageToRow exchange_package]\<rparr>)"
    by (simp add: putSessionKeyPackageOnce_def check_after_def run_tx_def bindT_apply exchange_authorized put_key_package_row_def
        Let_def returnT_apply stmt_defs)
  then show ?thesis
    by (intro that) (simp add: PutSessionKeyPackage_def exchange_package_valid sqliteAttempts_def numeral_eq_Suc)
qed

lemma reliable_reference: "reliable_database reference_drivers"
  using reference_laws by (auto simp: reliable_database_def) (simp add: reference_drivers_def)

theorem key_exchange_completes_witness:
  "\<exists>db1 s db2. PutSessionKeyPackage (\<lambda>n. reference_drivers) (\<lambda>n. None) ''u1'' [] exchange_package exchange_db =
      (Inr \<lparr>kr_Outcome = PutKeyPackageStored, kr_Package = exchange_package\<rparr>, db1) \<and>
    AcknowledgeAndActivateSessionKeyPackage reference_drivers (sample_id 8) (sample_id 2) ''u1'' [] 5 db1 = (Inr s, db2) \<and>
    se_Status s = SessionStatusActive \<and> se_CurrentKeyGeneration s = 1"
proof -
  obtain db1 where put: "PutSessionKeyPackage (\<lambda>n. reference_drivers) (\<lambda>n. None) ''u1'' [] exchange_package exchange_db =
     (Inr \<lparr>kr_Outcome = PutKeyPackageStored, kr_Package = exchange_package\<rparr>, db1)" by (rule exchange_stored)
  have facts: "distinct (map sw_ID (t_sessions exchange_db))" "distinct (map er_ID (t_endpoints exchange_db))"
      "distinct (map kw_ID (t_packages exchange_db))" "package_shape exchange_package" "\<not> IsZeroTime 5" "5 < kp_ExpiresAt exchange_package"
    by (simp_all add: exchange_db_def open_db_def empty_db_def IsZeroTime_def package_shape_def)
      (simp add: exchange_package_def)
  show ?thesis
    using key_exchange_completes [OF reference_laws refl reliable_reference facts(1-4) put _ facts(5,6)] put by auto
qed

end
