(* ===== verification/Store_Outbox.thy ===== *)
theory Store_Outbox
  imports Store_Keys
begin

section \<open>Delivery from the control outbox\<close>

text \<open>
  Entries are written once, stay as they are until they are completed or cancelled, and are listed
  for their recipient, oldest first, until then.
\<close>

inductive outbox_change :: "controlOutboxRow list \<Rightarrow> controlOutboxRow list \<Rightarrow> bool" where
  add: "\<forall>x \<in> set t. \<not> outbox_clash row x \<Longrightarrow> outbox_change t (t @ [row])"
| settle: "(\<And>r. p r \<Longrightarrow> ow_ID (f r) = ow_ID r \<and> ow_Status (f r) \<in> {ControlOutboxCompleted, ControlOutboxCancelled}) \<Longrightarrow>
     outbox_change t (update_rows p f t)"

lemma PutControlOutbox_InrD:
  assumes laws: "database_laws D" and ok: "PutControlOutbox D v db = (Inr r, db')"
  shows "r = PutControlOutboxStored \<and> ControlOutbox_ValidateNew maxControlOutboxPayloadBytes maxControlOutboxPacketBytes v = None \<and>
       (\<forall>x \<in> set (t_outbox db). \<not> outbox_clash (controlOutboxToRow v) x) \<and> db' = db\<lparr>t_outbox := t_outbox db @ [controlOutboxToRow v]\<rparr> \<or>
     r = PutControlOutboxDuplicate \<and> db' = db"
proof -
  obtain n db1 where ins: "tx_create_ignore (dr_outbox D) t_outbox t_outbox_update (controlOutboxToRow v) classifyPersistence db = Inr (n, db1)"
    and valid: "ControlOutbox_ValidateNew maxControlOutboxPayloadBytes maxControlOutboxPacketBytes v = None"
    and rest: "n = 1 \<and> r = PutControlOutboxStored \<and> db' = db1 \<or> n \<noteq> 1 \<and> r = PutControlOutboxDuplicate \<and> db' = db1"
    using run_tx_success [OF ok [unfolded PutControlOutbox_def]]
    by (auto simp: tx_Inr tx_first_Inr Let_def split: if_splits)
  from sql_table.tx_create_ignoreD [OF database_lawsD(11) [OF laws] ins] rest valid show ?thesis
    by (auto split: if_splits)
qed

lemma CompleteControlOutbox_InrD:
  assumes laws: "database_laws D" and ok: "CompleteControlOutbox D kind c recipient now db = (Inr u, db')"
  shows "db' = db \<or> (\<exists>t. db' = db\<lparr>t_outbox := t\<rparr> \<and> outbox_change (t_outbox db) t)"
proof -
  obtain row before where rest: "(if ob_Status before = ControlOutboxCompleted then returnT ()
     else
       bindT (mutateT (ControlOutbox_Complete now before)) (\<lambda>value.
       bindT (tx_updates (dr_outbox D) t_outbox t_outbox_update
           (\<lambda>r. ow_ID r = ow_ID (row :: controlOutboxRow) \<and> ow_RowVersion r = ob_RowVersion before \<and> ow_Status r = ControlOutboxPending)
           (\<lambda>r. r\<lparr>ow_Status := ob_Status value, ow_CompletedAt := ob_CompletedAt value, ow_UpdatedAt := ob_UpdatedAt value,
                  ow_RowVersion := ob_RowVersion value\<rparr>) classifyPersistence) (\<lambda>affected.
       guardT (affected \<noteq> 1) (problem CodeConflict)))) db = Inr (u, db')"
    using run_tx_success [OF ok [unfolded CompleteControlOutbox_def]]
    unfolding bindT_Inr guardT_Inr liftT_Inr tx_first_Inr by blast
  show ?thesis
  proof (cases "ob_Status before = ControlOutboxCompleted")
    case True
    with rest show ?thesis by (simp add: returnT_Inr)
  next
    case False
    with rest obtain n v where v: "ControlOutbox_Complete now before = (None, v)" and
      upd: "tx_updates (dr_outbox D) t_outbox t_outbox_update
           (\<lambda>r. ow_ID r = ow_ID row \<and> ow_RowVersion r = ob_RowVersion before \<and> ow_Status r = ControlOutboxPending)
           (\<lambda>r. r\<lparr>ow_Status := ob_Status v, ow_CompletedAt := ob_CompletedAt v, ow_UpdatedAt := ob_UpdatedAt v,
                  ow_RowVersion := ob_RowVersion v\<rparr>) classifyPersistence db = Inr (n, db')"
      unfolding if_not_P [OF False] bindT_Inr guardT_Inr mutateT_Inr by blast
    have "ob_Status v = ControlOutboxCompleted"
      using v False by (auto simp: ControlOutbox_Complete_def split: if_splits)
    with sql_table.tx_updatesD [OF database_lawsD(11) [OF laws] upd] show ?thesis
      by (auto intro!: outbox_change.settle)
  qed
qed

lemma CancelSessionControlOutbox_InrD:
  assumes laws: "database_laws D" and ok: "CancelSessionControlOutbox D i now db = (Inr u, db')"
  shows "\<exists>t. db' = db\<lparr>t_outbox := t\<rparr> \<and> outbox_change (t_outbox db) t"
  using run_tx_success [OF ok [unfolded CancelSessionControlOutbox_def]]
  by (auto simp: tx_Inr intro!: outbox_change.settle dest!: sql_table.tx_updatesD [OF database_lawsD(11) [OF laws]])

inductive outbox_history :: "db \<Rightarrow> db \<Rightarrow> bool" where
  put: "database_laws D \<Longrightarrow> PutControlOutbox D v db = (r, db') \<Longrightarrow> outbox_history db db'"
| complete: "database_laws D \<Longrightarrow> CompleteControlOutbox D kind c recipient now db = (r', db') \<Longrightarrow> outbox_history db db'"
| cancel: "database_laws D \<Longrightarrow> CancelSessionControlOutbox D i now db = (r', db') \<Longrightarrow> outbox_history db db'"

lemma outbox_errors:
  "PutControlOutbox D v db = (Inl e, db') \<Longrightarrow> db' = db"
  "CompleteControlOutbox D kind c recipient now db = (Inl e, db') \<Longrightarrow> db' = db"
  "CancelSessionControlOutbox D i now db = (Inl e, db') \<Longrightarrow> db' = db"
  unfolding PutControlOutbox_def CompleteControlOutbox_def CancelSessionControlOutbox_def by (erule run_tx_error)+

lemma outbox_history_change: "outbox_history db db' \<Longrightarrow> outbox_change\<^sup>*\<^sup>* (t_outbox db) (t_outbox db')"
proof (induction rule: outbox_history.induct)
  case (put D v db r db')
  show ?case
  proof (cases r)
    case (Inr out)
    from PutControlOutbox_InrD [OF put(1) put(2) [unfolded Inr]] show ?thesis
    proof (elim disjE conjE)
      assume "\<forall>x \<in> set (t_outbox db). \<not> outbox_clash (controlOutboxToRow v) x"
        and "db' = db\<lparr>t_outbox := t_outbox db @ [controlOutboxToRow v]\<rparr>"
      then show ?thesis using outbox_change.add by (intro r_into_rtranclp) simp
    qed simp
  qed (use put(2) in \<open>auto dest: outbox_errors(1)\<close>)
next
  case (complete D kind c recipient now db r' db')
  show ?case
  proof (cases r')
    case (Inr out)
    with CompleteControlOutbox_InrD [OF complete(1) complete(2) [unfolded Inr]] show ?thesis by (auto intro: r_into_rtranclp)
  qed (use complete(2) in \<open>auto dest: outbox_errors(2)\<close>)
next
  case (cancel D i now db r' db')
  show ?case
  proof (cases r')
    case (Inr out)
    with CancelSessionControlOutbox_InrD [OF cancel(1) cancel(2) [unfolded Inr]] show ?thesis by (auto intro: r_into_rtranclp)
  qed (use cancel(2) in \<open>auto dest: outbox_errors(3)\<close>)
qed

text \<open>An entry is there as it was written, or it is settled.\<close>

definition kept :: "controlOutboxRow \<Rightarrow> controlOutboxRow list \<Rightarrow> bool" where
  "kept row t \<longleftrightarrow> row \<in> set t \<or>
     (\<exists>r \<in> set t. ow_ID r = ow_ID row \<and> ow_Status r \<in> {ControlOutboxCompleted, ControlOutboxCancelled})"

lemma outbox_change_kept: "outbox_change t t' \<Longrightarrow> kept row t \<Longrightarrow> kept row t'"
proof (induction rule: outbox_change.induct)
  case (settle p f t)
  have *: "\<exists>r \<in> set (update_rows p f t). ow_ID r = ow_ID row \<and> ow_Status r \<in> {ControlOutboxCompleted, ControlOutboxCancelled}"
    if "x \<in> set t" "ow_ID x = ow_ID row" "p x \<or> ow_Status x \<in> {ControlOutboxCompleted, ControlOutboxCancelled}" for x
    unfolding bex_update_rows using that settle(1) by (intro bexI [OF _ that(1)]) auto
  from settle(2) show ?case
    unfolding kept_def using * by (cases "p row") (auto simp: set_update_rows)
qed (auto simp: kept_def)

lemma outbox_histories_kept:
  assumes "outbox_history\<^sup>*\<^sup>* db db'" "kept row (t_outbox db)"
  shows "kept row (t_outbox db')"
proof -
  have *: "outbox_change\<^sup>*\<^sup>* t t' \<Longrightarrow> kept row t \<Longrightarrow> kept row t'" for t t'
    by (induction rule: rtranclp_induct) (auto dest: outbox_change_kept)
  show ?thesis
    using assms by (induction rule: rtranclp_induct) (auto dest!: outbox_history_change intro: *)
qed

subsection \<open>The list of pending entries\<close>

definition list_limit :: "int \<Rightarrow> nat" where
  "list_limit limit = nat (if limit \<le> 0 \<or> limit > maxControlOutboxList then maxControlOutboxList else limit)"

lemma outbox_from_rows_set: "outbox_from_rows rows = Inr vs \<Longrightarrow>
    length vs = length rows \<and> (\<forall>row \<in> set rows. \<exists>v \<in> set vs. controlOutboxFromRow row = Inr v) \<and>
    (\<forall>v \<in> set vs. \<exists>row \<in> set rows. controlOutboxFromRow row = Inr v)"
  by (induction rows arbitrary: vs) (fastforce simp: bindE_Inr_iff)+

lemma controlOutboxFromRow_created: "controlOutboxFromRow row = Inr v \<Longrightarrow> ob_CreatedAt v = ow_CreatedAt row"
  by (auto simp: controlOutboxFromRow_def bindE_Inr_iff Let_def split: option.splits)

lemma outbox_row_roundtrip:
  assumes valid: "ControlOutbox_ValidateNew maxControlOutboxPayloadBytes maxControlOutboxPacketBytes v = None"
    and ids: "list_all wf_id [ob_ID v, ob_SessionID v, ob_CorrelationID v, ob_RecipientEndpointID v]"
  shows "controlOutboxFromRow (controlOutboxToRow v) = Inr v"
proof -
  have "list_all real_id [ob_ID v, ob_SessionID v, ob_CorrelationID v, ob_RecipientEndpointID v]"
    using valid ids by (auto simp: ControlOutbox_ValidateNew_def real_id_def split: if_splits)
  then show ?thesis
    using outbox_new_is_stored [OF valid] by (cases v) (simp add: controlOutboxFromRow_def controlOutboxToRow_def Let_def)
qed

lemma ListPendingControlOutbox_InrD:
  assumes laws: "database_laws D" and ok: "ListPendingControlOutbox D recipient now limit db = (Inr vs, db')"
  obtains ys where "outbox_from_rows (take (list_limit limit) ys) = Inr vs" "set ys = {r \<in> set (t_outbox db). pending_for recipient now r}"
    "sorted (map ow_CreatedAt ys)"
proof -
  from run_read_success [OF ok [unfolded ListPendingControlOutbox_def]] obtain rows where
    q: "tx_query (dr_outbox D) t_outbox (pending_for recipient now) (\<lambda>r. ow_CreatedAt r # map of_char (ow_ID r)) (list_limit limit) Wrap db =
        Inr (rows, db)" and vs: "outbox_from_rows rows = Inr vs"
    by (auto simp: tx_Inr tx_query_Inr Let_def list_limit_def)
  from sql_table.tx_queryD [OF database_lawsD(11) [OF laws] q] obtain ys where
    ys: "mset ys = mset (filter (pending_for recipient now) (t_outbox db))" "rows = take (list_limit limit) ys"
      "sorted (map (\<lambda>r. ow_CreatedAt r # map of_char (ow_ID r)) ys)" by blast
  have "sorted (map ow_CreatedAt ys)"
    using ys(3) unfolding sorted_map by (rule sorted_wrt_mono_rel [rotated]) (auto simp: le_less)
  moreover have "set ys = {r \<in> set (t_outbox db). pending_for recipient now r}"
    using ys(1) by (metis set_mset_mset set_filter)
  ultimately show ?thesis using vs ys(2) by (intro that [of ys]) auto
qed

text \<open>
  C19.  What is put into the control outbox reaches its recipient.  Once an entry has been stored,
  then after any history of further entries, completions and cancellations - failing calls
  included - and as long as the entry has not expired, either it has been completed or cancelled,
  or the list of pending entries of its recipient contains it exactly as it was written, or the list
  is full with entries none of which is younger.
\<close>

theorem outbox_delivered_until_settled:
  assumes laws: "database_laws D" "database_laws D'"
    and ids: "list_all wf_id [ob_ID v, ob_SessionID v, ob_CorrelationID v, ob_RecipientEndpointID v]"
    and put: "PutControlOutbox D v db = (Inr PutControlOutboxStored, db1)"
    and history: "outbox_history\<^sup>*\<^sup>* db1 db2"
    and live: "now < ob_ExpiresAt v"
    and listed: "ListPendingControlOutbox D' (ob_RecipientEndpointID v) now limit db2 = (Inr vs, db3)"
  shows "(\<exists>r \<in> set (t_outbox db2). ow_ID r = ID_String (ob_ID v) \<and> ow_Status r \<in> {ControlOutboxCompleted, ControlOutboxCancelled}) \<or>
     v \<in> set vs \<or> (length vs = list_limit limit \<and> (\<forall>w \<in> set vs. ob_CreatedAt w \<le> ob_CreatedAt v))"
proof -
  let ?row = "controlOutboxToRow v"
  from PutControlOutbox_InrD [OF laws(1) put]
  have valid: "ControlOutbox_ValidateNew maxControlOutboxPayloadBytes maxControlOutboxPacketBytes v = None"
    and row: "?row \<in> set (t_outbox db1)" by auto
  obtain ys where ys: "outbox_from_rows (take (list_limit limit) ys) = Inr vs"
      "set ys = {r \<in> set (t_outbox db2). pending_for (ob_RecipientEndpointID v) now r}" "sorted (map ow_CreatedAt ys)"
    by (rule ListPendingControlOutbox_InrD [OF laws(2) listed])
  note vs = outbox_from_rows_set [OF ys(1)]
  have "kept ?row (t_outbox db2)"
    using outbox_histories_kept [OF history] row by (simp add: kept_def)
  then consider "\<exists>r \<in> set (t_outbox db2). ow_ID r = ow_ID ?row \<and> ow_Status r \<in> {ControlOutboxCompleted, ControlOutboxCancelled}"
    | "?row \<in> set (t_outbox db2)" by (auto simp: kept_def)
  then show ?thesis
  proof cases
    case 1
    then show ?thesis by (simp add: controlOutboxToRow_def)
  next
    case 2
    have "pending_for (ob_RecipientEndpointID v) now ?row"
      using valid live by (auto simp: pending_for_def controlOutboxToRow_def ControlOutbox_ValidateNew_def split: if_splits)
    with 2 ys(2) have "?row \<in> set (take (list_limit limit) ys @ drop (list_limit limit) ys)" by simp
    then consider "?row \<in> set (take (list_limit limit) ys)" | "?row \<in> set (drop (list_limit limit) ys)"
      unfolding set_append by blast
    then show ?thesis
    proof cases
      case 1
      with vs outbox_row_roundtrip [OF valid ids] show ?thesis by force
    next
      case 2
      then have "list_limit limit < length ys" by (cases "list_limit limit < length ys") auto
      moreover have "sorted (map ow_CreatedAt (take (list_limit limit) ys @ drop (list_limit limit) ys))" using ys(3) by simp
      then have "ow_CreatedAt r \<le> ow_CreatedAt ?row" if "r \<in> set (take (list_limit limit) ys)" for r
        using 2 that unfolding map_append sorted_append by fastforce
      then have "ow_CreatedAt r \<le> ob_CreatedAt v" if "r \<in> set (take (list_limit limit) ys)" for r
        using that by (simp add: controlOutboxToRow_def)
      ultimately show ?thesis using vs controlOutboxFromRow_created by (fastforce simp: min_def)
    qed
  qed
qed

lemma sample_outbox_new: "ControlOutbox_ValidateNew maxControlOutboxPayloadBytes maxControlOutboxPacketBytes sample_outbox = None"
  by (simp add: ControlOutbox_ValidateNew_def sample_outbox_def not_blank_u1 IsZeroTime_def maxControlOutboxPayloadBytes_def
      maxControlOutboxPacketBytes_def)

lemma sample_outbox_put: "PutControlOutbox reference_drivers sample_outbox empty_db =
    (Inr PutControlOutboxStored, empty_db\<lparr>t_outbox := [controlOutboxToRow sample_outbox]\<rparr>)"
proof -
  have "requireOwner (ob_OwnerUserID sample_outbox) = None" by (simp add: sample_outbox_def requireOwner_def not_blank_u1)
  moreover have "t_outbox empty_db = []" by (simp add: empty_db_def)
  ultimately show ?thesis
    by (simp add: PutControlOutbox_def run_tx_def tx_eval stmt_defs sample_outbox_new Let_def)
qed

lemma sample_outbox_listed: "\<exists>vs db'. ListPendingControlOutbox reference_drivers (sample_id 1) 5 10
    (empty_db\<lparr>t_outbox := [controlOutboxToRow sample_outbox]\<rparr>) = (Inr vs, db') \<and> length vs = 1"
proof -
  have "controlOutboxFromRow (controlOutboxToRow sample_outbox) = Inr sample_outbox"
    by (rule outbox_row_roundtrip [OF sample_outbox_new]) (simp add: sample_outbox_def)
  moreover have "pending_for (sample_id 1) 5 (controlOutboxToRow sample_outbox)"
    by (simp add: pending_for_def controlOutboxToRow_def sample_outbox_def)
  ultimately show ?thesis
    by (simp add: ListPendingControlOutbox_def run_read_def tx_eval tx_query_def IsZeroTime_def Let_def maxControlOutboxList_def
        cong: bindT_cong_weak)
qed

theorem outbox_delivered_until_settled_witness:
  "\<exists>vs db'. ListPendingControlOutbox reference_drivers (sample_id 1) 5 10
     (empty_db\<lparr>t_outbox := [controlOutboxToRow sample_outbox]\<rparr>) = (Inr vs, db') \<and> sample_outbox \<in> set vs"
proof -
  obtain vs db' where run: "ListPendingControlOutbox reference_drivers (sample_id 1) 5 10
    (empty_db\<lparr>t_outbox := [controlOutboxToRow sample_outbox]\<rparr>) = (Inr vs, db')" "length vs = 1"
    using sample_outbox_listed by blast
  have v: "list_all wf_id [ob_ID sample_outbox, ob_SessionID sample_outbox, ob_CorrelationID sample_outbox, ob_RecipientEndpointID sample_outbox]"
      "5 < ob_ExpiresAt sample_outbox" "ob_RecipientEndpointID sample_outbox = sample_id 1" "ow_Status (controlOutboxToRow sample_outbox) = ControlOutboxPending"
    by (simp_all add: sample_outbox_def controlOutboxToRow_def)
  from outbox_delivered_until_settled [OF reference_laws reference_laws v(1) sample_outbox_put rtranclp.rtrancl_refl v(2), unfolded v(3), OF run(1)]
  show ?thesis using run v(4) by (auto simp: list_limit_def maxControlOutboxList_def)
qed

end
