(* ===== verification/Wire_Messages.thy ===== *)
theory Wire_Messages
  imports Sha256 Text_Formats Opaque_Id Domain_Model
begin

section \<open>Messages of the wire protocol\<close>

text \<open>
  The messages of \<open>protocol/awpv1/wire.pb.go\<close> that the gateway reads or writes, as records with
  the fields of the generated structures.  An enumeration of the protocol is a 32-bit integer on the
  wire, also one without a name, and an \<^verbatim>\<open>int64\<close> is a \<^typ>\<open>64 word\<close> read with \<^const>\<open>sint\<close>.
  Encoding and decoding a packet (\<^verbatim>\<open>google.golang.org/protobuf\<close>) is a parameter of the
  operations that use it.
\<close>

type_synonym u32 = "32 word"
type_synonym i64 = "64 word"

record SequenceRangeMsg =
  wr_Start :: u64
  wr_End :: u64

record EncryptedFrameMsg =
  we_CryptoSuiteId :: u32
  we_FrameType :: u32
  we_Flags :: u32
  we_MessageId :: "byte list"
  we_ChannelId :: "byte list"
  we_SessionId :: "byte list"
  we_SenderEndpointId :: "byte list"
  we_ReceiverEndpointId :: "byte list"
  we_Direction :: u32
  we_Sequence :: u64
  we_KeyGeneration :: u64
  we_KeyId :: "byte list"
  we_CreatedAtMs :: i64
  we_Ciphertext :: "byte list"
  we_Signature :: "byte list"

record ControlFrameMsg =
  wc_MessageId :: "byte list"
  wc_SenderEndpointId :: "byte list"
  wc_ReceiverEndpointId :: "byte list"
  wc_ControlSequence :: u64
  wc_CreatedAtMs :: i64
  wc_Type :: u32
  wc_Payload :: "byte list"
  wc_Signature :: "byte list"

record AckFrameMsg =
  wa_AckId :: "byte list"
  wa_ChannelId :: "byte list"
  wa_SessionId :: "byte list"
  wa_EndpointId :: "byte list"
  wa_AcknowledgedDirection :: u32
  wa_HighestContiguousSequence :: u64
  wa_ReceivedRanges :: "SequenceRangeMsg list"
  wa_KeyGeneration :: u64
  wa_CreatedAtMs :: i64
  wa_Signature :: "byte list"

record ErrorFrameMsg =
  wx_ErrorId :: "byte list"
  wx_RelatedMessageId :: "byte list"
  wx_Code :: u32
  wx_Retryable :: bool
  wx_RetryAfterMs :: u32
  wx_SafeMessage :: string
  wx_Signature :: "byte list"

record ServerChallengeMsg =
  wh_ConnectionId :: "byte list"
  wh_ConnectionGeneration :: u64
  wh_ServerNonce :: "byte list"
  wh_ServerTimeMs :: i64
  wh_TrustManifestRevision :: u64
  wh_CredentialStatusRevision :: u64
  wh_ServerSignature :: "byte list"

record ChallengeResponseMsg =
  wp_ConnectionId :: "byte list"
  wp_ConnectionGeneration :: u64
  wp_EndpointId :: "byte list"
  wp_CredentialSerial :: "byte list"
  wp_ClientNonce :: "byte list"
  wp_LastManifestRevision :: u64
  wp_LastCredentialStatusRevision :: u64
  wp_EndpointSignature :: "byte list"

record ConnectionReadyMsg =
  wy_ConnectionId :: "byte list"
  wy_ConnectionGeneration :: u64
  wy_FencingToken :: "byte list"
  wy_ReadyAtMs :: i64
  wy_MaxPacketBytes :: u32
  wy_MaxInflightFrames :: u32
  wy_HeartbeatIntervalMs :: u32
  wy_ServerSignature :: "byte list"

datatype wire_body =
    NoBody
  | ServerChallengeBody ServerChallengeMsg
  | ChallengeResponseBody ChallengeResponseMsg
  | ConnectionReadyBody ConnectionReadyMsg
  | ControlBody ControlFrameMsg
  | EncryptedBody EncryptedFrameMsg
  | AckBody AckFrameMsg
  | ErrorBody ErrorFrameMsg

record WirePacket =
  wk_WireMajor :: u32
  wk_WireMinor :: u32
  wk_PacketId :: "byte list"
  wk_Body :: wire_body

text \<open>Instants: \<^verbatim>\<open>time.UnixMilli\<close> and back; 62135596800 seconds lie between the year 1 and 1970.\<close>

definition UnixMilli :: "i64 \<Rightarrow> time" where
  "UnixMilli ms = (62135596800 * 1000 + sint ms) * 1000000"

definition time_UnixMilli :: "time \<Rightarrow> i64" where
  "time_UnixMilli t = word_of_int (t div 1000000 - 62135596800 * 1000)"

definition Second :: duration where "Second = 1000000000"
definition Minute :: duration where "Minute = 60 * Second"
definition Hour :: duration where "Hour = 60 * Minute"

subsection \<open>Big-endian integers\<close>

definition putUint16 :: "16 word \<Rightarrow> byte list" where "putUint16 v = be_bytes 2 (uint v)"
definition putUint32 :: "u32 \<Rightarrow> byte list" where "putUint32 v = be_bytes 4 (uint v)"
definition putUint64 :: "u64 \<Rightarrow> byte list" where "putUint64 v = be_bytes 8 (uint v)"

lemma be_bytes_Suc: "be_bytes (Suc n) v = of_int (v div 256 ^ n) # be_bytes n v"
proof -
  have "be_bytes (Suc n) v = map (\<lambda>i. of_int (v div 256 ^ (Suc n - 1 - i))) (0 # map Suc [0..<n])"
    by (simp only: be_bytes_def upt_conv_Cons zero_less_Suc map_Suc_upt)
  also have "\<dots> = of_int (v div 256 ^ n) # be_bytes n v"
    by (simp add: be_bytes_def comp_def)
  finally show ?thesis .
qed

lemma be_bytes_eqD: "be_bytes n v = be_bytes n w \<Longrightarrow> v mod 256 ^ n = w mod 256 ^ n"
proof (induction n)
  case (Suc n)
  have digit: "x mod 256 ^ Suc n = (x div 256 ^ n) mod 256 * 256 ^ n + x mod 256 ^ n" for x :: int
    using mod_mult2_eq' [of x "256 ^ n" 256] by (simp add: mult.commute)
  from Suc.prems have "(of_int (v div 256 ^ n) :: byte) = of_int (w div 256 ^ n)" "be_bytes n v = be_bytes n w"
    by (simp_all add: be_bytes_Suc)
  then have "v div 256 ^ n mod 256 = w div 256 ^ n mod 256" "v mod 256 ^ n = w mod 256 ^ n"
    using Suc.IH by (simp_all add: word_of_int_eq_iff take_bit_eq_mod)
  then show ?case unfolding digit by simp
qed simp

lemma put_inject [simp]:
  "putUint16 a = putUint16 b \<longleftrightarrow> a = b" "putUint32 c = putUint32 d \<longleftrightarrow> c = d" "putUint64 e = putUint64 f \<longleftrightarrow> e = f"
proof -
  have *: "x = y" if "be_bytes n (uint x) = be_bytes n (uint y)" "(256 :: int) ^ n = 2 ^ LENGTH('a)" for n and x y :: "'a :: len word"
    using be_bytes_eqD [OF that(1)] that(2) uint_lt2p [of x] uint_lt2p [of y] by (simp add: mod_pos_pos_trivial word_uint_eq_iff)
  show "putUint16 a = putUint16 b \<longleftrightarrow> a = b" "putUint32 c = putUint32 d \<longleftrightarrow> c = d" "putUint64 e = putUint64 f \<longleftrightarrow> e = f"
    by (auto simp: putUint16_def putUint32_def putUint64_def dest!: *)
qed

lemma length_put [simp]: "length (putUint16 a) = 2" "length (putUint32 c) = 4" "length (putUint64 e) = 8"
  by (simp_all add: putUint16_def putUint32_def putUint64_def)

text \<open>The bytes of a string literal.\<close>

definition bytes_of :: "string \<Rightarrow> byte list" where
  "bytes_of s = map of_char s"

lemma bytes_of_inject [simp]: "bytes_of a = bytes_of b \<longleftrightarrow> a = b"
proof -
  have "inj (of_char :: char \<Rightarrow> byte)"
  proof (rule injI)
    fix c d :: char assume "(of_char c :: byte) = of_char d"
    then have "(of_nat (of_char c) :: byte) = of_nat (of_char d)" by (simp add: of_nat_of_char)
    then show "c = d"
      by (simp add: word_of_nat_eq_iff take_bit_eq_mod)
  qed
  then show ?thesis by (simp add: bytes_of_def inj_map_eq_map)
qed

lemma length_bytes_of [simp]: "length (bytes_of s) = length s"
  by (simp add: bytes_of_def)

end
