(* ===== verification/Signed_Transcripts.thy ===== *)
theory Signed_Transcripts
  imports Wire_Messages "HOL-Library.Sublist"
begin

section \<open>What is signed\<close>

text \<open>
  The byte strings that endpoints and the platform sign: \<open>gateway/transcript.go\<close>, \<open>gateway/frame.go\<close>
  (additional data and signature input of a frame, channel identifiers), \<open>gateway/ack.go\<close>,
  \<open>gateway/error_frame.go\<close>, \<open>gateway/key_package.go\<close>, \<open>registration/transcript.go\<close> and the
  transcripts of \<open>enrollment/service.go\<close>.  They are never decoded: the verifier rebuilds them from
  the fields it received.  So a signature says what it is taken to say only if no two messages, of
  one kind or of two, share a transcript.
\<close>

definition protocolName :: string where "protocolName = ''mss.awp.v1''"
definition maxWirePacketBytes :: nat where "maxWirePacketBytes = 2 ^ 20"
definition maxAckRanges :: nat where "maxAckRanges = 32"

subsection \<open>The connection handshake and control frames\<close>

definition serverChallengeTranscript ::
    "byte list \<Rightarrow> u64 \<Rightarrow> byte list \<Rightarrow> i64 \<Rightarrow> u64 \<Rightarrow> u64 \<Rightarrow> byte list \<Rightarrow> byte list result" where
  "serverChallengeTranscript connectionID connectionGeneration serverNonce serverTimeMS manifestRevision credentialRevision endpointID =
     (if length connectionID \<noteq> 16 \<or> connectionGeneration = 0 \<or> length serverNonce \<noteq> 32 \<or> length endpointID \<noteq> 16
      then Inl Plain
      else Inr (bytes_of ''mss-awp-server-challenge-v1'' @ connectionID @ putUint64 connectionGeneration @ serverNonce @
        putUint64 serverTimeMS @ putUint64 manifestRevision @ putUint64 credentialRevision @ endpointID))"

definition clientChallengeTranscript ::
    "byte list \<Rightarrow> u64 \<Rightarrow> byte list \<Rightarrow> byte list \<Rightarrow> byte list \<Rightarrow> byte list \<Rightarrow> string \<Rightarrow> u64 \<Rightarrow> u64 \<Rightarrow> byte list result" where
  "clientChallengeTranscript connectionID connectionGeneration serverNonce clientNonce endpointID credentialID subprotocol
       manifestRevision credentialRevision =
     (if length connectionID \<noteq> 16 \<or> connectionGeneration = 0 \<or> length serverNonce \<noteq> 32 \<or> length clientNonce \<noteq> 32 \<or>
         length endpointID \<noteq> 16 \<or> length credentialID \<noteq> 16 \<or> subprotocol \<noteq> protocolName
      then Inl Plain
      else Inr (bytes_of ''mss-awp-client-challenge-v1'' @ connectionID @ putUint64 connectionGeneration @ serverNonce @
        clientNonce @ endpointID @ credentialID @ bytes_of subprotocol @ putUint64 manifestRevision @ putUint64 credentialRevision))"

definition connectionReadyTranscript ::
    "byte list \<Rightarrow> u64 \<Rightarrow> byte list \<Rightarrow> i64 \<Rightarrow> u32 \<Rightarrow> u32 \<Rightarrow> u32 \<Rightarrow> byte list \<Rightarrow> byte list result" where
  "connectionReadyTranscript connectionID connectionGeneration fencingToken readyAtMS maxPacketBytes maxInflightFrames
       heartbeatIntervalMS endpointID =
     (if length connectionID \<noteq> 16 \<or> connectionGeneration = 0 \<or> length fencingToken \<noteq> 32 \<or> length endpointID \<noteq> 16 \<or>
         maxPacketBytes = 0 \<or> maxInflightFrames = 0 \<or> heartbeatIntervalMS = 0
      then Inl Plain
      else Inr (bytes_of ''mss-awp-connection-ready-v1'' @ connectionID @ putUint64 connectionGeneration @ fencingToken @
        putUint64 readyAtMS @ putUint32 maxPacketBytes @ putUint32 maxInflightFrames @ putUint32 heartbeatIntervalMS @ endpointID))"

definition controlTranscript ::
    "byte list \<Rightarrow> byte list \<Rightarrow> byte list \<Rightarrow> u64 \<Rightarrow> i64 \<Rightarrow> u32 \<Rightarrow> byte list \<Rightarrow> byte list result" where
  "controlTranscript messageID senderEndpointID receiverEndpointID sequence createdAtMS controlType payload =
     (if length messageID \<noteq> 16 \<or> length senderEndpointID \<noteq> 16 \<or> length receiverEndpointID \<noteq> 16 \<or>
         sequence = 0 \<or> controlType = 0 \<or> length payload = 0 \<or> length payload > maxWirePacketBytes
      then Inl Plain
      else Inr (bytes_of ''mss-awp-control-v1'' @ messageID @ senderEndpointID @ receiverEndpointID @ putUint64 sequence @
        putUint64 createdAtMS @ putUint32 controlType @ putUint32 (of_nat (length payload)) @ payload))"

subsection \<open>Encrypted frames, acknowledgements and error frames\<close>

definition frameAAD :: "EncryptedFrameMsg \<Rightarrow> byte list result" where
  "frameAAD frame =
     (if length (we_MessageId frame) \<noteq> 16 \<or> length (we_ChannelId frame) \<noteq> 16 \<or> length (we_SessionId frame) \<noteq> 16 \<or>
         length (we_SenderEndpointId frame) \<noteq> 16 \<or> length (we_ReceiverEndpointId frame) \<noteq> 16 \<or> length (we_KeyId frame) \<noteq> 16
      then Inl Plain
      else Inr (bytes_of ''AWP1'' @ putUint16 1 @ putUint16 0 @ putUint16 (ucast (we_CryptoSuiteId frame)) @
        putUint16 (ucast (we_FrameType frame)) @ putUint32 (we_Flags frame) @ we_MessageId frame @ we_ChannelId frame @
        we_SessionId frame @ we_SenderEndpointId frame @ we_ReceiverEndpointId frame @ [ucast (we_Direction frame)] @
        replicate 7 0 @ putUint64 (we_Sequence frame) @ putUint64 (we_KeyGeneration frame) @ we_KeyId frame @
        putUint64 (we_CreatedAtMs frame) @ putUint32 (of_nat (length (we_Ciphertext frame)))))"

definition frameSignatureInput :: "byte list \<Rightarrow> byte list \<Rightarrow> byte list" where
  "frameSignatureInput aad ciphertext = bytes_of ''mss-awp-frame-signature-v1'' @ aad @ ciphertext"

definition sessionChannelID :: "ID \<Rightarrow> ID \<Rightarrow> ID \<Rightarrow> ID result" where
  "sessionChannelID sessionID abaEndpointID hcEndpointID =
     (if IsZero sessionID \<or> IsZero abaEndpointID \<or> IsZero hcEndpointID \<or> abaEndpointID = hcEndpointID then Inl Plain
      else Inr (take 16 (sha256 (bytes_of ''mss-awp-channel-v1'' @ sessionID @ abaEndpointID @ hcEndpointID))))"

definition range_bytes :: "SequenceRangeMsg \<Rightarrow> byte list" where
  "range_bytes r = putUint64 (wr_Start r) @ putUint64 (wr_End r)"

definition ackTranscript :: "AckFrameMsg \<Rightarrow> byte list result" where
  "ackTranscript ack =
     (if length (wa_AckId ack) \<noteq> 16 \<or> length (wa_ChannelId ack) \<noteq> 16 \<or> length (wa_SessionId ack) \<noteq> 16 \<or>
         length (wa_EndpointId ack) \<noteq> 16 \<or> length (wa_ReceivedRanges ack) > maxAckRanges
      then Inl Plain
      else Inr (bytes_of ''mss-awp-ack-v1'' @ wa_AckId ack @ wa_ChannelId ack @ wa_SessionId ack @ wa_EndpointId ack @
        [ucast (wa_AcknowledgedDirection ack)] @ replicate 7 0 @ putUint64 (wa_HighestContiguousSequence ack) @
        putUint64 (wa_KeyGeneration ack) @ putUint64 (wa_CreatedAtMs ack) @
        putUint32 (of_nat (length (wa_ReceivedRanges ack))) @ concat (map range_bytes (wa_ReceivedRanges ack))))"

text \<open>
  \<^verbatim>\<open>unicode.IsControl\<close>: the characters up to U+001F and from U+007F to U+009F; the latter are
  the byte C2 and a second byte up to 9F.
\<close>

fun hasControl :: "string \<Rightarrow> bool" where
  "hasControl [] = False"
| "hasControl (c # s) =
     (code c < 32 \<or> code c = 127 \<or> (code c = 194 \<and> (case s of [] \<Rightarrow> False | d # _ \<Rightarrow> 128 \<le> code d \<and> code d \<le> 159)) \<or> hasControl s)"

definition errorFrameTranscript :: "ErrorFrameMsg \<Rightarrow> byte list result" where
  "errorFrameTranscript frame =
     (if length (wx_ErrorId frame) \<noteq> 16 \<or> length (wx_RelatedMessageId frame) \<noteq> 16 \<or> sint (wx_Code frame) \<le> 0 \<or>
         length (wx_SafeMessage frame) = 0 \<or> length (wx_SafeMessage frame) > 256 \<or> \<not> ValidString (wx_SafeMessage frame) \<or>
         hasControl (wx_SafeMessage frame) \<or> (\<not> wx_Retryable frame \<and> wx_RetryAfterMs frame \<noteq> 0)
      then Inl Plain
      else Inr (bytes_of ''mss-awp-error-v1'' @ wx_ErrorId frame @ wx_RelatedMessageId frame @ putUint32 (wx_Code frame) @
        [if wx_Retryable frame then 1 else 0] @ [0, 0, 0] @ putUint32 (wx_RetryAfterMs frame) @
        putUint32 (of_nat (length (wx_SafeMessage frame))) @ bytes_of (wx_SafeMessage frame)))"

subsection \<open>Key packages\<close>

definition keyPackageSuiteID :: "16 word" where "keyPackageSuiteID = 1"
definition keyPackageSuiteName :: string where "keyPackageSuiteName = ''MSS-AWP-SUITE-0001''"

definition keyPackageInfo :: "byte list \<Rightarrow> u64 \<Rightarrow> byte list \<Rightarrow> byte list \<Rightarrow> u64 \<Rightarrow> byte list result" where
  "keyPackageInfo sessionID generation abaEndpointID hcEndpointID policyRevision =
     (if length sessionID \<noteq> 16 \<or> generation = 0 \<or> length abaEndpointID \<noteq> 16 \<or> length hcEndpointID \<noteq> 16 \<or>
         abaEndpointID = hcEndpointID \<or> policyRevision = 0 then Inl Plain
      else let output = bytes_of ''mss-key-package-v1'' @ sessionID @ putUint64 generation @ abaEndpointID @ hcEndpointID @
             [0, ucast keyPackageSuiteID] @ putUint64 policyRevision
           in if length output \<noteq> 84 then Inl Plain else Inr output)"

definition keyPackageEnvelopeTranscript ::
    "byte list \<Rightarrow> byte list \<Rightarrow> u64 \<Rightarrow> byte list \<Rightarrow> byte list \<Rightarrow> byte list \<Rightarrow> u64 \<Rightarrow> i64 \<Rightarrow> i64 \<Rightarrow> byte list \<Rightarrow> byte list \<Rightarrow>
     byte list result" where
  "keyPackageEnvelopeTranscript keyPackageID sessionID generation abaEndpointID hcEndpointID credentialID policyRevision
       notBeforeMS expiresAtMS enc ciphertext =
     (if length keyPackageID \<noteq> 16 \<or> length sessionID \<noteq> 16 \<or> generation = 0 \<or> length abaEndpointID \<noteq> 16 \<or>
         length hcEndpointID \<noteq> 16 \<or> length credentialID \<noteq> 16 \<or> policyRevision = 0 \<or> sint notBeforeMS \<le> 0 \<or>
         sint expiresAtMS \<le> sint notBeforeMS \<or> length enc \<noteq> 65 \<or> length ciphertext = 0 \<or> length ciphertext > 16 * 1024
      then Inl Plain
      else Inr (bytes_of ''mss-key-package-envelope-v1'' @ keyPackageID @ sessionID @ putUint64 generation @ abaEndpointID @
        hcEndpointID @ credentialID @ [0, ucast keyPackageSuiteID] @ putUint64 policyRevision @ putUint64 notBeforeMS @
        putUint64 expiresAtMS @ putUint32 (of_nat (length enc)) @ enc @ putUint32 (of_nat (length ciphertext)) @ ciphertext))"

subsection \<open>Registration and enrollment\<close>

text \<open>
  \<^verbatim>\<open>base64.RawURLEncoding.Strict()\<close> also rejects a last character with unused bits that are
  not zero.
\<close>

definition strict_tail :: "nat list \<Rightarrow> bool" where
  "strict_tail vs \<longleftrightarrow> (length vs mod 4 = 2 \<longrightarrow> last vs mod 16 = 0) \<and> (length vs mod 4 = 3 \<longrightarrow> last vs mod 4 = 0)"

definition RawURLDecodeStrict :: "string \<Rightarrow> byte list option" where
  "RawURLDecodeStrict s = (case b64_values s of
       None \<Rightarrow> None
     | Some vs \<Rightarrow> if strict_tail vs then b64_quanta vs else None)"

definition decodeFixed :: "string \<Rightarrow> nat \<Rightarrow> byte list result" where
  "decodeFixed text len = (case RawURLDecodeStrict text of
       None \<Rightarrow> Inl Plain
     | Some decoded \<Rightarrow> if length decoded \<noteq> len then Inl Plain else Inr decoded)"

datatype Assurance = AssuranceWebEphemeral | AssuranceWebSoftware | AssuranceOther string

definition encodeAssurance :: "Assurance \<Rightarrow> byte result" where
  "encodeAssurance a = (case a of AssuranceWebEphemeral \<Rightarrow> Inr 1 | AssuranceWebSoftware \<Rightarrow> Inr 2 | _ \<Rightarrow> Inl Plain)"

definition text_bytes :: "string \<Rightarrow> byte list" where
  "text_bytes s = putUint16 (of_nat (length s)) @ bytes_of s"

definition writeText :: "string \<Rightarrow> nat \<Rightarrow> byte list result" where
  "writeText s maxBytes =
     (if \<not> ValidString s \<or> length s = 0 \<or> length s > maxBytes \<or> length s > 65535 then Inl Plain else Inr (text_bytes s))"

definition decodeJKT :: "string \<Rightarrow> byte list result" where
  "decodeJKT s = decodeFixed s 32"

record TranscriptInput =
  ti_ChallengeID :: ID
  ti_Challenge :: "byte list"
  ti_SigningJKT :: string
  ti_KEMJKT :: string
  ti_Origin :: string
  ti_EndpointName :: string
  ti_Assurance :: Assurance
  ti_SoftwareVersion :: string

definition BuildTranscript :: "TranscriptInput \<Rightarrow> byte list result" where
  "BuildTranscript input =
     (if IsZero (ti_ChallengeID input) \<or> length (ti_Challenge input) \<noteq> 32 then Inl Plain
      else bindE (decodeJKT (ti_SigningJKT input)) (\<lambda>signingJKT.
           bindE (decodeJKT (ti_KEMJKT input)) (\<lambda>kemJKT.
           if signingJKT = kemJKT then Inl Plain
           else bindE (encodeAssurance (ti_Assurance input)) (\<lambda>assuranceCode.
           bindE (writeText (ti_Origin input) 512) (\<lambda>origin.
           bindE (writeText (ti_EndpointName input) 120) (\<lambda>name.
           bindE (writeText (ti_SoftwareVersion input) 64) (\<lambda>version.
           Inr (bytes_of (''MSS-HC-REGISTER-V1'' @ [CHR 0x00]) @ ti_ChallengeID input @ ti_Challenge input @ signingJKT @
             kemJKT @ origin @ name @ [assuranceCode] @ version))))))))"

definition StartTranscript :: "byte list \<Rightarrow> string \<Rightarrow> string \<Rightarrow> string \<Rightarrow> string \<Rightarrow> byte list result" where
  "StartTranscript nonce signingJKT kemJKT name version =
     (if length nonce \<noteq> 32 \<or> name = [] \<or> length name > 120 \<or> version = [] \<or> length version > 64 then Inl Plain
      else bindE (decodeFixed signingJKT 32) (\<lambda>signing.
           case decodeFixed kemJKT 32 of
             Inl _ \<Rightarrow> Inl Plain
           | Inr kem \<Rightarrow> if signing = kem then Inl Plain
               else Inr (bytes_of ''mss-aba-enrollment-start-v1'' @ nonce @ signing @ kem @ text_bytes name @ text_bytes version)))"

definition ConsumeTranscript :: "ID \<Rightarrow> byte list \<Rightarrow> byte list \<Rightarrow> byte list result" where
  "ConsumeTranscript i deviceCode nonce =
     (if IsZero i \<or> length deviceCode \<noteq> 32 \<or> length nonce \<noteq> 32 then Inl Plain
      else Inr (bytes_of ''mss-aba-enrollment-consume-v1'' @ i @ deviceCode @ nonce))"

end
