(* ===== verification/Transcript_Safety.thy ===== *)
theory Transcript_Safety
  imports Signed_Transcripts
begin

section \<open>A signature means one thing\<close>

text \<open>
  All statements that are signed in the system, each with the fields its transcript is built from.
\<close>

datatype statement =
    ServerChallengeSt "byte list" u64 "byte list" i64 u64 u64 "byte list"
  | ClientChallengeSt "byte list" u64 "byte list" "byte list" "byte list" "byte list" string u64 u64
  | ConnectionReadySt "byte list" u64 "byte list" i64 u32 u32 u32 "byte list"
  | ControlSt "byte list" "byte list" "byte list" u64 i64 u32 "byte list"
  | FrameSt EncryptedFrameMsg
  | AckSt AckFrameMsg
  | ErrorSt ErrorFrameMsg
  | KeyEnvelopeSt "byte list" "byte list" u64 "byte list" "byte list" "byte list" u64 i64 i64 "byte list" "byte list"
  | RegistrationSt TranscriptInput
  | EnrollmentStartSt "byte list" string string string string
  | EnrollmentConsumeSt ID "byte list" "byte list"

fun transcript :: "statement \<Rightarrow> byte list result" where
  "transcript (ServerChallengeSt a b c d e f g) = serverChallengeTranscript a b c d e f g"
| "transcript (ClientChallengeSt a b c d e f g h i) = clientChallengeTranscript a b c d e f g h i"
| "transcript (ConnectionReadySt a b c d e f g h) = connectionReadyTranscript a b c d e f g h"
| "transcript (ControlSt a b c d e f g) = controlTranscript a b c d e f g"
| "transcript (FrameSt frame) = bindE (frameAAD frame) (\<lambda>aad. Inr (frameSignatureInput aad (we_Ciphertext frame)))"
| "transcript (AckSt ack) = ackTranscript ack"
| "transcript (ErrorSt frame) = errorFrameTranscript frame"
| "transcript (KeyEnvelopeSt a b c d e f g h i j k) = keyPackageEnvelopeTranscript a b c d e f g h i j k"
| "transcript (RegistrationSt input) = BuildTranscript input"
| "transcript (EnrollmentStartSt a b c d e) = StartTranscript a b c d e"
| "transcript (EnrollmentConsumeSt a b c) = ConsumeTranscript a b c"

text \<open>
  What a statement says.  The signature itself is not part of it; numbers of a protocol enumeration
  are signed in one or two bytes, and a key thumbprint is signed in its decoded form.
\<close>

definition jkt_content :: "string \<Rightarrow> string" where
  "jkt_content s = (case RawURLDecodeStrict s of None \<Rightarrow> s | Some bs \<Rightarrow> map (\<lambda>b. char_of (unat b)) bs)"

fun signed_content :: "statement \<Rightarrow> statement" where
  "signed_content (FrameSt frame) = FrameSt (frame\<lparr>
     we_CryptoSuiteId := ucast (ucast (we_CryptoSuiteId frame) :: 16 word),
     we_FrameType := ucast (ucast (we_FrameType frame) :: 16 word),
     we_Direction := ucast (ucast (we_Direction frame) :: byte), we_Signature := []\<rparr>)"
| "signed_content (AckSt ack) = AckSt (ack\<lparr>
     wa_AcknowledgedDirection := ucast (ucast (wa_AcknowledgedDirection ack) :: byte), wa_Signature := []\<rparr>)"
| "signed_content (ErrorSt frame) = ErrorSt (frame\<lparr>wx_Signature := []\<rparr>)"
| "signed_content (RegistrationSt input) = RegistrationSt (input\<lparr>
     ti_SigningJKT := jkt_content (ti_SigningJKT input), ti_KEMJKT := jkt_content (ti_KEMJKT input)\<rparr>)"
| "signed_content (EnrollmentStartSt a b c d e) = EnrollmentStartSt a (jkt_content b) (jkt_content c) d e"
| "signed_content st = st"

text \<open>Identifiers are arrays of 16 bytes.\<close>

fun wf_statement :: "statement \<Rightarrow> bool" where
  "wf_statement (RegistrationSt input) = wf_id (ti_ChallengeID input)"
| "wf_statement (EnrollmentConsumeSt i c n) = wf_id i"
| "wf_statement st = True"

subsection \<open>No two kinds share a transcript\<close>

fun statement_label :: "statement \<Rightarrow> string" where
  "statement_label (ServerChallengeSt a b c d e f g) = ''mss-awp-server-challenge-v1''"
| "statement_label (ClientChallengeSt a b c d e f g h i) = ''mss-awp-client-challenge-v1''"
| "statement_label (ConnectionReadySt a b c d e f g h) = ''mss-awp-connection-ready-v1''"
| "statement_label (ControlSt a b c d e f g) = ''mss-awp-control-v1''"
| "statement_label (FrameSt frame) = ''mss-awp-frame-signature-v1''"
| "statement_label (AckSt ack) = ''mss-awp-ack-v1''"
| "statement_label (ErrorSt frame) = ''mss-awp-error-v1''"
| "statement_label (KeyEnvelopeSt a b c d e f g h i j k) = ''mss-key-package-envelope-v1''"
| "statement_label (RegistrationSt input) = ''MSS-HC-REGISTER-V1'' @ [CHR 0x00]"
| "statement_label (EnrollmentStartSt a b c d e) = ''mss-aba-enrollment-start-v1''"
| "statement_label (EnrollmentConsumeSt a b c) = ''mss-aba-enrollment-consume-v1''"

lemmas transcript_defs = serverChallengeTranscript_def clientChallengeTranscript_def connectionReadyTranscript_def
  controlTranscript_def frameSignatureInput_def ackTranscript_def errorFrameTranscript_def
  keyPackageEnvelopeTranscript_def ConsumeTranscript_def

lemma StartTranscript_InrD:
  assumes "StartTranscript nonce s k name version = Inr m"
  obtains sb kb where "decodeFixed s 32 = Inr sb" "decodeFixed k 32 = Inr kb" "length nonce = 32" "length name \<le> 120" "length version \<le> 64"
    "m = bytes_of ''mss-aba-enrollment-start-v1'' @ nonce @ sb @ kb @ text_bytes name @ text_bytes version"
  using assms by (cases "decodeFixed k 32") (auto simp: StartTranscript_def bindE_Inr_iff split: if_splits)

lemma writeText_InrD: "writeText s n = Inr bs \<Longrightarrow> bs = text_bytes s \<and> length s < 65536"
  by (auto simp: writeText_def split: if_splits)

lemma BuildTranscript_InrD:
  assumes "BuildTranscript input = Inr m"
  obtains sb kb code where "decodeFixed (ti_SigningJKT input) 32 = Inr sb" "decodeFixed (ti_KEMJKT input) 32 = Inr kb"
    "encodeAssurance (ti_Assurance input) = Inr code" "length (ti_Challenge input) = 32"
    "length (ti_Origin input) < 65536" "length (ti_EndpointName input) < 65536"
    "m = bytes_of (''MSS-HC-REGISTER-V1'' @ [CHR 0x00]) @ ti_ChallengeID input @ ti_Challenge input @ sb @ kb @
       text_bytes (ti_Origin input) @ text_bytes (ti_EndpointName input) @ [code] @ text_bytes (ti_SoftwareVersion input)"
  using assms by (auto simp: BuildTranscript_def decodeJKT_def bindE_Inr_iff split: if_splits dest!: writeText_InrD)

lemma transcript_labelled: "transcript st = Inr m \<Longrightarrow> \<exists>rest. m = bytes_of (statement_label st) @ rest"
  by (cases st) (auto simp: transcript_defs bindE_Inr_iff split: if_splits elim!: StartTranscript_InrD BuildTranscript_InrD)

lemma bytes_of_prefixD: "bytes_of a @ x = bytes_of b @ y \<Longrightarrow> length a \<le> length b \<Longrightarrow> prefix a b"
proof -
  assume eq: "bytes_of a @ x = bytes_of b @ y" and le: "length a \<le> length b"
  from arg_cong [OF eq, of "take (length a)"] le have "bytes_of a = bytes_of (take (length a) b)"
    by (simp add: bytes_of_def take_map)
  then show ?thesis by (metis bytes_of_inject take_is_prefix)
qed

lemma labels_prefix_free: "prefix (statement_label a) (statement_label b) \<Longrightarrow> statement_label a = statement_label b"
  by (cases a; cases b) simp_all

lemma transcript_same_label:
  assumes "transcript a = Inr m" "transcript b = Inr m"
  shows "statement_label a = statement_label b"
proof -
  from assms obtain x y where "m = bytes_of (statement_label a) @ x" "m = bytes_of (statement_label b) @ y"
    using transcript_labelled by meson
  then have "prefix (statement_label a) (statement_label b) \<or> prefix (statement_label b) (statement_label a)"
    using bytes_of_prefixD by (metis nat_le_linear)
  then show ?thesis using labels_prefix_free by metis
qed

subsection \<open>Within a kind\<close>

lemma text_field:
  assumes "length a < 65536" "length b < 65536"
  shows "text_bytes a @ x = text_bytes b @ y \<longleftrightarrow> a = b \<and> x = y"
proof -
  have "length a = length b" if "(of_nat (length a) :: 16 word) = of_nat (length b)"
    using that assms by (simp add: word_of_nat_eq_iff take_bit_eq_mod)
  then show ?thesis by (auto simp: text_bytes_def append_eq_append_conv)
qed

lemma text_bytes_inject [simp]: "text_bytes a = text_bytes b \<longleftrightarrow> a = b"
proof
  assume eq: "text_bytes a = text_bytes b"
  from arg_cong [OF eq, of length] have "length a = length b" by (simp add: text_bytes_def)
  with eq show "a = b" by (simp add: text_bytes_def)
qed simp

lemma range_bytes_eq [simp]: "range_bytes a @ x = range_bytes b @ y \<longleftrightarrow> a = b \<and> x = y"
  by (auto simp: range_bytes_def append_eq_append_conv)

lemma ranges_eq: "length rs = length ss \<Longrightarrow> concat (map range_bytes rs) = concat (map range_bytes ss) \<Longrightarrow> rs = ss"
  by (induction rs ss rule: list_induct2) auto

lemma small_lengths:
  "length a \<le> 32 \<Longrightarrow> length b \<le> 32 \<Longrightarrow> (of_nat (length a) :: u32) = of_nat (length b) \<longleftrightarrow> length a = length b"
  by (auto simp: word_of_nat_eq_iff take_bit_eq_mod)

lemma b256_inject: "map (\<lambda>b. char_of (unat (b :: byte)) :: char) bs = map (\<lambda>b. char_of (unat b)) cs \<longleftrightarrow> bs = cs"
proof -
  have "inj (\<lambda>b :: byte. char_of (unat b) :: char)"
    by (rule injI) (metis char_of_eq_iff unat_byte_less of_char_of mod_less word_unat_eq_iff)
  then show ?thesis by (simp add: inj_map_eq_map)
qed

lemma decodeFixed_jkt: "decodeFixed s n = Inr bs \<Longrightarrow> jkt_content s = map (\<lambda>b. char_of (unat b)) bs \<and> length bs = n"
  by (auto simp: decodeFixed_def jkt_content_def split: option.splits if_splits)

lemma frame_content:
  assumes "transcript (FrameSt f) = Inr m" "transcript (FrameSt g) = Inr m"
  shows "signed_content (FrameSt f) = signed_content (FrameSt g)"
  using assms
  by (cases f; cases g)
    (auto simp: frameAAD_def frameSignatureInput_def bindE_Inr_iff append_eq_append_conv split: if_splits)

lemma ack_content:
  assumes "transcript (AckSt f) = Inr m" "transcript (AckSt g) = Inr m"
  shows "signed_content (AckSt f) = signed_content (AckSt g)"
  using assms
  by (cases f; cases g)
    (auto simp: ackTranscript_def append_eq_append_conv small_lengths maxAckRanges_def split: if_splits dest: ranges_eq)

lemma error_content:
  assumes "transcript (ErrorSt f) = Inr m" "transcript (ErrorSt g) = Inr m"
  shows "signed_content (ErrorSt f) = signed_content (ErrorSt g)"
  using assms
  by (cases f; cases g) (auto simp: errorFrameTranscript_def append_eq_append_conv split: if_splits)

lemma envelope_content:
  assumes "transcript (KeyEnvelopeSt a b c d e f g h i j k) = Inr m" "transcript (KeyEnvelopeSt a' b' c' d' e' f' g' h' i' j' k') = Inr m"
  shows "KeyEnvelopeSt a b c d e f g h i j k = KeyEnvelopeSt a' b' c' d' e' f' g' h' i' j' k'"
  using assms by (auto simp: keyPackageEnvelopeTranscript_def append_eq_append_conv split: if_splits)

lemma encodeAssurance_inject: "encodeAssurance a = Inr x \<Longrightarrow> encodeAssurance b = Inr x \<Longrightarrow> a = b"
  by (cases a; cases b) (auto simp: encodeAssurance_def)

lemma registration_content:
  assumes "transcript (RegistrationSt f) = Inr m" "transcript (RegistrationSt g) = Inr m"
    and "wf_id (ti_ChallengeID f)" "wf_id (ti_ChallengeID g)"
  shows "signed_content (RegistrationSt f) = signed_content (RegistrationSt g)"
proof -
  obtain sb kb c where f: "decodeFixed (ti_SigningJKT f) 32 = Inr sb" "decodeFixed (ti_KEMJKT f) 32 = Inr kb"
    "encodeAssurance (ti_Assurance f) = Inr c" "length (ti_Challenge f) = 32"
    "length (ti_Origin f) < 65536" "length (ti_EndpointName f) < 65536"
    "m = bytes_of (''MSS-HC-REGISTER-V1'' @ [CHR 0x00]) @ ti_ChallengeID f @ ti_Challenge f @ sb @ kb @
       text_bytes (ti_Origin f) @ text_bytes (ti_EndpointName f) @ [c] @ text_bytes (ti_SoftwareVersion f)"
    using assms(1) by (auto elim: BuildTranscript_InrD)
  obtain sb' kb' c' where g: "decodeFixed (ti_SigningJKT g) 32 = Inr sb'" "decodeFixed (ti_KEMJKT g) 32 = Inr kb'"
    "encodeAssurance (ti_Assurance g) = Inr c'" "length (ti_Challenge g) = 32"
    "length (ti_Origin g) < 65536" "length (ti_EndpointName g) < 65536"
    "m = bytes_of (''MSS-HC-REGISTER-V1'' @ [CHR 0x00]) @ ti_ChallengeID g @ ti_Challenge g @ sb' @ kb' @
       text_bytes (ti_Origin g) @ text_bytes (ti_EndpointName g) @ [c'] @ text_bytes (ti_SoftwareVersion g)"
    using assms(2) by (auto elim: BuildTranscript_InrD)
  note jkts = decodeFixed_jkt [OF f(1)] decodeFixed_jkt [OF f(2)] decodeFixed_jkt [OF g(1)] decodeFixed_jkt [OF g(2)]
  have "ti_ChallengeID f = ti_ChallengeID g \<and> ti_Challenge f = ti_Challenge g \<and> sb = sb' \<and> kb = kb' \<and>
     ti_Origin f = ti_Origin g \<and> ti_EndpointName f = ti_EndpointName g \<and> c = c' \<and> ti_SoftwareVersion f = ti_SoftwareVersion g"
    using f(4-7) g(4-7) jkts assms(3,4) by (simp add: wf_id_def append_eq_append_conv text_field)
  moreover from this have "ti_Assurance f = ti_Assurance g" using encodeAssurance_inject [OF f(3)] g(3) by simp
  moreover have "jkt_content (ti_SigningJKT f) = jkt_content (ti_SigningJKT g)" "jkt_content (ti_KEMJKT f) = jkt_content (ti_KEMJKT g)"
    using calculation jkts by simp_all
  ultimately show ?thesis by simp
qed

lemma enrollment_content:
  assumes "transcript (EnrollmentStartSt a b c d e) = Inr m" "transcript (EnrollmentStartSt a' b' c' d' e') = Inr m"
  shows "signed_content (EnrollmentStartSt a b c d e) = signed_content (EnrollmentStartSt a' b' c' d' e')"
proof -
  obtain sb kb where f: "decodeFixed b 32 = Inr sb" "decodeFixed c 32 = Inr kb" "length a = 32" "length d \<le> 120" "length e \<le> 64"
    "m = bytes_of ''mss-aba-enrollment-start-v1'' @ a @ sb @ kb @ text_bytes d @ text_bytes e"
    using assms(1) by (auto elim: StartTranscript_InrD)
  obtain sb' kb' where g: "decodeFixed b' 32 = Inr sb'" "decodeFixed c' 32 = Inr kb'" "length a' = 32" "length d' \<le> 120" "length e' \<le> 64"
    "m = bytes_of ''mss-aba-enrollment-start-v1'' @ a' @ sb' @ kb' @ text_bytes d' @ text_bytes e'"
    using assms(2) by (auto elim: StartTranscript_InrD)
  note jkts = decodeFixed_jkt [OF f(1)] decodeFixed_jkt [OF f(2)] decodeFixed_jkt [OF g(1)] decodeFixed_jkt [OF g(2)]
  have "a = a' \<and> sb = sb' \<and> kb = kb' \<and> d = d' \<and> e = e'"
    using f(3-6) g(3-6) jkts by (simp add: append_eq_append_conv text_field)
  then show ?thesis using jkts by simp
qed

text \<open>
  C9.  A signature means one thing.  Two statements that share a transcript say the same: they are of
  the same kind and agree in every field but the signature.  So a signature made for one message -
  a challenge response, a control frame, an encrypted frame with its additional data, an
  acknowledgement with its ranges, a key package, a registration - is never valid for another.
\<close>

theorem signed_statements_unambiguous:
  assumes "transcript a = Inr m" "transcript b = Inr m" "wf_statement a" "wf_statement b"
  shows "signed_content a = signed_content b"
proof -
  have label: "statement_label a = statement_label b" by (rule transcript_same_label [OF assms(1,2)])
  note contents = frame_content ack_content error_content registration_content enrollment_content
  show ?thesis
  proof (cases a)
    case (KeyEnvelopeSt x1 x2 x3 x4 x5 x6 x7 x8 x9 x10 x11)
    with label obtain y1 y2 y3 y4 y5 y6 y7 y8 y9 y10 y11 where b: "b = KeyEnvelopeSt y1 y2 y3 y4 y5 y6 y7 y8 y9 y10 y11"
      by (cases b) simp_all
    show ?thesis using envelope_content [OF assms(1,2) [unfolded KeyEnvelopeSt b]] by (simp only: KeyEnvelopeSt b)
  next
    case (FrameSt f) with label assms show ?thesis by (cases b) (auto simp del: transcript.simps signed_content.simps intro: contents)
  next
    case (AckSt f) with label assms show ?thesis by (cases b) (auto simp del: transcript.simps signed_content.simps intro: contents)
  next
    case (ErrorSt f) with label assms show ?thesis by (cases b) (auto simp del: transcript.simps signed_content.simps intro: contents)
  next
    case (RegistrationSt f) with label assms show ?thesis by (cases b) (auto simp del: transcript.simps signed_content.simps intro: contents)
  next
    case (EnrollmentStartSt x1 x2 x3 x4 x5)
    with label assms show ?thesis by (cases b) (auto simp del: transcript.simps signed_content.simps intro: contents)
  qed (use label assms in \<open>cases b; auto simp: transcript_defs wf_id_def append_eq_append_conv split: if_splits\<close>)+
qed

definition sample_ack_msg :: "byte list \<Rightarrow> AckFrameMsg" where
  "sample_ack_msg signature = \<lparr>wa_AckId = sample_id 1, wa_ChannelId = sample_id 2, wa_SessionId = sample_id 3,
     wa_EndpointId = sample_id 4, wa_AcknowledgedDirection = 1, wa_HighestContiguousSequence = 7,
     wa_ReceivedRanges = [\<lparr>wr_Start = 9, wr_End = 12\<rparr>], wa_KeyGeneration = 1, wa_CreatedAtMs = 5, wa_Signature = signature\<rparr>"

theorem signed_statements_unambiguous_witness:
  "\<exists>m. transcript (AckSt (sample_ack_msg [1])) = Inr m \<and>
     signed_content (AckSt (sample_ack_msg [1])) = signed_content (AckSt (sample_ack_msg [2]))"
proof -
  have "\<exists>m. transcript (AckSt (sample_ack_msg [1])) = Inr m \<and> transcript (AckSt (sample_ack_msg [2])) = Inr m"
    using wf_sample_id by (simp add: ackTranscript_def sample_ack_msg_def maxAckRanges_def wf_id_def IDSize_def)
  then show ?thesis using signed_statements_unambiguous [of "AckSt (sample_ack_msg [1])" _ "AckSt (sample_ack_msg [2])"] by auto
qed

end
