(* ===== verification/Gateway_Connections.thy ===== *)
theory Gateway_Connections
  imports Signed_Transcripts "HOL-Library.Multiset"
begin

section \<open>The directory of connections (\<open>gateway/connection_directory.go\<close>)\<close>

text \<open>
  One lane per endpoint points to the connection that is current for it.  Connections are objects
  with an identity: the directory holds addresses, and the objects live in a map from addresses.
  A lane is created once and never removed; its pointer is read and written under the mutex of the
  lane, or read atomically.  The socket is not modelled: writing to it is an input of the writer.
\<close>

definition maxInflightFrames :: nat where "maxInflightFrames = 128"
definition maxConnectionQueueBytes :: int where "maxConnectionQueueBytes = 8 * 2 ^ 20"

datatype connection_error =
    errConnectionOffline
  | errConnectionBackpressure
  | errConnectionFenced
  | OtherError go_error

record activeConnection =
  cn_endpointID :: ID
  cn_generation :: u64
  cn_connectionID :: "byte list"
  cn_fencingToken :: "byte list"
  cn_outbound :: "byte list list"
  cn_closed :: bool
  cn_queuedBytes :: int
  cn_controlSequence :: u64
  cn_inboundControlSequence :: u64

type_synonym address = nat

record directory =
  cd_byTarget :: "ID \<rightharpoonup> address option"
  cd_connections :: "address \<rightharpoonup> activeConnection"

definition newMemoryConnectionDirectory :: directory where
  "newMemoryConnectionDirectory = \<lparr>cd_byTarget = Map.empty, cd_connections = Map.empty\<rparr>"

definition newActiveConnection :: "ID \<Rightarrow> u64 \<Rightarrow> byte list \<Rightarrow> byte list \<Rightarrow> activeConnection" where
  "newActiveConnection endpointID generation connectionID fencingToken = \<lparr>
     cn_endpointID = endpointID, cn_generation = generation, cn_connectionID = connectionID,
     cn_fencingToken = fencingToken, cn_outbound = [], cn_closed = False, cn_queuedBytes = 0,
     cn_controlSequence = 0, cn_inboundControlSequence = 0\<rparr>"

subsection \<open>Lanes\<close>

definition lane :: "ID \<Rightarrow> bool \<Rightarrow> directory \<Rightarrow> address option option \<times> directory" where
  "lane endpointID create d = (case cd_byTarget d endpointID of
       Some current \<Rightarrow> (Some current, d)
     | None \<Rightarrow> if create then (Some None, d\<lparr>cd_byTarget := (cd_byTarget d)(endpointID \<mapsto> None)\<rparr>) else (None, d))"

definition store_current :: "ID \<Rightarrow> address option \<Rightarrow> directory \<Rightarrow> directory" where
  "store_current endpointID p d = d\<lparr>cd_byTarget := (cd_byTarget d)(endpointID \<mapsto> p)\<rparr>"

text \<open>The connection that was current before, and whether the candidate is current now.\<close>

definition activate :: "address \<Rightarrow> directory \<Rightarrow> (address option \<times> bool) \<times> directory" where
  "activate candidate d = (case cd_connections d candidate of
       None \<Rightarrow> ((None, False), d)
     | Some c \<Rightarrow>
         if IsZero (cn_endpointID c) \<or> cn_generation c = 0 then ((None, False), d)
         else let (found, d1) = lane (cn_endpointID c) True d; current = (case found of Some p \<Rightarrow> p | None \<Rightarrow> None)
              in (case Option.bind current (cd_connections d1) of
                    Some cur \<Rightarrow> if cn_generation cur \<ge> cn_generation c then ((current, False), d1)
                      else ((current, True), store_current (cn_endpointID c) (Some candidate) d1)
                  | None \<Rightarrow> ((current, True), store_current (cn_endpointID c) (Some candidate) d1)))"

definition remove :: "address \<Rightarrow> directory \<Rightarrow> directory" where
  "remove candidate d = (case cd_connections d candidate of
       None \<Rightarrow> d
     | Some c \<Rightarrow> (case cd_byTarget d (cn_endpointID c) of
           None \<Rightarrow> d
         | Some current \<Rightarrow> if current = Some candidate then store_current (cn_endpointID c) None d else d))"

definition is_current :: "address \<Rightarrow> directory \<Rightarrow> bool" where
  "is_current candidate d \<longleftrightarrow> (case cd_connections d candidate of
       None \<Rightarrow> False
     | Some c \<Rightarrow> cd_byTarget d (cn_endpointID c) = Some (Some candidate))"

text \<open>The operation runs under the lock of the lane, on the state of the whole server.\<close>

definition withCurrent ::
    "address \<Rightarrow> ('s \<Rightarrow> directory) \<Rightarrow> ('s \<Rightarrow> connection_error option \<times> 's) \<Rightarrow> 's \<Rightarrow> connection_error option \<times> 's" where
  "withCurrent candidate get operation s =
     (if is_current candidate (get s) then operation s else (Some errConnectionFenced, s))"

definition online :: "ID \<Rightarrow> directory \<Rightarrow> bool" where
  "online endpointID d \<longleftrightarrow> (case cd_byTarget d endpointID of Some (Some a) \<Rightarrow> True | _ \<Rightarrow> False)"

subsection \<open>The queue of a connection\<close>

definition enqueue :: "byte list \<Rightarrow> activeConnection \<Rightarrow> connection_error option \<times> activeConnection" where
  "enqueue packet c =
     (if length packet = 0 \<or> length packet > maxWirePacketBytes then (Some errConnectionBackpressure, c)
      else if cn_closed c then (Some errConnectionOffline, c)
      else if cn_queuedBytes c + int (length packet) > maxConnectionQueueBytes then (Some errConnectionBackpressure, c)
      else if length (cn_outbound c) < maxInflightFrames
        then (None, c\<lparr>cn_queuedBytes := cn_queuedBytes c + int (length packet), cn_outbound := cn_outbound c @ [packet]\<rparr>)
      else (Some errConnectionBackpressure, c))"

definition update_connection :: "address \<Rightarrow> activeConnection \<Rightarrow> directory \<Rightarrow> directory" where
  "update_connection a c d = d\<lparr>cd_connections := (cd_connections d)(a \<mapsto> c)\<rparr>"

definition send :: "ID \<Rightarrow> byte list \<Rightarrow> directory \<Rightarrow> connection_error option \<times> directory" where
  "send endpointID packet d = (case cd_byTarget d endpointID of
       Some (Some a) \<Rightarrow> (case cd_connections d a of
           None \<Rightarrow> (Some errConnectionOffline, d)
         | Some c \<Rightarrow> (let (err, c') = enqueue packet c in (err, update_connection a c' d)))
     | _ \<Rightarrow> (Some errConnectionOffline, d))"

definition sendNextControl ::
    "ID \<Rightarrow> (u64 \<Rightarrow> byte list result) \<Rightarrow> directory \<Rightarrow> connection_error option \<times> directory" where
  "sendNextControl endpointID build d = (case cd_byTarget d endpointID of
       Some (Some a) \<Rightarrow> (case cd_connections d a of
           None \<Rightarrow> (Some errConnectionOffline, d)
         | Some c \<Rightarrow>
             if cn_controlSequence c = - 1 then (Some errConnectionBackpressure, d)
             else (case build (cn_controlSequence c + 1) of
                 Inl err \<Rightarrow> (Some (OtherError err), d)
               | Inr packet \<Rightarrow> (case enqueue packet c of
                     (Some err, c') \<Rightarrow> (Some err, update_connection a c' d)
                   | (None, c') \<Rightarrow> (None, update_connection a (c'\<lparr>cn_controlSequence := cn_controlSequence c + 1\<rparr>) d))))
     | _ \<Rightarrow> (Some errConnectionOffline, d))"

text \<open>
  One turn of \<open>runWriter\<close>: the packet taken from the queue, if any, and whether the socket took it.
\<close>

definition writer_turn :: "bool \<Rightarrow> activeConnection \<Rightarrow> byte list option \<times> activeConnection" where
  "writer_turn written c = (case cn_outbound c of
       [] \<Rightarrow> (None, c)
     | packet # rest \<Rightarrow>
         (if written then Some packet else None,
          c\<lparr>cn_outbound := rest, cn_queuedBytes := cn_queuedBytes c - int (length packet),
             cn_closed := cn_closed c \<or> \<not> written\<rparr>))"

definition close :: "activeConnection \<Rightarrow> activeConnection" where
  "close c = c\<lparr>cn_closed := True\<rparr>"

definition acceptInboundControlSequence :: "u64 \<Rightarrow> activeConnection \<Rightarrow> bool \<times> activeConnection" where
  "acceptInboundControlSequence sequence c =
     (if sequence \<noteq> cn_inboundControlSequence c + 1 then (False, c)
      else (True, c\<lparr>cn_inboundControlSequence := sequence\<rparr>))"

end
