(* ===== verification/Connection_Threads.thy ===== *)
theory Connection_Threads
  imports Gateway_Connections
begin

section \<open>A connection shared by many threads\<close>

text \<open>
  Every request handler that relays a packet calls \<open>enqueue\<close> on the connection of the receiver,
  the reader of a connection calls \<open>acceptInboundControlSequence\<close>, the writer drains the queue and
  anyone may close the connection.  Here these run interleaved.  A task is what one goroutine has
  still to do; each step is one atomic access of the code - a load, a compare-and-swap, a channel
  operation, an addition - in any order the scheduler chooses.  The swap of a control sequence
  counts its failures, so that the number of rounds of the loop can be stated.
\<close>

datatype task =
    EnqStart "byte list"
  | EnqLoop "byte list"
  | EnqLoaded "byte list" int
  | EnqReserved "byte list"
  | EnqRelease "byte list" connection_error
  | EnqDone "connection_error option"
  | AccStart u64 nat
  | AccLoaded u64 u64 nat
  | AccDone u64 bool nat
  | WriterIdle
  | WriterTook "byte list"

inductive task_step :: "task \<Rightarrow> activeConnection \<Rightarrow> task \<Rightarrow> activeConnection \<Rightarrow> bool" where
  enq_size: "length p = 0 \<or> length p > maxWirePacketBytes \<Longrightarrow>
     task_step (EnqStart p) c (EnqDone (Some errConnectionBackpressure)) c"
| enq_offline: "0 < length p \<Longrightarrow> length p \<le> maxWirePacketBytes \<Longrightarrow> cn_closed c \<Longrightarrow>
     task_step (EnqStart p) c (EnqDone (Some errConnectionOffline)) c"
| enq_begin: "0 < length p \<Longrightarrow> length p \<le> maxWirePacketBytes \<Longrightarrow> \<not> cn_closed c \<Longrightarrow> task_step (EnqStart p) c (EnqLoop p) c"
| enq_load: "task_step (EnqLoop p) c (EnqLoaded p (cn_queuedBytes c)) c"
| enq_full: "current + int (length p) > maxConnectionQueueBytes \<Longrightarrow>
     task_step (EnqLoaded p current) c (EnqDone (Some errConnectionBackpressure)) c"
| enq_swap: "current + int (length p) \<le> maxConnectionQueueBytes \<Longrightarrow> cn_queuedBytes c = current \<Longrightarrow>
     task_step (EnqLoaded p current) c (EnqReserved p) (c\<lparr>cn_queuedBytes := current + int (length p)\<rparr>)"
| enq_retry: "current + int (length p) \<le> maxConnectionQueueBytes \<Longrightarrow> cn_queuedBytes c \<noteq> current \<Longrightarrow>
     task_step (EnqLoaded p current) c (EnqLoop p) c"
| enq_push: "length (cn_outbound c) < maxInflightFrames \<Longrightarrow>
     task_step (EnqReserved p) c (EnqDone None) (c\<lparr>cn_outbound := cn_outbound c @ [p]\<rparr>)"
| enq_closed: "cn_closed c \<Longrightarrow> task_step (EnqReserved p) c (EnqRelease p errConnectionOffline) c"
| enq_default: "\<not> cn_closed c \<Longrightarrow> length (cn_outbound c) \<ge> maxInflightFrames \<Longrightarrow>
     task_step (EnqReserved p) c (EnqRelease p errConnectionBackpressure) c"
| enq_release: "task_step (EnqRelease p e) c (EnqDone (Some e)) (c\<lparr>cn_queuedBytes := cn_queuedBytes c - int (length p)\<rparr>)"
| acc_load: "task_step (AccStart s n) c (AccLoaded s (cn_inboundControlSequence c) n) c"
| acc_reject: "s \<noteq> current + 1 \<Longrightarrow> task_step (AccLoaded s current n) c (AccDone s False n) c"
| acc_swap: "s = current + 1 \<Longrightarrow> cn_inboundControlSequence c = current \<Longrightarrow>
     task_step (AccLoaded s current n) c (AccDone s True n) (c\<lparr>cn_inboundControlSequence := s\<rparr>)"
| acc_retry: "s = current + 1 \<Longrightarrow> cn_inboundControlSequence c \<noteq> current \<Longrightarrow>
     task_step (AccLoaded s current n) c (AccStart s (Suc n)) c"
| writer_take: "cn_outbound c = p # rest \<Longrightarrow> task_step WriterIdle c (WriterTook p) (c\<lparr>cn_outbound := rest\<rparr>)"
| writer_count: "task_step (WriterTook p) c WriterIdle (c\<lparr>cn_queuedBytes := cn_queuedBytes c - int (length p)\<rparr>)"

inductive_cases task_step_Enq [elim!]: "task_step (EnqStart p) c t c'" "task_step (EnqLoop p) c t c'"
  "task_step (EnqReserved p) c t c'" "task_step (EnqRelease p e) c t c'" "task_step (EnqLoaded p q) c t c'"

inductive system_step :: "task list \<times> activeConnection \<Rightarrow> task list \<times> activeConnection \<Rightarrow> bool" where
  thread: "i < length ts \<Longrightarrow> task_step (ts ! i) c t c' \<Longrightarrow> system_step (ts, c) (ts[i := t], c')"
| close: "system_step (ts, c) (ts, close c)"

lemma head_step: "task_step t c t' c' \<Longrightarrow> system_step (t # ts, c) (t' # ts, c')"
  using system_step.thread [of 0 "t # ts" c t' c'] by simp

lemmas system_steps = rtranclp.rtrancl_into_rtrancl [where r = system_step]

definition starting :: "task \<Rightarrow> bool" where
  "starting t \<longleftrightarrow> (case t of EnqStart p \<Rightarrow> True | AccStart s n \<Rightarrow> n = 0 | WriterIdle \<Rightarrow> True | _ \<Rightarrow> False)"

definition reachable :: "task list \<Rightarrow> activeConnection \<Rightarrow> bool" where
  "reachable ts c \<longleftrightarrow> (\<exists>ts0 e g i f. list_all starting ts0 \<and> length ts0 < 2 ^ 64 \<and>
     system_step\<^sup>*\<^sup>* (ts0, newActiveConnection e g i f) (ts, c))"

lemma reachable_induct [consumes 1, case_names start thread close]:
  assumes "reachable ts c"
    and "\<And>ts e g i f. list_all starting ts \<Longrightarrow> length ts < 2 ^ 64 \<Longrightarrow> P ts (newActiveConnection e g i f)"
    and "\<And>ts c i t c'. P ts c \<Longrightarrow> i < length ts \<Longrightarrow> task_step (ts ! i) c t c' \<Longrightarrow> P (ts[i := t]) c'"
    and "\<And>ts c. P ts c \<Longrightarrow> P ts (close c)"
  shows "P ts c"
proof -
  obtain ts0 e g i f where start: "list_all starting ts0" "length ts0 < 2 ^ 64"
    "system_step\<^sup>*\<^sup>* (ts0, newActiveConnection e g i f) (ts, c)" using assms(1) by (auto simp: reachable_def)
  have "system_step\<^sup>*\<^sup>* s s' \<Longrightarrow> P (fst s) (snd s) \<Longrightarrow> P (fst s') (snd s')" for s s'
  proof (induction rule: rtranclp_induct)
    case (step y z)
    from step(2) step(3) [OF step(4)] show ?case by cases (auto intro: assms(3,4))
  qed
  from this [OF start(3)] assms(2) [OF start(1,2)] show ?thesis by simp
qed

subsection \<open>The byte budget\<close>

text \<open>The bytes a task has added to the counter that are not in the queue.\<close>

definition held :: "task \<Rightarrow> int" where
  "held t = (case t of EnqReserved p \<Rightarrow> int (length p) | EnqRelease p e \<Rightarrow> int (length p) | WriterTook p \<Rightarrow> int (length p) | _ \<Rightarrow> 0)"

definition queue_bytes :: "activeConnection \<Rightarrow> int" where
  "queue_bytes c = sum_list (map (int \<circ> length) (cn_outbound c))"

definition budget :: "task list \<Rightarrow> activeConnection \<Rightarrow> bool" where
  "budget ts c \<longleftrightarrow> cn_queuedBytes c = queue_bytes c + sum_list (map held ts) \<and>
     cn_queuedBytes c \<le> maxConnectionQueueBytes \<and> length (cn_outbound c) \<le> maxInflightFrames"

lemma held_simps [simp]:
  "held (EnqStart p) = 0" "held (EnqLoop p) = 0" "held (EnqLoaded p q) = 0" "held (EnqReserved p) = int (length p)"
  "held (EnqRelease p e) = int (length p)" "held (EnqDone r) = 0" "held (AccStart s n) = 0" "held (AccLoaded s q' n) = 0"
  "held (AccDone s b n) = 0" "held WriterIdle = 0" "held (WriterTook p) = int (length p)"
  by (simp_all add: held_def)

lemma sum_held_update: "i < length ts \<Longrightarrow> sum_list (map held (ts[i := t])) = sum_list (map held ts) - held (ts ! i) + held t"
  by (subst (2) id_take_nth_drop [of i ts]) (simp_all add: upd_conv_take_nth_drop)

lemma held_nonneg: "0 \<le> held t"
  by (cases t) simp_all

lemma budget_step:
  assumes "task_step (ts ! i) c t c'" "i < length ts" "budget ts c"
  shows "budget (ts[i := t]) c'"
  using assms by cases (auto simp: budget_def sum_held_update queue_bytes_def)

lemma reachable_budget: "reachable ts c \<Longrightarrow> budget ts c"
proof (induction rule: reachable_induct)
  case (start ts e g i f)
  have "sum_list (map held ts) = 0"
    using start(1) by (induction ts) (auto simp: starting_def held_def split: task.splits)
  then show ?case by (simp add: budget_def newActiveConnection_def queue_bytes_def maxConnectionQueueBytes_def)
next
  case (thread ts c i t c')
  then show ?case by (intro budget_step)
qed (simp add: budget_def close_def queue_bytes_def)

text \<open>
  C16.  Whatever the interleaving of relays, writer and closing, the queue of a connection never
  holds more than 128 packets nor more than 8 MiB, and the byte counter equals the queue plus what
  the threads are holding: no relay leaks budget, and when no thread is inside, it is exact.
\<close>

theorem connection_queue_bounded:
  assumes "reachable ts c"
  shows "length (cn_outbound c) \<le> 128 \<and> queue_bytes c \<le> 8 * 2 ^ 20 \<and>
     cn_queuedBytes c = queue_bytes c + sum_list (map held ts) \<and>
     ((\<forall>t \<in> set ts. held t = 0) \<longrightarrow> cn_queuedBytes c = queue_bytes c)"
proof -
  have b: "budget ts c" using assms by (rule reachable_budget)
  have "0 \<le> sum_list (map held ts)" by (induction ts) (simp_all add: held_nonneg)
  moreover have "sum_list (map held ts) = 0" if "\<forall>t \<in> set ts. held t = 0"
    using that by (induction ts) simp_all
  ultimately show ?thesis using b by (auto simp: budget_def maxInflightFrames_def maxConnectionQueueBytes_def)
qed

theorem connection_queue_bounded_witness:
  "\<exists>c. reachable [EnqReserved [1, 2], WriterIdle] c \<and> queue_bytes c \<le> 8 * 2 ^ 20 \<and> cn_queuedBytes c = 2"
proof -
  let ?c = "newActiveConnection [] 1 [] []"
  let ?d = "?c\<lparr>cn_queuedBytes := 0 + int (length [1, 2 :: byte])\<rparr>"
  have p: "0 < length [1, 2 :: byte]" "length [1, 2 :: byte] \<le> maxWirePacketBytes"
    "(0 :: int) + int (length [1, 2 :: byte]) \<le> maxConnectionQueueBytes" "\<not> cn_closed ?c" "cn_queuedBytes ?c = 0"
    by (simp_all add: maxWirePacketBytes_def maxConnectionQueueBytes_def newActiveConnection_def)
  have s1: "system_step ([EnqStart [1, 2], WriterIdle], ?c) ([EnqLoop [1, 2], WriterIdle], ?c)"
    by (intro head_step task_step.enq_begin p)
  have s2: "system_step ([EnqLoop [1, 2], WriterIdle], ?c) ([EnqLoaded [1, 2] 0, WriterIdle], ?c)"
    using head_step [OF task_step.enq_load [of "[1, 2]" ?c]] unfolding p(5) .
  have s3: "system_step ([EnqLoaded [1, 2] 0, WriterIdle], ?c) ([EnqReserved [1, 2], WriterIdle], ?d)"
    by (intro head_step task_step.enq_swap p)
  have "system_step\<^sup>*\<^sup>* ([EnqStart [1, 2], WriterIdle], ?c) ([EnqReserved [1, 2], WriterIdle], ?d)"
    by (rule system_steps [OF system_steps [OF system_steps [OF rtranclp.rtrancl_refl s1] s2] s3])
  then have r: "reachable [EnqReserved [1, 2], WriterIdle] ?d"
    unfolding reachable_def by (intro exI [of _ "[EnqStart [1, 2], WriterIdle]"] exI conjI) (auto simp: starting_def)
  show ?thesis using connection_queue_bounded [OF r] r by (intro exI [of _ ?d]) auto
qed

subsection \<open>Control sequences\<close>

definition accepted_by :: "task \<Rightarrow> u64 multiset" where
  "accepted_by t = (case t of AccDone s b n \<Rightarrow> if b then {#s#} else {#} | _ \<Rightarrow> {#})"

definition accepted :: "task list \<Rightarrow> u64 multiset" where
  "accepted ts = sum_list (map accepted_by ts)"

fun round_ok :: "u64 \<Rightarrow> task \<Rightarrow> bool" where
  "round_ok inbound (AccStart s n) \<longleftrightarrow> n = 0 \<or> n = 1 \<and> s \<noteq> 0 \<and> s \<le> inbound"
| "round_ok inbound (AccLoaded s current n) \<longleftrightarrow> current \<le> inbound \<and> (n = 0 \<or> n = 1 \<and> s \<noteq> 0 \<and> s \<le> current)"
| "round_ok inbound (AccDone s b n) \<longleftrightarrow> n \<le> 1"
| "round_ok inbound t \<longleftrightarrow> True"

definition gate :: "task list \<Rightarrow> activeConnection \<Rightarrow> bool" where
  "gate ts c \<longleftrightarrow> image_mset unat (accepted ts) = mset [1..<Suc (unat (cn_inboundControlSequence c))] \<and>
     length ts < 2 ^ 64 \<and> list_all (round_ok (cn_inboundControlSequence c)) ts"

lemma accepted_update: "i < length ts \<Longrightarrow> accepted_by (ts ! i) = {#} \<Longrightarrow> accepted (ts[i := t]) = accepted ts + accepted_by t"
  unfolding accepted_def by (subst (2) id_take_nth_drop [of i ts]) (simp_all add: upd_conv_take_nth_drop)

lemma accepted_size: "i < length ts \<Longrightarrow> accepted_by (ts ! i) = {#} \<Longrightarrow> size (accepted ts) < length ts"
proof -
  assume i: "i < length ts" "accepted_by (ts ! i) = {#}"
  have *: "size (sum_list (map accepted_by us)) \<le> length us" for us
    by (induction us) (auto simp: accepted_by_def split: task.splits)
  have "size (accepted ts) = size (sum_list (map accepted_by (take i ts))) + size (sum_list (map accepted_by (drop (Suc i) ts)))"
    unfolding accepted_def using i by (subst id_take_nth_drop [OF i(1)]) simp
  with * [of "take i ts"] * [of "drop (Suc i) ts"] i(1) show ?thesis by simp
qed

lemma round_ok_mono: "round_ok a t \<Longrightarrow> a \<le> b \<Longrightarrow> round_ok b t"
  by (cases t) (auto intro: order_trans)

lemma gate_keeps:
  assumes "gate ts c" "i < length ts" "accepted_by (ts ! i) = {#}" "accepted_by t = {#}"
    "cn_inboundControlSequence c' = cn_inboundControlSequence c" "round_ok (cn_inboundControlSequence c) t"
  shows "gate (ts[i := t]) c'"
  using assms by (auto simp: gate_def accepted_update list_all_iff dest: set_update_subset_insert [THEN subsetD])

lemma u64_succ: "unat (a :: u64) + 1 < 2 ^ 64 \<Longrightarrow> unat (a + 1) = unat a + 1"
  by (subst unat_plus_if_size) (simp add: word_size)

lemma gate_step:
  assumes step: "task_step (ts ! i) c t c'" and i: "i < length ts" and g: "gate ts c"
  shows "gate (ts[i := t]) c'"
proof -
  let ?in = "cn_inboundControlSequence c"
  have round: "round_ok ?in (ts ! i)" using g i by (auto simp: gate_def list_all_iff)
  from step show ?thesis
  proof cases
    case (acc_swap s current n)
    have none: "accepted_by (ts ! i) = {#}" using acc_swap by (simp add: accepted_by_def)
    from g have "size (accepted ts) = unat ?in"
      unfolding gate_def by (metis size_image_mset size_mset length_upt diff_Suc_1)
    with accepted_size [OF i none] g have "unat ?in + 1 < 2 ^ 64" by (simp add: gate_def)
    with acc_swap have s: "unat s = unat ?in + 1" using u64_succ by simp
    then have "?in \<le> s" by (simp add: word_le_nat_alt)
    with g have rounds: "list_all (round_ok s) ts" by (auto simp: gate_def list_all_iff intro: round_ok_mono)
    have "accepted (ts[i := t]) = add_mset s (accepted ts)"
      using acc_swap(2) accepted_update [OF i none, of t] by (simp add: accepted_by_def)
    moreover have "round_ok s t" using acc_swap round by auto
    ultimately show ?thesis
      using g s acc_swap(3) rounds by (auto simp: gate_def list_all_iff dest: set_update_subset_insert [THEN subsetD])
  next
    case (acc_retry s current n)
    with round have "current < ?in" by (auto simp: order_less_le)
    then have "unat current < unat ?in" by (simp add: word_less_nat_alt)
    then have "unat s = unat current + 1" using acc_retry u64_succ unat_u64_less [of ?in] by simp
    with \<open>unat current < unat ?in\<close> have s: "s \<noteq> 0" "s \<le> ?in" by (auto simp: word_le_nat_alt)
    have "n = 0"
    proof (rule ccontr)
      assume "n \<noteq> 0"
      with round acc_retry have "unat s \<le> unat current" by (auto simp: word_le_nat_alt)
      with \<open>unat s = unat current + 1\<close> show False by simp
    qed
    with acc_retry s show ?thesis by (intro gate_keeps [OF g i]) (auto simp: accepted_by_def)
  next
    case (acc_load s n)
    with round show ?thesis by (intro gate_keeps [OF g i]) (auto simp: accepted_by_def)
  next
    case (acc_reject s current n)
    with round show ?thesis by (intro gate_keeps [OF g i]) (auto simp: accepted_by_def)
  qed (intro gate_keeps [OF g i]; simp add: accepted_by_def)+
qed

lemma reachable_gate: "reachable ts c \<Longrightarrow> gate ts c"
proof (induction rule: reachable_induct)
  case (start ts e g i f)
  have "accepted_by t = {#}" "round_ok 0 t" if "t \<in> set ts" for t
    using start(1) that by (cases t; auto simp: starting_def accepted_by_def list_all_iff)+
  then have "accepted ts = {#}" "list_all (round_ok 0) ts"
    unfolding accepted_def by (induction ts) auto
  with start(2) show ?case by (simp add: gate_def newActiveConnection_def)
next
  case (thread ts c i t c')
  then show ?case by (intro gate_step)
qed (simp add: gate_def close_def)

text \<open>
  C15.  However many readers race for it, every control sequence is accepted at most once and
  without a gap: the sequences accepted so far are exactly 1 up to the counter.  And the
  compare-and-swap loop ends: whatever the other threads do, a call fails at most one swap before
  it answers.
\<close>

theorem control_sequence_exactly_once:
  assumes "reachable ts c"
  shows "image_mset unat (accepted ts) = mset [1..<Suc (unat (cn_inboundControlSequence c))] \<and>
     (\<forall>s n. AccStart s n \<in> set ts \<longrightarrow> n \<le> 1) \<and> (\<forall>s q n. AccLoaded s q n \<in> set ts \<longrightarrow> n \<le> 1)"
  using reachable_gate [OF assms] by (fastforce simp: gate_def list_all_iff)

theorem control_sequence_exactly_once_witness:
  "\<exists>c. reachable [AccDone 1 True 0] c \<and> image_mset unat (accepted [AccDone 1 True 0]) = {#1#} \<and> cn_inboundControlSequence c = 1"
proof -
  let ?c = "newActiveConnection [] 1 [] []"
  let ?d = "?c\<lparr>cn_inboundControlSequence := 1\<rparr>"
  have s1: "system_step ([AccStart 1 0], ?c) ([AccLoaded 1 0 0], ?c)"
    using head_step [OF task_step.acc_load [of 1 0 ?c]] by (simp add: newActiveConnection_def)
  have s2: "system_step ([AccLoaded 1 0 0], ?c) ([AccDone 1 True 0], ?d)"
    by (intro head_step task_step.acc_swap) (simp_all add: newActiveConnection_def)
  have "system_step\<^sup>*\<^sup>* ([AccStart 1 0], ?c) ([AccDone 1 True 0], ?d)"
    by (rule system_steps [OF system_steps [OF rtranclp.rtrancl_refl s1] s2])
  then have r: "reachable [AccDone 1 True 0] ?d"
    unfolding reachable_def by (intro exI [of _ "[AccStart 1 0]"] exI conjI) (auto simp: starting_def)
  show ?thesis using control_sequence_exactly_once [OF r] r by (intro exI [of _ ?d]) (simp add: numeral_eq_Suc)
qed

end
