(* ===== verification/Connection_Fencing.thy ===== *)
theory Connection_Fencing
  imports Gateway_Connections
begin

section \<open>Fencing\<close>

text \<open>
  The operations on the directory in any order: a new connection object, activation and removal
  under the lock of a lane, relays, control packets, turns of a writer, closing, and control
  sequences that arrive.
\<close>

datatype directory_op =
    Connect address activeConnection
  | Activate address
  | Remove address
  | SendTo ID "byte list"
  | SendControl ID "u64 \<Rightarrow> byte list result"
  | WriterTurn address bool
  | CloseConnection address
  | Inbound address u64

definition on_connection :: "address \<Rightarrow> (activeConnection \<Rightarrow> activeConnection) \<Rightarrow> directory \<Rightarrow> directory" where
  "on_connection a f d = (case cd_connections d a of None \<Rightarrow> d | Some c \<Rightarrow> update_connection a (f c) d)"

fun directory_step :: "directory_op \<Rightarrow> directory \<Rightarrow> directory" where
  "directory_step (Connect a c) d = (if cd_connections d a = None then update_connection a c d else d)"
| "directory_step (Activate a) d = snd (activate a d)"
| "directory_step (Remove a) d = remove a d"
| "directory_step (SendTo e packet) d = snd (send e packet d)"
| "directory_step (SendControl e build) d = snd (sendNextControl e build d)"
| "directory_step (WriterTurn a written) d = on_connection a (\<lambda>c. snd (writer_turn written c)) d"
| "directory_step (CloseConnection a) d = on_connection a close d"
| "directory_step (Inbound a s) d = on_connection a (\<lambda>c. snd (acceptInboundControlSequence s c)) d"

definition directory_run :: "directory_op list \<Rightarrow> directory \<Rightarrow> directory" where
  "directory_run ops d = fold directory_step ops d"

definition wf_directory :: "directory \<Rightarrow> bool" where
  "wf_directory d \<longleftrightarrow> (\<forall>e a. cd_byTarget d e = Some (Some a) \<longrightarrow> (\<exists>c. cd_connections d a = Some c \<and> cn_endpointID c = e))"

text \<open>What never changes of a connection.\<close>

definition identity :: "activeConnection \<Rightarrow> ID \<times> u64" where
  "identity c = (cn_endpointID c, cn_generation c)"

definition keeps_identity :: "directory \<Rightarrow> directory \<Rightarrow> bool" where
  "keeps_identity d d' \<longleftrightarrow> (\<forall>a c. cd_connections d a = Some c \<longrightarrow> (\<exists>c'. cd_connections d' a = Some c' \<and> identity c' = identity c))"

lemma identity_simps [simp]:
  "identity (snd (enqueue packet c)) = identity c" "identity (snd (writer_turn w c)) = identity c"
  "identity (close c) = identity c" "identity (snd (acceptInboundControlSequence s c)) = identity c"
  by (auto simp: identity_def enqueue_def writer_turn_def close_def acceptInboundControlSequence_def split: list.splits)

lemma keeps_identity_refl [simp]: "keeps_identity d d" "cd_connections d' = cd_connections d \<Longrightarrow> keeps_identity d d'"
  by (simp_all add: keeps_identity_def)

lemma keeps_identity_update: "cd_connections d a = Some c \<Longrightarrow> identity c' = identity c \<Longrightarrow> keeps_identity d (update_connection a c' d)"
  by (auto simp: keeps_identity_def update_connection_def)

lemma keeps_identity_on: "(\<And>c. identity (f c) = identity c) \<Longrightarrow> keeps_identity d (on_connection a f d)"
  by (auto simp: on_connection_def intro: keeps_identity_update split: option.splits)

lemma byTarget_updates [simp]: "cd_byTarget (update_connection a c d) = cd_byTarget d" "cd_byTarget (on_connection a f d) = cd_byTarget d"
  by (auto simp: update_connection_def on_connection_def split: option.splits)

lemma send_effect: "cd_byTarget (snd (send e packet d)) = cd_byTarget d" "keeps_identity d (snd (send e packet d))"
proof -
  have *: "identity c' = identity c" if "enqueue packet c = (err, c')" for err c c'
    using that identity_simps(1) [of packet c] by simp
  show "cd_byTarget (snd (send e packet d)) = cd_byTarget d" "keeps_identity d (snd (send e packet d))"
    by (auto simp: send_def split: option.splits prod.splits intro: keeps_identity_update *)
qed

lemma sendNextControl_effect:
  "cd_byTarget (snd (sendNextControl e build d)) = cd_byTarget d" "keeps_identity d (snd (sendNextControl e build d))"
proof -
  have *: "identity (c'\<lparr>cn_controlSequence := q\<rparr>) = identity c" "identity c' = identity c" if "enqueue packet c = (err, c')" for err c c' packet q
    using that identity_simps(1) [of packet c] by (simp_all add: identity_def)
  show "cd_byTarget (snd (sendNextControl e build d)) = cd_byTarget d" "keeps_identity d (snd (sendNextControl e build d))"
    by (auto simp: sendNextControl_def split: option.splits prod.splits sum.splits intro: keeps_identity_update *)
qed

lemma lane_effect: "lane e True d = (Some (case cd_byTarget d e of Some p \<Rightarrow> p | None \<Rightarrow> None),
    if cd_byTarget d e = None then d\<lparr>cd_byTarget := (cd_byTarget d)(e \<mapsto> None)\<rparr> else d)"
  by (auto simp: lane_def split: option.splits)

lemma activate_connections [simp]: "cd_connections (snd (activate a d)) = cd_connections d"
  by (auto simp: activate_def lane_effect Let_def store_current_def split: option.splits prod.splits)

lemma remove_connections [simp]: "cd_connections (remove a d) = cd_connections d"
  by (auto simp: remove_def store_current_def split: option.splits)

lemma directory_step_identity: "keeps_identity d (directory_step op d)"
proof (cases op)
  case (Connect a c)
  then show ?thesis by (auto simp: keeps_identity_def update_connection_def)
qed (auto simp: send_effect sendNextControl_effect intro: keeps_identity_on)

text \<open>Pointers change by activation and removal only.\<close>

lemma directory_step_target:
  assumes "cd_byTarget (directory_step op d) e = Some (Some a)"
  shows "cd_byTarget d e = Some (Some a) \<or> op = Activate a \<and> (\<exists>c. cd_connections d a = Some c \<and> cn_endpointID c = e)"
  using assms
  by (cases op) (auto simp: send_effect sendNextControl_effect activate_def remove_def lane_effect store_current_def Let_def
      split: option.splits prod.splits if_splits)

lemma directory_step_wf: "wf_directory d \<Longrightarrow> wf_directory (directory_step op d)"
  unfolding wf_directory_def using directory_step_target directory_step_identity [of d op]
  by (fastforce simp: keeps_identity_def identity_def)

lemma directory_step_stale:
  assumes "wf_directory d" "cd_connections d a = Some c" "\<not> is_current a d" "op \<noteq> Activate a"
  shows "\<not> is_current a (directory_step op d) \<and> (\<exists>c'. cd_connections (directory_step op d) a = Some c')"
proof -
  obtain c' where c': "cd_connections (directory_step op d) a = Some c'" "cn_endpointID c' = cn_endpointID c"
    using directory_step_identity [of d op] assms(2) by (auto simp: keeps_identity_def identity_def)
  with assms directory_step_target [of op d "cn_endpointID c" a] show ?thesis by (auto simp: is_current_def)
qed

lemma directory_run_stale:
  "wf_directory d \<Longrightarrow> cd_connections d a = Some c \<Longrightarrow> \<not> is_current a d \<Longrightarrow> Activate a \<notin> set ops \<Longrightarrow>
     \<not> is_current a (directory_run ops d)"
proof (induction ops arbitrary: d c)
  case (Cons op ops)
  from Cons.prems directory_step_stale [of d a c op] obtain c' where
    "\<not> is_current a (directory_step op d)" "cd_connections (directory_step op d) a = Some c'" by auto
  with Cons.IH [of "directory_step op d" c'] Cons.prems directory_step_wf show ?case
    by (simp add: directory_run_def)
qed (simp add: directory_run_def)

lemma directory_run_wf: "wf_directory d \<Longrightarrow> wf_directory (directory_run ops d)"
  by (induction ops arbitrary: d) (simp_all add: directory_run_def directory_step_wf)

lemma wf_newMemoryConnectionDirectory: "wf_directory newMemoryConnectionDirectory"
  by (simp add: wf_directory_def newMemoryConnectionDirectory_def)



end
