(* ===== verification/Crypto_Es256.thy ===== *)
theory Crypto_Es256
  imports Signed_Transcripts
begin

section \<open>Keys and signatures (\<open>crypto/es256.go\<close>)\<close>

text \<open>
  Public keys in JSON form, their thumbprints, and signatures as 64 bytes with a low \<open>s\<close>.

  Parameters.  \<open>json_parser\<close> is the syntax analysis of \<^verbatim>\<open>encoding/json\<close>: the first value of
  an input, and whether nothing but white space follows it.  How a value is decoded into a structure,
  with names compared as that package compares them and unknown names refused, is modelled here.
  \<open>ecdsa_verify\<close> is \<^verbatim>\<open>ecdsa.Verify\<close> on P-256 for a digest and the two numbers of a signature.
\<close>

datatype json = JNull | JBool bool | JNumber string | JString string | JArray "json list" | JObject "(string \<times> json) list"

type_synonym json_parser = "byte list \<Rightarrow> (json \<times> bool) option"
type_synonym point = "int \<times> int"
type_synonym ecdsa_verify = "point \<Rightarrow> byte list \<Rightarrow> int \<Rightarrow> int \<Rightarrow> bool"

subsection \<open>Decoding an object into a structure\<close>

text \<open>
  Names are compared exactly and then with their letters folded to upper case; the Kelvin sign and
  the long s fold to K and S.
\<close>

fun fold_name :: "string \<Rightarrow> string" where
  "fold_name [] = []"
| "fold_name (c # s) =
     (if is_lower c then char_of (code c - 32) # fold_name s
      else if code c = 0xE2 \<and> take 2 (map code s) = [0x84, 0xAA] then CHR ''K'' # fold_name (drop 2 s)
      else if code c = 0xC5 \<and> take 1 (map code s) = [0xBF] then CHR ''S'' # fold_name (drop 1 s)
      else c # fold_name s)"

definition field_of :: "string list \<Rightarrow> string \<Rightarrow> string option" where
  "field_of names key = (if key \<in> set names then Some key else find (\<lambda>n. fold_name n = fold_name key) names)"

fun decode_fields :: "string list \<Rightarrow> (string \<Rightarrow> json \<Rightarrow> 's \<Rightarrow> 's option) \<Rightarrow> (string \<times> json) list \<Rightarrow> 's \<Rightarrow> 's option" where
  "decode_fields names set_field [] s = Some s"
| "decode_fields names set_field ((key, v) # rest) s = (case field_of names key of
       None \<Rightarrow> None
     | Some name \<Rightarrow> (case set_field name v s of None \<Rightarrow> None | Some s' \<Rightarrow> decode_fields names set_field rest s'))"

text \<open>A top-level null leaves the structure as it is; any other value that is no object is an error.\<close>

definition decode_struct :: "string list \<Rightarrow> (string \<Rightarrow> json \<Rightarrow> 's \<Rightarrow> 's option) \<Rightarrow> 's \<Rightarrow> json \<Rightarrow> 's option" where
  "decode_struct names set_field s j = (case j of
       JObject kvs \<Rightarrow> decode_fields names set_field kvs s
     | JNull \<Rightarrow> Some s
     | _ \<Rightarrow> None)"

definition set_string :: "(string \<Rightarrow> 's \<Rightarrow> 's) \<Rightarrow> json \<Rightarrow> 's \<Rightarrow> 's option" where
  "set_string upd v s = (case v of JString x \<Rightarrow> Some (upd x s) | JNull \<Rightarrow> Some s | _ \<Rightarrow> None)"

subsection \<open>The curve\<close>

definition p256_p :: int where "p256_p = 2 ^ 256 - 2 ^ 224 + 2 ^ 192 + 2 ^ 96 - 1"

definition p256_n :: int where
  "p256_n = 115792089210356248762697446949407573529996955224135760342422259061068512044369"

definition p256_b :: int where
  "p256_b = 41058363725152142129326129780047268409114441015993725554835256314039467401291"

definition IsOnCurve :: "int \<Rightarrow> int \<Rightarrow> bool" where
  "IsOnCurve x y \<longleftrightarrow> 0 \<le> x \<and> x < p256_p \<and> 0 \<le> y \<and> y < p256_p \<and> (y ^ 2 - (x ^ 3 - 3 * x + p256_b)) mod p256_p = 0"

definition SetBytes :: "byte list \<Rightarrow> int" where
  "SetBytes bs = foldl (\<lambda>n b. n * 256 + uint b) 0 bs"

subsection \<open>Public keys\<close>

record P256PublicJWK =
  jw_Curve :: string
  jw_KeyType :: string
  jw_X :: string
  jw_Y :: string

definition decodeCoordinate :: "string \<Rightarrow> byte list result" where
  "decodeCoordinate s = (case RawURLDecodeStrict s of
       None \<Rightarrow> Inl (Wrap Plain)
     | Some decoded \<Rightarrow> if length decoded \<noteq> 32 then Inl Plain else Inr decoded)"

definition PublicKey :: "P256PublicJWK \<Rightarrow> point result" where
  "PublicKey jwk =
     (if jw_Curve jwk \<noteq> ''P-256'' \<or> jw_KeyType jwk \<noteq> ''EC'' then Inl Plain
      else bindE (decodeCoordinate (jw_X jwk)) (\<lambda>xBytes.
           bindE (decodeCoordinate (jw_Y jwk)) (\<lambda>yBytes.
           if \<not> IsOnCurve (SetBytes xBytes) (SetBytes yBytes) then Inl Plain
           else Inr (SetBytes xBytes, SetBytes yBytes))))"

definition FillBytes32 :: "int \<Rightarrow> byte list" where
  "FillBytes32 v = be_bytes 32 v"

definition jwk_names :: "string list" where "jwk_names = [''crv'', ''kty'', ''x'', ''y'']"

definition set_jwk_field :: "string \<Rightarrow> json \<Rightarrow> P256PublicJWK \<Rightarrow> P256PublicJWK option" where
  "set_jwk_field name =
     (if name = ''crv'' then set_string (\<lambda>v s. s\<lparr>jw_Curve := v\<rparr>)
      else if name = ''kty'' then set_string (\<lambda>v s. s\<lparr>jw_KeyType := v\<rparr>)
      else if name = ''x'' then set_string (\<lambda>v s. s\<lparr>jw_X := v\<rparr>)
      else set_string (\<lambda>v s. s\<lparr>jw_Y := v\<rparr>))"

definition no_jwk :: P256PublicJWK where
  "no_jwk = \<lparr>jw_Curve = [], jw_KeyType = [], jw_X = [], jw_Y = []\<rparr>"

text \<open>The key in a value that has been parsed.\<close>

definition jwk_of_json :: "json \<Rightarrow> P256PublicJWK result" where
  "jwk_of_json j = (case decode_struct jwk_names set_jwk_field no_jwk j of
       None \<Rightarrow> Inl (Wrap Plain)
     | Some jwk \<Rightarrow> bindE (PublicKey jwk) (\<lambda>_. Inr jwk))"

definition ParseP256PublicJWK :: "json_parser \<Rightarrow> byte list \<Rightarrow> P256PublicJWK result" where
  "ParseP256PublicJWK parser input = (case parser input of
       None \<Rightarrow> Inl (Wrap Plain)
     | Some (j, alone) \<Rightarrow> (case decode_struct jwk_names set_jwk_field no_jwk j of
           None \<Rightarrow> Inl (Wrap Plain)
         | Some jwk \<Rightarrow> if \<not> alone then Inl Plain else bindE (PublicKey jwk) (\<lambda>_. Inr jwk)))"

text \<open>
  \<^verbatim>\<open>json.Marshal\<close> of a string of ASCII characters: quotes and backslashes are escaped, as are
  control characters and the three characters that have a meaning in HTML.
\<close>

definition json_char :: "char \<Rightarrow> string" where
  "json_char c =
     (if c = CHR 0x22 \<or> c = CHR 0x5C then [CHR 0x5C, c]
      else if code c = 8 then [CHR 0x5C, CHR ''b''] else if code c = 12 then [CHR 0x5C, CHR ''f'']
      else if code c = 10 then [CHR 0x5C, CHR ''n''] else if code c = 13 then [CHR 0x5C, CHR ''r'']
      else if code c = 9 then [CHR 0x5C, CHR ''t'']
      else if code c < 32 \<or> c = CHR ''<'' \<or> c = CHR ''>'' \<or> c = CHR ''&''
        then [CHR 0x5C] @ ''u00'' @ [hex_digit (code c div 16), hex_digit (code c mod 16)]
      else [c])"

definition json_quote :: "string \<Rightarrow> string" where
  "json_quote s = [CHR 0x22] @ concat (map json_char s) @ [CHR 0x22]"

definition json_member :: "string \<Rightarrow> string \<Rightarrow> string" where
  "json_member name v = json_quote name @ '':'' @ json_quote v"

definition canonical_jwk :: "P256PublicJWK \<Rightarrow> string" where
  "canonical_jwk jwk = ''{'' @ json_member ''crv'' (jw_Curve jwk) @ '','' @ json_member ''kty'' (jw_KeyType jwk) @ '','' @
     json_member ''x'' (jw_X jwk) @ '','' @ json_member ''y'' (jw_Y jwk) @ ''}''"

text \<open>\<^verbatim>\<open>base64.RawURLEncoding.EncodeToString\<close>.\<close>

definition b64_char :: "nat \<Rightarrow> char" where
  "b64_char v =
     (if v < 26 then char_of (v + 65) else if v < 52 then char_of (v + 71) else if v < 62 then char_of (v - 4)
      else if v = 62 then CHR ''-'' else CHR ''_'')"

fun RawURLEncode :: "byte list \<Rightarrow> string" where
  "RawURLEncode [] = []"
| "RawURLEncode [a] = [b64_char (unat a div 4), b64_char (unat a mod 4 * 16)]"
| "RawURLEncode [a, b] = [b64_char (unat a div 4), b64_char (unat a mod 4 * 16 + unat b div 16), b64_char (unat b mod 16 * 4)]"
| "RawURLEncode (a # b # c # bs) =
     b64_char (unat a div 4) # b64_char (unat a mod 4 * 16 + unat b div 16) #
     b64_char (unat b mod 16 * 4 + unat c div 64) # b64_char (unat c mod 64) # RawURLEncode bs"

definition PublicJWK :: "point \<Rightarrow> P256PublicJWK result" where
  "PublicJWK pt = (let (x, y) = pt in
     if \<not> IsOnCurve x y then Inl Plain
     else Inr \<lparr>jw_Curve = ''P-256'', jw_KeyType = ''EC'', jw_X = RawURLEncode (FillBytes32 x), jw_Y = RawURLEncode (FillBytes32 y)\<rparr>)"

definition Thumbprint :: "P256PublicJWK \<Rightarrow> string result" where
  "Thumbprint jwk = bindE (PublicKey jwk) (\<lambda>_. Inr (RawURLEncode (sha256 (bytes_of (canonical_jwk jwk)))))"

definition AccessTokenHash :: "string \<Rightarrow> string" where
  "AccessTokenHash token = RawURLEncode (sha256 (bytes_of token))"

subsection \<open>Signatures\<close>

definition VerifyP1363LowS :: "ecdsa_verify \<Rightarrow> point \<Rightarrow> byte list \<Rightarrow> byte list \<Rightarrow> bool" where
  "VerifyP1363LowS verify publicKey message signature \<longleftrightarrow>
     length signature = 64 \<and>
     (let r = SetBytes (take 32 signature); s = SetBytes (drop 32 signature)
      in r > 0 \<and> s > 0 \<and> r < p256_n \<and> s < p256_n \<and> s \<le> p256_n div 2 \<and> verify publicKey (sha256 message) r s)"

text \<open>
  \<^verbatim>\<open>ecdsa.Sign\<close> is a parameter: two numbers for a digest, or an error.
\<close>

definition SignP1363LowS :: "(byte list \<Rightarrow> (int \<times> int) result) \<Rightarrow> byte list \<Rightarrow> byte list result" where
  "SignP1363LowS sign message = (case sign (sha256 message) of
       Inl e \<Rightarrow> Inl (Wrap e)
     | Inr (r, s) \<Rightarrow> let s' = (if s > p256_n div 2 then p256_n - s else s) in Inr (FillBytes32 r @ FillBytes32 s'))"

subsection \<open>Base64 text is read back\<close>


lemma code_char_of: "n < 256 \<Longrightarrow> code (char_of n) = n"
  by (simp add: code_def)

lemma code_b64_char:
  "v < 64 \<Longrightarrow> code (b64_char v) =
     (if v < 26 then v + 65 else if v < 52 then v + 71 else if v < 62 then v - 4 else if v = 62 then 45 else 95)"
  by (simp add: b64_char_def code_char_of) (simp add: code_def)

lemma b64_char_value:
  assumes "v < 64"
  shows "b64_value (b64_char v) = Some v" and "code (b64_char v) \<noteq> 10" and "code (b64_char v) \<noteq> 13"
proof -
  consider "v < 26" | "26 \<le> v" "v < 52" | "52 \<le> v" "v < 62" | "v = 62" | "v = 63" using assms by linarith
  then show "b64_value (b64_char v) = Some v"
    by cases (simp_all add: b64_value_def is_upper_def is_lower_def is_digit_def code_b64_char, (linarith | simp add: b64_char_def)+)
  show "code (b64_char v) \<noteq> 10" "code (b64_char v) \<noteq> 13" using assms by (auto simp: code_b64_char)
qed

lemma b64_values_char: "v < 64 \<Longrightarrow> b64_values (b64_char v # s) = map_option ((#) v) (b64_values s)"
  by (simp add: b64_char_value)

lemma byte_digits: "unat (a :: byte) div 4 < 64" "unat a div 16 < 16" "unat a div 64 < 4"
  using unat_byte_less [of a] by (simp_all add: less_mult_imp_div_less)

lemma byte_parts:
  "unat (a :: byte) div 4 < 64" "unat a mod 4 * 16 + unat (b :: byte) div 16 < 64"
  "unat b mod 16 * 4 + unat (c :: byte) div 64 < 64" "unat c mod 64 < 64" "unat a mod 4 * 16 < 64" "unat b mod 16 * 4 < 64"
proof -
  have "unat a mod 4 < 4" "unat b mod 16 < 16" "unat c mod 64 < 64" by simp_all
  then show "unat a div 4 < 64" "unat a mod 4 * 16 + unat b div 16 < 64" "unat b mod 16 * 4 + unat c div 64 < 64"
    "unat c mod 64 < 64" "unat a mod 4 * 16 < 64" "unat b mod 16 * 4 < 64"
    using byte_digits [of a] byte_digits [of b] byte_digits [of c] by linarith+
qed

lemmas b64_digits = byte_parts [THEN b64_values_char]

lemma digits_join: "y < (k :: nat) \<Longrightarrow> (x * k + y) div k = x" "y < k \<Longrightarrow> (x * k + y) mod k = y"
  by simp_all

lemma byte_joins:
  "unat (a :: byte) div 4 * 4 + (unat a mod 4 * 16 + unat (b :: byte) div 16) div 16 = unat a"
  "(unat a mod 4 * 16 + unat b div 16) mod 16 * 16 + (unat b mod 16 * 4 + unat (c :: byte) div 64) div 4 = unat b"
  "(unat b mod 16 * 4 + unat c div 64) mod 4 * 64 + unat c mod 64 = unat c"
  "(unat a mod 4 * 16 + unat b div 16) mod 16 * 16 + unat b mod 16 * 4 div 4 = unat b"
  "unat a div 4 * 4 + unat a mod 4 * 16 div 16 = unat a"
  using byte_digits [of b] byte_digits [of c] by (simp_all only: digits_join div_mult_mod_eq nonzero_mult_div_cancel_right zero_neq_numeral [symmetric] not_False_eq_True)

lemma quanta_encode:
  "b64_quanta vs = Some bs \<Longrightarrow> b64_quanta ((unat a div 4) # (unat a mod 4 * 16 + unat b div 16) #
     (unat b mod 16 * 4 + unat c div 64) # (unat c mod 64) # vs) = Some (a # b # c # bs)"
  "b64_quanta [unat a div 4, unat a mod 4 * 16 + unat b div 16, unat b mod 16 * 4] = Some [a, b]"
  "b64_quanta [unat a div 4, unat a mod 4 * 16] = Some [a]"
  unfolding b64_quanta.simps byte_joins by simp_all

lemma RawURL_roundtrip_aux:
  "\<exists>vs. b64_values (RawURLEncode bs) = Some vs \<and> b64_quanta vs = Some bs \<and> strict_tail vs"
proof (induction bs rule: RawURLEncode.induct)
  case (4 a b c bs)
  then obtain vs where vs: "b64_values (RawURLEncode bs) = Some vs" "b64_quanta vs = Some bs" "strict_tail vs" by blast
  have "length (v1 # v2 # v3 # v4 # vs) mod 4 = length vs mod 4" for v1 v2 v3 v4 :: nat by simp
  then have "strict_tail (v1 # v2 # v3 # v4 # vs)" for v1 v2 v3 v4
    using vs(3) unfolding strict_tail_def by (cases "vs = []") simp_all
  then show ?case using quanta_encode(1) [OF vs(2), of a b c] vs(1) by (simp add: b64_digits del: b64_quanta.simps b64_values.simps(2))
next
  case (3 a b)
  show ?case using quanta_encode(2) [of a b]
    by (simp add: b64_digits strict_tail_def del: b64_quanta.simps b64_values.simps(2))
next
  case (2 a)
  show ?case using quanta_encode(3) [of a]
    by (simp add: b64_digits strict_tail_def del: b64_quanta.simps b64_values.simps(2))
qed (simp add: strict_tail_def)

lemma RawURL_roundtrip [simp]: "RawURLDecodeStrict (RawURLEncode bs) = Some bs"
  using RawURL_roundtrip_aux [of bs] by (auto simp: RawURLDecodeStrict_def)

subsection \<open>One signature, not two\<close>

lemma SetBytes_append: "SetBytes (bs @ [b]) = SetBytes bs * 256 + uint b"
  by (simp add: SetBytes_def)

lemma be_bytes_snoc: "be_bytes (Suc n) v = be_bytes n (v div 256) @ [of_int v]"
proof -
  have "be_bytes (Suc n) v = map (\<lambda>i. of_int (v div 256 ^ (n - i))) [0..<n] @ [of_int v]"
    by (simp add: be_bytes_def)
  also have "map (\<lambda>i. of_int (v div 256 ^ (n - i)) :: byte) [0..<n] = be_bytes n (v div 256)"
    unfolding be_bytes_def
  proof (rule map_cong [OF refl])
    fix i assume "i \<in> set [0..<n]"
    then have "n - i = Suc (n - 1 - i)" by simp
    then show "(of_int (v div 256 ^ (n - i)) :: byte) = of_int (v div 256 div 256 ^ (n - 1 - i))"
      by (simp add: zdiv_zmult2_eq)
  qed
  finally show ?thesis .
qed

lemma SetBytes_be_bytes: "0 \<le> v \<Longrightarrow> v < 256 ^ n \<Longrightarrow> SetBytes (be_bytes n v) = v"
proof (induction n arbitrary: v)
  case (Suc n)
  have "uint (of_int v :: byte) = v mod 256" by (simp add: uint_word_of_int)
  moreover have "0 \<le> v div 256" "v div 256 < 256 ^ n" using Suc.prems by (simp_all add: div_less_iff_less_mult mult.commute zdiv_int)
  ultimately show ?case using Suc.IH [of "v div 256"] by (simp add: be_bytes_snoc SetBytes_append)
qed (simp add: be_bytes_def SetBytes_def)


definition sample_sign :: "byte list \<Rightarrow> (int \<times> int) result" where
  "sample_sign digest = Inr (1, p256_n - 1)"

definition sample_verify :: ecdsa_verify where
  "sample_verify key digest r s \<longleftrightarrow> r = 1 \<and> (s = 1 \<or> s = p256_n - 1)"


subsection \<open>Keys and their texts\<close>

lemma SetBytes_FillBytes32: "0 \<le> v \<Longrightarrow> v < p256_p \<Longrightarrow> SetBytes (FillBytes32 v) = v"
  unfolding FillBytes32_def by (rule SetBytes_be_bytes) (simp_all add: p256_p_def)

lemma decodeCoordinate_encode [simp]: "decodeCoordinate (RawURLEncode (FillBytes32 v)) = Inr (FillBytes32 v)"
  by (simp add: decodeCoordinate_def FillBytes32_def)

text \<open>The text of a point is read back as that point, and it is accepted exactly when the point is on the curve.\<close>

lemma PublicJWK_roundtrip:
  "PublicJWK (x, y) = Inr jwk \<Longrightarrow> PublicKey jwk = Inr (x, y)"
  by (auto simp: PublicJWK_def PublicKey_def IsOnCurve_def SetBytes_FillBytes32 split: if_splits)

lemma PublicKey_on_curve: "PublicKey jwk = Inr (x, y) \<Longrightarrow> IsOnCurve x y"
  by (auto simp: PublicKey_def bindE_Inr_iff split: if_splits)

text \<open>
  The other direction fails: the strict decoder of base64 skips line breaks, so the text of a key is
  not determined by the key.  A line break before the first coordinate gives the same key with
  another canonical form, from which the thumbprint is computed.
\<close>

lemma key_text_not_unique:
  defines "other \<equiv> \<lambda>jwk. jwk\<lparr>jw_X := CHR 0x0A # jw_X jwk\<rparr>"
  shows "PublicKey (other jwk) = PublicKey jwk" and "canonical_jwk (other jwk) \<noteq> canonical_jwk jwk"
proof -
  have "RawURLDecodeStrict (CHR 0x0A # v) = RawURLDecodeStrict v" for v by (simp add: RawURLDecodeStrict_def code_def)
  then show "PublicKey (other jwk) = PublicKey jwk" by (simp add: PublicKey_def decodeCoordinate_def other_def)
  have "length (canonical_jwk (other jwk)) = length (canonical_jwk jwk) + 2"
    by (simp add: canonical_jwk_def json_member_def json_quote_def json_char_def code_def other_def)
  then show "canonical_jwk (other jwk) \<noteq> canonical_jwk jwk" by (metis n_not_Suc_n add_2_eq_Suc' Suc_n_not_n less_irrefl less_add_Suc1 add.commute add_Suc_right)
qed

end
