(* ===== verification/Dpop_Replay.thy ===== *)
theory Dpop_Replay
  imports Store_Access
begin

section \<open>Caches of used proofs (\<open>dpop/replay.go\<close> and \<open>storeReplayCache\<close> of \<open>gateway/server.go\<close>)\<close>

text \<open>
  A proof of possession may be used once.  The verifier asks a cache; there are two, one in memory
  and one over the table of the database.  The interface they share is the locale below.  What the
  cache answers: nothing, that the proof was used, that there is no room, or another error.
\<close>

datatype cache_error = ErrReplay | ErrReplayCapacity | CacheFailure go_error

type_synonym 'c cache_use = "string \<Rightarrow> string \<Rightarrow> time \<Rightarrow> time \<Rightarrow> 'c \<Rightarrow> cache_error option \<times> 'c"

subsection \<open>In memory\<close>

text \<open>The map from keys to expiry times is an association list with distinct keys.\<close>

record MemoryReplayCache =
  mc_maxEntries :: int
  mc_entries :: "(string \<times> time) list"

definition NewMemoryReplayCache :: "int \<Rightarrow> MemoryReplayCache result" where
  "NewMemoryReplayCache maxEntries =
     (if maxEntries \<le> 0 then Inl Plain else Inr \<lparr>mc_maxEntries = maxEntries, mc_entries = []\<rparr>)"

definition replay_key :: "string \<Rightarrow> string \<Rightarrow> string" where
  "replay_key jkt jti = jkt @ [CHR 0x00] @ jti"

text \<open>\<open>ctx\<close> is the error of the caller's context, if it was cancelled.\<close>

definition MemoryReplayCache_Use :: "go_error option \<Rightarrow> MemoryReplayCache cache_use" where
  "MemoryReplayCache_Use ctx jkt jti now expiresAt cache =
     (if jkt = [] \<or> jti = [] \<or> IsZeroTime now \<or> \<not> expiresAt > now then (Some (CacheFailure Plain), cache)
      else case ctx of
        Some e \<Rightarrow> (Some (CacheFailure e), cache)
      | None \<Rightarrow>
          let key = replay_key jkt jti;
              entries = filter (\<lambda>(_, expiry). expiry > now) (mc_entries cache);
              cache' = cache\<lparr>mc_entries := entries\<rparr>
          in if key \<in> fst ` set entries then (Some ErrReplay, cache')
             else if int (length entries) \<ge> mc_maxEntries cache then (Some ErrReplayCapacity, cache')
             else (None, cache'\<lparr>mc_entries := entries @ [(key, expiresAt)]\<rparr>))"

subsection \<open>Over the database\<close>

definition storeReplayCache_Use :: "drivers \<Rightarrow> int \<Rightarrow> db cache_use" where
  "storeReplayCache_Use D maxEntries jkt jti now expiresAt db =
     (let (r, db') = UseDPoPReplay D jkt jti now expiresAt maxEntries db
      in (case r of
            Inr _ \<Rightarrow> None
          | Inl e \<Rightarrow> if HasCode (Some e) CodeConflict then Some ErrReplay
                     else if HasCode (Some e) CodeResourceLimit then Some ErrReplayCapacity
                     else Some (CacheFailure e), db'))"

subsection \<open>What a verifier relies on\<close>

text \<open>
  \<open>recorded c jkt jti t\<close>: the cache will refuse the pair at every time before \<open>t\<close>.  The clock of
  the calls is the caller's; a call at or after \<open>t\<close> may forget the pair.  What a call depends on
  besides the cache, its context or the statements it runs, is its environment \<open>i\<close>; the promises
  hold in every environment that is \<open>good\<close>.
\<close>

locale replay_cache =
  fixes cache_use :: "'i \<Rightarrow> 'c cache_use"
    and good :: "'i \<Rightarrow> bool"
    and recorded :: "'c \<Rightarrow> string \<Rightarrow> string \<Rightarrow> time \<Rightarrow> bool"
  assumes accepts: "good i \<Longrightarrow> cache_use i jkt jti now expiresAt c = (None, c') \<Longrightarrow>
      now < expiresAt \<and> recorded c' jkt jti expiresAt"
    and keeps: "good i \<Longrightarrow> recorded c jkt jti t \<Longrightarrow> now < t \<Longrightarrow>
      recorded (snd (cache_use i jkt' jti' now expiresAt c)) jkt jti t"
    and refuses: "good i \<Longrightarrow> recorded c jkt jti t \<Longrightarrow> now < t \<Longrightarrow> fst (cache_use i jkt jti now expiresAt c) \<noteq> None"

definition memory_recorded :: "MemoryReplayCache \<Rightarrow> string \<Rightarrow> string \<Rightarrow> time \<Rightarrow> bool" where
  "memory_recorded c jkt jti t \<longleftrightarrow> (\<exists>e. (replay_key jkt jti, e) \<in> set (mc_entries c) \<and> t \<le> e)"

interpretation memory_cache: replay_cache MemoryReplayCache_Use "\<lambda>ctx. True" memory_recorded
proof unfold_locales
  fix ctx jkt jti now expiresAt c c'
  assume "MemoryReplayCache_Use ctx jkt jti now expiresAt c = (None, c')"
  then show "now < expiresAt \<and> memory_recorded c' jkt jti expiresAt"
    by (auto simp: MemoryReplayCache_Use_def memory_recorded_def Let_def split: if_splits option.splits)
next
  fix ctx c jkt jti t now jkt' jti' expiresAt
  assume "memory_recorded c jkt jti t" "now < t"
  then show "memory_recorded (snd (MemoryReplayCache_Use ctx jkt' jti' now expiresAt c)) jkt jti t"
    by (fastforce simp: MemoryReplayCache_Use_def memory_recorded_def Let_def split: option.splits)
next
  fix ctx c jkt jti t now expiresAt
  assume "memory_recorded c jkt jti t" "now < t"
  then show "fst (MemoryReplayCache_Use ctx jkt jti now expiresAt c) \<noteq> None"
    by (force simp: MemoryReplayCache_Use_def memory_recorded_def Let_def split: option.splits)
qed

text \<open>
  Each call of the database cache has its own statements, hence a driver of its own, and a limit;
  what the interface promises holds for every driver that keeps the laws of the tables.
\<close>

lemma storeReplayCache_Use_fst: "fst (storeReplayCache_Use D m jkt jti now E db) = None \<longleftrightarrow>
    \<not> isl (fst (UseDPoPReplay D jkt jti now E m db))"
  by (auto simp: storeReplayCache_Use_def split: prod.splits sum.splits)

lemma storeReplayCache_Use_snd: "snd (storeReplayCache_Use D m jkt jti now E db) = snd (UseDPoPReplay D jkt jti now E m db)"
  by (simp add: storeReplayCache_Use_def split: prod.splits)

interpretation store_cache: replay_cache "\<lambda>(D, m). storeReplayCache_Use D m" "\<lambda>(D, m). database_laws D"
  "\<lambda>db jkt jti t. replay_recorded jkt jti t db"
proof (unfold_locales, unfold case_prod_unfold)
  fix i :: "drivers \<times> int" and jkt jti now E c c'
  assume laws: "database_laws (fst i)" and ok: "storeReplayCache_Use (fst i) (snd i) jkt jti now E c = (None, c')"
  then obtain u where "UseDPoPReplay (fst i) jkt jti now E (snd i) c = (Inr u, c')"
    by (auto simp: storeReplayCache_Use_def split: prod.splits sum.splits if_splits)
  from UseDPoPReplay_InrD [OF laws this] show "now < E \<and> replay_recorded jkt jti E c'"
    by (auto simp: replay_recorded_def)
next
  fix i :: "drivers \<times> int" and c jkt jti t now jkt' jti' E
  assume "database_laws (fst i)" "replay_recorded jkt jti t c" "now < t"
  then show "replay_recorded jkt jti t (snd (storeReplayCache_Use (fst i) (snd i) jkt' jti' now E c))"
    by (simp add: storeReplayCache_Use_snd UseDPoPReplay_keeps)
next
  fix i :: "drivers \<times> int" and c jkt jti t now E
  assume "database_laws (fst i)" "replay_recorded jkt jti t c" "now < t"
  then show "fst (storeReplayCache_Use (fst i) (snd i) jkt jti now E c) \<noteq> None"
    using UseDPoPReplay_blocked [of "fst i" jkt jti t c now jkt jti E "snd i"] by (auto simp: storeReplayCache_Use_fst)
qed

subsection \<open>The two caches give the same answers\<close>

text \<open>A database whose statements on the table of used proofs do not fail, a violation of its key apart.\<close>

definition replay_database :: "drivers \<Rightarrow> bool" where
  "replay_database D \<longleftrightarrow> database_laws D \<and>
     (\<forall>t p. \<not> isl (d_delete (dr_replays D) t p)) \<and> (\<forall>t p. \<not> isl (d_count (dr_replays D) t p)) \<and>
     (\<forall>t r. (\<forall>x \<in> set t. \<not> replay_clash r x) \<longrightarrow> \<not> isl (d_create (dr_replays D) t r)) \<and>
     (\<forall>db db'. dr_commit D db db' = None)"

lemma replay_database_stmts:
  assumes "replay_database D"
  shows "d_delete (dr_replays D) t p = Inr (filter (\<lambda>r. \<not> p r) t)"
    and "d_count (dr_replays D) t p = Inr (length (filter p t))"
    and "\<forall>x \<in> set t. \<not> replay_clash r x \<Longrightarrow> d_create (dr_replays D) t r = Inr (t @ [r])"
    and "dr_commit D db db' = None"
proof -
  have "sql_table replay_clash (dr_replays D)"
    using assms database_lawsD(14) by (simp add: replay_database_def)
  then show "d_delete (dr_replays D) t p = Inr (filter (\<lambda>r. \<not> p r) t)" "d_count (dr_replays D) t p = Inr (length (filter p t))"
    "\<forall>x \<in> set t. \<not> replay_clash r x \<Longrightarrow> d_create (dr_replays D) t r = Inr (t @ [r])"
    using assms unfolding replay_database_def isl_def
    by (metis sum.exhaust sql_table.delete_rows, metis sum.exhaust sql_table.count_rows, metis sum.exhaust sql_table.create_row)
  show "dr_commit D db db' = None" using assms by (simp add: replay_database_def)
qed

lemma UseDPoPReplay_eval:
  assumes "replay_database D" and valid: "\<not> blank jkt" "\<not> blank jti" "\<not> IsZeroTime now" "now < E" "0 < m"
  shows "UseDPoPReplay D jkt jti now E m db =
    (let live = filter (\<lambda>r. now < dw_ExpiresAt r) (t_replays db)
     in if \<exists>r \<in> set live. dw_JKT r = TrimSpace jkt \<and> dw_JTI r = TrimSpace jti then (Inl (problem CodeConflict), db)
        else if int (length live) \<ge> m then (Inl (problem CodeResourceLimit), db)
        else (Inr (), db\<lparr>t_replays := live @
          [\<lparr>dw_JKT = TrimSpace jkt, dw_JTI = TrimSpace jti, dw_ExpiresAt = E, dw_CreatedAt = now\<rparr>]\<rparr>))"
proof -
  note stmts = replay_database_stmts [OF assms(1)]
  let ?live = "filter (\<lambda>r. now < dw_ExpiresAt r) (t_replays db)"
  let ?row = "\<lparr>dw_JKT = TrimSpace jkt, dw_JTI = TrimSpace jti, dw_ExpiresAt = E, dw_CreatedAt = now\<rparr>"
  have m: "\<not> m \<le> 0" using valid(5) by simp
  have live: "filter (\<lambda>r. \<not> dw_ExpiresAt r \<le> now) (t_replays db) = ?live" by (simp add: not_le)
  show ?thesis
  proof (cases "\<exists>r \<in> set ?live. dw_JKT r = TrimSpace jkt \<and> dw_JTI r = TrimSpace jti")
    case True
    then have "filter (\<lambda>r. dw_JKT r = TrimSpace jkt \<and> dw_JTI r = TrimSpace jti) ?live \<noteq> []"
      by (auto simp: filter_empty_conv)
    with True show ?thesis
      by (simp add: UseDPoPReplay_def run_tx_def tx_eval tx_delete_def tx_count_def stmts(1,2) live valid m Let_def)
  next
    case False
    then have "filter (\<lambda>r. dw_JKT r = TrimSpace jkt \<and> dw_JTI r = TrimSpace jti) ?live = []" "\<forall>x \<in> set ?live. \<not> replay_clash ?row x"
      by (auto simp: filter_empty_conv replay_clash_def)
    with False show ?thesis
      by (simp add: UseDPoPReplay_def run_tx_def tx_eval tx_delete_def tx_count_def tx_create_def stmts live valid m Let_def)
  qed
qed

text \<open>A sequence of calls: the thumbprint, the identifier, the time of the call and the expiry.\<close>

type_synonym cache_call = "string \<times> string \<times> time \<times> time"

fun cache_answers :: "'c cache_use \<Rightarrow> cache_call list \<Rightarrow> 'c \<Rightarrow> cache_error option list" where
  "cache_answers use [] c = []"
| "cache_answers use ((jkt, jti, now, E) # calls) c =
     (let (answer, c') = use jkt jti now E c in answer # cache_answers use calls c')"

text \<open>Answers that the verifier treats alike.\<close>

fun same_answer :: "cache_error option \<Rightarrow> cache_error option \<Rightarrow> bool" where
  "same_answer None None = True"
| "same_answer (Some ErrReplay) (Some ErrReplay) = True"
| "same_answer (Some ErrReplayCapacity) (Some ErrReplayCapacity) = True"
| "same_answer (Some (CacheFailure e)) (Some (CacheFailure e')) = True"
| "same_answer _ _ = False"

text \<open>Thumbprints are base64 text and identifiers are UUIDs, so neither has outer white space or a zero byte.\<close>

definition clean_text :: "string \<Rightarrow> bool" where
  "clean_text s \<longleftrightarrow> TrimSpace s = s \<and> CHR 0x00 \<notin> set s"

definition row_entry :: "dpopReplayRow \<Rightarrow> string \<times> time" where
  "row_entry r = (replay_key (dw_JKT r) (dw_JTI r), dw_ExpiresAt r)"

text \<open>What the two caches hold for times from \<open>now\<close> on is the same.\<close>

definition caches_agree :: "time \<Rightarrow> int \<Rightarrow> MemoryReplayCache \<Rightarrow> db \<Rightarrow> bool" where
  "caches_agree now m c db \<longleftrightarrow> mc_maxEntries c = m \<and>
     filter (\<lambda>(_, expiry). expiry > now) (mc_entries c) = map row_entry (filter (\<lambda>r. now < dw_ExpiresAt r) (t_replays db)) \<and>
     (\<forall>r \<in> set (t_replays db). CHR 0x00 \<notin> set (dw_JKT r))"

lemma replay_key_inject:
  assumes "CHR 0x00 \<notin> set jkt" "CHR 0x00 \<notin> set jkt'"
  shows "replay_key jkt jti = replay_key jkt' jti' \<longleftrightarrow> jkt = jkt' \<and> jti = jti'"
proof -
  have "takeWhile (\<lambda>c. c \<noteq> CHR 0x00) (replay_key a b) = a" if "CHR 0x00 \<notin> set a" for a b
    using that by (induction a) (auto simp: replay_key_def)
  with assms have "jkt = jkt'" if "replay_key jkt jti = replay_key jkt' jti'" using that by metis
  then show ?thesis by (auto simp: replay_key_def)
qed

lemma filter_later: "now \<le> now' \<Longrightarrow> filter (\<lambda>x. now' < f x) (filter (\<lambda>x. now < f x) xs) = filter (\<lambda>x. now' < (f x :: time)) xs"
  by (induction xs) auto

lemma caches_agree_later:
  assumes "caches_agree now m c db" "now \<le> now'"
  shows "caches_agree now' m c db"
proof -
  have "filter (\<lambda>x. now' < snd x) (mc_entries c) = filter (\<lambda>x. now' < snd x) (filter (\<lambda>x. now < snd x) (mc_entries c))"
    by (simp only: filter_later [OF assms(2)])
  also have "\<dots> = filter (\<lambda>x. now' < snd x) (map row_entry (filter (\<lambda>r. now < dw_ExpiresAt r) (t_replays db)))"
    using assms(1) by (simp add: caches_agree_def case_prod_unfold)
  also have "\<dots> = map row_entry (filter (\<lambda>r. now' < dw_ExpiresAt r) (t_replays db))"
    using filter_later [OF assms(2), of dw_ExpiresAt "t_replays db"] by (simp add: filter_map o_def row_entry_def)
  finally show ?thesis using assms(1) by (simp add: caches_agree_def case_prod_unfold)
qed

lemma caches_step:
  assumes D: "replay_database D" "0 < m" and agree: "caches_agree now m c db" and clean: "clean_text jkt" "clean_text jti"
  shows "same_answer (fst (MemoryReplayCache_Use None jkt jti now E c)) (fst (storeReplayCache_Use D m jkt jti now E db)) \<and>
     caches_agree now m (snd (MemoryReplayCache_Use None jkt jti now E c)) (snd (storeReplayCache_Use D m jkt jti now E db))"
proof (cases "jkt = [] \<or> jti = [] \<or> IsZeroTime now \<or> \<not> E > now")
  case True
  then have "UseDPoPReplay D jkt jti now E m db = (Inl (problem CodeInvalidArgument), db)"
    using clean by (auto simp: UseDPoPReplay_def run_tx_def tx_eval blank_def clean_text_def)
  with True agree show ?thesis by (auto simp: MemoryReplayCache_Use_def storeReplayCache_Use_def)
next
  case False
  let ?rows = "filter (\<lambda>r. now < dw_ExpiresAt r) (t_replays db)"
  have valid: "\<not> blank jkt" "\<not> blank jti" "\<not> IsZeroTime now" "now < E" "TrimSpace jkt = jkt" "TrimSpace jti = jti"
    using False clean by (auto simp: blank_def clean_text_def)
  have entries: "filter (\<lambda>(_, expiry). expiry > now) (mc_entries c) = map row_entry ?rows" "mc_maxEntries c = m"
    and zero: "\<forall>r \<in> set (t_replays db). CHR 0x00 \<notin> set (dw_JKT r)"
    using agree by (auto simp: caches_agree_def)
  have key: "replay_key jkt jti \<in> fst ` set (map row_entry ?rows) \<longleftrightarrow> (\<exists>r \<in> set ?rows. dw_JKT r = jkt \<and> dw_JTI r = jti)"
    using zero clean by (force simp: row_entry_def replay_key_inject clean_text_def)
  have live: "filter (\<lambda>(_, expiry). now < expiry) (map row_entry ?rows) = map row_entry ?rows"
    by (simp add: filter_map o_def row_entry_def case_prod_unfold)
  let ?row = "\<lparr>dw_JKT = jkt, dw_JTI = jti, dw_ExpiresAt = E, dw_CreatedAt = now\<rparr>"
  note memory = MemoryReplayCache_Use_def [of None jkt jti now E c] entries
  note store = storeReplayCache_Use_def UseDPoPReplay_eval [OF D(1) valid(1-4) D(2)] valid(5,6)
  consider "\<exists>r \<in> set ?rows. dw_JKT r = jkt \<and> dw_JTI r = jti"
    | "\<not> (\<exists>r \<in> set ?rows. dw_JKT r = jkt \<and> dw_JTI r = jti)" "int (length ?rows) \<ge> m"
    | "\<not> (\<exists>r \<in> set ?rows. dw_JKT r = jkt \<and> dw_JTI r = jti)" "\<not> int (length ?rows) \<ge> m" by blast
  then show ?thesis
  proof cases
    case 1
    then have "MemoryReplayCache_Use None jkt jti now E c = (Some ErrReplay, c\<lparr>mc_entries := map row_entry ?rows\<rparr>)"
      "storeReplayCache_Use D m jkt jti now E db = (Some ErrReplay, db)"
      using False key by (simp_all only: memory store Let_def) auto
    then show ?thesis using live entries zero by (simp add: caches_agree_def)
  next
    case 2
    then have "MemoryReplayCache_Use None jkt jti now E c = (Some ErrReplayCapacity, c\<lparr>mc_entries := map row_entry ?rows\<rparr>)"
      "storeReplayCache_Use D m jkt jti now E db = (Some ErrReplayCapacity, db)"
      using False key by (simp_all only: memory store Let_def) auto
    then show ?thesis using live entries zero by (simp add: caches_agree_def)
  next
    case 3
    then have "MemoryReplayCache_Use None jkt jti now E c =
        (None, c\<lparr>mc_entries := map row_entry ?rows @ [(replay_key jkt jti, E)]\<rparr>)"
      "storeReplayCache_Use D m jkt jti now E db = (None, db\<lparr>t_replays := ?rows @ [?row]\<rparr>)"
      using False key by (simp_all only: memory store Let_def) auto
    then show ?thesis using live entries zero valid(4) clean(1)
      by (auto simp: caches_agree_def clean_text_def row_entry_def)
  qed
qed

lemma cache_answers_same:
  assumes "replay_database D" "0 < m"
  shows "caches_agree t m c db \<Longrightarrow> sorted (t # map (\<lambda>(_, _, now, _). now) calls) \<Longrightarrow>
     \<forall>(jkt, jti, _, _) \<in> set calls. clean_text jkt \<and> clean_text jti \<Longrightarrow>
     list_all2 same_answer (cache_answers (MemoryReplayCache_Use None) calls c) (cache_answers (storeReplayCache_Use D m) calls db)"
proof (induction calls arbitrary: t c db)
  case (Cons call calls)
  obtain jkt jti now E where call: "call = (jkt, jti, now, E)" by (cases call)
  with Cons.prems have agree: "caches_agree now m c db" and rest: "sorted (now # map (\<lambda>(_, _, now, _). now) calls)"
    and clean: "clean_text jkt" "clean_text jti" "\<forall>(jkt, jti, _, _) \<in> set calls. clean_text jkt \<and> clean_text jti"
    by (auto intro: caches_agree_later)
  from caches_step [OF assms agree clean(1,2), of E] Cons.IH [OF _ rest clean(3)]
  show ?case by (simp add: call case_prod_unfold Let_def)
qed simp


lemma replay_database_reference: "replay_database reference_drivers"
  by (auto simp: replay_database_def reference_laws list_ex_iff)


end
