(* ===== verification/Dpop_Verifier.thy ===== *)
theory Dpop_Verifier
  imports Crypto_Es256 Dpop_Replay
begin

section \<open>Proofs of possession (\<open>dpop/verifier.go\<close>)\<close>

text \<open>
  A proof is three base64 segments: a header with the key, claims about the request, a signature.
  The verifier checks the form, the signature, that the key is the one the token is bound to, that
  the claims name this request, nonce and token, that the proof is fresh, and last that it was not
  used before.

  The record \<open>library\<close> collects what the verifier calls outside the repository: the JSON syntax
  analysis and the signature check as in \<open>Crypto_Es256\<close>, \<^verbatim>\<open>url.Parse\<close> and the text of a
  URL, the test whether a host is a loopback address, and lower case for text that is not ASCII.
\<close>

record URL =
  url_Scheme :: string
  url_Opaque :: string
  url_User :: bool
  url_Host :: string
  url_Path :: string
  url_RawPath :: string
  url_ForceQuery :: bool
  url_RawQuery :: string
  url_Fragment :: string
  url_RawFragment :: string

record library =
  lib_json :: json_parser
  lib_verify :: ecdsa_verify
  lib_url :: "string \<Rightarrow> URL option"
  lib_url_string :: "URL \<Rightarrow> string"
  lib_loopback :: "string \<Rightarrow> bool"
  lib_lower :: "string \<Rightarrow> string"

subsection \<open>Text\<close>

definition HasPrefix :: "string \<Rightarrow> string \<Rightarrow> bool" where
  "HasPrefix s p \<longleftrightarrow> take (length p) s = p"

definition TrimPrefix :: "string \<Rightarrow> string \<Rightarrow> string" where
  "TrimPrefix s p = (if HasPrefix s p then drop (length p) s else s)"

fun Split :: "string \<Rightarrow> char \<Rightarrow> string list" where
  "Split [] sep = [[]]"
| "Split (c # s) sep = (if c = sep then [] # Split s sep else (case Split s sep of [] \<Rightarrow> [[c]] | p # ps \<Rightarrow> (c # p) # ps))"

definition ToLower :: "library \<Rightarrow> string \<Rightarrow> string" where
  "ToLower L s = (if list_all (\<lambda>c. code c < 128) s then map (\<lambda>c. if is_upper c then char_of (code c + 32) else c) s else lib_lower L s)"

text \<open>\<^verbatim>\<open>^[0-9a-f]{8}-[0-9a-f]{4}-4[0-9a-f]{3}-[89ab][0-9a-f]{3}-[0-9a-f]{12}$\<close>\<close>

definition is_hex_lower :: "char \<Rightarrow> bool" where
  "is_hex_lower c \<longleftrightarrow> is_digit c \<or> 97 \<le> code c \<and> code c \<le> 102"

definition uuidV4Pattern :: "string \<Rightarrow> bool" where
  "uuidV4Pattern s \<longleftrightarrow> length s = 36 \<and> list_all (\<lambda>i.
     if i = 8 \<or> i = 13 \<or> i = 18 \<or> i = 23 then s ! i = CHR ''-''
     else if i = 14 then s ! i = CHR ''4''
     else if i = 19 then s ! i \<in> set ''89ab''
     else is_hex_lower (s ! i)) [0..<36]"

subsection \<open>The address of the request\<close>

text \<open>\<^verbatim>\<open>URL.Hostname\<close> and \<^verbatim>\<open>URL.Port\<close>: the host is cut at its last colon if only digits follow.\<close>

definition last_colon :: "string \<Rightarrow> nat option" where
  "last_colon s = (if CHR '':'' \<in> set s then Some (length s - 1 - length (takeWhile (\<lambda>c. c \<noteq> CHR '':'') (rev s))) else None)"

definition splitHostPort :: "string \<Rightarrow> string \<times> string" where
  "splitHostPort hostPort =
     (let (host, port) = (case last_colon hostPort of
            None \<Rightarrow> (hostPort, [])
          | Some i \<Rightarrow> if list_all is_digit (drop (Suc i) hostPort) then (take i hostPort, drop (Suc i) hostPort) else (hostPort, []))
      in if 2 \<le> length host \<and> hd host = CHR ''['' \<and> last host = CHR '']'' then (butlast (tl host), port) else (host, port))"

definition JoinHostPort :: "string \<Rightarrow> string \<Rightarrow> string" where
  "JoinHostPort host port = (if CHR '':'' \<in> set host then ''['' @ host @ '']:'' @ port else host @ '':'' @ port)"

definition NormalizeHTU :: "library \<Rightarrow> string \<Rightarrow> string result" where
  "NormalizeHTU L v = (case lib_url L v of
       None \<Rightarrow> Inl Plain
     | Some parsed \<Rightarrow>
         if url_Scheme parsed = [] \<or> url_Host parsed = [] \<or> url_User parsed then Inl Plain
         else let scheme = ToLower L (url_Scheme parsed);
                  hostname = ToLower L (fst (splitHostPort (url_Host parsed)));
                  port = snd (splitHostPort (url_Host parsed))
              in if scheme \<noteq> ''https'' \<and> (scheme \<noteq> ''http'' \<or> \<not> (hostname = ''localhost'' \<or> lib_loopback L hostname)) then Inl Plain
                 else let port = (if scheme = ''https'' \<and> port = ''443'' \<or> scheme = ''http'' \<and> port = ''80'' then [] else port);
                          host = (if port \<noteq> [] then JoinHostPort hostname port
                                  else if CHR '':'' \<in> set hostname then ''['' @ hostname @ '']'' else hostname)
                      in Inr (lib_url_string L (parsed\<lparr>url_Scheme := scheme, url_Host := host, url_RawQuery := [], url_ForceQuery := False,
                           url_Fragment := [], url_RawFragment := [],
                           url_Path := if url_Path parsed = [] then ''/'' else url_Path parsed\<rparr>)))"

subsection \<open>Strict JSON objects\<close>

text \<open>Names that occur twice in one object are rejected at every depth.\<close>

fun scanJSONValue :: "json \<Rightarrow> bool" where
  "scanJSONValue (JObject kvs) \<longleftrightarrow> distinct (map fst kvs) \<and> (\<forall>v \<in> snd ` set kvs. scanJSONValue v)"
| "scanJSONValue (JArray vs) \<longleftrightarrow> (\<forall>v \<in> set vs. scanJSONValue v)"
| "scanJSONValue _ \<longleftrightarrow> True"

definition decodeStrictObject ::
    "library \<Rightarrow> string list \<Rightarrow> (string \<Rightarrow> json \<Rightarrow> 's \<Rightarrow> 's option) \<Rightarrow> 's \<Rightarrow> byte list \<Rightarrow> 's option" where
  "decodeStrictObject L names set_field initial input = (case lib_json L input of
       None \<Rightarrow> None
     | Some (j, alone) \<Rightarrow> if \<not> scanJSONValue j \<or> \<not> alone then None else decode_struct names set_field initial j)"

record proofHeader =
  ph_Algorithm :: string
  ph_JWK :: "json option"
  ph_Type :: string

record proofClaims =
  pc_AccessTokenHash :: string
  pc_HTTPMethod :: string
  pc_HTTPURI :: string
  pc_IssuedAt :: int
  pc_JTI :: string
  pc_Nonce :: string

text \<open>The raw value of \<^verbatim>\<open>jwk\<close> is kept; parsing its bytes again gives the same value.\<close>

definition set_header_field :: "string \<Rightarrow> json \<Rightarrow> proofHeader \<Rightarrow> proofHeader option" where
  "set_header_field name =
     (if name = ''alg'' then set_string (\<lambda>v s. s\<lparr>ph_Algorithm := v\<rparr>)
      else if name = ''jwk'' then (\<lambda>v s. Some (s\<lparr>ph_JWK := Some v\<rparr>))
      else set_string (\<lambda>v s. s\<lparr>ph_Type := v\<rparr>))"

text \<open>A number for a 64-bit integer: decimal digits with a sign, in range.\<close>

definition parse_int64 :: "string \<Rightarrow> int option" where
  "parse_int64 s =
     (let digits = (if HasPrefix s ''-'' then tl s else s);
          n = foldl (\<lambda>n c. n * 10 + int (code c - 48)) 0 digits;
          v = (if HasPrefix s ''-'' then - n else n)
      in if digits = [] \<or> \<not> list_all is_digit digits \<or> v < - (2 ^ 63) \<or> v \<ge> 2 ^ 63 then None else Some v)"

definition set_int64 :: "(int \<Rightarrow> 's \<Rightarrow> 's) \<Rightarrow> json \<Rightarrow> 's \<Rightarrow> 's option" where
  "set_int64 upd v s = (case v of
       JNumber literal \<Rightarrow> map_option (\<lambda>n. upd n s) (parse_int64 literal)
     | JNull \<Rightarrow> Some s
     | _ \<Rightarrow> None)"

definition set_claims_field :: "string \<Rightarrow> json \<Rightarrow> proofClaims \<Rightarrow> proofClaims option" where
  "set_claims_field name =
     (if name = ''ath'' then set_string (\<lambda>v s. s\<lparr>pc_AccessTokenHash := v\<rparr>)
      else if name = ''htm'' then set_string (\<lambda>v s. s\<lparr>pc_HTTPMethod := v\<rparr>)
      else if name = ''htu'' then set_string (\<lambda>v s. s\<lparr>pc_HTTPURI := v\<rparr>)
      else if name = ''iat'' then set_int64 (\<lambda>v s. s\<lparr>pc_IssuedAt := v\<rparr>)
      else if name = ''jti'' then set_string (\<lambda>v s. s\<lparr>pc_JTI := v\<rparr>)
      else set_string (\<lambda>v s. s\<lparr>pc_Nonce := v\<rparr>))"

definition decode_header :: "library \<Rightarrow> byte list \<Rightarrow> proofHeader option" where
  "decode_header L = decodeStrictObject L [''alg'', ''jwk'', ''typ''] set_header_field
     \<lparr>ph_Algorithm = [], ph_JWK = None, ph_Type = []\<rparr>"

definition decode_claims :: "library \<Rightarrow> byte list \<Rightarrow> proofClaims option" where
  "decode_claims L = decodeStrictObject L [''ath'', ''htm'', ''htu'', ''iat'', ''jti'', ''nonce''] set_claims_field
     \<lparr>pc_AccessTokenHash = [], pc_HTTPMethod = [], pc_HTTPURI = [], pc_IssuedAt = 0, pc_JTI = [], pc_Nonce = []\<rparr>"

subsection \<open>The verifier\<close>

datatype dpop_code =
    CodeMalformedProof | CodeUnsupportedAlgorithm | CodeSignatureInvalid | CodeRequestMismatch
  | CodeProofExpired | CodeNonceRequired | CodeReplay | CodeReplayCacheFull

record Requirements =
  rq_AccessToken :: string
  rq_ExpectedJKT :: string
  rq_ExpectedNonce :: string
  rq_ExpectedNonceHash :: "byte list"
  rq_HTM :: string
  rq_HTU :: string
  rq_Now :: time

record Result =
  rs_JTI :: string
  rs_JKT :: string
  rs_IssuedAt :: time
  rs_PublicJWK :: P256PublicJWK

record Verifier =
  vr_MaxAge :: duration
  vr_FutureSkew :: duration

definition max_age :: "Verifier \<Rightarrow> duration" where
  "max_age v = (if vr_MaxAge v \<le> 0 then 5 * Minute else vr_MaxAge v)"

definition future_skew :: "Verifier \<Rightarrow> duration" where
  "future_skew v = (if vr_FutureSkew v = 0 then 30 * Second else vr_FutureSkew v)"

definition maxProofBytes :: nat where "maxProofBytes = 12 * 1024"

text \<open>\<^verbatim>\<open>time.Unix(sec, 0)\<close>: the seconds are moved to the year 1 in 64 bits.\<close>

definition time_Unix :: "int \<Rightarrow> time" where
  "time_Unix sec = sint (word_of_int (sec + 62135596800) :: 64 word) * 1000000000"

text \<open>The key and the claims a proof carries; nothing here depends on the request.\<close>

definition open_proof :: "library \<Rightarrow> string \<Rightarrow> dpop_code + (P256PublicJWK \<times> string \<times> byte list)" where
  "open_proof L proof = (case Split proof CHR ''.'' of
       [part0, part1, part2] \<Rightarrow>
         if part0 = [] \<or> part1 = [] \<or> part2 = [] then Inl CodeMalformedProof
         else (case (RawURLDecodeStrict part0, RawURLDecodeStrict part1, RawURLDecodeStrict part2) of
           (Some headerBytes, Some claimsBytes, Some signature) \<Rightarrow> (case decode_header L headerBytes of
               None \<Rightarrow> Inl CodeMalformedProof
             | Some header \<Rightarrow>
                 if ph_Type header \<noteq> ''dpop+jwt'' \<or> ph_Algorithm header \<noteq> ''ES256'' then Inl CodeUnsupportedAlgorithm
                 else (case ph_JWK header of
                     None \<Rightarrow> Inl CodeMalformedProof
                   | Some j \<Rightarrow> (case jwk_of_json j of
                         Inl e \<Rightarrow> Inl CodeMalformedProof
                       | Inr publicJWK \<Rightarrow> (case PublicKey publicJWK of
                             Inl e \<Rightarrow> Inl CodeMalformedProof
                           | Inr publicKey \<Rightarrow>
                               if \<not> VerifyP1363LowS (lib_verify L) publicKey (bytes_of (part0 @ ''.'' @ part1)) signature
                               then Inl CodeSignatureInvalid
                               else (case Thumbprint publicJWK of
                                   Inl e \<Rightarrow> Inl CodeMalformedProof
                                 | Inr jkt \<Rightarrow> Inr (publicJWK, jkt, claimsBytes))))))
         | _ \<Rightarrow> Inl CodeMalformedProof)
     | _ \<Rightarrow> Inl CodeMalformedProof)"

text \<open>The claims against the request.  \<open>None\<close> is no objection.\<close>

definition check_claims :: "library \<Rightarrow> Requirements \<Rightarrow> proofClaims \<Rightarrow> dpop_code option" where
  "check_claims L rq claims =
     (if \<not> uuidV4Pattern (pc_JTI claims) then Some CodeMalformedProof
      else if pc_HTTPMethod claims \<noteq> rq_HTM rq then Some CodeRequestMismatch
      else (case (NormalizeHTU L (pc_HTTPURI claims), NormalizeHTU L (rq_HTU rq)) of
          (Inr claimHTU, Inr expectedHTU) \<Rightarrow>
            if claimHTU \<noteq> expectedHTU then Some CodeRequestMismatch
            else if rq_ExpectedNonce rq = [] \<and> allZero (rq_ExpectedNonceHash rq) \<or> pc_Nonce claims = [] then Some CodeNonceRequired
            else if (if \<not> allZero (rq_ExpectedNonceHash rq) then sha256 (bytes_of (pc_Nonce claims)) \<noteq> rq_ExpectedNonceHash rq
                     else pc_Nonce claims \<noteq> rq_ExpectedNonce rq) then Some CodeRequestMismatch
            else if (if rq_AccessToken rq = [] then pc_AccessTokenHash claims \<noteq> []
                     else pc_AccessTokenHash claims \<noteq> AccessTokenHash (rq_AccessToken rq)) then Some CodeRequestMismatch
            else None
        | _ \<Rightarrow> Some CodeMalformedProof))"

text \<open>\<open>clock\<close> is what \<^verbatim>\<open>time.Now\<close> returns, used when the caller gives no time.\<close>

definition verification_time :: "time \<Rightarrow> Requirements \<Rightarrow> time" where
  "verification_time clock rq = (if IsZeroTime (rq_Now rq) then clock else rq_Now rq)"

definition Verify ::
    "library \<Rightarrow> Verifier \<Rightarrow> 'c cache_use \<Rightarrow> time \<Rightarrow> string \<Rightarrow> Requirements \<Rightarrow> 'c \<Rightarrow> (dpop_code + Result) \<times> 'c" where
  "Verify L verifier cache_use clock proof rq c =
     (if length proof = 0 \<or> length proof > maxProofBytes then (Inl CodeMalformedProof, c)
      else if vr_FutureSkew verifier < 0 then (Inl CodeMalformedProof, c)
      else case open_proof L proof of
        Inl refusal \<Rightarrow> (Inl refusal, c)
      | Inr (publicJWK, jkt, claimsBytes) \<Rightarrow>
          if jkt \<noteq> rq_ExpectedJKT rq then (Inl CodeRequestMismatch, c)
          else (case decode_claims L claimsBytes of
              None \<Rightarrow> (Inl CodeMalformedProof, c)
            | Some claims \<Rightarrow> (case check_claims L rq claims of
                  Some refusal \<Rightarrow> (Inl refusal, c)
                | None \<Rightarrow>
                    let now = verification_time clock rq;
                        issuedAt = time_Unix (pc_IssuedAt claims);
                        expiresAt = issuedAt + (max_age verifier + future_skew verifier)
                    in if issuedAt > now + future_skew verifier \<or> issuedAt < now - max_age verifier then (Inl CodeProofExpired, c)
                       else (case cache_use jkt (pc_JTI claims) now expiresAt c of
                           (Some err, c') \<Rightarrow> (Inl (if err = ErrReplay then CodeReplay else CodeReplayCacheFull), c')
                         | (None, c') \<Rightarrow> (Inr \<lparr>rs_JTI = pc_JTI claims, rs_JKT = jkt, rs_IssuedAt = issuedAt, rs_PublicJWK = publicJWK\<rparr>, c')))))"

subsection \<open>A proof is accepted once\<close>

lemma Verify_Inr:
  assumes "Verify L v cache_use clock proof rq c = (Inr r, c')"
  shows "\<exists>publicJWK claimsBytes claims. open_proof L proof = Inr (publicJWK, rs_JKT r, claimsBytes) \<and>
     decode_claims L claimsBytes = Some claims \<and> check_claims L rq claims = None \<and> rs_JKT r = rq_ExpectedJKT rq \<and>
     rs_JTI r = pc_JTI claims \<and> rs_IssuedAt r = time_Unix (pc_IssuedAt claims) \<and> rs_PublicJWK r = publicJWK \<and>
     0 \<le> vr_FutureSkew v \<and> rs_IssuedAt r \<le> verification_time clock rq + future_skew v \<and>
     verification_time clock rq - max_age v \<le> rs_IssuedAt r \<and>
     cache_use (rs_JKT r) (rs_JTI r) (verification_time clock rq) (rs_IssuedAt r + (max_age v + future_skew v)) c = (None, c')"
  using assms unfolding Verify_def
  by (auto simp: Let_def not_less split: if_splits sum.splits option.splits prod.splits)

lemma Verify_state: "snd (Verify L v cache_use clock proof rq c) = c \<or>
    (\<exists>jkt jti expiresAt. snd (Verify L v cache_use clock proof rq c) =
       snd (cache_use jkt jti (verification_time clock rq) expiresAt c))"
  unfolding Verify_def
  by (auto simp: Let_def split: sum.splits option.splits prod.splits) (metis snd_conv)+

lemma future_skew_positive: "0 \<le> vr_FutureSkew v \<Longrightarrow> 0 < future_skew v"
  by (simp add: future_skew_def Second_def)

text \<open>A run of verifications: the environment of each, the clock, the proof and the request.\<close>

type_synonym 'i attempt = "'i \<times> time \<times> string \<times> Requirements"

fun attempt_time :: "'i attempt \<Rightarrow> time" where
  "attempt_time (i, clock, proof, rq) = verification_time clock rq"

fun accepted_proofs :: "library \<Rightarrow> Verifier \<Rightarrow> ('i \<Rightarrow> 'c cache_use) \<Rightarrow> 'i attempt list \<Rightarrow> 'c \<Rightarrow> (string \<times> Result) list" where
  "accepted_proofs L v use [] c = []"
| "accepted_proofs L v use ((i, clock, proof, rq) # rest) c = (case Verify L v (use i) clock proof rq c of
       (Inl _, c') \<Rightarrow> accepted_proofs L v use rest c'
     | (Inr r, c') \<Rightarrow> (proof, r) # accepted_proofs L v use rest c')"

definition proof_identity :: "Result \<Rightarrow> string \<times> string \<times> time" where
  "proof_identity r = (rs_JKT r, rs_JTI r, rs_IssuedAt r)"

lemma too_old_not_accepted:
  "\<forall>b \<in> set attempts. rs_IssuedAt r < attempt_time b - max_age v \<Longrightarrow>
     proof_identity r \<notin> (proof_identity \<circ> snd) ` set (accepted_proofs L v use attempts c)"
proof (induction attempts arbitrary: c)
  case (Cons b bs)
  obtain i clock pf rq where b: "b = (i, clock, pf, rq)" by (cases b)
  obtain x c' where step: "Verify L v (use i) clock pf rq c = (x, c')" by fastforce
  have "proof_identity r' \<noteq> proof_identity r" if "x = Inr r'" for r'
    using Verify_Inr [OF step [unfolded that]] Cons.prems by (auto simp: proof_identity_def b)
  then show ?case using step Cons.IH [of c'] Cons.prems by (auto simp: b image_iff split: sum.splits)
qed simp

context replay_cache
begin

lemma recorded_not_accepted:
  assumes "\<forall>(i, _) \<in> set attempts. good i" and "recorded c (rs_JKT r) (rs_JTI r) (rs_IssuedAt r + (max_age v + future_skew v))"
    and "0 \<le> vr_FutureSkew v" and "sorted (map attempt_time attempts)"
  shows "proof_identity r \<notin> (proof_identity \<circ> snd) ` set (accepted_proofs L v cache_use attempts c)"
  using assms(1,2,4)
proof (induction attempts arbitrary: c)
  case (Cons a attempts)
  obtain i clock pf rq where a: "a = (i, clock, pf, rq)" by (cases a)
  let ?E = "rs_IssuedAt r + (max_age v + future_skew v)" and ?now = "verification_time clock rq"
  obtain x c' where step: "Verify L v (cache_use i) clock pf rq c = (x, c')" by fastforce
  show ?case
  proof (cases "?now < ?E")
    case True
    have "recorded c' (rs_JKT r) (rs_JTI r) ?E"
      using Verify_state [of L v "cache_use i" clock pf rq c] keeps [of i c "rs_JKT r" "rs_JTI r" ?E ?now] Cons.prems True step
      by (auto simp: a)
    then have rest: "proof_identity r \<notin> (proof_identity \<circ> snd) ` set (accepted_proofs L v cache_use attempts c')"
      using Cons by (simp add: a)
    have "proof_identity r' \<noteq> proof_identity r" if "x = Inr r'" for r'
      using Verify_Inr [OF step [unfolded that]] refuses [of i c "rs_JKT r" "rs_JTI r" ?E ?now ?E] Cons.prems(1,2) True
      by (auto simp: proof_identity_def a)
    then show ?thesis using rest step by (auto simp: a image_iff split: sum.splits)
  next
    case False
    then have "\<forall>b \<in> set (a # attempts). rs_IssuedAt r < attempt_time b - max_age v"
      using Cons.prems(3) future_skew_positive [OF assms(3)] by (auto simp: a)
    then show ?thesis by (rule too_old_not_accepted)
  qed
qed simp

lemma accepted_once:
  assumes "\<forall>(i, _) \<in> set attempts. good i" "sorted (map attempt_time attempts)"
  shows "distinct (map (proof_identity \<circ> snd) (accepted_proofs L v cache_use attempts c))"
  using assms
proof (induction attempts arbitrary: c)
  case (Cons a attempts)
  obtain i clock pf rq where a: "a = (i, clock, pf, rq)" by (cases a)
  obtain x c' where step: "Verify L v (cache_use i) clock pf rq c = (x, c')" by fastforce
  have rest: "distinct (map (proof_identity \<circ> snd) (accepted_proofs L v cache_use attempts c'))" using Cons by (simp add: o_def)
  show ?case
  proof (cases x)
    case (Inr r)
    note v = Verify_Inr [OF step [unfolded Inr]]
    then have "recorded c' (rs_JKT r) (rs_JTI r) (rs_IssuedAt r + (max_age v + future_skew v))"
      using accepts Cons.prems(1) by (auto simp: a)
    then have "proof_identity r \<notin> (proof_identity \<circ> snd) ` set (accepted_proofs L v cache_use attempts c')"
      by (rule recorded_not_accepted [rotated]) (use Cons.prems v in auto)
    then show ?thesis using rest step Inr by (simp add: a o_def)
  qed (use rest step in \<open>simp add: a o_def\<close>)
qed simp

end

text \<open>What a proof says does not depend on the request it is checked against.\<close>

lemma accepted_proofs_result:
  "(p, r) \<in> set (accepted_proofs L v use attempts c) \<Longrightarrow> \<exists>jwk jkt bytes claims. open_proof L p = Inr (jwk, jkt, bytes) \<and>
     decode_claims L bytes = Some claims \<and> proof_identity r = (jkt, pc_JTI claims, time_Unix (pc_IssuedAt claims))"
proof (induction attempts arbitrary: c)
  case (Cons b bs)
  obtain i clock pf rq where b: "b = (i, clock, pf, rq)" by (cases b)
  obtain x c' where step: "Verify L v (use i) clock pf rq c = (x, c')" by fastforce
  show ?case
  proof (cases "x = Inr r \<and> p = pf")
    case True
    then show ?thesis using Verify_Inr [of L v "use i" clock pf rq c r c'] step by (auto simp: proof_identity_def)
  next
    case False
    then show ?thesis using Cons step by (auto simp: b split: sum.splits)
  qed
qed simp

lemma distinct_proofs:
  assumes "distinct (map (proof_identity \<circ> snd) (accepted_proofs L v use attempts c))"
  shows "distinct (map fst (accepted_proofs L v use attempts c))"
proof -
  have inj: "inj_on (proof_identity \<circ> snd) (set (accepted_proofs L v use attempts c))" and "distinct (accepted_proofs L v use attempts c)"
    using assms by (simp_all add: distinct_map)
  moreover have "inj_on fst (set (accepted_proofs L v use attempts c))"
  proof (rule inj_onI)
    fix x y assume xy: "x \<in> set (accepted_proofs L v use attempts c)" "y \<in> set (accepted_proofs L v use attempts c)" "fst x = fst y"
    then obtain p r r' where eq: "x = (p, r)" "y = (p, r')" by (metis prod.collapse)
    from xy(1,2) [unfolded eq, THEN accepted_proofs_result] have "(proof_identity \<circ> snd) x = (proof_identity \<circ> snd) y"
      by (auto simp: eq)
    with xy(1,2) inj show "x = y" by (auto simp: inj_on_def)
  qed
  ultimately show ?thesis by (simp add: distinct_map)
qed


text \<open>A library and a proof that is accepted: the key is the generator of the curve.\<close>

definition sample_key :: P256PublicJWK where
  "sample_key = \<lparr>jw_Curve = ''P-256'', jw_KeyType = ''EC'',
     jw_X = RawURLEncode (FillBytes32 48439561293906451759052585252797914202762949526041747995844080717082404635286),
     jw_Y = RawURLEncode (FillBytes32 36134250956749795798585127919587881956611106672985015071877198253568414405109)\<rparr>"

definition sample_header :: json where
  "sample_header = JObject [(''alg'', JString ''ES256''), (''typ'', JString ''dpop+jwt''), (''jwk'', JObject
     [(''crv'', JString ''P-256''), (''kty'', JString ''EC''), (''x'', JString (jw_X sample_key)), (''y'', JString (jw_Y sample_key))])]"

definition sample_claims :: json where
  "sample_claims = JObject [(''htm'', JString ''POST''), (''htu'', JString ''https://p.example/t''), (''iat'', JNumber ''1000''),
     (''jti'', JString ''00000000-0000-4000-8000-000000000001''), (''nonce'', JString ''n'')]"

definition sample_url :: URL where
  "sample_url = \<lparr>url_Scheme = ''https'', url_Opaque = [], url_User = False, url_Host = ''p.example'', url_Path = ''/t'', url_RawPath = [],
     url_ForceQuery = False, url_RawQuery = [], url_Fragment = [], url_RawFragment = []\<rparr>"

definition sample_library :: library where
  "sample_library = \<lparr>lib_json = (\<lambda>bs. if bs = [1] then Some (sample_header, True) else if bs = [2] then Some (sample_claims, True) else None),
     lib_verify = (\<lambda>key digest r s. r = 1 \<and> s = 1), lib_url = (\<lambda>s. if s = ''https://p.example/t'' then Some sample_url else None),
     lib_url_string = url_Path, lib_loopback = (\<lambda>_. False), lib_lower = id\<rparr>"

definition sample_proof :: string where
  "sample_proof = ''AQ.Ag.AAAAAAAAAAAAAAAAAAAAAAAAAAAAAAAAAAAAAAAAAAEAAAAAAAAAAAAAAAAAAAAAAAAAAAAAAAAAAAAAAAAAAQ''"

definition sample_jkt :: string where
  "sample_jkt = RawURLEncode (sha256 (bytes_of (canonical_jwk sample_key)))"

definition sample_requirements :: "time \<Rightarrow> Requirements" where
  "sample_requirements now = \<lparr>rq_AccessToken = [], rq_ExpectedJKT = sample_jkt, rq_ExpectedNonce = ''n'', rq_ExpectedNonceHash = replicate 32 0,
     rq_HTM = ''POST'', rq_HTU = ''https://p.example/t'', rq_Now = now\<rparr>"

lemma sample_public_key: "\<exists>p. PublicKey sample_key = Inr p"
  by (simp add: PublicKey_def sample_key_def SetBytes_FillBytes32 p256_p_def IsOnCurve_def p256_b_def)

lemma sample_jwk: "jwk_of_json (JObject
     [(''crv'', JString ''P-256''), (''kty'', JString ''EC''), (''x'', JString (jw_X sample_key)), (''y'', JString (jw_Y sample_key))]) = Inr sample_key"
proof -
  have "no_jwk\<lparr>jw_Curve := ''P-256'', jw_KeyType := ''EC'', jw_X := jw_X sample_key, jw_Y := jw_Y sample_key\<rparr> = sample_key"
    by (simp add: sample_key_def no_jwk_def)
  then show ?thesis using sample_public_key
    by (auto simp: jwk_of_json_def decode_struct_def jwk_names_def field_of_def set_jwk_field_def set_string_def)
qed

lemma sample_segments: "Split sample_proof CHR ''.'' = [''AQ'', ''Ag'', drop 6 sample_proof]"
  "RawURLDecodeStrict ''AQ'' = Some [1]" "RawURLDecodeStrict ''Ag'' = Some [2]"
  "RawURLDecodeStrict (drop 6 sample_proof) = Some (replicate 31 0 @ [1] @ replicate 31 0 @ [1])"
  by code_simp+

lemma sample_open: "open_proof sample_library sample_proof = Inr (sample_key, sample_jkt, [2])"
proof -
  have header: "decode_header sample_library [1] = Some \<lparr>ph_Algorithm = ''ES256'', ph_JWK = Some (JObject
     [(''crv'', JString ''P-256''), (''kty'', JString ''EC''), (''x'', JString (jw_X sample_key)), (''y'', JString (jw_Y sample_key))]),
     ph_Type = ''dpop+jwt''\<rparr>"
    by (simp add: decode_header_def decodeStrictObject_def sample_library_def sample_header_def decode_struct_def field_of_def
        set_header_field_def set_string_def)
  have signature: "VerifyP1363LowS (lib_verify sample_library) p m (replicate 31 0 @ [1] @ replicate 31 0 @ [1])" for p m
    by (simp add: VerifyP1363LowS_def SetBytes_def sample_library_def p256_n_def numeral_eq_Suc)
  obtain p where p: "PublicKey sample_key = Inr p" using sample_public_key ..
  have "drop 6 sample_proof \<noteq> []" by (simp add: sample_proof_def)
  then show ?thesis unfolding open_proof_def
    by (simp add: sample_segments header sample_jwk p signature [simplified] Thumbprint_def sample_jkt_def)
qed

lemma sample_checked:
  "\<exists>claims. decode_claims sample_library [2] = Some claims \<and> check_claims sample_library (sample_requirements now) claims = None \<and>
     time_Unix (pc_IssuedAt claims) = 62135597800 * Second"
proof -
  have jti: "uuidV4Pattern ''00000000-0000-4000-8000-000000000001''" by code_simp
  have iat: "parse_int64 ''1000'' = Some 1000" by code_simp
  have claims: "decode_claims sample_library [2] = Some \<lparr>pc_AccessTokenHash = [], pc_HTTPMethod = ''POST'', pc_HTTPURI = ''https://p.example/t'',
      pc_IssuedAt = 1000, pc_JTI = ''00000000-0000-4000-8000-000000000001'', pc_Nonce = ''n''\<rparr>"
    by (simp add: decode_claims_def decodeStrictObject_def sample_library_def sample_claims_def decode_struct_def field_of_def
        set_claims_field_def set_string_def set_int64_def iat)
  have "NormalizeHTU sample_library ''https://p.example/t'' = Inr ''/t''" by code_simp
  then show ?thesis using claims jti
    by (auto simp: check_claims_def sample_requirements_def allZero_set time_Unix_def Second_def)
qed


end
