(* ===== verification/Gateway_Packets.thy ===== *)
theory Gateway_Packets
  imports Gateway_Connections Dpop_Verifier Store_Frames Store_Keys
begin

section \<open>Packets of a connected endpoint (\<open>gateway/ready_packet.go\<close>, \<open>frame.go\<close>, \<open>ack.go\<close>, \<open>resume.go\<close>, \<open>error_frame.go\<close>)\<close>

text \<open>
  The handlers run on the state of the server: the database, the directory of connections, and the
  random source, a sequence of bytes.  A handler that fails keeps what it has done, there is no
  transaction around it.  Each call to the persistence layer meets its own failures: the environment
  gives the drivers of the n-th call, by attempt for the calls that retry.

  Parameters.  Decoding and encoding of protocol buffers (\<open>wire_codec\<close>), which is outside the
  repository.
\<close>

subsection \<open>Payloads of control frames\<close>

record OpenTunnelResultMsg =
  wo_SessionId :: "byte list"
  wo_Status :: u32
  wo_StableErrorCode :: string
  wo_AcceptedAuthorizationRevision :: u64
  wo_ActiveKeyGeneration :: u64
  wo_NegotiatedCapabilityHints :: "string list"

record SessionKeyPackageMsg =
  ws_SessionId :: "byte list"
  ws_KeyGeneration :: u64
  ws_IssuerAbaEndpointId :: "byte list"
  ws_RecipientHcEndpointId :: "byte list"
  ws_CryptoSuite :: string
  ws_HpkeEnc :: "byte list"
  ws_HpkeCiphertext :: "byte list"
  ws_NotBeforeMs :: i64
  ws_ExpiresAtMs :: i64
  ws_IssuerSignature :: "byte list"
  ws_KeyPackageId :: "byte list"
  ws_IssuerCredentialId :: "byte list"
  ws_PolicyRevision :: u64

record SessionKeyPackageAckMsg =
  wq_SessionId :: "byte list"
  wq_KeyGeneration :: u64
  wq_KeyPackageId :: "byte list"
  wq_RecipientHcEndpointId :: "byte list"
  wq_AcknowledgedAtMs :: i64

record CloseTunnelResultMsg =
  wl_SessionId :: "byte list"
  wl_Status :: u32
  wl_StableErrorCode :: string

record ChannelCursorMsg =
  wu_ChannelId :: "byte list"
  wu_Direction :: u32
  wu_HighestContiguousSequence :: u64
  wu_ReceivedRanges :: "SequenceRangeMsg list"
  wu_KeyGeneration :: u64

record wire_codec =
  wi_packet :: "byte list \<Rightarrow> WirePacket option"
  wi_encode :: "WirePacket \<Rightarrow> byte list result"
  wi_OpenTunnelResult :: "byte list \<Rightarrow> OpenTunnelResultMsg option"
  wi_SessionKeyPackage :: "byte list \<Rightarrow> SessionKeyPackageMsg option"
  wi_SessionKeyPackageAck :: "byte list \<Rightarrow> SessionKeyPackageAckMsg option"
  wi_CloseTunnelResult :: "byte list \<Rightarrow> CloseTunnelResultMsg option"
  wi_ResumeState :: "byte list \<Rightarrow> ChannelCursorMsg list option"

subsection \<open>The state of the server\<close>

record gateway =
  gs_db :: db
  gs_directory :: directory
  gs_random :: "byte list"
  gs_calls :: nat

record gateway_env =
  ge_library :: library
  ge_codec :: wire_codec
  ge_drivers :: "nat \<Rightarrow> nat \<Rightarrow> drivers"
  ge_wait :: "nat \<Rightarrow> nat \<Rightarrow> go_error option"

text \<open>
  An action on a state \<open>'s\<close> that ends with an error \<open>'e\<close> or a value.  The actions of the packet
  handlers work on the server and end with an error of the connection.
\<close>

type_synonym ('s, 'e, 'a) act = "'s \<Rightarrow> ('e + 'a) \<times> 's"
type_synonym 'a gw = "(gateway, connection_error, 'a) act"

definition returnG :: "'a \<Rightarrow> ('s, 'e, 'a) act" where
  "returnG a s = (Inr a, s)"

definition failG :: "'e \<Rightarrow> ('s, 'e, 'a) act" where
  "failG e s = (Inl e, s)"

definition bindG :: "('s, 'e, 'a) act \<Rightarrow> ('a \<Rightarrow> ('s, 'e, 'b) act) \<Rightarrow> ('s, 'e, 'b) act" where
  "bindG m k s = (case m s of (Inl e, s') \<Rightarrow> (Inl e, s') | (Inr a, s') \<Rightarrow> k a s')"

definition guardG :: "bool \<Rightarrow> unit gw" where
  "guardG bad = (if bad then failG (OtherError Plain) else returnG ())"

definition liftG :: "'a result \<Rightarrow> 'a gw" where
  "liftG r = (case r of Inl e \<Rightarrow> failG (OtherError e) | Inr a \<Rightarrow> returnG a)"

definition decodeG :: "'a option \<Rightarrow> 'a gw" where
  "decodeG r = (case r of None \<Rightarrow> failG (OtherError Plain) | Some a \<Rightarrow> returnG a)"

text \<open>A call to the persistence layer.\<close>

definition persistG :: "gateway_env \<Rightarrow> ((nat \<Rightarrow> drivers) \<Rightarrow> (nat \<Rightarrow> go_error option) \<Rightarrow> db \<Rightarrow> 'a result \<times> db) \<Rightarrow> 'a gw" where
  "persistG E operation s =
     (let (r, db') = operation (ge_drivers E (gs_calls s)) (ge_wait E (gs_calls s)) (gs_db s)
      in (map_sum OtherError id r, s\<lparr>gs_db := db', gs_calls := Suc (gs_calls s)\<rparr>))"

definition callG :: "gateway_env \<Rightarrow> (drivers \<Rightarrow> db \<Rightarrow> 'a result \<times> db) \<Rightarrow> 'a gw" where
  "callG E operation = persistG E (\<lambda>D wait. operation (D 0))"

definition randomBytes :: "nat \<Rightarrow> byte list gw" where
  "randomBytes n s =
     (if length (gs_random s) < n then (Inl (OtherError Plain), s\<lparr>gs_random := []\<rparr>)
      else (Inr (take n (gs_random s)), s\<lparr>gs_random := drop n (gs_random s)\<rparr>))"

definition sendG :: "ID \<Rightarrow> byte list \<Rightarrow> unit gw" where
  "sendG endpointID packet s = (case send endpointID packet (gs_directory s) of
       (None, d) \<Rightarrow> (Inr (), s\<lparr>gs_directory := d\<rparr>)
     | (Some e, d) \<Rightarrow> (Inl e, s\<lparr>gs_directory := d\<rparr>))"

text \<open>Forwarding: an endpoint that is offline or slow is no error of the sender.\<close>

definition forward :: "ID \<Rightarrow> byte list \<Rightarrow> unit gw" where
  "forward endpointID packet s = (case sendG endpointID packet s of
       (Inl e, s') \<Rightarrow> (if e = errConnectionOffline \<or> e = errConnectionBackpressure then (Inr (), s') else (Inl e, s'))
     | (Inr u, s') \<Rightarrow> (Inr u, s'))"

subsection \<open>Shared checks\<close>

definition idFromWire :: "byte list \<Rightarrow> ID result" where
  "idFromWire v = (if length v \<noteq> 16 then Inl Plain else if IsZero v then Inl Plain else Inr v)"

text \<open>Parse the endpoint's signing key and verify a signature with it.\<close>

definition check_signature :: "gateway_env \<Rightarrow> Endpoint \<Rightarrow> byte list \<Rightarrow> byte list \<Rightarrow> unit gw" where
  "check_signature E endpoint message signature =
     bindG (liftG (ParseP256PublicJWK (lib_json (ge_library E)) (ep_SigningPublicJWK endpoint))) (\<lambda>signingJWK.
       case PublicKey signingJWK of
         Inl e \<Rightarrow> failG (OtherError Plain)
       | Inr publicKey \<Rightarrow> guardG (\<not> VerifyP1363LowS (lib_verify (ge_library E)) publicKey message signature))"

definition envelope_invalid :: "WirePacket \<Rightarrow> bool" where
  "envelope_invalid packet \<longleftrightarrow> wk_WireMajor packet \<noteq> 1 \<or> wk_WireMinor packet \<noteq> 0 \<or> length (wk_PacketId packet) \<noteq> 16"

definition outside_window :: "time \<Rightarrow> i64 \<Rightarrow> duration \<Rightarrow> bool" where
  "outside_window now ms d \<longleftrightarrow> UnixMilli ms < now - d \<or> UnixMilli ms > now + d"

subsection \<open>Encrypted frames\<close>

definition frameRetention :: duration where "frameRetention = 24 * Hour"

definition wire_DIRECTION_HC_TO_ABA :: u32 where "wire_DIRECTION_HC_TO_ABA = 1"
definition wire_DIRECTION_ABA_TO_HC :: u32 where "wire_DIRECTION_ABA_TO_HC = 2"
definition FRAME_TYPE_ACP_TRANSPORT_FRAME :: u32 where "FRAME_TYPE_ACP_TRANSPORT_FRAME = 1"

definition validFrameRoute :: "Endpoint \<Rightarrow> Session \<Rightarrow> ID \<Rightarrow> u32 \<Rightarrow> bool" where
  "validFrameRoute endpoint session receiverID direction = (case ep_Type endpoint of
       EndpointTypeABA \<Rightarrow> ep_ID endpoint = se_ABAEndpointID session \<and> receiverID = se_HCEndpointID session \<and>
         direction = wire_DIRECTION_ABA_TO_HC
     | EndpointTypeHCWeb \<Rightarrow> ep_ID endpoint = se_HCEndpointID session \<and> receiverID = se_ABAEndpointID session \<and>
         direction = wire_DIRECTION_HC_TO_ABA
     | EndpointTypeHCReference \<Rightarrow> ep_ID endpoint = se_HCEndpointID session \<and> receiverID = se_ABAEndpointID session \<and>
         direction = wire_DIRECTION_HC_TO_ABA
     | _ \<Rightarrow> False)"

definition frame_record :: "EncryptedFrameMsg \<Rightarrow> byte list \<Rightarrow> time \<Rightarrow> EncryptedFrame" where
  "frame_record frame aad now = \<lparr>
     fr_MessageID = we_MessageId frame, fr_ChannelID = we_ChannelId frame, fr_SessionID = we_SessionId frame,
     fr_SenderEndpointID = we_SenderEndpointId frame, fr_ReceiverEndpointID = we_ReceiverEndpointId frame,
     fr_Direction = ucast (we_Direction frame), fr_Sequence = we_Sequence frame,
     fr_KeyGeneration = we_KeyGeneration frame, fr_KeyID = we_KeyId frame, fr_CreatedAtMS = sint (we_CreatedAtMs frame),
     fr_AAD = aad, fr_Ciphertext = we_Ciphertext frame, fr_Signature = we_Signature frame,
     fr_ContentHash = sha256 (aad @ we_Ciphertext frame @ we_Signature frame), fr_Status = FrameStatusStored,
     fr_ReceivedAt = now, fr_RoutedAt = None, fr_AcknowledgedAt = None, fr_ExpiresAt = now + frameRetention\<rparr>"

definition processEncryptedFrame ::
    "gateway_env \<Rightarrow> Endpoint \<Rightarrow> EndpointCredential \<Rightarrow> WirePacket \<Rightarrow> EncryptedFrameMsg \<Rightarrow> byte list \<Rightarrow> time \<Rightarrow> unit gw" where
  "processEncryptedFrame E endpoint credential packet frame encoded now =
     bindG (guardG (envelope_invalid packet)) (\<lambda>_.
     bindG (liftG (idFromWire (we_MessageId frame))) (\<lambda>messageID.
     bindG (liftG (idFromWire (we_ChannelId frame))) (\<lambda>channelID.
     bindG (liftG (idFromWire (we_SessionId frame))) (\<lambda>sessionID.
     bindG (liftG (idFromWire (we_SenderEndpointId frame))) (\<lambda>senderID.
     bindG (liftG (idFromWire (we_ReceiverEndpointId frame))) (\<lambda>receiverID.
     bindG (liftG (idFromWire (we_KeyId frame))) (\<lambda>keyID.
     bindG (callG E (\<lambda>D. GetSession D sessionID)) (\<lambda>session.
     bindG (guardG (se_Status session \<noteq> SessionStatusActive \<or> we_KeyGeneration frame \<noteq> se_CurrentKeyGeneration session \<or>
         senderID \<noteq> ep_ID endpoint \<or> \<not> validFrameRoute endpoint session receiverID (we_Direction frame))) (\<lambda>_.
     bindG (guardG (sessionChannelID (se_ID session) (se_ABAEndpointID session) (se_HCEndpointID session) \<noteq> Inr channelID)) (\<lambda>_.
     bindG (guardG (we_CryptoSuiteId frame \<noteq> 1 \<or> we_FrameType frame \<noteq> FRAME_TYPE_ACP_TRANSPORT_FRAME \<or> we_Flags frame \<noteq> 0 \<or>
         we_Sequence frame = 0 \<or> length (we_Ciphertext frame) < 16 \<or> length (we_Ciphertext frame) > maxWirePacketBytes \<or>
         length (we_Signature frame) \<noteq> 64)) (\<lambda>_.
     bindG (guardG (outside_window now (we_CreatedAtMs frame) (5 * Minute))) (\<lambda>_.
     bindG (liftG (frameAAD frame)) (\<lambda>aad.
     bindG (check_signature E endpoint (frameSignatureInput aad (we_Ciphertext frame)) (we_Signature frame)) (\<lambda>_.
     bindG (persistG E (\<lambda>D wait. PutAuthorizedEndpointFrame D wait (ep_OwnerUserID endpoint) (ep_TenantID endpoint)
         (cr_ID credential) (frame_record frame aad now) now)) (\<lambda>_.
     forward receiverID encoded)))))))))))))))"

subsection \<open>Acknowledgements\<close>

primrec check_ranges :: "u64 \<Rightarrow> SequenceRangeMsg list \<Rightarrow> SequenceRange list result" where
  "check_ranges previous [] = Inr []"
| "check_ranges previous (v # vs) =
     (if wr_Start v = 0 \<or> wr_Start v > wr_End v \<or> wr_Start v \<le> previous then Inl Plain
      else bindE (check_ranges (wr_End v) vs) (\<lambda>rest. Inr (\<lparr>sr_Start = wr_Start v, sr_End = wr_End v\<rparr> # rest)))"

definition ackRanges :: "u64 \<Rightarrow> SequenceRangeMsg list \<Rightarrow> SequenceRange list result" where
  "ackRanges highest input = (if length input > maxAckRanges then Inl Plain else check_ranges highest input)"

definition processAckFrame :: "gateway_env \<Rightarrow> Endpoint \<Rightarrow> WirePacket \<Rightarrow> AckFrameMsg \<Rightarrow> time \<Rightarrow> ID gw" where
  "processAckFrame E endpoint packet ack now =
     bindG (guardG (envelope_invalid packet)) (\<lambda>_.
     bindG (guardG (length (wa_AckId ack) \<noteq> 16 \<or> length (wa_ChannelId ack) \<noteq> 16 \<or> length (wa_SessionId ack) \<noteq> 16 \<or>
         length (wa_EndpointId ack) \<noteq> 16 \<or> length (wa_Signature ack) \<noteq> 64 \<or> wa_EndpointId ack \<noteq> ep_ID endpoint \<or>
         wa_KeyGeneration ack = 0 \<or> wa_HighestContiguousSequence ack = 0 \<and> wa_ReceivedRanges ack = [])) (\<lambda>_.
     bindG (liftG (idFromWire (wa_AckId ack))) (\<lambda>_.
     bindG (liftG (idFromWire (wa_ChannelId ack))) (\<lambda>channelID.
     bindG (liftG (idFromWire (wa_SessionId ack))) (\<lambda>sessionID.
     bindG (callG E (\<lambda>D. GetSession D sessionID)) (\<lambda>session.
     bindG (guardG (se_Status session \<noteq> SessionStatusActive \<or> wa_KeyGeneration ack \<noteq> se_CurrentKeyGeneration session)) (\<lambda>_.
     bindG (guardG (sessionChannelID (se_ID session) (se_ABAEndpointID session) (se_HCEndpointID session) \<noteq> Inr channelID)) (\<lambda>_.
     let direction = ucast (wa_AcknowledgedDirection ack) :: Direction in
     bindG (guardG (\<not> Direction_Valid direction)) (\<lambda>_.
     let (senderID, receiverID) =
       (if direction = DirectionHCToABA then (se_HCEndpointID session, se_ABAEndpointID session)
        else (se_ABAEndpointID session, se_HCEndpointID session)) in
     bindG (guardG (receiverID \<noteq> ep_ID endpoint)) (\<lambda>_.
     bindG (liftG (ackRanges (wa_HighestContiguousSequence ack) (wa_ReceivedRanges ack))) (\<lambda>ranges.
     bindG (guardG (outside_window now (wa_CreatedAtMs ack) (5 * Minute))) (\<lambda>_.
     bindG (liftG (ackTranscript ack)) (\<lambda>transcript.
     bindG (check_signature E endpoint transcript (wa_Signature ack)) (\<lambda>_.
     bindG (persistG E (\<lambda>D wait. AdvanceAck D wait \<lparr>ac_SessionID = se_ID session, ac_KeyGeneration = wa_KeyGeneration ack,
         ac_Direction = direction, ac_SenderEndpointID = senderID, ac_ReceiverEndpointID = receiverID,
         ac_HighestContiguousSequence = wa_HighestContiguousSequence ack, ac_ReceivedRanges = ranges,
         ac_UpdatedAt = now, ac_RowVersion = 0\<rparr>)) (\<lambda>_.
     returnG senderID)))))))))))))))"

subsection \<open>Resuming after a reconnect\<close>

definition maxResumeCursors :: nat where "maxResumeCursors = 256"
definition maxReplayFrames :: int where "maxReplayFrames = 1024"

definition resumeDirectionAllowed :: "EndpointType \<Rightarrow> Direction \<Rightarrow> bool" where
  "resumeDirectionAllowed t direction = (case t of
       EndpointTypeABA \<Rightarrow> direction = DirectionHCToABA
     | EndpointTypeHCWeb \<Rightarrow> direction = DirectionABAToHC
     | EndpointTypeHCReference \<Rightarrow> direction = DirectionABAToHC
     | _ \<Rightarrow> False)"

definition resumeFrameReceiverMatches :: "EndpointType \<Rightarrow> Session \<Rightarrow> EncryptedFrame \<Rightarrow> bool" where
  "resumeFrameReceiverMatches t session frame =
     (let from_hc = (fr_Direction frame = DirectionHCToABA \<and> fr_SenderEndpointID frame = se_HCEndpointID session \<and>
            fr_ReceiverEndpointID frame = se_ABAEndpointID session);
          from_aba = (fr_Direction frame = DirectionABAToHC \<and> fr_SenderEndpointID frame = se_ABAEndpointID session \<and>
            fr_ReceiverEndpointID frame = se_HCEndpointID session)
      in case t of
           EndpointTypeABA \<Rightarrow> from_hc
         | EndpointTypeHCWeb \<Rightarrow> from_aba
         | EndpointTypeHCReference \<Rightarrow> from_aba
         | _ \<Rightarrow> False)"

definition resumeRanges :: "u64 \<Rightarrow> SequenceRangeMsg list \<Rightarrow> SequenceRange list result" where
  "resumeRanges highest input = (if length input > maxAckRanges then Inl Plain else check_ranges highest input)"

definition wire_frame :: "EncryptedFrame \<Rightarrow> EncryptedFrameMsg" where
  "wire_frame frame = \<lparr>we_CryptoSuiteId = 1, we_FrameType = FRAME_TYPE_ACP_TRANSPORT_FRAME, we_Flags = 0,
     we_MessageId = fr_MessageID frame, we_ChannelId = fr_ChannelID frame, we_SessionId = fr_SessionID frame,
     we_SenderEndpointId = fr_SenderEndpointID frame, we_ReceiverEndpointId = fr_ReceiverEndpointID frame,
     we_Direction = ucast (fr_Direction frame), we_Sequence = fr_Sequence frame, we_KeyGeneration = fr_KeyGeneration frame,
     we_KeyId = fr_KeyID frame, we_CreatedAtMs = word_of_int (fr_CreatedAtMS frame),
     we_Ciphertext = fr_Ciphertext frame, we_Signature = fr_Signature frame\<rparr>"

definition replayPacket :: "gateway_env \<Rightarrow> EncryptedFrame \<Rightarrow> byte list gw" where
  "replayPacket E frame =
     bindG (guardG (frameAAD (wire_frame frame) \<noteq> Inr (fr_AAD frame))) (\<lambda>_.
     bindG (randomBytes 16) (\<lambda>packetID.
     liftG (wi_encode (ge_codec E) \<lparr>wk_WireMajor = 1, wk_WireMinor = 0, wk_PacketId = packetID,
       wk_Body = EncryptedBody (wire_frame frame)\<rparr>)))"

text \<open>The frames of one cursor, with what remains of the limit.\<close>

fun resume_frames :: "gateway_env \<Rightarrow> Endpoint \<Rightarrow> EncryptedFrame list \<Rightarrow> int \<Rightarrow> int gw" where
  "resume_frames E endpoint [] remaining = returnG remaining"
| "resume_frames E endpoint (frame # frames) remaining =
     bindG (callG E (\<lambda>D. GetSession D (fr_SessionID frame))) (\<lambda>session.
     bindG (guardG (sessionChannelID (se_ID session) (se_ABAEndpointID session) (se_HCEndpointID session) \<noteq> Inr (fr_ChannelID frame) \<or>
         se_Status session \<noteq> SessionStatusActive \<or> fr_ReceiverEndpointID frame \<noteq> ep_ID endpoint \<or>
         \<not> resumeFrameReceiverMatches (ep_Type endpoint) session frame)) (\<lambda>_.
     bindG (replayPacket E frame) (\<lambda>encoded.
     bindG (sendG (ep_ID endpoint) encoded) (\<lambda>_.
     resume_frames E endpoint frames (remaining - 1)))))"

text \<open>A cursor is known by its channel, direction and key generation; the code joins them to a text.\<close>

fun resume_cursors ::
    "gateway_env \<Rightarrow> Endpoint \<Rightarrow> (ID \<times> u32 \<times> u64) set \<Rightarrow> ChannelCursorMsg list \<Rightarrow> int \<Rightarrow> unit gw" where
  "resume_cursors E endpoint seen [] remaining = returnG ()"
| "resume_cursors E endpoint seen (cursor # cursors) remaining =
     bindG (guardG (length (wu_ChannelId cursor) \<noteq> 16 \<or> wu_KeyGeneration cursor = 0)) (\<lambda>_.
     bindG (liftG (idFromWire (wu_ChannelId cursor))) (\<lambda>channelID.
     let direction = ucast (wu_Direction cursor) :: Direction; key = (channelID, wu_Direction cursor, wu_KeyGeneration cursor) in
     bindG (guardG (\<not> resumeDirectionAllowed (ep_Type endpoint) direction)) (\<lambda>_.
     bindG (liftG (resumeRanges (wu_HighestContiguousSequence cursor) (wu_ReceivedRanges cursor))) (\<lambda>ranges.
     bindG (guardG (key \<in> seen)) (\<lambda>_.
     bindG (callG E (\<lambda>D. ReplayEndpointFrames D (ep_ID endpoint) channelID (wu_KeyGeneration cursor) direction
         (wu_HighestContiguousSequence cursor) ranges remaining)) (\<lambda>frames.
     bindG (resume_frames E endpoint frames remaining) (\<lambda>remaining'.
     if remaining' = 0 then returnG () else resume_cursors E endpoint (insert key seen) cursors remaining')))))))"

definition processResumeState :: "gateway_env \<Rightarrow> Endpoint \<Rightarrow> ControlFrameMsg \<Rightarrow> unit gw" where
  "processResumeState E endpoint control =
     bindG (guardG (wc_ReceiverEndpointId control \<noteq> replicate 16 0)) (\<lambda>_.
     bindG (decodeG (wi_ResumeState (ge_codec E) (wc_Payload control))) (\<lambda>cursors.
     bindG (guardG (length cursors = 0 \<or> length cursors > maxResumeCursors)) (\<lambda>_.
     resume_cursors E endpoint {} cursors maxReplayFrames)))"

subsection \<open>Errors reported by an endpoint\<close>

definition uncertainSafeMessage :: string where "uncertainSafeMessage = ''Local agent dispatch result is uncertain''"
definition ERROR_CODE_LOCAL_DISPATCH_UNCERTAIN :: u32 where "ERROR_CODE_LOCAL_DISPATCH_UNCERTAIN = 27"

definition processEndpointError :: "gateway_env \<Rightarrow> Endpoint \<Rightarrow> WirePacket \<Rightarrow> ErrorFrameMsg \<Rightarrow> time \<Rightarrow> ID gw" where
  "processEndpointError E endpoint packet frame now =
     bindG (guardG (envelope_invalid packet)) (\<lambda>_.
     bindG (guardG (ep_Type endpoint \<noteq> EndpointTypeABA \<or> length (wx_ErrorId frame) \<noteq> 16 \<or>
         length (wx_RelatedMessageId frame) \<noteq> 16 \<or> length (wx_Signature frame) \<noteq> 64 \<or>
         wx_Code frame \<noteq> ERROR_CODE_LOCAL_DISPATCH_UNCERTAIN \<or> wx_Retryable frame \<or> wx_RetryAfterMs frame \<noteq> 0 \<or>
         wx_SafeMessage frame \<noteq> uncertainSafeMessage)) (\<lambda>_.
     bindG (liftG (idFromWire (wx_ErrorId frame))) (\<lambda>_.
     bindG (liftG (idFromWire (wx_RelatedMessageId frame))) (\<lambda>relatedID.
     bindG (callG E (\<lambda>D. GetFrame D relatedID)) (\<lambda>related.
     bindG (callG E (\<lambda>D. GetSession D (fr_SessionID related))) (\<lambda>session.
     bindG (guardG (fr_Direction related \<noteq> DirectionHCToABA \<or> fr_ReceiverEndpointID related \<noteq> ep_ID endpoint \<or>
         se_ABAEndpointID session \<noteq> ep_ID endpoint \<or> se_HCEndpointID session \<noteq> fr_SenderEndpointID related \<or>
         se_Status session \<noteq> SessionStatusActive \<and> se_Status session \<noteq> SessionStatusUncertain)) (\<lambda>_.
     bindG (liftG (errorFrameTranscript frame)) (\<lambda>transcript.
     bindG (check_signature E endpoint transcript (wx_Signature frame)) (\<lambda>_.
     bindG (if se_Status session = SessionStatusActive
         then bindG (callG E (\<lambda>D. UpdateSession D (se_ID session) (Session_MarkUncertain now))) (\<lambda>_. returnG ())
         else returnG ()) (\<lambda>_.
     returnG (se_HCEndpointID session)))))))))))"

end
