(* ===== verification/Identity_Services.thy ===== *)
theory Identity_Services
  imports Gateway_Packets Store_Refresh
begin

section \<open>Registration and enrollment of endpoints (\<open>registration/service.go\<close>, \<open>enrollment/service.go\<close>)\<close>

text \<open>
  The two services that turn keys into endpoints with credentials.  A browser endpoint is
  registered by a signed-in user against a challenge; an ABA endpoint starts an enrollment, a user
  approves its code, and the endpoint consumes the enrollment.  Both services check a signature over
  a transcript, draw identifiers and tokens from the random source and call the persistence layer;
  they run on the state of the server and end with a Go error or a value.  Each takes the time the
  clock shows as an argument.
\<close>

subsection \<open>Actions of the services\<close>

type_synonym 'a svc = "(gateway, go_error, 'a) act"

definition liftS :: "(go_error \<Rightarrow> go_error) \<Rightarrow> 'a result \<Rightarrow> 'a svc" where
  "liftS wrap r = (case r of Inl e \<Rightarrow> failG (wrap e) | Inr a \<Rightarrow> returnG a)"

definition guardS :: "bool \<Rightarrow> go_error \<Rightarrow> unit svc" where
  "guardS bad e = (if bad then failG e else returnG ())"

definition callS :: "gateway_env \<Rightarrow> (drivers \<Rightarrow> db \<Rightarrow> 'a result \<times> db) \<Rightarrow> 'a svc" where
  "callS E operation s =
     (let (r, db') = operation (ge_drivers E (gs_calls s) 0) (gs_db s)
      in (r, s\<lparr>gs_db := db', gs_calls := Suc (gs_calls s)\<rparr>))"

text \<open>\<^verbatim>\<open>io.ReadFull\<close> on the random source, and an identifier drawn from it.\<close>

definition readS :: "nat \<Rightarrow> byte list svc" where
  "readS n s =
     (if length (gs_random s) < n then (Inl Plain, s\<lparr>gs_random := []\<rparr>)
      else (Inr (take n (gs_random s)), s\<lparr>gs_random := drop n (gs_random s)\<rparr>))"

definition newID_from :: "ID svc" where
  "newID_from s = (let (r, s') = readS IDSize s in (NewID r, s'))"

definition wrapS :: "'a svc \<Rightarrow> 'a svc" where
  "wrapS m s = (case m s of (Inl e, s') \<Rightarrow> (Inl (Wrap e), s') | (Inr a, s') \<Rightarrow> (Inr a, s'))"

text \<open>A fixed number of identifiers, one after the other.\<close>

primrec newID_list :: "nat \<Rightarrow> ID list svc" where
  "newID_list 0 = returnG []"
| "newID_list (Suc n) = bindG newID_from (\<lambda>i. bindG (newID_list n) (\<lambda>is. returnG (i # is)))"

definition decode_exact :: "string \<Rightarrow> nat \<Rightarrow> byte list svc" where
  "decode_exact text len = (case RawURLDecodeStrict text of
       None \<Rightarrow> failG (NewProblem CodeInvalidArgument (Some Plain))
     | Some bs \<Rightarrow> if length bs \<noteq> len then failG (problem CodeInvalidArgument) else returnG bs)"

text \<open>Whether a key made a signature; a key that does not parse made none.\<close>

definition signed_by :: "library \<Rightarrow> P256PublicJWK \<Rightarrow> byte list \<Rightarrow> byte list \<Rightarrow> bool" where
  "signed_by L jwk message signature = (case PublicKey jwk of
       Inl e \<Rightarrow> False
     | Inr publicKey \<Rightarrow> VerifyP1363LowS (lib_verify L) publicKey message signature)"

definition endpoint_scopes :: "string list" where
  "endpoint_scopes = [''endpoint:connect'', ''relay:write'', ''session:manage'']"

subsection \<open>Origins\<close>

definition NormalizeOrigin :: "library \<Rightarrow> string \<Rightarrow> string result" where
  "NormalizeOrigin L v = (case lib_url L (TrimSpace v) of
       None \<Rightarrow> Inl Plain
     | Some parsed \<Rightarrow>
         if url_Scheme parsed = [] \<or> url_Host parsed = [] \<or> url_User parsed \<or>
            (url_Path parsed \<noteq> [] \<and> url_Path parsed \<noteq> ''/'') \<or> url_RawQuery parsed \<noteq> [] \<or> url_Fragment parsed \<noteq> [] then Inl Plain
         else let scheme = ToLower L (url_Scheme parsed);
                  hostname = ToLower L (fst (splitHostPort (url_Host parsed)));
                  port = snd (splitHostPort (url_Host parsed))
              in if scheme \<noteq> ''https'' \<and> (scheme \<noteq> ''http'' \<or> (hostname \<noteq> ''localhost'' \<and> \<not> lib_loopback L hostname)) then Inl Plain
                 else let port = (if scheme = ''https'' \<and> port = ''443'' \<or> scheme = ''http'' \<and> port = ''80'' then [] else port);
                          host = (if port \<noteq> [] then JoinHostPort hostname port
                                  else if CHR '':'' \<in> set hostname then ''['' @ hostname @ '']'' else hostname)
                      in Inr (scheme @ ''://'' @ host))"

subsection \<open>Registration\<close>

definition challengeBytes :: nat where "challengeBytes = 32"
definition tokenBytes :: nat where "tokenBytes = 32"

definition newToken :: "byte list svc" where
  "newToken = wrapS (readS tokenBytes)"

record registration_ttl =
  st_ChallengeTTL :: duration
  st_AccessTTL :: duration
  st_RefreshTTL :: duration

definition challengeTTL :: "registration_ttl \<Rightarrow> duration" where
  "challengeTTL service = (if st_ChallengeTTL service > 0 \<and> st_ChallengeTTL service \<le> 5 * Minute then st_ChallengeTTL service else 2 * Minute)"

definition accessTTL :: "registration_ttl \<Rightarrow> duration" where
  "accessTTL service = (if st_AccessTTL service > 0 \<and> st_AccessTTL service \<le> 15 * Minute then st_AccessTTL service else 10 * Minute)"

definition refreshTTL :: "registration_ttl \<Rightarrow> duration" where
  "refreshTTL service = (if st_RefreshTTL service > 0 \<and> st_RefreshTTL service \<le> 30 * (24 * Hour) then st_RefreshTTL service else 24 * Hour)"

record IssuedChallenge =
  ic_ID :: ID
  ic_Challenge :: string
  ic_ExpiresAt :: time

record RegisterInput =
  ri_ChallengeID :: ID
  ri_Challenge :: string
  ri_EndpointName :: string
  ri_SigningPublicJWK :: "byte list"
  ri_KEMPublicJWK :: "byte list"
  ri_Assurance :: Assurance
  ri_SoftwareVersion :: string
  ri_Proof :: string

record Registration =
  rr_EndpointID :: ID
  rr_CredentialID :: ID
  rr_AccessToken :: string
  rr_AccessExpiresAt :: time
  rr_RefreshToken :: string
  rr_RefreshExpiresAt :: time
  rr_SigningJKT :: string
  rr_KEMJKT :: string

definition IssueChallenge :: "gateway_env \<Rightarrow> registration_ttl \<Rightarrow> time \<Rightarrow> string \<Rightarrow> string \<Rightarrow> string \<Rightarrow> IssuedChallenge svc" where
  "IssueChallenge E service now owner0 tenant origin =
     (let owner = TrimSpace owner0 in
     bindG (guardS (owner = []) (problem CodeInvalidArgument)) (\<lambda>_.
     bindG (liftS (\<lambda>e. NewProblem CodeInvalidArgument (Some e)) (NormalizeOrigin (ge_library E) origin)) (\<lambda>normalizedOrigin.
     bindG newID_from (\<lambda>i.
     bindG (wrapS (readS challengeBytes)) (\<lambda>challenge.
     let expiresAt = now + challengeTTL service in
     bindG (callS E (\<lambda>D. CreateHCRegistrationChallenge D \<lparr>ch_ID = i, ch_OwnerUserID = owner, ch_TenantID = TrimSpace tenant,
         ch_Origin = normalizedOrigin, ch_ChallengeHash = sha256 challenge, ch_Status = HCRegistrationChallengePending,
         ch_ExpiresAt = expiresAt, ch_ConsumedAt = None, ch_CreatedAt = now, ch_UpdatedAt = now, ch_RowVersion = 0\<rparr>
         now (challengeTTL service))) (\<lambda>_.
     returnG \<lparr>ic_ID = i, ic_Challenge = RawURLEncode challenge, ic_ExpiresAt = expiresAt\<rparr>))))))"

definition assurance_text :: "Assurance \<Rightarrow> string" where
  "assurance_text a = (case a of AssuranceWebEphemeral \<Rightarrow> ''web-ephemeral'' | AssuranceWebSoftware \<Rightarrow> ''web-software'' | AssuranceOther s \<Rightarrow> s)"

text \<open>The three records a new endpoint starts with; the two services fill them in the same way.\<close>

definition new_access :: "ID \<Rightarrow> Endpoint \<Rightarrow> byte list \<Rightarrow> time \<Rightarrow> time \<Rightarrow> EndpointCredential" where
  "new_access i endpoint token expiresAt now = \<lparr>
     cr_ID = i, cr_EndpointID = ep_ID endpoint, cr_FamilyID = ep_CredentialFamilyID endpoint, cr_TokenHash = sha256 token,
     cr_SigningJKT = ep_SigningJKT endpoint, cr_Scopes = endpoint_scopes, cr_Status = CredentialStatusActive,
     cr_ExpiresAt = expiresAt, cr_RotatedFrom = zeroID, cr_CreatedAt = now, cr_UpdatedAt = now, cr_RevokedAt = None\<rparr>"

definition new_refresh :: "ID \<Rightarrow> Endpoint \<Rightarrow> byte list \<Rightarrow> ID \<Rightarrow> time \<Rightarrow> time \<Rightarrow> RefreshCredential" where
  "new_refresh i endpoint token from expiresAt now = \<lparr>
     rc_ID = i, rc_EndpointID = ep_ID endpoint, rc_FamilyID = ep_CredentialFamilyID endpoint, rc_TokenHash = sha256 token,
     rc_SigningJKT = ep_SigningJKT endpoint, rc_Status = CredentialStatusActive, rc_ExpiresAt = expiresAt,
     rc_RotatedFrom = from, rc_RotatedTo = zeroID, rc_UsedAt = None, rc_RevokedAt = None, rc_CreatedAt = now, rc_UpdatedAt = now\<rparr>"

definition registered_endpoint ::
    "ID \<Rightarrow> ID \<Rightarrow> string \<Rightarrow> string \<Rightarrow> RegisterInput \<Rightarrow> P256PublicJWK \<Rightarrow> P256PublicJWK \<Rightarrow> string \<Rightarrow> string \<Rightarrow> time \<Rightarrow> Endpoint" where
  "registered_endpoint endpointID familyID owner tenant input signingJWK kemJWK signingJKT kemJKT now = \<lparr>
     ep_ID = endpointID, ep_OwnerUserID = owner, ep_TenantID = tenant, ep_Type = EndpointTypeHCWeb,
     ep_Name = TrimSpace (ri_EndpointName input), ep_SigningPublicJWK = bytes_of (canonical_jwk signingJWK),
     ep_KEMPublicJWK = bytes_of (canonical_jwk kemJWK), ep_SigningJKT = signingJKT, ep_KEMJKT = kemJKT,
     ep_Status = EndpointStatusActive, ep_CredentialFamilyID = familyID, ep_SoftwareVersion = TrimSpace (ri_SoftwareVersion input),
     ep_PlatformName = assurance_text (ri_Assurance input), ep_LastSeenAt = None, ep_RevokedAt = None, ep_RowVersion = 0,
     ep_CreatedAt = now, ep_UpdatedAt = now\<rparr>"

definition registration_audit :: "ID \<Rightarrow> string \<Rightarrow> string \<Rightarrow> ID \<Rightarrow> time \<Rightarrow> SecurityAuditEvent" where
  "registration_audit auditID owner tenant endpointID now = \<lparr>
     au_ID = auditID, au_OwnerUserID = owner, au_TenantID = tenant, au_ActorType = AuditActorHuman, au_ActorID = owner,
     au_Action = ''hc.endpoint.register'', au_ObjectType = ''endpoint'', au_ObjectID = ID_String endpointID, au_Result = ''success'',
     au_ErrorCode = [], au_Metadata = [(''endpointType'', ''HC_WEB'')], au_CreatedAt = now\<rparr>"

text \<open>What is checked before anything is drawn or stored: the keys with their thumbprints and the challenge.\<close>

definition check_registration ::
    "library \<Rightarrow> string \<Rightarrow> RegisterInput \<Rightarrow> (P256PublicJWK \<times> P256PublicJWK \<times> string \<times> string \<times> byte list) svc" where
  "check_registration L normalizedOrigin input =
     bindG (decode_exact (ri_Challenge input) challengeBytes) (\<lambda>challenge.
     bindG (decode_exact (ri_Proof input) 64) (\<lambda>proof_bytes.
     bindG (liftS (\<lambda>e. NewProblem CodeInvalidArgument (Some e)) (ParseP256PublicJWK (lib_json L) (ri_SigningPublicJWK input))) (\<lambda>signingJWK.
     bindG (liftS (\<lambda>e. NewProblem CodeInvalidArgument (Some e)) (ParseP256PublicJWK (lib_json L) (ri_KEMPublicJWK input))) (\<lambda>kemJWK.
     bindG (liftS id (Thumbprint signingJWK)) (\<lambda>signingJKT.
     bindG (liftS id (Thumbprint kemJWK)) (\<lambda>kemJKT.
     bindG (liftS (\<lambda>e. NewProblem CodeInvalidArgument (Some e)) (BuildTranscript \<lparr>ti_ChallengeID = ri_ChallengeID input,
         ti_Challenge = challenge, ti_SigningJKT = signingJKT, ti_KEMJKT = kemJKT, ti_Origin = normalizedOrigin,
         ti_EndpointName = TrimSpace (ri_EndpointName input), ti_Assurance = ri_Assurance input,
         ti_SoftwareVersion = TrimSpace (ri_SoftwareVersion input)\<rparr>)) (\<lambda>transcript.
     bindG (case PublicKey signingJWK of
         Inl e \<Rightarrow> failG (NewProblem CodeSecurityViolation (Some e))
       | Inr publicKey \<Rightarrow> guardS (\<not> VerifyP1363LowS (lib_verify L) publicKey transcript proof_bytes) (problem CodeSecurityViolation)) (\<lambda>_.
     returnG (signingJWK, kemJWK, signingJKT, kemJKT, challenge)))))))))"

definition Register ::
    "gateway_env \<Rightarrow> registration_ttl \<Rightarrow> time \<Rightarrow> string \<Rightarrow> string \<Rightarrow> string \<Rightarrow> RegisterInput \<Rightarrow> Registration svc" where
  "Register E service now owner0 tenant0 origin input =
     (let owner = TrimSpace owner0; tenant = TrimSpace tenant0; L = ge_library E in
     bindG (liftS (\<lambda>e. NewProblem CodeInvalidArgument (Some e)) (NormalizeOrigin L origin)) (\<lambda>normalizedOrigin.
     bindG (guardS (owner = []) (problem CodeInvalidArgument)) (\<lambda>_.
     bindG (check_registration L normalizedOrigin input) (\<lambda>(signingJWK, kemJWK, signingJKT, kemJKT, challenge).
     bindG (newID_list 5) (\<lambda>ids.
     let endpointID = ids ! 0; familyID = ids ! 1; accessID = ids ! 2; refreshID = ids ! 3; auditID = ids ! 4 in
     bindG newToken (\<lambda>accessToken.
     bindG newToken (\<lambda>refreshToken.
     let endpoint = registered_endpoint endpointID familyID owner tenant input signingJWK kemJWK signingJKT kemJKT now;
         accessExpiresAt = now + accessTTL service; refreshExpiresAt = now + refreshTTL service in
     bindG (callS E (\<lambda>D. ConsumeHCRegistrationChallenge D (ri_ChallengeID input) (sha256 challenge) owner tenant normalizedOrigin
         endpoint (new_access accessID endpoint accessToken accessExpiresAt now)
         (new_refresh refreshID endpoint refreshToken zeroID refreshExpiresAt now)
         (registration_audit auditID owner tenant endpointID now) now)) (\<lambda>_.
     returnG \<lparr>rr_EndpointID = endpointID, rr_CredentialID = accessID, rr_AccessToken = RawURLEncode accessToken,
       rr_AccessExpiresAt = accessExpiresAt, rr_RefreshToken = RawURLEncode refreshToken, rr_RefreshExpiresAt = refreshExpiresAt,
       rr_SigningJKT = signingJKT, rr_KEMJKT = kemJKT\<rparr>))))))))"

subsection \<open>Enrollment\<close>

text \<open>\<^verbatim>\<open>base32.StdEncoding\<close> without padding on five bytes: eight characters.\<close>

definition base32_char :: "nat \<Rightarrow> char" where
  "base32_char v = char_of (if v < 26 then v + 65 else v + 24)"

definition Base32Encode :: "byte list \<Rightarrow> string" where
  "Base32Encode bs = map (\<lambda>i. base32_char (nat (SetBytes bs) div 32 ^ (7 - i) mod 32)) [0..<8]"

text \<open>\<^verbatim>\<open>Time.Truncate(time.Microsecond)\<close>.\<close>

definition truncate_micro :: "time \<Rightarrow> time" where
  "truncate_micro t = t - t mod 1000"

record StartInput =
  si_EndpointName :: string
  si_SoftwareVersion :: string
  si_SigningPublicJWK :: "byte list"
  si_KEMPublicJWK :: "byte list"
  si_ClientNonce :: string
  si_Proof :: string

record Started =
  sd_EnrollmentID :: ID
  sd_DeviceCode :: string
  sd_UserCode :: string
  sd_VerificationURI :: string
  sd_ExpiresAt :: time
  sd_IntervalSeconds :: int

record Consumed =
  cs_EndpointID :: ID
  cs_CredentialID :: ID
  cs_AccessToken :: string
  cs_AccessExpiresAt :: time
  cs_RefreshToken :: string
  cs_RefreshExpiresAt :: time

definition jkt_or_empty :: "P256PublicJWK \<Rightarrow> string" where
  "jkt_or_empty jwk = (case Thumbprint jwk of Inl e \<Rightarrow> [] | Inr jkt \<Rightarrow> jkt)"

definition parseStartInput ::
    "library \<Rightarrow> StartInput \<Rightarrow> (P256PublicJWK \<times> P256PublicJWK \<times> string \<times> string \<times> byte list \<times> byte list) result" where
  "parseStartInput L input = (case ParseP256PublicJWK (lib_json L) (si_SigningPublicJWK input) of
       Inl e \<Rightarrow> Inl (NewProblem CodeInvalidArgument (Some e))
     | Inr signing \<Rightarrow> (case ParseP256PublicJWK (lib_json L) (si_KEMPublicJWK input) of
           Inl e \<Rightarrow> Inl (NewProblem CodeInvalidArgument (Some e))
         | Inr kem \<Rightarrow>
             bindE (decodeFixed (si_ClientNonce input) 32) (\<lambda>nonce.
             bindE (decodeFixed (si_Proof input) 64) (\<lambda>proof_bytes.
             Inr (signing, kem, jkt_or_empty signing, jkt_or_empty kem, nonce, proof_bytes)))))"

definition started_enrollment ::
    "ID \<Rightarrow> StartInput \<Rightarrow> byte list \<Rightarrow> string \<Rightarrow> P256PublicJWK \<Rightarrow> P256PublicJWK \<Rightarrow> string \<Rightarrow> string \<Rightarrow> time \<Rightarrow> Enrollment" where
  "started_enrollment enrollmentID input deviceRaw userPlain signingJWK kemJWK signingJKT kemJKT now = \<lparr>
     en_ID = enrollmentID, en_OwnerUserID = [], en_TenantID = [], en_EndpointType = EndpointTypeABA,
     en_EndpointName = TrimSpace (si_EndpointName input), en_DeviceCodeHash = sha256 deviceRaw,
     en_UserCodeHash = sha256 (bytes_of userPlain), en_SigningPublicJWK = bytes_of (canonical_jwk signingJWK),
     en_KEMPublicJWK = bytes_of (canonical_jwk kemJWK), en_SigningJKT = signingJKT, en_KEMJKT = kemJKT,
     en_Status = EnrollmentStatusPending, en_ExpiresAt = now + 10 * Minute, en_ApprovedBy = [], en_ApprovedAt = None,
     en_ConsumedAt = None, en_EndpointID = zeroID, en_RowVersion = 0, en_CreatedAt = now, en_UpdatedAt = now\<rparr>"

definition Start :: "gateway_env \<Rightarrow> string \<Rightarrow> time \<Rightarrow> StartInput \<Rightarrow> Started svc" where
  "Start E verificationURI clock input =
     bindG (liftS id (parseStartInput (ge_library E) input)) (\<lambda>(signingJWK, kemJWK, signingJKT, kemJKT, nonce, proof_bytes).
     bindG (liftS (\<lambda>e. NewProblem CodeInvalidArgument (Some e)) (StartTranscript nonce signingJKT kemJKT
         (TrimSpace (si_EndpointName input)) (TrimSpace (si_SoftwareVersion input)))) (\<lambda>transcript.
     bindG (guardS (\<not> signed_by (ge_library E) signingJWK transcript proof_bytes) (problem CodeSecurityViolation)) (\<lambda>_.
     let now = truncate_micro clock in
     bindG newID_from (\<lambda>enrollmentID.
     bindG (readS 32) (\<lambda>deviceRaw.
     bindG (readS 5) (\<lambda>userRaw.
     let userPlain = Base32Encode userRaw; userCode = take 4 userPlain @ ''-'' @ drop 4 userPlain in
     bindG (callS E (\<lambda>D. CreateEnrollment D
         (started_enrollment enrollmentID input deviceRaw userPlain signingJWK kemJWK signingJKT kemJKT now))) (\<lambda>_.
     returnG \<lparr>sd_EnrollmentID = enrollmentID, sd_DeviceCode = RawURLEncode deviceRaw, sd_UserCode = userCode,
       sd_VerificationURI = verificationURI, sd_ExpiresAt = now + 10 * Minute, sd_IntervalSeconds = 2\<rparr>)))))))"

definition Poll :: "gateway_env \<Rightarrow> time \<Rightarrow> ID \<Rightarrow> string \<Rightarrow> Enrollment svc" where
  "Poll E clock enrollmentID deviceCode =
     bindG (liftS (\<lambda>e. NewProblem CodeInvalidArgument (Some e)) (decodeFixed deviceCode 32)) (\<lambda>deviceRaw.
     callS E (\<lambda>D. GetEnrollmentByDeviceCode D enrollmentID (sha256 deviceRaw) (truncate_micro clock)))"

definition enrolled_endpoint :: "ID \<Rightarrow> ID \<Rightarrow> Enrollment \<Rightarrow> time \<Rightarrow> Endpoint" where
  "enrolled_endpoint endpointID familyID enrollment now = \<lparr>
     ep_ID = endpointID, ep_OwnerUserID = en_OwnerUserID enrollment, ep_TenantID = en_TenantID enrollment, ep_Type = EndpointTypeABA,
     ep_Name = en_EndpointName enrollment, ep_SigningPublicJWK = en_SigningPublicJWK enrollment,
     ep_KEMPublicJWK = en_KEMPublicJWK enrollment, ep_SigningJKT = en_SigningJKT enrollment, ep_KEMJKT = en_KEMJKT enrollment,
     ep_Status = EndpointStatusActive, ep_CredentialFamilyID = familyID, ep_SoftwareVersion = ''0.1.0'', ep_PlatformName = ''aba'',
     ep_LastSeenAt = None, ep_RevokedAt = None, ep_RowVersion = 0, ep_CreatedAt = now, ep_UpdatedAt = now\<rparr>"

definition enrollment_audit :: "ID \<Rightarrow> Endpoint \<Rightarrow> time \<Rightarrow> SecurityAuditEvent" where
  "enrollment_audit auditID endpoint now = \<lparr>
     au_ID = auditID, au_OwnerUserID = ep_OwnerUserID endpoint, au_TenantID = ep_TenantID endpoint, au_ActorType = AuditActorEndpoint,
     au_ActorID = ID_String (ep_ID endpoint), au_Action = ''aba.endpoint.enroll'', au_ObjectType = ''endpoint'',
     au_ObjectID = ID_String (ep_ID endpoint), au_Result = ''success'', au_ErrorCode = [],
     au_Metadata = [(''endpointType'', ''ABA'')], au_CreatedAt = now\<rparr>"

definition Consume :: "gateway_env \<Rightarrow> time \<Rightarrow> ID \<Rightarrow> string \<Rightarrow> string \<Rightarrow> string \<Rightarrow> Consumed svc" where
  "Consume E clock enrollmentID deviceCode clientNonce proofText =
     bindG (liftS (\<lambda>e. NewProblem CodeInvalidArgument (Some e)) (decodeFixed deviceCode 32)) (\<lambda>deviceRaw.
     bindG (liftS (\<lambda>e. NewProblem CodeInvalidArgument (Some e)) (decodeFixed clientNonce 32)) (\<lambda>nonce.
     bindG (liftS (\<lambda>e. NewProblem CodeInvalidArgument (Some e)) (decodeFixed proofText 64)) (\<lambda>proof_bytes.
     let now = truncate_micro clock in
     bindG (callS E (\<lambda>D. GetEnrollmentByDeviceCode D enrollmentID (sha256 deviceRaw) now)) (\<lambda>enrollment.
     bindG (guardS (en_Status enrollment \<noteq> EnrollmentStatusApproved) (problem CodeInvalidState)) (\<lambda>_.
     bindG (liftS id (ConsumeTranscript enrollmentID deviceRaw nonce)) (\<lambda>transcript.
     bindG (liftS id (ParseP256PublicJWK (lib_json (ge_library E)) (en_SigningPublicJWK enrollment))) (\<lambda>signingJWK.
     bindG (guardS (\<not> signed_by (ge_library E) signingJWK transcript proof_bytes) (problem CodeSecurityViolation)) (\<lambda>_.
     bindG (newID_list 5) (\<lambda>ids.
     bindG (readS 32) (\<lambda>accessRaw.
     bindG (readS 32) (\<lambda>refreshRaw.
     let endpoint = enrolled_endpoint (ids ! 0) (ids ! 1) enrollment now;
         accessExpiry = now + 10 * Minute; refreshExpiry = now + 24 * Hour in
     bindG (callS E (\<lambda>D. ConsumeABAEnrollment D enrollmentID (sha256 deviceRaw) endpoint
         (new_access (ids ! 2) endpoint accessRaw accessExpiry now)
         (new_refresh (ids ! 3) endpoint refreshRaw zeroID refreshExpiry now) (enrollment_audit (ids ! 4) endpoint now) now)) (\<lambda>_.
     returnG \<lparr>cs_EndpointID = ep_ID endpoint, cs_CredentialID = ids ! 2, cs_AccessToken = RawURLEncode accessRaw,
       cs_AccessExpiresAt = accessExpiry, cs_RefreshToken = RawURLEncode refreshRaw, cs_RefreshExpiresAt = refreshExpiry\<rparr>))))))))))))"

end
