(* ===== verification/Gateway_Http.thy ===== *)
theory Gateway_Http
  imports Identity_Services Store_Sessions
begin

section \<open>The HTTP interface of the gateway (\<open>gateway/server.go\<close>)\<close>

text \<open>
  Requests carry credentials in headers, responses are a status with a body and headers.  A handler
  runs on the state of the server and the headers it has set so far; it ends early with a response.
  Bodies are values, their JSON text is what the encoder makes of them; messages for people are
  left out.

  Parameters, besides those of the packet handlers: the routing and header parsing of
  \<^verbatim>\<open>net/http\<close> (a request is given with its method, URI, headers and cookies), the clock
  (\<open>he_clock i\<close> is the \<open>i\<close>-th time the handler reads it), the JSON text of a session, and the
  raw text of a member of a JSON body.
\<close>

subsection \<open>Requests and responses\<close>

record http_request =
  hq_Method :: string
  hq_RequestURI :: string
  hq_PathValue :: "string \<Rightarrow> string"
  hq_Header :: "string \<Rightarrow> string list"
  hq_Cookie :: "string \<Rightarrow> string option"
  hq_Body :: "byte list"

definition header_get :: "http_request \<Rightarrow> string \<Rightarrow> string" where
  "header_get request name = (case hq_Header request name of [] \<Rightarrow> [] | v # _ \<Rightarrow> v)"

record refresh_cookie =
  ck_Value :: string
  ck_Expires :: time
  ck_MaxAge :: int
  ck_Secure :: bool

record TrustManifest =
  tm_ExpiresAt :: time
  tm_PayloadBase64URL :: string
  tm_Revision :: u64
  tm_RootPublicJWK :: P256PublicJWK
  tm_SignatureBase64URL :: string

record token_reply =
  tr_EndpointID :: ID
  tr_CredentialID :: ID
  tr_AccessToken :: string
  tr_AccessExpiresAt :: time
  tr_SigningJKT :: string
  tr_KEMJKT :: string
  tr_Refresh :: "(string \<times> time) option"

datatype reply =
    GatewayError string
  | DomainProblem ErrorCode
  | ProofRejected dpop_code
  | TicketReply string time string string
  | TokenReply token_reply
  | RawJSON "byte list"
  | EndpointList "Endpoint list"
  | StartedReply Started
  | PollReply ID EnrollmentStatus time
  | ConsumedReply Consumed
  | ManifestReply TrustManifest
  | StatusReply string
  | NoContent

record http_response =
  hs_Status :: nat
  hs_Headers :: "(string \<times> string) list"
  hs_Cookie :: "refresh_cookie option"
  hs_Body :: reply

subsection \<open>Configuration\<close>

record Config =
  cf_AllowedOrigin :: string
  cf_ExternalOrigin :: string
  cf_NativeExternalOrigin :: string
  cf_NonceTTL :: duration
  cf_TicketTTL :: duration
  cf_ReplayMaxEntries :: int
  cf_AccessTTL :: duration
  cf_RefreshTTL :: duration
  cf_VerificationURI :: string

definition ticketPurpose :: string where "ticketPurpose = ''awp-connect''"
definition nativeABAOrigin :: string where "nativeABAOrigin = ''app://aba''"
definition defaultNonceTTL :: duration where "defaultNonceTTL = 2 * Minute"
definition defaultTicketTTL :: duration where "defaultTicketTTL = 30 * Second"
definition defaultReplayMax :: int where "defaultReplayMax = 100000"

text \<open>The configuration \<open>NewHandler\<close> serves with, or the error of an origin that is none.\<close>

definition effective_config :: "library \<Rightarrow> Config \<Rightarrow> Config result" where
  "effective_config L config =
     (case NormalizeOrigin L (cf_AllowedOrigin config) of Inl e \<Rightarrow> Inl (Wrap e) | Inr allowedOrigin \<Rightarrow>
      case NormalizeOrigin L (cf_ExternalOrigin config) of Inl e \<Rightarrow> Inl (Wrap e) | Inr externalOrigin \<Rightarrow>
      case NormalizeOrigin L (if blank (cf_NativeExternalOrigin config) then externalOrigin else cf_NativeExternalOrigin config) of
        Inl e \<Rightarrow> Inl (Wrap e)
      | Inr nativeExternalOrigin \<Rightarrow> Inr \<lparr>
          cf_AllowedOrigin = allowedOrigin, cf_ExternalOrigin = externalOrigin, cf_NativeExternalOrigin = nativeExternalOrigin,
          cf_NonceTTL = (if cf_NonceTTL config \<le> 0 \<or> cf_NonceTTL config > 5 * Minute then defaultNonceTTL else cf_NonceTTL config),
          cf_TicketTTL = (if cf_TicketTTL config \<le> 0 \<or> cf_TicketTTL config > defaultTicketTTL then defaultTicketTTL else cf_TicketTTL config),
          cf_ReplayMaxEntries = (if cf_ReplayMaxEntries config \<le> 0 then defaultReplayMax else cf_ReplayMaxEntries config),
          cf_AccessTTL = (if cf_AccessTTL config \<le> 0 \<or> cf_AccessTTL config > 15 * Minute then 10 * Minute else cf_AccessTTL config),
          cf_RefreshTTL = (if cf_RefreshTTL config \<le> 0 \<or> cf_RefreshTTL config > 30 * (24 * Hour) then 24 * Hour else cf_RefreshTTL config),
          cf_VerificationURI = (if blank (cf_VerificationURI config) then allowedOrigin @ ''/harness/enrollments'' else cf_VerificationURI config)\<rparr>)"

record endpointSessionResponse =
  sn_SessionID :: string
  sn_ABAEndpointID :: string
  sn_HCEndpointID :: string
  sn_RuntimeProfileID :: string
  sn_WorkspaceID :: string
  sn_RequestedCapabilities :: "string list"
  sn_Status :: SessionStatus
  sn_CreatedAt :: time

record OpenTunnelRequestMsg =
  wj_SessionId :: "byte list"
  wj_HcEndpointId :: "byte list"
  wj_RuntimeProfileId :: string
  wj_WorkspaceId :: string
  wj_AuthorizationRevision :: u64
  wj_RequestedKeyGeneration :: u64
  wj_RequestedAcpCapabilities :: "string list"
  wj_ExpiresAtMs :: i64
  wj_HcKemPublicKey :: "byte list"
  wj_HcKemJkt :: string
  wj_HcSigningPublicKey :: "byte list"
  wj_HcSigningJkt :: string

record CloseTunnelRequestMsg =
  wz_SessionId :: "byte list"
  wz_StableReasonCode :: string
  wz_ExpiresAtMs :: i64

record http_env =
  he_env :: gateway_env
  he_config :: Config
  he_clock :: "nat \<Rightarrow> time"
  he_sign :: "byte list \<Rightarrow> (int \<times> int) result"
  he_revision :: u64
  he_session_json :: "endpointSessionResponse \<Rightarrow> byte list result"
  he_request_json :: "ID \<Rightarrow> SessionRequest \<Rightarrow> byte list result"
  he_raw_member :: "byte list \<Rightarrow> string \<Rightarrow> byte list"
  he_open_request :: "OpenTunnelRequestMsg \<Rightarrow> byte list result"
  he_close_request :: "CloseTunnelRequestMsg \<Rightarrow> byte list result"

subsection \<open>Handlers\<close>

record exchange =
  ex_server :: gateway
  ex_headers :: "(string \<times> string) list"
  ex_cookie :: "refresh_cookie option"

type_synonym 'a web = "(exchange, nat \<times> reply, 'a) act"

definition reject :: "nat \<Rightarrow> string \<Rightarrow> 'a web" where
  "reject status error_code = failG (status, GatewayError error_code)"

definition random_unavailable :: "nat \<times> reply" where
  "random_unavailable = (503, GatewayError ''GATEWAY_RANDOM_UNAVAILABLE'')"

definition requireW :: "bool \<Rightarrow> nat \<Rightarrow> string \<Rightarrow> unit web" where
  "requireW ok status error_code = (if ok then returnG () else reject status error_code)"

text \<open>A service action inside a handler: its error is answered with \<open>answer\<close>, or becomes a value.\<close>

definition tryW :: "'a svc \<Rightarrow> 'a result web" where
  "tryW m x = (let (r, s') = m (ex_server x) in (Inr r, x\<lparr>ex_server := s'\<rparr>))"

definition serveW :: "(go_error \<Rightarrow> nat \<times> reply) \<Rightarrow> 'a svc \<Rightarrow> 'a web" where
  "serveW answer m = bindG (tryW m) (\<lambda>r. case r of Inl e \<Rightarrow> failG (answer e) | Inr a \<Rightarrow> returnG a)"

definition setHeader :: "string \<Rightarrow> string \<Rightarrow> unit web" where
  "setHeader name v x = (Inr (), x\<lparr>ex_headers := filter (\<lambda>(n, _). n \<noteq> name) (ex_headers x) @ [(name, v)]\<rparr>)"

definition setCookie :: "refresh_cookie \<Rightarrow> unit web" where
  "setCookie c x = (Inr (), x\<lparr>ex_cookie := Some c\<rparr>)"

definition respond :: "(nat \<times> reply) web \<Rightarrow> (string \<times> string) list \<Rightarrow> gateway \<Rightarrow> http_response \<times> gateway" where
  "respond handler headers s =
     (let (r, x) = handler \<lparr>ex_server = s, ex_headers = headers, ex_cookie = None\<rparr>;
          (status, body) = (case r of Inl answer \<Rightarrow> answer | Inr answer \<Rightarrow> answer)
      in (\<lparr>hs_Status = status, hs_Headers = ex_headers x, hs_Cookie = ex_cookie x, hs_Body = body\<rparr>, ex_server x))"

definition writeDomainError :: "go_error \<Rightarrow> nat \<times> reply" where
  "writeDomainError err = (case as_problem err of
       None \<Rightarrow> (500, GatewayError ''GATEWAY_INTERNAL'')
     | Some CodeNotFound \<Rightarrow> (401, GatewayError ''ENDPOINT_CREDENTIAL_INVALID'')
     | Some CodeExpired \<Rightarrow> (401, GatewayError ''ENDPOINT_CREDENTIAL_EXPIRED'')
     | Some CodeRevoked \<Rightarrow> (403, GatewayError ''ENDPOINT_CREDENTIAL_REVOKED'')
     | Some CodeSecurityViolation \<Rightarrow> (403, GatewayError ''ENDPOINT_CREDENTIAL_REVOKED'')
     | Some CodeConflict \<Rightarrow> (409, DomainProblem CodeConflict)
     | Some CodeResourceLimit \<Rightarrow> (429, DomainProblem CodeResourceLimit)
     | Some c \<Rightarrow> (400, DomainProblem c))"

definition callW :: "http_env \<Rightarrow> (drivers \<Rightarrow> db \<Rightarrow> 'a result \<times> db) \<Rightarrow> 'a web" where
  "callW H operation = serveW writeDomainError (callS (he_env H) operation)"

subsection \<open>Credentials in a request\<close>

definition opaque_token :: "string \<Rightarrow> byte list option" where
  "opaque_token text = (case RawURLDecodeStrict text of None \<Rightarrow> None | Some bs \<Rightarrow> if length bs \<noteq> 32 then None else Some bs)"

definition parseAuthorization :: "http_request \<Rightarrow> (string \<times> byte list) option" where
  "parseAuthorization request = (case hq_Header request ''Authorization'' of
       [v] \<Rightarrow> if \<not> HasPrefix v ''DPoP '' then None
              else let token = TrimSpace (TrimPrefix v ''DPoP '')
                   in map_option (\<lambda>bs. (token, sha256 bs)) (opaque_token token)
     | _ \<Rightarrow> None)"

datatype refreshTransport = refreshTransportCookie | refreshTransportHeader

text \<open>
  The transport of the credential, and the token with its hash unless its form is wrong.
\<close>

definition parseRefreshCredential :: "http_request \<Rightarrow> (refreshTransport \<times> (string \<times> byte list) option) option" where
  "parseRefreshCredential request =
     (case (hq_Cookie request ''harness_hc_refresh'', hq_Header request ''Authorization'') of
        (Some cookie, []) \<Rightarrow> Some (refreshTransportCookie, map_option (\<lambda>bs. (cookie, sha256 bs)) (opaque_token cookie))
      | (None, [v]) \<Rightarrow>
          if \<not> HasPrefix v ''Refresh '' then None
          else let token = TrimSpace (TrimPrefix v ''Refresh '')
               in Some (refreshTransportHeader, map_option (\<lambda>bs. (token, sha256 bs)) (opaque_token token))
      | _ \<Rightarrow> None)"

definition validRefreshTransport :: "EndpointType \<Rightarrow> refreshTransport \<Rightarrow> string \<Rightarrow> bool" where
  "validRefreshTransport t transport origin = (case t of
       EndpointTypeABA \<Rightarrow> transport = refreshTransportHeader \<and> blank origin
     | EndpointTypeHCWeb \<Rightarrow> transport = refreshTransportCookie
     | EndpointTypeHCReference \<Rightarrow> transport = refreshTransportCookie
     | _ \<Rightarrow> False)"

definition ticketOrigin :: "Config \<Rightarrow> EndpointType \<Rightarrow> string \<Rightarrow> string option" where
  "ticketOrigin config t origin = (case t of
       EndpointTypeABA \<Rightarrow> if TrimSpace origin = [] then Some nativeABAOrigin else None
     | EndpointTypeHCWeb \<Rightarrow> if TrimSpace origin = cf_AllowedOrigin config then Some (cf_AllowedOrigin config) else None
     | EndpointTypeHCReference \<Rightarrow> if TrimSpace origin = cf_AllowedOrigin config then Some (cf_AllowedOrigin config) else None
     | _ \<Rightarrow> None)"

definition endpointExternalOrigin :: "Config \<Rightarrow> EndpointType \<Rightarrow> string" where
  "endpointExternalOrigin config t = (if t = EndpointTypeABA then cf_NativeExternalOrigin config else cf_ExternalOrigin config)"

definition websocketURL :: "string \<Rightarrow> string" where
  "websocketURL origin =
     (if HasPrefix origin ''https://'' then ''wss://'' @ TrimPrefix origin ''https://'' else ''ws://'' @ TrimPrefix origin ''http://'')"

subsection \<open>Proofs of possession and nonces\<close>

definition newOpaqueValue :: "(string \<times> byte list) svc" where
  "newOpaqueValue = bindG (readS 32) (\<lambda>v. returnG (RawURLEncode v, sha256 v))"

definition writeNonceChallenge :: "http_env \<Rightarrow> ID \<Rightarrow> time \<Rightarrow> 'a web" where
  "writeNonceChallenge H endpointID now =
     bindG (serveW (\<lambda>e. random_unavailable) newOpaqueValue) (\<lambda>(nonce, _).
     bindG (callW H (\<lambda>D. PutEndpointNonce D endpointID (sha256 (bytes_of nonce)) now (now + cf_NonceTTL (he_config H)))) (\<lambda>_.
     bindG (setHeader ''DPoP-Nonce'' nonce) (\<lambda>_.
     reject 401 ''DPOP_NONCE_REQUIRED'')))"

definition writeDPoPError :: "http_env \<Rightarrow> ID \<Rightarrow> time \<Rightarrow> dpop_code \<Rightarrow> 'a web" where
  "writeDPoPError H endpointID now refusal =
     (let status = (if refusal = CodeReplay then 409 else if refusal = CodeReplayCacheFull then 503 else 401) in
      if status \<noteq> 401 then failG (status, ProofRejected refusal)
      else bindG (tryW newOpaqueValue) (\<lambda>drawn. case drawn of
          Inl e \<Rightarrow> failG (status, ProofRejected refusal)
        | Inr (nonce, _) \<Rightarrow>
            bindG (tryW (callS (he_env H) (\<lambda>D. PutEndpointNonce D endpointID (sha256 (bytes_of nonce)) now
                (now + cf_NonceTTL (he_config H))))) (\<lambda>put. case put of
              Inl e \<Rightarrow> failG (status, ProofRejected refusal)
            | Inr u \<Rightarrow> bindG (setHeader ''DPoP-Nonce'' nonce) (\<lambda>_. failG (status, ProofRejected refusal)))))"

text \<open>The verifier over the replay table; it is called with the time of the request.\<close>

definition verify_proof :: "http_env \<Rightarrow> string \<Rightarrow> Requirements \<Rightarrow> (dpop_code + Result) svc" where
  "verify_proof H presented rq s =
     (let (r, db') = Verify (ge_library (he_env H)) \<lparr>vr_MaxAge = 0, vr_FutureSkew = 0\<rparr>
            (storeReplayCache_Use (ge_drivers (he_env H) (gs_calls s) 0) (cf_ReplayMaxEntries (he_config H)))
            (he_clock H 9) presented rq (gs_db s)
      in (Inr r, s\<lparr>gs_db := db', gs_calls := Suc (gs_calls s)\<rparr>))"

text \<open>
  What the three kinds of authenticated requests share: the stored nonce, exactly one proof for this
  request, key, token and nonce, and the exchange of the nonce.  The value is the next nonce.
\<close>

definition rotate_nonce :: "http_env \<Rightarrow> ID \<Rightarrow> byte list \<Rightarrow> time \<Rightarrow> string web" where
  "rotate_nonce H endpointID nonceHash now =
     bindG (serveW (\<lambda>e. random_unavailable) newOpaqueValue) (\<lambda>(nextNonce, _).
     bindG (serveW (\<lambda>e. (409, GatewayError ''DPOP_NONCE_CHANGED'')) (callS (he_env H) (\<lambda>D.
         RotateEndpointNonce D endpointID nonceHash (sha256 (bytes_of nextNonce)) now (now + cf_NonceTTL (he_config H))))) (\<lambda>_.
     returnG nextNonce))"

definition judge_proof :: "http_env \<Rightarrow> http_request \<Rightarrow> Endpoint \<Rightarrow> string \<Rightarrow> string \<Rightarrow> time \<Rightarrow> byte list \<Rightarrow> string web" where
  "judge_proof H request endpoint token externalOrigin now nonceHash = (case hq_Header request ''DPoP'' of
       [] \<Rightarrow> writeNonceChallenge H (ep_ID endpoint) now
     | [presented] \<Rightarrow>
         if blank presented then writeNonceChallenge H (ep_ID endpoint) now
         else bindG (serveW writeDomainError (verify_proof H presented \<lparr>rq_AccessToken = token, rq_ExpectedJKT = ep_SigningJKT endpoint,
             rq_ExpectedNonce = [], rq_ExpectedNonceHash = nonceHash, rq_HTM = hq_Method request,
             rq_HTU = externalOrigin @ hq_RequestURI request, rq_Now = now\<rparr>)) (\<lambda>verdict. case verdict of
           Inl refusal \<Rightarrow> writeDPoPError H (ep_ID endpoint) now refusal
         | Inr result \<Rightarrow> rotate_nonce H (ep_ID endpoint) nonceHash now)
     | _ \<Rightarrow> reject 400 ''DPOP_MALFORMED'')"

definition prove_possession :: "http_env \<Rightarrow> http_request \<Rightarrow> Endpoint \<Rightarrow> string \<Rightarrow> string \<Rightarrow> time \<Rightarrow> string web" where
  "prove_possession H request endpoint token externalOrigin now =
     bindG (tryW (callS (he_env H) (\<lambda>D. GetEndpointNonceHash D (ep_ID endpoint) now))) (\<lambda>looked_up. case looked_up of
       Inl e \<Rightarrow> if \<not> HasCode (Some e) CodeNotFound \<and> \<not> HasCode (Some e) CodeExpired then failG (writeDomainError e)
                else writeNonceChallenge H (ep_ID endpoint) now
     | Inr nonceHash \<Rightarrow> judge_proof H request endpoint token externalOrigin now nonceHash)"

subsection \<open>The configuration that is served\<close>

definition host_text :: "string \<Rightarrow> string \<Rightarrow> string" where
  "host_text hostname port = (if port \<noteq> [] then JoinHostPort hostname port else if CHR '':'' \<in> set hostname then ''['' @ hostname @ '']'' else hostname)"

text \<open>An origin of the web: encrypted, unless the host is this machine.\<close>

definition secure_origin :: "library \<Rightarrow> string \<Rightarrow> bool" where
  "secure_origin L origin \<longleftrightarrow> (\<exists>hostname port. origin = ''https://'' @ host_text hostname port \<and> port \<noteq> ''443'' \<or>
     origin = ''http://'' @ host_text hostname port \<and> port \<noteq> ''80'' \<and> (hostname = ''localhost'' \<or> lib_loopback L hostname))"

lemma NormalizeOrigin_secure:
  assumes "NormalizeOrigin L v = Inr origin"
  shows "secure_origin L origin"
proof -
  from assms obtain parsed where parsed: "lib_url L (TrimSpace v) = Some parsed"
    by (auto simp: NormalizeOrigin_def split: option.splits)
  define scheme where "scheme = ToLower L (url_Scheme parsed)"
  define hostname where "hostname = ToLower L (fst (splitHostPort (url_Host parsed)))"
  define port where "port = snd (splitHostPort (url_Host parsed))"
  define port' where "port' = (if scheme = ''https'' \<and> port = ''443'' \<or> scheme = ''http'' \<and> port = ''80'' then [] else port)"
  have "\<exists>bad. NormalizeOrigin L v = (if bad then Inl Plain
      else if scheme \<noteq> ''https'' \<and> (scheme \<noteq> ''http'' \<or> (hostname \<noteq> ''localhost'' \<and> \<not> lib_loopback L hostname)) then Inl Plain
      else Inr (scheme @ ''://'' @ host_text hostname port'))"
    unfolding NormalizeOrigin_def parsed option.case Let_def host_text_def scheme_def hostname_def port_def port'_def by (rule exI, rule refl)
  with assms have shape: "origin = scheme @ ''://'' @ host_text hostname port'"
    and scheme: "scheme = ''https'' \<or> scheme = ''http'' \<and> (hostname = ''localhost'' \<or> lib_loopback L hostname)"
    by (auto split: if_split_asm)
  have port': "scheme = ''https'' \<longrightarrow> port' \<noteq> ''443''" "scheme = ''http'' \<longrightarrow> port' \<noteq> ''80''"
    by (auto simp: port'_def)
  from scheme show ?thesis
  proof
    assume "scheme = ''https''"
    with shape port' show ?thesis unfolding secure_origin_def by (intro exI [of _ hostname] exI [of _ port']) simp
  next
    assume "scheme = ''http'' \<and> (hostname = ''localhost'' \<or> lib_loopback L hostname)"
    with shape port' show ?thesis unfolding secure_origin_def by (intro exI [of _ hostname] exI [of _ port']) simp
  qed
qed

definition config_in_range :: "Config \<Rightarrow> bool" where
  "config_in_range c \<longleftrightarrow> 0 < cf_NonceTTL c \<and> cf_NonceTTL c \<le> 5 * Minute \<and> 0 < cf_TicketTTL c \<and> cf_TicketTTL c \<le> 30 * Second \<and>
     0 < cf_ReplayMaxEntries c \<and> 0 < cf_AccessTTL c \<and> cf_AccessTTL c \<le> 15 * Minute \<and> 0 < cf_RefreshTTL c \<and> cf_RefreshTTL c \<le> 30 * (24 * Hour)"

lemma effective_config_range: "effective_config L config = Inr c \<Longrightarrow> config_in_range c"
  by (auto simp: effective_config_def config_in_range_def defaultNonceTTL_def defaultTicketTTL_def defaultReplayMax_def
      Hour_def Minute_def Second_def split: sum.splits)

text \<open>
  C37.  The configuration is well-formed.  Whatever an operator configures, the handler that
  \<open>NewHandler\<close> builds serves encrypted origins (or origins of this machine), life times within their limits
  and a positive replay bound; a configuration whose values are in range is served as it is.
\<close>

theorem config_wellformed:
  assumes "effective_config L config = Inr c"
  shows "config_in_range c \<and> secure_origin L (cf_AllowedOrigin c) \<and> secure_origin L (cf_ExternalOrigin c) \<and>
     secure_origin L (cf_NativeExternalOrigin c) \<and>
     (config_in_range config \<longrightarrow> cf_NonceTTL c = cf_NonceTTL config \<and> cf_TicketTTL c = cf_TicketTTL config \<and>
        cf_ReplayMaxEntries c = cf_ReplayMaxEntries config \<and> cf_AccessTTL c = cf_AccessTTL config \<and> cf_RefreshTTL c = cf_RefreshTTL config)"
proof -
  have "secure_origin L (cf_AllowedOrigin c) \<and> secure_origin L (cf_ExternalOrigin c) \<and> secure_origin L (cf_NativeExternalOrigin c)"
    using assms by (auto simp: effective_config_def split: sum.splits intro: NormalizeOrigin_secure)
  moreover have "config_in_range config \<longrightarrow> cf_NonceTTL c = cf_NonceTTL config \<and> cf_TicketTTL c = cf_TicketTTL config \<and>
        cf_ReplayMaxEntries c = cf_ReplayMaxEntries config \<and> cf_AccessTTL c = cf_AccessTTL config \<and> cf_RefreshTTL c = cf_RefreshTTL config"
    using assms by (auto simp: effective_config_def config_in_range_def defaultTicketTTL_def split: sum.splits)
  ultimately show ?thesis using effective_config_range [OF assms] by blast
qed

definition url_library :: library where
  "url_library = sample_library\<lparr>lib_url := (\<lambda>text. Some (sample_url\<lparr>url_Host := ''p.example:443'', url_Path := []\<rparr>))\<rparr>"

definition operator_config :: Config where
  "operator_config = \<lparr>cf_AllowedOrigin = ''https://p.example'', cf_ExternalOrigin = ''https://p.example'', cf_NativeExternalOrigin = [],
     cf_NonceTTL = 0, cf_TicketTTL = Hour, cf_ReplayMaxEntries = 0, cf_AccessTTL = Hour, cf_RefreshTTL = Hour, cf_VerificationURI = []\<rparr>"

theorem config_wellformed_witness:
  "\<exists>c. effective_config url_library operator_config = Inr c \<and> cf_TicketTTL c = 30 * Second \<and> config_in_range c \<and> secure_origin url_library (cf_ExternalOrigin c)"
proof -
  have "NormalizeOrigin url_library ''https://p.example'' = Inr ''https://p.example''" by code_simp
  then obtain c where c: "effective_config url_library operator_config = Inr c" "cf_TicketTTL c = 30 * Second"
    by (simp add: effective_config_def operator_config_def blank_def Hour_def Minute_def Second_def defaultTicketTTL_def)
  with config_wellformed [OF c(1)] show ?thesis by blast
qed

end
