(* ===== verification/Store_Queries.thy ===== *)
theory Store_Queries
  imports Store_Keys "HOL-Library.Multiset"
begin

section \<open>Queries of the management console (\<open>store/management.go\<close>, \<open>store/audit.go\<close>)\<close>

text \<open>
  The lists a user sees and the counts of the overview.  Every query carries the owner and the
  tenant; a list is cut to at most 200 entries, newest first.  Decoding the metadata of an audit event
  (\<^verbatim>\<open>json.Unmarshal\<close> into a map) is a parameter.
\<close>

primrec from_rows :: "('r \<Rightarrow> 'v result) \<Rightarrow> 'r list \<Rightarrow> 'v list result" where
  "from_rows from [] = Inr []"
| "from_rows from (row # rows) = bindE (from row) (\<lambda>v. bindE (from_rows from rows) (\<lambda>vs. Inr (v # vs)))"

definition ListEndpoints :: "drivers \<Rightarrow> string \<Rightarrow> string \<Rightarrow> int \<Rightarrow> db \<Rightarrow> Endpoint list result \<times> db" where
  "ListEndpoints D owner tenant limit = run_read (
     bindT (checkT (requireOwner owner)) (\<lambda>_.
     bindT (tx_query (dr_endpoints D) t_endpoints
         (\<lambda>r. er_OwnerUserID r = TrimSpace owner \<and> er_TenantID r = TrimSpace tenant)
         (\<lambda>r. [- er_CreatedAt r]) (nat (managementLimit limit)) id) (\<lambda>rows.
     liftT (from_rows endpointFromRow rows))))"

definition ListEnrollments :: "drivers \<Rightarrow> string \<Rightarrow> string \<Rightarrow> int \<Rightarrow> db \<Rightarrow> Enrollment list result \<times> db" where
  "ListEnrollments D owner tenant limit = run_read (
     bindT (checkT (requireOwner owner)) (\<lambda>_.
     bindT (tx_query (dr_enrollments D) t_enrollments
         (\<lambda>r. nr_OwnerUserID r = TrimSpace owner \<and> nr_TenantID r = TrimSpace tenant \<or> nr_OwnerUserID r = [] \<and> nr_TenantID r = [])
         (\<lambda>r. [- nr_CreatedAt r]) (nat (managementLimit limit)) id) (\<lambda>rows.
     liftT (from_rows enrollmentFromRow rows))))"

definition ListSessions :: "drivers \<Rightarrow> string \<Rightarrow> string \<Rightarrow> int \<Rightarrow> db \<Rightarrow> Session list result \<times> db" where
  "ListSessions D owner tenant limit = run_read (
     bindT (checkT (requireOwner owner)) (\<lambda>_.
     bindT (tx_query (dr_sessions D) t_sessions
         (\<lambda>r. sw_OwnerUserID r = TrimSpace owner \<and> sw_TenantID r = TrimSpace tenant)
         (\<lambda>r. [- sw_CreatedAt r]) (nat (managementLimit limit)) id) (\<lambda>rows.
     liftT (from_rows (sessionFromRow (dr_unmarshal D)) rows))))"

definition auditFromRow :: "(byte list \<Rightarrow> (string \<times> string) list option) \<Rightarrow> auditRow \<Rightarrow> SecurityAuditEvent result" where
  "auditFromRow unmarshal_map row =
     bindE (parseID (uw_ID row)) (\<lambda>i. case unmarshal_map (uw_MetadataJSON row) of
       None \<Rightarrow> Inl (Wrap Plain)
     | Some metadata \<Rightarrow>
         let v = \<lparr>au_ID = i, au_OwnerUserID = uw_OwnerUserID row, au_TenantID = uw_TenantID row, au_ActorType = uw_ActorType row,
                  au_ActorID = uw_ActorID row, au_Action = uw_Action row, au_ObjectType = uw_ObjectType row,
                  au_ObjectID = uw_ObjectID row, au_Result = uw_Result row, au_ErrorCode = uw_ErrorCode row,
                  au_Metadata = metadata, au_CreatedAt = uw_CreatedAt row\<rparr>
         in case SecurityAuditEvent_Validate v of Some e \<Rightarrow> Inl (Wrap e) | None \<Rightarrow> Inr v)"

definition ListAudit ::
    "drivers \<Rightarrow> (byte list \<Rightarrow> (string \<times> string) list option) \<Rightarrow> string \<Rightarrow> string \<Rightarrow> int \<Rightarrow> db \<Rightarrow> SecurityAuditEvent list result \<times> db" where
  "ListAudit D unmarshal_map owner tenant limit = run_read (
     bindT (checkT (requireOwner owner)) (\<lambda>_.
     bindT (tx_query (dr_audit D) t_audit
         (\<lambda>r. uw_OwnerUserID r = TrimSpace owner \<and> uw_TenantID r = TrimSpace tenant)
         (\<lambda>r. [- uw_CreatedAt r]) (nat (managementLimit limit)) id) (\<lambda>rows.
     liftT (from_rows (auditFromRow unmarshal_map) rows))))"

record DeliverySnapshot =
  dl_Session :: Session
  dl_Frames :: "EncryptedFrame list"
  dl_ACKs :: "AckCursor list"

text \<open>The query for cursors has no limit; it is given the number of rows of the table.\<close>

definition Delivery :: "drivers \<Rightarrow> ID \<Rightarrow> string \<Rightarrow> string \<Rightarrow> int \<Rightarrow> db \<Rightarrow> DeliverySnapshot result \<times> db" where
  "Delivery D sessionID owner tenant limit db = run_read (
     bindT (checkT (requireOwner owner)) (\<lambda>_.
     bindT (guardT (IsZero sessionID) (problem CodeInvalidArgument)) (\<lambda>_.
     bindT (tx_first (dr_sessions D) t_sessions
         (\<lambda>r. sw_ID r = ID_String sessionID \<and> sw_OwnerUserID r = TrimSpace owner \<and> sw_TenantID r = TrimSpace tenant) notFoundOr) (\<lambda>row.
     bindT (liftT (sessionFromRow (dr_unmarshal D) row)) (\<lambda>session.
     bindT (tx_query (dr_frames D) t_frames (\<lambda>r. fw_SessionID r = ID_String sessionID)
         (\<lambda>r. [- fw_ReceivedAt r]) (nat (managementLimit limit)) id) (\<lambda>frameRows.
     bindT (liftT (from_rows frameFromRow frameRows)) (\<lambda>frames.
     bindT (tx_query (dr_acks D) t_acks (\<lambda>r. aw_SessionID r = ID_String sessionID)
         (\<lambda>r. [- aw_UpdatedAt r]) (length (t_acks db)) id) (\<lambda>ackRows.
     bindT (liftT (from_rows ackFromRow ackRows)) (\<lambda>acks.
     returnT \<lparr>dl_Session = session, dl_Frames = frames, dl_ACKs = acks\<rparr>)))))))) ) db"

record Overview =
  ov_PendingEnrollments :: nat
  ov_ActiveEndpoints :: nat
  ov_ActiveSessions :: nat
  ov_Unacknowledged :: nat
  ov_ConflictFrames :: nat

text \<open>A frame row joined with its session: the session row is in the same database.\<close>

definition frame_in_scope :: "string \<Rightarrow> string \<Rightarrow> FrameStatus list \<Rightarrow> db \<Rightarrow> frameRow \<Rightarrow> bool" where
  "frame_in_scope owner tenant statuses db r \<longleftrightarrow> fw_Status r \<in> set statuses \<and>
     (\<exists>s \<in> set (t_sessions db). sw_ID s = fw_SessionID r \<and> sw_OwnerUserID s = owner \<and> sw_TenantID s = tenant)"

definition Overview_of :: "drivers \<Rightarrow> string \<Rightarrow> string \<Rightarrow> db \<Rightarrow> Overview result \<times> db" where
  "Overview_of D owner0 tenant0 db =
     (let owner = TrimSpace owner0; tenant = TrimSpace tenant0 in run_read (
     bindT (checkT (requireOwner owner0)) (\<lambda>_.
     bindT (tx_count (dr_enrollments D) t_enrollments (\<lambda>r. nr_OwnerUserID r = owner \<and>
         nr_Status r \<in> {EnrollmentStatusPending, EnrollmentStatusApproved} \<and> nr_TenantID r = tenant) id) (\<lambda>enrollments.
     bindT (tx_count (dr_endpoints D) t_endpoints (\<lambda>r. er_OwnerUserID r = owner \<and>
         er_Status r = EndpointStatusActive \<and> er_TenantID r = tenant) id) (\<lambda>endpoints.
     bindT (tx_count (dr_sessions D) t_sessions (\<lambda>r. sw_OwnerUserID r = owner \<and>
         sw_Status r \<in> {SessionStatusCreating, SessionStatusWaitingKey, SessionStatusActive, SessionStatusRekeyRequired,
           SessionStatusDraining, SessionStatusUncertain} \<and> sw_TenantID r = tenant) id) (\<lambda>sessions.
     bindT (tx_count (dr_frames D) t_frames (frame_in_scope owner tenant [FrameStatusStored, FrameStatusRouted] db) id) (\<lambda>unacknowledged.
     bindT (tx_count (dr_frames D) t_frames (frame_in_scope owner tenant [FrameStatusConflict] db) id) (\<lambda>conflicts.
     returnT \<lparr>ov_PendingEnrollments = enrollments, ov_ActiveEndpoints = endpoints, ov_ActiveSessions = sessions,
       ov_Unacknowledged = unacknowledged, ov_ConflictFrames = conflicts\<rparr>)))))) ) db)"

subsection \<open>A list is the newest part of its scope\<close>

text \<open>
  \<open>newest n created from rows vs\<close>: \<open>vs\<close> are the values of \<open>n\<close> rows, or of all if there are fewer, in
  the order of their age, and no row that is left out is newer than one that is shown.
\<close>

definition newest :: "nat \<Rightarrow> ('r \<Rightarrow> time) \<Rightarrow> ('r \<Rightarrow> 'v result) \<Rightarrow> 'r list \<Rightarrow> 'v list \<Rightarrow> bool" where
  "newest n created from rows vs \<longleftrightarrow> (\<exists>shown hidden. mset rows = mset shown + mset hidden \<and> map from shown = map Inr vs \<and>
     length vs = min n (length rows) \<and> sorted_wrt (\<lambda>a b. created b \<le> created a) shown \<and>
     (\<forall>r \<in> set shown. \<forall>x \<in> set hidden. created x \<le> created r))"

lemma from_rows_Inr: "from_rows from rows = Inr vs \<longleftrightarrow> map from rows = map Inr vs"
  by (induction rows arbitrary: vs) (auto simp: bindE_Inr_iff map_eq_Cons_conv Cons_eq_map_conv)

context sql_table
begin

lemma listing_newest:
  assumes "tx_query drv get p (\<lambda>r. [- created r]) n err db = Inr (rows, db')" "from_rows from rows = Inr vs"
  shows "newest n created from (filter p (get db)) vs"
proof -
  obtain ys where ys: "mset ys = mset (filter p (get db))" "sorted (map (\<lambda>r. [- created r]) ys)" "rows = take n ys"
    using tx_queryD [OF assms(1)] by blast
  have order: "sorted_wrt (\<lambda>a b. created b \<le> created a) ys"
    using ys(2) unfolding sorted_map by (rule sorted_wrt_mono_rel [rotated]) auto
  have "length (filter p (get db)) = length ys" using mset_eq_length [OF ys(1)] by simp
  moreover have "length vs = length rows" using assms(2) by (metis from_rows_Inr length_map)
  ultimately have len: "length vs = min n (length (filter p (get db)))" using ys(3) by simp
  have split: "mset (filter p (get db)) = mset rows + mset (drop n ys)"
    using ys(1,3) by (metis append_take_drop_id mset_append)
  have "sorted_wrt (\<lambda>a b. created b \<le> created a) (take n ys @ drop n ys)" using order by simp
  then have sorted: "sorted_wrt (\<lambda>a b. created b \<le> created a) rows" "\<forall>r \<in> set rows. \<forall>x \<in> set (drop n ys). created x \<le> created r"
    unfolding sorted_wrt_append ys(3) by blast+
  show ?thesis unfolding newest_def
    using split len sorted assms(2)[unfolded from_rows_Inr] by (intro exI [of _ rows] exI [of _ "drop n ys"]) simp
qed

end

lemma managementLimit_range: "1 \<le> managementLimit limit" "managementLimit limit \<le> 200"
  by (simp_all add: managementLimit_def)

text \<open>
  C40.  A user sees exactly the newest of what is theirs.  Each list holds the rows of the caller's
  owner and tenant only, for enrollments also those nobody has claimed yet; there are as many as the
  limit, between 1 and 200, allows, ordered by age, and no row of the scope that is left out is newer than
  one that is shown.
\<close>

theorem listings_exact:
  assumes laws: "database_laws D"
  shows "(ListEndpoints D owner tenant limit db = (Inr endpoints, db') \<longrightarrow>
      newest (nat (managementLimit limit)) er_CreatedAt endpointFromRow
        (filter (\<lambda>r. er_OwnerUserID r = TrimSpace owner \<and> er_TenantID r = TrimSpace tenant) (t_endpoints db)) endpoints) \<and>
    (ListSessions D owner tenant limit db = (Inr sessions, db') \<longrightarrow>
      newest (nat (managementLimit limit)) sw_CreatedAt (sessionFromRow (dr_unmarshal D))
        (filter (\<lambda>r. sw_OwnerUserID r = TrimSpace owner \<and> sw_TenantID r = TrimSpace tenant) (t_sessions db)) sessions) \<and>
    (ListAudit D unmarshal_map owner tenant limit db = (Inr events, db') \<longrightarrow>
      newest (nat (managementLimit limit)) uw_CreatedAt (auditFromRow unmarshal_map)
        (filter (\<lambda>r. uw_OwnerUserID r = TrimSpace owner \<and> uw_TenantID r = TrimSpace tenant) (t_audit db)) events) \<and>
    (ListEnrollments D owner tenant limit db = (Inr enrollments, db') \<longrightarrow>
      newest (nat (managementLimit limit)) nr_CreatedAt enrollmentFromRow
        (filter (\<lambda>r. nr_OwnerUserID r = TrimSpace owner \<and> nr_TenantID r = TrimSpace tenant \<or> nr_OwnerUserID r = [] \<and> nr_TenantID r = [])
          (t_enrollments db)) enrollments)"
  using sql_table.listing_newest [OF database_lawsD(1) [OF laws]] sql_table.listing_newest [OF database_lawsD(4) [OF laws]]
    sql_table.listing_newest [OF database_lawsD(9) [OF laws]] sql_table.listing_newest [OF database_lawsD(2) [OF laws]]
  unfolding ListEndpoints_def ListSessions_def ListAudit_def ListEnrollments_def
  by (auto dest!: run_read_success simp: tx_Inr)

text \<open>Two endpoints of different owners: the list of one owner shows the one endpoint.\<close>

theorem listings_exact_witness:
  "let db = empty_db\<lparr>t_endpoints := [endpointToRow hc_endpoint, (endpointToRow hc_endpoint)\<lparr>er_OwnerUserID := ''u2''\<rparr>]\<rparr> in
     ListEndpoints reference_drivers ''u1'' [] 0 db = (Inr [hc_endpoint], db) \<and>
     newest 50 er_CreatedAt endpointFromRow [endpointToRow hc_endpoint] [hc_endpoint]"
proof -
  let ?db = "empty_db\<lparr>t_endpoints := [endpointToRow hc_endpoint, (endpointToRow hc_endpoint)\<lparr>er_OwnerUserID := ''u2''\<rparr>]\<rparr>"
  have "ListEndpoints reference_drivers ''u1'' [] 0 ?db = (Inr [hc_endpoint], ?db)"
    by (simp add: ListEndpoints_def run_read_def tx_eval tx_query_def managementLimit_def reference_drivers_def)
  with listings_exact [OF reference_laws, of "''u1''" "[]" 0 ?db "[hc_endpoint]" ?db, THEN conjunct1] show ?thesis
    by (simp add: Let_def managementLimit_def)
qed

end
