(* ===== verification/Gateway_Handlers.thy ===== *)
theory Gateway_Handlers
  imports Gateway_Http Store_Queries
begin

section \<open>The handlers (\<open>gateway/server.go\<close>, \<open>session.go\<close>, \<open>session_close.go\<close>, \<open>enrollment.go\<close>)\<close>

text \<open>
  Every request that changes something is authenticated first; then the handler calls the store and,
  for sessions, sends a control frame to the ABA endpoint.
\<close>

subsection \<open>Tickets\<close>

definition issueTicket :: "http_env \<Rightarrow> http_request \<Rightarrow> (nat \<times> reply) web" where
  "issueTicket H request = (let now = he_clock H 0; config = he_config H in
     case parseAuthorization request of
       None \<Rightarrow> reject 401 ''ENDPOINT_CREDENTIAL_REQUIRED''
     | Some (token, tokenHash) \<Rightarrow>
         bindG (callW H (\<lambda>D. AuthenticateAccessToken D tokenHash now)) (\<lambda>(endpoint, credential).
         case ticketOrigin config (ep_Type endpoint) (header_get request ''Origin'') of
           None \<Rightarrow> reject 403 ''TICKET_ORIGIN_FORBIDDEN''
         | Some origin \<Rightarrow>
             bindG (prove_possession H request endpoint token (endpointExternalOrigin config (ep_Type endpoint)) now) (\<lambda>nextNonce.
             bindG (serveW (\<lambda>e. random_unavailable) newOpaqueValue) (\<lambda>(ticketValue, ticketHash).
             bindG (serveW (\<lambda>e. random_unavailable) newID_from) (\<lambda>ticketID.
             let expiresAt = now + cf_TicketTTL config in
             bindG (callW H (\<lambda>D. CreateTicket D \<lparr>tk_ID = ticketID, tk_TokenHash = ticketHash, tk_EndpointID = ep_ID endpoint,
                 tk_CredentialID = cr_ID credential, tk_Purpose = ticketPurpose, tk_Origin = origin, tk_Protocol = protocolName,
                 tk_Status = TicketStatusIssued, tk_ExpiresAt = expiresAt, tk_ConsumedAt = None, tk_CreatedAt = now,
                 tk_RowVersion = 0\<rparr> (cf_TicketTTL config))) (\<lambda>_.
             bindG (setHeader ''DPoP-Nonce'' nextNonce) (\<lambda>_.
             returnG (201, TicketReply ticketValue expiresAt protocolName
               (websocketURL (endpointExternalOrigin config (ep_Type endpoint)) @ ''/gateway/v1/ws'')))))))))"

subsection \<open>Refreshing tokens\<close>

definition setRefreshCookie :: "time \<Rightarrow> string \<Rightarrow> time \<Rightarrow> string \<Rightarrow> refresh_cookie" where
  "setRefreshCookie wall token expiresAt externalOrigin = \<lparr>ck_Value = token, ck_Expires = expiresAt,
     ck_MaxAge = (let seconds = (if expiresAt < wall then - ((wall - expiresAt) div Second) else (expiresAt - wall) div Second)
                  in if seconds < 1 then 1 else seconds),
     ck_Secure = HasPrefix externalOrigin ''https://''\<rparr>"

definition clearRefreshCookie :: "string \<Rightarrow> refresh_cookie" where
  "clearRefreshCookie externalOrigin = \<lparr>ck_Value = [], ck_Expires = time_Unix 1, ck_MaxAge = - 1,
     ck_Secure = HasPrefix externalOrigin ''https://''\<rparr>"

definition clear_if_cookie :: "http_env \<Rightarrow> refreshTransport \<Rightarrow> unit web" where
  "clear_if_cookie H transport =
     (if transport = refreshTransportCookie then setCookie (clearRefreshCookie (cf_ExternalOrigin (he_config H))) else returnG ())"

definition refresh_audit :: "ID \<Rightarrow> Endpoint \<Rightarrow> time \<Rightarrow> SecurityAuditEvent" where
  "refresh_audit auditID endpoint now = \<lparr>
     au_ID = auditID, au_OwnerUserID = ep_OwnerUserID endpoint, au_TenantID = ep_TenantID endpoint, au_ActorType = AuditActorEndpoint,
     au_ActorID = ID_String (ep_ID endpoint), au_Action = ''endpoint.token.refresh'', au_ObjectType = ''endpoint'',
     au_ObjectID = ID_String (ep_ID endpoint), au_Result = ''success'', au_ErrorCode = [], au_Metadata = [], au_CreatedAt = now\<rparr>"

text \<open>The new tokens: the values, and what is stored of them.\<close>

definition rotate_tokens ::
    "http_env \<Rightarrow> refreshTransport \<Rightarrow> byte list \<Rightarrow> Endpoint \<Rightarrow> RefreshCredential \<Rightarrow> time \<Rightarrow> (string \<times> string \<times> ID) web" where
  "rotate_tokens H transport refreshHash endpoint currentRefresh now = (let config = he_config H in
     bindG (serveW (\<lambda>e. random_unavailable) (readS 32)) (\<lambda>access.
     bindG (serveW (\<lambda>e. random_unavailable) (readS 32)) (\<lambda>refresh.
     bindG (serveW (\<lambda>e. random_unavailable) newID_from) (\<lambda>accessID.
     bindG (serveW (\<lambda>e. random_unavailable) newID_from) (\<lambda>refreshID.
     bindG (serveW (\<lambda>e. random_unavailable) newID_from) (\<lambda>auditID.
     bindG (tryW (callS (he_env H) (\<lambda>D. RotateRefreshCredential D refreshHash (ep_SigningJKT endpoint)
         (new_access accessID endpoint access (now + cf_AccessTTL config) now)
         (new_refresh refreshID endpoint refresh (rc_ID currentRefresh) (now + cf_RefreshTTL config) now)
         (refresh_audit auditID endpoint now) now))) (\<lambda>r. case r of
       Inl e \<Rightarrow> bindG (if HasCode (Some e) CodeRevoked then clear_if_cookie H transport else returnG ()) (\<lambda>_. failG (writeDomainError e))
     | Inr u \<Rightarrow> returnG (RawURLEncode access, RawURLEncode refresh, accessID))))))))"

definition refreshToken :: "http_env \<Rightarrow> http_request \<Rightarrow> (nat \<times> reply) web" where
  "refreshToken H request = (let now = he_clock H 0; config = he_config H in
     case parseRefreshCredential request of
       None \<Rightarrow> reject 401 ''REFRESH_CREDENTIAL_REQUIRED''
     | Some (transport, None) \<Rightarrow> bindG (clear_if_cookie H transport) (\<lambda>_. reject 401 ''REFRESH_CREDENTIAL_INVALID'')
     | Some (transport, Some (token, refreshHash)) \<Rightarrow>
         bindG (tryW (callS (he_env H) (\<lambda>D. InspectRefreshCredential D refreshHash now))) (\<lambda>inspected. case inspected of
           Inl e \<Rightarrow> bindG (clear_if_cookie H transport) (\<lambda>_. failG (writeDomainError e))
         | Inr (endpoint, currentRefresh) \<Rightarrow>
             if \<not> validRefreshTransport (ep_Type endpoint) transport (header_get request ''Origin'')
             then bindG (clear_if_cookie H transport) (\<lambda>_. reject 403 ''REFRESH_TRANSPORT_FORBIDDEN'')
             else
             bindG (prove_possession H request endpoint [] (endpointExternalOrigin config (ep_Type endpoint)) now) (\<lambda>nextNonce.
             bindG (rotate_tokens H transport refreshHash endpoint currentRefresh now) (\<lambda>(accessToken, newRefresh, accessID).
             let refreshExpiresAt = now + cf_RefreshTTL config in
             bindG (if transport = refreshTransportCookie
                then setCookie (setRefreshCookie (he_clock H 8) newRefresh refreshExpiresAt (cf_ExternalOrigin config)) else returnG ()) (\<lambda>_.
             bindG (setHeader ''DPoP-Nonce'' nextNonce) (\<lambda>_.
             returnG (200, TokenReply \<lparr>tr_EndpointID = ep_ID endpoint, tr_CredentialID = accessID, tr_AccessToken = accessToken,
               tr_AccessExpiresAt = now + cf_AccessTTL config, tr_SigningJKT = ep_SigningJKT endpoint, tr_KEMJKT = ep_KEMJKT endpoint,
               tr_Refresh = (if transport = refreshTransportHeader then Some (newRefresh, refreshExpiresAt) else None)\<rparr>)))))))"

subsection \<open>Requests of browser endpoints\<close>

definition authenticateHCRequest :: "http_env \<Rightarrow> http_request \<Rightarrow> (Endpoint \<times> EndpointCredential) web" where
  "authenticateHCRequest H request = (let now = he_clock H 0; config = he_config H in
     case parseAuthorization request of
       None \<Rightarrow> reject 401 ''ENDPOINT_CREDENTIAL_REQUIRED''
     | Some (token, tokenHash) \<Rightarrow>
         bindG (callW H (\<lambda>D. AuthenticateAccessToken D tokenHash now)) (\<lambda>(endpoint, credential).
         bindG (requireW ((ep_Type endpoint = EndpointTypeHCWeb \<or> ep_Type endpoint = EndpointTypeHCReference) \<and>
             TrimSpace (header_get request ''Origin'') = cf_AllowedOrigin config \<and> ''session:manage'' \<in> set (cr_Scopes credential))
             403 ''SESSION_CREATE_FORBIDDEN'') (\<lambda>_.
         bindG (prove_possession H request endpoint token (cf_ExternalOrigin config) now) (\<lambda>nextNonce.
         bindG (setHeader ''DPoP-Nonce'' nextNonce) (\<lambda>_.
         returnG (endpoint, credential))))))"

text \<open>A JSON body of at most 16 KiB that is one object with known names.\<close>

definition decodeGatewayJSON ::
    "http_env \<Rightarrow> string list \<Rightarrow> (string \<Rightarrow> json \<Rightarrow> 's \<Rightarrow> 's option) \<Rightarrow> 's \<Rightarrow> http_request \<Rightarrow> 's web" where
  "decodeGatewayJSON H names set_field initial request =
     (if length (hq_Body request) > 16 * 1024 then reject 400 ''INVALID_REQUEST''
      else case lib_json (ge_library (he_env H)) (hq_Body request) of
        None \<Rightarrow> reject 400 ''INVALID_REQUEST''
      | Some (j, alone) \<Rightarrow> (case decode_struct names set_field initial j of
            None \<Rightarrow> reject 400 ''INVALID_REQUEST''
          | Some v \<Rightarrow> if \<not> alone then reject 400 ''INVALID_REQUEST'' else returnG v))"

record createSessionRequest =
  cq_ABAEndpointID :: string
  cq_RuntimeProfileID :: string
  cq_WorkspaceID :: string
  cq_RequestedCapabilities :: "string list"

definition set_string_list :: "(string list \<Rightarrow> 's \<Rightarrow> 's) \<Rightarrow> json \<Rightarrow> 's \<Rightarrow> 's option" where
  "set_string_list upd v s = (case v of
       JArray vs \<Rightarrow> if list_all (\<lambda>x. case x of JString _ \<Rightarrow> True | JNull \<Rightarrow> True | _ \<Rightarrow> False) vs
         then Some (upd (map (\<lambda>x. case x of JString t \<Rightarrow> t | _ \<Rightarrow> []) vs) s) else None
     | JNull \<Rightarrow> Some (upd [] s)
     | _ \<Rightarrow> None)"

definition set_session_field :: "string \<Rightarrow> json \<Rightarrow> createSessionRequest \<Rightarrow> createSessionRequest option" where
  "set_session_field name =
     (if name = ''abaEndpointId'' then set_string (\<lambda>v s. s\<lparr>cq_ABAEndpointID := v\<rparr>)
      else if name = ''runtimeProfileId'' then set_string (\<lambda>v s. s\<lparr>cq_RuntimeProfileID := v\<rparr>)
      else if name = ''workspaceId'' then set_string (\<lambda>v s. s\<lparr>cq_WorkspaceID := v\<rparr>)
      else set_string_list (\<lambda>v s. s\<lparr>cq_RequestedCapabilities := v\<rparr>))"

definition listABAEndpoints :: "http_env \<Rightarrow> http_request \<Rightarrow> (nat \<times> reply) web" where
  "listABAEndpoints H request =
     bindG (authenticateHCRequest H request) (\<lambda>(endpoint, _).
     bindG (callW H (\<lambda>D. ListEndpoints D (ep_OwnerUserID endpoint) (ep_TenantID endpoint) 200)) (\<lambda>values x.
     (Inr (200, EndpointList (filter (\<lambda>v. ep_Type v = EndpointTypeABA \<and> ep_Status v = EndpointStatusActive \<and>
        online (ep_ID v) (gs_directory (ex_server x))) values)), x)))"

subsection \<open>Control frames of the platform\<close>

definition CONTROL_TYPE_OPEN_TUNNEL_REQUEST :: u32 where "CONTROL_TYPE_OPEN_TUNNEL_REQUEST = 6"
definition CONTROL_TYPE_CLOSE_TUNNEL_REQUEST :: u32 where "CONTROL_TYPE_CLOSE_TUNNEL_REQUEST = 8"
definition openTunnelTTL :: duration where "openTunnelTTL = 30 * Second"
definition sessionIdempotencyTTL :: duration where "sessionIdempotencyTTL = 24 * Hour"

text \<open>The sender of a frame of the platform is the zero identifier.\<close>

definition platform_control ::
    "http_env \<Rightarrow> u32 \<Rightarrow> byte list \<Rightarrow> byte list \<Rightarrow> ID \<Rightarrow> byte list \<Rightarrow> time \<Rightarrow> u64 \<Rightarrow> byte list result" where
  "platform_control H controlType messageID packetID receiver payload now sequence =
     bindE (controlTranscript messageID (replicate 16 0) receiver sequence (time_UnixMilli now) controlType payload) (\<lambda>transcript.
     bindE (SignP1363LowS (he_sign H) transcript) (\<lambda>signature.
     wi_encode (ge_codec (he_env H)) \<lparr>wk_WireMajor = 1, wk_WireMinor = 0, wk_PacketId = packetID, wk_Body = ControlBody
       \<lparr>wc_MessageId = messageID, wc_SenderEndpointId = replicate 16 0, wc_ReceiverEndpointId = receiver, wc_ControlSequence = sequence,
        wc_CreatedAtMs = time_UnixMilli now, wc_Type = controlType, wc_Payload = payload, wc_Signature = signature\<rparr>\<rparr>))"

definition sendNextG :: "ID \<Rightarrow> (u64 \<Rightarrow> byte list result) \<Rightarrow> unit gw" where
  "sendNextG endpointID build s = (case sendNextControl endpointID build (gs_directory s) of
       (None, d) \<Rightarrow> (Inr (), s\<lparr>gs_directory := d\<rparr>)
     | (Some e, d) \<Rightarrow> (Inl e, s\<lparr>gs_directory := d\<rparr>))"

definition send_platform_control :: "http_env \<Rightarrow> u32 \<Rightarrow> ID \<Rightarrow> byte list result \<Rightarrow> time \<Rightarrow> unit gw" where
  "send_platform_control H controlType receiver encoded now =
     bindG (liftG encoded) (\<lambda>payload.
     bindG (randomBytes 16) (\<lambda>messageID.
     bindG (randomBytes 16) (\<lambda>packetID.
     sendNextG receiver (platform_control H controlType messageID packetID receiver payload now))))"

text \<open>\<^verbatim>\<open>elliptic.Marshal\<close>: the uncompressed point.\<close>

definition public_point :: "http_env \<Rightarrow> byte list \<Rightarrow> byte list result" where
  "public_point H jwk_text =
     bindE (ParseP256PublicJWK (lib_json (ge_library (he_env H))) jwk_text) (\<lambda>jwk.
     bindE (PublicKey jwk) (\<lambda>(x, y). Inr ([4] @ FillBytes32 x @ FillBytes32 y)))"

definition sendOpenTunnelRequest :: "http_env \<Rightarrow> Session \<Rightarrow> Endpoint \<Rightarrow> time \<Rightarrow> unit gw" where
  "sendOpenTunnelRequest H session hcEndpoint now =
     bindG (guardG (ep_ID hcEndpoint \<noteq> se_HCEndpointID session \<or>
         ep_Type hcEndpoint \<noteq> EndpointTypeHCWeb \<and> ep_Type hcEndpoint \<noteq> EndpointTypeHCReference)) (\<lambda>_.
     bindG (liftG (public_point H (ep_KEMPublicJWK hcEndpoint))) (\<lambda>kem.
     bindG (liftG (public_point H (ep_SigningPublicJWK hcEndpoint))) (\<lambda>signing.
     send_platform_control H CONTROL_TYPE_OPEN_TUNNEL_REQUEST (se_ABAEndpointID session) (he_open_request H
       \<lparr>wj_SessionId = se_ID session, wj_HcEndpointId = se_HCEndpointID session, wj_RuntimeProfileId = se_RuntimeProfileID session,
        wj_WorkspaceId = se_WorkspaceID session, wj_AuthorizationRevision = 1, wj_RequestedKeyGeneration = 1,
        wj_RequestedAcpCapabilities = se_RequestedCapabilities session, wj_ExpiresAtMs = time_UnixMilli (now + openTunnelTTL),
        wj_HcKemPublicKey = kem, wj_HcKemJkt = ep_KEMJKT hcEndpoint, wj_HcSigningPublicKey = signing,
        wj_HcSigningJkt = ep_SigningJKT hcEndpoint\<rparr>) now)))"

definition sendCloseTunnelRequest :: "http_env \<Rightarrow> Session \<Rightarrow> time \<Rightarrow> unit gw" where
  "sendCloseTunnelRequest H session now =
     send_platform_control H CONTROL_TYPE_CLOSE_TUNNEL_REQUEST (se_ABAEndpointID session) (he_close_request H
       \<lparr>wz_SessionId = se_ID session, wz_StableReasonCode = ''HC_REQUESTED'', wz_ExpiresAtMs = time_UnixMilli (now + openTunnelTTL)\<rparr>) now"

text \<open>A packet action inside a handler; whether it succeeded.\<close>

definition deliverW :: "unit gw \<Rightarrow> bool web" where
  "deliverW m x = (case m (ex_server x) of (Inl e, s') \<Rightarrow> (Inr False, x\<lparr>ex_server := s'\<rparr>) | (Inr u, s') \<Rightarrow> (Inr True, x\<lparr>ex_server := s'\<rparr>))"

subsection \<open>Opening and closing sessions\<close>

definition sessionCreateOperation :: string where "sessionCreateOperation = ''endpoint.session.create''"

definition session_response :: "Session \<Rightarrow> SessionStatus \<Rightarrow> endpointSessionResponse" where
  "session_response session st = \<lparr>sn_SessionID = ID_String (se_ID session), sn_ABAEndpointID = ID_String (se_ABAEndpointID session),
     sn_HCEndpointID = ID_String (se_HCEndpointID session), sn_RuntimeProfileID = se_RuntimeProfileID session,
     sn_WorkspaceID = se_WorkspaceID session, sn_RequestedCapabilities = se_RequestedCapabilities session,
     sn_Status = st, sn_CreatedAt = se_CreatedAt session\<rparr>"

definition requested_session :: "ID \<Rightarrow> Endpoint \<Rightarrow> SessionRequest \<Rightarrow> time \<Rightarrow> Session" where
  "requested_session i endpoint request now = \<lparr>
     se_ID = i, se_OwnerUserID = ep_OwnerUserID endpoint, se_TenantID = ep_TenantID endpoint,
     se_ABAEndpointID = rq_ABAEndpointID request, se_HCEndpointID = rq_HCEndpointID request,
     se_RuntimeProfileID = rq_RuntimeProfileID request, se_WorkspaceID = rq_WorkspaceID request,
     se_RequestedCapabilities = rq_RequestedCapabilities request, se_Status = SessionStatusCreating, se_CurrentKeyGeneration = 0,
     se_CreatedAt = now, se_UpdatedAt = now, se_LastActivityAt = None, se_ClosedAt = None, se_RowVersion = 0\<rparr>"

definition session_reservation :: "ID \<Rightarrow> Session \<Rightarrow> Endpoint \<Rightarrow> string \<Rightarrow> string \<Rightarrow> byte list \<Rightarrow> time \<Rightarrow> IdempotencyRecord" where
  "session_reservation i session endpoint operation key requestHash now = \<lparr>
     id_ID = i, id_OwnerUserID = se_OwnerUserID session, id_TenantID = se_TenantID session, id_ActorID = ID_String (ep_ID endpoint),
     id_Operation = operation, id_Key = key, id_RequestHash = requestHash, id_Status = IdempotencyStatusInProgress,
     id_HTTPStatus = 0, id_ResponseJSON = [], id_ErrorCode = [], id_CreatedAt = now, id_UpdatedAt = now,
     id_ExpiresAt = now + sessionIdempotencyTTL, id_RowVersion = 0\<rparr>"

definition session_audit :: "ID \<Rightarrow> Session \<Rightarrow> Endpoint \<Rightarrow> string \<Rightarrow> string \<Rightarrow> time \<Rightarrow> SecurityAuditEvent" where
  "session_audit i session endpoint action status_text now = \<lparr>
     au_ID = i, au_OwnerUserID = se_OwnerUserID session, au_TenantID = se_TenantID session, au_ActorType = AuditActorEndpoint,
     au_ActorID = ID_String (ep_ID endpoint), au_Action = action, au_ObjectType = ''session'', au_ObjectID = ID_String (se_ID session),
     au_Result = ''success'', au_ErrorCode = [], au_Metadata = [(''sessionStatus'', status_text)], au_CreatedAt = now\<rparr>"

definition check_idempotency_key :: "http_request \<Rightarrow> string web" where
  "check_idempotency_key request = (let key = header_get request ''Idempotency-Key'' in
     if TrimSpace key \<noteq> key then reject 400 ''INVALID_IDEMPOTENCY_KEY''
     else case ValidateIdempotencyKey key of Some e \<Rightarrow> failG (writeDomainError e) | None \<Rightarrow> returnG key)"

definition endpointSessionRequestHash :: "http_env \<Rightarrow> ID \<Rightarrow> SessionRequest \<Rightarrow> byte list result" where
  "endpointSessionRequestHash H endpointID request = bindE (he_request_json H endpointID request) (\<lambda>encoded. Inr (sha256 encoded))"

definition createSession :: "http_env \<Rightarrow> http_request \<Rightarrow> (nat \<times> reply) web" where
  "createSession H request =
     bindG (authenticateHCRequest H request) (\<lambda>(endpoint, _).
     bindG (decodeGatewayJSON H [''abaEndpointId'', ''runtimeProfileId'', ''workspaceId'', ''requestedCapabilities''] set_session_field
         \<lparr>cq_ABAEndpointID = [], cq_RuntimeProfileID = [], cq_WorkspaceID = [], cq_RequestedCapabilities = []\<rparr> request) (\<lambda>input.
     case ParseID (cq_ABAEndpointID input) of
       Inl e \<Rightarrow> reject 400 ''INVALID_REQUEST''
     | Inr abaID \<Rightarrow> (case SessionRequest_Validate \<lparr>rq_ABAEndpointID = abaID, rq_HCEndpointID = ep_ID endpoint,
           rq_RuntimeProfileID = cq_RuntimeProfileID input, rq_WorkspaceID = cq_WorkspaceID input,
           rq_RequestedCapabilities = cq_RequestedCapabilities input\<rparr> of
         (Some e, _) \<Rightarrow> failG (writeDomainError e)
       | (None, sessionRequest) \<Rightarrow>
         bindG (\<lambda>x. requireW (online abaID (gs_directory (ex_server x))) 503 ''ABA_OFFLINE'' x) (\<lambda>_.
         bindG (check_idempotency_key request) (\<lambda>key.
         case endpointSessionRequestHash H (ep_ID endpoint) sessionRequest of
           Inl e \<Rightarrow> reject 500 ''GATEWAY_INTERNAL''
         | Inr requestHash \<Rightarrow> (let now = he_clock H 1 in
             bindG (serveW (\<lambda>e. random_unavailable) (newID_list 3)) (\<lambda>ids.
             let session = requested_session (ids ! 0) endpoint sessionRequest now in
             case he_session_json H (session_response session SessionStatusCreating) of
               Inl e \<Rightarrow> reject 500 ''GATEWAY_INTERNAL''
             | Inr responseJSON \<Rightarrow>
                 bindG (callW H (\<lambda>D. CreateEndpointSession D session
                     (session_reservation (ids ! 1) session endpoint sessionCreateOperation key requestHash now)
                     (session_audit (ids ! 2) session endpoint ''session.create'' ''CREATING'' now) 201 responseJSON)) (\<lambda>(_, storedJSON, replayed).
                 if replayed then bindG (setHeader ''Idempotency-Replayed'' ''true'') (\<lambda>_. returnG (201, RawJSON storedJSON))
                 else bindG (deliverW (sendOpenTunnelRequest H session endpoint now)) (\<lambda>delivered.
                   if delivered then returnG (201, RawJSON storedJSON)
                   else bindG (tryW (callS (he_env H) (\<lambda>D. UpdateSession D (se_ID session) (Session_Fail (he_clock H 2))))) (\<lambda>_.
                     reject 503 ''ABA_DELIVERY_UNAVAILABLE'')))))))))) "

definition closeEndpointSession :: "http_env \<Rightarrow> http_request \<Rightarrow> (nat \<times> reply) web" where
  "closeEndpointSession H request =
     bindG (authenticateHCRequest H request) (\<lambda>(endpoint, _).
     bindG (decodeGatewayJSON H [] (\<lambda>name v s. None) () request) (\<lambda>_.
     case ParseID (hq_PathValue request ''sessionId'') of
       Inl e \<Rightarrow> reject 400 ''INVALID_REQUEST''
     | Inr sessionID \<Rightarrow>
         bindG (check_idempotency_key request) (\<lambda>key.
         bindG (callW H (\<lambda>D. GetSession D sessionID)) (\<lambda>session.
         if se_HCEndpointID session \<noteq> ep_ID endpoint \<or> se_OwnerUserID session \<noteq> ep_OwnerUserID endpoint \<or>
            se_TenantID session \<noteq> ep_TenantID endpoint then failG (writeDomainError (problem CodeNotFound))
         else (let now = he_clock H 1 in case he_session_json H (session_response session SessionStatusClosed) of
             Inl e \<Rightarrow> reject 500 ''GATEWAY_INTERNAL''
           | Inr responseJSON \<Rightarrow>
               bindG (serveW (\<lambda>e. random_unavailable) (newID_list 2)) (\<lambda>ids.
               bindG (callW H (\<lambda>D. CloseEndpointSession D (session\<lparr>se_UpdatedAt := now\<rparr>)
                   (session_reservation (ids ! 0) session endpoint endpointSessionCloseOperation key
                     (sha256 (bytes_of (endpointSessionCloseOperation @ [CHR 0x00] @ ID_String (ep_ID endpoint) @ [CHR 0x00] @
                        ID_String (se_ID session)))) now)
                   (session_audit (ids ! 1) session endpoint ''session.close'' ''CLOSED'' now) responseJSON)) (\<lambda>(closed, output, replayed).
               bindG (if replayed then setHeader ''Idempotency-Replayed'' ''true''
                  else bindG (deliverW (sendCloseTunnelRequest H closed now)) (\<lambda>delivered.
                    if delivered then returnG () else setHeader ''Harness-Close-Delivery'' ''pending'')) (\<lambda>_.
               returnG (200, RawJSON output)))))))))"

subsection \<open>Enrollment over HTTP\<close>

record enrollmentConsumeRequest =
  eq_DeviceCode :: string
  eq_ClientNonce :: string
  eq_Proof :: string

definition set_start_field :: "(string \<Rightarrow> byte list) \<Rightarrow> string \<Rightarrow> json \<Rightarrow> StartInput \<Rightarrow> StartInput option" where
  "set_start_field raw name =
     (if name = ''endpointName'' then set_string (\<lambda>v s. s\<lparr>si_EndpointName := v\<rparr>)
      else if name = ''softwareVersion'' then set_string (\<lambda>v s. s\<lparr>si_SoftwareVersion := v\<rparr>)
      else if name = ''signingPublicJwk'' then (\<lambda>v s. Some (s\<lparr>si_SigningPublicJWK := raw name\<rparr>))
      else if name = ''kemPublicJwk'' then (\<lambda>v s. Some (s\<lparr>si_KEMPublicJWK := raw name\<rparr>))
      else if name = ''clientNonce'' then set_string (\<lambda>v s. s\<lparr>si_ClientNonce := v\<rparr>)
      else set_string (\<lambda>v s. s\<lparr>si_Proof := v\<rparr>))"

definition set_consume_field :: "string \<Rightarrow> json \<Rightarrow> enrollmentConsumeRequest \<Rightarrow> enrollmentConsumeRequest option" where
  "set_consume_field name =
     (if name = ''deviceCode'' then set_string (\<lambda>v s. s\<lparr>eq_DeviceCode := v\<rparr>)
      else if name = ''clientNonce'' then set_string (\<lambda>v s. s\<lparr>eq_ClientNonce := v\<rparr>)
      else set_string (\<lambda>v s. s\<lparr>eq_Proof := v\<rparr>))"

definition startEnrollment :: "http_env \<Rightarrow> http_request \<Rightarrow> (nat \<times> reply) web" where
  "startEnrollment H request =
     bindG (decodeGatewayJSON H [''endpointName'', ''softwareVersion'', ''signingPublicJwk'', ''kemPublicJwk'', ''clientNonce'', ''proof'']
         (set_start_field (he_raw_member H (hq_Body request))) \<lparr>si_EndpointName = [], si_SoftwareVersion = [], si_SigningPublicJWK = [],
          si_KEMPublicJWK = [], si_ClientNonce = [], si_Proof = []\<rparr> request) (\<lambda>input.
     bindG (serveW writeDomainError (Start (he_env H) (cf_VerificationURI (he_config H)) (he_clock H 0) input)) (\<lambda>result.
     returnG (201, StartedReply result)))"

definition enrollmentCredential :: "http_request \<Rightarrow> (ID \<times> string) option" where
  "enrollmentCredential request = (case (ParseID (hq_PathValue request ''id''), hq_Header request ''Authorization'') of
       (Inr i, [v]) \<Rightarrow> if \<not> HasPrefix v ''Device '' then None
         else let device = TrimSpace (TrimPrefix v ''Device '') in if device = [] then None else Some (i, device)
     | _ \<Rightarrow> None)"

definition pollEnrollment :: "http_env \<Rightarrow> http_request \<Rightarrow> (nat \<times> reply) web" where
  "pollEnrollment H request = (case enrollmentCredential request of
       None \<Rightarrow> reject 401 ''DEVICE_CODE_INVALID''
     | Some (i, deviceCode) \<Rightarrow>
         bindG (serveW writeDomainError (Poll (he_env H) (he_clock H 0) i deviceCode)) (\<lambda>v.
         returnG (200, PollReply (en_ID v) (en_Status v) (en_ExpiresAt v))))"

definition consumeEnrollment :: "http_env \<Rightarrow> http_request \<Rightarrow> (nat \<times> reply) web" where
  "consumeEnrollment H request = (case ParseID (hq_PathValue request ''id'') of
       Inl e \<Rightarrow> reject 400 ''INVALID_REQUEST''
     | Inr i \<Rightarrow>
         bindG (decodeGatewayJSON H [''deviceCode'', ''clientNonce'', ''proof''] set_consume_field
             \<lparr>eq_DeviceCode = [], eq_ClientNonce = [], eq_Proof = []\<rparr> request) (\<lambda>input.
         bindG (serveW writeDomainError (Consume (he_env H) (he_clock H 0) i (eq_DeviceCode input) (eq_ClientNonce input) (eq_Proof input))) (\<lambda>result.
         returnG (201, ConsumedReply result))))"

subsection \<open>Origins of browsers\<close>

definition cors_headers :: "Config \<Rightarrow> (string \<times> string) list" where
  "cors_headers config = [(''Access-Control-Allow-Origin'', cf_AllowedOrigin config), (''Access-Control-Allow-Credentials'', ''true''),
     (''Access-Control-Allow-Headers'', ''Authorization, Content-Type, DPoP, Idempotency-Key''),
     (''Access-Control-Allow-Methods'', ''GET, POST, OPTIONS''), (''Access-Control-Expose-Headers'', ''DPoP-Nonce''), (''Vary'', ''Origin'')]"

definition cors :: "http_env \<Rightarrow> (http_env \<Rightarrow> http_request \<Rightarrow> (nat \<times> reply) web) \<Rightarrow> http_request \<Rightarrow> gateway \<Rightarrow> http_response \<times> gateway" where
  "cors H handler request = (let origin = TrimSpace (header_get request ''Origin'') in
     if origin = [] then respond (handler H request) []
     else if NormalizeOrigin (ge_library (he_env H)) origin \<noteq> Inr (cf_AllowedOrigin (he_config H))
       then respond (reject 403 ''GATEWAY_ORIGIN_FORBIDDEN'') []
     else respond (handler H request) (cors_headers (he_config H)))"

definition preflight :: "http_env \<Rightarrow> http_request \<Rightarrow> (nat \<times> reply) web" where
  "preflight H request = returnG (204, NoContent)"

definition health :: "http_env \<Rightarrow> http_request \<Rightarrow> (nat \<times> reply) web" where
  "health H request = returnG (200, StatusReply ''live'')"

end
