(* ===== verification/Gateway_Ready.thy ===== *)
theory Gateway_Ready
  imports Gateway_Packets
begin

section \<open>Control frames and the dispatcher (\<open>gateway/ready_packet.go\<close>, \<open>session_close.go\<close>)\<close>

text \<open>
  The results an endpoint reports about tunnels and key packages, and the handler that decides what
  a packet is.  \<open>handleReadyPacket\<close> runs for a connection that has passed the challenge, under the
  lock of its lane.
\<close>

subsection \<open>Opening and closing tunnels\<close>

text \<open>\<^verbatim>\<open>^[A-Z][A-Z0-9_]{0,63}$\<close>\<close>

definition stableControlErrorCode :: "string \<Rightarrow> bool" where
  "stableControlErrorCode s \<longleftrightarrow> s \<noteq> [] \<and> length s \<le> 64 \<and> is_upper (hd s) \<and>
     list_all (\<lambda>c. is_upper c \<or> is_digit c \<or> c = CHR ''_'') (tl s)"

definition capabilitySubset :: "string list \<Rightarrow> string list \<Rightarrow> bool" where
  "capabilitySubset values allowed \<longleftrightarrow> length values \<le> length allowed \<and> list_all (\<lambda>v. v \<in> set allowed) values \<and> distinct values"

text \<open>The statuses are 1 accepted, 2 rejected, 3 already open, 4 resource busy; of closing, 1 accepted and 2 already closed.\<close>

definition processOpenTunnelResult :: "gateway_env \<Rightarrow> Endpoint \<Rightarrow> ControlFrameMsg \<Rightarrow> time \<Rightarrow> ID gw" where
  "processOpenTunnelResult E endpoint control now =
     bindG (decodeG (wi_OpenTunnelResult (ge_codec E) (wc_Payload control))) (\<lambda>result.
     bindG (liftG (idFromWire (wo_SessionId result))) (\<lambda>sessionID.
     bindG (liftG (idFromWire (wc_ReceiverEndpointId control))) (\<lambda>receiverID.
     bindG (callG E (\<lambda>D. GetSession D sessionID)) (\<lambda>session.
     bindG (guardG (se_ABAEndpointID session \<noteq> ep_ID endpoint \<or> se_HCEndpointID session \<noteq> receiverID \<or>
         se_Status session \<noteq> SessionStatusCreating \<or> wo_ActiveKeyGeneration result \<noteq> 0 \<or>
         \<not> capabilitySubset (wo_NegotiatedCapabilityHints result) (se_RequestedCapabilities session))) (\<lambda>_.
     bindG (if wo_Status result = 1 \<or> wo_Status result = 3 then
              bindG (guardG (wo_StableErrorCode result \<noteq> [] \<or> wo_AcceptedAuthorizationRevision result \<noteq> 1)) (\<lambda>_.
              callG E (\<lambda>D. UpdateSession D (se_ID session) (Session_WaitForKey now)))
            else if wo_Status result = 2 \<or> wo_Status result = 4 then
              bindG (guardG (\<not> stableControlErrorCode (wo_StableErrorCode result) \<or> wo_AcceptedAuthorizationRevision result > 1)) (\<lambda>_.
              callG E (\<lambda>D. UpdateSession D (se_ID session) (Session_Fail now)))
            else failG (OtherError Plain)) (\<lambda>_.
     returnG receiverID))))))"

definition processCloseTunnelResult :: "gateway_env \<Rightarrow> Endpoint \<Rightarrow> ControlFrameMsg \<Rightarrow> ID gw" where
  "processCloseTunnelResult E endpoint control =
     bindG (decodeG (wi_CloseTunnelResult (ge_codec E) (wc_Payload control))) (\<lambda>result.
     bindG (liftG (idFromWire (wl_SessionId result))) (\<lambda>sessionID.
     bindG (liftG (idFromWire (wc_ReceiverEndpointId control))) (\<lambda>receiverID.
     bindG (callG E (\<lambda>D. GetSession D sessionID)) (\<lambda>session.
     bindG (guardG (se_ABAEndpointID session \<noteq> ep_ID endpoint \<or> se_HCEndpointID session \<noteq> receiverID \<or>
         se_Status session \<noteq> SessionStatusClosed \<or> (wl_Status result \<noteq> 1 \<and> wl_Status result \<noteq> 2) \<or>
         wl_StableErrorCode result \<noteq> [])) (\<lambda>_.
     returnG receiverID)))))"

subsection \<open>Key packages\<close>

definition package_record :: "SessionKeyPackageMsg \<Rightarrow> byte list \<Rightarrow> SessionKeyPackage" where
  "package_record message info = \<lparr>
     kp_ID = ws_KeyPackageId message, kp_SessionID = ws_SessionId message, kp_Generation = ws_KeyGeneration message,
     kp_IssuerABAEndpointID = ws_IssuerAbaEndpointId message, kp_RecipientHCEndpointID = ws_RecipientHcEndpointId message,
     kp_CryptoSuite = keyPackageSuiteID, kp_EncapsulatedKey = ws_HpkeEnc message, kp_Ciphertext = ws_HpkeCiphertext message,
     kp_ContextHash = sha256 info, kp_IssuerSignature = ws_IssuerSignature message,
     kp_IssuerCredentialID = ws_IssuerCredentialId message, kp_Status = KeyPackageStatusPending,
     kp_ExpiresAt = UnixMilli (ws_ExpiresAtMs message), kp_AcknowledgedAt = None, kp_CreatedAt = UnixMilli (ws_NotBeforeMs message)\<rparr>"

definition processSessionKeyPackage ::
    "gateway_env \<Rightarrow> Endpoint \<Rightarrow> EndpointCredential \<Rightarrow> ControlFrameMsg \<Rightarrow> time \<Rightarrow> ID gw" where
  "processSessionKeyPackage E endpoint credential control now =
     bindG (decodeG (wi_SessionKeyPackage (ge_codec E) (wc_Payload control))) (\<lambda>message.
     bindG (liftG (idFromWire (ws_KeyPackageId message))) (\<lambda>packageID.
     bindG (liftG (idFromWire (ws_SessionId message))) (\<lambda>sessionID.
     bindG (liftG (idFromWire (ws_IssuerAbaEndpointId message))) (\<lambda>issuerID.
     bindG (liftG (idFromWire (ws_RecipientHcEndpointId message))) (\<lambda>receiverID.
     bindG (liftG (idFromWire (ws_IssuerCredentialId message))) (\<lambda>credentialID.
     bindG (callG E (\<lambda>D. GetSession D sessionID)) (\<lambda>session.
     bindG (guardG (issuerID \<noteq> ep_ID endpoint \<or> credentialID \<noteq> cr_ID credential \<or> cr_EndpointID credential \<noteq> ep_ID endpoint \<or>
         receiverID \<noteq> se_HCEndpointID session \<or> wc_ReceiverEndpointId control \<noteq> receiverID \<or>
         se_ABAEndpointID session \<noteq> ep_ID endpoint \<or> se_Status session \<noteq> SessionStatusWaitingKey \<or>
         ws_KeyGeneration message \<noteq> 1 \<or> ws_CryptoSuite message \<noteq> keyPackageSuiteName \<or> ws_PolicyRevision message \<noteq> 1 \<or>
         length (ws_HpkeEnc message) \<noteq> 65 \<or> length (ws_HpkeCiphertext message) \<noteq> 173 \<or>
         length (ws_IssuerSignature message) \<noteq> 64)) (\<lambda>_.
     let notBefore = UnixMilli (ws_NotBeforeMs message); expiresAt = UnixMilli (ws_ExpiresAtMs message) in
     bindG (guardG (notBefore < now - Minute \<or> notBefore > now + Minute \<or> \<not> expiresAt > notBefore \<or> expiresAt > notBefore + 24 * Hour)) (\<lambda>_.
     bindG (liftG (keyPackageEnvelopeTranscript packageID sessionID (ws_KeyGeneration message) issuerID receiverID credentialID
         (ws_PolicyRevision message) (ws_NotBeforeMs message) (ws_ExpiresAtMs message) (ws_HpkeEnc message)
         (ws_HpkeCiphertext message))) (\<lambda>envelope.
     bindG (check_signature E endpoint envelope (ws_IssuerSignature message)) (\<lambda>_.
     bindG (liftG (keyPackageInfo sessionID (ws_KeyGeneration message) issuerID receiverID (ws_PolicyRevision message))) (\<lambda>info.
     bindG (persistG E (\<lambda>D wait. PutEndpointSessionKeyPackage D wait (se_OwnerUserID session) (se_TenantID session)
         (package_record message info))) (\<lambda>_.
     returnG receiverID)))))))))))))"

definition processSessionKeyPackageACK :: "gateway_env \<Rightarrow> Endpoint \<Rightarrow> ControlFrameMsg \<Rightarrow> time \<Rightarrow> ID gw" where
  "processSessionKeyPackageACK E endpoint control now =
     bindG (decodeG (wi_SessionKeyPackageAck (ge_codec E) (wc_Payload control))) (\<lambda>message.
     bindG (liftG (idFromWire (wq_SessionId message))) (\<lambda>sessionID.
     bindG (liftG (idFromWire (wq_KeyPackageId message))) (\<lambda>packageID.
     bindG (liftG (idFromWire (wq_RecipientHcEndpointId message))) (\<lambda>recipientID.
     bindG (liftG (idFromWire (wc_ReceiverEndpointId control))) (\<lambda>abaID.
     bindG (callG E (\<lambda>D. GetSession D sessionID)) (\<lambda>session.
     bindG (guardG (recipientID \<noteq> ep_ID endpoint \<or> se_HCEndpointID session \<noteq> ep_ID endpoint \<or> se_ABAEndpointID session \<noteq> abaID \<or>
         wq_KeyGeneration message \<noteq> 1 \<or> wq_AcknowledgedAtMs message \<noteq> wc_CreatedAtMs control)) (\<lambda>_.
     bindG (callG E (\<lambda>D. AcknowledgeAndActivateSessionKeyPackage D packageID (ep_ID endpoint) (se_OwnerUserID session)
         (se_TenantID session) now)) (\<lambda>_.
     returnG abaID))))))))"

subsection \<open>The dispatcher\<close>

definition CONTROL_TYPE_RESUME_STATE :: u32 where "CONTROL_TYPE_RESUME_STATE = 3"
definition CONTROL_TYPE_OPEN_TUNNEL_RESULT :: u32 where "CONTROL_TYPE_OPEN_TUNNEL_RESULT = 7"
definition CONTROL_TYPE_CLOSE_TUNNEL_RESULT :: u32 where "CONTROL_TYPE_CLOSE_TUNNEL_RESULT = 9"
definition CONTROL_TYPE_SESSION_KEY_PACKAGE :: u32 where "CONTROL_TYPE_SESSION_KEY_PACKAGE = 10"
definition CONTROL_TYPE_SESSION_KEY_PACKAGE_ACK :: u32 where "CONTROL_TYPE_SESSION_KEY_PACKAGE_ACK = 11"

lemmas control_types = CONTROL_TYPE_RESUME_STATE_def CONTROL_TYPE_OPEN_TUNNEL_RESULT_def CONTROL_TYPE_CLOSE_TUNNEL_RESULT_def
  CONTROL_TYPE_SESSION_KEY_PACKAGE_def CONTROL_TYPE_SESSION_KEY_PACKAGE_ACK_def

definition readyControlAllowed :: "EndpointType \<Rightarrow> u32 \<Rightarrow> bool" where
  "readyControlAllowed t controlType =
     (let hc = (controlType = CONTROL_TYPE_RESUME_STATE \<or> controlType = CONTROL_TYPE_SESSION_KEY_PACKAGE_ACK)
      in case t of
           EndpointTypeABA \<Rightarrow> controlType = CONTROL_TYPE_RESUME_STATE \<or> controlType = CONTROL_TYPE_OPEN_TUNNEL_RESULT \<or>
             controlType = CONTROL_TYPE_SESSION_KEY_PACKAGE \<or> controlType = CONTROL_TYPE_CLOSE_TUNNEL_RESULT
         | EndpointTypeHCWeb \<Rightarrow> hc
         | EndpointTypeHCReference \<Rightarrow> hc
         | _ \<Rightarrow> False)"

definition accept_sequence :: "address \<Rightarrow> u64 \<Rightarrow> unit gw" where
  "accept_sequence connection sequence s = (case cd_connections (gs_directory s) connection of
       None \<Rightarrow> (Inl (OtherError Plain), s)
     | Some c \<Rightarrow> (let (ok, c') = acceptInboundControlSequence sequence c
         in (if ok then Inr () else Inl (OtherError Plain), s\<lparr>gs_directory := update_connection connection c' (gs_directory s)\<rparr>)))"

definition process_control ::
    "gateway_env \<Rightarrow> Endpoint \<Rightarrow> EndpointCredential \<Rightarrow> ControlFrameMsg \<Rightarrow> time \<Rightarrow> ID gw" where
  "process_control E endpoint credential control now =
     (if wc_Type control = CONTROL_TYPE_OPEN_TUNNEL_RESULT then processOpenTunnelResult E endpoint control now
      else if wc_Type control = CONTROL_TYPE_SESSION_KEY_PACKAGE then processSessionKeyPackage E endpoint credential control now
      else if wc_Type control = CONTROL_TYPE_SESSION_KEY_PACKAGE_ACK then processSessionKeyPackageACK E endpoint control now
      else if wc_Type control = CONTROL_TYPE_CLOSE_TUNNEL_RESULT then processCloseTunnelResult E endpoint control
      else failG (OtherError Plain))"

definition handle_control ::
    "gateway_env \<Rightarrow> address \<Rightarrow> Endpoint \<Rightarrow> EndpointCredential \<Rightarrow> WirePacket \<Rightarrow> ControlFrameMsg \<Rightarrow> byte list \<Rightarrow> time \<Rightarrow> unit gw" where
  "handle_control E connection endpoint credential packet control encoded now =
     bindG (guardG (envelope_invalid packet \<or> \<not> readyControlAllowed (ep_Type endpoint) (wc_Type control))) (\<lambda>_.
     bindG (guardG (length (wc_MessageId control) \<noteq> 16 \<or> wc_SenderEndpointId control \<noteq> ep_ID endpoint \<or>
         length (wc_ReceiverEndpointId control) \<noteq> 16 \<or> wc_ControlSequence control = 0 \<or> length (wc_Payload control) = 0 \<or>
         length (wc_Signature control) \<noteq> 64)) (\<lambda>_.
     bindG (accept_sequence connection (wc_ControlSequence control)) (\<lambda>_.
     bindG (guardG (outside_window now (wc_CreatedAtMs control) Minute)) (\<lambda>_.
     bindG (liftG (controlTranscript (wc_MessageId control) (wc_SenderEndpointId control) (wc_ReceiverEndpointId control)
         (wc_ControlSequence control) (wc_CreatedAtMs control) (wc_Type control) (wc_Payload control))) (\<lambda>transcript.
     bindG (check_signature E endpoint transcript (wc_Signature control)) (\<lambda>_.
     if wc_Type control = CONTROL_TYPE_RESUME_STATE then processResumeState E endpoint control
     else bindG (process_control E endpoint credential control now) (\<lambda>receiverID. forward receiverID encoded)))))))"

definition handle_body ::
    "gateway_env \<Rightarrow> address \<Rightarrow> Endpoint \<Rightarrow> EndpointCredential \<Rightarrow> WirePacket \<Rightarrow> byte list \<Rightarrow> time \<Rightarrow> unit gw" where
  "handle_body E connection endpoint credential packet encoded now = (case wk_Body packet of
       EncryptedBody frame \<Rightarrow> processEncryptedFrame E endpoint credential packet frame encoded now
     | AckBody ack \<Rightarrow> bindG (processAckFrame E endpoint packet ack now) (\<lambda>receiverID. forward receiverID encoded)
     | ErrorBody frame \<Rightarrow> bindG (processEndpointError E endpoint packet frame now) (\<lambda>receiverID. forward receiverID encoded)
     | ControlBody control \<Rightarrow> handle_control E connection endpoint credential packet control encoded now
     | _ \<Rightarrow> failG (OtherError Plain))"

definition handleReadyPacket ::
    "gateway_env \<Rightarrow> address \<Rightarrow> Endpoint \<Rightarrow> EndpointCredential \<Rightarrow> byte list \<Rightarrow> time \<Rightarrow> unit gw" where
  "handleReadyPacket E connection endpoint credential encoded now =
     bindG (guardG (length encoded = 0 \<or> length encoded > maxWirePacketBytes)) (\<lambda>_.
     bindG (decodeG (wi_packet (ge_codec E) encoded)) (\<lambda>packet.
     handle_body E connection endpoint credential packet encoded now))"

text \<open>
  One packet read from the socket: it is handled only while the connection is current and its
  credential is valid.  The clock is read twice.
\<close>

definition plainG :: "'a gw \<Rightarrow> 'a gw" where
  "plainG m s = (case m s of (Inl e, s') \<Rightarrow> (Inl (OtherError Plain), s') | (Inr a, s') \<Rightarrow> (Inr a, s'))"

definition receive_packet ::
    "gateway_env \<Rightarrow> address \<Rightarrow> Endpoint \<Rightarrow> EndpointCredential \<Rightarrow> byte list \<Rightarrow> time \<Rightarrow> time \<Rightarrow> gateway \<Rightarrow> connection_error option \<times> gateway" where
  "receive_packet E connection endpoint credential message checked now =
     withCurrent connection gs_directory (\<lambda>s.
       case bindG (plainG (callG E (\<lambda>D. GetEndpointCredential D (ep_ID endpoint) (cr_ID credential) checked))) (\<lambda>_.
            handleReadyPacket E connection endpoint credential message now) s of
         (Inl e, s') \<Rightarrow> (Some e, s')
       | (Inr u, s') \<Rightarrow> (None, s'))"

end
