(* ===== verification/Gateway_Handshake.thy ===== *)
theory Gateway_Handshake
  imports Gateway_Handlers Gateway_Ready
begin

section \<open>Opening a connection (\<open>gateway/websocket.go\<close>)\<close>

text \<open>
  An endpoint that holds a ticket opens a WebSocket.  The request consumes the ticket; the gateway
  then sends a signed challenge with a new connection generation and a nonce, the endpoint answers
  with a signature over both, the gateway sends the signed parameters of the connection and enters
  it into the directory, where it replaces an older connection of the endpoint.  From then on packets go
  through \<^const>\<open>receive_packet\<close>.

  The steps between two points where the goroutine waits for its peer are separate actions, so
  that other requests may run between them.  Parameters: the upgrade of the HTTP connection
  (\<^verbatim>\<open>gorilla/websocket\<close>), which gives the negotiated subprotocol, and the bytes the socket delivers.
\<close>

definition heartbeatIntervalMS :: u32 where "heartbeatIntervalMS = 30000"

subsection \<open>The request\<close>

text \<open>Exactly two entries: the protocol and the ticket.\<close>

fun ticket_scan :: "bool \<Rightarrow> string \<Rightarrow> nat \<Rightarrow> string list \<Rightarrow> string option" where
  "ticket_scan foundProtocol ticket entries_seen [] = (if foundProtocol \<and> ticket \<noteq> [] \<and> entries_seen = 2 then Some ticket else None)"
| "ticket_scan foundProtocol ticket entries_seen (entry # entries) = (let candidate = TrimSpace entry in
     if candidate = [] then ticket_scan foundProtocol ticket entries_seen entries
     else if candidate = protocolName \<and> \<not> foundProtocol then ticket_scan True ticket (entries_seen + 1) entries
     else if HasPrefix candidate ''mss.ticket.'' \<and> ticket = []
       then ticket_scan foundProtocol (TrimPrefix candidate ''mss.ticket.'') (entries_seen + 1) entries
     else None)"

definition websocketTicketProtocol :: "string list \<Rightarrow> string option" where
  "websocketTicketProtocol headers = ticket_scan False [] 0 (concat (map (\<lambda>header. Split header CHR '','') headers))"

definition validTicketRequest :: "Config \<Rightarrow> WSTicket \<Rightarrow> http_request \<Rightarrow> bool" where
  "validTicketRequest config ticket request = (let origin = TrimSpace (header_get request ''Origin'') in
     if tk_Origin ticket = nativeABAOrigin then origin = []
     else if tk_Origin ticket = cf_AllowedOrigin config then origin = cf_AllowedOrigin config
     else False)"

definition redeem_ticket :: "http_env \<Rightarrow> http_request \<Rightarrow> (Endpoint \<times> EndpointCredential) web" where
  "redeem_ticket H request = (case websocketTicketProtocol (hq_Header request ''Sec-WebSocket-Protocol'') of
       None \<Rightarrow> reject 401 ''TICKET_INVALID''
     | Some ticketValue \<Rightarrow> (case opaque_token ticketValue of
           None \<Rightarrow> reject 401 ''TICKET_INVALID''
         | Some ticketRaw \<Rightarrow> (let ticketHash = sha256 ticketRaw; now = he_clock H 0 in
             bindG (tryW (callS (he_env H) (\<lambda>D. InspectTicket D ticketHash now))) (\<lambda>inspected. case inspected of
               Inl e \<Rightarrow> reject 401 ''TICKET_INVALID''
             | Inr ticket \<Rightarrow>
                 if \<not> validTicketRequest (he_config H) ticket request \<or> tk_Protocol ticket \<noteq> protocolName \<or> tk_Purpose ticket \<noteq> ticketPurpose
                 then reject 401 ''TICKET_INVALID''
                 else
                 bindG (callW H (\<lambda>D. GetEndpointCredential D (tk_EndpointID ticket) (tk_CredentialID ticket) now)) (\<lambda>(endpoint, credential).
                 bindG (callW H (\<lambda>D. ConsumeTicket D ticketHash (ep_ID endpoint) (cr_ID credential) ticketPurpose (tk_Origin ticket)
                     protocolName now)) (\<lambda>_.
                 returnG (endpoint, credential)))))))"

subsection \<open>The challenge\<close>

text \<open>What the goroutine remembers while it waits for the answer.\<close>

record handshake =
  hk_endpoint :: Endpoint
  hk_credential :: EndpointCredential
  hk_subprotocol :: string
  hk_connectionID :: "byte list"
  hk_generation :: u64
  hk_serverNonce :: "byte list"

record authenticatedConnection =
  ac_connectionID :: "byte list"
  ac_fencingToken :: "byte list"
  ac_generation :: u64

definition credentialRevision :: u64 where "credentialRevision = 1"

definition wire_packet :: "byte list \<Rightarrow> wire_body \<Rightarrow> WirePacket" where
  "wire_packet packetID body = \<lparr>wk_WireMajor = 1, wk_WireMinor = 0, wk_PacketId = packetID, wk_Body = body\<rparr>"

text \<open>The first half of \<open>performChallenge\<close>; the value is the packet to send and what is remembered.\<close>

definition begin_challenge :: "http_env \<Rightarrow> Endpoint \<Rightarrow> EndpointCredential \<Rightarrow> string \<Rightarrow> time \<Rightarrow> (byte list \<times> handshake) gw" where
  "begin_challenge H endpoint credential subprotocol now =
     bindG (randomBytes 16) (\<lambda>connectionID.
     bindG (randomBytes 16) (\<lambda>packetID.
     bindG (randomBytes 32) (\<lambda>serverNonce.
     bindG (callG (he_env H) (\<lambda>D. NextConnectionGeneration D (ep_ID endpoint) now)) (\<lambda>generation.
     bindG (liftG (serverChallengeTranscript connectionID generation serverNonce (time_UnixMilli now) (he_revision H) credentialRevision
         (ep_ID endpoint))) (\<lambda>transcript.
     bindG (liftG (SignP1363LowS (he_sign H) transcript)) (\<lambda>signature.
     bindG (liftG (wi_encode (ge_codec (he_env H)) (wire_packet packetID (ServerChallengeBody
         \<lparr>wh_ConnectionId = connectionID, wh_ConnectionGeneration = generation, wh_ServerNonce = serverNonce,
          wh_ServerTimeMs = time_UnixMilli now, wh_TrustManifestRevision = he_revision H,
          wh_CredentialStatusRevision = credentialRevision, wh_ServerSignature = signature\<rparr>)))) (\<lambda>encoded.
     returnG (encoded, \<lparr>hk_endpoint = endpoint, hk_credential = credential, hk_subprotocol = subprotocol,
       hk_connectionID = connectionID, hk_generation = generation, hk_serverNonce = serverNonce\<rparr>))))))))"

text \<open>The answer: bound to this connection, and signed with the key of the endpoint.\<close>

definition response_bound :: "http_env \<Rightarrow> handshake \<Rightarrow> WirePacket \<Rightarrow> ChallengeResponseMsg \<Rightarrow> bool" where
  "response_bound H h packet response \<longleftrightarrow>
     wk_WireMajor packet = 1 \<and> length (wk_PacketId packet) = 16 \<and>
     wp_ConnectionId response = hk_connectionID h \<and> wp_ConnectionGeneration response = hk_generation h \<and>
     wp_EndpointId response = ep_ID (hk_endpoint h) \<and> wp_CredentialSerial response = cr_ID (hk_credential h) \<and>
     length (wp_ClientNonce response) = 32 \<and> wp_LastManifestRevision response = he_revision H \<and>
     wp_LastCredentialStatusRevision response = credentialRevision \<and> length (wp_EndpointSignature response) = 64"

definition client_statement :: "handshake \<Rightarrow> ChallengeResponseMsg \<Rightarrow> byte list result" where
  "client_statement h response = clientChallengeTranscript (hk_connectionID h) (hk_generation h) (hk_serverNonce h) (wp_ClientNonce response)
     (ep_ID (hk_endpoint h)) (cr_ID (hk_credential h)) (hk_subprotocol h) (wp_LastManifestRevision response)
     (wp_LastCredentialStatusRevision response)"

definition check_response :: "http_env \<Rightarrow> handshake \<Rightarrow> bool \<Rightarrow> byte list \<Rightarrow> unit gw" where
  "check_response H h binary encoded =
     bindG (guardG (\<not> binary \<or> length encoded = 0 \<or> length encoded > maxWirePacketBytes)) (\<lambda>_.
     bindG (decodeG (wi_packet (ge_codec (he_env H)) encoded)) (\<lambda>packet. case wk_Body packet of
       ChallengeResponseBody response \<Rightarrow>
         bindG (guardG (\<not> response_bound H h packet response)) (\<lambda>_.
         bindG (liftG (client_statement h response)) (\<lambda>clientTranscript.
         bindG (liftG (ParseP256PublicJWK (lib_json (ge_library (he_env H))) (ep_SigningPublicJWK (hk_endpoint h)))) (\<lambda>signingJWK.
         guardG (\<not> signed_by (ge_library (he_env H)) signingJWK clientTranscript (wp_EndpointSignature response)))))
     | _ \<Rightarrow> failG (OtherError Plain)))"

text \<open>The second half of \<open>performChallenge\<close>.\<close>

definition finish_challenge ::
    "http_env \<Rightarrow> handshake \<Rightarrow> bool \<Rightarrow> byte list \<Rightarrow> time \<Rightarrow> (byte list \<times> authenticatedConnection) gw" where
  "finish_challenge H h binary message readyAt =
     bindG (check_response H h binary message) (\<lambda>_.
     bindG (randomBytes 32) (\<lambda>fencingToken.
     bindG (randomBytes 16) (\<lambda>readyPacketID.
     bindG (liftG (connectionReadyTranscript (hk_connectionID h) (hk_generation h) fencingToken (time_UnixMilli readyAt)
         (of_nat maxWirePacketBytes) (of_nat maxInflightFrames) heartbeatIntervalMS (ep_ID (hk_endpoint h)))) (\<lambda>readyTranscript.
     bindG (liftG (SignP1363LowS (he_sign H) readyTranscript)) (\<lambda>readySignature.
     bindG (liftG (wi_encode (ge_codec (he_env H)) (wire_packet readyPacketID (ConnectionReadyBody
         \<lparr>wy_ConnectionId = hk_connectionID h, wy_ConnectionGeneration = hk_generation h, wy_FencingToken = fencingToken,
          wy_ReadyAtMs = time_UnixMilli readyAt, wy_MaxPacketBytes = of_nat maxWirePacketBytes,
          wy_MaxInflightFrames = of_nat maxInflightFrames, wy_HeartbeatIntervalMs = heartbeatIntervalMS,
          wy_ServerSignature = readySignature\<rparr>)))) (\<lambda>encoded.
     returnG (encoded, \<lparr>ac_connectionID = hk_connectionID h, ac_fencingToken = fencingToken, ac_generation = hk_generation h\<rparr>)))))))"

subsection \<open>Entering and leaving the directory\<close>

definition close_at :: "address \<Rightarrow> directory \<Rightarrow> directory" where
  "close_at a d = (case cd_connections d a of None \<Rightarrow> d | Some c \<Rightarrow> update_connection a (close c) d)"

text \<open>
  \<open>a\<close> is the address of the new connection object.  A connection that is stale on arrival is
  closed; a connection that is replaced is closed.
\<close>

definition enter_connection :: "http_env \<Rightarrow> Endpoint \<Rightarrow> authenticatedConnection \<Rightarrow> address \<Rightarrow> time \<Rightarrow> unit gw" where
  "enter_connection H endpoint authenticated a seenAt =
     bindG (callG (he_env H) (\<lambda>D. MarkEndpointSeen D (ep_ID endpoint) seenAt)) (\<lambda>_ s.
     let d = update_connection a (newActiveConnection (ep_ID endpoint) (ac_generation authenticated) (ac_connectionID authenticated)
               (ac_fencingToken authenticated)) (gs_directory s);
         ((replaced, accepted), d1) = activate a d
     in if \<not> accepted then (Inl (OtherError Plain), s\<lparr>gs_directory := close_at a d1\<rparr>)
        else (Inr (), s\<lparr>gs_directory := (case replaced of None \<Rightarrow> d1 | Some r \<Rightarrow> close_at r d1)\<rparr>))"

text \<open>The deferred calls at the end of the handler.\<close>

definition leave_connection :: "address \<Rightarrow> gateway \<Rightarrow> gateway" where
  "leave_connection a s = s\<lparr>gs_directory := remove a (close_at a (gs_directory s))\<rparr>"

text \<open>A pong extends the deadline of the socket only while the connection is current and its credential valid.\<close>

definition receive_pong :: "http_env \<Rightarrow> address \<Rightarrow> Endpoint \<Rightarrow> EndpointCredential \<Rightarrow> time \<Rightarrow> gateway \<Rightarrow> connection_error option \<times> gateway" where
  "receive_pong H a endpoint credential now = withCurrent a gs_directory (\<lambda>s.
     case plainG (callG (he_env H) (\<lambda>D. GetEndpointCredential D (ep_ID endpoint) (cr_ID credential) now)) s of
       (Inl e, s') \<Rightarrow> (Some e, s')
     | (Inr _, s') \<Rightarrow> (None, s'))"

text \<open>One turn of the read loop: whether it goes on.\<close>

definition read_message ::
    "http_env \<Rightarrow> address \<Rightarrow> Endpoint \<Rightarrow> EndpointCredential \<Rightarrow> bool \<Rightarrow> byte list \<Rightarrow> time \<Rightarrow> time \<Rightarrow> gateway \<Rightarrow> bool \<times> gateway" where
  "read_message H a endpoint credential binary message checked now s =
     (if \<not> binary \<or> length message = 0 \<or> length message > maxWirePacketBytes then (False, leave_connection a s)
      else case receive_packet (he_env H) a endpoint credential message checked now s of
        (Some e, s') \<Rightarrow> (False, leave_connection a s')
      | (None, s') \<Rightarrow> (True, s'))"

end
