(* ===== verification/Packet_Routing.thy ===== *)
theory Packet_Routing
  imports Gateway_Ready
begin

section \<open>Where packets go\<close>

text \<open>
  A packet handler may queue packets for other endpoints.  This theory shows for which: only for the
  other endpoint of a session that the sender takes part in, and only the packet as it was received.
\<close>

subsection \<open>Handlers step by step\<close>

lemma bindG_Inr: "bindG m k s = (Inr b, s'') \<longleftrightarrow> (\<exists>a s'. m s = (Inr a, s') \<and> k a s' = (Inr b, s''))"
  by (auto simp: bindG_def split: prod.splits sum.splits)

lemma returnG_Inr: "returnG a s = (Inr b, s') \<longleftrightarrow> b = a \<and> s' = s"
  by (auto simp: returnG_def)

lemma failG_Inr: "failG e s = (Inr b, s') \<longleftrightarrow> False"
  by (simp add: failG_def)

lemma guardG_Inr: "guardG bad s = (Inr u, s') \<longleftrightarrow> \<not> bad \<and> s' = s"
  by (auto simp: guardG_def returnG_def failG_def)

lemma liftG_Inr: "liftG r s = (Inr a, s') \<longleftrightarrow> r = Inr a \<and> s' = s"
  by (auto simp: liftG_def returnG_def failG_def split: sum.splits)

lemma decodeG_Inr: "decodeG r s = (Inr a, s') \<longleftrightarrow> r = Some a \<and> s' = s"
  by (auto simp: decodeG_def returnG_def failG_def split: option.splits)

lemma persistG_Inr: "persistG E operation s = (Inr a, s') \<longleftrightarrow>
    (\<exists>db'. operation (ge_drivers E (gs_calls s)) (ge_wait E (gs_calls s)) (gs_db s) = (Inr a, db') \<and>
       s' = s\<lparr>gs_db := db', gs_calls := Suc (gs_calls s)\<rparr>)"
  by (auto simp: persistG_def Let_def map_sum_def split: prod.splits sum.splits)

lemma callG_Inr: "callG E operation s = (Inr a, s') \<longleftrightarrow>
    (\<exists>db'. operation (ge_drivers E (gs_calls s) 0) (gs_db s) = (Inr a, db') \<and>
       s' = s\<lparr>gs_db := db', gs_calls := Suc (gs_calls s)\<rparr>)"
  by (simp add: callG_def persistG_Inr)

lemmas gw_Inr = bindG_Inr returnG_Inr failG_Inr guardG_Inr liftG_Inr decodeG_Inr callG_Inr persistG_Inr

lemma idFromWire_Inr: "idFromWire v = Inr i \<longleftrightarrow> i = v \<and> length v = 16 \<and> \<not> IsZero v"
  by (auto simp: idFromWire_def)

text \<open>Handlers that leave the lanes and the queues alone.\<close>

definition queue :: "directory \<Rightarrow> address \<Rightarrow> byte list list option" where
  "queue d b = map_option cn_outbound (cd_connections d b)"

definition same_queues :: "directory \<Rightarrow> directory \<Rightarrow> bool" where
  "same_queues d d' \<longleftrightarrow> cd_byTarget d' = cd_byTarget d \<and> queue d' = queue d"

definition quietG :: "'a gw \<Rightarrow> bool" where
  "quietG m \<longleftrightarrow> (\<forall>s. same_queues (gs_directory s) (gs_directory (snd (m s))))"

lemma quietD: "quietG m \<Longrightarrow> m s = (r, s') \<Longrightarrow> same_queues (gs_directory s) (gs_directory s')"
  unfolding quietG_def by (metis snd_conv)

lemma same_queues_trans: "same_queues d d' \<Longrightarrow> same_queues d' d'' \<Longrightarrow> same_queues d d''"
  by (simp add: same_queues_def)

lemma quiet_bind [intro]:
  assumes "quietG m" "\<And>a. quietG (k a)"
  shows "quietG (bindG m k)"
  unfolding quietG_def
proof
  fix s
  obtain r s1 where m: "m s = (r, s1)" by fastforce
  show "same_queues (gs_directory s) (gs_directory (snd (bindG m k s)))"
  proof (cases r)
    case (Inr a)
    obtain r' s2 where "k a s1 = (r', s2)" by fastforce
    with m Inr quietD [OF assms(1) m] quietD [OF assms(2) this] show ?thesis
      by (auto simp: bindG_def intro: same_queues_trans)
  qed (use m quietD [OF assms(1) m] in \<open>simp add: bindG_def\<close>)
qed

lemma quiet_basic [simp]:
  "quietG (returnG a)" "quietG (failG e)" "quietG (guardG bad)" "quietG (liftG r)" "quietG (decodeG d)"
  "quietG (persistG E operation)" "quietG (callG E operation')" "quietG (randomBytes n)"
  by (auto simp: quietG_def same_queues_def returnG_def failG_def guardG_def liftG_def decodeG_def persistG_def callG_def
      randomBytes_def Let_def split: sum.splits option.splits prod.splits)

lemma quiet_accept_sequence [simp]: "quietG (accept_sequence connection sequence)"
  by (auto simp: quietG_def same_queues_def queue_def accept_sequence_def acceptInboundControlSequence_def update_connection_def
      Let_def split: option.splits)

lemma quiet_if [intro]: "quietG m \<Longrightarrow> quietG m' \<Longrightarrow> quietG (if b then m else m')"
  by simp

lemma quiet_check_signature [simp]: "quietG (check_signature E endpoint message signature)"
  unfolding check_signature_def by (auto intro!: quiet_bind split: sum.splits)

lemma quiet_replayPacket [simp]: "quietG (replayPacket E frame)"
  unfolding replayPacket_def by (intro quiet_bind quiet_basic)

lemma quiet_ack: "quietG (processAckFrame E endpoint packet ack now)"
  unfolding processAckFrame_def Let_def case_prod_unfold by (intro quiet_bind quiet_basic quiet_check_signature)

lemma quiet_error: "quietG (processEndpointError E endpoint packet frame now)"
  unfolding processEndpointError_def by (intro quiet_bind quiet_basic quiet_check_signature quiet_if)

lemma quiet_control: "quietG (process_control E endpoint credential control now)"
  unfolding process_control_def processOpenTunnelResult_def processSessionKeyPackage_def processSessionKeyPackageACK_def
    processCloseTunnelResult_def Let_def
  by (intro quiet_if quiet_bind quiet_basic quiet_check_signature)

subsection \<open>What is queued\<close>

text \<open>
  \<open>delivers P packet s (r, s')\<close>: from \<open>s\<close> to \<open>s'\<close> the lanes are unchanged, and a queue changes only
  if the outcome is a success, by this packet at its end, on the current connection of an endpoint in \<open>P\<close>.
\<close>

definition delivers :: "(ID \<Rightarrow> bool) \<Rightarrow> byte list \<Rightarrow> gateway \<Rightarrow> (connection_error + unit) \<times> gateway \<Rightarrow> bool" where
  "delivers P packet s out \<longleftrightarrow>
     (\<forall>b. queue (gs_directory (snd out)) b \<noteq> queue (gs_directory s) b \<longrightarrow>
        (\<exists>e. P e \<and> cd_byTarget (gs_directory s) e = Some (Some b) \<and> fst out = Inr () \<and>
           queue (gs_directory (snd out)) b = map_option (\<lambda>q. q @ [packet]) (queue (gs_directory s) b)))"

lemma delivers_bind:
  assumes "quietG m" "\<And>a s1. m s = (Inr a, s1) \<Longrightarrow> delivers P packet s1 (k a s1)"
  shows "delivers P packet s (bindG m k s)"
proof (cases "m s")
  case (Pair r s1)
  then have "same_queues (gs_directory s) (gs_directory s1)" using assms(1) by (auto dest: quietD)
  with Pair assms(2) show ?thesis by (cases r) (auto simp: bindG_def delivers_def same_queues_def)
qed

lemma delivers_fail: "delivers P packet s (failG e s)"
  by (simp add: delivers_def failG_def)

lemma enqueue_cases:
  "enqueue packet c = (err, c') \<Longrightarrow> c' = c \<and> (err = Some errConnectionOffline \<or> err = Some errConnectionBackpressure) \<or>
     err = None \<and> cn_outbound c' = cn_outbound c @ [packet]"
  by (auto simp: enqueue_def split: if_splits)

lemma send_cases:
  assumes "send e packet d = (err, d')"
  shows "(err = Some errConnectionOffline \<or> err = Some errConnectionBackpressure) \<and> (\<forall>b. queue d' b = queue d b) \<and> cd_byTarget d' = cd_byTarget d \<or>
     err = None \<and> cd_byTarget d' = cd_byTarget d \<and> (\<exists>b. cd_byTarget d e = Some (Some b) \<and>
       (\<forall>b'. queue d' b' = (if b' = b then map_option (\<lambda>q. q @ [packet]) (queue d b) else queue d b')))"
  using assms unfolding send_def
  by (auto simp: update_connection_def queue_def split: option.splits prod.splits if_splits dest!: enqueue_cases)

lemma delivers_forward: "P e \<Longrightarrow> delivers P packet s (forward e packet s)"
  using send_cases [of e packet "gs_directory s"]
  by (cases "send e packet (gs_directory s)") (auto simp: delivers_def forward_def sendG_def split: option.splits)

text \<open>Two endpoints are peers if a stored session joins them.\<close>

definition peers :: "gateway_env \<Rightarrow> db \<Rightarrow> ID \<Rightarrow> ID \<Rightarrow> bool" where
  "peers E db i j \<longleftrightarrow> (\<exists>n. \<exists>row \<in> set (t_sessions db). \<exists>v. sessionFromRow (dr_unmarshal (ge_drivers E n 0)) row = Inr v \<and>
     (se_ABAEndpointID v = i \<and> se_HCEndpointID v = j \<or> se_HCEndpointID v = i \<and> se_ABAEndpointID v = j))"

definition lawful :: "gateway_env \<Rightarrow> bool" where
  "lawful E \<longleftrightarrow> (\<forall>n k. database_laws (ge_drivers E n k))"

lemma run_read_Inr: "run_read body db = (Inr a, db') \<Longrightarrow> db' = db \<and> (\<exists>db''. body db = Inr (a, db''))"
  by (auto simp: run_read_def split: sum.splits)

lemma GetSession_read:
  assumes "database_laws D" "GetSession D i db = (Inr v, db')"
  shows "db' = db \<and> (\<exists>row \<in> set (t_sessions db). sessionFromRow (dr_unmarshal D) row = Inr v)"
  using run_read_Inr [OF assms(2) [unfolded GetSession_def]]
  by (auto simp: tx_Inr dest!: sql_table.tx_firstD [OF database_lawsD(4) [OF assms(1)]])

lemma GetFrame_read: "GetFrame D i db = (Inr v, db') \<Longrightarrow> db' = db"
  unfolding GetFrame_def by (drule run_read_Inr) simp

lemma call_frame: "callG E (\<lambda>D. GetFrame D i) s = (Inr v, s1) \<Longrightarrow> gs_db s1 = gs_db s"
  by (auto simp: callG_Inr dest: GetFrame_read)

lemma call_session:
  assumes "lawful E" "callG E (\<lambda>D. GetSession D i) s = (Inr v, s1)"
  shows "gs_db s1 = gs_db s \<and> (se_ABAEndpointID v = a \<and> se_HCEndpointID v = h \<longrightarrow> peers E (gs_db s) a h \<and> peers E (gs_db s) h a)"
proof -
  from assms(2) obtain db' where g: "GetSession (ge_drivers E (gs_calls s) 0) i (gs_db s) = (Inr v, db')" "gs_db s1 = db'"
    by (auto simp: callG_Inr)
  from GetSession_read [OF _ g(1)] assms(1) g(2) show ?thesis
    unfolding lawful_def peers_def by blast
qed

subsection \<open>The handlers\<close>

lemma deliver_encrypted:
  assumes "lawful E"
  shows "delivers (peers E (gs_db s) (ep_ID endpoint)) encoded s (processEncryptedFrame E endpoint credential packet frame encoded now s)"
  unfolding processEncryptedFrame_def
proof (intro delivers_bind quiet_basic quiet_check_signature delivers_forward, goal_cases)
  case (1 _ s1 _ s2 _ s3 _ s4 _ s5 receiver s6 _ s7 session s8 _ s9 _ s10 _ s11 _ s12 _ s13 _ s14 _ s15)
  then have "gs_db s7 = gs_db s" by (simp add: gw_Inr)
  moreover from 1 have "validFrameRoute endpoint session receiver (we_Direction frame)" by (simp add: gw_Inr)
  ultimately show ?case
    using call_session [OF assms 1(8), of "se_ABAEndpointID session" "se_HCEndpointID session"]
    by (auto simp: validFrameRoute_def split: EndpointType.splits)
qed

lemma deliver_reply:
  assumes "quietG m" "\<And>e s1. m s = (Inr e, s1) \<Longrightarrow> P e"
  shows "delivers P packet s (bindG m (\<lambda>e. forward e packet) s)"
  using assms by (intro delivers_bind delivers_forward)

lemma ack_sender:
  assumes "lawful E" "processAckFrame E endpoint packet ack now s = (Inr e, s1)"
  shows "peers E (gs_db s) (ep_ID endpoint) e"
proof -
  obtain i s0 session s2 where "gs_db s0 = gs_db s" and get: "callG E (\<lambda>D. GetSession D i) s0 = (Inr session, s2)"
    and "se_ABAEndpointID session = ep_ID endpoint \<and> se_HCEndpointID session = e \<or>
      se_HCEndpointID session = ep_ID endpoint \<and> se_ABAEndpointID session = e"
    using assms(2) unfolding processAckFrame_def bindG_Inr Let_def case_prod_unfold
    by (auto simp: returnG_Inr guardG_Inr liftG_Inr split: if_splits)
  then show ?thesis using call_session [OF assms(1) get] by metis
qed

lemma error_receiver:
  assumes "lawful E" "processEndpointError E endpoint packet frame now s = (Inr e, s1)"
  shows "peers E (gs_db s) (ep_ID endpoint) e"
proof -
  obtain i s0 session s2 where "gs_db s0 = gs_db s" and get: "callG E (\<lambda>D. GetSession D i) s0 = (Inr session, s2)"
    and "se_ABAEndpointID session = ep_ID endpoint \<and> se_HCEndpointID session = e"
    using assms(2) unfolding processEndpointError_def bindG_Inr
    by (auto simp: returnG_Inr guardG_Inr liftG_Inr dest: call_frame)
  then show ?thesis using call_session [OF assms(1) get] by metis
qed

lemma control_receiver:
  assumes "lawful E" "process_control E endpoint credential control now s = (Inr e, s1)"
  shows "peers E (gs_db s) (ep_ID endpoint) e"
proof -
  obtain i s0 session s2 where "gs_db s0 = gs_db s" and get: "callG E (\<lambda>D. GetSession D i) s0 = (Inr session, s2)"
    and "se_ABAEndpointID session = ep_ID endpoint \<and> se_HCEndpointID session = e \<or>
      se_HCEndpointID session = ep_ID endpoint \<and> se_ABAEndpointID session = e"
    using assms(2) unfolding process_control_def processOpenTunnelResult_def processSessionKeyPackage_def
      processSessionKeyPackageACK_def processCloseTunnelResult_def Let_def
    by (auto simp: bindG_Inr returnG_Inr failG_Inr guardG_Inr liftG_Inr decodeG_Inr idFromWire_Inr split: if_splits)
  then show ?thesis using call_session [OF assms(1) get] by metis
qed

subsection \<open>Resuming\<close>

text \<open>What a resumed connection is sent goes to its own endpoint.\<close>

definition only_to :: "ID \<Rightarrow> 'a gw \<Rightarrow> bool" where
  "only_to e m \<longleftrightarrow> (\<forall>s. cd_byTarget (gs_directory (snd (m s))) = cd_byTarget (gs_directory s) \<and>
     (\<forall>b. queue (gs_directory (snd (m s))) b \<noteq> queue (gs_directory s) b \<longrightarrow> cd_byTarget (gs_directory s) e = Some (Some b)))"

lemma only_to_quiet: "quietG m \<Longrightarrow> only_to e m"
  by (simp add: quietG_def same_queues_def only_to_def)

lemmas only_to_basic [simp] = quiet_basic [THEN only_to_quiet]

lemma only_to_bind:
  assumes "only_to e m" "\<And>a. only_to e (k a)"
  shows "only_to e (bindG m k)"
  unfolding only_to_def
proof
  fix s
  obtain r s1 where m: "m s = (r, s1)" by fastforce
  note first = assms(1) [unfolded only_to_def, rule_format, of s, unfolded m]
  show "cd_byTarget (gs_directory (snd (bindG m k s))) = cd_byTarget (gs_directory s) \<and>
     (\<forall>b. queue (gs_directory (snd (bindG m k s))) b \<noteq> queue (gs_directory s) b \<longrightarrow> cd_byTarget (gs_directory s) e = Some (Some b))"
  proof (cases r)
    case (Inr a)
    note second = assms(2) [unfolded only_to_def, rule_format, of a s1]
    have "bindG m k s = k a s1" using m Inr by (simp add: bindG_def)
    with first second show ?thesis by (metis snd_conv)
  qed (use m first in \<open>simp add: bindG_def\<close>)
qed

lemma only_to_send: "only_to e (sendG e packet)"
  unfolding only_to_def
proof
  fix s
  show "cd_byTarget (gs_directory (snd (sendG e packet s))) = cd_byTarget (gs_directory s) \<and>
     (\<forall>b. queue (gs_directory (snd (sendG e packet s))) b \<noteq> queue (gs_directory s) b \<longrightarrow> cd_byTarget (gs_directory s) e = Some (Some b))"
    using send_cases [of e packet "gs_directory s"]
    by (cases "send e packet (gs_directory s)") (auto simp: sendG_def split: option.splits if_splits)
qed

lemma only_to_frames: "only_to (ep_ID endpoint) (resume_frames E endpoint frames remaining)"
  by (induction frames arbitrary: remaining)
    (auto intro!: only_to_bind only_to_send intro: only_to_quiet)

lemma only_to_cursors: "only_to (ep_ID endpoint) (resume_cursors E endpoint seen cursors remaining)"
  by (induction cursors arbitrary: seen remaining)
    (auto simp: Let_def intro!: only_to_bind only_to_frames intro: only_to_quiet)

lemma only_to_resume: "only_to (ep_ID endpoint) (processResumeState E endpoint control)"
  unfolding processResumeState_def by (intro only_to_bind only_to_cursors only_to_quiet quiet_basic)

subsection \<open>The whole\<close>

text \<open>Who may be reached by a packet of an endpoint, and with what.\<close>

definition routed :: "gateway_env \<Rightarrow> Endpoint \<Rightarrow> byte list \<Rightarrow> gateway \<Rightarrow> (connection_error + unit) \<times> gateway \<Rightarrow> bool" where
  "routed E endpoint packet s out \<longleftrightarrow>
     (\<forall>b. queue (gs_directory (snd out)) b \<noteq> queue (gs_directory s) b \<longrightarrow>
        cd_byTarget (gs_directory s) (ep_ID endpoint) = Some (Some b) \<or>
        (\<exists>e. peers E (gs_db s) (ep_ID endpoint) e \<and> cd_byTarget (gs_directory s) e = Some (Some b) \<and> fst out = Inr () \<and>
           queue (gs_directory (snd out)) b = map_option (\<lambda>q. q @ [packet]) (queue (gs_directory s) b)))"

lemma delivers_routed: "delivers (peers E (gs_db s) (ep_ID endpoint)) packet s out \<Longrightarrow> routed E endpoint packet s out"
  unfolding delivers_def routed_def by blast

lemma only_to_routed: "only_to (ep_ID endpoint) m \<Longrightarrow> routed E endpoint packet s (m s)"
  unfolding only_to_def routed_def by blast

lemma routed_bind:
  assumes "quietG m" "\<And>a s1. m s = (Inr a, s1) \<Longrightarrow> gs_db s1 = gs_db s" "\<And>a s1. routed E endpoint packet s1 (k a s1)"
  shows "routed E endpoint packet s (bindG m k s)"
proof (cases "m s")
  case (Pair r s1)
  then have same: "same_queues (gs_directory s) (gs_directory s1)" using assms(1) by (auto dest: quietD)
  show ?thesis
  proof (cases r)
    case (Inr a)
    with Pair assms(2) assms(3) [of s1 a] same show ?thesis by (simp add: bindG_def routed_def same_queues_def)
  qed (use Pair same in \<open>simp add: bindG_def routed_def same_queues_def\<close>)
qed

lemma check_signature_Inr:
  assumes "check_signature E endpoint message signature s = (Inr u, s1)"
  shows "s1 = s \<and> (\<exists>jwk key. ParseP256PublicJWK (lib_json (ge_library E)) (ep_SigningPublicJWK endpoint) = Inr jwk \<and>
    PublicKey jwk = Inr key \<and> VerifyP1363LowS (lib_verify (ge_library E)) key message signature)"
proof -
  from assms obtain jwk where "ParseP256PublicJWK (lib_json (ge_library E)) (ep_SigningPublicJWK endpoint) = Inr jwk"
    "(case PublicKey jwk of Inl e \<Rightarrow> failG (OtherError Plain)
      | Inr key \<Rightarrow> guardG (\<not> VerifyP1363LowS (lib_verify (ge_library E)) key message signature)) s = (Inr u, s1)"
    by (auto simp: check_signature_def bindG_Inr liftG_Inr)
  then show ?thesis by (cases "PublicKey jwk") (auto simp: failG_Inr guardG_Inr)
qed

lemma accept_sequence_db: "accept_sequence connection sequence s = (r, s1) \<Longrightarrow> gs_db s1 = gs_db s"
  by (auto simp: accept_sequence_def Let_def split: option.splits prod.splits)

lemma routed_control:
  assumes "lawful E"
  shows "routed E endpoint encoded s (handle_control E connection endpoint credential packet control encoded now s)"
proof -
  have "routed E endpoint encoded s (bindG (process_control E endpoint credential control now) (\<lambda>receiverID. forward receiverID encoded) s)" for s
    by (intro delivers_routed deliver_reply quiet_control) (rule control_receiver [OF assms])
  moreover have "routed E endpoint encoded s (processResumeState E endpoint control s)" for s
    by (intro only_to_routed only_to_resume)
  ultimately show ?thesis
    unfolding handle_control_def
    by (intro routed_bind) (auto simp: guardG_Inr liftG_Inr dest: check_signature_Inr accept_sequence_db)
qed

text \<open>
  C3.  A packet reaches nobody but the sender's peers.  Whatever bytes a connected endpoint sends,
  and however the database behaves within its laws, handling them adds nothing to the queue of any
  connection except the current connection of the endpoint itself, which a resume fills, or the
  current connection of an endpoint with which a stored session joins it; and to the latter exactly
  the packet as it was received is added, and only when its handling has succeeded.
\<close>

theorem packets_reach_only_session_peers:
  assumes "lawful E" "handleReadyPacket E connection endpoint credential encoded now s = (r, s')"
    and "queue (gs_directory s') b \<noteq> queue (gs_directory s) b"
  shows "cd_byTarget (gs_directory s) (ep_ID endpoint) = Some (Some b) \<or>
     (\<exists>e. peers E (gs_db s) (ep_ID endpoint) e \<and> cd_byTarget (gs_directory s) e = Some (Some b) \<and> r = Inr () \<and>
        queue (gs_directory s') b = map_option (\<lambda>q. q @ [encoded]) (queue (gs_directory s) b))"
proof -
  have "routed E endpoint encoded s (handle_body E connection endpoint credential packet encoded now s)" for packet s
    using deliver_encrypted [OF assms(1)] routed_control [OF assms(1)]
      deliver_reply [OF quiet_ack ack_sender [OF assms(1)]] deliver_reply [OF quiet_error error_receiver [OF assms(1)]]
    unfolding handle_body_def by (auto intro!: delivers_routed delivers_fail split: wire_body.splits)
  then have "routed E endpoint encoded s (handleReadyPacket E connection endpoint credential encoded now s)"
    unfolding handleReadyPacket_def by (intro routed_bind) (auto simp: guardG_Inr decodeG_Inr)
  with assms(2,3) show ?thesis by (auto simp: routed_def)
qed

subsection \<open>A packet that is forwarded\<close>

definition wid :: "byte \<Rightarrow> ID" where "wid b = replicate 15 0 @ [b]"

definition close_packet :: WirePacket where
  "close_packet = \<lparr>wk_WireMajor = 1, wk_WireMinor = 0, wk_PacketId = replicate 16 0, wk_Body = ControlBody
     \<lparr>wc_MessageId = wid 7, wc_SenderEndpointId = wid 1, wc_ReceiverEndpointId = wid 2, wc_ControlSequence = 1, wc_CreatedAtMs = 0,
      wc_Type = CONTROL_TYPE_CLOSE_TUNNEL_RESULT, wc_Payload = [6], wc_Signature = replicate 31 0 @ [1] @ replicate 31 0 @ [1]\<rparr>\<rparr>"

definition tunnel_env :: gateway_env where
  "tunnel_env = \<lparr>
     ge_library = sample_library\<lparr>lib_json := \<lambda>bs. if bs = [9] then Some (JObject [(''crv'', JString ''P-256''), (''kty'', JString ''EC''),
       (''x'', JString (jw_X sample_key)), (''y'', JString (jw_Y sample_key))], True) else None\<rparr>,
     ge_codec = \<lparr>wi_packet = \<lambda>bs. if bs = [5] then Some close_packet else None, wi_encode = \<lambda>p. Inl Plain,
       wi_OpenTunnelResult = Map.empty, wi_SessionKeyPackage = Map.empty, wi_SessionKeyPackageAck = Map.empty,
       wi_CloseTunnelResult = [[6] \<mapsto> \<lparr>wl_SessionId = wid 3, wl_Status = 1, wl_StableErrorCode = []\<rparr>], wi_ResumeState = Map.empty\<rparr>,
     ge_drivers = \<lambda>n k. reference_drivers, ge_wait = \<lambda>n k. None\<rparr>"

definition tunnel_row :: sessionRow where
  "tunnel_row = \<lparr>sw_ID = ID_String (wid 3), sw_OwnerUserID = ''o'', sw_TenantID = [], sw_ABAEndpointID = ID_String (wid 1),
     sw_HCEndpointID = ID_String (wid 2), sw_RuntimeProfileID = ''r'', sw_WorkspaceID = ''w'', sw_CapabilitiesJSON = [],
     sw_Status = SessionStatusClosed, sw_CurrentKeyGeneration = 1, sw_CreatedAt = 1, sw_UpdatedAt = 1, sw_LastActivityAt = None,
     sw_ClosedAt = Some 1, sw_RowVersion = 1\<rparr>"

definition tunnel_state :: gateway where
  "tunnel_state = \<lparr>gs_db = empty_db\<lparr>t_sessions := [tunnel_row]\<rparr>,
     gs_directory = \<lparr>cd_byTarget = [wid 1 \<mapsto> Some 0, wid 2 \<mapsto> Some 1],
       cd_connections = [0 \<mapsto> newActiveConnection (wid 1) 1 [] [], 1 \<mapsto> newActiveConnection (wid 2) 1 [] []]\<rparr>,
     gs_random = [], gs_calls = 0\<rparr>"

definition tunnel_endpoint :: Endpoint where
  "tunnel_endpoint = \<lparr>ep_ID = wid 1, ep_OwnerUserID = ''o'', ep_TenantID = [], ep_Type = EndpointTypeABA, ep_Name = ''a'',
     ep_SigningPublicJWK = [9], ep_KEMPublicJWK = [], ep_SigningJKT = [], ep_KEMJKT = [], ep_Status = EndpointStatusActive,
     ep_CredentialFamilyID = wid 4, ep_SoftwareVersion = [], ep_PlatformName = [], ep_LastSeenAt = None, ep_RevokedAt = None,
     ep_RowVersion = 1, ep_CreatedAt = 1, ep_UpdatedAt = 1\<rparr>"

lemma wid_simps [simp]: "length (wid b) = 16" "wid b = wid c \<longleftrightarrow> b = c" "real_id (wid b) \<longleftrightarrow> b \<noteq> 0" "IsZero (wid b) \<longleftrightarrow> b = 0"
  by (auto simp: wid_def real_id_def wf_id_def IsZero_def IDSize_def allZero_set)

lemma tunnel_signature: "check_signature tunnel_env tunnel_endpoint message (replicate 31 0 @ [1] @ replicate 31 0 @ [1]) s = (Inr (), s)"
proof -
  obtain key where key: "PublicKey sample_key = Inr key" using sample_public_key ..
  have "no_jwk\<lparr>jw_Curve := ''P-256'', jw_KeyType := ''EC'', jw_X := jw_X sample_key, jw_Y := jw_Y sample_key\<rparr> = sample_key"
    by (simp add: sample_key_def no_jwk_def)
  then have "ParseP256PublicJWK (lib_json (ge_library tunnel_env)) [9] = Inr sample_key"
    using key by (simp add: tunnel_env_def ParseP256PublicJWK_def decode_struct_def jwk_names_def field_of_def set_jwk_field_def set_string_def)
  moreover have "VerifyP1363LowS (lib_verify (ge_library tunnel_env)) key message (replicate 31 0 @ [1] @ replicate 31 0 @ [1])"
    by (simp add: VerifyP1363LowS_def SetBytes_def tunnel_env_def sample_library_def p256_n_def numeral_eq_Suc)
  ultimately show ?thesis
    using key by (simp add: check_signature_def bindG_def liftG_def returnG_def guardG_def tunnel_endpoint_def)
qed

lemma tunnel_session:
  "\<exists>v. GetSession reference_drivers (wid 3) (gs_db tunnel_state) = (Inr v, gs_db tunnel_state) \<and>
     se_ABAEndpointID v = wid 1 \<and> se_HCEndpointID v = wid 2 \<and> se_Status v = SessionStatusClosed"
  by (simp add: GetSession_def run_read_def tx_eval stmt_defs tunnel_state_def tunnel_row_def sessionFromRow_def reference_drivers_def)

definition close_control :: ControlFrameMsg where
  "close_control = (case wk_Body close_packet of ControlBody c \<Rightarrow> c)"

lemmas gw_eval = bindG_def returnG_def failG_def guardG_def liftG_def decodeG_def callG_def persistG_def

lemma tunnel_close:
  assumes "gs_db s = gs_db tunnel_state"
  shows "\<exists>s'. processCloseTunnelResult tunnel_env tunnel_endpoint close_control s = (Inr (wid 2), s') \<and> gs_directory s' = gs_directory s"
proof -
  obtain v where "GetSession reference_drivers (wid 3) (gs_db tunnel_state) = (Inr v, gs_db tunnel_state)"
    "se_ABAEndpointID v = wid 1" "se_HCEndpointID v = wid 2" "se_Status v = SessionStatusClosed" using tunnel_session by blast
  then show ?thesis
    by (simp add: processCloseTunnelResult_def gw_eval assms idFromWire_def tunnel_endpoint_def tunnel_env_def close_control_def close_packet_def)
qed

lemma tunnel_run:
  "\<exists>s'. handleReadyPacket tunnel_env 0 tunnel_endpoint c [5] (UnixMilli 0) tunnel_state = (Inr (), s') \<and> queue (gs_directory s') 1 = Some [[5]]"
proof -
  let ?s = "tunnel_state\<lparr>gs_directory := update_connection 0
      ((newActiveConnection (wid 1) 1 [] [])\<lparr>cn_inboundControlSequence := 1\<rparr>) (gs_directory tunnel_state)\<rparr>"
  have seq: "accept_sequence 0 1 tunnel_state = (Inr (), ?s)"
    by (simp add: accept_sequence_def acceptInboundControlSequence_def tunnel_state_def newActiveConnection_def Let_def)
  obtain s' where close: "processCloseTunnelResult tunnel_env tunnel_endpoint close_control ?s = (Inr (wid 2), s')" "gs_directory s' = gs_directory ?s"
    using tunnel_close [of ?s] by auto
  have control: "wk_Body close_packet = ControlBody close_control" "\<not> envelope_invalid close_packet"
    "wc_Type close_control = CONTROL_TYPE_CLOSE_TUNNEL_RESULT" "wc_ControlSequence close_control = 1" "wc_CreatedAtMs close_control = 0"
    "wc_Signature close_control = replicate 31 0 @ [1] @ replicate 31 0 @ [1]" "length (wc_MessageId close_control) = 16"
    "wc_SenderEndpointId close_control = ep_ID tunnel_endpoint" "length (wc_ReceiverEndpointId close_control) = 16" "wc_Payload close_control = [6]"
    by (simp_all add: close_control_def close_packet_def envelope_invalid_def tunnel_endpoint_def)
  obtain t where t: "controlTranscript (wc_MessageId close_control) (ep_ID tunnel_endpoint) (wc_ReceiverEndpointId close_control) 1 0
      CONTROL_TYPE_CLOSE_TUNNEL_RESULT [6] = Inr t"
    by (simp add: controlTranscript_def control control_types tunnel_endpoint_def maxWirePacketBytes_def)
  have allowed: "readyControlAllowed (ep_Type tunnel_endpoint) CONTROL_TYPE_CLOSE_TUNNEL_RESULT" "CONTROL_TYPE_CLOSE_TUNNEL_RESULT \<noteq> CONTROL_TYPE_RESUME_STATE"
    by (simp_all add: readyControlAllowed_def tunnel_endpoint_def control_types)
  have process: "process_control tunnel_env tunnel_endpoint c close_control (UnixMilli 0) ?s = (Inr (wid 2), s')"
    using close(1) by (simp add: process_control_def control control_types)
  have time: "\<not> outside_window (UnixMilli 0) 0 Minute" by (simp add: outside_window_def Minute_def Second_def)
  have forward: "\<exists>s''. forward (wid 2) [5] s' = (Inr (), s'') \<and> queue (gs_directory s'') 1 = Some [[5]]"
    by (simp add: forward_def sendG_def send_def close(2) tunnel_state_def update_connection_def newActiveConnection_def enqueue_def
        maxWirePacketBytes_def maxConnectionQueueBytes_def maxInflightFrames_def queue_def)
  have packet: "wi_packet (ge_codec tunnel_env) [5] = Some close_packet" by (simp add: tunnel_env_def)
  show ?thesis
    using forward unfolding handleReadyPacket_def handle_body_def handle_control_def
    by (simp add: bindG_def guardG_def returnG_def decodeG_def liftG_def packet control(1) maxWirePacketBytes_def
        control allowed seq time t tunnel_signature [simplified] process)
qed

text \<open>The theorem applied to this run: the packet of the ABA endpoint is queued for its peer.\<close>

theorem packets_reach_only_session_peers_witness:
  "\<exists>s' c. handleReadyPacket tunnel_env 0 tunnel_endpoint c [5] (UnixMilli 0) tunnel_state = (Inr (), s') \<and>
     queue (gs_directory s') 1 = Some [[5]] \<and>
     (\<exists>e. peers tunnel_env (gs_db tunnel_state) (wid 1) e \<and> cd_byTarget (gs_directory tunnel_state) e = Some (Some 1))"
proof -
  obtain s' c where run: "handleReadyPacket tunnel_env 0 tunnel_endpoint c [5] (UnixMilli 0) tunnel_state = (Inr (), s')"
    and q: "queue (gs_directory s') 1 = Some [[5]]" using tunnel_run by blast
  have lawful: "lawful tunnel_env" by (simp add: lawful_def tunnel_env_def reference_laws)
  have "queue (gs_directory tunnel_state) 1 = Some []" by (simp add: queue_def tunnel_state_def newActiveConnection_def)
  then have "queue (gs_directory s') 1 \<noteq> queue (gs_directory tunnel_state) 1" using q by simp
  moreover have "ep_ID tunnel_endpoint = wid 1" "cd_byTarget (gs_directory tunnel_state) (wid 1) \<noteq> Some (Some 1)"
    by (simp_all add: tunnel_endpoint_def tunnel_state_def)
  ultimately show ?thesis using packets_reach_only_session_peers [OF lawful run] run q by metis
qed

end
