(* ===== verification/Store_Footprint.thy ===== *)
theory Store_Footprint
  imports Store_Keys Store_Refresh Store_Access
begin

section \<open>What an operation of the store leaves alone\<close>

text \<open>
  A property of one table is kept by every operation that does not write the table.  \<open>leaves g\<close>
  says that an operation does not change the part \<open>g\<close> of the database, whatever its statements
  return and whether it commits; \<open>untouched g\<close> says it of the body of a transaction.  The rules follow
  the composition of the bodies, so that the footprint of an operation is a list of the columns
  it updates.
\<close>

definition untouched :: "(db \<Rightarrow> 'p) \<Rightarrow> (db, 'a) tx \<Rightarrow> bool" where
  "untouched g m \<longleftrightarrow> (\<forall>db a db'. m db = Inr (a, db') \<longrightarrow> g db' = g db)"

definition leaves :: "(db \<Rightarrow> 'p) \<Rightarrow> (db \<Rightarrow> 'a \<times> db) \<Rightarrow> bool" where
  "leaves g operation \<longleftrightarrow> (\<forall>db. g (snd (operation db)) = g db)"

lemma leavesD: "leaves g operation \<Longrightarrow> operation db = (r, db') \<Longrightarrow> g db' = g db"
  unfolding leaves_def by (metis snd_conv)

lemma untouched_bind: "untouched g m \<Longrightarrow> (\<And>a. untouched g (k a)) \<Longrightarrow> untouched g (bindT m k)"
  unfolding untouched_def bindT_Inr by metis

lemma untouched_basic:
  "untouched g (returnT a)" "untouched g (failT e)" "untouched g (guardT b e)" "untouched g (liftT r)" "untouched g (checkT c)"
  "untouched g (mutateT u)"
  by (auto simp: untouched_def tx_Inr)

lemma untouched_try: "untouched g m \<Longrightarrow> untouched g (tryT m)"
  unfolding untouched_def tryT_Inr by metis

lemma untouched_call: "leaves g operation \<Longrightarrow> untouched g (callT operation)"
  unfolding untouched_def leaves_def callT_Inr by (metis snd_conv)

lemma untouched_query:
  "untouched g (tx_first drv get p err)" "untouched g (tx_count drv get p err)" "untouched g (tx_query drv get p key n err)"
  "untouched g (tx_find drv get p err)" "untouched g (tx_lookup drv get p err)"
  by (auto simp: untouched_def tx_first_Inr tx_count_Inr tx_query_Inr tx_find_Inr tx_lookup_Inr)

lemma untouched_update:
  assumes "\<And>f db. g (upd f db) = g db"
  shows "untouched g (tx_updates drv get upd p f err)" "untouched g (tx_create_ignore drv get upd r err)"
    "untouched g (tx_create drv get upd r err)" "untouched g (tx_delete drv get upd p err)" "untouched g (tx_upsert drv get upd r f' err)"
  using assms by (auto simp: untouched_def tx_updates_Inr tx_create_ignore_def tx_create_Inr tx_delete_Inr tx_upsert_Inr split: sum.splits)

lemma untouched_if: "untouched g m \<Longrightarrow> untouched g m' \<Longrightarrow> untouched g (if b then m else m')"
  by simp

lemma untouched_option: "untouched g m \<Longrightarrow> (\<And>a. untouched g (k a)) \<Longrightarrow> untouched g (case x of None \<Rightarrow> m | Some a \<Rightarrow> k a)"
  by (simp split: option.splits)

lemma untouched_prod: "(\<And>a b. untouched g (k a b)) \<Longrightarrow> untouched g (case x of (a, b) \<Rightarrow> k a b)"
  by (simp split: prod.splits)

lemma untouched_list: "untouched g m \<Longrightarrow> (\<And>a as. untouched g (k a as)) \<Longrightarrow> untouched g (case x of [] \<Rightarrow> m | a # as \<Rightarrow> k a as)"
  by (simp split: list.splits)

lemma untouched_outcome: "untouched g m1 \<Longrightarrow> untouched g m2 \<Longrightarrow> untouched g m3 \<Longrightarrow>
    untouched g (case r of IdempotencyAcquired \<Rightarrow> m1 | IdempotencyInProgress \<Rightarrow> m2 | IdempotencyReplay \<Rightarrow> m3)"
  by (simp split: IdempotencyReserveOutcome.splits)

lemmas untouched_intros = untouched_bind untouched_basic untouched_try untouched_call untouched_query untouched_update untouched_if
  untouched_option untouched_prod untouched_list untouched_outcome

lemma leaves_run: "untouched g body \<Longrightarrow> leaves g (run_tx D body)"
  unfolding untouched_def leaves_def run_tx_def by (auto split: sum.splits option.splits prod.splits)

lemma leaves_run_normalized: "untouched g body \<Longrightarrow> leaves g (run_tx_normalized D body)"
  using leaves_run [of g body D] unfolding leaves_def run_tx_normalized_def by (simp add: case_prod_unfold)

lemma leaves_check_after: "leaves g operation \<Longrightarrow> leaves g (\<lambda>db. check_after (operation db) f)"
  by (simp add: leaves_def check_after_def)

lemma leaves_read: "leaves g (run_read body)"
  by (simp add: leaves_def)

lemma leaves_const: "leaves g (\<lambda>db. (r, db))"
  by (simp add: leaves_def)

lemma leaves_if: "leaves g m \<Longrightarrow> leaves g m' \<Longrightarrow> leaves g (\<lambda>db. if b then m db else m' db)"
  by (simp add: leaves_def)

lemma leaves_retry:
  assumes "\<And>n. leaves g (once n)"
  shows "leaves g (sqlite_retry sqlite once wait attempt remaining)"
proof -
  have "g (snd (sqlite_retry sqlite once wait attempt remaining db)) = g db" for db
    by (induction remaining arbitrary: attempt db) (auto split: prod.splits sum.splits option.splits dest!: leavesD [OF assms])
  then show ?thesis by (simp add: leaves_def)
qed

subsection \<open>The operations\<close>

text \<open>Each premise names a table the operation may write.\<close>

lemma leaves_UpdateSession:
  assumes [simp]: "\<And>f db. g (t_sessions_update f db) = g db"
  shows "leaves g (UpdateSession D i mutate)"
  unfolding UpdateSession_def by (intro leaves_run untouched_intros) simp

lemma leaves_Acknowledge:
  assumes [simp]: "\<And>f db. g (t_packages_update f db) = g db"
  shows "leaves g (AcknowledgeSessionKeyPackage D i recipient owner tenant now)"
  unfolding AcknowledgeSessionKeyPackage_def lock_acknowledged_def lockKeyPackageSession_def lockKeyPackageEndpoint_def
  by (intro leaves_run_normalized untouched_intros) simp

lemma leaves_Activate:
  assumes "\<And>f db. g (t_packages_update f db) = g db" "\<And>f db. g (t_sessions_update f db) = g db"
  shows "leaves g (AcknowledgeAndActivateSessionKeyPackage D i recipient owner tenant now)"
  unfolding AcknowledgeAndActivateSessionKeyPackage_def
  by (intro leaves_run untouched_intros leaves_Acknowledge leaves_UpdateSession assms)

lemma leaves_PutKeyPackage:
  assumes [simp]: "\<And>f db. g (t_packages_update f db) = g db" "\<And>f db. g (t_sessions_update f db) = g db"
  shows "leaves g (PutEndpointSessionKeyPackage D wait owner tenant v)"
proof -
  have "leaves g (putSessionKeyPackageOnce D owner tenant v)" for D owner tenant
    unfolding putSessionKeyPackageOnce_def authorize_key_package_def put_key_package_row_def lockKeyPackageSession_def
      lockKeyPackageEndpoint_def lockKeyPackageIssuerCredential_def fenceKeyPackageSession_def Let_def
    by (intro leaves_check_after leaves_run untouched_intros) simp_all
  then have "leaves g (sqlite_retry b (\<lambda>n. putSessionKeyPackageOnce (D n) owner tenant v) wait k m)" for b owner tenant k m
    by (intro leaves_retry)
  then show ?thesis
    by (simp add: leaves_def PutEndpointSessionKeyPackage_def PutSessionKeyPackage_def case_prod_unfold split: option.splits)
qed

lemma leaves_nonces:
  assumes [simp]: "\<And>f db. g (t_nonces_update f db) = g db"
  shows "leaves g (PutEndpointNonce D i h now t)" "leaves g (RotateEndpointNonce D i h h' now t)"
  unfolding PutEndpointNonce_def RotateEndpointNonce_def
  by (intro leaves_if leaves_const leaves_check_after leaves_run untouched_intros; simp)+

lemma leaves_CreateTicket:
  assumes [simp]: "\<And>f db. g (t_tickets_update f db) = g db"
  shows "leaves g (CreateTicket D ticket ttl)"
  unfolding CreateTicket_def by (intro leaves_if leaves_const leaves_run untouched_intros) simp

lemma leaves_RotateRefresh:
  assumes [simp]: "\<And>f db. g (t_refresh_update f db) = g db" "\<And>f db. g (t_credentials_update f db) = g db"
    "\<And>f db. g (t_audit_update f db) = g db" "\<And>f db. g (t_tickets_update f db) = g db" "\<And>f db. g (t_endpoints_update f db) = g db"
  shows "leaves g (RotateRefreshCredential D h jkt access refresh audit now)"
  unfolding RotateRefreshCredential_def lock_presented_def rotate_family_def revokeCredentialFamily_def Let_def
  by (intro leaves_if leaves_const leaves_check_after leaves_run untouched_intros) simp_all

lemma leaves_idempotency:
  assumes [simp]: "\<And>f db. g (t_idempotency_update f db) = g db"
  shows "leaves g (ReserveIdempotency D r)" "leaves g (CompleteIdempotency D r)"
  unfolding ReserveIdempotency_def CompleteIdempotency_def Let_def
  by (intro leaves_if leaves_const leaves_check_after leaves_run untouched_intros; simp)+

lemma leaves_AppendAudit:
  assumes [simp]: "\<And>f db. g (t_audit_update f db) = g db"
  shows "leaves g (AppendAudit D audit)"
  unfolding AppendAudit_def by (intro leaves_run untouched_intros) simp

lemma leaves_CreateEndpointSession:
  assumes [simp]: "\<And>f db. g (t_idempotency_update f db) = g db" "\<And>f db. g (t_audit_update f db) = g db"
    "\<And>f db. g (t_sessions_update f db) = g db"
  shows "leaves g (CreateEndpointSession D session reservation audit status response)"
  unfolding CreateEndpointSession_def authorizeAndCreateEndpointSession_def lockSessionCreationEndpoint_def Let_def
  by (intro leaves_run untouched_intros leaves_idempotency leaves_AppendAudit) simp_all

lemma leaves_CloseEndpointSession:
  assumes [simp]: "\<And>f db. g (t_idempotency_update f db) = g db" "\<And>f db. g (t_audit_update f db) = g db"
    "\<And>f db. g (t_sessions_update f db) = g db"
  shows "leaves g (CloseEndpointSession D session reservation audit response)"
  unfolding CloseEndpointSession_def close_locked_session_def Let_def
  by (intro leaves_run untouched_intros leaves_idempotency leaves_AppendAudit) simp_all

lemma leaves_AdvanceAck:
  assumes [simp]: "\<And>f db. g (t_frames_update f db) = g db" "\<And>f db. g (t_acks_update f db) = g db"
  shows "leaves g (AdvanceAck D wait cursor)"
proof -
  have ranges: "untouched g (mark_ranges D cursor ranges)" for D cursor ranges
    by (induction ranges) (auto intro!: untouched_intros)
  have mark: "untouched g (markAcknowledgedFrames D cursor)" for D cursor
    unfolding markAcknowledgedFrames_def by (intro untouched_intros ranges) simp
  have existing: "untouched g (advance_existing D cursor row)" for D cursor row
    unfolding advance_existing_def by (intro untouched_intros mark) simp
  have "leaves g (advanceAckOnce D cursor)" for D
    unfolding advanceAckOnce_def by (intro leaves_run untouched_intros mark existing) simp
  then show ?thesis
    unfolding AdvanceAck_def by (intro leaves_if leaves_const leaves_retry)
qed

lemma leaves_PutAuthorized:
  assumes [simp]: "\<And>f db. g (t_frames_update f db) = g db" "\<And>f db. g (t_sessions_update f db) = g db"
  shows "leaves g (PutAuthorizedEndpointFrame D wait owner tenant i frame now)"
proof -
  have "leaves g (putAuthorizedEndpointFrameOnce D owner tenant i frame now)" for D owner tenant
    unfolding putAuthorizedEndpointFrameOnce_def authorize_frame_def putAuthorizedFrameRow_def fenceAuthorizedFrameSession_def
      lockAuthorizedFrameRouteEndpoints_def lockAuthorizedFrameEndpoint_def Let_def
    by (intro leaves_check_after leaves_run untouched_intros) simp_all
  then have "leaves g (sqlite_retry b (\<lambda>n. putAuthorizedEndpointFrameOnce (D n) owner tenant i frame now) wait k m)" for b owner tenant k m
    by (intro leaves_retry)
  then show ?thesis
    by (simp add: leaves_def PutAuthorizedEndpointFrame_def case_prod_unfold split: option.splits)
qed

lemma leaves_enrollments:
  assumes [simp]: "\<And>f db. g (t_enrollments_update f db) = g db" "\<And>f db. g (t_endpoints_update f db) = g db"
    "\<And>f db. g (t_credentials_update f db) = g db" "\<And>f db. g (t_refresh_update f db) = g db" "\<And>f db. g (t_audit_update f db) = g db"
  shows "leaves g (CreateEnrollment D enrollment)" "leaves g (ConsumeABAEnrollment D i h endpoint access refresh audit now)"
  unfolding CreateEnrollment_def ConsumeABAEnrollment_def consume_enrollment_row_def Let_def
  by (intro leaves_run leaves_run_normalized untouched_intros; simp)+

lemma leaves_ConsumeTicket:
  assumes [simp]: "\<And>f db. g (t_tickets_update f db) = g db"
  shows "leaves g (ConsumeTicket D h i c purpose origin protocol now)"
  unfolding ConsumeTicket_def ConsumeTicket_tx_def Let_def
  by (intro leaves_if leaves_const leaves_run leaves_run_normalized untouched_intros) simp_all

lemma leaves_MarkEndpointSeen:
  assumes [simp]: "\<And>f db. g (t_endpoints_update f db) = g db"
  shows "leaves g (MarkEndpointSeen D i now)"
  unfolding MarkEndpointSeen_def by (intro leaves_if leaves_const leaves_check_after leaves_run untouched_intros) simp

lemma leaves_UseDPoPReplay:
  assumes [simp]: "\<And>f db. g (t_replays_update f db) = g db"
  shows "leaves g (UseDPoPReplay D jkt jti now expiresAt m)"
  unfolding UseDPoPReplay_def by (intro leaves_run untouched_intros) simp_all

lemma leaves_NextConnectionGeneration:
  assumes [simp]: "\<And>f db. g (t_generations_update f db) = g db"
  shows "leaves g (NextConnectionGeneration D i now)"
  unfolding NextConnectionGeneration_def by (intro leaves_if leaves_const leaves_check_after leaves_run_normalized untouched_intros) simp

end
