(* ===== verification/Frame_Relay.thy ===== *)
theory Frame_Relay
  imports Packet_Routing Store_Delivery Store_Footprint
begin

section \<open>From the sender's signature to the replay\<close>

text \<open>
  An encrypted frame is accepted, stored, possibly sent again after a reconnect.  This theory joins
  the packet handler with the store: what is sent again is what the sender signed.
\<close>

lemma forward_db: "forward e packet s = (r, s') \<Longrightarrow> gs_db s' = gs_db s"
  by (auto simp: forward_def sendG_def split: prod.splits option.splits sum.splits if_splits)

lemma forward_snd_db [simp]: "gs_db (snd (forward e packet s)) = gs_db s"
  by (metis forward_db prod.collapse)

text \<open>What has been checked and done when a frame is accepted.\<close>

lemma processEncryptedFrame_Inr:
  assumes "processEncryptedFrame E endpoint credential packet frame encoded now s = (Inr u, s')"
  shows "\<exists>aad n wait dup db jwk key. frameAAD frame = Inr aad \<and>
    list_all (\<lambda>i. length i = 16 \<and> \<not> IsZero i) [we_MessageId frame, we_ChannelId frame, we_SessionId frame,
       we_SenderEndpointId frame, we_ReceiverEndpointId frame, we_KeyId frame] \<and>
    we_CryptoSuiteId frame = 1 \<and> we_FrameType frame = FRAME_TYPE_ACP_TRANSPORT_FRAME \<and> we_Flags frame = 0 \<and>
    (we_Direction frame = 1 \<or> we_Direction frame = 2) \<and> we_SenderEndpointId frame = ep_ID endpoint \<and>
    ParseP256PublicJWK (lib_json (ge_library E)) (ep_SigningPublicJWK endpoint) = Inr jwk \<and> PublicKey jwk = Inr key \<and>
    VerifyP1363LowS (lib_verify (ge_library E)) key (frameSignatureInput aad (we_Ciphertext frame)) (we_Signature frame) \<and>
    PutAuthorizedEndpointFrame (ge_drivers E n) wait (ep_OwnerUserID endpoint) (ep_TenantID endpoint) (cr_ID credential)
      (frame_record frame aad now) now db = (Inr dup, gs_db s')"
proof -
  from assms obtain s1 s2 s3 s4 session aad dup where
    ids: "list_all (\<lambda>i. length i = 16 \<and> \<not> IsZero i) [we_MessageId frame, we_ChannelId frame, we_SessionId frame,
       we_SenderEndpointId frame, we_ReceiverEndpointId frame, we_KeyId frame]"
    and fields: "we_CryptoSuiteId frame = 1" "we_FrameType frame = FRAME_TYPE_ACP_TRANSPORT_FRAME" "we_Flags frame = 0"
      "we_SenderEndpointId frame = ep_ID endpoint" "validFrameRoute endpoint session (we_ReceiverEndpointId frame) (we_Direction frame)"
      "frameAAD frame = Inr aad"
    and sig: "check_signature E endpoint (frameSignatureInput aad (we_Ciphertext frame)) (we_Signature frame) s1 = (Inr (), s2)"
    and put: "persistG E (\<lambda>D wait. PutAuthorizedEndpointFrame D wait (ep_OwnerUserID endpoint) (ep_TenantID endpoint)
         (cr_ID credential) (frame_record frame aad now) now) s3 = (Inr dup, s4)"
    and fwd: "forward (we_ReceiverEndpointId frame) encoded s4 = (Inr u, s')"
    unfolding processEncryptedFrame_def bindG_Inr by (auto simp: guardG_Inr liftG_Inr idFromWire_Inr)
  have "we_Direction frame = 1 \<or> we_Direction frame = 2"
    using fields(5) by (auto simp: validFrameRoute_def wire_DIRECTION_ABA_TO_HC_def wire_DIRECTION_HC_TO_ABA_def split: EndpointType.splits)
  with ids fields check_signature_Inr [OF sig] put [unfolded persistG_Inr] forward_db [OF fwd] show ?thesis
    by (fastforce simp: list_all_iff)
qed

lemma wire_frame_record:
  assumes "we_CryptoSuiteId frame = 1" "we_FrameType frame = FRAME_TYPE_ACP_TRANSPORT_FRAME" "we_Flags frame = 0"
    "we_Direction frame = 1 \<or> we_Direction frame = 2"
  shows "wire_frame (frame_record frame aad now) = frame"
  using assms by (cases frame) (auto simp: wire_frame_def frame_record_def)

text \<open>The message, read back from a row that the store takes for the same frame.\<close>

lemma same_read_back:
  assumes "sameFrame row (frameToRow v)"
    and "list_all real_id [fr_MessageID v, fr_ChannelID v, fr_SessionID v, fr_SenderEndpointID v, fr_ReceiverEndpointID v, fr_KeyID v]"
    and "length (fr_ContentHash v) = 32"
  shows "\<exists>w. frameFromRow row = Inr w \<and> wire_frame w = wire_frame v \<and> fr_AAD w = fr_AAD v"
  using assms by (cases row) (auto simp: sameFrame_def frameToRow_def frameFromRow_def wire_frame_def)

lemma sameFrame_congruent: "frame_content x = frame_content y \<Longrightarrow> sameFrame y z \<Longrightarrow> sameFrame x z"
  by (cases x; cases y) (simp add: sameFrame_def frame_content_def)

lemma put_same:
  assumes laws: "\<And>n. database_laws (D n)" and put: "PutAuthorizedEndpointFrame D wait owner tenant cid v now db = (Inr dup, db')"
  shows "\<exists>row \<in> set (t_frames db'). sameFrame row (frameToRow v)"
proof -
  from PutAuthorized_cases [OF laws put] obtain n res where row: "putAuthorizedFrameRow (D n) (frameToRow v) db = Inr (res, db')"
    and "Inr dup = map_sum id (\<lambda>outcome. outcome = PutFrameDuplicate) res" by auto
  then have "\<not> isl res" by (cases res) simp_all
  with row show ?thesis by (auto elim!: putAuthorizedFrameRow_cases [OF laws] simp: sameFrame_def)
qed

lemma content_kept:
  assumes "delivery\<^sup>*\<^sup>* db db'" "frame_keys (t_frames db)" "row \<in> set (t_frames db)"
  shows "\<exists>row' \<in> set (t_frames db'). frame_content row' = frame_content row"
proof -
  from delivery_content [OF assms(1,2)] have "set (map frame_content (t_frames db)) \<subseteq> set (map frame_content (t_frames db'))"
    using set_mono_prefix by blast
  with assms(3) show ?thesis by fastforce
qed

text \<open>
  An accepted frame is replayed as it was signed.  When the packet handler has accepted an
  encrypted frame, then at every later time, after any further frames and acknowledgements, the
  store holds a frame whose wire form, which a replay sends, equals the message that was received in
  every field, whose stored associated data is that of the message, so that the consistency check of
  a replay passes, and under which the sender's signature verifies.
\<close>

lemma accepted_frame_replayed_as_signed:
  assumes E: "lawful E" and packet: "wi_packet (ge_codec E) encoded = Some packet" "wk_Body packet = EncryptedBody frame"
    and run: "handleReadyPacket E connection endpoint credential encoded now s = (Inr (), s')"
    and later: "delivery\<^sup>*\<^sup>* (gs_db s') db" "frame_keys (t_frames (gs_db s'))"
  shows "\<exists>row \<in> set (t_frames db). \<exists>v jwk key. frameFromRow row = Inr v \<and> wire_frame v = frame \<and> frameAAD frame = Inr (fr_AAD v) \<and>
     ParseP256PublicJWK (lib_json (ge_library E)) (ep_SigningPublicJWK endpoint) = Inr jwk \<and> PublicKey jwk = Inr key \<and>
     VerifyP1363LowS (lib_verify (ge_library E)) key (frameSignatureInput (fr_AAD v) (fr_Ciphertext v)) (fr_Signature v)"
proof -
  have "processEncryptedFrame E endpoint credential packet frame encoded now s = (Inr (), s')"
    using run packet by (simp add: handleReadyPacket_def handle_body_def bindG_Inr guardG_Inr decodeG_Inr)
  then obtain aad n wait dup db0 jwk key where ids: "list_all (\<lambda>i. length i = 16 \<and> \<not> IsZero i) [we_MessageId frame, we_ChannelId frame,
       we_SessionId frame, we_SenderEndpointId frame, we_ReceiverEndpointId frame, we_KeyId frame]"
    and wire: "wire_frame (frame_record frame aad now) = frame" and aad: "frameAAD frame = Inr aad"
    and key: "ParseP256PublicJWK (lib_json (ge_library E)) (ep_SigningPublicJWK endpoint) = Inr jwk" "PublicKey jwk = Inr key"
      "VerifyP1363LowS (lib_verify (ge_library E)) key (frameSignatureInput aad (we_Ciphertext frame)) (we_Signature frame)"
    and put: "PutAuthorizedEndpointFrame (ge_drivers E n) wait (ep_OwnerUserID endpoint) (ep_TenantID endpoint) (cr_ID credential)
      (frame_record frame aad now) now db0 = (Inr dup, gs_db s')"
    by (blast dest: processEncryptedFrame_Inr intro: wire_frame_record)
  from put_same [OF _ put] E obtain row where "row \<in> set (t_frames (gs_db s'))" "sameFrame row (frameToRow (frame_record frame aad now))"
    by (auto simp: lawful_def)
  with content_kept [OF later] obtain row' where row': "row' \<in> set (t_frames db)" "sameFrame row' (frameToRow (frame_record frame aad now))"
    by (blast intro: sameFrame_congruent)
  have "list_all real_id [we_MessageId frame, we_ChannelId frame, we_SessionId frame, we_SenderEndpointId frame, we_ReceiverEndpointId frame, we_KeyId frame]"
    using ids by (simp add: real_id_def wf_id_def IDSize_def)
  then obtain v where v: "frameFromRow row' = Inr v" "wire_frame v = frame" "fr_AAD v = aad"
    using same_read_back [OF row'(2)] wire by (auto simp: frame_record_def)
  then have "fr_Ciphertext v = we_Ciphertext frame" "fr_Signature v = we_Signature frame" by (auto simp: wire_frame_def)
  with row'(1) v aad key show ?thesis by (metis (no_types))
qed

subsection \<open>Every stored frame carries its sender's signature\<close>

text \<open>
  \<open>K\<close> gives the signing key an endpoint has registered, as the text of a key.  A row is authentic if
  the frame in it can be replayed as it is and the signature verifies under the key of the sender it names.
\<close>

definition authentic_row :: "library \<Rightarrow> (ID \<Rightarrow> byte list) \<Rightarrow> frameRow \<Rightarrow> bool" where
  "authentic_row L K row \<longleftrightarrow> (\<exists>v jwk key. frameFromRow row = Inr v \<and> frameAAD (wire_frame v) = Inr (fr_AAD v) \<and>
     ParseP256PublicJWK (lib_json L) (K (fr_SenderEndpointID v)) = Inr jwk \<and> PublicKey jwk = Inr key \<and>
     VerifyP1363LowS (lib_verify L) key (frameSignatureInput (fr_AAD v) (fr_Ciphertext v)) (fr_Signature v))"

definition authentic :: "library \<Rightarrow> (ID \<Rightarrow> byte list) \<Rightarrow> db \<Rightarrow> bool" where
  "authentic L K db \<longleftrightarrow> (\<forall>row \<in> set (t_frames db). authentic_row L K row)"

lemma authentic_row_status [simp]:
  "authentic_row L K (row\<lparr>fw_Status := st\<rparr>) = authentic_row L K row"
  "authentic_row L K (row\<lparr>fw_Status := st, fw_AcknowledgedAt := t\<rparr>) = authentic_row L K row"
  by (auto simp: authentic_row_def frameFromRow_def bindE_Inr_iff wire_frame_def)

lemma authentic_change:
  assumes "frame_change t t'" "\<forall>row \<in> set t. authentic_row L K row" "\<And>row. t' = t @ [row] \<Longrightarrow> authentic_row L K row"
  shows "\<forall>row \<in> set t'. authentic_row L K row"
  using assms by cases (auto simp: set_update_rows acknowledged_row_def)

lemma authentic_kept: "leaves t_frames operation \<Longrightarrow> authentic L K db \<Longrightarrow> authentic L K (snd (operation db))"
  by (simp add: authentic_def leaves_def)

lemma authentic_AdvanceAck:
  assumes "\<And>n. database_laws (D n)" "authentic L K db"
  shows "authentic L K (snd (AdvanceAck D wait cursor db))"
proof -
  obtain r db' where ack: "AdvanceAck D wait cursor db = (r, db')" by fastforce
  show ?thesis
  proof (cases r)
    case (Inl e)
    with AdvanceAck_cases [OF ack] ack assms(2) show ?thesis by simp
  next
    case (Inr c)
    with AdvanceAck_cases [OF ack] obtain n where "advanceAckOnce (D n) cursor db = (Inr c, db')" by auto
    with assms(1) have "authentic L K db'"
      by (rule advanceAckOnce_cases) (use assms(2) in \<open>auto simp: authentic_def marked_def set_update_rows acknowledged_row_def\<close>)
    then show ?thesis using ack by simp
  qed
qed

lemma authentic_Put:
  assumes "\<And>n. database_laws (D n)" "authentic L K db" "authentic_row L K (frameToRow v)"
  shows "authentic L K (snd (PutAuthorizedEndpointFrame D wait owner tenant cid v now db))"
proof -
  obtain r db' where put: "PutAuthorizedEndpointFrame D wait owner tenant cid v now db = (r, db')" by fastforce
  from PutAuthorized_cases [OF assms(1) put] consider "db' = db" | n res where "putAuthorizedFrameRow (D n) (frameToRow v) db = Inr (res, db')"
    by blast
  then have "authentic L K db'"
  proof cases
    case (2 n res)
    from assms(1) this show ?thesis
      by (rule putAuthorizedFrameRow_cases) (use assms(2,3) in \<open>auto simp: authentic_def set_update_rows\<close>)
  qed (use assms(2) in simp)
  with put show ?thesis by simp
qed

text \<open>Handlers that keep the property.\<close>

definition keepsG :: "(db \<Rightarrow> bool) \<Rightarrow> 'a gw \<Rightarrow> bool" where
  "keepsG P m \<longleftrightarrow> (\<forall>s. P (gs_db s) \<longrightarrow> P (gs_db (snd (m s))))"

lemma keeps_bind_at:
  assumes "P (gs_db s)" "keepsG P m" "\<And>a s1. m s = (Inr a, s1) \<Longrightarrow> P (gs_db s1) \<Longrightarrow> P (gs_db (snd (k a s1)))"
  shows "P (gs_db (snd (bindG m k s)))"
proof (cases "m s")
  case (Pair r s1)
  with assms(1,2) have "P (gs_db s1)" unfolding keepsG_def by (metis snd_conv)
  with Pair assms(3) show ?thesis by (cases r) (auto simp: bindG_def)
qed

lemma keeps_bind:
  assumes "keepsG P m" "\<And>a. keepsG P (k a)"
  shows "keepsG P (bindG m k)"
  using keeps_bind_at [of P _ m k, OF _ assms(1)] assms(2) unfolding keepsG_def by blast

lemma keeps_basic:
  "keepsG P (returnG a)" "keepsG P (failG e)" "keepsG P (guardG b)" "keepsG P (liftG r)" "keepsG P (decodeG d)" "keepsG P (randomBytes n)"
  "keepsG P (sendG i packet)" "keepsG P (forward i packet)" "keepsG P (accept_sequence c q)"
  by (auto simp: keepsG_def returnG_def failG_def guardG_def liftG_def decodeG_def randomBytes_def sendG_def forward_def
      accept_sequence_def Let_def split: sum.splits option.splits prod.splits if_splits)

lemma keeps_signature: "keepsG P (check_signature E endpoint message signature)"
  unfolding check_signature_def by (intro keeps_bind) (auto intro: keeps_basic split: sum.splits)

lemma keeps_if: "keepsG P m \<Longrightarrow> keepsG P m' \<Longrightarrow> keepsG P (if b then m else m')"
  by simp

lemma keeps_persist: "(\<And>n wait db. P db \<Longrightarrow> P (snd (operation (ge_drivers E n) wait db))) \<Longrightarrow> keepsG P (persistG E operation)"
  by (simp add: keepsG_def persistG_def case_prod_unfold Let_def)

lemma keeps_call: "(\<And>D. leaves t_frames (operation D)) \<Longrightarrow> keepsG (authentic L K) (callG E operation)"
  unfolding callG_def by (intro keeps_persist authentic_kept)

lemmas keeps_intros = keeps_bind keeps_basic keeps_signature keeps_if keeps_call

lemma kept_GetSession: "leaves t_frames (GetSession D i)" and kept_GetFrame: "leaves t_frames (GetFrame D i)"
  and kept_Replay: "leaves t_frames (ReplayEndpointFrames D r c g d h ranges limit)"
  by (simp_all add: leaves_def GetSession_def GetFrame_def ReplayEndpointFrames_def)

lemma kept_writes: "leaves t_frames (UpdateSession D i mutate)"
  "leaves t_frames (AcknowledgeAndActivateSessionKeyPackage D i recipient owner tenant now)"
  "leaves t_frames (PutEndpointSessionKeyPackage D' wait owner tenant v)"
  by (intro leaves_UpdateSession leaves_Activate leaves_PutKeyPackage; simp)+

lemmas kept_intros = kept_GetSession kept_GetFrame kept_Replay kept_writes

lemma keeps_frames: "keepsG (authentic L K) (resume_frames E endpoint frames remaining)"
  by (induction frames arbitrary: remaining)
    (auto simp: replayPacket_def intro!: keeps_intros kept_intros)

lemma keeps_cursors: "keepsG (authentic L K) (resume_cursors E endpoint seen cursors remaining)"
  by (induction cursors arbitrary: seen remaining)
    (auto simp: Let_def intro!: keeps_intros kept_intros keeps_frames)

lemma keeps_control:
  assumes "lawful E"
  shows "keepsG (authentic L K) (handle_control E connection endpoint credential packet control encoded now)"
proof -
  have "keepsG (authentic L K) (persistG E (\<lambda>D wait. PutEndpointSessionKeyPackage D wait owner tenant v))" for owner tenant v
    by (intro keeps_persist authentic_kept kept_writes)
  then show ?thesis
    unfolding handle_control_def process_control_def processOpenTunnelResult_def processCloseTunnelResult_def
      processSessionKeyPackage_def processSessionKeyPackageACK_def processResumeState_def Let_def
    by (intro keeps_intros kept_intros keeps_cursors)
qed

lemma keeps_ack:
  assumes "lawful E"
  shows "keepsG (authentic L K) (processAckFrame E endpoint packet ack now)"
proof -
  have "keepsG (authentic L K) (persistG E (\<lambda>D wait. AdvanceAck D wait cursor))" for cursor
    using assms by (intro keeps_persist authentic_AdvanceAck) (auto simp: lawful_def)
  then show ?thesis
    unfolding processAckFrame_def Let_def case_prod_unfold by (intro keeps_intros kept_intros)
qed

lemma keeps_error: "keepsG (authentic L K) (processEndpointError E endpoint packet frame now)"
  unfolding processEndpointError_def by (intro keeps_intros kept_intros)

text \<open>The row that the handler of encrypted frames is about to store.\<close>

lemma authentic_new_row:
  assumes ids: "list_all (\<lambda>i. length i = 16 \<and> \<not> IsZero i) [we_MessageId frame, we_ChannelId frame, we_SessionId frame,
       we_SenderEndpointId frame, we_ReceiverEndpointId frame, we_KeyId frame]"
    and wire: "we_CryptoSuiteId frame = 1" "we_FrameType frame = FRAME_TYPE_ACP_TRANSPORT_FRAME" "we_Flags frame = 0"
      "validFrameRoute endpoint session receiver (we_Direction frame)"
    and sender: "we_SenderEndpointId frame = ep_ID endpoint" "ep_SigningPublicJWK endpoint = K (ep_ID endpoint)"
    and aad: "frameAAD frame = Inr aad"
    and signed: "check_signature E endpoint (frameSignatureInput aad (we_Ciphertext frame)) (we_Signature frame) s = (Inr u, s')"
  shows "authentic_row (ge_library E) K (frameToRow (frame_record frame aad now))"
proof -
  let ?v = "frame_record frame aad now"
  have "we_Direction frame = 1 \<or> we_Direction frame = 2"
    using wire(4) by (auto simp: validFrameRoute_def wire_DIRECTION_ABA_TO_HC_def wire_DIRECTION_HC_TO_ABA_def split: EndpointType.splits)
  then have v: "wire_frame ?v = frame" using wire by (intro wire_frame_record)
  have "frameFromRow (frameToRow ?v) = Inr ?v"
    using ids by (simp add: frameToRow_def frameFromRow_def frame_record_def real_id_def wf_id_def IDSize_def)
  moreover have "fr_SenderEndpointID ?v = ep_ID endpoint" "fr_AAD ?v = aad" "fr_Ciphertext ?v = we_Ciphertext frame" "fr_Signature ?v = we_Signature frame"
    using sender by (simp_all add: frame_record_def)
  ultimately show ?thesis
    using check_signature_Inr [OF signed] v aad sender(2) unfolding authentic_row_def by metis
qed

lemma keeps_encrypted:
  assumes "lawful E" "ep_SigningPublicJWK endpoint = K (ep_ID endpoint)"
  shows "keepsG (authentic (ge_library E) K) (processEncryptedFrame E endpoint credential packet frame encoded now)"
  unfolding keepsG_def processEncryptedFrame_def
proof (intro allI impI keeps_bind_at [where P = "authentic (ge_library E) K"] keeps_basic keeps_signature keeps_call kept_intros, goal_cases)
  case (16 s _ s1 _ s2 _ s3 _ s4 _ s5 receiver s6 _ s7 session s8 _ s9 _ s10 _ s11 _ s12 aad s13 _ s14)
  have "authentic_row (ge_library E) K (frameToRow (frame_record frame aad now))"
    by (rule authentic_new_row) (use 16 assms(2) in \<open>auto simp: gw_Inr idFromWire_Inr\<close>)
  then show ?case
    using assms(1) by (intro keeps_persist authentic_Put) (auto simp: lawful_def)
qed (assumption | simp only: forward_snd_db)+

lemma keeps_handle:
  assumes "lawful E" "ep_SigningPublicJWK endpoint = K (ep_ID endpoint)"
  shows "keepsG (authentic (ge_library E) K) (handleReadyPacket E connection endpoint credential encoded now)"
proof -
  have "keepsG (authentic (ge_library E) K) (handle_body E connection endpoint credential packet encoded now)" for packet
    using keeps_encrypted [where K = K, OF assms] keeps_ack [OF assms(1)] keeps_error keeps_control [OF assms(1)]
    unfolding handle_body_def by (auto intro!: keeps_bind keeps_basic split: wire_body.splits)
  then show ?thesis unfolding handleReadyPacket_def by (intro keeps_bind keeps_basic)
qed

text \<open>A run: packets from any connections, in any order, each with its own environment.\<close>

type_synonym packet_arrival = "gateway_env \<times> address \<times> Endpoint \<times> EndpointCredential \<times> byte list \<times> time \<times> time"

fun packet_step :: "packet_arrival \<Rightarrow> gateway \<Rightarrow> gateway" where
  "packet_step (E, connection, endpoint, credential, message, checked, now) s =
     snd (receive_packet E connection endpoint credential message checked now s)"

lemma keeps_plain: "keepsG P m \<Longrightarrow> keepsG P (plainG m)"
  by (auto simp: keepsG_def plainG_def split: prod.splits sum.splits)

lemma keeps_receive:
  assumes "lawful E" "ep_SigningPublicJWK endpoint = K (ep_ID endpoint)" "authentic (ge_library E) K (gs_db s)"
  shows "authentic (ge_library E) K (gs_db (snd (receive_packet E connection endpoint credential message checked now s)))"
proof -
  have "leaves t_frames (GetEndpointCredential D i c checked)" for D i c by (simp add: leaves_def GetEndpointCredential_def)
  then have "keepsG (authentic (ge_library E) K) (bindG (plainG (callG E (\<lambda>D. GetEndpointCredential D (ep_ID endpoint) (cr_ID credential) checked)))
      (\<lambda>_. handleReadyPacket E connection endpoint credential message now))"
    by (intro keeps_bind keeps_plain keeps_call keeps_handle [where K = K, OF assms(1,2)])
  then show ?thesis using assms(3)
    by (auto simp: receive_packet_def withCurrent_def keepsG_def split: prod.splits sum.splits)
qed

text \<open>
  C4.  Every stored frame carries the signature of its sender.  Over any run of packets, from any
  endpoints and with any bytes, with a database that fails in any way its laws allow, each row of
  the frame table holds a frame whose wire form has the stored associated data, so that a replay
  sends exactly what was signed, and whose signature verifies under the signing key of the endpoint
  that it names as its sender.
\<close>

theorem stored_frames_authentic:
  assumes "\<forall>(E, _, endpoint, _) \<in> set arrivals. lawful E \<and> ge_library E = L \<and> ep_SigningPublicJWK endpoint = K (ep_ID endpoint)"
    and "authentic L K (gs_db s)"
  shows "authentic L K (gs_db (fold packet_step arrivals s))"
  using assms
proof (induction arrivals arbitrary: s)
  case (Cons a arrivals)
  obtain E connection endpoint credential message checked now where a: "a = (E, connection, endpoint, credential, message, checked, now)" by (cases a)
  have "authentic L K (gs_db (packet_step a s))"
    using keeps_receive [of E endpoint K s connection credential message checked now] Cons.prems by (auto simp: a)
  then show ?case using Cons by simp
qed simp

text \<open>A frame signed by the endpoint of the forwarded packet above.\<close>

definition signed_message :: EncryptedFrameMsg where
  "signed_message = \<lparr>we_CryptoSuiteId = 1, we_FrameType = FRAME_TYPE_ACP_TRANSPORT_FRAME, we_Flags = 0, we_MessageId = wid 8,
     we_ChannelId = wid 9, we_SessionId = wid 3, we_SenderEndpointId = wid 1, we_ReceiverEndpointId = wid 2, we_Direction = 2,
     we_Sequence = 1, we_KeyGeneration = 1, we_KeyId = wid 10, we_CreatedAtMs = 0, we_Ciphertext = replicate 16 7,
     we_Signature = replicate 31 0 @ [1] @ replicate 31 0 @ [1]\<rparr>"

lemma signed_row: "\<exists>aad. frameAAD signed_message = Inr aad \<and>
    authentic_row (ge_library tunnel_env) (\<lambda>_. [9]) (frameToRow (frame_record signed_message aad 1))"
proof -
  obtain aad where aad: "frameAAD signed_message = Inr aad" by (simp add: frameAAD_def signed_message_def)
  let ?v = "frame_record signed_message aad 1"
  have "frameFromRow (frameToRow ?v) = Inr ?v"
    by (simp add: frameToRow_def frameFromRow_def frame_record_def signed_message_def)
  moreover have "wire_frame ?v = signed_message" by (rule wire_frame_record) (simp_all add: signed_message_def)
  moreover have "\<exists>jwk key. ParseP256PublicJWK (lib_json (ge_library tunnel_env)) [9] = Inr jwk \<and> PublicKey jwk = Inr key \<and>
      VerifyP1363LowS (lib_verify (ge_library tunnel_env)) key (frameSignatureInput aad (replicate 16 7)) (replicate 31 0 @ [1] @ replicate 31 0 @ [1])"
    using check_signature_Inr [OF tunnel_signature] by (simp add: tunnel_endpoint_def)
  ultimately show ?thesis using aad
    by (auto simp: authentic_row_def frame_record_def signed_message_def)
qed

theorem stored_frames_authentic_witness:
  "\<exists>aad. let s = tunnel_state\<lparr>gs_db := (gs_db tunnel_state)\<lparr>t_frames := [frameToRow (frame_record signed_message aad 1)]\<rparr>\<rparr>
     in authentic (ge_library tunnel_env) (\<lambda>_. [9]) (gs_db s) \<and> (\<exists>credential.
       authentic (ge_library tunnel_env) (\<lambda>_. [9]) (gs_db (packet_step (tunnel_env, 0, tunnel_endpoint, credential, [5], UnixMilli 0, UnixMilli 0) s)))"
proof -
  obtain aad where "authentic_row (ge_library tunnel_env) (\<lambda>_. [9]) (frameToRow (frame_record signed_message aad 1))"
    using signed_row by blast
  then have start: "authentic (ge_library tunnel_env) (\<lambda>_. [9])
      (gs_db (tunnel_state\<lparr>gs_db := (gs_db tunnel_state)\<lparr>t_frames := [frameToRow (frame_record signed_message aad 1)]\<rparr>\<rparr>))"
    by (simp add: authentic_def)
  have env: "lawful tunnel_env" "ep_SigningPublicJWK tunnel_endpoint = [9]"
    by (simp_all add: lawful_def tunnel_env_def reference_laws tunnel_endpoint_def)
  have "authentic (ge_library tunnel_env) (\<lambda>_. [9]) (gs_db (packet_step (tunnel_env, 0, tunnel_endpoint, credential, [5], UnixMilli 0, UnixMilli 0)
      (tunnel_state\<lparr>gs_db := (gs_db tunnel_state)\<lparr>t_frames := [frameToRow (frame_record signed_message aad 1)]\<rparr>\<rparr>)))" for credential
    using stored_frames_authentic [of "[(tunnel_env, 0, tunnel_endpoint, credential, [5], UnixMilli 0, UnixMilli 0)]", OF _ start] env
    by (simp del: packet_step.simps)
  with start show ?thesis unfolding Let_def by blast
qed

end
