(* ===== verification/Gateway_Invariants.thy ===== *)
theory Gateway_Invariants
  imports Gateway_Handshake Frame_Relay
begin

section \<open>What every request and every packet keeps\<close>

text \<open>
  The properties of the whole gateway are about the two tables that no handler writes except at one
  place: the table of used proofs and the table of connection generations.  The locale states what such a
  property relies on; the handlers are followed once, for every such property.
\<close>

definition keepsDB :: "(db \<Rightarrow> bool) \<Rightarrow> ('s \<Rightarrow> db) \<Rightarrow> ('s, 'e, 'a) act \<Rightarrow> bool" where
  "keepsDB Q view m \<longleftrightarrow> (\<forall>s. Q (view s) \<longrightarrow> Q (view (snd (m s))))"

definition server_db :: "exchange \<Rightarrow> db" where
  "server_db x = gs_db (ex_server x)"

lemma keepsDB_D: "keepsDB Q view m \<Longrightarrow> Q (view s) \<Longrightarrow> m s = (r, s') \<Longrightarrow> Q (view s')"
  unfolding keepsDB_def by (metis snd_conv)

lemma keepsDB_bind: "keepsDB Q view m \<Longrightarrow> (\<And>a. keepsDB Q view (k a)) \<Longrightarrow> keepsDB Q view (bindG m k)"
  unfolding keepsDB_def bindG_def by (force split: prod.splits sum.splits)

lemma keepsDB_basic: "keepsDB Q view (returnG a)" "keepsDB Q view (failG e)"
  by (simp_all add: keepsDB_def returnG_def failG_def)

lemma keepsDB_if: "keepsDB Q view m \<Longrightarrow> keepsDB Q view m' \<Longrightarrow> keepsDB Q view (if b then m else m')"
  by simp

lemma keepsDB_option: "keepsDB Q view m \<Longrightarrow> (\<And>a. keepsDB Q view (k a)) \<Longrightarrow> keepsDB Q view (case x of None \<Rightarrow> m | Some a \<Rightarrow> k a)"
  by (simp split: option.splits)

lemma keepsDB_sum: "(\<And>e. keepsDB Q view (h e)) \<Longrightarrow> (\<And>a. keepsDB Q view (k a)) \<Longrightarrow> keepsDB Q view (case x of Inl e \<Rightarrow> h e | Inr a \<Rightarrow> k a)"
  by (simp split: sum.splits)

lemma keepsDB_prod: "(\<And>a b. keepsDB Q view (k a b)) \<Longrightarrow> keepsDB Q view (case x of (a, b) \<Rightarrow> k a b)"
  by (simp split: prod.splits)

lemma keepsDB_list: "keepsDB Q view m \<Longrightarrow> (\<And>a as. keepsDB Q view (k a as)) \<Longrightarrow> keepsDB Q view (case x of [] \<Rightarrow> m | a # as \<Rightarrow> k a as)"
  by (simp split: list.splits)

lemma keepsDB_let: "(\<And>x. keepsDB Q view (k x)) \<Longrightarrow> keepsDB Q view (let x = v in k x)"
  by simp

lemmas keepsDB_flow = keepsDB_bind keepsDB_basic keepsDB_if keepsDB_option keepsDB_sum keepsDB_prod keepsDB_list keepsDB_let

text \<open>The actions of the services and of the handlers.\<close>

lemma keepsDB_svc:
  "keepsDB Q gs_db (liftS f r)" "keepsDB Q gs_db (guardS b e)" "keepsDB Q gs_db (readS n)" "keepsDB Q gs_db newID_from"
  "keepsDB Q gs_db newOpaqueValue"
  by (auto simp: keepsDB_def liftS_def guardS_def readS_def newID_from_def newOpaqueValue_def bindG_def returnG_def failG_def Let_def
      split: sum.splits prod.splits if_splits)

lemma keepsDB_ids: "keepsDB Q gs_db (newID_list n)"
  by (induction n) (auto intro!: keepsDB_flow keepsDB_svc)

lemma keepsDB_call: "(\<And>D. leaves Q (operation D)) \<Longrightarrow> keepsDB Q gs_db (callS E operation)"
  by (simp add: keepsDB_def callS_def leaves_def case_prod_unfold Let_def)

lemma keepsDB_try: "keepsDB Q gs_db m \<Longrightarrow> keepsDB Q server_db (tryW m)"
  by (auto simp: keepsDB_def tryW_def server_db_def Let_def split: prod.splits dest: keepsDB_D [unfolded keepsDB_def])

lemma keepsDB_serve: "keepsDB Q gs_db m \<Longrightarrow> keepsDB Q server_db (serveW answer m)"
  unfolding serveW_def by (intro keepsDB_flow keepsDB_try)

lemma keepsDB_callW: "(\<And>D. leaves Q (operation D)) \<Longrightarrow> keepsDB Q server_db (callW H operation)"
  unfolding callW_def by (intro keepsDB_serve keepsDB_call)

lemma keepsDB_web:
  "keepsDB Q server_db (reject status_code error_code)" "keepsDB Q server_db (requireW b status_code error_code)" "keepsDB Q server_db (setHeader name v)"
  "keepsDB Q server_db (setCookie c)" "keepsDB Q server_db (clear_if_cookie H transport)" "keepsDB Q server_db (check_idempotency_key request)"
  by (auto simp: keepsDB_def server_db_def reject_def requireW_def setHeader_def setCookie_def clear_if_cookie_def check_idempotency_key_def
      returnG_def failG_def Let_def split: option.splits)

lemma keepsDB_decode: "keepsDB Q server_db (decodeGatewayJSON H names set_field initial request)"
  unfolding decodeGatewayJSON_def by (intro keepsDB_flow keepsDB_web)

text \<open>Actions that only touch queues and the random source.\<close>

lemma keepsDB_deliver: "keepsDB Q gs_db m \<Longrightarrow> keepsDB Q server_db (deliverW m)"
  by (auto simp: keepsDB_def deliverW_def server_db_def split: prod.splits sum.splits dest: keepsDB_D [unfolded keepsDB_def])

lemma keepsDB_gw: "keepsDB Q gs_db m \<longleftrightarrow> keepsG Q m"
  by (simp add: keepsDB_def keepsG_def)

lemma keepsG_send: "keepsG Q (sendOpenTunnelRequest H session endpoint now)" "keepsG Q (sendCloseTunnelRequest H session now)"
proof -
  have next_control: "keepsG Q (sendNextG i build)" for i build
    by (auto simp: keepsG_def sendNextG_def split: prod.splits option.splits)
  show "keepsG Q (sendOpenTunnelRequest H session endpoint now)" "keepsG Q (sendCloseTunnelRequest H session now)"
    unfolding sendOpenTunnelRequest_def sendCloseTunnelRequest_def send_platform_control_def by (intro keeps_bind keeps_basic next_control)+
qed

lemmas keepsDB_actions = keepsDB_flow keepsDB_svc keepsDB_ids keepsDB_call keepsDB_try keepsDB_serve keepsDB_callW keepsDB_web keepsDB_decode
  keepsDB_deliver keepsG_send [folded keepsDB_gw]

subsection \<open>The interface\<close>

text \<open>
  \<open>Q\<close> does not depend on the other tables, and recording a proof at a \<open>timely\<close> moment keeps it.
\<close>

locale server_invariant =
  fixes Q :: "db \<Rightarrow> bool" and timely :: "time \<Rightarrow> bool"
  assumes ignores [simp]:
    "Q (t_endpoints_update f1 db) \<longleftrightarrow> Q db" "Q (t_enrollments_update f2 db) \<longleftrightarrow> Q db" "Q (t_credentials_update f3 db) \<longleftrightarrow> Q db"
    "Q (t_sessions_update f4 db) \<longleftrightarrow> Q db" "Q (t_tickets_update f5 db) \<longleftrightarrow> Q db" "Q (t_frames_update f6 db) \<longleftrightarrow> Q db"
    "Q (t_acks_update f7 db) \<longleftrightarrow> Q db" "Q (t_packages_update f8 db) \<longleftrightarrow> Q db" "Q (t_audit_update f9 db) \<longleftrightarrow> Q db"
    "Q (t_idempotency_update f10 db) \<longleftrightarrow> Q db" "Q (t_refresh_update f11 db) \<longleftrightarrow> Q db" "Q (t_nonces_update f12 db) \<longleftrightarrow> Q db"
    and recording: "database_laws D \<Longrightarrow> timely now \<Longrightarrow> Q db \<Longrightarrow> Q (snd (UseDPoPReplay D jkt jti now expiresAt m db))"
begin

lemma reads:
  "leaves Q (AuthenticateAccessToken D h now)" "leaves Q (GetEndpointCredential D i c now)" "leaves Q (GetEndpointNonceHash D i now)"
  "leaves Q (InspectRefreshCredential D h now)" "leaves Q (ListEndpoints D owner tenant n)" "leaves Q (GetSession D i)" "leaves Q (GetFrame D i)"
  "leaves Q (ReplayEndpointFrames D r c g d hi ranges limit)" "leaves Q (GetEnrollmentByDeviceCode D i h now)" "leaves Q (InspectTicket D h now)"
  by (simp_all add: leaves_def AuthenticateAccessToken_def GetEndpointCredential_def GetEndpointNonceHash_def InspectRefreshCredential_def
      ListEndpoints_def GetSession_def GetFrame_def ReplayEndpointFrames_def GetEnrollmentByDeviceCode_def InspectTicket_def Let_def)

lemma writes:
  "leaves Q (PutEndpointNonce D i h now t)" "leaves Q (RotateEndpointNonce D i h h' now t)" "leaves Q (CreateTicket D ticket ttl)"
  "leaves Q (RotateRefreshCredential D h jkt access refresh audit now)"
  "leaves Q (CreateEndpointSession D session reservation audit n response)" "leaves Q (CloseEndpointSession D session reservation audit response)"
  "leaves Q (UpdateSession D i mutate)" "leaves Q (CreateEnrollment D enrollment)"
  "leaves Q (ConsumeABAEnrollment D i h endpoint access refresh audit now)" "leaves Q (ConsumeTicket D h i c purpose origin protocol now)"
  "leaves Q (MarkEndpointSeen D i now)" "leaves Q (AcknowledgeAndActivateSessionKeyPackage D i recipient owner tenant now)"
  "leaves Q (PutEndpointSessionKeyPackage D' wait owner tenant v)" "leaves Q (AdvanceAck D' wait cursor)"
  "leaves Q (PutAuthorizedEndpointFrame D' wait owner tenant i frame now)"
  by (intro leaves_nonces leaves_CreateTicket leaves_RotateRefresh leaves_CreateEndpointSession leaves_CloseEndpointSession leaves_UpdateSession
      leaves_enrollments leaves_ConsumeTicket leaves_MarkEndpointSeen leaves_Activate leaves_PutKeyPackage leaves_AdvanceAck leaves_PutAuthorized; simp)+

lemmas store_keeps = reads writes

subsection \<open>HTTP\<close>

lemma keeps_verify:
  assumes "lawful (he_env H)" "timely (verification_time (he_clock H 9) rq)"
  shows "keepsDB Q gs_db (verify_proof H presented rq)"
proof -
  have "Q (snd (Verify L v (storeReplayCache_Use D m) (he_clock H 9) presented rq db))" if "database_laws D" "Q db" for L v D m db
    using Verify_state [of L v "storeReplayCache_Use D m" "he_clock H 9" presented rq db] recording [OF that(1) assms(2) that(2)] that(2)
    by (auto simp: storeReplayCache_Use_snd)
  then show ?thesis
    using assms(1) by (simp add: keepsDB_def verify_proof_def lawful_def case_prod_unfold Let_def)
qed

lemma keeps_challenge: "keepsDB Q server_db (writeNonceChallenge H i now)" "keepsDB Q server_db (writeDPoPError H i now refusal)"
  unfolding writeNonceChallenge_def writeDPoPError_def by (intro keepsDB_actions store_keeps)+

lemma keeps_possession:
  assumes "lawful (he_env H)" "timely now" "0 < now"
  shows "keepsDB Q server_db (prove_possession H request endpoint token origin now)"
  unfolding prove_possession_def judge_proof_def rotate_nonce_def
  by (intro keepsDB_actions store_keeps keeps_challenge keeps_verify)
    (use assms in \<open>simp_all add: verification_time_def IsZeroTime_def\<close>)

lemma keeps_hc:
  assumes "lawful (he_env H)" "timely (he_clock H 0)" "0 < he_clock H 0"
  shows "keepsDB Q server_db (authenticateHCRequest H request)"
  unfolding authenticateHCRequest_def Let_def using assms by (intro keepsDB_actions store_keeps keeps_possession)

lemma keeps_rotate: "keepsDB Q server_db (rotate_tokens H transport h endpoint current now)"
  unfolding rotate_tokens_def by (intro keepsDB_actions store_keeps)

lemma keeps_handlers:
  assumes "lawful (he_env H)" "timely (he_clock H 0)" "0 < he_clock H 0"
  shows "keepsDB Q server_db (issueTicket H request)" "keepsDB Q server_db (refreshToken H request)"
    "keepsDB Q server_db (listABAEndpoints H request)" "keepsDB Q server_db (createSession H request)"
    "keepsDB Q server_db (closeEndpointSession H request)"
proof -
  have plain: "keepsDB Q server_db (\<lambda>x. (r x, x))" for r :: "exchange \<Rightarrow> (nat \<times> reply) + 'b" by (simp add: keepsDB_def)
  have online: "keepsDB Q server_db (\<lambda>x. requireW (b x) n error_code x)" for b n error_code
    by (simp add: keepsDB_def requireW_def reject_def returnG_def failG_def)
  show "keepsDB Q server_db (issueTicket H request)"
    unfolding issueTicket_def Let_def using assms by (intro keepsDB_actions store_keeps keeps_possession)
  show "keepsDB Q server_db (refreshToken H request)"
    unfolding refreshToken_def Let_def using assms by (intro keepsDB_actions store_keeps keeps_possession keeps_rotate)
  show "keepsDB Q server_db (listABAEndpoints H request)"
    unfolding listABAEndpoints_def using keeps_hc [OF assms] by (intro keepsDB_actions store_keeps plain)
  show "keepsDB Q server_db (createSession H request)"
    unfolding createSession_def Let_def using keeps_hc [OF assms] by (intro keepsDB_actions store_keeps online)
  show "keepsDB Q server_db (closeEndpointSession H request)"
    unfolding closeEndpointSession_def Let_def using keeps_hc [OF assms] by (intro keepsDB_actions store_keeps)
qed

lemma keeps_enrollment:
  "keepsDB Q server_db (startEnrollment H request)" "keepsDB Q server_db (pollEnrollment H request)" "keepsDB Q server_db (consumeEnrollment H request)"
  unfolding startEnrollment_def Start_def pollEnrollment_def Poll_def consumeEnrollment_def Consume_def Let_def
  by (intro keepsDB_actions store_keeps)+

subsection \<open>Packets and connections\<close>

lemma keepsG_store: "(\<And>D wait. leaves Q (operation D wait)) \<Longrightarrow> keepsG Q (persistG E operation)"
  "(\<And>D. leaves Q (operation' D)) \<Longrightarrow> keepsG Q (callG E operation')"
  unfolding callG_def by (rule keeps_persist, simp add: leaves_def)+

lemmas packet_intros = keeps_bind keeps_basic keeps_signature keeps_if keepsG_store store_keeps

lemma keeps_resume: "keepsG Q (resume_frames E endpoint frames remaining)" "keepsG Q (resume_cursors E endpoint seen cursors remaining)"
proof -
  have frames: "keepsG Q (resume_frames E endpoint frames remaining)" for frames remaining
    by (induction frames arbitrary: remaining) (auto simp: replayPacket_def intro!: packet_intros)
  then show "keepsG Q (resume_frames E endpoint frames remaining)" .
  show "keepsG Q (resume_cursors E endpoint seen cursors remaining)"
    by (induction cursors arbitrary: seen remaining) (auto simp: Let_def intro!: packet_intros frames)
qed

lemma keeps_packet: "keepsG Q (handleReadyPacket E connection endpoint credential encoded now)"
proof -
  have "keepsG Q (handle_control E connection endpoint credential packet control encoded now)" for packet control
    unfolding handle_control_def process_control_def processOpenTunnelResult_def processCloseTunnelResult_def
      processSessionKeyPackage_def processSessionKeyPackageACK_def processResumeState_def Let_def
    by (intro packet_intros keeps_resume)
  moreover have "keepsG Q (processAckFrame E endpoint packet ack now)" for packet ack
    unfolding processAckFrame_def Let_def case_prod_unfold by (intro packet_intros)
  moreover have "keepsG Q (processEndpointError E endpoint packet frame now)" for packet frame
    unfolding processEndpointError_def by (intro packet_intros)
  moreover have "keepsG Q (processEncryptedFrame E endpoint credential packet frame encoded now)" for packet frame
    unfolding processEncryptedFrame_def by (intro packet_intros)
  ultimately have "keepsG Q (handle_body E connection endpoint credential packet encoded now)" for packet
    unfolding handle_body_def by (auto intro!: keeps_bind keeps_basic split: wire_body.splits)
  then show ?thesis unfolding handleReadyPacket_def by (intro keeps_bind keeps_basic)
qed

lemma keeps_reading: "Q (gs_db s) \<Longrightarrow> Q (gs_db (snd (read_message H a endpoint credential binary message checked now s)))"
proof -
  assume Q: "Q (gs_db s)"
  have "keepsG Q (bindG (plainG (callG (he_env H) (\<lambda>D. GetEndpointCredential D (ep_ID endpoint) (cr_ID credential) checked)))
      (\<lambda>_. handleReadyPacket (he_env H) a endpoint credential message now))"
    by (intro keeps_bind keeps_plain packet_intros keeps_packet)
  with Q have "Q (gs_db (snd (receive_packet (he_env H) a endpoint credential message checked now s)))"
    by (auto simp: receive_packet_def withCurrent_def keepsG_def split: prod.splits sum.splits)
  with Q show ?thesis
    by (auto simp: read_message_def leave_connection_def split: prod.splits option.splits)
qed

lemma keeps_pong: "Q (gs_db s) \<Longrightarrow> Q (gs_db (snd (receive_pong H a endpoint credential now s)))"
proof -
  have "keepsG Q (plainG (callG (he_env H) (\<lambda>D. GetEndpointCredential D (ep_ID endpoint) (cr_ID credential) now)))"
    by (intro keeps_plain packet_intros)
  then show "Q (gs_db s) \<Longrightarrow> ?thesis" by (auto simp: receive_pong_def withCurrent_def keepsG_def split: prod.splits sum.splits)
qed

lemma keeps_redeem: "keepsDB Q server_db (redeem_ticket H request)"
  unfolding redeem_ticket_def Let_def by (intro keepsDB_actions store_keeps)

lemma keeps_finish: "keepsG Q (finish_challenge H h binary message readyAt)"
proof -
  have "keepsG Q (check_response H h binary message)"
    unfolding check_response_def by (auto intro!: packet_intros split: wire_body.splits)
  then show ?thesis unfolding finish_challenge_def by (intro keeps_bind keeps_basic)
qed

lemma keeps_enter: "keepsG Q (enter_connection H endpoint authenticated a seenAt)"
  unfolding enter_connection_def
  by (intro keeps_bind packet_intros) (auto simp: keepsG_def Let_def split: prod.splits)

end

text \<open>A property that the numbering of connections keeps as well.\<close>

locale server_invariant_total = server_invariant +
  assumes numbering [simp]: "Q (t_generations_update f db) \<longleftrightarrow> Q db"
begin

lemma keeps_begin: "keepsG Q (begin_challenge H endpoint credential subprotocol now)"
  unfolding begin_challenge_def by (intro packet_intros leaves_NextConnectionGeneration) simp

end

text \<open>The two properties: a proof is recorded until a time, and the connections of every endpoint are numbered so far.\<close>

definition numbered :: "(ID \<Rightarrow> u64) \<Rightarrow> db \<Rightarrow> bool" where
  "numbered c db \<longleftrightarrow> generation_keys db \<and> (\<forall>i. current_generation i db = c i)"

interpretation used_proof: server_invariant_total "replay_recorded jkt jti expiry" "\<lambda>now. now < expiry" for jkt jti expiry
proof unfold_locales
  fix D now db jkt' jti' E m
  assume "database_laws D" "now < expiry" "replay_recorded jkt jti expiry db"
  then show "replay_recorded jkt jti expiry (snd (UseDPoPReplay D jkt' jti' now E m db))"
    by (intro UseDPoPReplay_keeps)
qed (simp_all add: replay_recorded_def)

interpretation numbers: server_invariant "numbered c" "\<lambda>now. True" for c
proof unfold_locales
  fix D now db jkt jti expiresAt m
  have "t_generations (snd (UseDPoPReplay D jkt jti now expiresAt m db)) = t_generations db"
    using leaves_UseDPoPReplay [of t_generations D jkt jti now expiresAt m] by (simp add: leaves_def)
  then show "numbered c db \<Longrightarrow> numbered c (snd (UseDPoPReplay D jkt jti now expiresAt m db))"
    by (simp add: numbered_def generation_keys_def current_generation_def)
qed (simp_all add: numbered_def generation_keys_def current_generation_def)

end
