(* ===== verification/Gateway_System.thy ===== *)
theory Gateway_System
  imports Gateway_Invariants
begin

section \<open>The gateway as a whole\<close>

text \<open>
  The server handles requests and sockets in any order.  A step is one HTTP request, or what the
  goroutine of a socket does between two points where it waits for its peer: the upgrade with the
  challenge, the answer to it, a message, a pong, the end.  Every step comes with its own environment, so that
  statements of the database may fail in one step and succeed in the next.
\<close>

subsection \<open>Routes\<close>

datatype route =
    HealthRoute | StartRoute | PollRoute | ConsumeRoute | TicketRoute | RefreshRoute | SessionRoute | CloseRoute | EndpointsRoute | PreflightRoute

fun handler :: "route \<Rightarrow> http_env \<Rightarrow> http_request \<Rightarrow> (nat \<times> reply) web" where
  "handler HealthRoute = health"
| "handler StartRoute = startEnrollment"
| "handler PollRoute = pollEnrollment"
| "handler ConsumeRoute = consumeEnrollment"
| "handler TicketRoute = issueTicket"
| "handler RefreshRoute = refreshToken"
| "handler SessionRoute = createSession"
| "handler CloseRoute = closeEndpointSession"
| "handler EndpointsRoute = listABAEndpoints"
| "handler PreflightRoute = preflight"

text \<open>The routes that ask for a proof of possession.\<close>

definition proof_bearing :: "route \<Rightarrow> bool" where
  "proof_bearing r \<longleftrightarrow> r \<in> {TicketRoute, RefreshRoute, SessionRoute, CloseRoute, EndpointsRoute}"

definition serve :: "http_env \<Rightarrow> route \<Rightarrow> http_request \<Rightarrow> gateway \<Rightarrow> http_response \<times> gateway" where
  "serve H r request = cors H (handler r) request"

subsection \<open>Sockets\<close>

datatype socket = Waiting handshake | Connected Endpoint EndpointCredential | Finished

record server =
  sy_gateway :: gateway
  sy_sockets :: "address \<rightharpoonup> socket"

text \<open>
  The address of a connection object is the number of its socket.  \<open>negotiated\<close> is the subprotocol
  that the upgrade agreed on, if it succeeded.
\<close>

datatype server_event =
    Request http_env route http_request
  | Upgrade http_env address http_request "string option"
  | Answer http_env address bool "byte list" time time
  | Receive http_env address bool "byte list" time time
  | Pong http_env address time
  | Hangup http_env address

fun event_env :: "server_event \<Rightarrow> http_env" where
  "event_env (Request H _ _) = H"
| "event_env (Upgrade H _ _ _) = H"
| "event_env (Answer H _ _ _ _ _) = H"
| "event_env (Receive H _ _ _ _ _) = H"
| "event_env (Pong H _ _) = H"
| "event_env (Hangup H _) = H"

definition put_socket :: "address \<Rightarrow> socket \<Rightarrow> gateway \<Rightarrow> server \<Rightarrow> server" where
  "put_socket a k g s = s\<lparr>sy_gateway := g, sy_sockets := (sy_sockets s)(a \<mapsto> k)\<rparr>"

definition upgrade_step :: "http_env \<Rightarrow> address \<Rightarrow> http_request \<Rightarrow> string option \<Rightarrow> server \<Rightarrow> server" where
  "upgrade_step H a request negotiated s =
     (let origin = TrimSpace (header_get request ''Origin'') in
      if sy_sockets s a \<noteq> None \<or>
         origin \<noteq> [] \<and> NormalizeOrigin (ge_library (he_env H)) origin \<noteq> Inr (cf_AllowedOrigin (he_config H)) then s
      else case redeem_ticket H request \<lparr>ex_server = sy_gateway s, ex_headers = [], ex_cookie = None\<rparr> of
        (Inl answer, x) \<Rightarrow> s\<lparr>sy_gateway := ex_server x\<rparr>
      | (Inr (endpoint, credential), x) \<Rightarrow> (case negotiated of
            None \<Rightarrow> s\<lparr>sy_gateway := ex_server x\<rparr>
          | Some subprotocol \<Rightarrow> (case begin_challenge H endpoint credential subprotocol (he_clock H 0) (ex_server x) of
                (Inl e, g) \<Rightarrow> put_socket a Finished g s
              | (Inr (packet, h), g) \<Rightarrow> put_socket a (Waiting h) g s)))"

definition answer_step :: "http_env \<Rightarrow> address \<Rightarrow> bool \<Rightarrow> byte list \<Rightarrow> time \<Rightarrow> time \<Rightarrow> server \<Rightarrow> server" where
  "answer_step H a binary message readyAt seenAt s = (case sy_sockets s a of
       Some (Waiting h) \<Rightarrow> (case finish_challenge H h binary message readyAt (sy_gateway s) of
           (Inl e, g) \<Rightarrow> put_socket a Finished g s
         | (Inr (packet, authenticated), g) \<Rightarrow> (case enter_connection H (hk_endpoint h) authenticated a seenAt g of
               (Inl e, g') \<Rightarrow> put_socket a Finished g' s
             | (Inr u, g') \<Rightarrow> put_socket a (Connected (hk_endpoint h) (hk_credential h)) g' s))
     | _ \<Rightarrow> s)"

fun server_step :: "server_event \<Rightarrow> server \<Rightarrow> server" where
  "server_step (Request H r request) s = s\<lparr>sy_gateway := snd (serve H r request (sy_gateway s))\<rparr>"
| "server_step (Upgrade H a request negotiated) s = upgrade_step H a request negotiated s"
| "server_step (Answer H a binary message readyAt seenAt) s = answer_step H a binary message readyAt seenAt s"
| "server_step (Receive H a binary message checked now) s = (case sy_sockets s a of
     Some (Connected endpoint credential) \<Rightarrow>
       (case read_message H a endpoint credential binary message checked now (sy_gateway s) of
          (True, g) \<Rightarrow> s\<lparr>sy_gateway := g\<rparr>
        | (False, g) \<Rightarrow> put_socket a Finished g s)
   | _ \<Rightarrow> s)"
| "server_step (Pong H a now) s = (case sy_sockets s a of
     Some (Connected endpoint credential) \<Rightarrow> (case receive_pong H a endpoint credential now (sy_gateway s) of
          (None, g) \<Rightarrow> s\<lparr>sy_gateway := g\<rparr>
        | (Some e, g) \<Rightarrow> put_socket a Finished (leave_connection a g) s)
   | _ \<Rightarrow> s)"
| "server_step (Hangup H a) s = (case sy_sockets s a of
     Some (Connected endpoint credential) \<Rightarrow> put_socket a Finished (leave_connection a (sy_gateway s)) s
   | Some k \<Rightarrow> put_socket a Finished (sy_gateway s) s
   | None \<Rightarrow> s)"

text \<open>The time at which a request is judged; only requests have one.\<close>

fun event_times :: "server_event \<Rightarrow> time list" where
  "event_times (Request H r request) = [he_clock H 0]"
| "event_times _ = []"

definition well_timed :: "(time \<Rightarrow> bool) \<Rightarrow> server_event \<Rightarrow> bool" where
  "well_timed timely e \<longleftrightarrow> lawful (he_env (event_env e)) \<and> (\<forall>t \<in> set (event_times e). timely t \<and> 0 < t)"

subsection \<open>Steps keep what requests and packets keep\<close>

lemma respond_snd: "snd (respond m headers s) = ex_server (snd (m \<lparr>ex_server = s, ex_headers = headers, ex_cookie = None\<rparr>))"
  by (simp add: respond_def case_prod_unfold Let_def)

lemma keeps_respond: "keepsDB Q server_db m \<Longrightarrow> Q (gs_db s) \<Longrightarrow> Q (gs_db (snd (respond m headers s)))"
  unfolding keepsDB_def respond_snd server_db_def by (metis exchange.select_convs(1))

context server_invariant
begin

lemma keeps_handler:
  assumes "lawful (he_env H)" "timely (he_clock H 0)" "0 < he_clock H 0"
  shows "keepsDB Q server_db (handler r H request)"
  using keeps_handlers [OF assms] keeps_enrollment by (cases r) (simp_all add: health_def preflight_def keepsDB_basic)

lemma keeps_serve:
  assumes "lawful (he_env H)" "timely (he_clock H 0)" "0 < he_clock H 0" "Q (gs_db g)"
  shows "Q (gs_db (snd (serve H r request g)))"
  unfolding serve_def cors_def Let_def
  using assms(4) by (auto intro!: keeps_respond [where Q = Q] keeps_handler [OF assms(1-3)] keepsDB_web)

lemma keeps_answer: "Q (gs_db (sy_gateway s)) \<Longrightarrow> Q (gs_db (sy_gateway (answer_step H a binary message readyAt seenAt s)))"
  unfolding answer_step_def put_socket_def
  by (auto split: option.splits socket.splits prod.splits sum.splits
      dest: keepsDB_D [OF keeps_finish [folded keepsDB_gw]] keepsDB_D [OF keeps_enter [folded keepsDB_gw]])

lemma keeps_other:
  assumes "well_timed timely e" "Q (gs_db (sy_gateway s))" "\<And>H a request negotiated. e \<noteq> Upgrade H a request negotiated"
  shows "Q (gs_db (sy_gateway (server_step e s)))"
proof (cases e)
  case (Receive H a binary message checked now)
  with assms keeps_reading show ?thesis
    by (auto simp: put_socket_def split: option.splits socket.splits prod.splits bool.splits) (metis snd_conv)+
next
  case (Pong H a now)
  with assms keeps_pong show ?thesis
    by (auto simp: put_socket_def leave_connection_def split: option.splits socket.splits prod.splits) (metis snd_conv)+
qed (use assms in \<open>auto simp: well_timed_def put_socket_def leave_connection_def keeps_serve keeps_answer split: option.splits socket.splits\<close>)

end

context server_invariant_total
begin

lemma keeps_upgrade: "Q (gs_db (sy_gateway s)) \<Longrightarrow> Q (gs_db (sy_gateway (upgrade_step H a request negotiated s)))"
proof -
  assume Q: "Q (gs_db (sy_gateway s))"
  obtain r x where redeemed: "redeem_ticket H request \<lparr>ex_server = sy_gateway s, ex_headers = [], ex_cookie = None\<rparr> = (r, x)" by fastforce
  with Q have x: "Q (gs_db (ex_server x))" using keepsDB_D [OF keeps_redeem _ redeemed] by (simp add: server_db_def)
  have "Q (gs_db g)" if "begin_challenge H endpoint credential subprotocol now (ex_server x) = (v, g)" for endpoint credential subprotocol now v g
    using keepsDB_D [OF keeps_begin [folded keepsDB_gw] x that] .
  with Q x show ?thesis
    by (auto simp: upgrade_step_def put_socket_def redeemed Let_def split: sum.splits option.splits prod.splits)
qed

lemma keeps_step:
  assumes "well_timed timely e" "Q (gs_db (sy_gateway s))"
  shows "Q (gs_db (sy_gateway (server_step e s)))"
proof (cases "\<exists>H a request negotiated. e = Upgrade H a request negotiated")
  case True
  with assms(2) keeps_upgrade show ?thesis by auto
next
  case False
  with assms show ?thesis by (intro keeps_other) auto
qed

end

subsection \<open>A refused request has an error status\<close>

definition errs :: "'a web \<Rightarrow> bool" where
  "errs m \<longleftrightarrow> (\<forall>x answer x'. m x = (Inl answer, x') \<longrightarrow> 400 \<le> fst answer)"

lemma errs_bind: "errs m \<Longrightarrow> (\<And>a. errs (k a)) \<Longrightarrow> errs (bindG m k)"
  unfolding errs_def bindG_def by (auto split: prod.splits sum.splits)

lemma writeDomainError_status: "400 \<le> fst (writeDomainError e)"
  by (simp add: writeDomainError_def split: option.splits ErrorCode.splits)

lemma errs_basic: "errs (returnG a)" "400 \<le> fst answer \<Longrightarrow> errs (failG answer)" "errs (failG (writeDomainError e))"
  "400 \<le> n \<Longrightarrow> errs (reject n error_code)" "400 \<le> n \<Longrightarrow> errs (requireW b n error_code)" "errs (tryW m)" "errs (setHeader name v)" "errs (setCookie c)"
  "errs (clear_if_cookie H transport)" "errs (deliverW d)" "errs (\<lambda>x. (Inr (f x), x))"
  by (auto simp: errs_def returnG_def failG_def reject_def requireW_def tryW_def setHeader_def setCookie_def clear_if_cookie_def deliverW_def
      writeDomainError_status Let_def split: if_splits prod.splits sum.splits option.splits)

lemma errs_cases: "errs m \<Longrightarrow> errs m' \<Longrightarrow> errs (if b then m else m')"
  "errs m \<Longrightarrow> (\<And>a. errs (k a)) \<Longrightarrow> errs (case x of None \<Rightarrow> m | Some a \<Rightarrow> k a)"
  "(\<And>e. errs (h e)) \<Longrightarrow> (\<And>a. errs (k a)) \<Longrightarrow> errs (case y of Inl e \<Rightarrow> h e | Inr a \<Rightarrow> k a)"
  "(\<And>a b. errs (l a b)) \<Longrightarrow> errs (case z of (a, b) \<Rightarrow> l a b)"
  "errs m \<Longrightarrow> (\<And>a as. errs (n a as)) \<Longrightarrow> errs (case w of [] \<Rightarrow> m | a # as \<Rightarrow> n a as)"
  by (simp_all split: option.splits sum.splits prod.splits list.splits)

lemma errs_serve: "(\<And>e. 400 \<le> fst (answer e)) \<Longrightarrow> errs (serveW answer m)"
  unfolding serveW_def by (intro errs_bind errs_cases errs_basic)

lemma errs_call: "errs (callW H operation)"
  unfolding callW_def by (intro errs_serve writeDomainError_status)

lemma errs_random: "errs (serveW (\<lambda>e. random_unavailable) m)"
  by (rule errs_serve) (simp add: random_unavailable_def)

lemmas errs_intros = errs_bind errs_cases errs_basic errs_call errs_random

lemma errs_decode: "errs (decodeGatewayJSON H names set_field initial request)"
  unfolding decodeGatewayJSON_def by (intro errs_intros) simp_all

lemma errs_key: "errs (check_idempotency_key request)"
  unfolding check_idempotency_key_def Let_def by (intro errs_intros) simp

lemma errs_possession: "errs (prove_possession H request endpoint token origin now)"
  unfolding prove_possession_def judge_proof_def rotate_nonce_def writeNonceChallenge_def writeDPoPError_def Let_def
  by (intro errs_intros errs_serve writeDomainError_status; simp)

lemma errs_hc: "errs (authenticateHCRequest H request)"
  unfolding authenticateHCRequest_def Let_def by (intro errs_intros errs_possession) simp_all

lemma errs_handlers: "proof_bearing r \<Longrightarrow> errs (handler r H request)"
proof -
  have "errs (issueTicket H request)"
    unfolding issueTicket_def Let_def by (intro errs_intros errs_possession) simp_all
  moreover have "errs (refreshToken H request)"
    unfolding refreshToken_def rotate_tokens_def Let_def by (intro errs_intros errs_possession) simp_all
  moreover have "errs (listABAEndpoints H request)"
    unfolding listABAEndpoints_def by (intro errs_intros errs_hc)
  moreover have "errs (createSession H request)"
  proof -
    have "errs (\<lambda>x. requireW (b x) 503 error_code x)" for b error_code
      by (auto simp: errs_def requireW_def reject_def returnG_def failG_def split: if_splits)
    then show ?thesis unfolding createSession_def Let_def by (intro errs_intros errs_hc errs_decode errs_key) simp_all
  qed
  moreover have "errs (closeEndpointSession H request)"
    unfolding closeEndpointSession_def Let_def by (intro errs_intros errs_hc errs_decode errs_key) simp_all
  ultimately show "proof_bearing r \<Longrightarrow> errs (handler r H request)"
    by (auto simp: proof_bearing_def)
qed

subsection \<open>A request that is honoured has shown possession of its key\<close>

definition passes :: "http_env \<Rightarrow> http_request \<Rightarrow> (db \<Rightarrow> bool) \<Rightarrow> 'a web \<Rightarrow> bool" where
  "passes H request Q m \<longleftrightarrow> (\<forall>x v x'. m x = (Inr v, x') \<longrightarrow> (\<exists>endpoint token origin x1 nonce x2.
     (Q (server_db x) \<longrightarrow> Q (server_db x1)) \<and>
     prove_possession H request endpoint token origin (he_clock H 0) x1 = (Inr nonce, x2) \<and> (Q (server_db x2) \<longrightarrow> Q (server_db x'))))"

lemma passes_here: "passes H request Q (prove_possession H request endpoint token origin (he_clock H 0))"
  unfolding passes_def by blast

lemma passes_before:
  assumes "passes H request Q m" "\<And>a. keepsDB Q server_db (k a)"
  shows "passes H request Q (bindG m k)"
  unfolding passes_def bindG_Inr
proof (intro allI impI, elim exE conjE)
  fix x v x' a x0
  assume m: "m x = (Inr a, x0)" and k: "k a x0 = (Inr v, x')"
  from assms(1) m obtain endpoint token origin x1 nonce x2 where
      "Q (server_db x) \<longrightarrow> Q (server_db x1)" "prove_possession H request endpoint token origin (he_clock H 0) x1 = (Inr nonce, x2)"
      "Q (server_db x2) \<longrightarrow> Q (server_db x0)" unfolding passes_def by blast
  moreover have "Q (server_db x0) \<longrightarrow> Q (server_db x')" using keepsDB_D [OF assms(2) _ k] by blast
  ultimately show "\<exists>endpoint token origin x1 nonce x2. (Q (server_db x) \<longrightarrow> Q (server_db x1)) \<and>
      prove_possession H request endpoint token origin (he_clock H 0) x1 = (Inr nonce, x2) \<and> (Q (server_db x2) \<longrightarrow> Q (server_db x'))" by blast
qed

lemma passes_after:
  assumes "keepsDB Q server_db m" "\<And>a. passes H request Q (k a)"
  shows "passes H request Q (bindG m k)"
  unfolding passes_def bindG_Inr
proof (intro allI impI, elim exE conjE)
  fix x v x' a x0
  assume m: "m x = (Inr a, x0)" and k: "k a x0 = (Inr v, x')"
  from assms(2) k obtain endpoint token origin x1 nonce x2 where
      "Q (server_db x0) \<longrightarrow> Q (server_db x1)" "prove_possession H request endpoint token origin (he_clock H 0) x1 = (Inr nonce, x2)"
      "Q (server_db x2) \<longrightarrow> Q (server_db x')" unfolding passes_def by blast
  moreover have "Q (server_db x) \<longrightarrow> Q (server_db x0)" using keepsDB_D [OF assms(1) _ m] by blast
  ultimately show "\<exists>endpoint token origin x1 nonce x2. (Q (server_db x) \<longrightarrow> Q (server_db x1)) \<and>
      prove_possession H request endpoint token origin (he_clock H 0) x1 = (Inr nonce, x2) \<and> (Q (server_db x2) \<longrightarrow> Q (server_db x'))" by blast
qed

lemma passes_flow: "passes H request Q (reject n error_code)" "passes H request Q (failG answer)"
  "passes H request Q m \<Longrightarrow> passes H request Q m' \<Longrightarrow> passes H request Q (if b then m else m')"
  "passes H request Q m \<Longrightarrow> (\<And>a. passes H request Q (k a)) \<Longrightarrow> passes H request Q (case y of None \<Rightarrow> m | Some a \<Rightarrow> k a)"
  "(\<And>e. passes H request Q (h e)) \<Longrightarrow> (\<And>a. passes H request Q (k a)) \<Longrightarrow> passes H request Q (case w of Inl e \<Rightarrow> h e | Inr a \<Rightarrow> k a)"
  "(\<And>a b. passes H request Q (l a b)) \<Longrightarrow> passes H request Q (case z of (a, b) \<Rightarrow> l a b)"
  by (simp_all add: passes_def reject_def failG_def split: option.splits sum.splits prod.splits)

context server_invariant
begin

lemma passes_hc: "passes H request Q (authenticateHCRequest H request)"
  unfolding authenticateHCRequest_def Let_def
  by (intro passes_flow passes_after [OF keepsDB_callW] passes_after [OF keepsDB_web(2)] passes_before [OF passes_here] keepsDB_actions store_keeps)

lemma passes_ticket: "passes H request Q (issueTicket H request)"
  unfolding issueTicket_def Let_def
  by (intro passes_flow passes_after [OF keepsDB_callW] passes_before [OF passes_here] keepsDB_actions store_keeps)

lemma passes_refresh: "passes H request Q (refreshToken H request)"
  unfolding refreshToken_def Let_def
  by (intro passes_flow passes_after [OF keepsDB_try [OF keepsDB_call]] passes_after [OF keepsDB_web(5)] passes_before [OF passes_here]
      keepsDB_actions store_keeps keeps_rotate)

lemma passes_handler: "proof_bearing r \<Longrightarrow> passes H request Q (handler r H request)"
proof -
  have online: "keepsDB Q server_db (\<lambda>x. requireW (b x) n error_code x)" for b n error_code
    by (simp add: keepsDB_def requireW_def reject_def returnG_def failG_def)
  have plain: "keepsDB Q server_db (\<lambda>x. (r x, x))" for r :: "exchange \<Rightarrow> (nat \<times> reply) + 'b" by (simp add: keepsDB_def)
  have "passes H request Q (createSession H request)"
    unfolding createSession_def Let_def by (intro passes_before [OF passes_hc] keepsDB_actions store_keeps online)
  moreover have "passes H request Q (closeEndpointSession H request)"
    unfolding closeEndpointSession_def Let_def by (intro passes_before [OF passes_hc] keepsDB_actions store_keeps)
  moreover have "passes H request Q (listABAEndpoints H request)"
    unfolding listABAEndpoints_def by (intro passes_before [OF passes_hc] keepsDB_actions store_keeps plain)
  ultimately show "proof_bearing r \<Longrightarrow> passes H request Q (handler r H request)"
    using passes_ticket passes_refresh by (auto simp: proof_bearing_def)
qed

end

subsection \<open>Proofs are used up\<close>

text \<open>What a proof says: the thumbprint of its key, its identifier and when it was issued.\<close>

definition proof_claims :: "library \<Rightarrow> string \<Rightarrow> (string \<times> string \<times> time) option" where
  "proof_claims L p = (case open_proof L p of
       Inl e \<Rightarrow> None
     | Inr (jwk, jkt, bytes) \<Rightarrow> map_option (\<lambda>claims. (jkt, pc_JTI claims, time_Unix (pc_IssuedAt claims))) (decode_claims L bytes))"

definition proof_window :: duration where
  "proof_window = 5 * Minute + 30 * Second"

lemma challenge_never_succeeds:
  "\<not> writeNonceChallenge H i now x = (Inr v, x')" "\<not> writeDPoPError H i now refusal x = (Inr v, x')"
  by (auto simp: writeNonceChallenge_def writeDPoPError_def bindG_Inr reject_def failG_Inr Let_def split: if_splits sum.splits prod.splits)

lemma rotate_nonce_replays: "rotate_nonce H i h now x = (r, x') \<Longrightarrow> t_replays (server_db x') = t_replays (server_db x)"
proof -
  have "keepsDB (\<lambda>db. t_replays db = t_replays (server_db x)) server_db (rotate_nonce H i h now)"
    unfolding rotate_nonce_def by (intro keepsDB_actions leaves_nonces) simp
  then show "rotate_nonce H i h now x = (r, x') \<Longrightarrow> ?thesis" by (rule keepsDB_D) simp
qed

lemma possession_Inr:
  assumes "prove_possession H request endpoint token origin now x = (Inr nonce, x')"
  shows "\<exists>p D m rq result db. hq_Header request ''DPoP'' = [p] \<and> (\<exists>n. D = ge_drivers (he_env H) n 0) \<and> rq_Now rq = now \<and>
     Verify (ge_library (he_env H)) \<lparr>vr_MaxAge = 0, vr_FutureSkew = 0\<rparr> (storeReplayCache_Use D m) (he_clock H 9) p rq (server_db x) = (Inr result, db) \<and>
     t_replays (server_db x') = t_replays db"
proof -
  from assms obtain nonceHash x1 where look: "tryW (callS (he_env H) (\<lambda>D. GetEndpointNonceHash D (ep_ID endpoint) now)) x = (Inr (Inr nonceHash), x1)"
    and judged: "judge_proof H request endpoint token origin now nonceHash x1 = (Inr nonce, x')"
    unfolding prove_possession_def bindG_Inr
    by (elim exE conjE) (auto simp: challenge_never_succeeds failG_Inr split: sum.split_asm if_split_asm)
  have same: "server_db x1 = server_db x"
    using look by (auto simp: tryW_def callS_def server_db_def GetEndpointNonceHash_def Let_def case_prod_unfold)
  let ?rq = "\<lparr>rq_AccessToken = token, rq_ExpectedJKT = ep_SigningJKT endpoint, rq_ExpectedNonce = [], rq_ExpectedNonceHash = nonceHash,
      rq_HTM = hq_Method request, rq_HTU = origin @ hq_RequestURI request, rq_Now = now\<rparr>"
  from judged obtain p verdict x2 where p: "hq_Header request ''DPoP'' = [p]"
    and judged': "serveW writeDomainError (verify_proof H p ?rq) x1 = (Inr verdict, x2)"
      "(case verdict of Inl refusal \<Rightarrow> writeDPoPError H (ep_ID endpoint) now refusal
        | Inr result \<Rightarrow> rotate_nonce H (ep_ID endpoint) nonceHash now) x2 = (Inr nonce, x')"
    unfolding judge_proof_def
    by (auto simp: challenge_never_succeeds bindG_Inr reject_def failG_Inr split: list.split_asm if_split_asm)
  then obtain result where verified: "serveW writeDomainError (verify_proof H p ?rq) x1 = (Inr (Inr result), x2)"
    and rotated: "rotate_nonce H (ep_ID endpoint) nonceHash now x2 = (Inr nonce, x')"
    by (cases verdict) (auto simp: challenge_never_succeeds)
  from verified obtain D m n where "D = ge_drivers (he_env H) n 0"
    "Verify (ge_library (he_env H)) \<lparr>vr_MaxAge = 0, vr_FutureSkew = 0\<rparr> (storeReplayCache_Use D m) (he_clock H 9) p ?rq (server_db x1) = (Inr result, server_db x2)"
    by (auto simp: serveW_def tryW_def verify_proof_def bindG_Inr server_db_def Let_def returnG_Inr failG_Inr split: prod.splits sum.splits)
  with p same rotate_nonce_replays [OF rotated] show ?thesis by (metis Requirements.select_convs(7))
qed

text \<open>A proof that is honoured was not recorded, and is recorded from then on.\<close>

lemma possession_spends:
  assumes "prove_possession H request endpoint token origin now x = (Inr nonce, x')" "lawful (he_env H)" "0 < now"
  shows "\<exists>p jkt jti issued. hq_Header request ''DPoP'' = [p] \<and> proof_claims (ge_library (he_env H)) p = Some (jkt, jti, issued) \<and>
     now < issued + proof_window \<and> \<not> replay_recorded jkt jti (issued + proof_window) (server_db x) \<and>
     replay_recorded jkt jti (issued + proof_window) (server_db x')"
proof -
  from possession_Inr [OF assms(1)] obtain p D m rq result db n where p: "hq_Header request ''DPoP'' = [p]" "D = ge_drivers (he_env H) n 0" "rq_Now rq = now"
    and verified: "Verify (ge_library (he_env H)) \<lparr>vr_MaxAge = 0, vr_FutureSkew = 0\<rparr> (storeReplayCache_Use D m) (he_clock H 9) p rq (server_db x) = (Inr result, db)"
    and kept: "t_replays (server_db x') = t_replays db" by blast
  have time: "verification_time (he_clock H 9) rq = now" using p(3) assms(3) by (simp add: verification_time_def IsZeroTime_def)
  have window: "max_age \<lparr>vr_MaxAge = 0, vr_FutureSkew = 0\<rparr> + future_skew \<lparr>vr_MaxAge = 0, vr_FutureSkew = 0\<rparr> = proof_window"
    by (simp add: max_age_def future_skew_def proof_window_def)
  have laws: "database_laws D" using assms(2) p(2) by (simp add: lawful_def)
  from Verify_Inr [OF verified] obtain jkt jti issued where claims: "proof_claims (ge_library (he_env H)) p = Some (jkt, jti, issued)"
    and used: "storeReplayCache_Use D m jkt jti now (issued + proof_window) (server_db x) = (None, db)"
    by (auto simp: proof_claims_def time window)
  from store_cache.accepts [of "(D, m)", simplified, OF laws used]
  have open_window: "now < issued + proof_window" and "replay_recorded jkt jti (issued + proof_window) db" by auto
  moreover have "\<not> replay_recorded jkt jti (issued + proof_window) (server_db x)"
    using store_cache.refuses [of "(D, m)", simplified, OF laws _ open_window] used by (metis fst_conv option.discI)
  moreover have "replay_recorded jkt jti t (server_db x') = replay_recorded jkt jti t db" for t
    using kept by (simp add: replay_recorded_def)
  ultimately show ?thesis using p(1) claims by blast
qed

definition honoured :: "http_env \<Rightarrow> route \<Rightarrow> http_request \<Rightarrow> gateway \<Rightarrow> bool" where
  "honoured H r request g \<longleftrightarrow> proof_bearing r \<and> hs_Status (fst (serve H r request g)) < 400"

lemma honoured_spends:
  assumes "honoured H r request g" "lawful (he_env H)" "0 < he_clock H 0"
  shows "\<exists>p jkt jti issued. hq_Header request ''DPoP'' = [p] \<and> proof_claims (ge_library (he_env H)) p = Some (jkt, jti, issued) \<and>
     he_clock H 0 < issued + proof_window \<and> \<not> replay_recorded jkt jti (issued + proof_window) (gs_db g) \<and>
     replay_recorded jkt jti (issued + proof_window) (gs_db (snd (serve H r request g)))"
proof -
  obtain headers where served: "serve H r request g = respond (handler r H request) headers g"
    using assms(1) unfolding honoured_def serve_def cors_def
    by (auto simp: respond_def reject_def failG_def Let_def split: if_split_asm)
  let ?x = "\<lparr>ex_server = g, ex_headers = headers, ex_cookie = None\<rparr>"
  obtain v x' where run: "handler r H request ?x = (v, x')" by fastforce
  have bearing: "proof_bearing r" using assms(1) by (simp add: honoured_def)
  have "hs_Status (fst (serve H r request g)) < 400" using assms(1) by (simp add: honoured_def)
  with run errs_handlers [OF bearing, of H request] obtain a where v: "v = Inr a"
    by (cases v) (auto simp: served respond_def errs_def dest!: spec)
  have end_db: "gs_db (snd (serve H r request g)) = server_db x'" and start_db: "server_db ?x = gs_db g"
    by (simp_all add: served respond_snd run server_db_def)
  from used_proof.passes_handler [OF bearing, of H request] run v obtain p jkt jti issued where
    p: "hq_Header request ''DPoP'' = [p]" "proof_claims (ge_library (he_env H)) p = Some (jkt, jti, issued)"
    unfolding passes_def using possession_spends [OF _ assms(2,3)] by metis
  let ?Q = "replay_recorded jkt jti (issued + proof_window)"
  from used_proof.passes_handler [OF bearing, of H request jkt jti "issued + proof_window"] run v
  obtain endpoint token origin x1 nonce x2 where "?Q (gs_db g) \<longrightarrow> ?Q (server_db x1)" "?Q (server_db x2) \<longrightarrow> ?Q (server_db x')"
    and poss: "prove_possession H request endpoint token origin (he_clock H 0) x1 = (Inr nonce, x2)"
    unfolding passes_def start_db [symmetric] by blast
  with possession_spends [OF poss assms(2,3)] p show ?thesis by (auto simp: end_db)
qed

text \<open>The proofs of the requests that are honoured, over a history.\<close>

fun event_proofs :: "server_event \<Rightarrow> gateway \<Rightarrow> string list" where
  "event_proofs (Request H r request) g = (if honoured H r request g then hq_Header request ''DPoP'' else [])"
| "event_proofs _ g = []"

fun honoured_proofs :: "server_event list \<Rightarrow> server \<Rightarrow> string list" where
  "honoured_proofs [] s = []"
| "honoured_proofs (e # events) s = event_proofs e (sy_gateway s) @ honoured_proofs events (server_step e s)"

definition gateway_history :: "library \<Rightarrow> server_event list \<Rightarrow> bool" where
  "gateway_history L events \<longleftrightarrow> (\<forall>e \<in> set events. lawful (he_env (event_env e)) \<and> ge_library (he_env (event_env e)) = L) \<and>
     sorted (concat (map event_times events)) \<and> (\<forall>t \<in> set (concat (map event_times events)). 0 < t)"

fun spent :: "time \<Rightarrow> string \<times> string \<times> time \<Rightarrow> db \<Rightarrow> bool" where
  "spent t (jkt, jti, issued) db \<longleftrightarrow> issued + proof_window \<le> t \<or> replay_recorded jkt jti (issued + proof_window) db"

lemma spent_mono: "spent t c db \<Longrightarrow> t \<le> t' \<Longrightarrow> spent t' c db"
  by (cases c) auto

lemma history_step:
  "gateway_history L (e # events) \<Longrightarrow> gateway_history L events \<and> lawful (he_env (event_env e)) \<and> ge_library (he_env (event_env e)) = L \<and>
     (\<forall>t \<in> set (event_times e). 0 < t \<and> (\<forall>t' \<in> set (concat (map event_times events)). t \<le> t'))"
  by (auto simp: gateway_history_def sorted_append)

text \<open>The time that has passed for sure after an event.\<close>

definition after_event :: "time \<Rightarrow> server_event \<Rightarrow> time" where
  "after_event t e = foldl max t (event_times e)"

lemma spent_step:
  assumes "lawful (he_env (event_env e))" "\<forall>t' \<in> set (event_times e). 0 < t' \<and> t \<le> t'" "spent t c (gs_db (sy_gateway s))"
  shows "spent (after_event t e) c (gs_db (sy_gateway (server_step e s)))"
proof -
  obtain jkt jti issued where c: "c = (jkt, jti, issued)" by (cases c)
  show ?thesis
  proof (cases "issued + proof_window \<le> after_event t e")
    case False
    have "event_times e = [] \<or> (\<exists>t'. event_times e = [t'])" by (cases e) auto
    with False assms(2) have before: "\<forall>t' \<in> set (event_times e). t' < issued + proof_window" "t < issued + proof_window"
      by (auto simp: after_event_def)
    with assms have "well_timed (\<lambda>now. now < issued + proof_window) e" by (auto simp: well_timed_def)
    with assms(3) before(2) have "replay_recorded jkt jti (issued + proof_window) (gs_db (sy_gateway (server_step e s)))"
      by (intro used_proof.keeps_step) (auto simp: c)
    then show ?thesis by (simp add: c)
  qed (simp add: c)
qed

lemma spent_not_honoured:
  "\<lbrakk>gateway_history L events; \<forall>t' \<in> set (concat (map event_times events)). t \<le> t'; spent t c (gs_db (sy_gateway s))\<rbrakk> \<Longrightarrow>
     Some c \<notin> proof_claims L ` set (honoured_proofs events s)"
proof (induction events arbitrary: s t)
  case (Cons e events)
  note hist = history_step [OF Cons.prems(1)]
  have "Some c \<notin> proof_claims L ` set (event_proofs e (sy_gateway s))"
  proof (cases e)
    case (Request H r request)
    show ?thesis
    proof (cases "honoured H r request (sy_gateway s)")
      case True
      from honoured_spends [OF True] hist Cons.prems(2,3) show ?thesis by (cases c) (fastforce simp: Request True)
    qed (simp add: Request)
  qed simp_all
  moreover have "Some c \<notin> proof_claims L ` set (honoured_proofs events (server_step e s))"
  proof (rule Cons.IH)
    show "spent (after_event t e) c (gs_db (sy_gateway (server_step e s)))"
      using hist Cons.prems(2,3) by (intro spent_step) auto
    have "event_times e = [] \<or> (\<exists>t'. event_times e = [t'])" by (cases e) auto
    then show "\<forall>t' \<in> set (concat (map event_times events)). after_event t e \<le> t'"
      using hist Cons.prems(2) by (auto simp: after_event_def)
  qed (use hist in simp)
  ultimately show ?case by (auto simp: image_Un)
qed simp


definition sample_http_env :: http_env where
  "sample_http_env = \<lparr>he_env = tunnel_env,
     he_config = \<lparr>cf_AllowedOrigin = ''https://p.example'', cf_ExternalOrigin = ''https://p.example'', cf_NativeExternalOrigin = ''https://p.example'',
       cf_NonceTTL = Minute, cf_TicketTTL = Second, cf_ReplayMaxEntries = 10, cf_AccessTTL = Minute, cf_RefreshTTL = Hour, cf_VerificationURI = []\<rparr>,
     he_clock = (\<lambda>n. Hour + int n), he_sign = (\<lambda>digest. Inr (1, 1)), he_revision = 1, he_session_json = (\<lambda>_. Inr [1]),
     he_request_json = (\<lambda>_ _. Inr [1]), he_raw_member = (\<lambda>_ _. []), he_open_request = (\<lambda>_. Inr [1]), he_close_request = (\<lambda>_. Inr [1])\<rparr>"

definition sample_request :: http_request where
  "sample_request = \<lparr>hq_Method = ''POST'', hq_RequestURI = ''/gateway/v1/ws/tickets'', hq_PathValue = (\<lambda>_. []),
     hq_Header = (\<lambda>name. if name = ''DPoP'' then [''p''] else []), hq_Cookie = (\<lambda>_. None), hq_Body = []\<rparr>"


end
