(* ===== verification/Handshake_Safety.thy ===== *)
theory Handshake_Safety
  imports Gateway_System
begin

section \<open>Connections are authenticated by their endpoints\<close>

text \<open>
  The answer to a challenge is a signature over the identifier, the generation and the nonce of one
  connection.  Generations are never given twice, so that an answer opens one connection only,
  over every history of the gateway.
\<close>

definition handshake_key :: "handshake \<Rightarrow> ID \<times> u64" where
  "handshake_key h = (ep_ID (hk_endpoint h), hk_generation h)"

text \<open>Every challenge that waits for its answer has a number of its own, and no number above the counters is given.\<close>

definition numbering :: "(ID \<Rightarrow> u64) \<Rightarrow> server \<Rightarrow> bool" where
  "numbering c s \<longleftrightarrow> numbered c (gs_db (sy_gateway s)) \<and>
     (\<forall>a h. sy_sockets s a = Some (Waiting h) \<longrightarrow> hk_generation h \<le> c (ep_ID (hk_endpoint h))) \<and>
     (\<forall>a b h h'. sy_sockets s a = Some (Waiting h) \<longrightarrow> sy_sockets s b = Some (Waiting h') \<longrightarrow>
        handshake_key h = handshake_key h' \<longrightarrow> a = b)"

lemma begin_numbers:
  assumes "begin_challenge H endpoint credential subprotocol now g = (r, g')" "lawful (he_env H)" "numbered c (gs_db g)"
  shows "isl r \<and> numbered c (gs_db g') \<or>
     numbered (c(ep_ID endpoint := c (ep_ID endpoint) + 1)) (gs_db g') \<and>
     (\<forall>packet h. r = Inr (packet, h) \<longrightarrow> hk_endpoint h = endpoint \<and> hk_generation h = c (ep_ID endpoint) + 1)"
proof -
  let ?i = "ep_ID endpoint"
  have draws: "gs_db (snd (randomBytes n g)) = gs_db g" for n g by (simp add: randomBytes_def)
  obtain r1 g1 where d1: "randomBytes 16 g = (r1, g1)" by fastforce
  obtain r2 g2 where d2: "randomBytes 16 g1 = (r2, g2)" by fastforce
  obtain r3 g3 where d3: "randomBytes 32 g2 = (r3, g3)" by fastforce
  have dbs: "gs_db g1 = gs_db g" "gs_db g2 = gs_db g" "gs_db g3 = gs_db g"
    using draws [of 16 g] draws [of 16 g1] draws [of 32 g2] d1 d2 d3 by auto
  let ?D = "ge_drivers (he_env H) (gs_calls g3) 0"
  obtain res db' where call: "NextConnectionGeneration ?D ?i now (gs_db g) = (res, db')" by fastforce
  have laws: "database_laws ?D" using assms(2) by (simp add: lawful_def)
  have keys: "generation_keys (gs_db g)" and at: "current_generation j (gs_db g) = c j" for j
    using assms(3) by (simp_all add: numbered_def)
  have step: "generation_keys db' \<and> (isl res \<and> db' = gs_db g \<or>
      (\<forall>j. current_generation j db' = c j + (if j = ?i then 1 else 0)) \<and>
      res = (if current_generation ?i db' = 0 then Inl (problem CodeConflict) else Inr (current_generation ?i db')))"
    using generation_step [OF laws keys call] by (simp add: at)
  show ?thesis
  proof (cases "isl res \<and> db' = gs_db g")
    case True
    then show ?thesis
      using assms(1,3) call dbs unfolding begin_challenge_def bindG_def callG_def persistG_def
      by (auto simp: d1 d2 d3 isl_def split: sum.splits prod.splits)
  next
    case False
    with step have new: "numbered (c(?i := c ?i + 1)) db'" "map_sum OtherError id res = Inr v \<Longrightarrow> v = c ?i + 1" for v
      by (auto simp: numbered_def split: if_splits)
    then show ?thesis
      using assms(1,3) call dbs unfolding begin_challenge_def bindG_def callG_def persistG_def
      by (auto simp: d1 d2 d3 returnG_def liftG_def failG_def split: sum.splits prod.splits)
  qed
qed

text \<open>How the counters and the waiting challenges may change in a step.\<close>

definition advances :: "(ID \<Rightarrow> u64) \<Rightarrow> server \<Rightarrow> (ID \<Rightarrow> u64) \<Rightarrow> server \<Rightarrow> bool" where
  "advances c s c' s' \<longleftrightarrow> numbering c' s' \<and> (\<forall>i. c i \<le> c' i \<and> unat (c' i) \<le> unat (c i) + 1) \<and>
     (\<forall>a h. sy_sockets s' a = Some (Waiting h) \<longrightarrow> sy_sockets s a = Some (Waiting h) \<or> c (ep_ID (hk_endpoint h)) < hk_generation h)"

lemma advances_same:
  assumes "numbering c s" "numbered c (gs_db (sy_gateway s'))"
    "\<And>a h. sy_sockets s' a = Some (Waiting h) \<Longrightarrow> sy_sockets s a = Some (Waiting h)"
  shows "advances c s c s'"
  using assms by (auto simp: advances_def numbering_def)

lemma socket_kept:
  assumes "\<And>H a request negotiated. e \<noteq> Upgrade H a request negotiated" "sy_sockets (server_step e s) a = Some (Waiting h)"
  shows "sy_sockets s a = Some (Waiting h)"
  using assms by (cases e) (auto simp: answer_step_def put_socket_def split: option.splits socket.splits prod.splits sum.splits bool.splits if_splits)

lemma next_number: "unat (n :: u64) + 1 < 2 ^ 64 \<Longrightarrow> n < n + 1 \<and> unat (n + 1) = unat n + 1"
  using unat_u64_Suc [of n] by (simp add: word_less_nat_alt)

lemma advances_put:
  assumes "numbering c s" "sy_sockets s a = None" "numbered c' (gs_db g)" "\<And>i. c i \<le> c' i \<and> unat (c' i) \<le> unat (c i) + 1"
    and new: "\<And>h. k = Waiting h \<Longrightarrow> c (ep_ID (hk_endpoint h)) < hk_generation h \<and> hk_generation h \<le> c' (ep_ID (hk_endpoint h))"
  shows "advances c s c' (put_socket a k g s)"
proof -
  have old: "hk_generation h \<le> c (ep_ID (hk_endpoint h))" if "sy_sockets s b = Some (Waiting h)" for b h
    using that assms(1) by (auto simp: numbering_def)
  then have old': "hk_generation h \<le> c' (ep_ID (hk_endpoint h))" if "sy_sockets s b = Some (Waiting h)" for b h
    using that assms(4) order_trans by blast
  have differ: "handshake_key h \<noteq> handshake_key h'" if "k = Waiting h" "sy_sockets s b = Some (Waiting h')" for b h h'
    using new [OF that(1)] old [OF that(2)] by (auto simp: handshake_key_def)
  have shape: "sy_sockets (put_socket a k g s) b = Some (Waiting h) \<longleftrightarrow> b = a \<and> k = Waiting h \<or> sy_sockets s b = Some (Waiting h)" for b h
    using assms(2) by (auto simp: put_socket_def)
  have "b = b'" if "sy_sockets (put_socket a k g s) b = Some (Waiting h)" "sy_sockets (put_socket a k g s) b' = Some (Waiting h')"
      "handshake_key h = handshake_key h'" for b b' h h'
    using that differ [of h b' h'] differ [of h' b h] assms(1) unfolding shape numbering_def by metis
  moreover have "numbered c' (gs_db (sy_gateway (put_socket a k g s)))" using assms(3) by (simp add: put_socket_def)
  ultimately have "numbering c' (put_socket a k g s)"
    unfolding numbering_def using old' new shape by blast
  then show ?thesis unfolding advances_def using assms(4) new shape by blast
qed

lemma begin_advances:
  assumes "numbering c s" "lawful (he_env H)" "\<forall>i. unat (c i) + 1 < 2 ^ 64" "sy_sockets s a = None" "numbered c (gs_db g0)"
    and begun: "begin_challenge H endpoint credential subprotocol now g0 = (v, g)"
  shows "\<exists>c'. advances c s c' (put_socket a (case v of Inl e \<Rightarrow> Finished | Inr (packet, h) \<Rightarrow> Waiting h) g s)"
proof -
  let ?i = "ep_ID endpoint"
  let ?c = "c(?i := c ?i + 1)"
  from begin_numbers [OF begun assms(2,5)] show ?thesis
  proof
    assume "isl v \<and> numbered c (gs_db g)"
    then show ?thesis using assms(1,4) by (intro exI [of _ c] advances_put) (auto simp: isl_def)
  next
    assume "numbered ?c (gs_db g) \<and> (\<forall>packet h. v = Inr (packet, h) \<longrightarrow> hk_endpoint h = endpoint \<and> hk_generation h = c ?i + 1)"
    then show ?thesis using assms(1,4) next_number [of "c ?i"] assms(3)
      by (intro exI [of _ ?c] advances_put) (auto simp: less_imp_le split: sum.split_asm prod.split_asm)
  qed
qed

lemma upgrade_advances:
  assumes "numbering c s" "lawful (he_env H)" "\<forall>i. unat (c i) + 1 < 2 ^ 64"
  shows "\<exists>c'. advances c s c' (upgrade_step H a request negotiated s)"
proof -
  obtain r x where redeemed: "redeem_ticket H request \<lparr>ex_server = sy_gateway s, ex_headers = [], ex_cookie = None\<rparr> = (r, x)" by fastforce
  have db: "numbered c (gs_db (sy_gateway s))" using assms(1) by (simp add: numbering_def)
  then have x: "numbered c (gs_db (ex_server x))"
    using keepsDB_D [OF numbers.keeps_redeem _ redeemed] by (simp add: server_db_def)
  have idle: "\<exists>c'. advances c s c' s" "\<exists>c'. advances c s c' (s\<lparr>sy_gateway := ex_server x\<rparr>)"
    using assms(1) db x by (auto intro!: advances_same exI [of _ c])
  show ?thesis
  proof (cases "sy_sockets s a")
    case None
    have "\<exists>c'. advances c s c' (case begin_challenge H endpoint credential sub (he_clock H 0) (ex_server x) of
        (Inl e, g) \<Rightarrow> put_socket a Finished g s | (Inr (packet, h), g) \<Rightarrow> put_socket a (Waiting h) g s)" for endpoint credential sub
    proof -
      obtain v g where begun: "begin_challenge H endpoint credential sub (he_clock H 0) (ex_server x) = (v, g)" by fastforce
      from begin_advances [OF assms None x begun] show ?thesis by (cases v) (auto simp: begun)
    qed
    with idle show ?thesis by (auto simp: upgrade_step_def redeemed Let_def split: sum.splits option.splits)
  qed (use idle in \<open>simp add: upgrade_step_def\<close>)
qed

lemma step_advances:
  assumes "numbering c s" "lawful (he_env (event_env e))" "\<forall>t \<in> set (event_times e). 0 < t" "\<forall>i. unat (c i) + 1 < 2 ^ 64"
  shows "\<exists>c'. advances c s c' (server_step e s)"
proof (cases "\<exists>H a request negotiated. e = Upgrade H a request negotiated")
  case True
  with assms upgrade_advances show ?thesis by auto
next
  case False
  then have "numbered c (gs_db (sy_gateway (server_step e s)))"
    using assms(1-3) by (intro numbers.keeps_other) (auto simp: well_timed_def numbering_def)
  then have "advances c s c (server_step e s)"
    using False socket_kept [of e s] assms(1) by (intro advances_same) auto
  then show ?thesis by (rule exI [of _ c])
qed

lemma room_for_one: "\<forall>i. unat (c i) + length (e # events) < 2 ^ 64 \<Longrightarrow> \<forall>i. unat (c i :: u64) + 1 < 2 ^ 64"
proof
  fix i assume "\<forall>i. unat (c i) + length (e # events) < 2 ^ 64"
  from spec [OF this, of i] show "unat (c i) + 1 < 2 ^ 64" by simp
qed

lemma room_for_rest:
  assumes "\<forall>i. unat (c i) + length (e # events) < 2 ^ 64" "\<And>i. c i \<le> c' i \<and> unat (c' i :: u64) \<le> unat (c i) + 1"
  shows "\<forall>i. unat (c' i) + length events < 2 ^ 64"
proof
  fix i show "unat (c' i) + length events < 2 ^ 64" using spec [OF assms(1), of i] assms(2) [of i] by simp
qed

text \<open>The answers that are accepted, each with the challenge it answers.\<close>

fun event_answers :: "server_event \<Rightarrow> server \<Rightarrow> (handshake \<times> byte list) list" where
  "event_answers (Answer H a binary message readyAt seenAt) s = (case sy_sockets s a of
     Some (Waiting h) \<Rightarrow> if isl (fst (finish_challenge H h binary message readyAt (sy_gateway s))) then [] else [(h, message)]
   | _ \<Rightarrow> [])"
| "event_answers _ s = []"

fun accepted_answers :: "server_event list \<Rightarrow> server \<Rightarrow> (handshake \<times> byte list) list" where
  "accepted_answers [] s = []"
| "accepted_answers (e # events) s = event_answers e s @ accepted_answers events (server_step e s)"

text \<open>A later answer belongs to a challenge that waits now, or to one with a greater number.\<close>

lemma later_answers:
  assumes "numbering c s" "\<forall>e \<in> set events. lawful (he_env (event_env e)) \<and> (\<forall>t \<in> set (event_times e). 0 < t)"
    "\<forall>i. unat (c i) + length events < 2 ^ 64" "(h, m) \<in> set (accepted_answers events s)"
  shows "(\<exists>a. sy_sockets s a = Some (Waiting h)) \<or> c (ep_ID (hk_endpoint h)) < hk_generation h"
  using assms
proof (induction events arbitrary: s c)
  case (Cons e events)
  from room_for_one [OF Cons.prems(3)] Cons.prems obtain c' where adv: "advances c s c' (server_step e s)"
    using step_advances [of c s e] by auto
  then have step: "numbering c' (server_step e s)" "\<And>i. c i \<le> c' i \<and> unat (c' i) \<le> unat (c i) + 1" by (auto simp: advances_def)
  show ?case
  proof (cases "(h, m) \<in> set (event_answers e s)")
    case True
    then show ?thesis by (cases e) (auto split: option.splits socket.splits if_splits)
  next
    case False
    from room_for_rest [OF Cons.prems(3) step(2)]
    have "(\<exists>a. sy_sockets (server_step e s) a = Some (Waiting h)) \<or> c' (ep_ID (hk_endpoint h)) < hk_generation h"
      using Cons.IH [OF step(1)] Cons.prems(2,4) False by auto
    with adv step(2) show ?thesis unfolding advances_def by (metis le_less_trans)
  qed
qed simp

lemma answered_once:
  assumes "numbering c s" "\<forall>e \<in> set events. lawful (he_env (event_env e)) \<and> (\<forall>t \<in> set (event_times e). 0 < t)"
    "\<forall>i. unat (c i) + length events < 2 ^ 64"
  shows "distinct (map (handshake_key \<circ> fst) (accepted_answers events s))"
  using assms
proof (induction events arbitrary: s c)
  case (Cons e events)
  from room_for_one [OF Cons.prems(3)] Cons.prems obtain c' where adv: "advances c s c' (server_step e s)"
    using step_advances [of c s e] by auto
  then have step: "numbering c' (server_step e s)" "\<And>i. c i \<le> c' i \<and> unat (c' i) \<le> unat (c i) + 1" by (auto simp: advances_def)
  note room = room_for_rest [OF Cons.prems(3) step(2)]
  have rest: "distinct (map (handshake_key \<circ> fst) (accepted_answers events (server_step e s)))"
    by (rule Cons.IH [OF step(1) _ room]) (use Cons.prems(2) in simp)
  show ?case
  proof (cases "event_answers e s = []")
    case False
    then obtain H a binary message readyAt seenAt h where e: "e = Answer H a binary message readyAt seenAt"
      and waiting: "sy_sockets s a = Some (Waiting h)" and ans: "event_answers e s = [(h, message)]"
      by (cases e) (auto split: option.splits socket.splits if_splits)
    have gone: "sy_sockets (server_step e s) a \<noteq> Some (Waiting h')" for h'
      by (auto simp: e answer_step_def waiting put_socket_def split: prod.splits sum.splits)
    have old: "hk_generation h \<le> c (ep_ID (hk_endpoint h))" using waiting Cons.prems(1) by (auto simp: numbering_def)
    have "handshake_key h \<noteq> handshake_key h'" if "(h', m) \<in> set (accepted_answers events (server_step e s))" for h' m
    proof
      assume same: "handshake_key h = handshake_key h'"
      from later_answers [OF step(1) _ room that] Cons.prems(2)
      consider b where "sy_sockets (server_step e s) b = Some (Waiting h')" | "c' (ep_ID (hk_endpoint h')) < hk_generation h'" by auto
      then show False
      proof cases
        case 1
        with socket_kept [of e s b h'] e have "sy_sockets s b = Some (Waiting h')" by simp
        with same waiting Cons.prems(1) have "b = a" unfolding numbering_def by metis
        with 1 gone show False by simp
      next
        case 2
        with same old step(2) [of "ep_ID (hk_endpoint h)"] show False by (auto simp: handshake_key_def)
      qed
    qed
    then have "handshake_key h \<notin> (handshake_key \<circ> fst) ` set (accepted_answers events (server_step e s))" by force
    with rest ans show ?thesis by (simp add: comp_def)
  qed (use rest in \<open>simp add: comp_def\<close>)
qed simp

text \<open>What was checked of an accepted answer.\<close>

definition answers_challenge :: "library \<Rightarrow> wire_codec \<Rightarrow> handshake \<Rightarrow> byte list \<Rightarrow> bool" where
  "answers_challenge L codec h message \<longleftrightarrow> (\<exists>packet response statement jwk.
     wi_packet codec message = Some packet \<and> wk_Body packet = ChallengeResponseBody response \<and>
     (wp_EndpointId response, wp_ConnectionGeneration response) = handshake_key h \<and>
     client_statement h response = Inr statement \<and>
     ParseP256PublicJWK (lib_json L) (ep_SigningPublicJWK (hk_endpoint h)) = Inr jwk \<and>
     signed_by L jwk statement (wp_EndpointSignature response))"

lemma check_response_answers:
  assumes "check_response H h binary message g = (Inr u, g')"
  shows "answers_challenge (ge_library (he_env H)) (ge_codec (he_env H)) h message"
proof -
  from assms obtain packet g1 where decoded: "wi_packet (ge_codec (he_env H)) message = Some packet"
    and checked: "(case wk_Body packet of
       ChallengeResponseBody response \<Rightarrow>
         bindG (guardG (\<not> response_bound H h packet response)) (\<lambda>_.
         bindG (liftG (client_statement h response)) (\<lambda>clientTranscript.
         bindG (liftG (ParseP256PublicJWK (lib_json (ge_library (he_env H))) (ep_SigningPublicJWK (hk_endpoint h)))) (\<lambda>signingJWK.
         guardG (\<not> signed_by (ge_library (he_env H)) signingJWK clientTranscript (wp_EndpointSignature response)))))
     | _ \<Rightarrow> failG (OtherError Plain)) g1 = (Inr u, g')"
    unfolding check_response_def by (auto simp: gw_Inr)
  from checked obtain response where body: "wk_Body packet = ChallengeResponseBody response"
    by (auto simp: failG_Inr split: wire_body.split_asm)
  from checked decoded show ?thesis
    unfolding answers_challenge_def by (auto simp: body gw_Inr response_bound_def handshake_key_def)
qed

lemma accepted_answers_challenge:
  "\<lbrakk>\<forall>e \<in> set events. ge_library (he_env (event_env e)) = L \<and> ge_codec (he_env (event_env e)) = codec; (h, m) \<in> set (accepted_answers events s)\<rbrakk> \<Longrightarrow>
     answers_challenge L codec h m"
proof (induction events arbitrary: s)
  case (Cons e events)
  show ?case
  proof (cases "(h, m) \<in> set (event_answers e s)")
    case True
    then obtain H a binary readyAt seenAt where e: "e = Answer H a binary m readyAt seenAt"
      and "\<not> isl (fst (finish_challenge H h binary m readyAt (sy_gateway s)))"
      by (cases e) (auto split: option.splits socket.splits if_splits)
    then obtain u g where "check_response H h binary m (sy_gateway s) = (Inr u, g)"
      by (cases "check_response H h binary m (sy_gateway s)") (auto simp: finish_challenge_def bindG_def split: sum.splits)
    from check_response_answers [OF this] Cons.prems(1) show ?thesis by (simp add: e)
  qed (use Cons in auto)
qed simp

text \<open>
  C7.  An answer to a challenge opens one connection.  Over any history of the gateway, with requests, upgrades,
  packets and failures of the database in any order, every accepted answer is signed with the key of the
  endpoint over the identifier, generation and nonce of the challenge it answers, no two
  connections of an endpoint have the same generation, and no answer is accepted twice: one that was recorded
  opens nothing.  The counters are 64-bit words; the history is shorter than what is left of them.
\<close>

theorem handshake_never_replayed:
  assumes "numbering c s" "\<forall>i. unat (c i) + length events < 2 ^ 64"
    and "\<forall>e \<in> set events. lawful (he_env (event_env e)) \<and> (\<forall>t \<in> set (event_times e). 0 < t)"
    and "\<forall>e \<in> set events. ge_library (he_env (event_env e)) = L \<and> ge_codec (he_env (event_env e)) = codec"
  shows "(\<forall>(h, m) \<in> set (accepted_answers events s). answers_challenge L codec h m) \<and>
     distinct (map (handshake_key \<circ> fst) (accepted_answers events s)) \<and> distinct (map snd (accepted_answers events s))"
proof -
  let ?accepted = "accepted_answers events s"
  have signed: "answers_challenge L codec h m" if "(h, m) \<in> set ?accepted" for h m
    using that assms(4) by (intro accepted_answers_challenge)
  have once: "distinct (map (handshake_key \<circ> fst) ?accepted)" using assms by (intro answered_once)
  have "inj_on snd (set ?accepted)"
  proof (rule inj_onI)
    fix x y assume xy: "x \<in> set ?accepted" "y \<in> set ?accepted" "snd x = snd y"
    then have "answers_challenge L codec (fst x) (snd y)" "answers_challenge L codec (fst y) (snd y)"
      using signed by (metis prod.collapse)+
    then have "(handshake_key \<circ> fst) x = (handshake_key \<circ> fst) y" by (auto simp: answers_challenge_def)
    with xy once show "x = y" by (auto simp: distinct_map inj_on_def)
  qed
  with once signed show ?thesis by (auto simp: distinct_map)
qed

text \<open>An endpoint that answers its first challenge.\<close>

definition sample_answer :: WirePacket where
  "sample_answer = wire_packet (wid 8) (ChallengeResponseBody \<lparr>wp_ConnectionId = wid 5, wp_ConnectionGeneration = 1, wp_EndpointId = wid 1,
     wp_CredentialSerial = wid 6, wp_ClientNonce = replicate 32 1, wp_LastManifestRevision = 1, wp_LastCredentialStatusRevision = 1,
     wp_EndpointSignature = replicate 31 0 @ [1] @ replicate 31 0 @ [1]\<rparr>)"

definition answering_env :: http_env where
  "answering_env = sample_http_env\<lparr>he_env := tunnel_env\<lparr>ge_codec := (ge_codec tunnel_env)\<lparr>wi_packet := (\<lambda>bs. Some sample_answer),
     wi_encode := (\<lambda>packet. Inr [1])\<rparr>\<rparr>\<rparr>"

definition waiting_handshake :: handshake where
  "waiting_handshake = \<lparr>hk_endpoint = tunnel_endpoint, hk_credential = new_access (wid 6) tunnel_endpoint [] Hour 1, hk_subprotocol = protocolName,
     hk_connectionID = wid 5, hk_generation = 1, hk_serverNonce = replicate 32 2\<rparr>"

definition challenged_server :: server where
  "challenged_server = \<lparr>sy_gateway = tunnel_state\<lparr>gs_random := replicate 48 3,
     gs_db := (gs_db tunnel_state)\<lparr>t_generations := [\<lparr>gw_EndpointID = ID_String (wid 1), gw_Generation = 1, gw_UpdatedAt = 5\<rparr>]\<rparr>\<rparr>,
     sy_sockets = [0 \<mapsto> Waiting waiting_handshake]\<rparr>"

lemma sample_answer_checked: "check_response answering_env waiting_handshake True [5] g = (Inr (), g)"
proof -
  let ?sig = "replicate 31 0 @ [1] @ replicate 31 0 @ [1] :: byte list"
  obtain response where response: "wk_Body sample_answer = ChallengeResponseBody response" "wp_EndpointSignature response = ?sig"
    "response_bound answering_env waiting_handshake sample_answer response" "\<exists>statement. client_statement waiting_handshake response = Inr statement"
    by (simp add: sample_answer_def wire_packet_def response_bound_def client_statement_def clientChallengeTranscript_def
        waiting_handshake_def answering_env_def sample_http_env_def tunnel_endpoint_def new_access_def credentialRevision_def)
  then obtain statement where statement: "client_statement waiting_handshake response = Inr statement" by blast
  obtain jwk where "ParseP256PublicJWK (lib_json (ge_library (he_env answering_env))) [9] = Inr jwk"
      "signed_by (ge_library (he_env answering_env)) jwk statement ?sig"
    using check_signature_Inr [OF tunnel_signature [of statement g]] by (auto simp: answering_env_def signed_by_def tunnel_endpoint_def)
  moreover have "wi_packet (ge_codec (he_env answering_env)) [5] = Some sample_answer" "ep_SigningPublicJWK (hk_endpoint waiting_handshake) = [9]"
    by (simp_all add: answering_env_def waiting_handshake_def tunnel_endpoint_def)
  ultimately show ?thesis
    by (simp add: check_response_def gw_eval maxWirePacketBytes_def response(1,3) statement) (simp add: response(2) [simplified])
qed

lemma sample_answer_accepted:
  "accepted_answers [Answer answering_env 0 True [5] Hour Hour] challenged_server = [(waiting_handshake, [5])]"
proof -
  have "\<not> isl (fst (finish_challenge answering_env waiting_handshake True [5] Hour (sy_gateway challenged_server)))"
    by (simp add: finish_challenge_def bindG_def sample_answer_checked)
      (simp add: gw_eval randomBytes_def challenged_server_def connectionReadyTranscript_def waiting_handshake_def tunnel_endpoint_def
        answering_env_def sample_http_env_def SignP1363LowS_def maxWirePacketBytes_def maxInflightFrames_def heartbeatIntervalMS_def)
  then show ?thesis by (simp add: challenged_server_def)
qed

theorem handshake_never_replayed_witness:
  "accepted_answers [Answer answering_env 0 True [5] Hour Hour] challenged_server = [(waiting_handshake, [5])] \<and>
   answers_challenge (ge_library (he_env answering_env)) (ge_codec (he_env answering_env)) waiting_handshake [5]"
proof -
  let ?c = "\<lambda>i. current_generation i (gs_db (sy_gateway challenged_server))"
  have "?c i \<le> 1" for i by (simp add: current_generation_def challenged_server_def)
  then have "unat (?c i) + 1 < 2 ^ 64" for i using word_le_nat_alt [of "?c i" 1] by (simp add: le_less_trans)
  then have room: "\<forall>i. unat (?c i) + length [Answer answering_env 0 True [5] Hour Hour] < 2 ^ 64" by simp
  have "numbering ?c challenged_server"
    by (simp add: numbering_def numbered_def generation_keys_def)
      (simp add: challenged_server_def waiting_handshake_def tunnel_endpoint_def current_generation_def)
  from handshake_never_replayed [OF this room] sample_answer_accepted show ?thesis
    by (simp add: answering_env_def lawful_def tunnel_env_def reference_laws del: accepted_answers.simps)
qed

end
