(* ===== verification/Gateway_Trust.thy ===== *)
theory Gateway_Trust
  imports Gateway_Http
begin

section \<open>The trust of the gateway (\<open>gateway/trust.go\<close>, \<open>trust_store.go\<close>, \<open>server.go\<close>)\<close>

text \<open>
  The gateway has two signing keys.  Clients pin the root key; a manifest signed with it names the
  online key, which signs challenges and control frames.  The keys live in a file that is rewritten at
  every start with the next revision; manifests are short-lived and cached.

  Parameters: arithmetic on the curve (\<open>sl_base\<close> is \<^verbatim>\<open>ScalarBaseMult\<close>), the ECDSA signature of
  a digest, the generation of scalars, and what the file system answers.  A private key is its
  scalar with its public point.
\<close>

record ecdsa_key =
  ky_D :: int
  ky_Public :: point

record signer_library =
  sl_base :: "int \<Rightarrow> point"
  sl_sign :: "int \<Rightarrow> byte list \<Rightarrow> (int \<times> int) result"
  sl_generate :: "nat \<Rightarrow> int result"

record TrustBundle =
  tb_Root :: ecdsa_key
  tb_Online :: ecdsa_key
  tb_Revision :: u64
  tb_ExpiresAt :: time

definition trustManifestTTL :: duration where "trustManifestTTL = 24 * Hour"
definition trustManifestRefreshInterval :: duration where "trustManifestRefreshInterval = 12 * Hour"
definition trustManifestRetryInterval :: duration where "trustManifestRetryInterval = Minute"

subsection \<open>Manifests\<close>

fun decimal_nat :: "nat \<Rightarrow> string" where
  "decimal_nat n = (if n < 10 then [char_of (n + 48)] else decimal_nat (n div 10) @ [char_of (n mod 10 + 48)])"

declare decimal_nat.simps [simp del]

definition decimal :: "int \<Rightarrow> string" where
  "decimal n = (if n < 0 then ''-'' @ decimal_nat (nat (- n)) else decimal_nat (nat n))"

definition trustManifestPayload :: "i64 \<Rightarrow> P256PublicJWK \<Rightarrow> u64 \<Rightarrow> string \<Rightarrow> string" where
  "trustManifestPayload expiresAtMS onlineJWK revision rootJKT =
     ''{'' @ json_quote ''expiresAtMs'' @ '':'' @ decimal (sint expiresAtMS) @ '','' @ json_quote ''onlinePublicJwk'' @ '':'' @
     canonical_jwk onlineJWK @ '','' @ json_quote ''revision'' @ '':'' @ decimal (uint revision) @ '','' @ json_member ''rootJkt'' rootJKT @ ''}''"

definition Manifest :: "signer_library \<Rightarrow> TrustBundle \<Rightarrow> TrustManifest result" where
  "Manifest S trust =
     (if tb_Revision trust = 0 \<or> IsZeroTime (tb_ExpiresAt trust) then Inl Plain
      else bindE (PublicJWK (ky_Public (tb_Root trust))) (\<lambda>rootJWK.
           bindE (PublicJWK (ky_Public (tb_Online trust))) (\<lambda>onlineJWK.
           bindE (Thumbprint rootJWK) (\<lambda>rootJKT.
           let payload = bytes_of (trustManifestPayload (time_UnixMilli (tb_ExpiresAt trust)) onlineJWK (tb_Revision trust) rootJKT) in
           bindE (SignP1363LowS (sl_sign S (ky_D (tb_Root trust))) payload) (\<lambda>signature.
           Inr \<lparr>tm_ExpiresAt = tb_ExpiresAt trust, tm_PayloadBase64URL = RawURLEncode payload, tm_Revision = tb_Revision trust,
             tm_RootPublicJWK = rootJWK, tm_SignatureBase64URL = RawURLEncode signature\<rparr>)))))"

definition ManifestAt :: "signer_library \<Rightarrow> TrustBundle \<Rightarrow> time \<Rightarrow> TrustManifest result" where
  "ManifestAt S trust now =
     (if IsZeroTime now then Inl Plain else Manifest S (trust\<lparr>tb_ExpiresAt := now + trustManifestTTL\<rparr>))"

definition NewEphemeralTrust :: "signer_library \<Rightarrow> time \<Rightarrow> TrustBundle result" where
  "NewEphemeralTrust S now =
     (if IsZeroTime now then Inl Plain
      else case sl_generate S 0 of Inl e \<Rightarrow> Inl (Wrap e) | Inr root \<Rightarrow>
      case sl_generate S 1 of Inl e \<Rightarrow> Inl (Wrap e) | Inr onlineKey \<Rightarrow>
        Inr \<lparr>tb_Root = \<lparr>ky_D = root, ky_Public = sl_base S root\<rparr>, tb_Online = \<lparr>ky_D = onlineKey, ky_Public = sl_base S onlineKey\<rparr>,
             tb_Revision = 1, tb_ExpiresAt = now + trustManifestTTL\<rparr>)"

record manifest_cache =
  mf_cached :: TrustManifest
  mf_refreshAt :: time

text \<open>\<open>NewHandler\<close> starts with a fresh manifest.\<close>

definition new_manifest_cache :: "signer_library \<Rightarrow> TrustBundle \<Rightarrow> time \<Rightarrow> manifest_cache result" where
  "new_manifest_cache S trust now = bindE (ManifestAt S trust now) (\<lambda>manifest.
     Inr \<lparr>mf_cached = manifest, mf_refreshAt = now + trustManifestRefreshInterval\<rparr>)"

text \<open>The signature may fail at one time and succeed at another: \<open>S\<close> is the library as this call meets it.\<close>

definition currentTrustManifest :: "signer_library \<Rightarrow> TrustBundle \<Rightarrow> time \<Rightarrow> manifest_cache \<Rightarrow> TrustManifest result \<times> manifest_cache" where
  "currentTrustManifest S trust now c =
     (if now < mf_refreshAt c \<and> \<not> IsZeroTime (tm_ExpiresAt (mf_cached c)) then (Inr (mf_cached c), c)
      else case ManifestAt S trust now of
        Inl e \<Rightarrow> if now < tm_ExpiresAt (mf_cached c)
                 then (Inr (mf_cached c), c\<lparr>mf_refreshAt := now + trustManifestRetryInterval\<rparr>) else (Inl e, c)
      | Inr manifest \<Rightarrow> (Inr manifest, \<lparr>mf_cached = manifest, mf_refreshAt = now + trustManifestRefreshInterval\<rparr>))"

definition trustManifest :: "signer_library \<Rightarrow> TrustBundle \<Rightarrow> time \<Rightarrow> manifest_cache \<Rightarrow> (nat \<times> reply) \<times> manifest_cache" where
  "trustManifest S trust now c = (case currentTrustManifest S trust now c of
       (Inl e, c') \<Rightarrow> ((503, GatewayError ''TRUST_MANIFEST_UNAVAILABLE''), c')
     | (Inr manifest, c') \<Rightarrow> ((200, ManifestReply manifest), c'))"

definition readiness :: "bool \<Rightarrow> signer_library \<Rightarrow> TrustBundle \<Rightarrow> time \<Rightarrow> manifest_cache \<Rightarrow> (nat \<times> reply) \<times> manifest_cache" where
  "readiness pinged S trust now c =
     (if \<not> pinged then ((503, GatewayError ''GATEWAY_DATABASE_UNAVAILABLE''), c)
      else case currentTrustManifest S trust now c of
        (Inl e, c') \<Rightarrow> ((503, GatewayError ''TRUST_MANIFEST_UNAVAILABLE''), c')
      | (Inr manifest, c') \<Rightarrow>
          (if \<not> now < tm_ExpiresAt manifest then (503, GatewayError ''TRUST_MANIFEST_UNAVAILABLE'') else (200, StatusReply ''ready''), c'))"

subsection \<open>The file of the keys\<close>

record trustState =
  ts_Version :: int
  ts_RootD :: string
  ts_OnlineD :: string
  ts_Revision :: u64

definition trustStateVersion :: int where "trustStateVersion = 1"
definition maxTrustStateBytes :: nat where "maxTrustStateBytes = 4096"

definition encodeScalar :: "int \<Rightarrow> string" where
  "encodeScalar d = RawURLEncode (FillBytes32 d)"

definition keyFromScalar :: "signer_library \<Rightarrow> string \<Rightarrow> ecdsa_key result" where
  "keyFromScalar S text = (case RawURLDecodeStrict text of
       None \<Rightarrow> Inl Plain
     | Some decoded \<Rightarrow>
         if length decoded \<noteq> 32 then Inl Plain
         else let d = SetBytes decoded in
           if d \<le> 0 \<or> d \<ge> p256_n then Inl Plain else Inr \<lparr>ky_D = d, ky_Public = sl_base S d\<rparr>)"

text \<open>A number for a 64-bit unsigned integer.\<close>

definition set_uint64 :: "(u64 \<Rightarrow> 's \<Rightarrow> 's) \<Rightarrow> json \<Rightarrow> 's \<Rightarrow> 's option" where
  "set_uint64 upd v s = (case v of
       JNumber digits \<Rightarrow>
         let n = foldl (\<lambda>n c. n * 10 + int (code c - 48)) 0 digits
         in if digits = [] \<or> \<not> list_all is_digit digits \<or> n \<ge> 2 ^ 64 then None else Some (upd (word_of_int n) s)
     | JNull \<Rightarrow> Some s
     | _ \<Rightarrow> None)"

definition set_trust_field :: "string \<Rightarrow> json \<Rightarrow> trustState \<Rightarrow> trustState option" where
  "set_trust_field name =
     (if name = ''version'' then set_int64 (\<lambda>v s. s\<lparr>ts_Version := v\<rparr>)
      else if name = ''rootD'' then set_string (\<lambda>v s. s\<lparr>ts_RootD := v\<rparr>)
      else if name = ''onlineD'' then set_string (\<lambda>v s. s\<lparr>ts_OnlineD := v\<rparr>)
      else set_uint64 (\<lambda>v s. s\<lparr>ts_Revision := v\<rparr>))"

text \<open>
  What the file system gives: whether the directory and the file may be used (they exist as such, with
  private permissions, and can be read), the contents unless there is no file, and whether the
  contents can be replaced.  The decoder reads one value and ignores what follows it.
\<close>

record trust_file =
  tf_usable :: bool
  tf_contents :: "byte list option"
  tf_writable :: bool

definition readTrustState :: "library \<Rightarrow> signer_library \<Rightarrow> byte list \<Rightarrow> trustState result" where
  "readTrustState L S contents =
     (if length contents = 0 \<or> length contents > maxTrustStateBytes then Inl Plain
      else case lib_json L contents of
        None \<Rightarrow> Inl Plain
      | Some (j, alone) \<Rightarrow> (case decode_struct [''version'', ''rootD'', ''onlineD'', ''revision''] set_trust_field
            \<lparr>ts_Version = 0, ts_RootD = [], ts_OnlineD = [], ts_Revision = 0\<rparr> j of
          None \<Rightarrow> Inl Plain
        | Some state \<Rightarrow>
            if ts_Version state \<noteq> trustStateVersion \<or> ts_Revision state = 0 then Inl Plain
            else (case keyFromScalar S (ts_RootD state) of Inl e \<Rightarrow> Inl Plain | Inr _ \<Rightarrow>
                  case keyFromScalar S (ts_OnlineD state) of Inl e \<Rightarrow> Inl Plain | Inr _ \<Rightarrow> Inr state)))"

definition trust_text :: "trustState \<Rightarrow> string" where
  "trust_text state = ''{'' @ json_quote ''version'' @ '':'' @ decimal (ts_Version state) @ '','' @ json_member ''rootD'' (ts_RootD state) @ '','' @
     json_member ''onlineD'' (ts_OnlineD state) @ '','' @ json_quote ''revision'' @ '':'' @ decimal (uint (ts_Revision state)) @ ''}''"

text \<open>The file is replaced by a rename, so it holds the old contents or the new.\<close>

definition writeTrustState :: "trustState \<Rightarrow> trust_file \<Rightarrow> unit result \<times> trust_file" where
  "writeTrustState state file =
     (if tf_writable file then (Inr (), file\<lparr>tf_contents := Some (bytes_of (trust_text state))\<rparr>) else (Inl (Wrap Plain), file))"

definition next_trust_state :: "library \<Rightarrow> signer_library \<Rightarrow> trust_file \<Rightarrow> trustState result" where
  "next_trust_state L S file = (case tf_contents file of
       None \<Rightarrow> (case sl_generate S 0 of Inl e \<Rightarrow> Inl (Wrap e) | Inr root \<Rightarrow>
                case sl_generate S 1 of Inl e \<Rightarrow> Inl (Wrap e) | Inr onlineKey \<Rightarrow>
                  Inr \<lparr>ts_Version = trustStateVersion, ts_RootD = encodeScalar root, ts_OnlineD = encodeScalar onlineKey, ts_Revision = 1\<rparr>)
     | Some contents \<Rightarrow> bindE (readTrustState L S contents) (\<lambda>state.
         if ts_Revision state = - 1 then Inl Plain else Inr (state\<lparr>ts_Revision := ts_Revision state + 1\<rparr>)))"

definition LoadOrCreateTrustState :: "library \<Rightarrow> signer_library \<Rightarrow> time \<Rightarrow> trust_file \<Rightarrow> TrustBundle result \<times> trust_file" where
  "LoadOrCreateTrustState L S now file =
     (if IsZeroTime now \<or> \<not> tf_usable file then (Inl Plain, file)
      else case next_trust_state L S file of
        Inl e \<Rightarrow> (Inl e, file)
      | Inr state \<Rightarrow> (case writeTrustState state file of
            (Inl e, file') \<Rightarrow> (Inl e, file')
          | (Inr _, file') \<Rightarrow>
              (case keyFromScalar S (ts_RootD state) of Inl e \<Rightarrow> Inl (Wrap e) | Inr root \<Rightarrow>
               case keyFromScalar S (ts_OnlineD state) of Inl e \<Rightarrow> Inl (Wrap e) | Inr onlineKey \<Rightarrow>
                 if ky_D root = ky_D onlineKey then Inl Plain
                 else Inr \<lparr>tb_Root = root, tb_Online = onlineKey, tb_Revision = ts_Revision state, tb_ExpiresAt = now + trustManifestTTL\<rparr>,
               file')))"

subsection \<open>How old a manifest may be\<close>

lemma ManifestAt_expiry: "ManifestAt S trust now = Inr manifest \<Longrightarrow> tm_ExpiresAt manifest = now + trustManifestTTL"
  by (auto simp: ManifestAt_def Manifest_def Let_def bindE_Inr_iff split: if_splits)

definition cache_fresh :: "manifest_cache \<Rightarrow> bool" where
  "cache_fresh c \<longleftrightarrow> mf_refreshAt c < tm_ExpiresAt (mf_cached c) + trustManifestRetryInterval"

lemma new_cache_fresh: "new_manifest_cache S trust now = Inr c \<Longrightarrow> cache_fresh c"
  by (auto simp: new_manifest_cache_def bindE_Inr_iff cache_fresh_def trustManifestTTL_def trustManifestRefreshInterval_def
      trustManifestRetryInterval_def Hour_def Minute_def Second_def dest!: ManifestAt_expiry)

lemma current_fresh:
  assumes "cache_fresh c" "currentTrustManifest S trust now c = (r, c')"
  shows "cache_fresh c' \<and> (\<forall>manifest. r = Inr manifest \<longrightarrow> now < tm_ExpiresAt manifest + trustManifestRetryInterval)"
proof (cases "ManifestAt S trust now")
  case (Inl e)
  with assms show ?thesis
    by (auto simp: currentTrustManifest_def cache_fresh_def trustManifestRetryInterval_def Minute_def Second_def split: if_splits)
next
  case (Inr m)
  with assms ManifestAt_expiry [OF Inr] show ?thesis
    by (auto simp: currentTrustManifest_def cache_fresh_def trustManifestTTL_def trustManifestRefreshInterval_def
        trustManifestRetryInterval_def Hour_def Minute_def Second_def split: if_splits)
qed

fun manifest_run :: "(signer_library \<times> TrustBundle \<times> time) list \<Rightarrow> manifest_cache \<Rightarrow> (time \<times> TrustManifest result) list" where
  "manifest_run [] c = []"
| "manifest_run ((S, trust, now) # calls) c =
     (let (r, c') = currentTrustManifest S trust now c in (now, r) # manifest_run calls c')"

lemma manifest_run_fresh:
  "cache_fresh c \<Longrightarrow> (now, Inr manifest) \<in> set (manifest_run calls c) \<Longrightarrow> now < tm_ExpiresAt manifest + trustManifestRetryInterval"
proof (induction calls arbitrary: c)
  case (Cons call calls)
  obtain S trust t where call: "call = (S, trust, t)" by (cases call)
  obtain r c' where step: "currentTrustManifest S trust t c = (r, c')" by fastforce
  from current_fresh [OF Cons.prems(1) step] Cons.IH [of c'] Cons.prems(2) show ?case
    by (auto simp: call step)
qed simp

text \<open>
  C39.  How stale a served manifest can be.  From the start of the gateway on, whatever the clock shows
  at the calls and however often the signing of a new manifest fails, a manifest that is served has
  expired less than a minute ago; and the readiness check answers that the gateway is ready only when the
  database answers and the manifest has not expired.
\<close>

theorem trust_manifest_freshness:
  assumes "new_manifest_cache S trust start = Inr c" "(now, Inr manifest) \<in> set (manifest_run calls c)"
  shows "now < tm_ExpiresAt manifest + trustManifestRetryInterval \<and>
     (\<forall>pinged S' trust' t c1 r c2. readiness pinged S' trust' t c1 = ((200, r), c2) \<longrightarrow>
        pinged \<and> (\<exists>m. currentTrustManifest S' trust' t c1 = (Inr m, c2) \<and> t < tm_ExpiresAt m))"
  using manifest_run_fresh [OF new_cache_fresh [OF assms(1)] assms(2)]
  by (auto simp: readiness_def split: if_splits sum.splits prod.splits)

text \<open>The base point of the curve and a signer that always answers.\<close>

definition base_point :: point where
  "base_point = (0x6b17d1f2e12c4247f8bce6e563a440f277037d812deb33a0f4a13945d898c296,
     0x4fe342e2fe1a7f9b8ee7eb4a7c0f9e162bce33576b315ececbb6406837bf51f5)"

lemma base_point_on_curve: "IsOnCurve (fst base_point) (snd base_point)"
  by (simp add: base_point_def IsOnCurve_def p256_p_def p256_b_def)

lemma Manifest_succeeds:
  assumes "PublicJWK (ky_Public (tb_Root trust)) = Inr rootJWK" "PublicJWK (ky_Public (tb_Online trust)) = Inr onlineJWK"
    "tb_Revision trust \<noteq> 0" "0 < now" "\<And>digest. sl_sign S (ky_D (tb_Root trust)) digest = Inr (r, s)"
  shows "\<exists>manifest. ManifestAt S trust now = Inr manifest"
proof -
  have "Thumbprint rootJWK = Inr (RawURLEncode (sha256 (bytes_of (canonical_jwk rootJWK))))"
    using assms(1) PublicJWK_roundtrip [of "fst (ky_Public (tb_Root trust))" "snd (ky_Public (tb_Root trust))"] by (simp add: Thumbprint_def)
  then show ?thesis
    using assms by (simp add: ManifestAt_def Manifest_def IsZeroTime_def trustManifestTTL_def Hour_def Minute_def Second_def Let_def SignP1363LowS_def)
qed

definition signing_bundle :: TrustBundle where
  "signing_bundle = \<lparr>tb_Root = \<lparr>ky_D = 1, ky_Public = base_point\<rparr>, tb_Online = \<lparr>ky_D = 1, ky_Public = base_point\<rparr>,
     tb_Revision = 1, tb_ExpiresAt = Hour\<rparr>"

definition working_signer :: signer_library where
  "working_signer = \<lparr>sl_base = (\<lambda>d. base_point), sl_sign = (\<lambda>d digest. Inr (1, 1)), sl_generate = (\<lambda>i. Inr (int i + 1))\<rparr>"

theorem trust_manifest_freshness_witness:
  "\<exists>c. new_manifest_cache working_signer signing_bundle Hour = Inr c \<and>
     (2 * Hour, Inr (mf_cached c)) \<in> set (manifest_run [(working_signer, signing_bundle, 2 * Hour)] c) \<and>
     2 * Hour < tm_ExpiresAt (mf_cached c) + trustManifestRetryInterval"
proof -
  have "\<exists>jwk. PublicJWK base_point = Inr jwk" using base_point_on_curve by (simp add: PublicJWK_def case_prod_unfold)
  then obtain jwk where "PublicJWK base_point = Inr jwk" ..
  then obtain m where m: "ManifestAt working_signer signing_bundle Hour = Inr m"
    using Manifest_succeeds [of signing_bundle jwk jwk Hour working_signer 1 1]
    by (auto simp: signing_bundle_def working_signer_def Hour_def Minute_def Second_def)
  let ?c = "\<lparr>mf_cached = m, mf_refreshAt = Hour + trustManifestRefreshInterval\<rparr>"
  have c: "new_manifest_cache working_signer signing_bundle Hour = Inr ?c" by (simp add: new_manifest_cache_def m)
  have served: "(2 * Hour, Inr m) \<in> set (manifest_run [(working_signer, signing_bundle, 2 * Hour)] ?c)"
    using ManifestAt_expiry [OF m]
    by (simp add: currentTrustManifest_def IsZeroTime_def trustManifestTTL_def trustManifestRefreshInterval_def Hour_def Minute_def Second_def)
  from trust_manifest_freshness [OF c served] have "2 * Hour < tm_ExpiresAt m + trustManifestRetryInterval" by blast
  with c served show ?thesis by (intro exI [of _ ?c]) (simp only: manifest_cache.select_convs simp_thms)
qed

text \<open>
  The minute is real: with a signer that fails from some time on, the last manifest is still served when
  it has expired.
\<close>

definition sample_signer :: signer_library where
  "sample_signer = \<lparr>sl_base = (\<lambda>d. (d, d)), sl_sign = (\<lambda>d digest. Inl Plain), sl_generate = (\<lambda>i. Inr (int i + 1))\<rparr>"

definition sample_bundle :: TrustBundle where
  "sample_bundle = \<lparr>tb_Root = \<lparr>ky_D = 1, ky_Public = (1, 1)\<rparr>, tb_Online = \<lparr>ky_D = 2, ky_Public = (2, 2)\<rparr>,
     tb_Revision = 1, tb_ExpiresAt = Hour\<rparr>"

definition sample_manifest :: TrustManifest where
  "sample_manifest = \<lparr>tm_ExpiresAt = Hour, tm_PayloadBase64URL = [], tm_Revision = 1, tm_RootPublicJWK = no_jwk, tm_SignatureBase64URL = []\<rparr>"

lemma sample_signer_fails: "ManifestAt sample_signer sample_bundle t = Inl Plain"
  by (simp add: ManifestAt_def Manifest_def sample_bundle_def PublicJWK_def IsOnCurve_def p256_p_def p256_b_def)

lemma expired_manifest_served:
  "manifest_run [(sample_signer, sample_bundle, Hour - 1), (sample_signer, sample_bundle, Hour)]
     \<lparr>mf_cached = sample_manifest, mf_refreshAt = 0\<rparr> = [(Hour - 1, Inr sample_manifest), (Hour, Inr sample_manifest)]"
  by (simp add: currentTrustManifest_def sample_signer_fails sample_manifest_def IsZeroTime_def
      trustManifestRetryInterval_def Hour_def Minute_def Second_def)

subsection \<open>Restarts\<close>

text \<open>Numbers in decimal are read back.\<close>

lemma digit_char: "d < 10 \<Longrightarrow> code (char_of (d + 48)) = d + 48"
  by (simp add: code_def)

lemma digit_char_is_digit: "d < (10 :: nat) \<Longrightarrow> is_digit (char_of (d + 48))"
  by (simp add: is_digit_def digit_char)

lemma decimal_nat_reads: "foldl (\<lambda>n c. n * 10 + int (code c - 48)) 0 (decimal_nat n) = int n"
  by (induction n rule: decimal_nat.induct) (subst decimal_nat.simps, simp add: digit_char zdiv_int zmod_int)

lemma decimal_nat_digits: "list_all is_digit (decimal_nat n)"
  by (induction n rule: decimal_nat.induct) (subst decimal_nat.simps, simp add: digit_char_is_digit)

lemma decimal_nat_nonempty [simp]: "decimal_nat n \<noteq> []"
  by (subst decimal_nat.simps) simp

lemma decimal_nat_length: "n < 10 ^ Suc k \<Longrightarrow> length (decimal_nat n) \<le> Suc k"
proof (induction k arbitrary: n)
  case 0
  then show ?case by (subst decimal_nat.simps) simp
next
  case (Suc k)
  then have "n div 10 < 10 ^ Suc k" by (simp add: less_mult_imp_div_less)
  with Suc.IH [of "n div 10"] show ?case by (subst decimal_nat.simps) simp
qed

lemma set_uint64_decimal: "set_uint64 upd (JNumber (decimal (uint r))) s = Some (upd r s)"
  by (simp add: set_uint64_def decimal_def decimal_nat_reads decimal_nat_digits Let_def) (use uint_lt2p [of r] in simp)

lemma decimal_u64_length: "length (decimal (uint (r :: u64))) \<le> 20"
proof -
  have "nat (uint r) < 10 ^ Suc 19" using unsigned_less [of r, where ?'a = nat] by simp
  then show ?thesis using decimal_nat_length [of "nat (uint r)" 19] by (simp add: decimal_def)
qed

lemma json_quote_length: "length (json_quote s) \<le> 6 * length s + 2"
  by (induction s) (auto simp: json_quote_def json_char_def)

lemma RawURLEncode_length: "length (RawURLEncode bs) \<le> 2 * length bs"
  by (induction bs rule: RawURLEncode.induct) auto

definition stored :: "string \<Rightarrow> string \<Rightarrow> u64 \<Rightarrow> trustState" where
  "stored root_d online_d revision = \<lparr>ts_Version = trustStateVersion, ts_RootD = root_d, ts_OnlineD = online_d, ts_Revision = revision\<rparr>"

definition trust_json :: "trustState \<Rightarrow> json" where
  "trust_json state = JObject [(''version'', JNumber (decimal (ts_Version state))), (''rootD'', JString (ts_RootD state)),
     (''onlineD'', JString (ts_OnlineD state)), (''revision'', JNumber (decimal (uint (ts_Revision state))))]"

text \<open>What the file relies on of \<^verbatim>\<open>encoding/json\<close>: the decoder reads what the encoder wrote.\<close>

definition json_reads_back :: "library \<Rightarrow> string \<Rightarrow> string \<Rightarrow> bool" where
  "json_reads_back L root_d online_d \<longleftrightarrow>
     (\<forall>revision. lib_json L (bytes_of (trust_text (stored root_d online_d revision))) = Some (trust_json (stored root_d online_d revision), True))"

lemma decimal_one: "decimal 1 = ''1''"
  by (simp add: decimal_def decimal_nat.simps char_of_def bit_0)

lemma trust_json_decoded:
  "decode_struct [''version'', ''rootD'', ''onlineD'', ''revision''] set_trust_field
     \<lparr>ts_Version = 0, ts_RootD = [], ts_OnlineD = [], ts_Revision = 0\<rparr> (trust_json (stored root_d online_d r)) = Some (stored root_d online_d r)"
proof -
  have "parse_int64 ''1'' = Some 1" by code_simp
  then show ?thesis
    by (simp add: decode_struct_def trust_json_def stored_def field_of_def set_trust_field_def set_int64_def set_string_def set_uint64_decimal
        trustStateVersion_def decimal_one)
qed

lemma trust_text_length:
  assumes "length root_d \<le> 64" "length online_d \<le> 64"
  shows "0 < length (trust_text (stored root_d online_d r)) \<and> length (trust_text (stored root_d online_d r)) \<le> maxTrustStateBytes"
  using json_quote_length [of root_d] json_quote_length [of online_d] decimal_u64_length [of r] assms
    json_quote_length [of "''version''"] json_quote_length [of "''rootD''"] json_quote_length [of "''onlineD''"] json_quote_length [of "''revision''"]
  by (simp add: trust_text_def stored_def json_member_def maxTrustStateBytes_def trustStateVersion_def decimal_one)

lemma readTrustState_stored:
  assumes "json_reads_back L root_d online_d" "length root_d \<le> 64" "length online_d \<le> 64" "r \<noteq> 0"
    "keyFromScalar S root_d = Inr root" "keyFromScalar S online_d = Inr onlineKey"
  shows "readTrustState L S (bytes_of (trust_text (stored root_d online_d r))) = Inr (stored root_d online_d r)"
proof -
  have "lib_json L (bytes_of (trust_text (stored root_d online_d r))) = Some (trust_json (stored root_d online_d r), True)"
    using assms(1) by (simp add: json_reads_back_def)
  then show ?thesis
    using assms trust_text_length [of root_d online_d r] by (simp add: readTrustState_def trust_json_decoded) (simp add: stored_def)
qed

lemma keyFromScalar_base: "sl_base S' = sl_base S \<Longrightarrow> keyFromScalar S' text = keyFromScalar S text"
  unfolding keyFromScalar_def by (simp only:)

text \<open>The starts of the gateway on one file, one after the other.\<close>

fun boots :: "library \<Rightarrow> (signer_library \<times> time) list \<Rightarrow> trust_file \<Rightarrow> TrustBundle result list" where
  "boots L [] file = []"
| "boots L ((S, now) # later) file = (let (r, file') = LoadOrCreateTrustState L S now file in r # boots L later file')"

lemma unat_of_nat_small: "n < 2 ^ 64 \<Longrightarrow> unat (of_nat n :: u64) = n"
  by (simp add: unsigned_of_nat take_bit_nat_eq_self)

lemma boots_from:
  assumes "json_reads_back L root_d online_d" "length root_d \<le> 64" "length online_d \<le> 64"
    and keys: "keyFromScalar S root_d = Inr root" "keyFromScalar S online_d = Inr onlineKey" "ky_D root \<noteq> ky_D onlineKey"
  shows "\<lbrakk>0 < n; n + length later < 2 ^ 64; \<forall>(S', now) \<in> set later. sl_base S' = sl_base S \<and> now \<noteq> 0;
      disk = \<lparr>tf_usable = True, tf_contents = Some (bytes_of (trust_text (stored root_d online_d (of_nat n)))), tf_writable = True\<rparr>\<rbrakk> \<Longrightarrow>
    boots L later disk = map (\<lambda>(i, S', now). Inr \<lparr>tb_Root = root, tb_Online = onlineKey, tb_Revision = of_nat (n + 1 + i), tb_ExpiresAt = now + trustManifestTTL\<rparr>)
      (List.enumerate 0 later)"
proof (induction later arbitrary: n disk)
  case (Cons start later)
  obtain S' now where start: "start = (S', now)" by fastforce
  let ?next = "\<lparr>tf_usable = True, tf_contents = Some (bytes_of (trust_text (stored root_d online_d (of_nat (n + 1))))), tf_writable = True\<rparr>"
  have base: "sl_base S' = sl_base S" "now \<noteq> 0" using Cons.prems by (auto simp: start)
  have "unat (of_nat n :: u64) = n" using Cons.prems by (intro unat_of_nat_small) simp
  then have n: "(of_nat n :: u64) \<noteq> 0" "(of_nat n :: u64) \<noteq> - 1"
    using Cons.prems unat_u64_max by auto
  have "readTrustState L S' (bytes_of (trust_text (stored root_d online_d (of_nat n)))) = Inr (stored root_d online_d (of_nat n))"
    using assms n by (intro readTrustState_stored) (simp_all add: keyFromScalar_base [OF base(1)])
  then have "next_trust_state L S' disk = Inr (stored root_d online_d (of_nat (n + 1)))"
    using n by (simp add: next_trust_state_def Cons.prems stored_def add.commute)
  then have step: "LoadOrCreateTrustState L S' now disk =
      (Inr \<lparr>tb_Root = root, tb_Online = onlineKey, tb_Revision = of_nat (n + 1), tb_ExpiresAt = now + trustManifestTTL\<rparr>, ?next)"
    using keys base
    by (simp add: LoadOrCreateTrustState_def Cons.prems IsZeroTime_def writeTrustState_def keyFromScalar_base [OF base(1)] stored_def)
  have "boots L later ?next = map (\<lambda>(i, S', now). Inr \<lparr>tb_Root = root, tb_Online = onlineKey, tb_Revision = of_nat (n + 1 + 1 + i), tb_ExpiresAt = now + trustManifestTTL\<rparr>)
      (List.enumerate 0 later)"
    using Cons.prems by (intro Cons.IH) auto
  then show ?case
    by (simp add: start step enumerate_Suc_eq [of 0] case_prod_unfold algebra_simps del: of_nat_add of_nat_Suc)
qed simp

text \<open>
  C38.  The identity of the gateway survives its restarts.  Once a first start on an empty file has
  succeeded, every later start on that file succeeds with the same root and online keys, so that the
  clients' pin stays valid, and with the next revision; the revisions are 1, 2, 3 and so on.
  The scalars go through their base64 text in the file and back.
\<close>

theorem trust_survives_restart:
  assumes "fst (LoadOrCreateTrustState L S start \<lparr>tf_usable = True, tf_contents = None, tf_writable = True\<rparr>) = Inr trust"
    and "sl_generate S 0 = Inr root" "sl_generate S 1 = Inr onlineKey" "json_reads_back L (encodeScalar root) (encodeScalar onlineKey)"
    and "\<forall>(S', now) \<in> set later. sl_base S' = sl_base S \<and> now \<noteq> 0" "1 + length later < 2 ^ 64"
  shows "boots L ((S, start) # later) \<lparr>tf_usable = True, tf_contents = None, tf_writable = True\<rparr> =
     Inr trust # map (\<lambda>(i, S', now). Inr (trust\<lparr>tb_Revision := of_nat (2 + i), tb_ExpiresAt := now + trustManifestTTL\<rparr>)) (List.enumerate 0 later) \<and>
     tb_Revision trust = 1 \<and> ky_Public (tb_Root trust) = sl_base S (ky_D (tb_Root trust)) \<and> ky_D (tb_Root trust) \<noteq> ky_D (tb_Online trust)"
proof -
  let ?empty = "\<lparr>tf_usable = True, tf_contents = None, tf_writable = True\<rparr>"
  let ?kept = "\<lparr>tf_usable = True, tf_contents = Some (bytes_of (trust_text (stored (encodeScalar root) (encodeScalar onlineKey) (of_nat 1)))), tf_writable = True\<rparr>"
  have short: "length (encodeScalar d) \<le> 64" for d
    using RawURLEncode_length [of "FillBytes32 d"] by (simp add: encodeScalar_def FillBytes32_def)
  have fresh: "next_trust_state L S ?empty = Inr (stored (encodeScalar root) (encodeScalar onlineKey) (of_nat 1))"
    using assms(2,3) by (simp add: next_trust_state_def stored_def)
  obtain k1 k2 where keys: "keyFromScalar S (encodeScalar root) = Inr k1" "keyFromScalar S (encodeScalar onlineKey) = Inr k2" "ky_D k1 \<noteq> ky_D k2"
    and first: "LoadOrCreateTrustState L S start ?empty =
      (Inr \<lparr>tb_Root = k1, tb_Online = k2, tb_Revision = 1, tb_ExpiresAt = start + trustManifestTTL\<rparr>, ?kept)"
    using assms(1) by (auto simp: LoadOrCreateTrustState_def fresh writeTrustState_def stored_def split: if_splits sum.splits)
  have "boots L later ?kept = map (\<lambda>(i, S', now). Inr \<lparr>tb_Root = k1, tb_Online = k2, tb_Revision = of_nat (1 + 1 + i), tb_ExpiresAt = now + trustManifestTTL\<rparr>)
      (List.enumerate 0 later)"
    using assms(5,6) by (intro boots_from [OF assms(4) short short keys, of 1]) simp_all
  moreover have "ky_Public k1 = sl_base S (ky_D k1)"
    using keys(1) by (auto simp: keyFromScalar_def Let_def split: option.splits if_splits)
  ultimately show ?thesis using assms(1) keys by (auto simp: first)
qed

text \<open>A parser for the files of two given scalars, which reads the revision behind them.\<close>

definition sample_trust_parser :: "string \<Rightarrow> string \<Rightarrow> json_parser" where
  "sample_trust_parser root_d online_d contents = Some (JObject [(''version'', JNumber ''1''), (''rootD'', JString root_d),
     (''onlineD'', JString online_d),
     (''revision'', JNumber (rev (takeWhile is_digit (tl (rev (map (\<lambda>b. char_of (unat b)) contents))))))], True)"

lemma sample_trust_parser_reads:
  "sample_trust_parser root_d online_d (bytes_of (trust_text (stored root_d online_d r))) = Some (trust_json (stored root_d online_d r), True)"
proof -
  have "unat (of_char c :: byte) = of_char c" for c
  proof -
    have "(of_char c :: byte) = of_nat (of_char c)" by (rule of_nat_of_char [symmetric])
    then show ?thesis by (simp only: unsigned_of_nat take_bit_eq_mod) (simp add: mod_less)
  qed
  then have readable: "map (\<lambda>b. char_of (unat b)) (bytes_of s) = s" for s by (simp add: bytes_of_def comp_def)
  have "takeWhile is_digit (rev (decimal (uint r)) @ CHR '':'' # rest) = rev (decimal (uint r))" for rest
    using decimal_nat_digits [of "nat (uint r)"]
    by (subst takeWhile_append2) (auto simp: decimal_def list_all_iff is_digit_def code_def)
  then show ?thesis
    by (simp add: sample_trust_parser_def readable trust_json_def trust_text_def stored_def trustStateVersion_def decimal_one)
qed

theorem trust_survives_restart_witness:
  "boots (sample_library\<lparr>lib_json := sample_trust_parser (encodeScalar 1) (encodeScalar 2)\<rparr>) [(sample_signer, 5), (sample_signer, 7)]
     \<lparr>tf_usable = True, tf_contents = None, tf_writable = True\<rparr> =
   [Inr \<lparr>tb_Root = \<lparr>ky_D = 1, ky_Public = (1, 1)\<rparr>, tb_Online = \<lparr>ky_D = 2, ky_Public = (2, 2)\<rparr>, tb_Revision = 1, tb_ExpiresAt = 5 + trustManifestTTL\<rparr>,
    Inr \<lparr>tb_Root = \<lparr>ky_D = 1, ky_Public = (1, 1)\<rparr>, tb_Online = \<lparr>ky_D = 2, ky_Public = (2, 2)\<rparr>, tb_Revision = 2, tb_ExpiresAt = 7 + trustManifestTTL\<rparr>]"
proof -
  let ?L = "sample_library\<lparr>lib_json := sample_trust_parser (encodeScalar 1) (encodeScalar 2)\<rparr>"
  let ?trust = "\<lparr>tb_Root = \<lparr>ky_D = 1, ky_Public = (1, 1)\<rparr>, tb_Online = \<lparr>ky_D = 2, ky_Public = (2, 2)\<rparr>, tb_Revision = 1, tb_ExpiresAt = 5 + trustManifestTTL\<rparr>"
  have scalar: "keyFromScalar sample_signer (encodeScalar d) = Inr \<lparr>ky_D = d, ky_Public = (d, d)\<rparr>" if "d = 1 \<or> d = 2" for d
  proof -
    have "SetBytes (FillBytes32 d) = d" using that by (intro SetBytes_FillBytes32) (auto simp: p256_p_def)
    then show ?thesis using that by (auto simp: keyFromScalar_def encodeScalar_def FillBytes32_def sample_signer_def p256_n_def)
  qed
  have generated: "sl_generate sample_signer 0 = Inr 1" "sl_generate sample_signer 1 = Inr 2" "sl_generate sample_signer (Suc 0) = Inr 2" by (simp_all add: sample_signer_def)
  have "fst (LoadOrCreateTrustState ?L sample_signer 5 \<lparr>tf_usable = True, tf_contents = None, tf_writable = True\<rparr>) = Inr ?trust"
    by (simp add: LoadOrCreateTrustState_def next_trust_state_def writeTrustState_def scalar IsZeroTime_def generated)
  from trust_survives_restart [OF this, of 1 2 "[(sample_signer, 7)]"] show ?thesis
    by (simp add: json_reads_back_def sample_trust_parser_reads generated)
qed

end
