(* ===== verification/Management_Api.thy ===== *)
theory Management_Api
  imports Gateway_Handlers Gateway_Trust "HOL-Library.AList"
begin

section \<open>The management console (\<open>modules/harness\<close>)\<close>

text \<open>
  The module that the administration server mounts: authorization of each route against the policy
  table, the mutations of an owner under an idempotency key with their audit events, the listings,
  and the registration of browser endpoints.  The console shares the database with the gateway; of
  the state of a server it uses the tables and the random source only.

  The administration framework, gin and GORM are not part of the repository.  Parameters: the
  principal of the request, whether the request has a database, the policy table of the framework
  (none when the table is absent) with its driver, the name of the API access type, the two browser
  checks of the framework's middleware, the JSON text of a reply, the canonical JSON text of a
  request, upper case outside ASCII, and the message of an error.  A request is given with the
  pattern gin has matched.  The header \<^verbatim>\<open>Cache-Control\<close>, which is constant, is left out.
\<close>

subsection \<open>Replies\<close>

text \<open>\<^verbatim>\<open>gin.H\<close>: a map from names to values, in the order of the source.\<close>

datatype field =
    FText string
  | FNumber int
  | FTime time
  | FTimeOption "time option"
  | FTexts "string list"
  | FObject "(string \<times> field) list"
  | FArray "field list"

type_synonym gin_H = "(string \<times> field) list"

datatype console_body = JSONBody gin_H | DataBody "byte list"

record console_reply =
  kr_Status :: int
  kr_Body :: console_body
  kr_Replayed :: bool
  kr_Cookie :: "refresh_cookie option"

definition json_reply :: "int \<Rightarrow> gin_H \<Rightarrow> console_reply" where
  "json_reply status body = \<lparr>kr_Status = status, kr_Body = JSONBody body, kr_Replayed = False, kr_Cookie = None\<rparr>"

definition writeManagementBytes :: "int \<Rightarrow> byte list \<Rightarrow> console_reply" where
  "writeManagementBytes status body = \<lparr>kr_Status = status, kr_Body = DataBody body, kr_Replayed = False, kr_Cookie = None\<rparr>"

definition coded :: "string \<Rightarrow> string \<Rightarrow> gin_H" where
  "coded error_code message = [(''code'', FText error_code), (''message'', FText message)]"

subsection \<open>What the framework provides\<close>

record principal =
  pr_UserID :: string
  pr_TenantID :: string
  pr_RoleID :: string
  pr_Root :: bool

record casbin_rule =
  cb_Ptype :: string
  cb_V0 :: string
  cb_V1 :: string
  cb_V2 :: string
  cb_V3 :: string

record console_env =
  ce_env :: gateway_env
  ce_clock :: "nat \<Rightarrow> time"
  ce_principal :: "principal option"
  ce_database :: bool
  ce_policies :: "casbin_rule list option"
  ce_policy_driver :: "casbin_rule driver"
  ce_access_type :: string
  ce_browser_session :: bool
  ce_trusted_origin :: bool
  ce_secure_cookie :: bool
  ce_ready :: "(go_error option) \<times> (go_error option)"
  ce_migrations :: "string list"
  ce_marshal :: "gin_H \<Rightarrow> byte list result"
  ce_canonical :: "string \<Rightarrow> string \<Rightarrow> string option \<Rightarrow> byte list result"
  ce_raw_member :: "byte list \<Rightarrow> string \<Rightarrow> byte list"
  ce_upper :: "string \<Rightarrow> string"
  ce_message :: "go_error \<Rightarrow> string"

record console_request =
  kq_http :: http_request
  kq_FullPath :: string
  kq_Limit :: "string option"

type_synonym 'a console = "(gateway, console_reply, 'a) act"

subsection \<open>Errors (\<open>management_projection.go\<close>)\<close>

primrec ErrorCode_String :: "ErrorCode \<Rightarrow> string" where
  "ErrorCode_String CodeInvalidArgument = ''HARNESS_INVALID_ARGUMENT''"
| "ErrorCode_String CodeInvalidState = ''HARNESS_INVALID_STATE''"
| "ErrorCode_String CodeConflict = ''HARNESS_CONFLICT''"
| "ErrorCode_String CodeExpired = ''HARNESS_EXPIRED''"
| "ErrorCode_String CodeRevoked = ''HARNESS_REVOKED''"
| "ErrorCode_String CodeNotFound = ''HARNESS_NOT_FOUND''"
| "ErrorCode_String CodeResourceLimit = ''HARNESS_RESOURCE_LIMIT''"
| "ErrorCode_String CodeSecurityViolation = ''HARNESS_SECURITY_VIOLATION''"

primrec error_status :: "ErrorCode \<Rightarrow> int" where
  "error_status CodeInvalidArgument = 400"
| "error_status CodeNotFound = 404"
| "error_status CodeSecurityViolation = 403"
| "error_status CodeRevoked = 403"
| "error_status CodeConflict = 409"
| "error_status CodeInvalidState = 409"
| "error_status CodeExpired = 410"
| "error_status CodeResourceLimit = 429"

definition managementErrorPayload :: "console_env \<Rightarrow> go_error \<Rightarrow> int \<times> gin_H \<times> string" where
  "managementErrorPayload K err = (case as_problem err of
       None \<Rightarrow> (500, coded ''HARNESS_INTERNAL'' ''Harness operation failed'', ''HARNESS_INTERNAL'')
     | Some c \<Rightarrow> (error_status c, coded (ErrorCode_String c) (ce_message K err), ErrorCode_String c))"

definition managementError :: "console_env \<Rightarrow> go_error \<Rightarrow> console_reply" where
  "managementError K err = (let (status, payload, _) = managementErrorPayload K err in json_reply status payload)"

definition writeManagementError :: "console_env \<Rightarrow> go_error \<Rightarrow> 'a console" where
  "writeManagementError K err = failG (managementError K err)"

definition refuse :: "int \<Rightarrow> string \<Rightarrow> string \<Rightarrow> 'a console" where
  "refuse status error_code message = failG (json_reply status (coded error_code message))"

text \<open>A service or a store operation inside a handler.\<close>

definition serviceK :: "console_env \<Rightarrow> 'a svc \<Rightarrow> 'a console" where
  "serviceK K m s = (case m s of (Inl e, s') \<Rightarrow> (Inl (managementError K e), s') | (Inr a, s') \<Rightarrow> (Inr a, s'))"

definition storeK :: "console_env \<Rightarrow> (drivers \<Rightarrow> db \<Rightarrow> 'a result \<times> db) \<Rightarrow> 'a console" where
  "storeK K operation = serviceK K (callS (ce_env K) operation)"

subsection \<open>Names of the states\<close>

primrec EndpointType_String :: "EndpointType \<Rightarrow> string" where
  "EndpointType_String EndpointTypeABA = ''ABA''"
| "EndpointType_String EndpointTypeHCWeb = ''HC_WEB''"
| "EndpointType_String EndpointTypeHCReference = ''HC_REFERENCE''"
| "EndpointType_String (EndpointTypeOther s) = s"

primrec EndpointStatus_String :: "EndpointStatus \<Rightarrow> string" where
  "EndpointStatus_String EndpointStatusPending = ''PENDING''"
| "EndpointStatus_String EndpointStatusActive = ''ACTIVE''"
| "EndpointStatus_String EndpointStatusSuspended = ''SUSPENDED''"
| "EndpointStatus_String EndpointStatusRevoked = ''REVOKED''"
| "EndpointStatus_String (EndpointStatusOther s) = s"

primrec EnrollmentStatus_String :: "EnrollmentStatus \<Rightarrow> string" where
  "EnrollmentStatus_String EnrollmentStatusPending = ''PENDING''"
| "EnrollmentStatus_String EnrollmentStatusApproved = ''APPROVED''"
| "EnrollmentStatus_String EnrollmentStatusDenied = ''DENIED''"
| "EnrollmentStatus_String EnrollmentStatusExpired = ''EXPIRED''"
| "EnrollmentStatus_String EnrollmentStatusConsumed = ''CONSUMED''"
| "EnrollmentStatus_String (EnrollmentStatusOther s) = s"

primrec SessionStatus_String :: "SessionStatus \<Rightarrow> string" where
  "SessionStatus_String SessionStatusCreating = ''CREATING''"
| "SessionStatus_String SessionStatusWaitingKey = ''WAITING_KEY''"
| "SessionStatus_String SessionStatusActive = ''ACTIVE''"
| "SessionStatus_String SessionStatusRekeyRequired = ''REKEY_REQUIRED''"
| "SessionStatus_String SessionStatusDraining = ''DRAINING''"
| "SessionStatus_String SessionStatusUncertain = ''UNCERTAIN''"
| "SessionStatus_String SessionStatusClosed = ''CLOSED''"
| "SessionStatus_String SessionStatusFailed = ''FAILED''"
| "SessionStatus_String SessionStatusABARevoked = ''ABA_REVOKED''"
| "SessionStatus_String (SessionStatusOther s) = s"

primrec FrameStatus_String :: "FrameStatus \<Rightarrow> string" where
  "FrameStatus_String FrameStatusStored = ''STORED''"
| "FrameStatus_String FrameStatusRouted = ''ROUTED''"
| "FrameStatus_String FrameStatusReceiverAcknowledged = ''RECEIVER_ACKED''"
| "FrameStatus_String FrameStatusExpired = ''EXPIRED''"
| "FrameStatus_String FrameStatusConflict = ''CONFLICT''"
| "FrameStatus_String (FrameStatusOther s) = s"

definition FormatAuditUint :: "u64 \<Rightarrow> string" where
  "FormatAuditUint v = decimal (uint v)"

subsection \<open>Projections\<close>

definition projectEnrollment :: "Enrollment \<Rightarrow> gin_H" where
  "projectEnrollment v =
     [(''id'', FText (ID_String (en_ID v))), (''endpointType'', FText (EndpointType_String (en_EndpointType v))),
      (''endpointName'', FText (en_EndpointName v)), (''status'', FText (EnrollmentStatus_String (en_Status v))),
      (''expiresAt'', FTime (en_ExpiresAt v)), (''approvedAt'', FTimeOption (en_ApprovedAt v)),
      (''consumedAt'', FTimeOption (en_ConsumedAt v)),
      (''endpointId'', FText (if IsZero (en_EndpointID v) then [] else ID_String (en_EndpointID v))),
      (''createdAt'', FTime (en_CreatedAt v))]"

definition projectEndpoint :: "Endpoint \<Rightarrow> gin_H" where
  "projectEndpoint v =
     [(''id'', FText (ID_String (ep_ID v))), (''type'', FText (EndpointType_String (ep_Type v))), (''name'', FText (ep_Name v)),
      (''status'', FText (EndpointStatus_String (ep_Status v))), (''signingJkt'', FText (ep_SigningJKT v)), (''kemJkt'', FText (ep_KEMJKT v)),
      (''softwareVersion'', FText (ep_SoftwareVersion v)), (''platformName'', FText (ep_PlatformName v)),
      (''lastSeenAt'', FTimeOption (ep_LastSeenAt v)), (''revokedAt'', FTimeOption (ep_RevokedAt v)), (''createdAt'', FTime (ep_CreatedAt v))]"

definition projectSession :: "Session \<Rightarrow> gin_H" where
  "projectSession v =
     [(''id'', FText (ID_String (se_ID v))), (''abaEndpointId'', FText (ID_String (se_ABAEndpointID v))),
      (''hcEndpointId'', FText (ID_String (se_HCEndpointID v))), (''runtimeProfileId'', FText (se_RuntimeProfileID v)),
      (''workspaceId'', FText (se_WorkspaceID v)), (''requestedCapabilities'', FTexts (se_RequestedCapabilities v)),
      (''status'', FText (SessionStatus_String (se_Status v))), (''keyGeneration'', FNumber (uint (se_CurrentKeyGeneration v))),
      (''lastActivityAt'', FTimeOption (se_LastActivityAt v)), (''closedAt'', FTimeOption (se_ClosedAt v)), (''createdAt'', FTime (se_CreatedAt v))]"

definition project_frame :: "EncryptedFrame \<Rightarrow> gin_H" where
  "project_frame f =
     [(''messageId'', FText (ID_String (fr_MessageID f))), (''channelId'', FText (ID_String (fr_ChannelID f))),
      (''senderEndpointId'', FText (ID_String (fr_SenderEndpointID f))), (''receiverEndpointId'', FText (ID_String (fr_ReceiverEndpointID f))),
      (''direction'', FNumber (uint (fr_Direction f))), (''sequence'', FNumber (uint (fr_Sequence f))),
      (''keyGeneration'', FNumber (uint (fr_KeyGeneration f))), (''status'', FText (FrameStatus_String (fr_Status f))),
      (''ciphertextBytes'', FNumber (int (length (fr_Ciphertext f)))), (''receivedAt'', FTime (fr_ReceivedAt f)),
      (''acknowledgedAt'', FTimeOption (fr_AcknowledgedAt f))]"

definition project_ack :: "AckCursor \<Rightarrow> gin_H" where
  "project_ack a =
     [(''direction'', FNumber (uint (ac_Direction a))), (''senderEndpointId'', FText (ID_String (ac_SenderEndpointID a))),
      (''receiverEndpointId'', FText (ID_String (ac_ReceiverEndpointID a))), (''keyGeneration'', FNumber (uint (ac_KeyGeneration a))),
      (''highestContiguousSequence'', FNumber (uint (ac_HighestContiguousSequence a))), (''updatedAt'', FTime (ac_UpdatedAt a))]"

definition projectDelivery :: "DeliverySnapshot \<Rightarrow> gin_H" where
  "projectDelivery v =
     [(''session'', FObject (projectSession (dl_Session v))), (''frames'', FArray (map (FObject \<circ> project_frame) (dl_Frames v))),
      (''acks'', FArray (map (FObject \<circ> project_ack) (dl_ACKs v)))]"

definition projectOverview :: "Overview \<Rightarrow> gin_H" where
  "projectOverview v =
     [(''pendingEnrollments'', FNumber (int (ov_PendingEnrollments v))), (''activeEndpoints'', FNumber (int (ov_ActiveEndpoints v))),
      (''activeSessions'', FNumber (int (ov_ActiveSessions v))), (''unacknowledgedFrames'', FNumber (int (ov_Unacknowledged v))),
      (''conflictFrames'', FNumber (int (ov_ConflictFrames v)))]"

definition items :: "('v \<Rightarrow> gin_H) \<Rightarrow> 'v list \<Rightarrow> gin_H" where
  "items project vs = [(''items'', FArray (map (FObject \<circ> project) vs))]"

subsection \<open>The context of a request (\<open>management.go\<close>)\<close>

record managementContext =
  mx_owner :: string
  mx_tenant :: string

definition resolveManagement :: "console_env \<Rightarrow> managementContext console" where
  "resolveManagement K = (case ce_principal K of
       None \<Rightarrow> refuse 401 ''HARNESS_UNAUTHENTICATED'' ''authenticated principal is required''
     | Some who \<Rightarrow>
         if TrimSpace (pr_UserID who) = [] then refuse 401 ''HARNESS_UNAUTHENTICATED'' ''authenticated principal is required''
         else if \<not> ce_database K then refuse 503 ''HARNESS_DATABASE_UNAVAILABLE'' ''Harness persistence is unavailable''
         else returnG \<lparr>mx_owner = TrimSpace (pr_UserID who), mx_tenant = TrimSpace (pr_TenantID who)\<rparr>)"

type_synonym console_handler = "console_env \<Rightarrow> console_request \<Rightarrow> console_reply console"

definition withManagement :: "(console_env \<Rightarrow> console_request \<Rightarrow> managementContext \<Rightarrow> console_reply console) \<Rightarrow> console_handler" where
  "withManagement next K request = bindG (resolveManagement K) (next K request)"

definition withManagementResource ::
    "(console_env \<Rightarrow> console_request \<Rightarrow> managementContext \<Rightarrow> ID \<Rightarrow> console_reply console) \<Rightarrow> console_handler" where
  "withManagementResource next = withManagement (\<lambda>K request m. case ParseID (hq_PathValue (kq_http request) ''id'') of
       Inl e \<Rightarrow> writeManagementError K (NewProblem CodeInvalidArgument (Some e))
     | Inr i \<Rightarrow> next K request m i)"

definition maxManagementRequestBytes :: nat where "maxManagementRequestBytes = 16 * 1024"

text \<open>One JSON value with known names; any error of the decoder is the same to the caller.\<close>

definition decodeManagementJSON ::
    "console_env \<Rightarrow> string list \<Rightarrow> (string \<Rightarrow> json \<Rightarrow> 's \<Rightarrow> 's option) \<Rightarrow> 's \<Rightarrow> byte list \<Rightarrow> 's option" where
  "decodeManagementJSON K names set_field initial body =
     (if length body > maxManagementRequestBytes then None
      else case lib_json (ge_library (ce_env K)) body of
        None \<Rightarrow> None
      | Some (j, alone) \<Rightarrow> (case decode_struct names set_field initial j of
            None \<Rightarrow> None
          | Some v \<Rightarrow> if alone then Some v else None))"

definition decodeOptionalEmptyManagementJSON :: "console_env \<Rightarrow> byte list \<Rightarrow> bool" where
  "decodeOptionalEmptyManagementJSON K body0 =
     (if length body0 > maxManagementRequestBytes then False
      else let body = bytes_of (TrimSpace (map (\<lambda>b. char_of (unat b)) body0)) in
        if body = [] then True
        else if body = bytes_of ''null'' then False
        else case lib_json (ge_library (ce_env K)) body of
          None \<Rightarrow> False
        | Some (j, alone) \<Rightarrow> decode_struct [] (\<lambda>name v s. None) () j \<noteq> None \<and> alone)"

text \<open>\<^verbatim>\<open>strconv.Atoi\<close>: an optional sign, decimal digits, within 64 bits.\<close>

definition Atoi :: "string \<Rightarrow> int option" where
  "Atoi text =
     (let (negative, digits) = (case text of [] \<Rightarrow> (False, []) | c # cs \<Rightarrow>
            if c = CHR ''-'' then (True, cs) else if c = CHR ''+'' then (False, cs) else (False, c # cs));
          n = foldl (\<lambda>n c. n * 10 + int (code c - 48)) 0 digits;
          v = (if negative then - n else n)
      in if digits = [] \<or> \<not> list_all is_digit digits \<or> v < - (2 ^ 63) \<or> v \<ge> 2 ^ 63 then None else Some v)"

definition queryLimit :: "console_request \<Rightarrow> int" where
  "queryLimit request = (case kq_Limit request of
       None \<Rightarrow> 50
     | Some text \<Rightarrow> (case Atoi text of None \<Rightarrow> 50 | Some v \<Rightarrow> v))"

definition ToUpper :: "console_env \<Rightarrow> string \<Rightarrow> string" where
  "ToUpper K s = (if list_all (\<lambda>c. code c < 128) s then map (\<lambda>c. if is_lower c then char_of (code c - 32) else c) s else ce_upper K s)"

definition normalizeUserCode :: "console_env \<Rightarrow> string \<Rightarrow> string" where
  "normalizeUserCode K v = filter (\<lambda>c. c \<noteq> CHR '' '') (filter (\<lambda>c. c \<noteq> CHR ''-'') (ToUpper K (TrimSpace v)))"

definition hashUserCode :: "console_env \<Rightarrow> string \<Rightarrow> byte list" where
  "hashUserCode K v = sha256 (bytes_of (normalizeUserCode K v))"

subsection \<open>Mutations (\<open>mutation_execute.go\<close>)\<close>

definition managementIdempotencyTTL :: duration where "managementIdempotencyTTL = 24 * Hour"

record managementMutationResult =
  mr_HTTPStatus :: int
  mr_Body :: "gin_H option"
  mr_AuditMetadata :: "(string \<times> string) list"

record managementMutationSpec =
  sp_Operation :: string
  sp_ObjectType :: string
  sp_ObjectID :: string
  sp_RequestHash :: "byte list"
  sp_BaseAuditMetadata :: "(string \<times> string) list"
  sp_Execute :: "drivers \<Rightarrow> time \<Rightarrow> (db, managementMutationResult) tx"

definition managementMutationRequestHash :: "console_env \<Rightarrow> string \<Rightarrow> string \<Rightarrow> string option \<Rightarrow> byte list result" where
  "managementMutationRequestHash K operation objectID body = (case ce_canonical K operation objectID body of
       Inl e \<Rightarrow> Inl (NewProblem CodeInvalidArgument (Some e))
     | Inr canonical \<Rightarrow> Inr (sha256 canonical))"

text \<open>Later maps win: a metadata list keeps one entry per name.\<close>

definition mergeAuditMetadata :: "(string \<times> string) list list \<Rightarrow> (string \<times> string) list" where
  "mergeAuditMetadata = foldl (\<lambda>merged vs. foldl (\<lambda>m (k, v). AList.update k v m) merged vs) []"

definition newManagementAudit ::
    "managementContext \<Rightarrow> managementMutationSpec \<Rightarrow> string \<Rightarrow> string \<Rightarrow> time \<Rightarrow> (string \<times> string) list \<Rightarrow> ID result \<Rightarrow>
     SecurityAuditEvent result" where
  "newManagementAudit m spec outcome errorCode now metadata drawn = bindE drawn (\<lambda>i.
     let event = \<lparr>au_ID = i, au_OwnerUserID = mx_owner m, au_TenantID = mx_tenant m, au_ActorType = AuditActorHuman,
       au_ActorID = mx_owner m, au_Action = sp_Operation spec, au_ObjectType = sp_ObjectType spec, au_ObjectID = sp_ObjectID spec,
       au_Result = outcome, au_ErrorCode = errorCode, au_Metadata = metadata, au_CreatedAt = now\<rparr>
     in case SecurityAuditEvent_Validate event of Some e \<Rightarrow> Inl e | None \<Rightarrow> Inr event)"

definition mutation_record :: "managementContext \<Rightarrow> managementMutationSpec \<Rightarrow> string \<Rightarrow> ID \<Rightarrow> time \<Rightarrow> IdempotencyRecord" where
  "mutation_record m spec key i now = \<lparr>
     id_ID = i, id_OwnerUserID = mx_owner m, id_TenantID = mx_tenant m, id_ActorID = mx_owner m,
     id_Operation = sp_Operation spec, id_Key = key, id_RequestHash = sp_RequestHash spec, id_Status = IdempotencyStatusInProgress,
     id_HTTPStatus = 0, id_ResponseJSON = [], id_ErrorCode = [], id_CreatedAt = now, id_UpdatedAt = now,
     id_ExpiresAt = now + managementIdempotencyTTL, id_RowVersion = 0\<rparr>"

text \<open>The body of the transaction, up to the point where the audit event needs an identifier.\<close>

definition mutation_effect :: "console_env \<Rightarrow> managementMutationSpec \<Rightarrow> drivers \<Rightarrow> time \<Rightarrow> (db, managementMutationResult \<times> byte list) tx" where
  "mutation_effect K spec D now =
     bindT (sp_Execute spec D now) (\<lambda>result.
     bindT (guardT (mr_HTTPStatus result < 200 \<or> mr_HTTPStatus result > 299 \<or> mr_Body result = None) Plain) (\<lambda>_.
     bindT (liftT (case ce_marshal K (the (mr_Body result)) of Inl e \<Rightarrow> Inl (Wrap e) | Inr responseJSON \<Rightarrow> Inr responseJSON)) (\<lambda>responseJSON.
     returnT (result, responseJSON))))"

definition success_metadata :: "managementMutationSpec \<Rightarrow> managementMutationResult \<Rightarrow> (string \<times> string) list" where
  "success_metadata spec result = mergeAuditMetadata [sp_BaseAuditMetadata spec, mr_AuditMetadata result,
     [(''httpStatus'', decimal (mr_HTTPStatus result)), (''requestOutcome'', ''completed'')]]"

definition mutation_transaction ::
    "console_env \<Rightarrow> managementContext \<Rightarrow> managementMutationSpec \<Rightarrow> IdempotencyRecord \<Rightarrow> time \<Rightarrow> ID result \<Rightarrow> drivers \<Rightarrow> (db, int \<times> byte list) tx" where
  "mutation_transaction K m spec reserved now drawn D =
     bindT (mutation_effect K spec D now) (\<lambda>(result, responseJSON).
     bindT (liftT (newManagementAudit m spec ''success'' [] now (success_metadata spec result) drawn)) (\<lambda>auditEvent.
     bindT (callT (AppendAudit D auditEvent)) (\<lambda>_.
     bindT (callT (CompleteIdempotency D (complete_record reserved (mr_HTTPStatus result) responseJSON now))) (\<lambda>_.
     returnT (mr_HTTPStatus result, responseJSON)))))"

definition failure_transaction :: "IdempotencyRecord \<Rightarrow> int \<Rightarrow> byte list \<Rightarrow> string \<Rightarrow> SecurityAuditEvent \<Rightarrow> time \<Rightarrow> drivers \<Rightarrow> (db, unit) tx" where
  "failure_transaction reserved status responseJSON errorCode auditEvent now D =
     bindT (callT (AppendAudit D auditEvent)) (\<lambda>_.
     bindT (callT (CompleteIdempotency D ((complete_record reserved status responseJSON now)\<lparr>id_ErrorCode := errorCode\<rparr>))) (\<lambda>_.
     returnT ()))"

definition finalizeManagementMutationFailure ::
    "console_env \<Rightarrow> managementContext \<Rightarrow> managementMutationSpec \<Rightarrow> IdempotencyRecord \<Rightarrow> go_error \<Rightarrow> time \<Rightarrow> console_reply console" where
  "finalizeManagementMutationFailure K m spec reserved mutationErr now =
     (let (status, payload, errorCode) = managementErrorPayload K mutationErr in
      case ce_marshal K payload of
        Inl e \<Rightarrow> writeManagementError K e
      | Inr responseJSON \<Rightarrow> (\<lambda>s. let (drawn, s1) = newID_from s in
          case newManagementAudit m spec ''failure'' errorCode now
              (mergeAuditMetadata [sp_BaseAuditMetadata spec, [(''httpStatus'', decimal status), (''requestOutcome'', ''failed'')]]) drawn of
            Inl e \<Rightarrow> writeManagementError K e s1
          | Inr auditEvent \<Rightarrow>
              bindG (storeK K (\<lambda>D. run_tx D (failure_transaction reserved status responseJSON errorCode auditEvent now D))) (\<lambda>_.
              returnG (writeManagementBytes status responseJSON)) s1))"

text \<open>
  The transaction of a mutation.  The error of \<open>Execute\<close> is kept apart from the other errors of the
  transaction: it is recorded as the answer of the request.
\<close>

definition commitManagementMutation ::
    "console_env \<Rightarrow> managementContext \<Rightarrow> managementMutationSpec \<Rightarrow> IdempotencyRecord \<Rightarrow> time \<Rightarrow> console_reply console" where
  "commitManagementMutation K m spec reserved now s =
     (let D = ge_drivers (ce_env K) (gs_calls s) 0; (drawn, s1) = newID_from s;
          (r, db') = run_tx D (mutation_transaction K m spec reserved now drawn D) (gs_db s);
          s2 = (case mutation_effect K spec D now (gs_db s) of Inl e \<Rightarrow> s | Inr v \<Rightarrow> s1)\<lparr>gs_db := db', gs_calls := Suc (gs_calls s)\<rparr>
      in case sp_Execute spec D now (gs_db s) of
           Inl mutationErr \<Rightarrow> finalizeManagementMutationFailure K m spec reserved mutationErr now s2
         | Inr done_with \<Rightarrow> (case r of
             Inl e \<Rightarrow> writeManagementError K e s2
           | Inr (status, responseJSON) \<Rightarrow> returnG (writeManagementBytes status responseJSON) s2))"

definition executeManagementMutation ::
    "console_env \<Rightarrow> console_request \<Rightarrow> managementContext \<Rightarrow> managementMutationSpec \<Rightarrow> console_reply console" where
  "executeManagementMutation K request m spec =
     (if sp_Operation spec = [] \<or> sp_ObjectType spec = [] \<or> sp_ObjectID spec = [] then writeManagementError K Plain
      else let idempotencyKey = header_get (kq_http request) ''Idempotency-Key''; now = ce_clock K 0 in
      if TrimSpace idempotencyKey \<noteq> idempotencyKey then writeManagementError K (problem CodeInvalidArgument)
      else case ValidateIdempotencyKey idempotencyKey of Some e \<Rightarrow> writeManagementError K e | None \<Rightarrow>
      bindG (serviceK K newID_from) (\<lambda>recordID.
      bindG (storeK K (\<lambda>D. ReserveIdempotency D (mutation_record m spec idempotencyKey recordID now))) (\<lambda>reservation.
      case rv_Outcome reservation of
        IdempotencyReplay \<Rightarrow> returnG ((writeManagementBytes (id_HTTPStatus (rv_Record reservation)) (id_ResponseJSON (rv_Record reservation)))
          \<lparr>kr_Replayed := True\<rparr>)
      | IdempotencyInProgress \<Rightarrow> refuse 409 ''HARNESS_IDEMPOTENCY_IN_PROGRESS'' ''another request with this Idempotency-Key is still in progress''
      | IdempotencyAcquired \<Rightarrow> commitManagementMutation K m spec (rv_Record reservation) now)))"

end
