(* ===== verification/Management_Routes.thy ===== *)
theory Management_Routes
  imports Management_Api
begin

section \<open>The routes of the console and who may use them\<close>

text \<open>
  \<open>mutation_handlers.go\<close>, \<open>hc_registration.go\<close>, the queries of \<open>management.go\<close>, \<open>authorization.go\<close>
  and the registration of the routes in \<open>module.go\<close>.
\<close>

subsection \<open>Decisions on enrollments, endpoints and sessions\<close>

definition bad_request :: "console_env \<Rightarrow> 'a console" where
  "bad_request K = writeManagementError K (NewProblem CodeInvalidArgument (Some Plain))"

definition set_code_field :: "string \<Rightarrow> json \<Rightarrow> string \<Rightarrow> string option" where
  "set_code_field name = set_string (\<lambda>v s. v)"

definition decided :: "Enrollment \<Rightarrow> managementMutationResult" where
  "decided v = \<lparr>mr_HTTPStatus = 200, mr_Body = Some (projectEnrollment v),
     mr_AuditMetadata = [(''previousStatus'', EnrollmentStatus_String EnrollmentStatusPending),
       (''currentStatus'', EnrollmentStatus_String (en_Status v)), (''resourceVersion'', FormatAuditUint (en_RowVersion v))]\<rparr>"

definition decision_spec :: "console_env \<Rightarrow> managementContext \<Rightarrow> ID \<Rightarrow> bool \<Rightarrow> string \<Rightarrow> byte list \<Rightarrow> managementMutationSpec" where
  "decision_spec K m i approve normalizedCode requestHash = \<lparr>
     sp_Operation = (if approve then ''enrollment.approve'' else ''enrollment.deny''), sp_ObjectType = ''enrollment'',
     sp_ObjectID = ID_String i, sp_RequestHash = requestHash,
     sp_BaseAuditMetadata = [(''decision'', if approve then ''approve'' else ''deny'')],
     sp_Execute = (\<lambda>D now. bindT (callT (if approve
         then ApproveEnrollmentWithCode D i (hashUserCode K normalizedCode) (mx_owner m) (mx_tenant m) now
         else DenyEnrollmentWithCode D i (hashUserCode K normalizedCode) (mx_owner m) (mx_tenant m) now))
       (\<lambda>v. returnT (decided v)))\<rparr>"

definition enrollmentDecision :: "bool \<Rightarrow> console_handler" where
  "enrollmentDecision approve = withManagementResource (\<lambda>K request m i.
     case decodeManagementJSON K [''userCode''] set_code_field [] (hq_Body (kq_http request)) of
       None \<Rightarrow> bad_request K
     | Some userCode \<Rightarrow> (let normalizedCode = normalizeUserCode K userCode in
         if normalizedCode = [] then writeManagementError K (problem CodeInvalidArgument)
         else case managementMutationRequestHash K (if approve then ''enrollment.approve'' else ''enrollment.deny'') (ID_String i)
               (Some normalizedCode) of
           Inl e \<Rightarrow> writeManagementError K e
         | Inr requestHash \<Rightarrow> executeManagementMutation K request m (decision_spec K m i approve normalizedCode requestHash)))"

definition endpoint_changed :: "Endpoint \<Rightarrow> managementMutationResult" where
  "endpoint_changed v = \<lparr>mr_HTTPStatus = 200, mr_Body = Some (projectEndpoint v),
     mr_AuditMetadata = [(''currentStatus'', EndpointStatus_String (ep_Status v)), (''endpointType'', EndpointType_String (ep_Type v)),
       (''resourceVersion'', FormatAuditUint (ep_RowVersion v))]\<rparr>"

definition session_closed :: "Session \<Rightarrow> managementMutationResult" where
  "session_closed v = \<lparr>mr_HTTPStatus = 200, mr_Body = Some (projectSession v),
     mr_AuditMetadata = [(''sessionStatus'', SessionStatus_String (se_Status v)),
       (''keyGeneration'', FormatAuditUint (se_CurrentKeyGeneration v)), (''resourceVersion'', FormatAuditUint (se_RowVersion v))]\<rparr>"

text \<open>The three handlers whose request has no content differ in the operation and what it executes.\<close>

definition empty_spec ::
    "string \<Rightarrow> string \<Rightarrow> ID \<Rightarrow> (drivers \<Rightarrow> time \<Rightarrow> (db, managementMutationResult) tx) \<Rightarrow> byte list \<Rightarrow> managementMutationSpec" where
  "empty_spec operation objectType i execute requestHash = \<lparr>sp_Operation = operation, sp_ObjectType = objectType,
     sp_ObjectID = ID_String i, sp_RequestHash = requestHash, sp_BaseAuditMetadata = [], sp_Execute = execute\<rparr>"

definition emptyMutation ::
    "string \<Rightarrow> string \<Rightarrow> (managementContext \<Rightarrow> ID \<Rightarrow> drivers \<Rightarrow> time \<Rightarrow> (db, managementMutationResult) tx) \<Rightarrow> console_handler" where
  "emptyMutation operation objectType execute = withManagementResource (\<lambda>K request m i.
     if \<not> decodeOptionalEmptyManagementJSON K (hq_Body (kq_http request)) then bad_request K
     else case managementMutationRequestHash K operation (ID_String i) None of
       Inl e \<Rightarrow> writeManagementError K e
     | Inr requestHash \<Rightarrow> executeManagementMutation K request m (empty_spec operation objectType i (execute m i) requestHash))"

definition endpointAction :: "string \<Rightarrow> (time \<Rightarrow> Endpoint \<Rightarrow> go_error option \<times> Endpoint) \<Rightarrow> console_handler" where
  "endpointAction operation mutate = emptyMutation operation ''endpoint'' (\<lambda>m i D now.
     bindT (callT (UpdateEndpointForOwner D i (mx_owner m) (mx_tenant m) (mutate now))) (\<lambda>v. returnT (endpoint_changed v)))"

definition revokeEndpoint :: console_handler where
  "revokeEndpoint = emptyMutation ''endpoint.revoke'' ''endpoint'' (\<lambda>m i D now.
     bindT (callT (RevokeEndpointForOwner D i (mx_owner m) (mx_tenant m) now)) (\<lambda>v. returnT (endpoint_changed v)))"

definition closeSession :: console_handler where
  "closeSession = emptyMutation ''session.close'' ''session'' (\<lambda>m i D now.
     bindT (callT (CloseSessionForOwner D i (mx_owner m) (mx_tenant m) now)) (\<lambda>v. returnT (session_closed v)))"

subsection \<open>Queries\<close>

definition overview :: console_handler where
  "overview = withManagement (\<lambda>K request m.
     bindG (storeK K (\<lambda>D. Overview_of D (mx_owner m) (mx_tenant m))) (\<lambda>v. returnG (json_reply 200 (projectOverview v))))"

definition listing ::
    "(drivers \<Rightarrow> string \<Rightarrow> string \<Rightarrow> int \<Rightarrow> db \<Rightarrow> 'v list result \<times> db) \<Rightarrow> ('v \<Rightarrow> gin_H) \<Rightarrow> console_handler" where
  "listing query project = withManagement (\<lambda>K request m.
     bindG (storeK K (\<lambda>D. query D (mx_owner m) (mx_tenant m) (queryLimit request))) (\<lambda>vs.
     returnG (json_reply 200 (items project vs))))"

definition delivery :: console_handler where
  "delivery = withManagementResource (\<lambda>K request m i.
     bindG (storeK K (\<lambda>D. Delivery D i (mx_owner m) (mx_tenant m) (queryLimit request))) (\<lambda>v.
     returnG (json_reply 200 (projectDelivery v))))"

text \<open>The health of the module: the two checks of the schema and of the policy table are parameters.\<close>

definition console_health :: console_handler where
  "console_health K request = (case ce_principal K of
       None \<Rightarrow> refuse 401 ''HARNESS_UNAUTHENTICATED'' ''authenticated principal is required''
     | Some who \<Rightarrow>
         if pr_UserID who = [] then refuse 401 ''HARNESS_UNAUTHENTICATED'' ''authenticated principal is required''
         else if \<not> ce_database K then refuse 503 ''HARNESS_DATABASE_UNAVAILABLE'' ''Harness persistence is unavailable''
         else if fst (ce_ready K) \<noteq> None then refuse 503 ''HARNESS_NOT_READY'' ''Harness schema is not ready''
         else if snd (ce_ready K) \<noteq> None then refuse 503 ''HARNESS_AUTHORIZATION_UNAVAILABLE'' ''Harness authorization is unavailable''
         else returnG (json_reply 200 [(''status'', FText ''ready''), (''module'', FText ''harness''), (''userId'', FText (pr_UserID who)),
           (''tenantId'', FText (pr_TenantID who)), (''schemaMigrations'', FTexts (ce_migrations K))]))"

subsection \<open>Registration of browser endpoints (\<open>hc_registration.go\<close>)\<close>

definition requireHCBrowserSession :: "console_env \<Rightarrow> unit console" where
  "requireHCBrowserSession K =
     (if \<not> ce_browser_session K then refuse 401 ''HARNESS_BROWSER_SESSION_REQUIRED'' ''Admin browser session is required''
      else if \<not> ce_trusted_origin K then refuse 403 ''HARNESS_ORIGIN_FORBIDDEN'' ''trusted browser origin is required''
      else returnG ())"

text \<open>The registration service is used with its default lifetimes.\<close>

definition console_ttl :: registration_ttl where
  "console_ttl = \<lparr>st_ChallengeTTL = 0, st_AccessTTL = 0, st_RefreshTTL = 0\<rparr>"

definition hcChallenges :: console_handler where
  "hcChallenges = withManagement (\<lambda>K request m.
     bindG (requireHCBrowserSession K) (\<lambda>_.
     if \<not> decodeOptionalEmptyManagementJSON K (hq_Body (kq_http request)) then bad_request K
     else bindG (serviceK K (IssueChallenge (ce_env K) console_ttl (ce_clock K 0) (mx_owner m) (mx_tenant m)
         (header_get (kq_http request) ''Origin''))) (\<lambda>issued.
       returnG (json_reply 201 [(''challengeId'', FText (ID_String (ic_ID issued))), (''challenge'', FText (ic_Challenge issued)),
         (''expiresAt'', FTime (ic_ExpiresAt issued)), (''transcriptVersion'', FText ''MSS-HC-REGISTER-V1'')]))))"

record hcRegistrationRequest =
  hr_ChallengeID :: string
  hr_Challenge :: string
  hr_EndpointName :: string
  hr_SigningPublicJWK :: "byte list"
  hr_KEMPublicJWK :: "byte list"
  hr_Assurance :: string
  hr_SoftwareVersion :: string
  hr_Proof :: string

definition set_registration_field :: "(string \<Rightarrow> byte list) \<Rightarrow> string \<Rightarrow> json \<Rightarrow> hcRegistrationRequest \<Rightarrow> hcRegistrationRequest option" where
  "set_registration_field raw name =
     (if name = ''challengeId'' then set_string (\<lambda>v s. s\<lparr>hr_ChallengeID := v\<rparr>)
      else if name = ''challenge'' then set_string (\<lambda>v s. s\<lparr>hr_Challenge := v\<rparr>)
      else if name = ''endpointName'' then set_string (\<lambda>v s. s\<lparr>hr_EndpointName := v\<rparr>)
      else if name = ''signingPublicJwk'' then (\<lambda>v s. Some (s\<lparr>hr_SigningPublicJWK := raw name\<rparr>))
      else if name = ''kemPublicJwk'' then (\<lambda>v s. Some (s\<lparr>hr_KEMPublicJWK := raw name\<rparr>))
      else if name = ''assurance'' then set_string (\<lambda>v s. s\<lparr>hr_Assurance := v\<rparr>)
      else if name = ''softwareVersion'' then set_string (\<lambda>v s. s\<lparr>hr_SoftwareVersion := v\<rparr>)
      else set_string (\<lambda>v s. s\<lparr>hr_Proof := v\<rparr>))"

definition registration_names :: "string list" where
  "registration_names = [''challengeId'', ''challenge'', ''endpointName'', ''signingPublicJwk'', ''kemPublicJwk'', ''assurance'',
     ''softwareVersion'', ''proof'']"

definition Assurance_of :: "string \<Rightarrow> Assurance" where
  "Assurance_of text = (if text = ''web-ephemeral'' then AssuranceWebEphemeral
     else if text = ''web-software'' then AssuranceWebSoftware else AssuranceOther text)"

definition setHCRefreshCookie :: "console_env \<Rightarrow> Registration \<Rightarrow> refresh_cookie" where
  "setHCRefreshCookie K result = \<lparr>ck_Value = rr_RefreshToken result, ck_Expires = rr_RefreshExpiresAt result,
     ck_MaxAge = (let wall = ce_clock K 1; expiresAt = rr_RefreshExpiresAt result;
         seconds = (if expiresAt < wall then - ((wall - expiresAt) div Second) else (expiresAt - wall) div Second)
       in if seconds < 1 then 1 else seconds),
     ck_Secure = ce_secure_cookie K\<rparr>"

definition hcEndpoints :: console_handler where
  "hcEndpoints = withManagement (\<lambda>K request m.
     bindG (requireHCBrowserSession K) (\<lambda>_.
     case decodeManagementJSON K registration_names (set_registration_field (ce_raw_member K (hq_Body (kq_http request))))
         \<lparr>hr_ChallengeID = [], hr_Challenge = [], hr_EndpointName = [], hr_SigningPublicJWK = [], hr_KEMPublicJWK = [], hr_Assurance = [],
          hr_SoftwareVersion = [], hr_Proof = []\<rparr> (hq_Body (kq_http request)) of
       None \<Rightarrow> bad_request K
     | Some input \<Rightarrow> (case ParseID (hr_ChallengeID input) of
         Inl e \<Rightarrow> writeManagementError K (NewProblem CodeInvalidArgument (Some e))
       | Inr challengeID \<Rightarrow>
           bindG (serviceK K (Register (ce_env K) console_ttl (ce_clock K 0) (mx_owner m) (mx_tenant m) (header_get (kq_http request) ''Origin'')
             \<lparr>ri_ChallengeID = challengeID, ri_Challenge = hr_Challenge input, ri_EndpointName = hr_EndpointName input,
              ri_SigningPublicJWK = hr_SigningPublicJWK input, ri_KEMPublicJWK = hr_KEMPublicJWK input,
              ri_Assurance = Assurance_of (hr_Assurance input), ri_SoftwareVersion = hr_SoftwareVersion input,
              ri_Proof = hr_Proof input\<rparr>)) (\<lambda>result.
           returnG ((json_reply 201 [(''endpointId'', FText (ID_String (rr_EndpointID result))),
             (''credentialId'', FText (ID_String (rr_CredentialID result))), (''tokenType'', FText ''DPoP''),
             (''accessToken'', FText (rr_AccessToken result)), (''accessExpiresAt'', FTime (rr_AccessExpiresAt result)),
             (''signingJkt'', FText (rr_SigningJKT result)), (''kemJkt'', FText (rr_KEMJKT result))])
             \<lparr>kr_Cookie := Some (setHCRefreshCookie K result)\<rparr>)))))"

subsection \<open>Authorization (\<open>authorization.go\<close>)\<close>

definition PermissionRead :: string where "PermissionRead = ''harness:read''"
definition PermissionOperate :: string where "PermissionOperate = ''harness:operate''"
definition PermissionApprove :: string where "PermissionApprove = ''harness:approve''"
definition PermissionRevoke :: string where "PermissionRevoke = ''harness:revoke''"

definition canonicalAdminAPIBasePath :: string where "canonicalAdminAPIBasePath = ''/admin/api''"

record harnessAuthorizationRoute =
  ar_permission :: string
  ar_method :: string
  ar_path :: string

definition admin_route :: "string \<Rightarrow> string \<Rightarrow> string \<Rightarrow> harnessAuthorizationRoute" where
  "admin_route permission method path = \<lparr>ar_permission = permission, ar_method = method, ar_path = canonicalAdminAPIBasePath @ path\<rparr>"

definition harnessAuthorizationRoutes :: "harnessAuthorizationRoute list" where
  "harnessAuthorizationRoutes = [
     admin_route PermissionRead ''GET'' ''/harness/v1/health'',
     admin_route PermissionRead ''GET'' ''/harness/v1/overview'',
     admin_route PermissionRead ''GET'' ''/harness/v1/enrollments'',
     admin_route PermissionApprove ''POST'' ''/harness/v1/enrollments/:id/approve'',
     admin_route PermissionApprove ''POST'' ''/harness/v1/enrollments/:id/deny'',
     admin_route PermissionRead ''GET'' ''/harness/v1/endpoints'',
     admin_route PermissionOperate ''POST'' ''/harness/v1/hc/challenges'',
     admin_route PermissionOperate ''POST'' ''/harness/v1/hc/endpoints'',
     admin_route PermissionRevoke ''POST'' ''/harness/v1/endpoints/:id/suspend'',
     admin_route PermissionRevoke ''POST'' ''/harness/v1/endpoints/:id/resume'',
     admin_route PermissionRevoke ''POST'' ''/harness/v1/endpoints/:id/revoke'',
     admin_route PermissionRead ''GET'' ''/harness/v1/sessions'',
     admin_route PermissionOperate ''POST'' ''/harness/v1/sessions/:id/close'',
     admin_route PermissionRead ''GET'' ''/harness/v1/sessions/:id/delivery'']"

definition authorizationRouteKey :: "console_env \<Rightarrow> string \<Rightarrow> string \<Rightarrow> string" where
  "authorizationRouteKey K method path = ToUpper K (TrimSpace method) @ '' '' @ TrimSpace path"

definition canonicalAdminRoutePath :: "string \<Rightarrow> string" where
  "canonicalAdminRoutePath path = (if HasPrefix path ''/api/harness/v1/'' then ''/admin'' @ path else path)"

text \<open>The index is built once from the table; a second route under the same key would stop the program.\<close>

definition harnessRouteForRequest :: "console_env \<Rightarrow> console_request \<Rightarrow> harnessAuthorizationRoute option" where
  "harnessRouteForRequest K request =
     find (\<lambda>route. authorizationRouteKey K (ar_method route) (ar_path route) =
       authorizationRouteKey K (hq_Method (kq_http request)) (canonicalAdminRoutePath (kq_FullPath request))) harnessAuthorizationRoutes"

datatype authorization_error = ErrHarnessAuthenticationRequired | ErrHarnessAuthorizationDenied | ErrHarnessAuthorizationUnavailable

definition policy_row :: "console_env \<Rightarrow> principal \<Rightarrow> harnessAuthorizationRoute \<Rightarrow> casbin_rule \<Rightarrow> bool" where
  "policy_row K who route rule \<longleftrightarrow> cb_Ptype rule = ''p'' \<and> cb_V0 rule = TrimSpace (pr_RoleID who) \<and> cb_V1 rule = ce_access_type K \<and>
     cb_V2 rule = ar_path route \<and> cb_V3 rule = ar_method route"

definition Authorize :: "console_env \<Rightarrow> console_request \<Rightarrow> string \<Rightarrow> authorization_error option" where
  "Authorize K request permission = (case harnessRouteForRequest K request of
       None \<Rightarrow> Some ErrHarnessAuthorizationDenied
     | Some route \<Rightarrow>
         if ar_permission route \<noteq> permission then Some ErrHarnessAuthorizationDenied
         else case ce_principal K of
           None \<Rightarrow> Some ErrHarnessAuthenticationRequired
         | Some who \<Rightarrow>
             if TrimSpace (pr_RoleID who) = [] then Some ErrHarnessAuthenticationRequired
             else if \<not> ce_database K then Some ErrHarnessAuthorizationUnavailable
             else case ce_policies K of
               None \<Rightarrow> Some ErrHarnessAuthorizationUnavailable
             | Some rules \<Rightarrow>
                 if pr_Root who then None
                 else case d_count (ce_policy_driver K) rules (policy_row K who route) of
                   Inl e \<Rightarrow> Some ErrHarnessAuthorizationUnavailable
                 | Inr n \<Rightarrow> if n \<noteq> 1 then Some ErrHarnessAuthorizationDenied else None)"

primrec authorization_answer :: "authorization_error \<Rightarrow> console_reply" where
  "authorization_answer ErrHarnessAuthenticationRequired =
     json_reply 401 (coded ''HARNESS_UNAUTHENTICATED'' ''authenticated principal is required'')"
| "authorization_answer ErrHarnessAuthorizationDenied = json_reply 403 (coded ''HARNESS_FORBIDDEN'' ''Harness permission is required'')"
| "authorization_answer ErrHarnessAuthorizationUnavailable =
     json_reply 503 (coded ''HARNESS_AUTHORIZATION_UNAVAILABLE'' ''Harness authorization is unavailable'')"

definition Middleware :: "console_env \<Rightarrow> console_request \<Rightarrow> unit console" where
  "Middleware K request = (case harnessRouteForRequest K request of
       None \<Rightarrow> failG (authorization_answer ErrHarnessAuthorizationDenied)
     | Some route \<Rightarrow> (case Authorize K request (ar_permission route) of
         Some e \<Rightarrow> failG (authorization_answer e)
       | None \<Rightarrow> returnG ()))"

subsection \<open>The routes\<close>

definition group_routes :: "(string \<times> string \<times> console_handler) list" where
  "group_routes = [
     (''GET'', ''/health'', console_health),
     (''GET'', ''/overview'', overview),
     (''POST'', ''/hc/challenges'', hcChallenges),
     (''POST'', ''/hc/endpoints'', hcEndpoints),
     (''GET'', ''/enrollments'', listing ListEnrollments projectEnrollment),
     (''POST'', ''/enrollments/:id/approve'', enrollmentDecision True),
     (''POST'', ''/enrollments/:id/deny'', enrollmentDecision False),
     (''GET'', ''/endpoints'', listing ListEndpoints projectEndpoint),
     (''POST'', ''/endpoints/:id/suspend'', endpointAction ''endpoint.suspend'' Endpoint_Suspend),
     (''POST'', ''/endpoints/:id/resume'', endpointAction ''endpoint.resume'' Endpoint_Resume),
     (''POST'', ''/endpoints/:id/revoke'', revokeEndpoint),
     (''GET'', ''/sessions'', listing ListSessions projectSession),
     (''POST'', ''/sessions/:id/close'', closeSession),
     (''GET'', ''/sessions/:id/delivery'', delivery)]"

definition answered :: "console_reply console \<Rightarrow> gateway \<Rightarrow> console_reply \<times> gateway" where
  "answered m s = (case m s of (Inl reply, s') \<Rightarrow> (reply, s') | (Inr reply, s') \<Rightarrow> (reply, s'))"

text \<open>
  A request for a pattern of the group that is mounted under \<open>base\<close>; gin answers 404 when no pattern
  matches, before the middleware of the group.
\<close>

definition serve_console :: "console_env \<Rightarrow> string \<Rightarrow> console_request \<Rightarrow> gateway \<Rightarrow> console_reply \<times> gateway" where
  "serve_console K base request s =
     (case find (\<lambda>(method, pattern, h). method = hq_Method (kq_http request) \<and> base @ ''/harness/v1'' @ pattern = kq_FullPath request) group_routes of
        None \<Rightarrow> (json_reply 404 [], s)
      | Some (method, pattern, h) \<Rightarrow> answered (bindG (Middleware K request) (\<lambda>_. h K request)) s)"

end
