(* ===== verification/Management_Safety.thy ===== *)
theory Management_Safety
  imports Management_Routes Gateway_Invariants Store_Session_Safety
begin

section \<open>What the console promises\<close>

text \<open>
  Three promises of the management console.  No request acts, or is answered with success, without a
  policy for its route.  A mutation acts at most once for each idempotency key.  Every effect of a
  mutation is in the audit table, in the same transaction.

  The locale \<open>console_mutation\<close> is what \<open>executeManagementMutation\<close> relies on: the mutation it is given
  writes neither the audit table nor the table of idempotency records.  It is interpreted on the mutations
  of the console.
\<close>

subsection \<open>Footprints\<close>

lemma leaves_decideEnrollment:
  assumes [simp]: "\<And>f db. g (t_enrollments_update f db) = g db"
  shows "leaves g (decideEnrollment D i h owner tenant now approve)"
  unfolding decideEnrollment_def Let_def by (intro leaves_run untouched_intros) simp_all

lemma leaves_UpdateEndpointForOwner:
  assumes [simp]: "\<And>f db. g (t_endpoints_update f db) = g db"
  shows "leaves g (UpdateEndpointForOwner D i owner tenant mutate)"
  unfolding UpdateEndpointForOwner_def Let_def by (intro leaves_run untouched_intros) simp_all

lemma leaves_CloseSessionForOwner:
  assumes [simp]: "\<And>f db. g (t_sessions_update f db) = g db"
  shows "leaves g (CloseSessionForOwner D i owner tenant now)"
  unfolding CloseSessionForOwner_def Let_def by (intro leaves_run untouched_intros) simp_all

lemma leaves_RevokeEndpointForOwner:
  assumes [simp]: "\<And>f db. g (t_endpoints_update f db) = g db" "\<And>f db. g (t_credentials_update f db) = g db"
    "\<And>f db. g (t_refresh_update f db) = g db" "\<And>f db. g (t_tickets_update f db) = g db"
    "\<And>f db. g (t_packages_update f db) = g db" "\<And>f db. g (t_sessions_update f db) = g db"
  shows "leaves g (RevokeEndpointForOwner D i owner tenant now)"
proof -
  have fence: "untouched g (fence_sessions D owner tenant ss)" for owner tenant ss
    by (induction ss) (auto intro!: untouched_intros)
  show ?thesis
    unfolding RevokeEndpointForOwner_def revoke_scoped_sessions_def revoke_secrets_def Let_def
    by (intro leaves_run_normalized untouched_intros fence) simp_all
qed

lemma leaves_challenges:
  assumes [simp]: "\<And>f db. g (t_challenges_update f db) = g db" "\<And>f db. g (t_endpoints_update f db) = g db"
    "\<And>f db. g (t_credentials_update f db) = g db" "\<And>f db. g (t_refresh_update f db) = g db" "\<And>f db. g (t_audit_update f db) = g db"
  shows "leaves g (CreateHCRegistrationChallenge D challenge now ttl)"
    "leaves g (ConsumeHCRegistrationChallenge D i h owner tenant origin endpoint access refresh audit now)"
  unfolding CreateHCRegistrationChallenge_def ConsumeHCRegistrationChallenge_def Let_def
  by (intro leaves_run untouched_intros; simp)+

lemma leaves_console_queries:
  "leaves g (Overview_of D owner tenant)" "leaves g (ListEnrollments D owner tenant n)" "leaves g (ListEndpoints D owner tenant n)"
  "leaves g (ListSessions D owner tenant n)" "leaves g (Delivery D i owner tenant n)"
  by (simp_all add: leaves_def Overview_of_def ListEnrollments_def ListEndpoints_def ListSessions_def Delivery_def Let_def)

subsection \<open>Refusals\<close>

text \<open>A refusal is an error status with a JSON body; nothing is changed by it.\<close>

definition refusal :: "console_reply \<Rightarrow> bool" where
  "refusal reply \<longleftrightarrow> kr_Status reply \<ge> 400 \<and> (\<exists>body. kr_Body reply = JSONBody body)"

lemma error_status_refuses: "error_status c \<ge> 400"
  by (cases c) simp_all

lemma refusal_error [simp]: "refusal (managementError K e)"
  by (auto simp: refusal_def managementError_def managementErrorPayload_def json_reply_def Let_def error_status_refuses split: option.splits)

lemma refusal_json [simp]: "refusal (json_reply status body) \<longleftrightarrow> status \<ge> 400"
  by (simp add: refusal_def json_reply_def)

lemma refusal_bytes [simp]: "\<not> refusal (writeManagementBytes status response)"
  by (simp add: refusal_def writeManagementBytes_def)

lemma bindG_cases: "bindG m k s = (r, s') \<longleftrightarrow> (\<exists>e. m s = (Inl e, s') \<and> r = Inl e) \<or> (\<exists>a s1. m s = (Inr a, s1) \<and> k a s1 = (r, s'))"
  by (auto simp: bindG_def split: prod.splits sum.splits)

lemma storeK_cases: "storeK K operation s = (r, s') \<longleftrightarrow> (\<exists>r0 db'. operation (ge_drivers (ce_env K) (gs_calls s) 0) (gs_db s) = (r0, db') \<and>
    s' = s\<lparr>gs_db := db', gs_calls := Suc (gs_calls s)\<rparr> \<and> r = map_sum (managementError K) id r0)"
  by (auto simp: storeK_def serviceK_def callS_def split: prod.splits sum.splits)

lemma serviceK_newID: "serviceK K newID_from s = (r, s') \<Longrightarrow> gs_db s' = gs_db s \<and> gs_calls s' = gs_calls s \<and> (\<forall>reply. r = Inl reply \<longrightarrow> refusal reply)"
  by (auto simp: serviceK_def newID_from_def readS_def Let_def split: prod.splits sum.splits if_splits)

lemma newID_db: "newID_from s = (r, s') \<Longrightarrow> gs_db s' = gs_db s \<and> gs_calls s' = gs_calls s"
  by (auto simp: newID_from_def readS_def Let_def split: prod.splits if_splits)

subsection \<open>Mutations\<close>

locale console_mutation =
  fixes execute :: "drivers \<Rightarrow> time \<Rightarrow> (db, managementMutationResult) tx"
  assumes keeps_audit: "untouched t_audit (execute D now)"
    and keeps_idempotency: "untouched t_idempotency (execute D now)"

text \<open>What the audit table says of a mutation.\<close>

definition audited :: "managementContext \<Rightarrow> managementMutationSpec \<Rightarrow> string \<Rightarrow> auditRow list \<Rightarrow> auditRow list \<Rightarrow> bool" where
  "audited m spec outcome before after \<longleftrightarrow> (\<exists>event metadata. after = before @ [auditToRow event metadata] \<and>
     au_ActorType event = AuditActorHuman \<and> au_ActorID event = mx_owner m \<and> au_OwnerUserID event = mx_owner m \<and>
     au_TenantID event = mx_tenant m \<and> au_Action event = sp_Operation spec \<and> au_ObjectID event = sp_ObjectID spec \<and> au_Result event = outcome)"

lemma AppendAudit_row:
  assumes "database_laws D" "AppendAudit D event db = (Inr u, db')"
  shows "\<exists>metadata. db' = db\<lparr>t_audit := t_audit db @ [auditToRow event metadata]\<rparr>"
  using run_tx_success [OF assms(2) [unfolded AppendAudit_def]]
  by (auto simp: tx_Inr dest!: sql_table.tx_createD [OF database_lawsD(9) [OF assms(1)]])

lemma newManagementAudit_Inr: "newManagementAudit m spec outcome errorCode now metadata drawn = Inr event \<Longrightarrow>
    au_ActorType event = AuditActorHuman \<and> au_ActorID event = mx_owner m \<and> au_OwnerUserID event = mx_owner m \<and>
    au_TenantID event = mx_tenant m \<and> au_Action event = sp_Operation spec \<and> au_ObjectID event = sp_ObjectID spec \<and> au_Result event = outcome"
  by (auto simp: newManagementAudit_def bindE_Inr_iff Let_def split: option.splits)

lemma appended_audit:
  assumes "database_laws D" "newManagementAudit m spec outcome errorCode now metadata drawn = Inr event" "AppendAudit D event db = (Inr u, db')"
  shows "\<exists>t. db' = db\<lparr>t_audit := t\<rparr> \<and> audited m spec outcome (t_audit db) t"
  using AppendAudit_row [OF assms(1,3)] newManagementAudit_Inr [OF assms(2)] unfolding audited_def by metis

text \<open>How the transaction of a mutation ends.\<close>

lemma wrapped_Inr: "(case x of Inl e \<Rightarrow> Inl (Wrap e) | Inr v \<Rightarrow> Inr v) = Inr a \<longleftrightarrow> x = Inr a"
  by (simp split: sum.splits)

lemma mutation_transaction_InrD:
  assumes laws: "database_laws D" and ok: "mutation_transaction K m spec reserved now drawn D db = Inr ((status, response), db')"
  obtains result db1 t v where "sp_Execute spec D now db = Inr (result, db1)" "200 \<le> status" "status \<le> 299"
    "audited m spec ''success'' (t_audit db1) t"
    "CompleteIdempotency D (complete_record reserved status response now) (db1\<lparr>t_audit := t\<rparr>) = (Inr v, db')"
proof -
  obtain result db1 event db2 u v where
    run: "sp_Execute spec D now db = Inr (result, db1)" "200 \<le> mr_HTTPStatus result" "mr_HTTPStatus result \<le> 299"
      "newManagementAudit m spec ''success'' [] now (success_metadata spec result) drawn = Inr event" "AppendAudit D event db1 = (Inr u, db2)"
      "CompleteIdempotency D (complete_record reserved (mr_HTTPStatus result) response now) db2 = (Inr v, db')" "status = mr_HTTPStatus result"
    using ok unfolding mutation_transaction_def mutation_effect_def by (auto simp: tx_Inr callT_Inr wrapped_Inr not_less)
  from appended_audit [OF laws run(4,5)] obtain t where "db2 = db1\<lparr>t_audit := t\<rparr>" "audited m spec ''success'' (t_audit db1) t" by blast
  with run show ?thesis by (intro that [of result db1 t v]) simp_all
qed

lemma failure_transaction_InrD:
  assumes laws: "database_laws D" and event: "newManagementAudit m spec ''failure'' ec now md drawn = Inr event"
    and ok: "failure_transaction reserved status response ec event now D db = Inr (u, db')"
  obtains t v where "audited m spec ''failure'' (t_audit db) t"
    "CompleteIdempotency D ((complete_record reserved status response now)\<lparr>id_ErrorCode := ec\<rparr>) (db\<lparr>t_audit := t\<rparr>) = (Inr v, db')"
  using ok appended_audit [OF laws event] unfolding failure_transaction_def by (fastforce simp: tx_Inr callT_Inr)

lemma finalize_cases:
  assumes laws: "lawful (ce_env K)" and run: "finalizeManagementMutationFailure K m spec reserved err now s = (r, s')"
  obtains (failed) D status response ec t v where "r = Inr (writeManagementBytes status response)" "400 \<le> status" "database_laws D"
      "audited m spec ''failure'' (t_audit (gs_db s)) t"
      "CompleteIdempotency D ((complete_record reserved status response now)\<lparr>id_ErrorCode := ec\<rparr>) (gs_db s\<lparr>t_audit := t\<rparr>) = (Inr v, gs_db s')"
    | (lost) reply where "r = Inl reply" "refusal reply" "gs_db s' = gs_db s"
proof -
  obtain status payload ec where p: "managementErrorPayload K err = (status, payload, ec)" by (cases "managementErrorPayload K err")
  have status: "400 \<le> status"
    using p by (auto simp: managementErrorPayload_def error_status_refuses split: option.splits)
  obtain drawn s1 where draw: "newID_from s = (drawn, s1)" by (cases "newID_from s")
  note same = newID_db [OF draw]
  define md where "md = mergeAuditMetadata [sp_BaseAuditMetadata spec, [(''httpStatus'', decimal status), (''requestOutcome'', ''failed'')]]"
  show ?thesis
  proof (cases "ce_marshal K payload")
    case (Inl e)
    with run p show ?thesis by (intro lost) (auto simp: finalizeManagementMutationFailure_def writeManagementError_def failG_def)
  next
    case marshalled: (Inr response)
    show ?thesis
    proof (cases "newManagementAudit m spec ''failure'' ec now md drawn")
      case (Inl e)
      with run p marshalled draw same show ?thesis
        by (intro lost) (auto simp: finalizeManagementMutationFailure_def writeManagementError_def failG_def md_def)
    next
      case (Inr event)
      define D where "D = ge_drivers (ce_env K) (gs_calls s1) 0"
      have D: "database_laws D" using laws by (simp add: lawful_def D_def)
      obtain r0 db' where tx: "run_tx D (failure_transaction reserved status response ec event now D) (gs_db s1) = (r0, db')"
        by (cases "run_tx D (failure_transaction reserved status response ec event now D) (gs_db s1)")
      with run p marshalled draw Inr have out: "r = (case r0 of Inl e \<Rightarrow> Inl (managementError K e) | Inr u \<Rightarrow> Inr (writeManagementBytes status response))"
          "gs_db s' = db'"
        by (auto simp: finalizeManagementMutationFailure_def md_def bindG_cases storeK_cases D_def returnG_def split: sum.splits)
      show ?thesis
      proof (cases r0)
        case (Inl e)
        with out tx same show ?thesis by (intro lost) (auto dest: run_tx_error)
      next
        case r0: (Inr u)
        from failure_transaction_InrD [OF D Inr run_tx_success [OF tx [unfolded r0]]] obtain t v where
          "audited m spec ''failure'' (t_audit (gs_db s1)) t"
          "CompleteIdempotency D ((complete_record reserved status response now)\<lparr>id_ErrorCode := ec\<rparr>) (gs_db s1\<lparr>t_audit := t\<rparr>) = (Inr v, db')" .
        with out r0 D same status show ?thesis by (intro failed) simp_all
      qed
    qed
  qed
qed

lemma commit_cases:
  assumes laws: "lawful (ce_env K)" and run: "commitManagementMutation K m spec reserved now s = (r, s')"
  obtains (succeeded) D status response result db1 t v where "r = Inr (writeManagementBytes status response)" "200 \<le> status" "status \<le> 299"
      "database_laws D" "sp_Execute spec D now (gs_db s) = Inr (result, db1)" "audited m spec ''success'' (t_audit db1) t"
      "CompleteIdempotency D (complete_record reserved status response now) (db1\<lparr>t_audit := t\<rparr>) = (Inr v, gs_db s')"
    | (failed) D status response ec t v where "r = Inr (writeManagementBytes status response)" "400 \<le> status" "database_laws D"
      "audited m spec ''failure'' (t_audit (gs_db s)) t"
      "CompleteIdempotency D ((complete_record reserved status response now)\<lparr>id_ErrorCode := ec\<rparr>) (gs_db s\<lparr>t_audit := t\<rparr>) = (Inr v, gs_db s')"
    | (lost) reply where "r = Inl reply" "refusal reply" "gs_db s' = gs_db s"
proof -
  define D where "D = ge_drivers (ce_env K) (gs_calls s) 0"
  have D: "database_laws D" using laws by (simp add: lawful_def D_def)
  obtain drawn s1 where draw: "newID_from s = (drawn, s1)" by (cases "newID_from s")
  obtain r0 db' where tx: "run_tx D (mutation_transaction K m spec reserved now drawn D) (gs_db s) = (r0, db')"
    by (cases "run_tx D (mutation_transaction K m spec reserved now drawn D) (gs_db s)")
  define s2 where "s2 = (case mutation_effect K spec D now (gs_db s) of Inl e \<Rightarrow> s | Inr v \<Rightarrow> s1)\<lparr>gs_db := db', gs_calls := Suc (gs_calls s)\<rparr>"
  have s2 [simp]: "gs_db s2 = db'" by (simp add: s2_def)
  have flow: "(case sp_Execute spec D now (gs_db s) of
           Inl mutationErr \<Rightarrow> finalizeManagementMutationFailure K m spec reserved mutationErr now s2
         | Inr w \<Rightarrow> (case r0 of
             Inl e \<Rightarrow> writeManagementError K e s2
           | Inr (status, responseJSON) \<Rightarrow> returnG (writeManagementBytes status responseJSON) s2)) = (r, s')"
    using run draw tx unfolding s2_def by (simp add: commitManagementMutation_def D_def [symmetric] Let_def)
  show ?thesis
  proof (cases "sp_Execute spec D now (gs_db s)")
    case (Inl e)
    then have "r0 = Inl e \<and> db' = gs_db s"
      using tx by (simp add: run_tx_def mutation_transaction_def mutation_effect_def bindT_def)
    with flow Inl have fin: "finalizeManagementMutationFailure K m spec reserved e now s2 = (r, s')" "gs_db s2 = gs_db s" by simp_all
    from laws fin(1) show ?thesis
    proof (cases rule: finalize_cases)
      case (failed D status response ec t v)
      with fin(2) show ?thesis by (intro that(2)) simp_all
    next
      case (lost reply)
      with fin(2) show ?thesis by (intro that(3)) simp_all
    qed
  next
    case executed: (Inr w)
    show ?thesis
    proof (cases r0)
      case (Inl e)
      with flow executed run_tx_error [OF tx [unfolded Inl]] s2 show ?thesis by (intro lost) (auto simp: writeManagementError_def failG_def)
    next
      case (Inr out)
      obtain status response where out: "out = (status, response)" by (cases out)
      from D run_tx_success [OF tx [unfolded Inr out]] obtain result db1 t v where
        "sp_Execute spec D now (gs_db s) = Inr (result, db1)" "200 \<le> status" "status \<le> 299" "audited m spec ''success'' (t_audit db1) t"
        "CompleteIdempotency D (complete_record reserved status response now) (db1\<lparr>t_audit := t\<rparr>) = (Inr v, db')"
        by (rule mutation_transaction_InrD)
      with flow executed Inr out D s2 show ?thesis by (intro succeeded) (auto simp: returnG_def)
    qed
  qed
qed

text \<open>Who asks for what under which key: the scope of an idempotency record.\<close>

definition mutation_key :: "managementContext \<Rightarrow> string \<Rightarrow> string \<Rightarrow> idempotencyRow \<Rightarrow> bool" where
  "mutation_key m operation key r \<longleftrightarrow> iw_OwnerUserID r = TrimSpace (mx_owner m) \<and> iw_TenantID r = TrimSpace (mx_tenant m) \<and>
     iw_ActorID r = TrimSpace (mx_owner m) \<and> iw_Operation r = operation \<and> iw_Key r = key"

lemma mutation_record_key [simp]:
  "idempotency_key (mutation_record m spec key i now) = mutation_key m (sp_Operation spec) key"
  "idempotency_key (rec\<lparr>id_ErrorCode := ec\<rparr>) = idempotency_key rec"
  by (auto simp: mutation_record_def mutation_key_def idempotency_key_def fun_eq_iff)

lemma ReserveIdempotency_acquired:
  "ReserveIdempotency D rec db = (Inr v, db') \<Longrightarrow> rv_Outcome v = IdempotencyAcquired \<Longrightarrow> rv_Record v = rec"
  unfolding ReserveIdempotency_def by (drule run_tx_success) (auto simp: tx_Inr split: if_splits)

text \<open>The requests that reach the store, and what the reservation says.\<close>

definition reserve_flow :: "console_env \<Rightarrow> managementContext \<Rightarrow> managementMutationSpec \<Rightarrow> time \<Rightarrow> IdempotencyReservation \<Rightarrow> console_reply console" where
  "reserve_flow K m spec now reservation = (case rv_Outcome reservation of
      IdempotencyReplay \<Rightarrow> returnG ((writeManagementBytes (id_HTTPStatus (rv_Record reservation)) (id_ResponseJSON (rv_Record reservation)))
        \<lparr>kr_Replayed := True\<rparr>)
    | IdempotencyInProgress \<Rightarrow> refuse 409 ''HARNESS_IDEMPOTENCY_IN_PROGRESS'' ''another request with this Idempotency-Key is still in progress''
    | IdempotencyAcquired \<Rightarrow> commitManagementMutation K m spec (rv_Record reservation) now)"

lemma execute_reserves:
  assumes run: "executeManagementMutation K request m spec s = (r, s')" and key: "key = header_get (kq_http request) ''Idempotency-Key''"
  obtains (refused) reply where "r = Inl reply" "refusal reply" "gs_db s' = gs_db s"
    | (reserved) D i now v s1 where "D = ge_drivers (ce_env K) (gs_calls s) 0"
      "ReserveIdempotency D (mutation_record m spec key i now) (gs_db s) = (Inr v, gs_db s1)" "reserve_flow K m spec now v s1 = (r, s')"
proof (cases "sp_Operation spec = [] \<or> sp_ObjectType spec = [] \<or> sp_ObjectID spec = [] \<or> TrimSpace key \<noteq> key \<or> ValidateIdempotencyKey key \<noteq> None")
  case True
  with run key have "\<exists>reply. r = Inl reply \<and> refusal reply \<and> s' = s"
    by (auto simp: executeManagementMutation_def writeManagementError_def failG_def Let_def split: if_splits option.splits)
  then show ?thesis using refused by blast
next
  case False
  define now where "now = ce_clock K 0"
  obtain r1 s0 where draw: "serviceK K newID_from s = (r1, s0)" by (cases "serviceK K newID_from s")
  note same = serviceK_newID [OF draw]
  have flow: "bindG (serviceK K newID_from) (\<lambda>recordID.
      bindG (storeK K (\<lambda>D. ReserveIdempotency D (mutation_record m spec key recordID now))) (reserve_flow K m spec now)) s = (r, s')"
    using False run key by (simp add: executeManagementMutation_def now_def Let_def reserve_flow_def [abs_def])
  show ?thesis
  proof (cases r1)
    case (Inl reply)
    with flow draw same show ?thesis by (intro refused [of reply]) (auto simp: bindG_def)
  next
    case (Inr i)
    obtain r0 db' where call: "ReserveIdempotency (ge_drivers (ce_env K) (gs_calls s) 0) (mutation_record m spec key i now) (gs_db s) = (r0, db')"
      by (cases "ReserveIdempotency (ge_drivers (ce_env K) (gs_calls s) 0) (mutation_record m spec key i now) (gs_db s)")
    define s1 where "s1 = s0\<lparr>gs_db := db', gs_calls := Suc (gs_calls s0)\<rparr>"
    have "storeK K (\<lambda>D. ReserveIdempotency D (mutation_record m spec key i now)) s0 = (map_sum (managementError K) id r0, s1)"
      using call same by (simp add: storeK_cases s1_def)
    with flow draw Inr have rest: "(case map_sum (managementError K) id r0 of Inl e \<Rightarrow> (Inl e, s1) | Inr v \<Rightarrow> reserve_flow K m spec now v s1) = (r, s')"
      by (simp add: bindG_def)
    show ?thesis
    proof (cases r0)
      case (Inl e)
      with rest call show ?thesis by (intro refused) (auto simp: s1_def dest: session_errors(6))
    next
      case (Inr v)
      with rest call show ?thesis by (intro reserved [OF refl, of i now v s1]) (auto simp: s1_def)
    qed
  qed
qed

context console_mutation
begin

lemma commit_moves:
  assumes laws: "lawful (ce_env K)" and spec: "sp_Execute spec = execute"
    and run: "commitManagementMutation K m spec reserved now s = (r, s')"
  shows "idempotency_change\<^sup>*\<^sup>* (t_idempotency (gs_db s)) (t_idempotency (gs_db s'))"
  using laws run
proof (cases rule: commit_cases)
  case (succeeded D status response result db1 t v)
  have "t_idempotency db1 = t_idempotency (gs_db s)"
    using keeps_idempotency succeeded(5) unfolding spec untouched_def by blast
  with CompleteIdempotency_change [OF succeeded(4,7)] show ?thesis by auto
next
  case (failed D status response ec t v)
  from CompleteIdempotency_change [OF failed(3,5)] show ?thesis by auto
qed simp

lemma commit_records:
  assumes laws: "lawful (ce_env K)" and spec: "sp_Execute spec = execute" and keys: "idempotency_keys (t_idempotency (gs_db s))"
    and run: "commitManagementMutation K m spec reserved now s = (Inr reply, s')"
  shows "\<exists>response. kr_Body reply = DataBody response \<and> finished reserved response (t_idempotency (gs_db s'))"
  using laws run
proof (cases rule: commit_cases)
  case (succeeded D status response result db1 t v)
  have "t_idempotency db1 = t_idempotency (gs_db s)"
    using keeps_idempotency succeeded(5) unfolding spec untouched_def by blast
  with CompleteIdempotency_finished [OF succeeded(4) _ succeeded(7)] succeeded(1) keys show ?thesis
    by (auto simp: writeManagementBytes_def finished_def)
next
  case (failed D status response ec t v)
  from CompleteIdempotency_finished [OF failed(3) _ failed(5)] failed(1) keys show ?thesis
    by (auto simp: writeManagementBytes_def finished_def)
qed simp

lemma commit_audits:
  assumes laws: "lawful (ce_env K)" and spec: "sp_Execute spec = execute"
    and run: "commitManagementMutation K m spec reserved now s = (r, s')"
  shows "gs_db s' = gs_db s \<or> (\<exists>reply. r = Inr reply \<and>
    (audited m spec ''success'' (t_audit (gs_db s)) (t_audit (gs_db s')) \<and> kr_Status reply \<in> {200..299} \<or>
     audited m spec ''failure'' (t_audit (gs_db s)) (t_audit (gs_db s')) \<and> kr_Status reply \<ge> 400 \<and>
       (\<exists>t a. gs_db s' = gs_db s\<lparr>t_audit := a, t_idempotency := t\<rparr>)))"
  using laws run
proof (cases rule: commit_cases)
  case (succeeded D status response result db1 t v)
  have "t_audit db1 = t_audit (gs_db s)"
    using keeps_audit succeeded(5) unfolding spec untouched_def by blast
  moreover have "t_audit (gs_db s') = t"
    using CompleteIdempotency_change [OF succeeded(4,7)] by auto
  ultimately show ?thesis using succeeded by (auto simp: writeManagementBytes_def)
next
  case (failed D status response ec t v)
  have "\<exists>i. gs_db s' = gs_db s\<lparr>t_audit := t, t_idempotency := i\<rparr>"
    using CompleteIdempotency_change [OF failed(3,5)]
    by (elim disjE exE) (rule exI [of _ "t_idempotency (gs_db s)"], simp, blast)
  then have "t_audit (gs_db s') = t" "\<exists>i a. gs_db s' = gs_db s\<lparr>t_audit := a, t_idempotency := i\<rparr>" by auto
  with failed show ?thesis by (simp add: writeManagementBytes_def)
qed simp

text \<open>The whole request: the reservation, and the transaction if the key is new.\<close>

lemma request_moves:
  assumes laws: "lawful (ce_env K)" and spec: "sp_Execute spec = execute"
    and run: "executeManagementMutation K request m spec s = (r, s')"
  shows "idempotency_change\<^sup>*\<^sup>* (t_idempotency (gs_db s)) (t_idempotency (gs_db s'))"
  using run refl
proof (cases rule: execute_reserves)
  case (reserved D i now v s1)
  have D: "database_laws D" using laws by (simp add: lawful_def reserved(1))
  have first: "idempotency_change\<^sup>*\<^sup>* (t_idempotency (gs_db s)) (t_idempotency (gs_db s1))"
    using ReserveIdempotency_change [OF D reserved(2)] by auto
  show ?thesis
  proof (cases "rv_Outcome v")
    case IdempotencyAcquired
    with reserved(3) have "commitManagementMutation K m spec (rv_Record v) now s1 = (r, s')" by (simp add: reserve_flow_def)
    with commit_moves [OF laws spec] first show ?thesis by (meson rtranclp_trans)
  qed (use reserved(3) first in \<open>auto simp: reserve_flow_def refuse_def failG_def returnG_def\<close>)
qed simp

lemma request_records:
  assumes laws: "lawful (ce_env K)" and spec: "sp_Execute spec = execute" and keys: "idempotency_keys (t_idempotency (gs_db s))"
    and run: "executeManagementMutation K request m spec s = (Inr reply, s')"
  shows "\<exists>rec response. kr_Body reply = DataBody response \<and> finished rec response (t_idempotency (gs_db s')) \<and>
    idempotency_key rec = mutation_key m (sp_Operation spec) (header_get (kq_http request) ''Idempotency-Key'')"
  using run refl
proof (cases rule: execute_reserves)
  case (reserved D i now v s1)
  have D: "database_laws D" using laws by (simp add: lawful_def reserved(1))
  show ?thesis
  proof (cases "rv_Outcome v")
    case IdempotencyAcquired
    with reserved(2,3) have run': "commitManagementMutation K m spec (rv_Record v) now s1 = (Inr reply, s')"
        and rec: "rv_Record v = mutation_record m spec (header_get (kq_http request) ''Idempotency-Key'') i now"
      by (simp_all add: reserve_flow_def ReserveIdempotency_acquired)
    have "idempotency_keys (t_idempotency (gs_db s1))"
      using ReserveIdempotency_change [OF D reserved(2)] keys by (auto dest: idempotency_change_keys)
    from commit_records [OF laws spec this run'] show ?thesis unfolding rec by (metis mutation_record_key(1))
  next
    case IdempotencyReplay
    with reserved(3) ReserveIdempotency_finished [OF D reserved(2)] show ?thesis
      by (auto simp: reserve_flow_def returnG_def writeManagementBytes_def intro!: exI)
  qed (use reserved(3) in \<open>simp add: reserve_flow_def refuse_def failG_def\<close>)
qed simp

lemma request_repeats:
  assumes laws: "lawful (ce_env K)" and keys: "idempotency_keys (t_idempotency (gs_db s))"
    and fin: "finished rec response (t_idempotency (gs_db s))"
    and same: "idempotency_key rec = mutation_key m (sp_Operation spec) (header_get (kq_http request) ''Idempotency-Key'')"
    and run: "executeManagementMutation K request m spec s = (r, s')"
  shows "gs_db s' = gs_db s \<and> (case r of Inl reply \<Rightarrow> refusal reply | Inr reply \<Rightarrow> kr_Body reply = DataBody response \<and> kr_Replayed reply)"
  using run refl
proof (cases rule: execute_reserves)
  case (reserved D i now v s1)
  have D: "database_laws D" using laws by (simp add: lawful_def reserved(1))
  from reserve_after_finished [OF D keys fin _ reserved(2)] same
  have "rv_Outcome v = IdempotencyReplay" "id_ResponseJSON (rv_Record v) = response" "gs_db s1 = gs_db s" by simp_all
  with reserved(3) show ?thesis by (auto simp: reserve_flow_def returnG_def writeManagementBytes_def)
qed simp

lemma request_audits:
  assumes laws: "lawful (ce_env K)" and spec: "sp_Execute spec = execute"
    and run: "executeManagementMutation K request m spec s = (r, s')"
  shows "(\<exists>t. gs_db s' = gs_db s\<lparr>t_idempotency := t\<rparr>) \<or> (\<exists>reply. r = Inr reply \<and>
    (audited m spec ''success'' (t_audit (gs_db s)) (t_audit (gs_db s')) \<and> kr_Status reply \<in> {200..299} \<or>
     audited m spec ''failure'' (t_audit (gs_db s)) (t_audit (gs_db s')) \<and> kr_Status reply \<ge> 400 \<and>
       (\<exists>t a. gs_db s' = gs_db s\<lparr>t_audit := a, t_idempotency := t\<rparr>)))"
  using run refl
proof (cases rule: execute_reserves)
  case (refused reply)
  then show ?thesis by (intro disjI1 exI [of _ "t_idempotency (gs_db s)"]) simp
next
  case (reserved D i now v s1)
  have D: "database_laws D" using laws by (simp add: lawful_def reserved(1))
  obtain t where t: "gs_db s1 = gs_db s\<lparr>t_idempotency := t\<rparr>"
    using ReserveIdempotency_change [OF D reserved(2)] by (metis db.surjective db.update_convs(10))
  show ?thesis
  proof (cases "rv_Outcome v")
    case IdempotencyAcquired
    with reserved(3) have run': "commitManagementMutation K m spec (rv_Record v) now s1 = (r, s')" by (simp add: reserve_flow_def)
    from commit_audits [OF laws spec run'] t show ?thesis by auto
  qed (use reserved(3) t in \<open>auto simp: reserve_flow_def refuse_def failG_def returnG_def\<close>)
qed

end

end
