(* ===== verification/Spec2Isabelle.thy ===== *)
theory Spec2Isabelle
  imports Domain_Records Store_Delivery Store_Session_Safety Store_Refresh Store_Key_Exchange Store_Outbox
    Transcript_Safety Connection_Threads Connection_Fencing Dpop_Verifier Handshake_Safety Management_Safety
begin

text \<open>
  The Harness platform.
\<close>

end
